(* ===== verification/Prelude.thy ===== *)
theory Prelude
  imports Main "HOL-Library.Word" "HOL-Library.List_Lexorder" "HOL-Library.Char_ord"
    "HOL-Library.AList" "HOL-Library.Sublist"
begin

text \<open>
  What every component of the model shares: operations that read and write a state and may
  fail (Go functions returning \<open>(T, error)\<close>), the two-state guarantees such operations
  compose with, tables and their ordering, Go's 64-bit integers, decimal rendering and the
  few string functions of the Go standard library the program uses.
\<close>

named_theorems op_simps \<open>unfolding of the operation combinators\<close>
named_theorems guar \<open>guarantees of the operations\<close>

section \<open>Errors and operations\<close>

text \<open>
  The sentinel errors of \<open>internal/domain\<close>; \<open>ErrMsg\<close> is an error made by
  \<open>fmt.Errorf\<close> without \<open>%w\<close>, \<open>Wrapped\<close> one with it; \<open>ErrDB\<close> is any failure reported by
  the database driver and \<open>ErrNoRows\<close> its \<open>pgx.ErrNoRows\<close>. \<open>GoPanic\<close> is not an error value of the
  code: it marks the runs that end in a run-time panic.
\<close>

datatype error =
    ErrNoRows
  | ErrDB
  | ErrRedis
  | ErrJobNotFound
  | ErrDeploymentNotFound
  | ErrApplicationNotFound
  | ErrServerNotFound
  | ErrUserNotFound
  | ErrRoleNotFound
  | ErrSettingNotFound
  | ErrMetricsNotFound
  | ErrEmailAlreadyExists
  | ErrInvalidCredentials
  | ErrInvalidCurrentPassword
  | ErrUnauthorized
  | ErrYouDontHavePermission
  | ErrCrypto
  | ErrMsg string
  | GoPanic string
  | Wrapped string error

fun errors_Is :: "error \<Rightarrow> error \<Rightarrow> bool" where
  "errors_Is (Wrapped m e) t = (Wrapped m e = t \<or> errors_Is e t)"
| "errors_Is e t = (e = t)"

type_synonym ('s, 'a) op = "'s \<Rightarrow> (error + 'a) \<times> 's"

definition returnE :: "'a \<Rightarrow> ('s, 'a) op" where
  "returnE x = (\<lambda>w. (Inr x, w))"

definition failE :: "error \<Rightarrow> ('s, 'a) op" where
  "failE e = (\<lambda>w. (Inl e, w))"

definition bindE :: "('s, 'a) op \<Rightarrow> ('a \<Rightarrow> ('s, 'b) op) \<Rightarrow> ('s, 'b) op" where
  "bindE m f = (\<lambda>w. case m w of (Inl e, w') \<Rightarrow> (Inl e, w') | (Inr x, w') \<Rightarrow> f x w')"

text \<open>\<open>_ = f()\<close>: the error is dropped, the effect stays.\<close>

definition ignoreE :: "('s, 'a) op \<Rightarrow> ('s, unit) op" where
  "ignoreE m = (\<lambda>w. (Inr (), snd (m w)))"

text \<open>\<open>if x, err := f(); err != nil { handler }\<close>.\<close>

definition catchE :: "('s, 'a) op \<Rightarrow> (error \<Rightarrow> ('s, 'a) op) \<Rightarrow> ('s, 'a) op" where
  "catchE m h = (\<lambda>w. case m w of (Inl e, w') \<Rightarrow> h e w' | (Inr x, w') \<Rightarrow> (Inr x, w'))"

definition wrapE :: "string \<Rightarrow> ('s, 'a) op \<Rightarrow> ('s, 'a) op" where
  "wrapE msg m = catchE m (\<lambda>e. failE (Wrapped msg e))"

definition getsE :: "('s \<Rightarrow> 'a) \<Rightarrow> ('s, 'a) op" where
  "getsE f = (\<lambda>w. (Inr (f w), w))"

definition modifyE :: "('s \<Rightarrow> 's) \<Rightarrow> ('s, unit) op" where
  "modifyE f = (\<lambda>w. (Inr (), f w))"

fun forE :: "'a list \<Rightarrow> ('a \<Rightarrow> ('s, unit) op) \<Rightarrow> ('s, unit) op" where
  "forE [] body = returnE ()"
| "forE (x # xs) body = bindE (body x) (\<lambda>_. forE xs body)"

lemma returnE_apply [simp, op_simps]: "returnE x w = (Inr x, w)"
  by (simp add: returnE_def)

lemma failE_apply [simp, op_simps]: "failE e w = (Inl e, w)"
  by (simp add: failE_def)

lemma getsE_apply [simp, op_simps]: "getsE f w = (Inr (f w), w)"
  by (simp add: getsE_def)

lemma modifyE_apply [simp, op_simps]: "modifyE f w = (Inr (), f w)"
  by (simp add: modifyE_def)

lemma bindE_Inl: "m w = (Inl e, w') \<Longrightarrow> bindE m f w = (Inl e, w')"
  by (simp add: bindE_def)

lemma bindE_Inr: "m w = (Inr x, w') \<Longrightarrow> bindE m f w = f x w'"
  by (simp add: bindE_def)

lemma bindE_returnE [simp]: "bindE (returnE x) f = f x"
  by (simp add: bindE_def returnE_def)

lemma bindE_failE [simp]: "bindE (failE e) f = failE e"
  by (simp add: bindE_def failE_def)

lemma bindE_assoc: "bindE (bindE m f) g = bindE m (\<lambda>x. bindE (f x) g)"
  by (auto simp: bindE_def fun_eq_iff split: prod.splits sum.splits)

lemma bindE_Inr_iff:
  "bindE m f w = (Inr y, w') \<longleftrightarrow> (\<exists>x u. m w = (Inr x, u) \<and> f x u = (Inr y, w'))"
  by (auto simp: bindE_def split: prod.splits sum.splits)

section \<open>Two-state guarantees\<close>

text \<open>
  \<open>guarantees R m\<close>: however \<open>m\<close> ends, the state it leaves is related by \<open>R\<close> to the state it
  was called in. An invariant \<open>I\<close> is the guarantee \<open>I w \<longrightarrow> I w'\<close>. A relation that is reflexive
  and transitive is inherited by every combination of operations; the locale proves so once
  and is interpreted for each relation the components need.
\<close>

definition guarantees :: "('s \<Rightarrow> 's \<Rightarrow> bool) \<Rightarrow> ('s, 'a) op \<Rightarrow> bool" where
  "guarantees R m \<longleftrightarrow> (\<forall>w. R w (snd (m w)))"

lemma guaranteesD: "guarantees R m \<Longrightarrow> m w = (r, w') \<Longrightarrow> R w w'"
  by (metis guarantees_def snd_conv)

lemma guaranteesI: "(\<And>w. R w (snd (m w))) \<Longrightarrow> guarantees R m"
  by (simp add: guarantees_def)

locale guarantee =
  fixes R :: "'s \<Rightarrow> 's \<Rightarrow> bool"
  assumes refl: "R w w"
    and trans: "R a b \<Longrightarrow> R b c \<Longrightarrow> R a c"
begin

lemma g_return: "guarantees R (returnE x)"
  by (simp add: guarantees_def refl)

lemma g_fail: "guarantees R (failE e)"
  by (simp add: guarantees_def refl)

lemma g_gets: "guarantees R (getsE f)"
  by (simp add: guarantees_def refl)

lemma g_bind:
  assumes "guarantees R m" and "\<And>x. guarantees R (f x)"
  shows "guarantees R (bindE m f)"
  using assms trans
  by (auto simp: guarantees_def bindE_def split: prod.splits sum.splits) (metis snd_conv)+

lemma g_catch:
  assumes "guarantees R m" and "\<And>e. guarantees R (h e)"
  shows "guarantees R (catchE m h)"
  using assms trans
  by (auto simp: guarantees_def catchE_def split: prod.splits sum.splits) (metis snd_conv)+

lemma g_wrap: "guarantees R m \<Longrightarrow> guarantees R (wrapE msg m)"
  unfolding wrapE_def by (intro g_catch g_fail)

lemma g_ignore: "guarantees R m \<Longrightarrow> guarantees R (ignoreE m)"
  by (simp add: guarantees_def ignoreE_def)

lemma g_for: "(\<And>x. guarantees R (body x)) \<Longrightarrow> guarantees R (forE xs body)"
  by (induction xs) (auto intro: g_return g_bind)

lemma g_if: "(b \<Longrightarrow> guarantees R m) \<Longrightarrow> (\<not> b \<Longrightarrow> guarantees R n) \<Longrightarrow>
    guarantees R (if b then m else n)"
  by simp

lemma g_option: "(x = None \<Longrightarrow> guarantees R m) \<Longrightarrow> (\<And>y. x = Some y \<Longrightarrow> guarantees R (f y)) \<Longrightarrow>
    guarantees R (case x of None \<Rightarrow> m | Some y \<Rightarrow> f y)"
  by (cases x) auto

lemma g_foldl: "(\<And>h u. h \<in> set hs \<Longrightarrow> R u (f u h)) \<Longrightarrow> R w (foldl f w hs)"
proof (induction hs arbitrary: w)
  case Nil
  then show ?case by (simp add: refl)
next
  case (Cons h hs)
  have "R w (f w h)" by (simp add: Cons.prems)
  moreover have "R (f w h) (foldl f (f w h) hs)"
    by (rule Cons.IH) (simp add: Cons.prems)
  ultimately show ?case by (auto intro: trans)
qed

lemmas g_rules = g_return g_fail g_gets g_bind g_catch g_wrap g_ignore g_for g_if g_option

end

text \<open>Every invariant is such a relation.\<close>

definition keeps :: "('s \<Rightarrow> bool) \<Rightarrow> 's \<Rightarrow> 's \<Rightarrow> bool" where
  "keeps I w w' \<longleftrightarrow> (I w \<longrightarrow> I w')"

interpretation keep: guarantee "keeps I" for I
  by unfold_locales (auto simp: keeps_def)

section \<open>Tables\<close>

text \<open>
  A database table is the list of its rows in insertion order. \<open>order_by le\<close> is
  \<open>ORDER BY\<close>: an insertion sort by a comparison, so rows that compare equal keep their table
  order, one of the orders the database may return them in.
\<close>

fun insert_by :: "('a \<Rightarrow> 'a \<Rightarrow> bool) \<Rightarrow> 'a \<Rightarrow> 'a list \<Rightarrow> 'a list" where
  "insert_by le x [] = [x]"
| "insert_by le x (y # ys) = (if le x y then x # y # ys else y # insert_by le x ys)"

definition order_by :: "('a \<Rightarrow> 'a \<Rightarrow> bool) \<Rightarrow> 'a list \<Rightarrow> 'a list" where
  "order_by le xs = foldr (insert_by le) xs []"

lemma set_insert_by [simp]: "set (insert_by le x xs) = insert x (set xs)"
  by (induction xs) auto

lemma length_insert_by [simp]: "length (insert_by le x xs) = Suc (length xs)"
  by (induction xs) auto

lemma order_by_Nil [simp]: "order_by le [] = []"
  by (simp add: order_by_def)

lemma order_by_Cons: "order_by le (x # xs) = insert_by le x (order_by le xs)"
  by (simp add: order_by_def)

lemma set_order_by [simp]: "set (order_by le xs) = set xs"
  by (induction xs) (auto simp: order_by_Cons)

lemma length_order_by [simp]: "length (order_by le xs) = length xs"
  by (induction xs) (auto simp: order_by_Cons)

lemma distinct_insert_by: "distinct (insert_by le x xs) \<longleftrightarrow> x \<notin> set xs \<and> distinct xs"
  by (induction xs) auto

lemma distinct_order_by [simp]: "distinct (order_by le xs) = distinct xs"
  by (induction xs) (auto simp: order_by_Cons distinct_insert_by)

lemma order_by_eq_Nil [simp]: "order_by le xs = [] \<longleftrightarrow> xs = []"
  by (metis length_0_conv length_order_by)

lemma sorted_insert_by:
  assumes "\<And>a b. le a b \<or> le b a" and "\<And>a b c. le a b \<Longrightarrow> le b c \<Longrightarrow> le a c"
  shows "sorted_wrt le xs \<Longrightarrow> sorted_wrt le (insert_by le x xs)"
  by (induction xs) (auto dest: assms(2) intro: assms(2), metis assms(1))

lemma sorted_order_by:
  assumes "\<And>a b. le a b \<or> le b a" and "\<And>a b c. le a b \<Longrightarrow> le b c \<Longrightarrow> le a c"
  shows "sorted_wrt le (order_by le xs)"
  by (induction xs) (auto simp: order_by_Cons intro: sorted_insert_by [OF assms])

text \<open>\<open>UPDATE ... SET ... WHERE p\<close>.\<close>

definition update_where :: "('a \<Rightarrow> bool) \<Rightarrow> ('a \<Rightarrow> 'a) \<Rightarrow> 'a list \<Rightarrow> 'a list" where
  "update_where p f xs = map (\<lambda>x. if p x then f x else x) xs"

lemma length_update_where [simp]: "length (update_where p f xs) = length xs"
  by (simp add: update_where_def)

lemma map_update_where:
  "(\<And>x. p x \<Longrightarrow> g (f x) = g x) \<Longrightarrow> map g (update_where p f xs) = map g xs"
  by (simp add: update_where_def)

lemma set_update_where:
  "set (update_where p f xs) = (\<lambda>x. if p x then f x else x) ` set xs"
  by (simp add: update_where_def)

lemma ball_update_where:
  "(\<forall>x\<in>set (update_where p f xs). P x) \<longleftrightarrow> (\<forall>x\<in>set xs. P (if p x then f x else x))"
  unfolding update_where_def set_map by blast

lemma find_update_where_key:
  assumes "\<And>x. k (f x) = k x"
  shows "find (\<lambda>x. k x = i) (update_where p f xs) =
    map_option (\<lambda>x. if p x then f x else x) (find (\<lambda>x. k x = i) xs)"
  by (induction xs) (auto simp: update_where_def assms)

lemma find_Some_set: "find p xs = Some x \<Longrightarrow> x \<in> set xs \<and> p x"
  by (induction xs) (auto split: if_splits)

lemma find_None_set: "find p xs = None \<longleftrightarrow> (\<forall>x\<in>set xs. \<not> p x)"
  by (induction xs) auto

lemma find_append: "find p (xs @ ys) = (case find p xs of None \<Rightarrow> find p ys | Some x \<Rightarrow> Some x)"
  by (induction xs) auto

lemma filter_distinct_key:
  "x \<in> set xs \<Longrightarrow> distinct (map k xs) \<Longrightarrow> filter (\<lambda>y. k y = k x) xs = [x]"
proof (induction xs)
  case (Cons y ys)
  have "filter (\<lambda>z. k z = k y) ys = []" using Cons.prems(2) by (auto simp: filter_empty_conv image_iff)
  with Cons show ?case by (auto simp: image_iff)
qed simp

lemma find_distinct_key:
  "distinct (map k xs) \<Longrightarrow> x \<in> set xs \<Longrightarrow> find (\<lambda>y. k y = k x) xs = Some x"
  by (induction xs) (auto simp: image_iff)

section \<open>Go integers\<close>

text \<open>Signed 64-bit wrap-around of Go's \<open>int\<close> and \<open>int64\<close>, written out on \<open>int\<close>.\<close>

definition wrap64 :: "int \<Rightarrow> int" where
  "wrap64 x = (x + 2 ^ 63) mod 2 ^ 64 - 2 ^ 63"

lemma wrap64_range: "- (2 ^ 63) \<le> wrap64 x \<and> wrap64 x < 2 ^ 63"
proof -
  have "0 \<le> (x + 2 ^ 63) mod 2 ^ 64" and "(x + 2 ^ 63) mod 2 ^ 64 < (2 ^ 64 :: int)"
    by (rule pos_mod_sign, simp) (rule pos_mod_bound, simp)
  then show ?thesis by (simp add: wrap64_def)
qed

lemma wrap64_id: "- (2 ^ 63) \<le> x \<Longrightarrow> x < 2 ^ 63 \<Longrightarrow> wrap64 x = x"
  by (simp add: wrap64_def)

text \<open>Go's \<open>/\<close> and \<open>%\<close> truncate towards zero.\<close>

definition go_div :: "int \<Rightarrow> int \<Rightarrow> int" where
  "go_div a b = sgn a * sgn b * (\<bar>a\<bar> div \<bar>b\<bar>)"

definition go_mod :: "int \<Rightarrow> int \<Rightarrow> int" where
  "go_mod a b = a - b * go_div a b"

lemma go_div_nonneg: "0 \<le> a \<Longrightarrow> 0 < b \<Longrightarrow> go_div a b = a div b"
  by (cases "a = 0") (simp_all add: go_div_def)

lemma go_mod_nonneg: "0 \<le> a \<Longrightarrow> 0 < b \<Longrightarrow> go_mod a b = a mod b"
  by (simp add: go_mod_def go_div_nonneg minus_mult_div_eq_mod)

section \<open>Decimal rendering\<close>

text \<open>\<open>fmt.Sprintf("%d", n)\<close> and \<open>strconv.FormatInt(n, 10)\<close>.\<close>

definition digit :: "nat \<Rightarrow> char" where
  "digit d = char_of (48 + d)"

fun show_nat :: "nat \<Rightarrow> string" where
  "show_nat n = (if n < 10 then [digit n] else show_nat (n div 10) @ [digit (n mod 10)])"

declare show_nat.simps [simp del]

definition show_int :: "int \<Rightarrow> string" where
  "show_int n = (if n < 0 then CHR ''-'' # show_nat (nat (- n)) else show_nat (nat n))"

definition read_nat :: "string \<Rightarrow> nat" where
  "read_nat s = foldl (\<lambda>n c. 10 * n + (of_char c - 48)) 0 s"

lemma of_char_digit: "d < 10 \<Longrightarrow> of_char (digit d) = 48 + d"
  by (simp add: digit_def)

lemma read_show_nat: "read_nat (show_nat n) = n"
proof (induction n rule: show_nat.induct)
  case (1 n)
  show ?case
  proof (cases "n < 10")
    case True
    then show ?thesis by (simp add: show_nat.simps [of n] read_nat_def of_char_digit)
  next
    case False
    with 1 have "read_nat (show_nat (n div 10)) = n div 10" by simp
    with False show ?thesis
      by (simp add: show_nat.simps [of n] read_nat_def of_char_digit)
  qed
qed

lemma show_nat_inj [simp]: "show_nat m = show_nat n \<longleftrightarrow> m = n"
  by (metis read_show_nat)

lemma show_nat_digits: "c \<in> set (show_nat n) \<Longrightarrow> \<exists>d<10. c = digit d"
proof (induction n rule: show_nat.induct)
  case (1 n)
  then show ?case
    by (cases "n < 10") (auto simp: show_nat.simps [of n] intro: exI [of _ n] exI [of _ "n mod 10"])
qed

lemma digit_ge_zero: "d < 10 \<Longrightarrow> (of_char (digit d) :: nat) \<ge> 48"
  by (simp add: of_char_digit)

lemma digit_neq: "d < 10 \<Longrightarrow> (of_char c :: nat) < 48 \<Longrightarrow> digit d \<noteq> c"
  using digit_ge_zero by fastforce

lemma show_nat_no_minus: "CHR ''-'' \<notin> set (show_nat n)"
  using show_nat_digits [of "CHR ''-''" n] digit_neq [of _ "CHR ''-''"] by force

lemma show_nat_nonempty [simp]: "show_nat n \<noteq> []"
  by (subst show_nat.simps) simp

lemma show_int_inj [simp]: "show_int m = show_int n \<longleftrightarrow> m = n"
proof -
  have ne: "CHR ''-'' # xs \<noteq> show_nat k" for xs k
    using show_nat_no_minus [of k] by (metis list.set_intros(1))
  show ?thesis by (auto simp: show_int_def ne ne [symmetric] nat_eq_iff2)
qed

end
