(* ===== verification/Domain.thy ===== *)
theory Domain
  imports GoStrings
begin

text \<open>
  The package \<open>internal/domain\<close>: status and job-type constants, the records that travel
  between services, repositories and the agent, pagination, the agent's credentials, and
  the JSON documents carried by a job. A Go string type with constants
  (\<open>JobStatus\<close>, \<open>JobType\<close>, \<open>DeploymentStatus\<close>, \<open>ApplicationStatus\<close>) is \<open>string\<close>, since the code
  compares and stores any string there; a \<open>uuid.UUID\<close> is a 128-bit word; a \<open>time.Time\<close> is an
  integer number of nanoseconds; a pointer is an option.
\<close>

type_synonym uuid = "128 word"
type_synonym gotime = int

section \<open>Constants\<close>

definition JobQueued :: string where "JobQueued = ''queued''"
definition JobRunning :: string where "JobRunning = ''running''"
definition JobSuccess :: string where "JobSuccess = ''success''"
definition JobFailed :: string where "JobFailed = ''failed''"
definition JobExpired :: string where "JobExpired = ''expired''"

definition JobTypeAppDeploy :: string where "JobTypeAppDeploy = ''app_deploy''"
definition JobTypeAppStart :: string where "JobTypeAppStart = ''app_start''"
definition JobTypeAppStop :: string where "JobTypeAppStop = ''app_stop''"
definition JobTypeAppRestart :: string where "JobTypeAppRestart = ''app_restart''"
definition JobTypeAppRollback :: string where "JobTypeAppRollback = ''app_rollback''"
definition JobTypeAppHealthCheck :: string where "JobTypeAppHealthCheck = ''app_health_check''"
definition JobTypeAppDestroy :: string where "JobTypeAppDestroy = ''app_destroy''"
definition JobTypeMetricsCollect :: string where "JobTypeMetricsCollect = ''metrics_collect''"

definition DeploymentPending :: string where "DeploymentPending = ''pending''"
definition DeploymentDeploying :: string where "DeploymentDeploying = ''deploying''"
definition DeploymentSuccess :: string where "DeploymentSuccess = ''success''"
definition DeploymentFailed :: string where "DeploymentFailed = ''failed''"

definition AppStatusDeploying :: string where "AppStatusDeploying = ''deploying''"
definition AppStatusStarting :: string where "AppStatusStarting = ''starting''"
definition AppStatusStopping :: string where "AppStatusStopping = ''stopping''"
definition AppStatusRestarting :: string where "AppStatusRestarting = ''restarting''"
definition AppStatusRunning :: string where "AppStatusRunning = ''running''"
definition AppStatusStopped :: string where "AppStatusStopped = ''stopped''"
definition AppStatusFailed :: string where "AppStatusFailed = ''failed''"
definition AppStatusUnknown :: string where "AppStatusUnknown = ''unknown''"

lemmas job_status_defs = JobQueued_def JobRunning_def JobSuccess_def JobFailed_def JobExpired_def
lemmas job_type_defs = JobTypeAppDeploy_def JobTypeAppStart_def JobTypeAppStop_def
  JobTypeAppRestart_def JobTypeAppRollback_def JobTypeAppHealthCheck_def JobTypeAppDestroy_def
  JobTypeMetricsCollect_def
lemmas deployment_status_defs = DeploymentPending_def DeploymentDeploying_def
  DeploymentSuccess_def DeploymentFailed_def
lemmas app_status_defs = AppStatusDeploying_def AppStatusStarting_def AppStatusStopping_def
  AppStatusRestarting_def AppStatusRunning_def AppStatusStopped_def AppStatusFailed_def
  AppStatusUnknown_def

lemma job_status_distinct [simp]:
  "JobQueued \<noteq> JobRunning" "JobRunning \<noteq> JobQueued" "JobQueued \<noteq> JobSuccess"
  "JobSuccess \<noteq> JobQueued" "JobQueued \<noteq> JobFailed" "JobFailed \<noteq> JobQueued"
  "JobRunning \<noteq> JobSuccess" "JobSuccess \<noteq> JobRunning" "JobRunning \<noteq> JobFailed"
  "JobFailed \<noteq> JobRunning" "JobSuccess \<noteq> JobFailed" "JobFailed \<noteq> JobSuccess"
  "JobExpired \<noteq> JobFailed" "JobExpired \<noteq> JobQueued" "JobExpired \<noteq> JobRunning"
  "JobQueued \<noteq> JobExpired" "JobRunning \<noteq> JobExpired" "JobFailed \<noteq> JobExpired"
  "JobExpired \<noteq> JobSuccess" "JobSuccess \<noteq> JobExpired"
  by (simp_all add: job_status_defs)

lemma job_type_distinct: "distinct [JobTypeAppDeploy, JobTypeAppStart, JobTypeAppStop,
    JobTypeAppRestart, JobTypeAppRollback, JobTypeAppHealthCheck, JobTypeAppDestroy,
    JobTypeMetricsCollect]"
  by (simp add: job_type_defs)

lemma job_types_neq [simp]:
  "JobTypeAppDeploy \<noteq> JobTypeAppStart" "JobTypeAppDeploy \<noteq> JobTypeAppStop"
  "JobTypeAppDeploy \<noteq> JobTypeAppRestart" "JobTypeAppDeploy \<noteq> JobTypeAppRollback"
  "JobTypeAppDeploy \<noteq> JobTypeAppHealthCheck" "JobTypeAppDeploy \<noteq> JobTypeAppDestroy"
  "JobTypeAppStart \<noteq> JobTypeAppDeploy" "JobTypeAppStart \<noteq> JobTypeAppStop"
  "JobTypeAppStart \<noteq> JobTypeAppRestart" "JobTypeAppStart \<noteq> JobTypeAppRollback"
  "JobTypeAppStart \<noteq> JobTypeAppHealthCheck" "JobTypeAppStart \<noteq> JobTypeAppDestroy"
  "JobTypeAppStop \<noteq> JobTypeAppDeploy" "JobTypeAppStop \<noteq> JobTypeAppStart"
  "JobTypeAppStop \<noteq> JobTypeAppRestart" "JobTypeAppStop \<noteq> JobTypeAppRollback"
  "JobTypeAppStop \<noteq> JobTypeAppHealthCheck" "JobTypeAppStop \<noteq> JobTypeAppDestroy"
  "JobTypeAppRestart \<noteq> JobTypeAppDeploy" "JobTypeAppRestart \<noteq> JobTypeAppStart"
  "JobTypeAppRestart \<noteq> JobTypeAppStop" "JobTypeAppRestart \<noteq> JobTypeAppRollback"
  "JobTypeAppRestart \<noteq> JobTypeAppHealthCheck" "JobTypeAppRestart \<noteq> JobTypeAppDestroy"
  "JobTypeAppRollback \<noteq> JobTypeAppDeploy" "JobTypeAppRollback \<noteq> JobTypeAppStart"
  "JobTypeAppRollback \<noteq> JobTypeAppStop" "JobTypeAppRollback \<noteq> JobTypeAppRestart"
  "JobTypeAppRollback \<noteq> JobTypeAppHealthCheck" "JobTypeAppRollback \<noteq> JobTypeAppDestroy"
  "JobTypeAppHealthCheck \<noteq> JobTypeAppDeploy" "JobTypeAppHealthCheck \<noteq> JobTypeAppStart"
  "JobTypeAppHealthCheck \<noteq> JobTypeAppStop" "JobTypeAppHealthCheck \<noteq> JobTypeAppRestart"
  "JobTypeAppHealthCheck \<noteq> JobTypeAppRollback" "JobTypeAppHealthCheck \<noteq> JobTypeAppDestroy"
  "JobTypeAppDestroy \<noteq> JobTypeAppDeploy" "JobTypeAppDestroy \<noteq> JobTypeAppStart"
  "JobTypeAppDestroy \<noteq> JobTypeAppStop" "JobTypeAppDestroy \<noteq> JobTypeAppRestart"
  "JobTypeAppDestroy \<noteq> JobTypeAppRollback" "JobTypeAppDestroy \<noteq> JobTypeAppHealthCheck"
  "JobTypeAppDeploy \<noteq> JobTypeMetricsCollect" "JobTypeAppStart \<noteq> JobTypeMetricsCollect"
  "JobTypeAppStop \<noteq> JobTypeMetricsCollect" "JobTypeAppRestart \<noteq> JobTypeMetricsCollect"
  "JobTypeAppRollback \<noteq> JobTypeMetricsCollect" "JobTypeAppHealthCheck \<noteq> JobTypeMetricsCollect"
  "JobTypeAppDestroy \<noteq> JobTypeMetricsCollect"
  by (simp_all add: job_type_defs)

lemma deployment_status_distinct [simp]:
  "DeploymentPending \<noteq> DeploymentSuccess" "DeploymentSuccess \<noteq> DeploymentPending"
  "DeploymentDeploying \<noteq> DeploymentSuccess" "DeploymentSuccess \<noteq> DeploymentDeploying"
  "DeploymentFailed \<noteq> DeploymentSuccess" "DeploymentSuccess \<noteq> DeploymentFailed"
  "DeploymentPending \<noteq> DeploymentFailed" "DeploymentFailed \<noteq> DeploymentPending"
  "DeploymentDeploying \<noteq> DeploymentFailed" "DeploymentFailed \<noteq> DeploymentDeploying"
  "DeploymentPending \<noteq> DeploymentDeploying" "DeploymentDeploying \<noteq> DeploymentPending"
  by (simp_all add: deployment_status_defs)

section \<open>Pagination\<close>

record ListOptions =
  lo_Page :: int
  lo_Limit :: int
  lo_Search :: string
  lo_IsPaginate :: bool

record Meta =
  CurrentPage :: int
  PerPage :: int
  Total :: int
  LastPage :: int

record 'a ListResult =
  Data :: "'a list"
  ResMeta :: "Meta option"

definition CalculateMeta :: "int \<Rightarrow> int \<Rightarrow> int \<Rightarrow> Meta" where
  "CalculateMeta tot page limit =
    (let limit = (if limit \<le> 0 then 10 else limit);
         page = (if page \<le> 0 then 1 else page);
         lastPage = go_div tot limit;
         lastPage = (if go_mod tot limit \<noteq> 0 then wrap64 (lastPage + 1) else lastPage);
         lastPage = (if lastPage = 0 then 1 else lastPage)
     in \<lparr>CurrentPage = page, PerPage = limit, Total = tot, LastPage = lastPage\<rparr>)"

text \<open>
  The defaults every \<open>List\<close> method of the services applies to its options before it calls the
  repository (the same eleven lines in each).
\<close>

definition list_defaults :: "int \<Rightarrow> ListOptions \<Rightarrow> ListOptions" where
  "list_defaults big opts =
    (if lo_IsPaginate opts then
       (let opts = (if lo_Page opts \<le> 0 then opts\<lparr>lo_Page := 1\<rparr> else opts)
        in if lo_Limit opts \<le> 0 then opts\<lparr>lo_Limit := 10\<rparr> else opts)
     else if lo_Limit opts \<le> 0 then opts\<lparr>lo_Limit := big\<rparr> else opts)"

text \<open>
  The \<open>LIMIT\<close> and \<open>OFFSET\<close> clauses the repositories append: Postgres refuses a negative
  offset, which \<open>(opts.Page - 1) * opts.Limit\<close> is when the product wraps around.
\<close>

definition page_rows :: "ListOptions \<Rightarrow> 'a list \<Rightarrow> 'a list option" where
  "page_rows opts rows =
    (if lo_IsPaginate opts then
       (let offset = wrap64 (wrap64 (lo_Page opts - 1) * lo_Limit opts)
        in if offset < 0 \<or> lo_Limit opts < 0 then None
           else Some (take (nat (lo_Limit opts)) (drop (nat offset) rows)))
     else if lo_Limit opts < 0 then None
     else Some (take (nat (lo_Limit opts)) rows))"

fun ContainsAny :: "string \<Rightarrow> string list \<Rightarrow> bool" where
  "ContainsAny s [] = False"
| "ContainsAny s (x # xs) =
    (let s' = to_lower s; x' = to_lower x in
     if has_suffix x' ''*'' then
       (if has_prefix s' (trim_suffix x' ''*'') then True else ContainsAny s xs)
     else if contains s' x' then True else ContainsAny s xs)"

section \<open>Agent credentials\<close>

text \<open>\<open>uuid.Parse\<close> belongs to a third-party package and is a parameter.\<close>

definition ValidateAgentCredentials :: "(string \<Rightarrow> uuid option) \<Rightarrow> string \<Rightarrow> error + uuid \<times> string" where
  "ValidateAgentCredentials uuid_Parse token =
    (case split2 (CHR ''.'') token of
       (rawServerID, None) \<Rightarrow> Inl ErrUnauthorized
     | (rawServerID, Some secret) \<Rightarrow>
         (case uuid_Parse rawServerID of
            None \<Rightarrow> Inl ErrUnauthorized
          | Some serverID \<Rightarrow> if secret = [] then Inl ErrUnauthorized else Inr (serverID, secret)))"

section \<open>Records\<close>

datatype json =
  JNull | JBool bool | JNum int | JStr string | JArr "json list" | JObj "(string \<times> json) list"

record LogContext =
  lc_Step :: string
  lc_Stream :: string
  lc_Line :: string
  lc_ExitCode :: "int option"
  lc_Latency :: "int option"
  lc_Status :: string

record Log =
  l_ID :: int
  l_Timestamp :: gotime
  l_Level :: string
  l_Source :: string
  l_Action :: string
  l_TraceID :: uuid
  l_JobID :: "int option"
  l_ServerID :: "uuid option"
  l_ApplicationID :: "int option"
  l_DeploymentID :: "int option"
  l_Message :: string
  l_Context :: "LogContext option"
  l_CreatedAt :: gotime

record LogListOptions =
  ll_opts :: ListOptions
  ll_TraceID :: "uuid option"
  ll_JobID :: "int option"
  ll_ServerID :: "uuid option"
  ll_ApplicationID :: "int option"
  ll_DeploymentID :: "int option"
  ll_Levels :: "string list"
  ll_Sources :: "string list"
  ll_Actions :: "string list"

record Job =
  j_ID :: int
  j_TraceID :: uuid
  j_ServerID :: uuid
  j_ApplicationID :: "int option"
  j_DeploymentID :: "int option"
  j_Type :: string
  j_Payload :: "json option"
  j_Status :: string
  j_QueuedAt :: "gotime option"
  j_StartedAt :: "gotime option"
  j_FinishedAt :: "gotime option"
  j_ExpiredAt :: "gotime option"
  j_Logs :: "Log list"

text \<open>A \<open>domain.Job\<close> literal leaves the fields it does not name at their zero values.\<close>

definition Job0 :: Job where
  "Job0 = \<lparr>j_ID = 0, j_TraceID = 0, j_ServerID = 0, j_ApplicationID = None,
    j_DeploymentID = None, j_Type = [], j_Payload = None, j_Status = [], j_QueuedAt = None,
    j_StartedAt = None, j_FinishedAt = None, j_ExpiredAt = None, j_Logs = []\<rparr>"

record JobListOptions =
  jl_opts :: ListOptions
  jl_TraceID :: "uuid option"
  jl_ServerID :: "uuid option"
  jl_ApplicationID :: "int option"
  jl_DeploymentID :: "int option"
  jl_Type :: string
  jl_Statuses :: "string list"

record JobStatusCounts =
  c_Queued :: int
  c_Running :: int
  c_Success :: int
  c_Failed :: int
  c_Expired :: int
  c_Total :: int

record Server =
  s_ID :: uuid
  s_Name :: string
  s_IPAddress :: string
  s_APIToken :: string
  s_IsOnline :: bool
  s_OSInfo :: "json option"
  s_CreatedAt :: gotime
  s_UpdatedAt :: gotime
  s_ApplicationCount :: int

definition Server0 :: Server where
  "Server0 = \<lparr>s_ID = 0, s_Name = [], s_IPAddress = [], s_APIToken = [], s_IsOnline = False,
    s_OSInfo = None, s_CreatedAt = 0, s_UpdatedAt = 0, s_ApplicationCount = 0\<rparr>"

record ServerListOptions =
  sl_opts :: ListOptions
  sl_IsOnline :: "bool option"

record ServerSaveRequest =
  sr_Name :: string
  sr_IPAddress :: string

record Role =
  ro_ID :: int
  ro_Name :: string

record Permission =
  p_ID :: int
  p_Name :: string

record User =
  u_ID :: int
  u_Name :: string
  u_Email :: string
  u_Password :: string
  u_RoleID :: int
  u_Role :: "Role option"
  u_Permissions :: "Permission list"
  u_CreatedAt :: gotime
  u_UpdatedAt :: gotime

definition User0 :: User where
  "User0 = \<lparr>u_ID = 0, u_Name = [], u_Email = [], u_Password = [], u_RoleID = 0, u_Role = None,
    u_Permissions = [], u_CreatedAt = 0, u_UpdatedAt = 0\<rparr>"

record UserListOptions =
  ul_opts :: ListOptions
  ul_Roles :: "string list"

record UserSaveRequest =
  us_Name :: string
  us_Email :: string
  us_Password :: string
  us_RoleID :: int

text \<open>What the middleware puts into the request's context.\<close>

record UserContext =
  uc_ID :: int
  uc_Role :: string
  uc_SessionID :: string

record Session =
  se_ID :: string
  se_UserID :: int
  se_CreatedAt :: gotime
  se_ExpiresAt :: gotime
  se_IP :: string
  se_UserAgent :: string

record Deployer =
  dp_ID :: int
  dp_Name :: string
  dp_Email :: string
  dp_RoleID :: int

text \<open>\<open>EnvSnapshot\<close> is a JSON object of strings; \<open>{}\<close> is its database default.\<close>

record Deployment =
  d_ID :: int
  d_ApplicationID :: int
  d_Branch :: string
  d_CommitHash :: "string option"
  d_CommitMessage :: "string option"
  d_Status :: string
  d_TriggeredAt :: gotime
  d_StartedAt :: "gotime option"
  d_FinishedAt :: "gotime option"
  d_DeployedBy :: "int option"
  d_EnvSnapshot :: "json option"
  d_PreviousDeploymentID :: "int option"
  d_PreviousCommitHash :: "string option"
  d_Deployer :: "Deployer option"
  d_Logs :: "Log list"

definition Deployment0 :: Deployment where
  "Deployment0 = \<lparr>d_ID = 0, d_ApplicationID = 0, d_Branch = [], d_CommitHash = None,
    d_CommitMessage = None, d_Status = [], d_TriggeredAt = 0, d_StartedAt = None,
    d_FinishedAt = None, d_DeployedBy = None, d_EnvSnapshot = None,
    d_PreviousDeploymentID = None, d_PreviousCommitHash = None, d_Deployer = None, d_Logs = []\<rparr>"

record DeploymentListOptions =
  dl_opts :: ListOptions
  dl_ApplicationID :: "int option"
  dl_DeployedBy :: "int option"
  dl_Statuses :: "string list"

record EnvDiffEntry =
  ed_Key :: string
  ed_Old :: string
  ed_New :: string

record DeploymentDiff =
  dd_DeploymentID :: int
  dd_CommitFrom :: "string option"
  dd_CommitTo :: "string option"
  dd_CommitMessage :: "string option"
  dd_HasPrevious :: bool
  dd_EnvAdditions :: "EnvDiffEntry list"
  dd_EnvRemovals :: "EnvDiffEntry list"
  dd_EnvUpdates :: "EnvDiffEntry list"

record Application =
  a_ID :: int
  a_ServerID :: uuid
  a_Name :: string
  a_RepoName :: string
  a_RepoURL :: string
  a_SiteURL :: string
  a_Branch :: string
  a_Status :: string
  a_LastDeploymentAt :: "gotime option"
  a_CreatedAt :: gotime
  a_UpdatedAt :: gotime

record EnvironmentVariable =
  e_ID :: int
  e_ApplicationID :: int
  e_Key :: string
  e_Value :: string
  e_IsPreview :: bool
  e_ValueEncrypted :: bool
  e_CreatedAt :: gotime
  e_UpdatedAt :: gotime

record EnvironmentVariableRequest =
  er_Key :: string
  er_Value :: string
  er_IsPreview :: bool

record ApplicationListOptions =
  al_opts :: ListOptions
  al_ServerID :: "uuid option"

record ApplicationCreateRequest =
  ac_ServerID :: uuid
  ac_Name :: string
  ac_RepoName :: string
  ac_RepoURL :: string
  ac_SiteURL :: string
  ac_Branch :: string
  ac_EnvVars :: "EnvironmentVariableRequest list"

record ApplicationUpdateRequest =
  au_Name :: string
  au_SiteURL :: string
  au_Branch :: string
  au_EnvVars :: "EnvironmentVariableRequest list"

record ApplicationHealth =
  h_ApplicationID :: int
  h_Status :: string

definition Application0 :: Application where
  "Application0 = \<lparr>a_ID = 0, a_ServerID = 0, a_Name = [], a_RepoName = [], a_RepoURL = [],
    a_SiteURL = [], a_Branch = [], a_Status = [], a_LastDeploymentAt = None, a_CreatedAt = 0,
    a_UpdatedAt = 0\<rparr>"

definition EnvironmentVariable0 :: EnvironmentVariable where
  "EnvironmentVariable0 = \<lparr>e_ID = 0, e_ApplicationID = 0, e_Key = [], e_Value = [],
    e_IsPreview = False, e_ValueEncrypted = False, e_CreatedAt = 0, e_UpdatedAt = 0\<rparr>"

definition GetAppKey :: "Application \<Rightarrow> string" where
  "GetAppKey app = a_RepoName app @ ''-'' @ show_int (a_ID app)"

section \<open>Lemmas\<close>

lemma CalculateMeta_pos: "1 \<le> CurrentPage (CalculateMeta t p l) \<and> 1 \<le> PerPage (CalculateMeta t p l)"
  by (simp add: CalculateMeta_def Let_def)

lemma ContainsAny_exact:
  assumes "\<And>x. x \<in> set xs \<Longrightarrow> \<not> has_suffix (to_lower x) ''*''"
  shows "ContainsAny s xs \<longleftrightarrow> (\<exists>x\<in>set xs. contains (to_lower s) (to_lower x))"
  using assms by (induction xs) (auto simp: Let_def)

lemma list_defaults_limit: "0 < big \<Longrightarrow> 0 < lo_Limit (list_defaults big opts)"
  by (simp add: list_defaults_def Let_def)

lemma list_defaults_page: "lo_IsPaginate opts \<Longrightarrow> 1 \<le> lo_Page (list_defaults big opts)"
  by (simp add: list_defaults_def Let_def)

lemma list_defaults_paginate [simp]: "lo_IsPaginate (list_defaults big opts) = lo_IsPaginate opts"
  by (simp add: list_defaults_def Let_def)

lemma page_rows_subset: "page_rows opts rows = Some xs \<Longrightarrow> set xs \<subseteq> set rows"
  by (auto simp: page_rows_def Let_def split: if_splits dest!: in_set_takeD in_set_dropD)

end
