(* ===== verification/Events.thy ===== *)
theory Events
  imports Domain
begin

text \<open>
  The events of \<open>internal/domain/*_events.go\<close>, the synchronous bus of \<open>internal/event/bus.go\<close>
  and the messages the server pushes to dashboards.
\<close>

record EventJobCreated =
  ejc_JobID :: int
  ejc_TraceID :: uuid
  ejc_ServerID :: uuid
  ejc_ApplicationID :: "int option"
  ejc_DeploymentID :: "int option"
  ejc_Type :: string

record EventJobStarted =
  ejs_JobID :: int
  ejs_TraceID :: uuid
  ejs_ServerID :: uuid
  ejs_ApplicationID :: "int option"
  ejs_DeploymentID :: "int option"
  ejs_Type :: string

record EventJobFinished =
  ejf_JobID :: int
  ejf_TraceID :: uuid
  ejf_ServerID :: uuid
  ejf_ApplicationID :: "int option"
  ejf_DeploymentID :: "int option"
  ejf_Type :: string
  ejf_Status :: string

record EventJobStatusChanged =
  ejx_JobID :: int
  ejx_TraceID :: uuid
  ejx_Status :: string

record EventDeploymentCreated =
  edc_DeploymentID :: int
  edc_ApplicationID :: int
  edc_DeployedBy :: int
  edc_TriggeredAt :: gotime

record EventDeploymentStarted =
  eds_DeploymentID :: int
  eds_ApplicationID :: int
  eds_StartedAt :: gotime

record EventDeploymentFinished =
  edf_DeploymentID :: int
  edf_ApplicationID :: int
  edf_Status :: string
  edf_FinishedAt :: gotime

record EventDeploymentStatusChanged =
  edx_DeploymentID :: int
  edx_ApplicationID :: int
  edx_Status :: string

record EventDeploymentCommitInfoReceived =
  edi_DeploymentID :: int
  edi_ApplicationID :: int
  edi_CommitHash :: string
  edi_CommitMessage :: string

record EventApplicationCreated =
  eac_ApplicationID :: int
  eac_ServerID :: uuid

record EventApplicationStatusChanged =
  eax_ApplicationID :: int
  eax_Status :: string

record EventServerStatusChanged =
  esx_ServerID :: uuid
  esx_IsOnline :: bool

text \<open>Go's \<open>event any\<close>: the dynamic type is the constructor.\<close>

datatype event =
    JobCreatedEv EventJobCreated
  | JobStartedEv EventJobStarted
  | JobFinishedEv EventJobFinished
  | JobStatusChangedEv EventJobStatusChanged
  | DeploymentCreatedEv EventDeploymentCreated
  | DeploymentStartedEv EventDeploymentStarted
  | DeploymentFinishedEv EventDeploymentFinished
  | DeploymentStatusChangedEv EventDeploymentStatusChanged
  | DeploymentCommitInfoReceivedEv EventDeploymentCommitInfoReceived
  | ApplicationCreatedEv EventApplicationCreated
  | ApplicationStatusChangedEv EventApplicationStatusChanged
  | ServerStatusChangedEv EventServerStatusChanged
  | LogReceivedEv Log

record WsServerEvent =
  ws_Channel :: string
  ws_Event :: string
  ws_Payload :: event

section \<open>The bus\<close>

text \<open>
  \<open>Bus.handlers\<close> maps an event name to the handlers subscribed to it, in order of
  subscription (an absent key reads as the nil slice). A handler acts on the state. The nil
  bus of the services' \<open>if s.bus != nil\<close> is the one with no handlers.
\<close>

type_synonym 's handler = "event \<Rightarrow> 's \<Rightarrow> 's"

record 's Bus =
  handlers :: "string \<Rightarrow> 's handler list"

definition Bus_New :: "'s Bus" where
  "Bus_New = \<lparr>handlers = (\<lambda>_. [])\<rparr>"

definition Subscribe :: "string \<Rightarrow> 's handler \<Rightarrow> 's Bus \<Rightarrow> 's Bus" where
  "Subscribe eventName h b =
    b\<lparr>handlers := (handlers b)(eventName := handlers b eventName @ [h])\<rparr>"

definition Publish :: "'s Bus \<Rightarrow> string \<Rightarrow> event \<Rightarrow> ('s, unit) op" where
  "Publish b eventName ev = modifyE (\<lambda>w. foldl (\<lambda>w h. h ev w) w (handlers b eventName))"

lemma handlers_New [simp]: "handlers Bus_New n = []"
  by (simp add: Bus_New_def)

lemma handlers_Subscribe [simp]:
  "handlers (Subscribe m h b) n = (if n = m then handlers b n @ [h] else handlers b n)"
  by (simp add: Subscribe_def)

lemma Publish_apply [op_simps]:
  "Publish b n ev w = (Inr (), foldl (\<lambda>w h. h ev w) w (handlers b n))"
  by (simp add: Publish_def)

lemma Publish_nobody: "handlers b n = [] \<Longrightarrow> Publish b n ev = returnE ()"
  by (simp add: fun_eq_iff Publish_apply)

text \<open>What every handler of an event guarantees, publishing the event guarantees.\<close>

context guarantee
begin

lemma g_publish:
  assumes "\<And>h w. h \<in> set (handlers b n) \<Longrightarrow> R w (h ev w)"
  shows "guarantees R (Publish b n ev)"
  by (rule guaranteesI) (simp add: Publish_apply g_foldl assms)

end

end
