(* ===== verification/Store.thy ===== *)
theory Store
  imports Events
begin

text \<open>
  The state the control plane works on: the Postgres tables, the clock, the sources of random
  UUIDs and bytes, the hub's queue of
  dashboard events and the login limiter's memory. A statement sent to the database or to Redis may fail:
  \<open>w_fault n\<close> says whether the \<open>n\<close>-th one does, so every theorem that does not restrict
  \<open>w_fault\<close> holds however the database behaves. A failed statement has no effect. The clock
  does not advance inside one operation.
\<close>

text \<open>A row of \<open>applications\<close> and \<open>servers\<close> carries the column \<open>deleted_at\<close> too.\<close>

record AppRow = Application +
  a_DeletedAt :: "gotime option"

record ServerRow = Server +
  s_DeletedAt :: "gotime option"

record UserRow = User +
  u_DeletedAt :: "gotime option"

text \<open>
  The Redis keys of the session store: \<open>sess:{id}\<close> holds a session until its time to live ends,
  \<open>user_sessions:{id}\<close> is a set of session ids.
\<close>

record RedisState =
  rd_sess :: "string \<Rightarrow> (Session \<times> gotime) option"
  rd_user_sessions :: "int \<Rightarrow> string list"

record AuditLog =
  au_ID :: int
  au_ActorID :: "int option"
  au_ActorEmail :: string
  au_Action :: string
  au_ResourceType :: string
  au_ResourceID :: string
  au_Details :: json
  au_CreatedAt :: gotime

record world =
  w_now :: gotime
  w_calls :: nat
  w_fault :: "nat \<Rightarrow> bool"
  w_uuids :: nat
  w_uuid :: "nat \<Rightarrow> uuid"
  w_uuid_string :: "uuid \<Rightarrow> string"
  w_rands :: nat
  w_rand :: "nat \<Rightarrow> nat \<Rightarrow> char"
  w_rand_ok :: "nat \<Rightarrow> bool"
  w_jobs :: "Job list"
  w_job_seq :: int
  w_deployments :: "Deployment list"
  w_deployment_seq :: int
  w_apps :: "AppRow list"
  w_app_seq :: int
  w_env :: "EnvironmentVariable list"
  w_env_seq :: int
  w_servers :: "ServerRow list"
  w_users :: "UserRow list"
  w_user_seq :: int
  w_roles :: "Role list"
  w_role_seq :: int
  w_perms :: "Permission list"
  w_perm_seq :: int
  w_role_perms :: "(int \<times> int) list"
  w_logs :: "Log list"
  w_log_seq :: int
  w_audit :: "AuditLog list"
  w_audit_seq :: int
  w_settings :: "(string \<times> json) list"
  w_webhook :: "json list"
  w_redis :: RedisState
  w_ws :: "WsServerEvent list"
  w_login_hits :: "string \<Rightarrow> gotime list"

text \<open>A fresh installation: the tables empty but for the two roles, nothing failing.\<close>

definition empty_world :: world where
  "empty_world = \<lparr>w_now = 0, w_calls = 0, w_fault = (\<lambda>_. False), w_uuids = 0,
    w_uuid = (\<lambda>n. word_of_nat (Suc n)), w_uuid_string = (\<lambda>u. show_nat (unat u)), w_rands = 0,
    w_rand = (\<lambda>n i. char_of (n + i)), w_rand_ok = (\<lambda>_. True), w_jobs = [], w_job_seq = 1,
    w_deployments = [], w_deployment_seq = 1, w_apps = [], w_app_seq = 1, w_env = [], w_env_seq = 1,
    w_servers = [], w_users = [], w_user_seq = 1,
    w_roles = [\<lparr>ro_ID = 1, ro_Name = ''admin''\<rparr>, \<lparr>ro_ID = 2, ro_Name = ''viewer''\<rparr>], w_role_seq = 3,
    w_perms = [], w_perm_seq = 1, w_role_perms = [], w_logs = [], w_log_seq = 1, w_audit = [],
    w_audit_seq = 1, w_settings = [], w_webhook = [],
    w_redis = \<lparr>rd_sess = (\<lambda>_. None), rd_user_sessions = (\<lambda>_. [])\<rparr>, w_ws = [],
    w_login_hits = (\<lambda>_. [])\<rparr>"

text \<open>One statement: it is counted, then fails or runs.\<close>

definition db_exec :: "(world, 'a) op \<Rightarrow> (world, 'a) op" where
  "db_exec q = (\<lambda>w. let w' = w\<lparr>w_calls := Suc (w_calls w)\<rparr> in
     if w_fault w (w_calls w) then (Inl ErrDB, w') else q w')"

text \<open>A Redis command or pipeline, under the same oracle.\<close>

definition redis_exec :: "(world, 'a) op \<Rightarrow> (world, 'a) op" where
  "redis_exec q = (\<lambda>w. let w' = w\<lparr>w_calls := Suc (w_calls w)\<rparr> in
     if w_fault w (w_calls w) then (Inl ErrRedis, w') else q w')"

definition time_Now :: "(world, gotime) op" where
  "time_Now = getsE w_now"

text \<open>\<open>uuid.New()\<close>.\<close>

definition uuid_New :: "(world, uuid) op" where
  "uuid_New = (\<lambda>w. (Inr (w_uuid w (w_uuids w)), w\<lparr>w_uuids := Suc (w_uuids w)\<rparr>))"

text \<open>\<open>io.ReadFull(rand.Reader, b)\<close> for a buffer of \<open>n\<close> bytes.\<close>

definition rand_Read :: "nat \<Rightarrow> (world, string) op" where
  "rand_Read n = (\<lambda>w. let w' = w\<lparr>w_rands := Suc (w_rands w)\<rparr> in
     if w_rand_ok w (w_rands w) then (Inr (map (w_rand w (w_rands w)) [0..<n]), w')
     else (Inl (ErrMsg ''random source''), w'))"

definition no_faults :: "world \<Rightarrow> bool" where
  "no_faults w \<longleftrightarrow> (\<forall>n\<ge>w_calls w. \<not> w_fault w n)"

lemma db_exec_ok: "no_faults w \<Longrightarrow> db_exec q w = q (w\<lparr>w_calls := Suc (w_calls w)\<rparr>)"
  by (simp add: db_exec_def no_faults_def)

lemma redis_exec_ok: "no_faults w \<Longrightarrow> redis_exec q w = q (w\<lparr>w_calls := Suc (w_calls w)\<rparr>)"
  by (simp add: redis_exec_def no_faults_def)

lemma no_faults_call [simp]: "no_faults w \<Longrightarrow> no_faults (w\<lparr>w_calls := Suc (w_calls w)\<rparr>)"
  by (simp add: no_faults_def)

lemma no_faults_updates [simp]:
  "no_faults (w\<lparr>w_jobs := x1\<rparr>) = no_faults w" "no_faults (w\<lparr>w_job_seq := x2\<rparr>) = no_faults w"
  "no_faults (w\<lparr>w_deployments := x3\<rparr>) = no_faults w"
  "no_faults (w\<lparr>w_deployment_seq := x4\<rparr>) = no_faults w"
  "no_faults (w\<lparr>w_apps := x5\<rparr>) = no_faults w" "no_faults (w\<lparr>w_app_seq := x6\<rparr>) = no_faults w"
  "no_faults (w\<lparr>w_env := x7\<rparr>) = no_faults w" "no_faults (w\<lparr>w_env_seq := x8\<rparr>) = no_faults w"
  "no_faults (w\<lparr>w_servers := x9\<rparr>) = no_faults w" "no_faults (w\<lparr>w_users := x10\<rparr>) = no_faults w"
  "no_faults (w\<lparr>w_logs := x11\<rparr>) = no_faults w" "no_faults (w\<lparr>w_audit := x12\<rparr>) = no_faults w"
  "no_faults (w\<lparr>w_audit_seq := x13\<rparr>) = no_faults w" "no_faults (w\<lparr>w_ws := x14\<rparr>) = no_faults w"
  "no_faults (w\<lparr>w_uuids := x15\<rparr>) = no_faults w"
  "no_faults (w\<lparr>w_user_seq := x16\<rparr>) = no_faults w" "no_faults (w\<lparr>w_log_seq := x17\<rparr>) = no_faults w"
  "no_faults (w\<lparr>w_rands := x18\<rparr>) = no_faults w"
  "no_faults (w\<lparr>w_settings := x19\<rparr>) = no_faults w" "no_faults (w\<lparr>w_webhook := x20\<rparr>) = no_faults w"
  "no_faults (w\<lparr>w_redis := x21\<rparr>) = no_faults w"
  by (simp_all add: no_faults_def)

text \<open>
  A relation on the tables ignores the statement counter and the sources of randomness; for such a
  relation, a statement guarantees what its effect does.
\<close>

locale db_guarantee = guarantee R for R :: "world \<Rightarrow> world \<Rightarrow> bool" +
  assumes R_calls: "w_calls w \<le> n \<Longrightarrow> R w (w\<lparr>w_calls := n\<rparr>)"
    and R_uuids: "R w (w\<lparr>w_uuids := n\<rparr>)"
    and R_rands: "R w (w\<lparr>w_rands := n\<rparr>)"
begin

lemma R_call: "R w (w\<lparr>w_calls := Suc (w_calls w)\<rparr>)"
  by (rule R_calls) simp

lemma g_db:
  assumes "guarantees R q"
  shows "guarantees R (db_exec q)"
  using assms trans [OF R_call] by (auto simp: guarantees_def db_exec_def Let_def R_call)

lemma g_redis:
  assumes "guarantees R q"
  shows "guarantees R (redis_exec q)"
  using assms trans [OF R_call] by (auto simp: guarantees_def redis_exec_def Let_def R_call)

lemma g_now: "guarantees R time_Now"
  by (simp add: time_Now_def g_gets)

lemma g_uuid: "guarantees R uuid_New"
  by (simp add: guarantees_def uuid_New_def R_uuids)

lemma g_rand: "guarantees R (rand_Read n)"
  by (auto simp: guarantees_def rand_Read_def Let_def R_rands)

lemma g_modify: "(\<And>w. R w (f w)) \<Longrightarrow> guarantees R (modifyE f)"
  by (simp add: guarantees_def)

lemmas db_rules = g_rules g_db g_redis g_now g_uuid g_rand

end

text \<open>A foreign key on a nullable column.\<close>

definition refers :: "'a option \<Rightarrow> 'a set \<Rightarrow> bool" where
  "refers col keys = (case col of None \<Rightarrow> True | Some k \<Rightarrow> k \<in> keys)"

lemma refers_None [simp]: "refers None keys"
  by (simp add: refers_def)

lemma refers_Some [simp]: "refers (Some k) keys \<longleftrightarrow> k \<in> keys"
  by (simp add: refers_def)

lemma refers_mono: "refers col keys \<Longrightarrow> keys \<subseteq> keys' \<Longrightarrow> refers col keys'"
  by (cases col) auto

section \<open>Listing\<close>

text \<open>An optional filter of a \<open>List\<close> method: \<open>if opts.X != nil\<close> adds \<open>x = $n\<close>.\<close>

definition opt_eq :: "'a option \<Rightarrow> 'a option \<Rightarrow> bool" where
  "opt_eq wanted col = (case wanted of None \<Rightarrow> True | Some v \<Rightarrow> col = Some v)"

text \<open>
  \<open>col ILIKE '%' || search || '%'\<close>: \<open>%\<close> matches any string, \<open>_\<close> any character, a backslash
  takes the next character literally.
\<close>

fun like_match :: "string \<Rightarrow> string \<Rightarrow> bool" where
  "like_match [] s = (s = [])"
| "like_match (p # ps) [] = (p = CHR ''%'' \<and> like_match ps [])"
| "like_match (p # ps) (c # s) =
    (if p = CHR ''%'' then like_match ps (c # s) \<or> like_match (p # ps) s
     else if p = CHR ''_'' then like_match ps s
     else if p = CHR 0x5C then (case ps of [] \<Rightarrow> False | q # qs \<Rightarrow> q = c \<and> like_match qs s)
     else p = c \<and> like_match ps s)"

definition search_matches :: "string \<Rightarrow> string \<Rightarrow> bool" where
  "search_matches search col = like_match (''%'' @ to_lower search @ ''%'') (to_lower col)"

text \<open>
  The end of every repository's \<open>List\<close> (the same lines in each): the matching rows are
  counted when a page is asked for, then queried in order with \<open>LIMIT\<close> and \<open>OFFSET\<close>.
\<close>

definition paged :: "string \<Rightarrow> string \<Rightarrow> ListOptions \<Rightarrow> (world \<Rightarrow> 'a list) \<Rightarrow> (world, 'a list \<times> int) op" where
  "paged count_msg query_msg opts rows =
    bindE (if lo_IsPaginate opts
           then wrapE count_msg (db_exec (getsE (\<lambda>w. int (length (rows w)))))
           else returnE 0) (\<lambda>tot.
    wrapE query_msg (db_exec (\<lambda>w.
      case page_rows opts (rows w) of
        None \<Rightarrow> (Inl ErrDB, w)
      | Some r \<Rightarrow> (Inr (r, tot), w))))"

text \<open>What every service's \<open>List\<close> returns: \<open>Meta\<close> only for a page.\<close>

definition list_result :: "ListOptions \<Rightarrow> 'a list \<times> int \<Rightarrow> 'a ListResult" where
  "list_result opts r = \<lparr>Data = fst r, ResMeta =
     (if lo_IsPaginate opts then Some (CalculateMeta (snd r) (lo_Page opts) (lo_Limit opts))
      else None)\<rparr>"

context db_guarantee
begin

lemma g_paged: "guarantees R (paged cm qm opts rows)"
  unfolding paged_def
  by (intro g_bind g_if g_wrap g_db g_gets g_return) (auto simp: guarantees_def refl split: option.splits)

end

lemma paged_ok:
  assumes "no_faults w" and "page_rows opts (rows w) = Some r" and "\<And>n. rows (w\<lparr>w_calls := n\<rparr>) = rows w"
  shows "paged cm qm opts rows w =
    (Inr (r, if lo_IsPaginate opts then int (length (rows w)) else 0),
     w\<lparr>w_calls := w_calls w + (if lo_IsPaginate opts then 2 else 1)\<rparr>)"
  by (simp add: paged_def bindE_def wrapE_def catchE_def db_exec_ok [OF assms(1)]
      db_exec_ok [OF no_faults_call [OF assms(1)]] assms)

text \<open>The pages \<open>1 .. LastPage\<close>, one after the other, are the whole list.\<close>

lemma concat_pages:
  "0 < l \<Longrightarrow> concat (map (\<lambda>p. take l (drop (p * l) xs)) [0..<n]) = take (n * l) xs"
proof (induction n)
  case (Suc n)
  have "take (Suc n * l) xs = take (n * l) xs @ take l (drop (n * l) xs)"
    by (metis add.commute mult_Suc take_add)
  with Suc show ?case by simp
qed simp

lemma LastPage_covers:
  assumes "0 < l" and "l < 2 ^ 62" and "t < 2 ^ 62"
  shows "t \<le> nat (LastPage (CalculateMeta (int t) p (int l))) * l"
proof -
  have q: "int t div int l \<le> int t"
    by (simp add: div_le_dividend zdiv_int [symmetric])
  have w: "wrap64 (int t div int l + 1) = int t div int l + 1"
  proof (rule wrap64_id)
    have "0 \<le> int t div int l" by (simp add: zdiv_int [symmetric])
    then show "- (2 ^ 63) \<le> int t div int l + 1" by simp
    show "int t div int l + 1 < 2 ^ 63" using q assms(3) by simp
  qed
  show ?thesis
  proof (cases "int t mod int l = 0")
    case True
    then show ?thesis using assms(1)
      by (auto simp: CalculateMeta_def Let_def go_div_nonneg go_mod_nonneg zdiv_int [symmetric]
          zmod_int [symmetric] mod_eq_0_iff_dvd)
  next
    case False
    have "t < Suc (t div l) * l"
      using assms(1) by (simp add: dividend_less_div_times)
    moreover have "wrap64 (1 + int (t div l)) = int (Suc (t div l))"
      using w by (simp add: zdiv_int add.commute)
    ultimately show ?thesis using assms(1) False
      by (simp add: CalculateMeta_def Let_def go_div_nonneg go_mod_nonneg
          zdiv_int [symmetric] add.commute del: of_nat_Suc)
  qed
qed

lemma LastPage_bound:
  assumes "0 < l" and "l < 2 ^ 62" and "t < 2 ^ 62" and "n < nat (LastPage (CalculateMeta (int t) p (int l)))"
  shows "n * l \<le> t"
proof -
  have q: "int t div int l \<le> int t" "0 \<le> int t div int l"
    by (simp_all add: div_le_dividend zdiv_int [symmetric])
  have w: "wrap64 (int t div int l + 1) = int t div int l + 1"
    by (rule wrap64_id) (use q assms(3) in auto)
  have "n \<le> t div l"
    using assms(1,4) w by (auto simp: CalculateMeta_def Let_def go_div_nonneg go_mod_nonneg zdiv_int [symmetric]
        split: if_splits)
  then have "n * l \<le> t div l * l" by simp
  also have "\<dots> \<le> t" by (simp add: div_times_less_eq_dividend)
  finally show ?thesis .
qed

text \<open>One page of any listing, for a page number within the range of the machine integers.\<close>

lemma paged_page:
  assumes "no_faults w" and "\<And>n. rows (w\<lparr>w_calls := n\<rparr>) = rows w" and "lo_IsPaginate opts"
    and "lo_Page opts = int p + 1" and "lo_Limit opts = int l" and "p * l < 2 ^ 62" and "p < 2 ^ 62" and "0 < l"
  shows "paged cm qm opts rows w = (Inr (take l (drop (p * l) (rows w)), int (length (rows w))),
    w\<lparr>w_calls := Suc (Suc (w_calls w))\<rparr>)"
proof -
  have "wrap64 (int p) = int p" by (rule wrap64_id) (use assms(7) in auto)
  moreover have "wrap64 (int (p * l)) = int (p * l)"
  proof (rule wrap64_id)
    have "int (p * l) < int (2 ^ 62)" using assms(6) by (simp only: of_nat_less_iff)
    then show "int (p * l) < 2 ^ 63" by simp
    show "- (2 ^ 63) \<le> int (p * l)" by (rule order_trans [of _ 0]) simp_all
  qed
  ultimately have "page_rows opts (rows w) = Some (take l (drop (p * l) (rows w)))"
    using assms(3,4,5,8) by (simp add: page_rows_def nat_mult_distrib Let_def mult_less_0_iff)
  from paged_ok [OF assms(1) this assms(2)] show ?thesis using assms(3) by simp
qed

section \<open>The hub's queue\<close>

text \<open>
  \<open>Hub.Broadcast\<close>: a non-blocking send on the buffered channel \<open>h.events\<close> (capacity 256).
  \<open>w_ws\<close> is its content; the hub's loop empties it.
\<close>

definition Broadcast :: "WsServerEvent \<Rightarrow> world \<Rightarrow> world" where
  "Broadcast ev w = (if length (w_ws w) < 256 then w\<lparr>w_ws := w_ws w @ [ev]\<rparr> else w)"

end
