(* ===== verification/Security.thy ===== *)
theory Security
  imports Store
begin

text \<open>
  \<open>internal/security/encrypt.go\<close>: values encrypted at rest, and the base64 encoding they are
  stored in (\<open>encoding/base64\<close>, standard alphabet with padding). AES-GCM itself, from
  \<open>crypto/cipher\<close>, is a parameter of \<open>Encrypt\<close> and \<open>Decrypt\<close>.
\<close>

section \<open>Base64\<close>

definition b64_char :: "nat \<Rightarrow> char" where
  "b64_char n = (if n < 26 then char_of (65 + n) else if n < 52 then char_of (71 + n)
     else if n < 62 then char_of (n - 4) else if n = 62 then CHR ''+'' else CHR ''/'')"

definition b64_value :: "char \<Rightarrow> nat option" where
  "b64_value c = (let n = of_char c :: nat in
     if 65 \<le> n \<and> n \<le> 90 then Some (n - 65) else if 97 \<le> n \<and> n \<le> 122 then Some (n - 71)
     else if 48 \<le> n \<and> n \<le> 57 then Some (n + 4) else if n = 43 then Some 62
     else if n = 47 then Some 63 else None)"

fun base64_Encode :: "string \<Rightarrow> string" where
  "base64_Encode [] = []"
| "base64_Encode [a] = (let n = of_char a in
     [b64_char (n div 4), b64_char (n mod 4 * 16), CHR ''='', CHR ''=''])"
| "base64_Encode [a, b] = (let n = of_char a; m = of_char b in
     [b64_char (n div 4), b64_char (n mod 4 * 16 + m div 16), b64_char (m mod 16 * 4), CHR ''=''])"
| "base64_Encode (a # b # c # s) = (let n = of_char a; m = of_char b; k = of_char c in
     [b64_char (n div 4), b64_char (n mod 4 * 16 + m div 16), b64_char (m mod 16 * 4 + k div 64),
      b64_char (k mod 64)] @ base64_Encode s)"

text \<open>Line breaks are skipped; padding is required and ends the text.\<close>

fun b64_quads :: "string \<Rightarrow> string option" where
  "b64_quads [] = Some []"
| "b64_quads (a # b # c # d # s) =
    (case (b64_value a, b64_value b) of
       (Some w, Some x) \<Rightarrow>
         if d = CHR ''='' then
           (if s \<noteq> [] then None
            else if c = CHR ''='' then Some [char_of (w * 4 + x div 16)]
            else (case b64_value c of
                None \<Rightarrow> None
              | Some y \<Rightarrow> Some [char_of (w * 4 + x div 16), char_of (x mod 16 * 16 + y div 4)]))
         else (case (b64_value c, b64_value d) of
             (Some y, Some z) \<Rightarrow> map_option (append
                [char_of (w * 4 + x div 16), char_of (x mod 16 * 16 + y div 4), char_of (y mod 4 * 64 + z)])
                (b64_quads s)
           | _ \<Rightarrow> None)
     | _ \<Rightarrow> None)"
| "b64_quads _ = None"

definition base64_Decode :: "string \<Rightarrow> string option" where
  "base64_Decode s = b64_quads (filter (\<lambda>c. c \<noteq> CR \<and> c \<noteq> LF) s)"

lemma b64_value_char: "n < 64 \<Longrightarrow> b64_value (b64_char n) = Some n"
  by (auto simp: b64_value_def b64_char_def Let_def)

lemma b64_char_plain: "n < 64 \<Longrightarrow> b64_char n \<noteq> CHR ''='' \<and> b64_char n \<noteq> CR \<and> b64_char n \<noteq> LF"
proof -
  assume n: "n < 64"
  have "b64_value (CHR ''='') = None" "b64_value CR = None" "b64_value LF = None"
    by (simp_all add: b64_value_def CR_def LF_def)
  then show ?thesis using b64_value_char [OF n] by (metis option.distinct(1))
qed

lemma byte_bound: "(of_char c :: nat) < 256"
  by (metis of_char_mod_256 mod_less_divisor zero_less_numeral)

lemma six_bits:
  fixes n m :: nat
  shows "n < 256 \<Longrightarrow> n div 4 < 64" and "m < 256 \<Longrightarrow> n mod 4 * 16 + m div 16 < 64"
    and "m mod 16 * 4 < 64" and "n < 256 \<Longrightarrow> m mod 16 * 4 + n div 64 < 64"
    and "n mod 64 < 64" and "n mod 4 * 16 < 64"
  by (auto simp: less_mult_imp_div_less)

lemma byte_parts:
  "(of_char c :: nat) div 16 div 16 = 0" "(of_char c :: nat) div 16 mod 16 = of_char c div 16"
  "(of_char c :: nat) div 64 div 4 = 0" "(of_char c :: nat) div 64 mod 4 = of_char c div 64"
proof -
  have "(of_char c :: nat) div 16 < 16" "(of_char c :: nat) div 64 < 4"
    using byte_bound [of c] by (auto simp: less_mult_imp_div_less)
  then show "(of_char c :: nat) div 16 div 16 = 0" "(of_char c :: nat) div 16 mod 16 = of_char c div 16"
    "(of_char c :: nat) div 64 div 4 = 0" "(of_char c :: nat) div 64 mod 4 = of_char c div 64"
    by simp_all
qed

lemma b64_quads_Encode: "b64_quads (base64_Encode s) = Some s"
proof (induction s rule: base64_Encode.induct)
  case (2 a)
  show ?case
    by (simp add: Let_def b64_value_char six_bits byte_bound byte_parts)
next
  case (3 a b)
  show ?case
    by (simp add: Let_def b64_value_char b64_char_plain six_bits byte_bound byte_parts)
next
  case (4 a b c s)
  then show ?case
    by (simp add: Let_def b64_value_char b64_char_plain six_bits byte_bound byte_parts)
qed simp

lemma base64_Encode_plain: "x \<in> set (base64_Encode s) \<Longrightarrow> x \<noteq> CR \<and> x \<noteq> LF"
proof -
  have "CHR ''='' \<noteq> CR" "CHR ''='' \<noteq> LF" by (simp_all add: CR_def LF_def)
  then show "x \<in> set (base64_Encode s) \<Longrightarrow> x \<noteq> CR \<and> x \<noteq> LF"
    by (induction s rule: base64_Encode.induct)
      (auto simp: Let_def b64_char_plain six_bits byte_bound)
qed

lemma base64_Decode_Encode: "base64_Decode (base64_Encode s) = Some s"
proof -
  have "filter (\<lambda>c. c \<noteq> CR \<and> c \<noteq> LF) (base64_Encode s) = base64_Encode s"
    by (rule filter_True) (use base64_Encode_plain in blast)
  then show ?thesis by (simp add: base64_Decode_def b64_quads_Encode)
qed

section \<open>Encryption\<close>

text \<open>
  \<open>cipher.AEAD\<close>: \<open>Seal key nonce plaintext\<close> and \<open>Open key nonce ciphertext\<close>. What the code
  relies on is that opening a sealed text with the same key and nonce gives the text back.
\<close>

record AEAD =
  Seal :: "string \<Rightarrow> string \<Rightarrow> string \<Rightarrow> string"
  Open :: "string \<Rightarrow> string \<Rightarrow> string \<Rightarrow> string option"

definition opens_sealed :: "AEAD \<Rightarrow> bool" where
  "opens_sealed gcm \<longleftrightarrow> (\<forall>key nonce text. Open gcm key nonce (Seal gcm key nonce text) = Some text)"

definition nonce_size :: nat where
  "nonce_size = 12"

definition key_error :: "string \<Rightarrow> error" where
  "key_error key = ErrMsg (''encryption key must be 32 bytes, got '' @ show_nat (length key))"

definition Encrypt :: "AEAD \<Rightarrow> string \<Rightarrow> string \<Rightarrow> (world, string) op" where
  "Encrypt gcm plaintext key =
    (if length key \<noteq> 32 then failE (key_error key)
     else bindE (wrapE ''failed to read nonce'' (rand_Read nonce_size)) (\<lambda>nonce.
       let ciphertext = nonce @ Seal gcm key nonce plaintext
       in returnE (base64_Encode ciphertext)))"

definition Decrypt :: "AEAD \<Rightarrow> string \<Rightarrow> string \<Rightarrow> error + string" where
  "Decrypt gcm encoded key =
    (if length key \<noteq> 32 then Inl (key_error key)
     else case base64_Decode encoded of
       None \<Rightarrow> Inl (Wrapped ''failed to decode ciphertext'' ErrCrypto)
     | Some data \<Rightarrow>
         if length data < nonce_size then Inl (ErrMsg ''ciphertext too short'')
         else (case Open gcm key (take nonce_size data) (drop nonce_size data) of
             None \<Rightarrow> Inl (Wrapped ''failed to decrypt (wrong key or tampered data)'' ErrCrypto)
           | Some plaintext \<Rightarrow> Inr plaintext))"

lemma Decrypt_Encrypt:
  assumes "opens_sealed gcm" and "Encrypt gcm p key w = (Inr c, w')"
  shows "Decrypt gcm c key = Inr p"
proof -
  from assms(2) have k: "length key = 32"
    by (auto simp: Encrypt_def split: if_splits)
  let ?nonce = "map (w_rand w (w_rands w)) [0..<nonce_size]"
  have "length ?nonce = nonce_size" by simp
  moreover have "c = base64_Encode (?nonce @ Seal gcm key ?nonce p)"
    using assms(2) k by (auto simp: Encrypt_def bindE_def wrapE_def catchE_def rand_Read_def Let_def
        split: if_splits)
  ultimately show ?thesis using k assms(1)
    by (simp add: Decrypt_def base64_Decode_Encode opens_sealed_def)
qed

lemma Encrypt_world: "\<exists>n. snd (Encrypt gcm p key w) = w\<lparr>w_rands := n\<rparr>"
  by (auto simp: Encrypt_def bindE_def wrapE_def catchE_def rand_Read_def Let_def
      intro: exI [of _ "w_rands w"])

section \<open>Properties\<close>

text \<open>
  C6. What \<open>Encrypt\<close> returned, \<open>Decrypt\<close> with the same key turns back into the plaintext, whatever
  nonce was drawn. The hypothesis is the contract of AES-GCM.
\<close>

theorem encrypt_round_trip:
  assumes "opens_sealed gcm" and "Encrypt gcm text key w = (Inr stored, w')"
  shows "Decrypt gcm stored key = Inr text"
  using assms by (rule Decrypt_Encrypt)

definition example_gcm :: AEAD where
  "example_gcm = \<lparr>Seal = (\<lambda>key nonce text. rev text), Open = (\<lambda>key nonce c. Some (rev c))\<rparr>"

theorem encrypt_round_trip_witness:
  "Decrypt example_gcm (projr (fst (Encrypt example_gcm ''s3cret'' (replicate 32 CHR ''k'') empty_world)))
     (replicate 32 CHR ''k'') = Inr ''s3cret''"
proof (rule encrypt_round_trip [of example_gcm _ _ empty_world])
  show "opens_sealed example_gcm" by (simp add: opens_sealed_def example_gcm_def)
  show "Encrypt example_gcm ''s3cret'' (replicate 32 CHR ''k'') empty_world =
    (Inr (projr (fst (Encrypt example_gcm ''s3cret'' (replicate 32 CHR ''k'') empty_world))),
     snd (Encrypt example_gcm ''s3cret'' (replicate 32 CHR ''k'') empty_world))"
    by (simp add: Encrypt_def bindE_def wrapE_def catchE_def rand_Read_def empty_world_def Let_def)
qed

end
