(* ===== verification/Payloads.thy ===== *)
theory Payloads
  imports Domain
begin

text \<open>
  The job payloads of \<open>internal/domain/job_payloads.go\<close> and their JSON documents, as
  \<open>encoding/json\<close> writes and reads them: object keys are the struct tags, an empty map with
  \<open>omitempty\<close> is left out, a map is written with its keys sorted, an absent or null member
  leaves the zero value, a member of another type is an error. Keys are matched exactly; the
  control plane writes the documents it reads itself. A Go map is an association list; its
  order carries no meaning and only its lookup (\<open>map_of\<close>) is observed.
\<close>

type_synonym envmap = "(string \<times> string) list"

definition env_set :: "string \<Rightarrow> string \<Rightarrow> envmap \<Rightarrow> envmap" where
  "env_set k v m = AList.update k v m"

lemma map_of_env_set [simp]: "map_of (env_set k v m) = (map_of m)(k \<mapsto> v)"
  by (simp add: env_set_def update_conv')

lemma distinct_env_set [simp]: "distinct (map fst m) \<Longrightarrow> distinct (map fst (env_set k v m))"
  by (simp add: env_set_def distinct_update)

definition env_key_le :: "string \<times> 'v \<Rightarrow> string \<times> 'v \<Rightarrow> bool" where
  "env_key_le a b = string_le (fst a) (fst b)"

definition sort_keys :: "(string \<times> 'v) list \<Rightarrow> (string \<times> 'v) list" where
  "sort_keys m = order_by env_key_le m"

lemma set_sort_keys [simp]: "set (sort_keys m) = set m"
  by (simp add: sort_keys_def)

lemma sorted_sort_keys: "sorted_wrt env_key_le (sort_keys m)"
  unfolding sort_keys_def
  by (rule sorted_order_by; unfold env_key_le_def; use string_le_total string_le_trans in blast)

lemma insert_by_map:
  assumes "\<And>a b. le a b = le' (g a) (g b)"
  shows "map g (insert_by le x xs) = insert_by le' (g x) (map g xs)"
  by (induction xs) (auto simp: assms)

lemma order_by_map:
  assumes "\<And>a b. le a b = le' (g a) (g b)"
  shows "map g (order_by le xs) = order_by le' (map g xs)"
  by (induction xs) (auto simp: order_by_Cons insert_by_map [where le = le and le' = le' and g = g, OF assms])

lemma map_fst_sort_keys: "map fst (sort_keys m) = order_by string_le (map fst m)"
  unfolding sort_keys_def by (rule order_by_map) (simp add: env_key_le_def)

lemma distinct_sort_keys [simp]: "distinct (map fst (sort_keys m)) = distinct (map fst m)"
  by (simp add: map_fst_sort_keys)

lemma map_of_eqI: "distinct (map fst xs) \<Longrightarrow> distinct (map fst ys) \<Longrightarrow> set xs = set ys \<Longrightarrow>
    map_of xs = map_of ys"
  by (metis map_of_inject_set)

lemma map_of_sort_keys [simp]: "distinct (map fst m) \<Longrightarrow> map_of (sort_keys m) = map_of m"
  by (intro map_of_eqI) auto

section \<open>Reading a document\<close>

definition json_get :: "string \<Rightarrow> (string \<times> json) list \<Rightarrow> json" where
  "json_get k kvs = (case map_of (rev kvs) k of None \<Rightarrow> JNull | Some v \<Rightarrow> v)"

definition bad_json :: error where
  "bad_json = ErrMsg ''json: cannot unmarshal''"

fun dec_int :: "json \<Rightarrow> error + int" where
  "dec_int JNull = Inr 0"
| "dec_int (JNum n) = Inr n"
| "dec_int _ = Inl bad_json"

fun dec_str :: "json \<Rightarrow> error + string" where
  "dec_str JNull = Inr []"
| "dec_str (JStr s) = Inr s"
| "dec_str _ = Inl bad_json"

fun dec_members :: "(string \<times> json) list \<Rightarrow> envmap \<Rightarrow> error + envmap" where
  "dec_members [] m = Inr m"
| "dec_members ((k, j) # kvs) m =
    (case dec_str j of Inl e \<Rightarrow> Inl e | Inr v \<Rightarrow> dec_members kvs (env_set k v m))"

fun dec_env :: "json \<Rightarrow> error + envmap" where
  "dec_env JNull = Inr []"
| "dec_env (JObj kvs) = dec_members kvs []"
| "dec_env _ = Inl bad_json"

definition enc_env :: "envmap \<Rightarrow> json" where
  "enc_env m = JObj (map (\<lambda>(k, v). (k, JStr v)) (sort_keys m))"

definition env_sets :: "envmap \<Rightarrow> envmap \<Rightarrow> envmap" where
  "env_sets xs m = foldl (\<lambda>m (k, v). env_set k v m) m xs"

lemma map_of_env_sets: "map_of (env_sets xs m) = map_of m ++ map_of (rev xs)"
  by (induction xs arbitrary: m) (auto simp: env_sets_def map_add_def fun_eq_iff split: option.splits)

lemma distinct_env_sets: "distinct (map fst m) \<Longrightarrow> distinct (map fst (env_sets xs m))"
  by (induction xs arbitrary: m) (auto simp: env_sets_def)

lemma dec_members_enc: "dec_members (map (\<lambda>(k, v). (k, JStr v)) xs) m = Inr (env_sets xs m)"
  by (induction xs arbitrary: m) (auto simp: env_sets_def)

lemma dec_enc_env:
  assumes "distinct (map fst m)"
  obtains m' where "dec_env (enc_env m) = Inr m'" "map_of m' = map_of m" "distinct (map fst m')"
proof -
  have "map_of (rev (sort_keys m)) = map_of m"
    by (rule map_of_eqI) (use assms in \<open>auto simp: rev_map [symmetric]\<close>)
  with that [of "env_sets (sort_keys m) []"] show thesis
    by (simp add: enc_env_def dec_members_enc map_of_env_sets distinct_env_sets)
qed

section \<open>The payloads\<close>

record AppInfo =
  ai_ApplicationID :: int
  ai_AppKey :: string

record AppDeployPayload =
  pd_ApplicationID :: int
  pd_DeploymentID :: int
  pd_AppKey :: string
  pd_RepoURL :: string
  pd_Branch :: string
  pd_EnvVars :: envmap

record AppRollbackPayload =
  pr_ApplicationID :: int
  pr_DeploymentID :: int
  pr_AppKey :: string
  pr_ImageTag :: string
  pr_EnvVars :: envmap

record AppHealthCheckPayload =
  ph_ServerID :: uuid
  ph_Applications :: "AppInfo list"

definition omit_empty_env :: "envmap \<Rightarrow> (string \<times> json) list" where
  "omit_empty_env m = (if m = [] then [] else [(''env_vars'', enc_env m)])"

definition enc_AppInfo :: "AppInfo \<Rightarrow> json" where
  "enc_AppInfo p = JObj [(''application_id'', JNum (ai_ApplicationID p)),
     (''app_key'', JStr (ai_AppKey p))]"

definition enc_AppDeployPayload :: "AppDeployPayload \<Rightarrow> json" where
  "enc_AppDeployPayload p = JObj ([(''application_id'', JNum (pd_ApplicationID p)),
     (''deployment_id'', JNum (pd_DeploymentID p)), (''app_dir'', JStr (pd_AppKey p)),
     (''repo_url'', JStr (pd_RepoURL p)), (''branch'', JStr (pd_Branch p))]
     @ omit_empty_env (pd_EnvVars p))"

definition enc_AppRollbackPayload :: "AppRollbackPayload \<Rightarrow> json" where
  "enc_AppRollbackPayload p = JObj ([(''application_id'', JNum (pr_ApplicationID p)),
     (''deployment_id'', JNum (pr_DeploymentID p)), (''app_dir'', JStr (pr_AppKey p)),
     (''image_tag'', JStr (pr_ImageTag p))] @ omit_empty_env (pr_EnvVars p))"

definition enc_AppHealthCheckPayload :: "(uuid \<Rightarrow> string) \<Rightarrow> AppHealthCheckPayload \<Rightarrow> json" where
  "enc_AppHealthCheckPayload uuid_String p = JObj [(''server_id'', JStr (uuid_String (ph_ServerID p))),
     (''applications'', JArr (map enc_AppInfo (ph_Applications p)))]"

fun dec_AppInfo :: "json \<Rightarrow> error + AppInfo" where
  "dec_AppInfo (JObj kvs) =
    (case dec_int (json_get ''application_id'' kvs) of Inl e \<Rightarrow> Inl e | Inr i \<Rightarrow>
    (case dec_str (json_get ''app_key'' kvs) of Inl e \<Rightarrow> Inl e | Inr k \<Rightarrow>
      Inr \<lparr>ai_ApplicationID = i, ai_AppKey = k\<rparr>))"
| "dec_AppInfo JNull = Inr \<lparr>ai_ApplicationID = 0, ai_AppKey = []\<rparr>"
| "dec_AppInfo _ = Inl bad_json"

fun dec_AppDeployPayload :: "json \<Rightarrow> error + AppDeployPayload" where
  "dec_AppDeployPayload (JObj kvs) =
    (case dec_int (json_get ''application_id'' kvs) of Inl e \<Rightarrow> Inl e | Inr i \<Rightarrow>
    (case dec_int (json_get ''deployment_id'' kvs) of Inl e \<Rightarrow> Inl e | Inr d \<Rightarrow>
    (case dec_str (json_get ''app_dir'' kvs) of Inl e \<Rightarrow> Inl e | Inr k \<Rightarrow>
    (case dec_str (json_get ''repo_url'' kvs) of Inl e \<Rightarrow> Inl e | Inr u \<Rightarrow>
    (case dec_str (json_get ''branch'' kvs) of Inl e \<Rightarrow> Inl e | Inr b \<Rightarrow>
    (case dec_env (json_get ''env_vars'' kvs) of Inl e \<Rightarrow> Inl e | Inr m \<Rightarrow>
      Inr \<lparr>pd_ApplicationID = i, pd_DeploymentID = d, pd_AppKey = k, pd_RepoURL = u,
        pd_Branch = b, pd_EnvVars = m\<rparr>))))))"
| "dec_AppDeployPayload JNull = Inr \<lparr>pd_ApplicationID = 0, pd_DeploymentID = 0, pd_AppKey = [],
        pd_RepoURL = [], pd_Branch = [], pd_EnvVars = []\<rparr>"
| "dec_AppDeployPayload _ = Inl bad_json"

fun dec_AppRollbackPayload :: "json \<Rightarrow> error + AppRollbackPayload" where
  "dec_AppRollbackPayload (JObj kvs) =
    (case dec_int (json_get ''application_id'' kvs) of Inl e \<Rightarrow> Inl e | Inr i \<Rightarrow>
    (case dec_int (json_get ''deployment_id'' kvs) of Inl e \<Rightarrow> Inl e | Inr d \<Rightarrow>
    (case dec_str (json_get ''app_dir'' kvs) of Inl e \<Rightarrow> Inl e | Inr k \<Rightarrow>
    (case dec_str (json_get ''image_tag'' kvs) of Inl e \<Rightarrow> Inl e | Inr t \<Rightarrow>
    (case dec_env (json_get ''env_vars'' kvs) of Inl e \<Rightarrow> Inl e | Inr m \<Rightarrow>
      Inr \<lparr>pr_ApplicationID = i, pr_DeploymentID = d, pr_AppKey = k, pr_ImageTag = t,
        pr_EnvVars = m\<rparr>)))))"
| "dec_AppRollbackPayload JNull = Inr \<lparr>pr_ApplicationID = 0, pr_DeploymentID = 0, pr_AppKey = [],
        pr_ImageTag = [], pr_EnvVars = []\<rparr>"
| "dec_AppRollbackPayload _ = Inl bad_json"

fun dec_list :: "('j \<Rightarrow> error + 'a) \<Rightarrow> 'j list \<Rightarrow> error + 'a list" where
  "dec_list f [] = Inr []"
| "dec_list f (j # js) = (case f j of Inl e \<Rightarrow> Inl e | Inr x \<Rightarrow>
    (case dec_list f js of Inl e \<Rightarrow> Inl e | Inr xs \<Rightarrow> Inr (x # xs)))"

fun dec_uuid :: "(string \<Rightarrow> uuid option) \<Rightarrow> json \<Rightarrow> error + uuid" where
  "dec_uuid uuid_Parse JNull = Inr 0"
| "dec_uuid uuid_Parse (JStr s) = (case uuid_Parse s of None \<Rightarrow> Inl bad_json | Some u \<Rightarrow> Inr u)"
| "dec_uuid uuid_Parse _ = Inl bad_json"

fun dec_array :: "('a list \<Rightarrow> error + 'b list) \<Rightarrow> ('c \<Rightarrow> 'a list option) \<Rightarrow> 'c \<Rightarrow> error + 'b list" where
  "dec_array f un j = (case un j of None \<Rightarrow> Inl bad_json | Some js \<Rightarrow> f js)"

definition array_items :: "json \<Rightarrow> json list option" where
  "array_items j = (case j of JArr js \<Rightarrow> Some js | JNull \<Rightarrow> Some [] | _ \<Rightarrow> None)"

fun dec_AppHealthCheckPayload :: "(string \<Rightarrow> uuid option) \<Rightarrow> json \<Rightarrow> error + AppHealthCheckPayload" where
  "dec_AppHealthCheckPayload uuid_Parse (JObj kvs) =
    (case dec_uuid uuid_Parse (json_get ''server_id'' kvs) of Inl e \<Rightarrow> Inl e | Inr s \<Rightarrow>
    (case dec_array (dec_list dec_AppInfo) array_items (json_get ''applications'' kvs) of
       Inl e \<Rightarrow> Inl e | Inr apps \<Rightarrow> Inr \<lparr>ph_ServerID = s, ph_Applications = apps\<rparr>))"
| "dec_AppHealthCheckPayload uuid_Parse JNull = Inr \<lparr>ph_ServerID = 0, ph_Applications = []\<rparr>"
| "dec_AppHealthCheckPayload uuid_Parse _ = Inl bad_json"

text \<open>\<open>json.Unmarshal(job.Payload, &payload)\<close>: a missing document is an error.\<close>

definition unmarshal :: "(json \<Rightarrow> error + 'a) \<Rightarrow> json option \<Rightarrow> error + 'a" where
  "unmarshal dec raw = (case raw of None \<Rightarrow> Inl (ErrMsg ''unexpected end of JSON input'') | Some j \<Rightarrow> dec j)"

section \<open>Round trips\<close>

lemma dec_enc_AppInfo: "dec_AppInfo (enc_AppInfo p) = Inr p"
  by (simp add: enc_AppInfo_def json_get_def)

lemma dec_enc_deploy:
  assumes "distinct (map fst (pd_EnvVars p))"
  shows "\<exists>m. dec_AppDeployPayload (enc_AppDeployPayload p) = Inr (p\<lparr>pd_EnvVars := m\<rparr>) \<and>
    map_of m = map_of (pd_EnvVars p) \<and> distinct (map fst m)"
proof (cases "pd_EnvVars p = []")
  case True
  then show ?thesis by (simp add: enc_AppDeployPayload_def omit_empty_env_def json_get_def)
next
  case False
  obtain m' where "dec_env (enc_env (pd_EnvVars p)) = Inr m'" "map_of m' = map_of (pd_EnvVars p)"
    "distinct (map fst m')"
    by (rule dec_enc_env [OF assms])
  with False show ?thesis
    by (intro exI [of _ m']) (simp add: enc_AppDeployPayload_def omit_empty_env_def json_get_def)
qed

lemma dec_enc_rollback:
  assumes "distinct (map fst (pr_EnvVars p))"
  shows "\<exists>m. dec_AppRollbackPayload (enc_AppRollbackPayload p) = Inr (p\<lparr>pr_EnvVars := m\<rparr>) \<and>
    map_of m = map_of (pr_EnvVars p) \<and> distinct (map fst m)"
proof (cases "pr_EnvVars p = []")
  case True
  then show ?thesis by (simp add: enc_AppRollbackPayload_def omit_empty_env_def json_get_def)
next
  case False
  obtain m' where "dec_env (enc_env (pr_EnvVars p)) = Inr m'" "map_of m' = map_of (pr_EnvVars p)"
    "distinct (map fst m')"
    by (rule dec_enc_env [OF assms])
  with False show ?thesis
    by (intro exI [of _ m']) (simp add: enc_AppRollbackPayload_def omit_empty_env_def json_get_def)
qed

lemma dec_list_enc: "(\<And>x. f (g x) = Inr x) \<Longrightarrow> dec_list f (map g xs) = Inr xs"
  by (induction xs) auto

lemma dec_enc_health:
  assumes "\<And>u. uuid_Parse (uuid_String u) = Some u"
  shows "dec_AppHealthCheckPayload uuid_Parse (enc_AppHealthCheckPayload uuid_String p) = Inr p"
  by (simp add: enc_AppHealthCheckPayload_def json_get_def assms array_items_def
      dec_list_enc [of dec_AppInfo enc_AppInfo] dec_enc_AppInfo)

section \<open>Properties\<close>

text \<open>
  The agent reads from a deploy job's payload what the control plane put into it: every field,
  and the environment up to the order of a Go map.
\<close>

theorem deploy_payload_round_trip:
  assumes "distinct (map fst (pd_EnvVars p))"
  shows "\<exists>m. unmarshal dec_AppDeployPayload (Some (enc_AppDeployPayload p)) = Inr (p\<lparr>pd_EnvVars := m\<rparr>) \<and>
    map_of m = map_of (pd_EnvVars p)"
  using dec_enc_deploy [OF assms] by (auto simp: unmarshal_def)

definition example_payload :: AppDeployPayload where
  "example_payload = \<lparr>pd_ApplicationID = 3, pd_DeploymentID = 9, pd_AppKey = ''shop-3'',
     pd_RepoURL = ''git@host:shop'', pd_Branch = ''main'', pd_EnvVars = [(''PORT'', ''80''), (''DB'', ''pg'')]\<rparr>"

theorem deploy_payload_round_trip_witness:
  "\<exists>m. unmarshal dec_AppDeployPayload (Some (enc_AppDeployPayload example_payload)) =
      Inr (example_payload\<lparr>pd_EnvVars := m\<rparr>) \<and> map_of m ''DB'' = Some ''pg''"
proof -
  have "distinct (map fst (pd_EnvVars example_payload))" by (simp add: example_payload_def)
  from deploy_payload_round_trip [OF this] show ?thesis
    by (elim exE) (auto simp: example_payload_def)
qed

end
