(* ===== verification/AppRepo.thy ===== *)
theory AppRepo
  imports Security Payloads
begin

text \<open>
  \<open>internal/adapters/postgres/application_repo.go\<close>: applications, which are deleted by setting
  \<open>deleted_at\<close>, and their environment variables, whose values are encrypted when the repository
  has a key.
\<close>

record ApplicationRepository =
  encKey :: string
  aead :: AEAD

section \<open>Applications\<close>

definition app_of_row :: "AppRow \<Rightarrow> Application" where
  "app_of_row a = Application.truncate a"

definition live_app :: "AppRow \<Rightarrow> bool" where
  "live_app a \<longleftrightarrow> a_DeletedAt a = None"

definition app_matches :: "ApplicationListOptions \<Rightarrow> AppRow \<Rightarrow> bool" where
  "app_matches opts a \<longleftrightarrow> live_app a \<and>
     (lo_Search (al_opts opts) \<noteq> [] \<longrightarrow> search_matches (lo_Search (al_opts opts)) (a_Name a)) \<and>
     opt_eq (al_ServerID opts) (Some (a_ServerID a))"

definition app_created_desc :: "AppRow \<Rightarrow> AppRow \<Rightarrow> bool" where
  "app_created_desc a b \<longleftrightarrow> a_CreatedAt b \<le> a_CreatedAt a"

definition AppRepo_List :: "ApplicationListOptions \<Rightarrow> (world, Application list \<times> int) op" where
  "AppRepo_List opts = paged ''failed to count applications'' ''failed to query applications''
     (al_opts opts) (\<lambda>w. map app_of_row
       (order_by app_created_desc (filter (app_matches opts) (w_apps w))))"

definition AppRepo_GetByID :: "int \<Rightarrow> (world, Application) op" where
  "AppRepo_GetByID appID =
     catchE (db_exec (\<lambda>w. case find (\<lambda>a. a_ID a = appID \<and> live_app a) (w_apps w) of
         None \<Rightarrow> (Inl ErrNoRows, w)
       | Some a \<Rightarrow> (Inr (app_of_row a), w)))
     (\<lambda>err. if err = ErrNoRows then failE ErrApplicationNotFound
            else failE (Wrapped ''failed to get application'' err))"

text \<open>
  The foreign key to \<open>servers\<close> and the partial unique index on \<open>(server_id, repo_name)\<close> of the
  live applications. The status written is \<open>unknown\<close>, whatever \<open>app\<close> says; only the id and
  the two times come back into it.
\<close>

definition AppRepo_Create :: "Application \<Rightarrow> (world, Application) op" where
  "AppRepo_Create app = bindE time_Now (\<lambda>now. wrapE ''failed to create application'' (db_exec (\<lambda>w.
     let i = w_app_seq w; w' = w\<lparr>w_app_seq := i + 1\<rparr>;
         out = app\<lparr>a_ID := i, a_CreatedAt := now, a_UpdatedAt := now\<rparr>;
         row = Application.extend (out\<lparr>a_Status := AppStatusUnknown, a_LastDeploymentAt := None\<rparr>)
                 (AppRow.fields None)
     in if a_ServerID app \<in> s_ID ` set (w_servers w) \<and>
           \<not> (\<exists>a\<in>set (w_apps w). live_app a \<and> a_ServerID a = a_ServerID app \<and> a_RepoName a = a_RepoName app)
        then (Inr out, w'\<lparr>w_apps := w_apps w @ [row]\<rparr>)
        else (Inl ErrDB, w'))))"

text \<open>\<open>UPDATE applications SET f WHERE id = appID AND deleted_at IS NULL\<close>.\<close>

definition app_update :: "string \<Rightarrow> int \<Rightarrow> (AppRow \<Rightarrow> AppRow) \<Rightarrow> (world, unit) op" where
  "app_update msg appID f =
     bindE (wrapE msg (db_exec (\<lambda>w. let p = (\<lambda>a. a_ID a = appID \<and> live_app a) in
       (Inr (length (filter p (w_apps w))), w\<lparr>w_apps := update_where p f (w_apps w)\<rparr>)))) (\<lambda>n.
     if n = 0 then failE ErrApplicationNotFound else returnE ())"

definition AppRepo_Update :: "Application \<Rightarrow> int \<Rightarrow> (world, unit) op" where
  "AppRepo_Update app appID = bindE time_Now (\<lambda>now.
     app_update ''failed to update application'' appID
       (\<lambda>a. a\<lparr>a_Name := a_Name app, a_SiteURL := a_SiteURL app, a_Branch := a_Branch app, a_UpdatedAt := now\<rparr>))"

definition AppRepo_Delete :: "int \<Rightarrow> (world, unit) op" where
  "AppRepo_Delete appID = bindE time_Now (\<lambda>now.
     app_update ''failed to delete application'' appID (\<lambda>a. a\<lparr>a_DeletedAt := Some now\<rparr>))"

definition AppRepo_UpdateStatus :: "int \<Rightarrow> string \<Rightarrow> (world, unit) op" where
  "AppRepo_UpdateStatus appID status = bindE time_Now (\<lambda>now.
     app_update ''failed to update application status'' appID
       (\<lambda>a. a\<lparr>a_Status := status, a_UpdatedAt := now\<rparr>))"

definition AppRepo_UpdateLastDeployment :: "int \<Rightarrow> (world, unit) op" where
  "AppRepo_UpdateLastDeployment appID = bindE time_Now (\<lambda>now.
     app_update ''failed to update application last deployment'' appID
       (\<lambda>a. a\<lparr>a_LastDeploymentAt := Some now\<rparr>))"

text \<open>
  The join with \<open>VALUES\<close> has no condition on \<open>deleted_at\<close>. When an application is reported
  twice the database takes one of its rows, here the first.
\<close>

definition AppRepo_UpdateHealth :: "uuid \<Rightarrow> ApplicationHealth list \<Rightarrow> (world, unit) op" where
  "AppRepo_UpdateHealth serverID reports =
     (if reports = [] then returnE ()
      else wrapE ''failed to update applications health'' (db_exec (modifyE (\<lambda>w. w\<lparr>w_apps :=
        map (\<lambda>a. if a_ServerID a = serverID
                 then (case find (\<lambda>h. h_ApplicationID h = a_ID a) reports of
                     None \<Rightarrow> a | Some h \<Rightarrow> a\<lparr>a_Status := h_Status h\<rparr>)
                 else a) (w_apps w)\<rparr>))))"

section \<open>Environment variables\<close>

definition encryptEnvValue :: "ApplicationRepository \<Rightarrow> string \<Rightarrow> (world, string) op" where
  "encryptEnvValue r val = (if encKey r = [] then returnE val else Encrypt (aead r) val (encKey r))"

definition decryptEnvValue :: "ApplicationRepository \<Rightarrow> string \<Rightarrow> bool \<Rightarrow> error + string" where
  "decryptEnvValue r val encrypted =
     (if \<not> encrypted \<or> encKey r = [] then Inr val else Decrypt (aead r) val (encKey r))"

text \<open>\<open>fmt.Errorf("... env var %q: %w", key, err)\<close>; \<open>%q\<close> is written as plain quotes.\<close>

definition env_msg :: "string \<Rightarrow> string \<Rightarrow> string" where
  "env_msg what key = ''failed to '' @ what @ '' env var '' @ [CHR 0x22] @ key @ [CHR 0x22]"

definition encrypted_row :: "ApplicationRepository \<Rightarrow> EnvironmentVariable \<Rightarrow> (world, EnvironmentVariable) op" where
  "encrypted_row r e = bindE (wrapE (env_msg ''encrypt'' (e_Key e)) (encryptEnvValue r (e_Value e))) (\<lambda>v.
     returnE (e\<lparr>e_Value := v, e_ValueEncrypted := (encKey r \<noteq> [])\<rparr>))"

fun encrypt_rows :: "ApplicationRepository \<Rightarrow> EnvironmentVariable list \<Rightarrow> (world, EnvironmentVariable list) op" where
  "encrypt_rows r [] = returnE []"
| "encrypt_rows r (e # es) = bindE (encrypted_row r e) (\<lambda>e'. bindE (encrypt_rows r es) (\<lambda>es'.
     returnE (e' # es')))"

definition env_at :: "int \<Rightarrow> string \<Rightarrow> EnvironmentVariable \<Rightarrow> bool" where
  "env_at appID key e \<longleftrightarrow> e_ApplicationID e = appID \<and> e_Key e = key"

text \<open>
  \<open>INSERT ... ON CONFLICT (application_id, key) DO UPDATE\<close>. The sequence advances even when
  the row exists.
\<close>

definition env_upsert :: "gotime \<Rightarrow> int \<Rightarrow> EnvironmentVariable \<Rightarrow> (world, EnvironmentVariable) op" where
  "env_upsert now appID e = (\<lambda>w.
     let w' = w\<lparr>w_env_seq := w_env_seq w + 1\<rparr>;
         f = (\<lambda>r. r\<lparr>e_Value := e_Value e, e_ValueEncrypted := e_ValueEncrypted e,
                e_IsPreview := e_IsPreview e, e_UpdatedAt := now\<rparr>);
         row = e\<lparr>e_ID := w_env_seq w, e_ApplicationID := appID, e_CreatedAt := now, e_UpdatedAt := now\<rparr>
     in if appID \<notin> a_ID ` set (w_apps w) then (Inl ErrDB, w')
        else case find (env_at appID (e_Key e)) (w_env w) of
          Some old \<Rightarrow> (Inr (f old), w'\<lparr>w_env := update_where (env_at appID (e_Key e)) f (w_env w)\<rparr>)
        | None \<Rightarrow> (Inr row, w'\<lparr>w_env := w_env w @ [row]\<rparr>))"

text \<open>A transaction: an error leaves the table as it was.\<close>

definition env_tx :: "(world, 'a) op \<Rightarrow> (world, 'a) op" where
  "env_tx m = (\<lambda>w. case m w of
     (Inl e, w') \<Rightarrow> (Inl e, w'\<lparr>w_env := w_env w\<rparr>)
   | (Inr x, w') \<Rightarrow> (Inr x, w'))"

text \<open>
  Only the result of the batch's first statement is read; a later one that fails aborts the
  transaction, which the \<open>DELETE\<close> then reports.
\<close>

definition AppRepo_SyncEnvVars ::
    "ApplicationRepository \<Rightarrow> int \<Rightarrow> EnvironmentVariable list \<Rightarrow> (world, unit) op" where
  "AppRepo_SyncEnvVars r appID envVars =
     (if envVars = [] then returnE ()
      else bindE time_Now (\<lambda>now. env_tx (
        bindE (wrapE ''failed to begin tx'' (db_exec (returnE ()))) (\<lambda>_.
        bindE (encrypt_rows r envVars) (\<lambda>rows.
        bindE (wrapE ''failed to upsert env vars'' (db_exec (env_upsert now appID (hd rows)))) (\<lambda>_.
        bindE (wrapE ''failed to delete stale env vars''
          (bindE (forE (tl rows) (\<lambda>e. bindE (db_exec (env_upsert now appID e)) (\<lambda>_. returnE ()))) (\<lambda>_.
           db_exec (modifyE (\<lambda>w. w\<lparr>w_env := filter (\<lambda>e. \<not> (e_ApplicationID e = appID \<and>
              e_Key e \<notin> e_Key ` set envVars)) (w_env w)\<rparr>))))) (\<lambda>_.
        wrapE ''failed to commit tx'' (db_exec (returnE ())))))))))"

fun decrypt_rows :: "ApplicationRepository \<Rightarrow> EnvironmentVariable list \<Rightarrow> error + EnvironmentVariable list" where
  "decrypt_rows r [] = Inr []"
| "decrypt_rows r (e # es) =
    (case decryptEnvValue r (e_Value e) (e_ValueEncrypted e) of
       Inl err \<Rightarrow> Inl (Wrapped (env_msg ''decrypt'' (e_Key e)) err)
     | Inr v \<Rightarrow> (case decrypt_rows r es of Inl err \<Rightarrow> Inl err
         | Inr es' \<Rightarrow> Inr (e\<lparr>e_Value := v\<rparr> # es')))"

definition env_key_asc :: "EnvironmentVariable \<Rightarrow> EnvironmentVariable \<Rightarrow> bool" where
  "env_key_asc a b \<longleftrightarrow> string_le (e_Key a) (e_Key b)"

definition AppRepo_ListEnvVars ::
    "ApplicationRepository \<Rightarrow> int \<Rightarrow> (world, EnvironmentVariable list) op" where
  "AppRepo_ListEnvVars r appID =
     bindE (wrapE ''failed to query env vars'' (db_exec (getsE (\<lambda>w.
       order_by env_key_asc (filter (\<lambda>e. e_ApplicationID e = appID) (w_env w)))))) (\<lambda>rows.
     case decrypt_rows r rows of Inl err \<Rightarrow> failE err | Inr es \<Rightarrow> returnE es)"

definition AppRepo_CreateEnvVar :: "ApplicationRepository \<Rightarrow> EnvironmentVariable \<Rightarrow> (world, unit) op" where
  "AppRepo_CreateEnvVar r env =
     bindE (encrypted_row r env) (\<lambda>row. bindE time_Now (\<lambda>now.
     bindE (wrapE ''failed to create env var'' (db_exec (env_upsert now (e_ApplicationID env) row))) (\<lambda>_.
     returnE ())))"

text \<open>The two statements below report \<open>env var not found\<close> when they touch no row.\<close>

definition AppRepo_UpdateEnvVar :: "ApplicationRepository \<Rightarrow> EnvironmentVariable \<Rightarrow> (world, unit) op" where
  "AppRepo_UpdateEnvVar r env =
     bindE (encrypted_row r env) (\<lambda>row. bindE time_Now (\<lambda>now.
     bindE (wrapE ''failed to update env var'' (db_exec (\<lambda>w.
       let p = env_at (e_ApplicationID env) (e_Key env) in
       (Inr (length (filter p (w_env w))), w\<lparr>w_env := update_where p (\<lambda>e. e\<lparr>e_Value := e_Value row,
          e_ValueEncrypted := e_ValueEncrypted row, e_IsPreview := e_IsPreview row,
          e_UpdatedAt := now\<rparr>) (w_env w)\<rparr>)))) (\<lambda>n.
     if n = 0 then failE (ErrMsg ''env var not found'') else returnE ())))"

definition AppRepo_DeleteEnvVar :: "int \<Rightarrow> string \<Rightarrow> (world, unit) op" where
  "AppRepo_DeleteEnvVar appID key =
     bindE (wrapE ''failed to delete env var'' (db_exec (\<lambda>w.
       (Inr (length (filter (env_at appID key) (w_env w))),
        w\<lparr>w_env := filter (\<lambda>e. \<not> env_at appID key e) (w_env w)\<rparr>)))) (\<lambda>n.
     if n = 0 then failE (ErrMsg ''env var not found'') else returnE ())"

end
