(* ===== verification/Servers.thy ===== *)
theory Servers
  imports Store
begin

text \<open>
  Servers and their agents' credentials: \<open>internal/adapters/postgres/server_repo.go\<close>,
  \<open>internal/application/server/service.go\<close> and \<open>GenerateToken\<close> of \<open>internal/domain/auth.go\<close>.
\<close>

section \<open>Repository\<close>

text \<open>\<open>Scan\<close> of a whole row, without the column \<open>deleted_at\<close>.\<close>

definition server_of_row :: "ServerRow \<Rightarrow> Server" where
  "server_of_row s = Server.truncate s"

definition live_server :: "ServerRow \<Rightarrow> bool" where
  "live_server s \<longleftrightarrow> s_DeletedAt s = None"

definition server_matches :: "ServerListOptions \<Rightarrow> ServerRow \<Rightarrow> bool" where
  "server_matches opts s \<longleftrightarrow> live_server s \<and>
     (lo_Search (sl_opts opts) \<noteq> [] \<longrightarrow> search_matches (lo_Search (sl_opts opts)) (s_Name s) \<or>
        search_matches (lo_Search (sl_opts opts)) (s_IPAddress s)) \<and>
     opt_eq (sl_IsOnline opts) (Some (s_IsOnline s))"

definition server_created_asc :: "ServerRow \<Rightarrow> ServerRow \<Rightarrow> bool" where
  "server_created_asc a b \<longleftrightarrow> s_CreatedAt a \<le> s_CreatedAt b"

definition ServerRepo_List :: "ServerListOptions \<Rightarrow> (world, Server list \<times> int) op" where
  "ServerRepo_List opts = paged ''failed to count servers'' ''failed to query servers'' (sl_opts opts)
     (\<lambda>w. map (\<lambda>s. (server_of_row s)\<lparr>s_APIToken := [], s_ApplicationCount :=
              int (length (filter (\<lambda>a. a_ServerID a = s_ID s \<and> a_DeletedAt a = None) (w_apps w)))\<rparr>)
       (order_by server_created_asc (filter (server_matches opts) (w_servers w))))"

definition ServerRepo_GetByID :: "uuid \<Rightarrow> (world, Server) op" where
  "ServerRepo_GetByID serverID = db_exec (\<lambda>w.
     case find (\<lambda>s. s_ID s = serverID \<and> live_server s) (w_servers w) of
       None \<Rightarrow> (Inl ErrServerNotFound, w)
     | Some s \<Rightarrow> (Inr ((server_of_row s)\<lparr>s_ApplicationCount := 0\<rparr>), w))"

definition ServerRepo_GetByToken :: "string \<Rightarrow> (world, Server) op" where
  "ServerRepo_GetByToken token = db_exec (\<lambda>w.
     case find (\<lambda>s. s_APIToken s = token \<and> live_server s) (w_servers w) of
       None \<Rightarrow> (Inl ErrServerNotFound, w)
     | Some s \<Rightarrow> (Inr ((server_of_row s)\<lparr>s_APIToken := [], s_ApplicationCount := 0\<rparr>), w))"

text \<open>
  The id is drawn by the database (\<open>gen_random_uuid()\<close>); \<open>ip_address\<close> is not null, \<open>api_token\<close>
  is unique. Postgres' type \<open>inet\<close> is a parameter: \<open>inet_text\<close> gives the text an address is
  read back as, or refuses the string.
\<close>

definition ServerRepo_Create :: "(string \<Rightarrow> string option) \<Rightarrow> Server \<Rightarrow> (world, Server) op" where
  "ServerRepo_Create inet_text s = bindE time_Now (\<lambda>now. wrapE ''failed to create server'' (db_exec (
     bindE uuid_New (\<lambda>i w.
       case (if s_IPAddress s = [] then None else inet_text (s_IPAddress s)) of
         None \<Rightarrow> (Inl ErrDB, w)
       | Some ip \<Rightarrow>
          (let row = s\<lparr>s_ID := i, s_IPAddress := ip, s_OSInfo := None, s_CreatedAt := now, s_UpdatedAt := now\<rparr>
           in if i \<notin> s_ID ` set (w_servers w) \<and> s_APIToken s \<notin> s_APIToken ` set (w_servers w)
              then (Inr (s\<lparr>s_ID := i, s_CreatedAt := now, s_UpdatedAt := now\<rparr>),
                    w\<lparr>w_servers := w_servers w @ [Server.extend row (ServerRow.fields None)]\<rparr>)
              else (Inl ErrDB, w))))))"

text \<open>\<open>UPDATE servers SET f WHERE id = serverID AND deleted_at IS NULL\<close>: the number of rows.\<close>

definition server_update :: "uuid \<Rightarrow> (ServerRow \<Rightarrow> ServerRow) \<Rightarrow> (world, nat) op" where
  "server_update serverID f = (\<lambda>w.
     let p = (\<lambda>s. s_ID s = serverID \<and> live_server s)
     in (Inr (length (filter p (w_servers w))), w\<lparr>w_servers := update_where p f (w_servers w)\<rparr>))"

definition server_missing :: "world \<Rightarrow> uuid \<Rightarrow> string \<Rightarrow> error" where
  "server_missing w serverID what =
     ErrMsg (''server with ID '' @ w_uuid_string w serverID @ '' not found or '' @ what)"

definition server_affected :: "uuid \<Rightarrow> string \<Rightarrow> nat \<Rightarrow> (world, unit) op" where
  "server_affected serverID what n = (\<lambda>w.
     if n = 0 then (Inl (server_missing w serverID what), w) else (Inr (), w))"

definition ServerRepo_Update :: "(string \<Rightarrow> string option) \<Rightarrow> Server \<Rightarrow> uuid \<Rightarrow> (world, unit) op" where
  "ServerRepo_Update inet_text s serverID = bindE time_Now (\<lambda>now.
     bindE (wrapE ''failed to update server'' (db_exec (
       case inet_text (s_IPAddress s) of
         None \<Rightarrow> failE ErrDB
       | Some ip \<Rightarrow> server_update serverID
           (\<lambda>r. r\<lparr>s_Name := s_Name s, s_IPAddress := ip, s_UpdatedAt := now\<rparr>))))
     (server_affected serverID ''deleted''))"

definition ServerRepo_UpdateOSInfo :: "uuid \<Rightarrow> json \<Rightarrow> (world, unit) op" where
  "ServerRepo_UpdateOSInfo serverID osInfo = bindE time_Now (\<lambda>now.
     bindE (wrapE ''failed to update server os info'' (db_exec (
       server_update serverID (\<lambda>r. r\<lparr>s_OSInfo := Some osInfo, s_UpdatedAt := now\<rparr>))))
     (server_affected serverID ''deleted''))"

definition ServerRepo_Delete :: "uuid \<Rightarrow> (world, unit) op" where
  "ServerRepo_Delete serverID = bindE time_Now (\<lambda>now.
     bindE (wrapE ''failed to delete server'' (db_exec (
       server_update serverID (\<lambda>r. r\<lparr>s_DeletedAt := Some now\<rparr>))))
     (server_affected serverID ''already deleted''))"

definition ServerRepo_UpdateStatus :: "uuid \<Rightarrow> bool \<Rightarrow> (world, unit) op" where
  "ServerRepo_UpdateStatus serverID isOnline = bindE time_Now (\<lambda>now.
     bindE (db_exec (server_update serverID (\<lambda>r. r\<lparr>s_IsOnline := isOnline, s_UpdatedAt := now\<rparr>)))
     (\<lambda>_. returnE ()))"

definition ServerRepo_UpdateSecret :: "uuid \<Rightarrow> string \<Rightarrow> (world, unit) op" where
  "ServerRepo_UpdateSecret serverID secret = bindE time_Now (\<lambda>now.
     bindE (wrapE ''failed to update server secret'' (db_exec (\<lambda>w.
       if \<exists>s\<in>set (w_servers w). s_APIToken s = secret \<and> \<not> (s_ID s = serverID \<and> live_server s)
       then (Inl ErrDB, w)
       else server_update serverID (\<lambda>r. r\<lparr>s_APIToken := secret, s_UpdatedAt := now\<rparr>) w)))
     (server_affected serverID ''already deleted''))"

definition ServerRepo_CountOnline :: "(world, int) op" where
  "ServerRepo_CountOnline = wrapE ''failed to count online servers'' (db_exec (getsE (\<lambda>w.
     int (length (filter (\<lambda>s. s_IsOnline s \<and> live_server s) (w_servers w))))))"

section \<open>Service\<close>

text \<open>
  \<open>golang.org/x/crypto/bcrypt\<close> is a parameter: a hash is made from a salt and a password,
  or refused, and compared with a password.
\<close>

record Bcrypt =
  GenerateFromPassword :: "string \<Rightarrow> string \<Rightarrow> string option"
  CompareHashAndPassword :: "string \<Rightarrow> string \<Rightarrow> bool"

definition hash_password :: "Bcrypt \<Rightarrow> string \<Rightarrow> (world, string) op" where
  "hash_password bc pw = bindE (rand_Read 16) (\<lambda>salt.
     case GenerateFromPassword bc salt pw of
       None \<Rightarrow> failE ErrCrypto
     | Some h \<Rightarrow> returnE h)"

definition hex_char :: "nat \<Rightarrow> char" where
  "hex_char n = (if n < 10 then char_of (48 + n) else char_of (87 + n))"

definition hex_encode :: "string \<Rightarrow> string" where
  "hex_encode s = concat (map (\<lambda>c. [hex_char (of_char c div 16), hex_char (of_char c mod 16)]) s)"

definition GenerateToken :: "(world, string) op" where
  "GenerateToken = bindE (rand_Read 32) (\<lambda>bytes. returnE (''hzx_'' @ hex_encode bytes))"

definition ServerService_List :: "ServerListOptions \<Rightarrow> (world, Server ListResult) op" where
  "ServerService_List opts =
    (let opts = opts\<lparr>sl_opts := list_defaults 1000 (sl_opts opts)\<rparr> in
     bindE (ServerRepo_List opts) (\<lambda>r. returnE (list_result (sl_opts opts) r)))"

definition ServerService_GetByID :: "uuid \<Rightarrow> (world, Server) op" where
  "ServerService_GetByID serverID = ServerRepo_GetByID serverID"

definition ServerService_Register ::
    "Bcrypt \<Rightarrow> (string \<Rightarrow> string option) \<Rightarrow> ServerSaveRequest \<Rightarrow> (world, Server \<times> string) op" where
  "ServerService_Register bc inet_text req =
     bindE GenerateToken (\<lambda>token.
     bindE (hash_password bc token) (\<lambda>hashedToken.
     bindE (ServerRepo_Create inet_text (Server0\<lparr>s_Name := sr_Name req, s_IPAddress := sr_IPAddress req,
       s_APIToken := hashedToken, s_IsOnline := False\<rparr>)) (\<lambda>srv.
     returnE (srv, token))))"

definition ServerService_Update ::
    "(string \<Rightarrow> string option) \<Rightarrow> ServerSaveRequest \<Rightarrow> uuid \<Rightarrow> (world, unit) op" where
  "ServerService_Update inet_text req serverID =
     bindE (ServerRepo_GetByID serverID) (\<lambda>_.
     ServerRepo_Update inet_text (Server0\<lparr>s_Name := sr_Name req, s_IPAddress := sr_IPAddress req\<rparr>) serverID)"

definition ServerService_UpdateOSInfo :: "uuid \<Rightarrow> json \<Rightarrow> (world, unit) op" where
  "ServerService_UpdateOSInfo serverID osInfo = ServerRepo_UpdateOSInfo serverID osInfo"

definition ServerService_Delete :: "uuid \<Rightarrow> (world, unit) op" where
  "ServerService_Delete serverID =
     bindE (ServerRepo_GetByID serverID) (\<lambda>_. ServerRepo_Delete serverID)"

definition ServerService_AuthorizeAgent :: "Bcrypt \<Rightarrow> uuid \<Rightarrow> string \<Rightarrow> (world, Server) op" where
  "ServerService_AuthorizeAgent bc serverID secret =
     bindE (catchE (ServerRepo_GetByID serverID) (\<lambda>_. failE ErrInvalidCredentials)) (\<lambda>server.
     if CompareHashAndPassword bc (s_APIToken server) secret then returnE server
     else failE ErrInvalidCredentials)"

definition ServerService_UpdateStatus :: "world Bus \<Rightarrow> uuid \<Rightarrow> bool \<Rightarrow> (world, unit) op" where
  "ServerService_UpdateStatus bus serverID status =
     bindE (ServerRepo_UpdateStatus serverID status) (\<lambda>_.
     Publish bus ''server_status_changed'' (ServerStatusChangedEv
       \<lparr>esx_ServerID = serverID, esx_IsOnline = status\<rparr>))"

definition ServerService_RotateSecret :: "Bcrypt \<Rightarrow> uuid \<Rightarrow> (world, string) op" where
  "ServerService_RotateSecret bc serverID =
     bindE (ServerRepo_GetByID serverID) (\<lambda>_.
     bindE GenerateToken (\<lambda>token.
     bindE (hash_password bc token) (\<lambda>hashedToken.
     bindE (ServerRepo_UpdateSecret serverID hashedToken) (\<lambda>_.
     returnE token))))"

end
