(* ===== verification/JobRepo.thy ===== *)
theory JobRepo
  imports Store
begin

text \<open>
  \<open>internal/adapters/postgres/job_repo.go\<close>: the queue of jobs as the table \<open>jobs\<close>. Each
  method is its SQL statement; \<open>Scan\<close> keeps only the selected columns.
\<close>

section \<open>Queries\<close>

definition job_matches :: "JobListOptions \<Rightarrow> Job \<Rightarrow> bool" where
  "job_matches opts j \<longleftrightarrow>
     opt_eq (jl_ServerID opts) (Some (j_ServerID j)) \<and>
     opt_eq (jl_ApplicationID opts) (j_ApplicationID j) \<and>
     opt_eq (jl_DeploymentID opts) (j_DeploymentID j) \<and>
     (jl_Type opts \<noteq> [] \<longrightarrow> j_Type j = jl_Type opts) \<and>
     (jl_Statuses opts \<noteq> [] \<longrightarrow> j_Status j \<in> set (jl_Statuses opts))"

text \<open>\<open>ORDER BY queued_at DESC\<close> puts null first, \<open>ASC\<close> last.\<close>

definition queued_desc :: "Job \<Rightarrow> Job \<Rightarrow> bool" where
  "queued_desc a b = (case (j_QueuedAt a, j_QueuedAt b) of
     (None, _) \<Rightarrow> True | (Some x, None) \<Rightarrow> False | (Some x, Some y) \<Rightarrow> y \<le> x)"

definition queued_asc :: "Job \<Rightarrow> Job \<Rightarrow> bool" where
  "queued_asc a b = queued_desc b a"

definition JobRepo_List :: "JobListOptions \<Rightarrow> (world, Job list \<times> int) op" where
  "JobRepo_List opts = paged ''failed to count jobs'' ''failed to query jobs'' (jl_opts opts)
     (\<lambda>w. order_by queued_desc (filter (job_matches opts) (w_jobs w)))"

definition JobRepo_GetPending :: "uuid \<Rightarrow> (world, Job list) op" where
  "JobRepo_GetPending serverID = db_exec (getsE (\<lambda>w.
     map (\<lambda>j. j\<lparr>j_StartedAt := None, j_FinishedAt := None\<rparr>)
       (take 30 (order_by queued_asc
          (filter (\<lambda>j. j_ServerID j = serverID \<and> j_Status j = JobQueued) (w_jobs w))))))"

definition JobRepo_GetByID :: "int \<Rightarrow> (world, Job) op" where
  "JobRepo_GetByID jobID = db_exec (\<lambda>w.
     case find (\<lambda>j. j_ID j = jobID) (w_jobs w) of
       None \<Rightarrow> (Inl ErrJobNotFound, w)
     | Some j \<Rightarrow> (Inr j, w))"

definition JobRepo_CountsByStatus :: "(world, JobStatusCounts) op" where
  "JobRepo_CountsByStatus = wrapE ''failed to count jobs by status'' (db_exec (getsE (\<lambda>w.
     let n = (\<lambda>s. int (length (filter (\<lambda>j. j_Status j = s) (w_jobs w))))
     in \<lparr>c_Queued = n JobQueued, c_Running = n JobRunning, c_Success = n JobSuccess,
         c_Failed = n JobFailed, c_Expired = n JobExpired, c_Total = int (length (w_jobs w))\<rparr>)))"

section \<open>Changes\<close>

text \<open>The foreign keys of the table (\<open>migrations/005_jobs.up.sql\<close>).\<close>

definition job_refs_ok :: "world \<Rightarrow> Job \<Rightarrow> bool" where
  "job_refs_ok w j \<longleftrightarrow>
     j_ServerID j \<in> s_ID ` set (w_servers w) \<and>
     refers (j_ApplicationID j) (a_ID ` set (w_apps w)) \<and>
     refers (j_DeploymentID j) (d_ID ` set (w_deployments w))"

text \<open>
  The statement names neither \<open>status\<close> nor \<open>queued_at\<close>: the table's defaults are \<open>queued\<close>
  and the time of insertion. Only \<open>id\<close> and \<open>queued_at\<close> come back into \<open>j\<close>.
\<close>

definition JobRepo_Create :: "Job \<Rightarrow> (world, Job) op" where
  "JobRepo_Create j = wrapE ''failed to create job'' (db_exec (\<lambda>w.
     let i = w_job_seq w; w' = w\<lparr>w_job_seq := i + 1\<rparr>;
         row = j\<lparr>j_ID := i, j_Status := JobQueued, j_QueuedAt := Some (w_now w),
                 j_StartedAt := None, j_FinishedAt := None, j_Logs := []\<rparr>
     in if job_refs_ok w j
        then (Inr (j\<lparr>j_ID := i, j_QueuedAt := Some (w_now w)\<rparr>), w'\<lparr>w_jobs := w_jobs w @ [row]\<rparr>)
        else (Inl ErrDB, w')))"

text \<open>The log rows of a deleted job lose their reference (\<open>ON DELETE SET NULL\<close>).\<close>

definition JobRepo_Delete :: "int \<Rightarrow> (world, unit) op" where
  "JobRepo_Delete jobID = db_exec (\<lambda>w.
     case find (\<lambda>j. j_ID j = jobID) (w_jobs w) of
       None \<Rightarrow> (Inl ErrJobNotFound, w)
     | Some _ \<Rightarrow> (Inr (), w\<lparr>w_jobs := filter (\<lambda>j. j_ID j \<noteq> jobID) (w_jobs w),
         w_logs := update_where (\<lambda>l. l_JobID l = Some jobID) (\<lambda>l. l\<lparr>l_JobID := None\<rparr>) (w_logs w)\<rparr>))"

text \<open>\<open>UPDATE jobs SET f WHERE id = jobID AND p RETURNING ...\<close>.\<close>

definition job_update :: "int \<Rightarrow> (Job \<Rightarrow> bool) \<Rightarrow> (world \<Rightarrow> Job \<Rightarrow> Job) \<Rightarrow> (world, Job) op" where
  "job_update jobID p f = (\<lambda>w.
     case find (\<lambda>j. j_ID j = jobID) (w_jobs w) of
       None \<Rightarrow> (Inl ErrNoRows, w)
     | Some j \<Rightarrow> if p j
         then (Inr (f w j), w\<lparr>w_jobs := update_where (\<lambda>j. j_ID j = jobID) (f w) (w_jobs w)\<rparr>)
         else (Inl ErrNoRows, w))"

definition JobRepo_Retry :: "int \<Rightarrow> Job \<Rightarrow> (world, Job) op" where
  "JobRepo_Retry jobID j = wrapE ''failed to retry job'' (bindE (db_exec (job_update jobID (\<lambda>_. True)
     (\<lambda>w row. row\<lparr>j_Payload := j_Payload j, j_Status := j_Status j, j_QueuedAt := j_QueuedAt j,
        j_StartedAt := None, j_FinishedAt := None, j_ExpiredAt := j_ExpiredAt j\<rparr>))) (\<lambda>row.
     returnE (row\<lparr>j_StartedAt := j_StartedAt j, j_FinishedAt := j_FinishedAt j, j_Logs := j_Logs j\<rparr>)))"

definition JobRepo_MarkRunning :: "int \<Rightarrow> (world, Job) op" where
  "JobRepo_MarkRunning jobID =
     catchE (db_exec (job_update jobID (\<lambda>j. j_Status j = JobQueued)
       (\<lambda>w row. row\<lparr>j_Status := JobRunning, j_StartedAt := Some (w_now w)\<rparr>)))
     (\<lambda>err. if err = ErrNoRows then JobRepo_GetByID jobID else failE err)"

definition JobRepo_MarkFinished :: "int \<Rightarrow> string \<Rightarrow> (world, Job) op" where
  "JobRepo_MarkFinished jobID status =
     catchE (db_exec (job_update jobID (\<lambda>j. j_Status j = JobRunning)
       (\<lambda>w row. row\<lparr>j_Status := status, j_FinishedAt := Some (w_now w)\<rparr>)))
     (\<lambda>err. if err = ErrNoRows then JobRepo_GetByID jobID else failE err)"

section \<open>Lemmas\<close>

lemma queued_desc_total: "queued_desc a b \<or> queued_desc b a"
  by (auto simp: queued_desc_def split: option.splits)

lemma queued_desc_trans: "queued_desc a b \<Longrightarrow> queued_desc b c \<Longrightarrow> queued_desc a c"
  by (auto simp: queued_desc_def split: option.splits)

lemma sorted_queued_asc: "sorted_wrt queued_asc (order_by queued_asc xs)"
  by (rule sorted_order_by; unfold queued_asc_def; use queued_desc_total queued_desc_trans in blast)

lemma job_update_snd:
  "snd (job_update i p f w) = w \<or>
   (\<exists>j. find (\<lambda>j. j_ID j = i) (w_jobs w) = Some j \<and> p j \<and>
     job_update i p f w = (Inr (f w j), w\<lparr>w_jobs := update_where (\<lambda>j. j_ID j = i) (f w) (w_jobs w)\<rparr>))"
  by (auto simp: job_update_def split: option.splits)

text \<open>
  The contract \<open>MarkRunning\<close> and \<open>MarkFinished\<close> share: a transition of one job that fires
  only from one status. Its laws say what the call does on a healthy database; the lemmas
  are what callers that race on the same job rely on.
\<close>

locale guarded_transition =
  fixes step :: "int \<Rightarrow> (world, Job) op"
    and src :: string
    and eff :: "world \<Rightarrow> Job \<Rightarrow> Job"
  assumes fires: "no_faults w \<Longrightarrow> find (\<lambda>j. j_ID j = i) (w_jobs w) = Some j \<Longrightarrow> j_Status j = src \<Longrightarrow>
      \<exists>n. step i w = (Inr (eff w j), w\<lparr>w_calls := n,
            w_jobs := update_where (\<lambda>j. j_ID j = i) (eff w) (w_jobs w)\<rparr>) \<and> w_calls w \<le> n"
    and idles: "no_faults w \<Longrightarrow> find (\<lambda>j. j_ID j = i) (w_jobs w) = Some j \<Longrightarrow> j_Status j \<noteq> src \<Longrightarrow>
      \<exists>n. step i w = (Inr j, w\<lparr>w_calls := n\<rparr>) \<and> w_calls w \<le> n"
    and missing: "no_faults w \<Longrightarrow> find (\<lambda>j. j_ID j = i) (w_jobs w) = None \<Longrightarrow>
      \<exists>n. step i w = (Inl ErrJobNotFound, w\<lparr>w_calls := n\<rparr>) \<and> w_calls w \<le> n"
    and eff_id: "j_ID (eff w j) = j_ID j"
begin

lemma no_faults_later: "no_faults w \<Longrightarrow> w_calls w \<le> n \<Longrightarrow> no_faults (w\<lparr>w_calls := n\<rparr>)"
  by (auto simp: no_faults_def)

lemma reads_back:
  assumes "no_faults w" and "find (\<lambda>j. j_ID j = i) (w_jobs w) = Some j" and "j_Status j = src"
  shows "find (\<lambda>j. j_ID j = i) (w_jobs (snd (step i w))) = Some (eff w j)"
  using fires [OF assms] assms(2) find_Some_set [OF assms(2)]
  by (auto simp: find_update_where_key [where k = j_ID, OF eff_id])

text \<open>
  Of two calls for the same job the first takes the transition and, when it leaves the
  source status, the second changes no row: exactly one caller fires.
\<close>

lemma second_call_idles:
  assumes nf: "no_faults w" and f: "find (\<lambda>j. j_ID j = i) (w_jobs w) = Some j"
    and s: "j_Status j = src" and leaves: "j_Status (eff w j) \<noteq> src"
  shows "\<exists>w'. step i w = (Inr (eff w j), w') \<and>
    (\<exists>w''. step i w' = (Inr (eff w j), w'') \<and> w_jobs w'' = w_jobs w')"
proof -
  from fires [OF nf f s] obtain n where n: "w_calls w \<le> n" and st: "step i w = (Inr (eff w j),
      w\<lparr>w_calls := n, w_jobs := update_where (\<lambda>j. j_ID j = i) (eff w) (w_jobs w)\<rparr>)"
    (is "_ = (_, ?w')") by blast
  have nf': "no_faults ?w'" using no_faults_later [OF nf n] by (simp add: no_faults_def)
  have f': "find (\<lambda>j. j_ID j = i) (w_jobs ?w') = Some (eff w j)"
    using reads_back [OF nf f s] st by simp
  from idles [OF nf' f' leaves] obtain m where "step i ?w' = (Inr (eff w j), ?w'\<lparr>w_calls := m\<rparr>)"
    by blast
  with st show ?thesis by auto
qed

lemma other_rows_kept:
  assumes "no_faults w" and "i' \<noteq> i"
  shows "find (\<lambda>j. j_ID j = i') (w_jobs (snd (step i w))) = find (\<lambda>j. j_ID j = i') (w_jobs w)"
proof (cases "find (\<lambda>j. j_ID j = i) (w_jobs w)")
  case None
  from missing [OF assms(1) None] show ?thesis by auto
next
  case (Some j)
  show ?thesis
  proof (cases "j_Status j = src")
    case True
    from fires [OF assms(1) Some True] show ?thesis
      using assms(2) by (cases "find (\<lambda>j. j_ID j = i') (w_jobs w)")
        (auto simp: find_update_where_key [where k = j_ID, OF eff_id] dest: find_Some_set)
  next
    case False
    from idles [OF assms(1) Some False] show ?thesis by auto
  qed
qed

end

lemma guarded_step:
  assumes ident: "\<And>w j. j_ID (f w j) = j_ID j"
    and calls: "\<And>w n j. f (w\<lparr>w_calls := n\<rparr>) j = f w j"
  shows "guarded_transition
    (\<lambda>i. catchE (db_exec (job_update i (\<lambda>j. j_Status j = s) f))
       (\<lambda>err. if err = ErrNoRows then JobRepo_GetByID i else failE err)) s f"
proof
  have f: "f (w\<lparr>w_calls := n\<rparr>) = f w" for w n
    by (rule ext) (rule calls)
  fix w :: world and i j
  assume nf: "no_faults w"
  note [simp] = catchE_def db_exec_ok [OF nf] db_exec_ok [OF no_faults_call [OF nf]]
    job_update_def JobRepo_GetByID_def f
  show "\<exists>n. catchE (db_exec (job_update i (\<lambda>j. j_Status j = s) f))
       (\<lambda>err. if err = ErrNoRows then JobRepo_GetByID i else failE err) w =
       (Inr (f w j), w\<lparr>w_calls := n, w_jobs := update_where (\<lambda>j. j_ID j = i) (f w) (w_jobs w)\<rparr>) \<and>
       w_calls w \<le> n"
    if "find (\<lambda>j. j_ID j = i) (w_jobs w) = Some j" and "j_Status j = s"
    using that by (intro exI [of _ "Suc (w_calls w)"]) simp
  show "\<exists>n. catchE (db_exec (job_update i (\<lambda>j. j_Status j = s) f))
       (\<lambda>err. if err = ErrNoRows then JobRepo_GetByID i else failE err) w =
       (Inr j, w\<lparr>w_calls := n\<rparr>) \<and> w_calls w \<le> n"
    if "find (\<lambda>j. j_ID j = i) (w_jobs w) = Some j" and "j_Status j \<noteq> s"
    using that by (intro exI [of _ "Suc (Suc (w_calls w))"]) simp
  show "\<exists>n. catchE (db_exec (job_update i (\<lambda>j. j_Status j = s) f))
       (\<lambda>err. if err = ErrNoRows then JobRepo_GetByID i else failE err) w =
       (Inl ErrJobNotFound, w\<lparr>w_calls := n\<rparr>) \<and> w_calls w \<le> n"
    if "find (\<lambda>j. j_ID j = i) (w_jobs w) = None"
    using that by (intro exI [of _ "Suc (Suc (w_calls w))"]) simp
qed (rule ident)

interpretation mark_running: guarded_transition JobRepo_MarkRunning JobQueued
    "\<lambda>w row. row\<lparr>j_Status := JobRunning, j_StartedAt := Some (w_now w)\<rparr>"
  unfolding JobRepo_MarkRunning_def by (rule guarded_step) simp_all

interpretation mark_finished: guarded_transition "\<lambda>i. JobRepo_MarkFinished i status" JobRunning
    "\<lambda>w row. row\<lparr>j_Status := status, j_FinishedAt := Some (w_now w)\<rparr>" for status
  unfolding JobRepo_MarkFinished_def by (rule guarded_step) simp_all

section \<open>Properties\<close>

text \<open>
  On a healthy database the first \<open>MarkRunning\<close> of a queued job moves it to running with the
  current time, and a second one reports the running job and changes no row: however many
  times an agent asks, the transition happens once.
\<close>

theorem MarkRunning_fires_once:
  assumes "no_faults w" and "find (\<lambda>j. j_ID j = i) (w_jobs w) = Some j" and "j_Status j = JobQueued"
  shows "\<exists>w'. JobRepo_MarkRunning i w =
      (Inr (j\<lparr>j_Status := JobRunning, j_StartedAt := Some (w_now w)\<rparr>), w') \<and>
    find (\<lambda>j. j_ID j = i) (w_jobs w') = Some (j\<lparr>j_Status := JobRunning, j_StartedAt := Some (w_now w)\<rparr>) \<and>
    (\<exists>w''. JobRepo_MarkRunning i w' =
      (Inr (j\<lparr>j_Status := JobRunning, j_StartedAt := Some (w_now w)\<rparr>), w'') \<and> w_jobs w'' = w_jobs w')"
proof -
  have leaves: "j_Status (j\<lparr>j_Status := JobRunning, j_StartedAt := Some (w_now w)\<rparr>) \<noteq> JobQueued"
    by simp
  from mark_running.second_call_idles [OF assms leaves] mark_running.reads_back [OF assms]
  show ?thesis by force
qed

definition example_job :: Job where
  "example_job = Job0\<lparr>j_ID := 7, j_Type := JobTypeAppDeploy, j_Status := JobQueued\<rparr>"

theorem MarkRunning_fires_once_witness:
  "\<exists>w'. JobRepo_MarkRunning 7 (empty_world\<lparr>w_now := 100, w_jobs := [example_job]\<rparr>) =
    (Inr (example_job\<lparr>j_Status := JobRunning, j_StartedAt := Some 100\<rparr>), w')"
  using MarkRunning_fires_once [of "empty_world\<lparr>w_now := 100, w_jobs := [example_job]\<rparr>" 7 example_job]
  by (auto simp: no_faults_def empty_world_def example_job_def Job0_def)

end
