(* ===== verification/Logs.thy ===== *)
theory Logs
  imports Store
begin

text \<open>
  The log of jobs and deployments: \<open>internal/adapters/postgres/log_repo.go\<close> and
  \<open>internal/application/log/service.go\<close>.
\<close>

section \<open>Repository\<close>

definition log_matches :: "LogListOptions \<Rightarrow> Log \<Rightarrow> bool" where
  "log_matches opts l \<longleftrightarrow>
     opt_eq (ll_TraceID opts) (Some (l_TraceID l)) \<and>
     opt_eq (ll_JobID opts) (l_JobID l) \<and>
     opt_eq (ll_ServerID opts) (l_ServerID l) \<and>
     opt_eq (ll_ApplicationID opts) (l_ApplicationID l) \<and>
     opt_eq (ll_DeploymentID opts) (l_DeploymentID l) \<and>
     (ll_Levels opts \<noteq> [] \<longrightarrow> l_Level l \<in> set (ll_Levels opts)) \<and>
     (ll_Sources opts \<noteq> [] \<longrightarrow> l_Source l \<in> set (ll_Sources opts)) \<and>
     (ll_Actions opts \<noteq> [] \<longrightarrow> l_Action l \<in> set (ll_Actions opts))"

definition logged_asc :: "Log \<Rightarrow> Log \<Rightarrow> bool" where
  "logged_asc a b \<longleftrightarrow> l_Timestamp a \<le> l_Timestamp b"

definition logged_desc :: "Log \<Rightarrow> Log \<Rightarrow> bool" where
  "logged_desc a b \<longleftrightarrow> l_Timestamp b \<le> l_Timestamp a"

text \<open>
  A bounded list without pages is a tail: the newest rows, queried in descending order and
  then reversed.
\<close>

definition LogRepo_List :: "LogListOptions \<Rightarrow> (world, Log list \<times> int) op" where
  "LogRepo_List opts =
    (let tailMode = (\<not> lo_IsPaginate (ll_opts opts) \<and> lo_Limit (ll_opts opts) > 0) in
     bindE (paged ''failed to count logs'' ''failed to query logs'' (ll_opts opts)
       (\<lambda>w. order_by (if tailMode then logged_desc else logged_asc)
              (filter (log_matches opts) (w_logs w)))) (\<lambda>(logs, tot).
     returnE (if tailMode then rev logs else logs, tot)))"

definition log_refs_ok :: "world \<Rightarrow> Log \<Rightarrow> bool" where
  "log_refs_ok w l \<longleftrightarrow>
     refers (l_JobID l) (j_ID ` set (w_jobs w)) \<and>
     refers (l_ServerID l) (s_ID ` set (w_servers w)) \<and>
     refers (l_ApplicationID l) (a_ID ` set (w_apps w)) \<and>
     refers (l_DeploymentID l) (d_ID ` set (w_deployments w))"

definition LogRepo_Create :: "Log \<Rightarrow> (world, Log) op" where
  "LogRepo_Create l = bindE time_Now (\<lambda>now. wrapE ''failed to emit logs'' (db_exec (\<lambda>w.
     let i = w_log_seq w; w' = w\<lparr>w_log_seq := i + 1\<rparr>;
         row = l\<lparr>l_ID := i, l_CreatedAt := now\<rparr>
     in if log_refs_ok w l
        then (Inr row, w'\<lparr>w_logs := w_logs w @ [row]\<rparr>)
        else (Inl ErrDB, w'))))"

section \<open>Service\<close>

definition LogService_List :: "LogListOptions \<Rightarrow> (world, Log ListResult) op" where
  "LogService_List opts =
    (let opts = opts\<lparr>ll_opts := list_defaults 1000 (ll_opts opts)\<rparr> in
     bindE (LogRepo_List opts) (\<lambda>r. returnE (list_result (ll_opts opts) r)))"

definition LogService_Create :: "world Bus \<Rightarrow> Log \<Rightarrow> (world, Log) op" where
  "LogService_Create bus l = bindE (LogRepo_Create l) (\<lambda>log.
     bindE (Publish bus ''log_received'' (LogReceivedEv log)) (\<lambda>_.
     returnE log))"

section \<open>Lemmas\<close>

lemma sorted_logged_desc: "sorted_wrt logged_desc (order_by logged_desc xs)"
  by (rule sorted_order_by) (auto simp: logged_desc_def)

lemma sorted_logged_asc: "sorted_wrt logged_asc (order_by logged_asc xs)"
  by (rule sorted_order_by) (auto simp: logged_asc_def)

lemma rev_desc_asc: "sorted_wrt logged_desc xs \<Longrightarrow> sorted_wrt logged_asc (rev xs)"
  by (simp add: sorted_wrt_rev logged_asc_def logged_desc_def [abs_def])

text \<open>The tail of a list sorted newest first dominates what it leaves out.\<close>

lemma take_dominates:
  assumes "sorted_wrt r xs" and "x \<in> set (take n xs)" and "y \<in> set xs - set (take n xs)"
  shows "r x y"
proof -
  have "y \<in> set (drop n xs)"
    using assms(3) by (metis DiffD1 DiffD2 Un_iff append_take_drop_id set_append)
  moreover have "sorted_wrt r (take n xs @ drop n xs)"
    using assms(1) by simp
  ultimately show ?thesis
    using assms(2) by (auto simp only: sorted_wrt_append)
qed

text \<open>What a bounded, unpaginated query returns on a healthy database.\<close>

lemma LogRepo_List_tail:
  assumes "no_faults w" and "\<not> lo_IsPaginate (ll_opts opts)" and "0 < lo_Limit (ll_opts opts)"
  shows "LogRepo_List opts w = (Inr (rev (take (nat (lo_Limit (ll_opts opts)))
      (order_by logged_desc (filter (log_matches opts) (w_logs w)))), 0),
    w\<lparr>w_calls := Suc (w_calls w)\<rparr>)"
proof -
  let ?rows = "\<lambda>w. order_by logged_desc (filter (log_matches opts) (w_logs w))"
  have "page_rows (ll_opts opts) (?rows w) = Some (take (nat (lo_Limit (ll_opts opts))) (?rows w))"
    using assms(2,3) by (simp add: page_rows_def)
  from paged_ok [where rows = ?rows, OF assms(1) this] show ?thesis
    using assms by (simp add: LogRepo_List_def bindE_def)
qed

section \<open>Properties\<close>

text \<open>
  An unpaginated query of the log returns its tail: at most \<open>Limit\<close> matching rows (1000 when no
  limit is given), in chronological order, and no matching row left out is newer than one returned.
\<close>

theorem LogService_List_tail:
  assumes "no_faults w" and "\<not> lo_IsPaginate (ll_opts opts)"
  shows "\<exists>res w'. LogService_List opts w = (Inr res, w') \<and> w_logs w' = w_logs w \<and>
    length (Data res) = min (nat (lo_Limit (list_defaults 1000 (ll_opts opts))))
        (length (filter (log_matches opts) (w_logs w))) \<and>
    sorted_wrt logged_asc (Data res) \<and> set (Data res) \<subseteq> set (filter (log_matches opts) (w_logs w)) \<and>
    (\<forall>x\<in>set (Data res). \<forall>y\<in>set (filter (log_matches opts) (w_logs w)) - set (Data res).
       l_Timestamp y \<le> l_Timestamp x)"
proof -
  let ?o = "opts\<lparr>ll_opts := list_defaults 1000 (ll_opts opts)\<rparr>"
  let ?n = "nat (lo_Limit (ll_opts ?o))"
  let ?rows = "order_by logged_desc (filter (log_matches opts) (w_logs w))"
  have m: "log_matches ?o = log_matches opts" by (simp add: log_matches_def fun_eq_iff)
  have "LogRepo_List ?o w = (Inr (rev (take ?n ?rows), 0), w\<lparr>w_calls := Suc (w_calls w)\<rparr>)"
    using LogRepo_List_tail [OF assms(1), of ?o] assms(2) by (simp add: list_defaults_limit m)
  then have eq: "LogService_List opts w = (Inr (list_result (ll_opts ?o) (rev (take ?n ?rows), 0)),
      w\<lparr>w_calls := Suc (w_calls w)\<rparr>)"
    by (simp add: LogService_List_def bindE_def Let_def)
  have dom: "l_Timestamp y \<le> l_Timestamp x"
    if "x \<in> set (take ?n ?rows)" and "y \<in> set ?rows - set (take ?n ?rows)" for x y
    using take_dominates [OF sorted_logged_desc that] by (simp add: logged_desc_def)
  show ?thesis
    using rev_desc_asc [OF sorted_wrt_take [OF sorted_logged_desc]] dom
    unfolding eq by (intro exI [where x = "list_result (ll_opts ?o) (rev (take ?n ?rows), 0)"]
        exI [where x = "w\<lparr>w_calls := Suc (w_calls w)\<rparr>"])
      (auto simp: list_result_def min.commute dest: in_set_takeD)
qed

definition log_at :: "gotime \<Rightarrow> Log" where
  "log_at t = \<lparr>l_ID = t, l_Timestamp = t, l_Level = ''info'', l_Source = ''agent'', l_Action = ''deploy'',
     l_TraceID = 0, l_JobID = None, l_ServerID = None, l_ApplicationID = None, l_DeploymentID = None,
     l_Message = [], l_Context = None, l_CreatedAt = t\<rparr>"

definition tail_options :: LogListOptions where
  "tail_options = \<lparr>
     ll_opts = \<lparr>lo_Page = 0, lo_Limit = 2, lo_Search = [], lo_IsPaginate = False\<rparr>,
     ll_TraceID = None, ll_JobID = None, ll_ServerID = None, ll_ApplicationID = None,
     ll_DeploymentID = None, ll_Levels = [], ll_Sources = [], ll_Actions = []\<rparr>"

theorem LogService_List_tail_witness:
  "\<exists>res w'. LogService_List tail_options (empty_world\<lparr>w_logs := map log_at [5, 9, 2]\<rparr>) = (Inr res, w') \<and>
    length (Data res) = 2 \<and> sorted_wrt logged_asc (Data res)"
proof -
  let ?w = "empty_world\<lparr>w_logs := map log_at [5, 9, 2]\<rparr>"
  have m: "filter (log_matches tail_options) (w_logs ?w) = map log_at [5, 9, 2]"
    by (simp add: log_matches_def tail_options_def opt_eq_def)
  have "no_faults ?w" "\<not> lo_IsPaginate (ll_opts tail_options)"
    by (simp_all add: no_faults_def empty_world_def tail_options_def)
  from LogService_List_tail [OF this, unfolded m] show ?thesis
    by (auto simp: tail_options_def list_defaults_def)
qed

end
