(* ===== verification/JobService.thy ===== *)
theory JobService
  imports JobRepo Logs
begin

text \<open>
  \<open>internal/application/job/service.go\<close>: the life cycle of a job, each change announced on
  the bus.
\<close>

section \<open>Operations\<close>

definition JobService_List :: "JobListOptions \<Rightarrow> (world, Job ListResult) op" where
  "JobService_List opts =
    (let opts = opts\<lparr>jl_opts := list_defaults 1000 (jl_opts opts)\<rparr> in
     bindE (JobRepo_List opts) (\<lambda>r. returnE (list_result (jl_opts opts) r)))"

definition JobService_GetPending :: "uuid \<Rightarrow> (world, Job list) op" where
  "JobService_GetPending serverID = JobRepo_GetPending serverID"

text \<open>\<open>domain.LogListOptions{JobID: &job.ID, ListOptions: domain.ListOptions{Limit: 200}}\<close>.\<close>

definition job_log_options :: "int \<Rightarrow> LogListOptions" where
  "job_log_options jobID = \<lparr>
     ll_opts = \<lparr>lo_Page = 0, lo_Limit = 200, lo_Search = [], lo_IsPaginate = False\<rparr>,
     ll_TraceID = None, ll_JobID = Some jobID, ll_ServerID = None, ll_ApplicationID = None,
     ll_DeploymentID = None, ll_Levels = [], ll_Sources = [], ll_Actions = []\<rparr>"

definition JobService_GetByID :: "int \<Rightarrow> (world, Job) op" where
  "JobService_GetByID jobID =
     bindE (JobRepo_GetByID jobID) (\<lambda>job.
     bindE (LogService_List (job_log_options (j_ID job))) (\<lambda>logs.
     returnE (if Data logs \<noteq> [] then job\<lparr>j_Logs := Data logs\<rparr> else job)))"

definition job_status_event :: "Job \<Rightarrow> event" where
  "job_status_event job = JobStatusChangedEv
     \<lparr>ejx_JobID = j_ID job, ejx_TraceID = j_TraceID job, ejx_Status = j_Status job\<rparr>"

definition JobService_Create :: "world Bus \<Rightarrow> Job \<Rightarrow> (world, Job) op" where
  "JobService_Create bus j =
     bindE (JobRepo_Create j) (\<lambda>job.
     bindE (Publish bus ''job_created'' (JobCreatedEv
       \<lparr>ejc_JobID = j_ID job, ejc_TraceID = j_TraceID job, ejc_ServerID = j_ServerID job,
        ejc_ApplicationID = j_ApplicationID job, ejc_DeploymentID = j_DeploymentID job,
        ejc_Type = j_Type job\<rparr>)) (\<lambda>_.
     bindE (Publish bus ''job_status_changed'' (job_status_event job)) (\<lambda>_.
     returnE job)))"

definition JobService_Delete :: "int \<Rightarrow> (world, unit) op" where
  "JobService_Delete jobID = JobRepo_Delete jobID"

definition JobService_Retry :: "world Bus \<Rightarrow> int \<Rightarrow> Job \<Rightarrow> (world, Job) op" where
  "JobService_Retry bus jobID j =
     bindE (JobRepo_Retry jobID j) (\<lambda>job.
     bindE (Publish bus ''job_status_changed'' (job_status_event job)) (\<lambda>_.
     returnE job))"

definition JobService_Start :: "world Bus \<Rightarrow> int \<Rightarrow> (world, Job) op" where
  "JobService_Start bus jobID =
     bindE (JobRepo_MarkRunning jobID) (\<lambda>job.
     bindE (Publish bus ''job_started'' (JobStartedEv
       \<lparr>ejs_JobID = j_ID job, ejs_TraceID = j_TraceID job, ejs_ServerID = j_ServerID job,
        ejs_ApplicationID = j_ApplicationID job, ejs_DeploymentID = j_DeploymentID job,
        ejs_Type = j_Type job\<rparr>)) (\<lambda>_.
     bindE (Publish bus ''job_status_changed'' (job_status_event job)) (\<lambda>_.
     returnE job)))"

definition JobService_Finish :: "world Bus \<Rightarrow> int \<Rightarrow> string \<Rightarrow> (world, Job) op" where
  "JobService_Finish bus jobID status =
     bindE (JobRepo_MarkFinished jobID status) (\<lambda>job.
     bindE (Publish bus ''job_finished'' (JobFinishedEv
       \<lparr>ejf_JobID = j_ID job, ejf_TraceID = j_TraceID job, ejf_ServerID = j_ServerID job,
        ejf_ApplicationID = j_ApplicationID job, ejf_DeploymentID = j_DeploymentID job,
        ejf_Type = j_Type job, ejf_Status = status\<rparr>)) (\<lambda>_.
     bindE (Publish bus ''job_status_changed'' (job_status_event job)) (\<lambda>_.
     returnE job)))"

definition JobService_Summary :: "(world, JobStatusCounts) op" where
  "JobService_Summary = JobRepo_CountsByStatus"

section \<open>Properties\<close>

definition job_page :: "JobListOptions \<Rightarrow> nat \<Rightarrow> JobListOptions" where
  "job_page opts p = opts\<lparr>jl_opts := (jl_opts opts)\<lparr>lo_IsPaginate := True, lo_Page := int p + 1\<rparr>\<rparr>"

lemma JobService_List_page:
  assumes "no_faults w" and "lo_Limit (jl_opts opts) = int l" and "p * l < 2 ^ 62" and "p < 2 ^ 62" and "0 < l"
  shows "fst (JobService_List (job_page opts p) w) = Inr
    \<lparr>Data = take l (drop (p * l) (order_by queued_desc (filter (job_matches opts) (w_jobs w)))),
     ResMeta = Some (CalculateMeta (int (length (filter (job_matches opts) (w_jobs w)))) (int p + 1) (int l))\<rparr>"
proof -
  have m: "job_matches (job_page opts p) = job_matches opts"
    by (simp add: job_matches_def job_page_def fun_eq_iff)
  have d: "list_defaults 1000 (jl_opts (job_page opts p)) = jl_opts (job_page opts p)"
    using assms by (simp add: list_defaults_def job_page_def Let_def)
  have j: "job_page opts p\<lparr>jl_opts := jl_opts (job_page opts p)\<rparr> = job_page opts p" by simp
  have "JobRepo_List (job_page opts p) w = (Inr (take l (drop (p * l) (order_by queued_desc
      (filter (job_matches opts) (w_jobs w)))), int (length (filter (job_matches opts) (w_jobs w)))),
      w\<lparr>w_calls := Suc (Suc (w_calls w))\<rparr>)"
    unfolding JobRepo_List_def m
    by (subst paged_page [where p = p and l = l]; (rule assms)?) (simp_all add: assms(1,2) job_page_def)
  then show ?thesis
    by (simp add: JobService_List_def Let_def d j bindE_def list_result_def)
      (simp add: job_page_def assms(2))
qed

text \<open>
  Reading the pages of the job list one after the other, up to the last page the answers
  announce, yields every matching job once, newest first.
\<close>

theorem JobService_List_pages_complete:
  assumes "no_faults w" and "lo_Limit (jl_opts opts) = int l" and "0 < l" and "l < 2 ^ 62"
    and "length (w_jobs w) < 2 ^ 62"
  shows "concat (map (\<lambda>p. case fst (JobService_List (job_page opts p) w) of Inr r \<Rightarrow> Data r | Inl _ \<Rightarrow> [])
      [0..<nat (LastPage (CalculateMeta (int (length (filter (job_matches opts) (w_jobs w)))) 1 (int l)))])
    = order_by queued_desc (filter (job_matches opts) (w_jobs w))"
proof -
  let ?rows = "order_by queued_desc (filter (job_matches opts) (w_jobs w))"
  let ?t = "length (filter (job_matches opts) (w_jobs w))"
  let ?n = "nat (LastPage (CalculateMeta (int ?t) 1 (int l)))"
  have t: "?t < 2 ^ 62" using assms(5) by (meson le_less_trans length_filter_le)
  have page: "(case fst (JobService_List (job_page opts p) w) of Inr r \<Rightarrow> Data r | Inl _ \<Rightarrow> [])
      = take l (drop (p * l) ?rows)" if "p < ?n" for p
  proof -
    have "p * l < 2 ^ 62" using LastPage_bound [OF assms(3,4) t that] t by simp
    moreover from this have "p < 2 ^ 62" using assms(3) by (metis le_less_trans mult.commute mult_le_mono1 nat_mult_1 Suc_leI One_nat_def)
    ultimately show ?thesis using JobService_List_page [OF assms(1,2) _ _ assms(3)] by simp
  qed
  have "concat (map (\<lambda>p. case fst (JobService_List (job_page opts p) w) of Inr r \<Rightarrow> Data r | Inl _ \<Rightarrow> []) [0..<?n])
      = concat (map (\<lambda>p. take l (drop (p * l) ?rows)) [0..<?n])"
    by (intro arg_cong [of _ _ concat] map_cong) (auto simp: page)
  also have "\<dots> = take (?n * l) ?rows" by (rule concat_pages [OF assms(3)])
  also have "\<dots> = ?rows" using LastPage_covers [OF assms(3,4) t, of 1] by simp
  finally show ?thesis .
qed

definition job_numbered :: "int \<Rightarrow> Job" where
  "job_numbered i = Job0\<lparr>j_ID := i, j_Type := JobTypeAppStart, j_Status := JobQueued, j_QueuedAt := Some i\<rparr>"

definition all_jobs :: JobListOptions where
  "all_jobs = \<lparr>jl_opts = \<lparr>lo_Page = 0, lo_Limit = 2, lo_Search = [], lo_IsPaginate = True\<rparr>, jl_TraceID = None,
     jl_ServerID = None, jl_ApplicationID = None, jl_DeploymentID = None, jl_Type = [], jl_Statuses = []\<rparr>"

theorem JobService_List_pages_complete_witness:
  "concat (map (\<lambda>p. case fst (JobService_List (job_page all_jobs p)
        (empty_world\<lparr>w_jobs := map job_numbered [1, 2, 3]\<rparr>)) of Inr r \<Rightarrow> Data r | Inl _ \<Rightarrow> []) [0..<2])
    = map job_numbered [3, 2, 1]"
proof -
  let ?w = "empty_world\<lparr>w_jobs := map job_numbered [1, 2, 3]\<rparr>"
  have m: "filter (job_matches all_jobs) (w_jobs ?w) = map job_numbered [1, 2, 3]"
    by (simp add: job_matches_def all_jobs_def opt_eq_def)
  have "no_faults ?w" "lo_Limit (jl_opts all_jobs) = int 2"
    by (simp_all add: no_faults_def empty_world_def all_jobs_def)
  from JobService_List_pages_complete [OF this, unfolded m] show ?thesis
    by (simp add: CalculateMeta_def go_div_def go_mod_def wrap64_def order_by_Cons queued_desc_def job_numbered_def upt_rec)
qed

end
