(* ===== verification/Deployments.thy ===== *)
theory Deployments
  imports Logs Payloads
begin

text \<open>
  Deployments: \<open>internal/adapters/postgres/deployment_repo.go\<close>,
  \<open>internal/application/deployment/service.go\<close> and the listener that makes a deployment follow
  its job, \<open>internal/application/deployment/listener.go\<close>.
\<close>

section \<open>Repository\<close>

definition deployment_matches :: "DeploymentListOptions \<Rightarrow> Deployment \<Rightarrow> bool" where
  "deployment_matches opts d \<longleftrightarrow>
     opt_eq (dl_ApplicationID opts) (Some (d_ApplicationID d)) \<and>
     opt_eq (dl_DeployedBy opts) (d_DeployedBy d) \<and>
     (dl_Statuses opts \<noteq> [] \<longrightarrow> d_Status d \<in> set (dl_Statuses opts))"

definition triggered_desc :: "Deployment \<Rightarrow> Deployment \<Rightarrow> bool" where
  "triggered_desc a b \<longleftrightarrow> d_TriggeredAt b \<le> d_TriggeredAt a"

text \<open>\<open>LEFT JOIN users u ON d.deployed_by = u.id\<close>.\<close>

definition with_deployer :: "world \<Rightarrow> Deployment \<Rightarrow> Deployment" where
  "with_deployer w d = d\<lparr>d_Deployer :=
     (case d_DeployedBy d of None \<Rightarrow> None
      | Some uid \<Rightarrow> map_option (\<lambda>u. \<lparr>dp_ID = u_ID u, dp_Name = u_Name u, dp_Email = u_Email u,
            dp_RoleID = u_RoleID u\<rparr>) (find (\<lambda>u. u_ID u = uid) (w_users w))),
     d_Logs := []\<rparr>"

definition DeploymentRepo_List :: "DeploymentListOptions \<Rightarrow> (world, Deployment list \<times> int) op" where
  "DeploymentRepo_List opts = paged ''failed to count deployments'' ''failed to query deployments''
     (dl_opts opts) (\<lambda>w. map (with_deployer w)
       (order_by triggered_desc (filter (deployment_matches opts) (w_deployments w))))"

definition DeploymentRepo_GetByID :: "int \<Rightarrow> (world, Deployment) op" where
  "DeploymentRepo_GetByID deploymentID =
     catchE (db_exec (\<lambda>w. case find (\<lambda>d. d_ID d = deploymentID) (w_deployments w) of
         None \<Rightarrow> (Inl ErrNoRows, w)
       | Some d \<Rightarrow> (Inr (with_deployer w d), w)))
     (\<lambda>err. if err = ErrNoRows then failE ErrDeploymentNotFound
            else failE (Wrapped ''failed to scan deployment'' err))"

text \<open>The foreign keys of \<open>migrations/004_deployments.up.sql\<close>.\<close>

definition deployment_refs_ok :: "world \<Rightarrow> Deployment \<Rightarrow> bool" where
  "deployment_refs_ok w d \<longleftrightarrow> d_ApplicationID d \<in> a_ID ` set (w_apps w) \<and>
     refers (d_DeployedBy d) (u_ID ` set (w_users w))"

definition DeploymentRepo_Create :: "Deployment \<Rightarrow> (world, Deployment) op" where
  "DeploymentRepo_Create d = bindE time_Now (\<lambda>now. wrapE ''failed to create deployment'' (db_exec (\<lambda>w.
     let i = w_deployment_seq w; w' = w\<lparr>w_deployment_seq := i + 1\<rparr>;
         row = Deployment0\<lparr>d_ID := i, d_ApplicationID := d_ApplicationID d, d_Branch := d_Branch d,
           d_DeployedBy := d_DeployedBy d, d_Status := DeploymentPending, d_TriggeredAt := now,
           d_EnvSnapshot := Some (JObj [])\<rparr>
     in if deployment_refs_ok w d
        then (Inr (d\<lparr>d_ID := i, d_TriggeredAt := now\<rparr>), w'\<lparr>w_deployments := w_deployments w @ [row]\<rparr>)
        else (Inl ErrDB, w'))))"

text \<open>\<open>UPDATE deployments SET f WHERE id = deploymentID RETURNING ...\<close>.\<close>

definition deployment_update ::
    "int \<Rightarrow> (world \<Rightarrow> Deployment \<Rightarrow> Deployment) \<Rightarrow> (world, Deployment) op" where
  "deployment_update deploymentID f = (\<lambda>w.
     case find (\<lambda>d. d_ID d = deploymentID) (w_deployments w) of
       None \<Rightarrow> (Inl ErrNoRows, w)
     | Some d \<Rightarrow> (Inr (f w d),
         w\<lparr>w_deployments := update_where (\<lambda>d. d_ID d = deploymentID) (f w) (w_deployments w)\<rparr>))"

definition DeploymentRepo_Start :: "int \<Rightarrow> (world, Deployment) op" where
  "DeploymentRepo_Start deploymentID = bindE time_Now (\<lambda>now.
     wrapE ''failed to start deployment'' (bindE (db_exec (deployment_update deploymentID
       (\<lambda>_ d. d\<lparr>d_StartedAt := Some now\<rparr>))) (\<lambda>d.
     returnE (Deployment0\<lparr>d_ID := d_ID d, d_ApplicationID := d_ApplicationID d,
       d_StartedAt := d_StartedAt d\<rparr>))))"

definition DeploymentRepo_Finish :: "int \<Rightarrow> (world, Deployment) op" where
  "DeploymentRepo_Finish deploymentID = bindE time_Now (\<lambda>now.
     wrapE ''failed to finish deployment'' (bindE (db_exec (deployment_update deploymentID
       (\<lambda>_ d. d\<lparr>d_FinishedAt := Some now\<rparr>))) (\<lambda>d.
     returnE (Deployment0\<lparr>d_ID := d_ID d, d_ApplicationID := d_ApplicationID d,
       d_Status := d_Status d, d_FinishedAt := d_FinishedAt d\<rparr>))))"

definition deployment_not_found :: "string \<Rightarrow> error \<Rightarrow> (world, Deployment) op" where
  "deployment_not_found msg err =
     failE (if err = ErrNoRows then ErrDeploymentNotFound else Wrapped msg err)"

definition DeploymentRepo_UpdateStatus :: "int \<Rightarrow> string \<Rightarrow> (world, Deployment) op" where
  "DeploymentRepo_UpdateStatus deploymentID status =
     bindE (catchE (db_exec (deployment_update deploymentID (\<lambda>_ d. d\<lparr>d_Status := status\<rparr>)))
       (deployment_not_found ''failed to update deployment status'')) (\<lambda>d.
     returnE (Deployment0\<lparr>d_ID := d_ID d, d_ApplicationID := d_ApplicationID d,
       d_Status := d_Status d\<rparr>))"

definition DeploymentRepo_UpdateCommitInfo :: "int \<Rightarrow> string \<Rightarrow> string \<Rightarrow> (world, Deployment) op" where
  "DeploymentRepo_UpdateCommitInfo deploymentID commitHash commitMessage =
     bindE (catchE (db_exec (deployment_update deploymentID
       (\<lambda>_ d. d\<lparr>d_CommitHash := Some commitHash, d_CommitMessage := Some commitMessage\<rparr>)))
       (deployment_not_found ''failed to update deployment commit info'')) (\<lambda>d.
     returnE (Deployment0\<lparr>d_ID := d_ID d, d_ApplicationID := d_ApplicationID d,
       d_CommitHash := d_CommitHash d, d_CommitMessage := d_CommitMessage d\<rparr>))"

text \<open>
  The two sub-queries of \<open>UpdateEnvSnapshot\<close>: the latest earlier successful deployment of the
  same application.
\<close>

definition id_desc :: "Deployment \<Rightarrow> Deployment \<Rightarrow> bool" where
  "id_desc a b \<longleftrightarrow> d_ID b \<le> d_ID a"

definition previous_success :: "world \<Rightarrow> Deployment \<Rightarrow> Deployment option" where
  "previous_success w d =
     (case order_by id_desc (filter (\<lambda>p. d_ApplicationID p = d_ApplicationID d \<and> d_ID p < d_ID d
            \<and> d_Status p = DeploymentSuccess) (w_deployments w)) of
        [] \<Rightarrow> None | p # _ \<Rightarrow> Some p)"

definition DeploymentRepo_UpdateEnvSnapshot :: "int \<Rightarrow> envmap \<Rightarrow> (world, Deployment) op" where
  "DeploymentRepo_UpdateEnvSnapshot deploymentID snapshot =
     bindE (catchE (db_exec (deployment_update deploymentID
       (\<lambda>w d. d\<lparr>d_EnvSnapshot := Some (enc_env snapshot),
          d_PreviousDeploymentID := map_option d_ID (previous_success w d),
          d_PreviousCommitHash := (case previous_success w d of None \<Rightarrow> None | Some p \<Rightarrow> d_CommitHash p)\<rparr>)))
       (deployment_not_found ''failed to update deployment env snapshot'')) (\<lambda>d.
     returnE (Deployment0\<lparr>d_ID := d_ID d, d_ApplicationID := d_ApplicationID d,
       d_EnvSnapshot := d_EnvSnapshot d, d_PreviousDeploymentID := d_PreviousDeploymentID d,
       d_PreviousCommitHash := d_PreviousCommitHash d\<rparr>))"

section \<open>Properties\<close>

lemma previous_success_latest:
  "case previous_success w d of
     None \<Rightarrow> \<forall>p\<in>set (w_deployments w). \<not> (d_ApplicationID p = d_ApplicationID d \<and> d_ID p < d_ID d \<and> d_Status p = DeploymentSuccess)
   | Some p \<Rightarrow> p \<in> set (w_deployments w) \<and> d_ApplicationID p = d_ApplicationID d \<and> d_ID p < d_ID d \<and>
       d_Status p = DeploymentSuccess \<and>
       (\<forall>p'\<in>set (w_deployments w). d_ApplicationID p' = d_ApplicationID d \<and> d_ID p' < d_ID d \<and>
          d_Status p' = DeploymentSuccess \<longrightarrow> d_ID p' \<le> d_ID p)"
proof -
  let ?P = "\<lambda>p. d_ApplicationID p = d_ApplicationID d \<and> d_ID p < d_ID d \<and> d_Status p = DeploymentSuccess"
  have s: "sorted_wrt id_desc (order_by id_desc (filter ?P (w_deployments w)))"
    by (rule sorted_order_by) (auto simp: id_desc_def)
  show ?thesis
  proof (cases "order_by id_desc (filter ?P (w_deployments w))")
    case Nil
    then show ?thesis by (auto simp: previous_success_def filter_empty_conv)
  next
    case (Cons p ps)
    then have "insert p (set ps) = {p \<in> set (w_deployments w). ?P p}"
      by (metis list.simps(15) set_filter set_order_by)
    with s Cons show ?thesis by (auto simp: previous_success_def id_desc_def)
  qed
qed

text \<open>
  C8. The snapshot of a deployment's environment links it to its predecessor: the latest
  deployment of the same application that came before it and succeeded, or none when there is
  no such deployment; the previous commit is the predecessor's.
\<close>

theorem UpdateEnvSnapshot_links_predecessor:
  assumes "no_faults w" and "find (\<lambda>d. d_ID d = i) (w_deployments w) = Some d"
  shows "\<exists>d' w'. DeploymentRepo_UpdateEnvSnapshot i snap w = (Inr d', w') \<and>
    find (\<lambda>d. d_ID d = i) (w_deployments w') = Some (d\<lparr>d_EnvSnapshot := Some (enc_env snap),
      d_PreviousDeploymentID := d_PreviousDeploymentID d', d_PreviousCommitHash := d_PreviousCommitHash d'\<rparr>) \<and>
    (case d_PreviousDeploymentID d' of
       None \<Rightarrow> \<forall>p\<in>set (w_deployments w). d_ApplicationID p = d_ApplicationID d \<and> d_ID p < i \<longrightarrow> d_Status p \<noteq> DeploymentSuccess
     | Some q \<Rightarrow> \<exists>p\<in>set (w_deployments w). d_ID p = q \<and> d_CommitHash p = d_PreviousCommitHash d' \<and>
         d_ApplicationID p = d_ApplicationID d \<and> q < i \<and> d_Status p = DeploymentSuccess \<and>
         (\<forall>p'\<in>set (w_deployments w). d_ApplicationID p' = d_ApplicationID d \<and> d_ID p' < i \<and>
            d_Status p' = DeploymentSuccess \<longrightarrow> d_ID p' \<le> q))"
proof -
  have i: "d_ID d = i" using find_Some_set [OF assms(2)] by simp
  have pc: "previous_success (w\<lparr>w_calls := n\<rparr>) = previous_success w" for n
    by (simp add: previous_success_def fun_eq_iff)
  let ?f = "\<lambda>d. d\<lparr>d_EnvSnapshot := Some (enc_env snap),
    d_PreviousDeploymentID := map_option d_ID (previous_success w d),
    d_PreviousCommitHash := (case previous_success w d of None \<Rightarrow> None | Some p \<Rightarrow> d_CommitHash p)\<rparr>"
  have "DeploymentRepo_UpdateEnvSnapshot i snap w = (Inr (Deployment0\<lparr>d_ID := i, d_ApplicationID := d_ApplicationID d,
      d_EnvSnapshot := Some (enc_env snap), d_PreviousDeploymentID := map_option d_ID (previous_success w d),
      d_PreviousCommitHash := (case previous_success w d of None \<Rightarrow> None | Some p \<Rightarrow> d_CommitHash p)\<rparr>),
      w\<lparr>w_calls := Suc (w_calls w), w_deployments := update_where (\<lambda>d. d_ID d = i) ?f (w_deployments w)\<rparr>)"
    using assms i by (simp add: DeploymentRepo_UpdateEnvSnapshot_def bindE_def catchE_def db_exec_ok
        deployment_update_def pc)
  moreover have "find (\<lambda>d. d_ID d = i) (update_where (\<lambda>d. d_ID d = i) ?f (w_deployments w)) = Some (?f d)"
    using assms(2) i by (subst find_update_where_key [where k = d_ID]) auto
  ultimately show ?thesis
    using previous_success_latest [of w d] i by (cases "previous_success w d") auto
qed

definition linked_world :: world where
  "linked_world = empty_world\<lparr>w_deployments :=
     [Deployment0\<lparr>d_ID := 1, d_ApplicationID := 4, d_Status := DeploymentSuccess, d_CommitHash := Some ''aaaa''\<rparr>,
      Deployment0\<lparr>d_ID := 2, d_ApplicationID := 4, d_Status := DeploymentFailed\<rparr>,
      Deployment0\<lparr>d_ID := 3, d_ApplicationID := 4, d_Status := DeploymentPending\<rparr>]\<rparr>"

theorem UpdateEnvSnapshot_links_predecessor_witness:
  "\<exists>d' w'. DeploymentRepo_UpdateEnvSnapshot 3 [] linked_world = (Inr d', w') \<and> d_PreviousDeploymentID d' = Some 1"
proof -
  have "no_faults linked_world"
    "find (\<lambda>d. d_ID d = 3) (w_deployments linked_world) = Some (w_deployments linked_world ! 2)"
    by (simp_all add: no_faults_def empty_world_def linked_world_def Deployment0_def)
  from UpdateEnvSnapshot_links_predecessor [OF this, of "[]"] show ?thesis
    by (elim ex_forward) (auto simp: linked_world_def Deployment0_def split: option.splits)
qed

end
