(* ===== verification/DeploymentService.thy ===== *)
theory DeploymentService
  imports Deployments
begin

text \<open>
  \<open>internal/application/deployment/service.go\<close> and \<open>listener.go\<close>: the operations on
  deployments, the comparison of a deployment with the one before it, and the subscriber that
  makes a deployment's status follow its job.
\<close>

section \<open>Operations\<close>

definition DeploymentService_List :: "DeploymentListOptions \<Rightarrow> (world, Deployment ListResult) op" where
  "DeploymentService_List opts =
    (let opts = opts\<lparr>dl_opts := list_defaults 1000 (dl_opts opts)\<rparr> in
     bindE (DeploymentRepo_List opts) (\<lambda>r. returnE (list_result (dl_opts opts) r)))"

definition deployment_log_options :: "int \<Rightarrow> LogListOptions" where
  "deployment_log_options deploymentID = \<lparr>
     ll_opts = \<lparr>lo_Page = 0, lo_Limit = 200, lo_Search = [], lo_IsPaginate = False\<rparr>,
     ll_TraceID = None, ll_JobID = None, ll_ServerID = None, ll_ApplicationID = None,
     ll_DeploymentID = Some deploymentID, ll_Levels = [], ll_Sources = [], ll_Actions = []\<rparr>"

definition DeploymentService_GetByID :: "int \<Rightarrow> (world, Deployment) op" where
  "DeploymentService_GetByID deploymentID =
     bindE (DeploymentRepo_GetByID deploymentID) (\<lambda>d.
     bindE (LogService_List (deployment_log_options (d_ID d))) (\<lambda>logs.
     returnE (if Data logs \<noteq> [] then d\<lparr>d_Logs := Data logs\<rparr> else d)))"

record DeploymentCreateRequest =
  dc_ApplicationID :: int
  dc_Branch :: string
  dc_DeployedBy :: "int option"

text \<open>The event dereferences \<open>DeployedBy\<close>, which panics when it is nil and there is a bus.\<close>

definition DeploymentService_Create ::
    "world Bus \<Rightarrow> DeploymentCreateRequest \<Rightarrow> (world, Deployment) op" where
  "DeploymentService_Create bus req =
     bindE (DeploymentRepo_Create (Deployment0\<lparr>d_ApplicationID := dc_ApplicationID req,
       d_Branch := dc_Branch req, d_DeployedBy := dc_DeployedBy req,
       d_Status := DeploymentPending\<rparr>)) (\<lambda>created.
     bindE (case d_DeployedBy created of
         None \<Rightarrow> failE (GoPanic ''nil pointer dereference'')
       | Some by \<Rightarrow> Publish bus ''deployment_created'' (DeploymentCreatedEv
          \<lparr>edc_DeploymentID = d_ID created, edc_ApplicationID = d_ApplicationID created,
           edc_DeployedBy = by, edc_TriggeredAt = d_TriggeredAt created\<rparr>)) (\<lambda>_.
     returnE created))"

definition DeploymentService_Start :: "world Bus \<Rightarrow> int \<Rightarrow> (world, unit) op" where
  "DeploymentService_Start bus deploymentID =
     bindE (DeploymentRepo_Start deploymentID) (\<lambda>d.
     case d_StartedAt d of
       None \<Rightarrow> failE (GoPanic ''nil pointer dereference'')
     | Some t \<Rightarrow> Publish bus ''deployment_started'' (DeploymentStartedEv
        \<lparr>eds_DeploymentID = d_ID d, eds_ApplicationID = d_ApplicationID d, eds_StartedAt = t\<rparr>))"

definition DeploymentService_Finish :: "world Bus \<Rightarrow> int \<Rightarrow> (world, unit) op" where
  "DeploymentService_Finish bus deploymentID =
     bindE (DeploymentRepo_Finish deploymentID) (\<lambda>d.
     case d_FinishedAt d of
       None \<Rightarrow> failE (GoPanic ''nil pointer dereference'')
     | Some t \<Rightarrow> Publish bus ''deployment_finished'' (DeploymentFinishedEv
        \<lparr>edf_DeploymentID = d_ID d, edf_ApplicationID = d_ApplicationID d,
         edf_Status = d_Status d, edf_FinishedAt = t\<rparr>))"

definition DeploymentService_UpdateStatus :: "world Bus \<Rightarrow> int \<Rightarrow> string \<Rightarrow> (world, unit) op" where
  "DeploymentService_UpdateStatus bus deploymentID status =
     bindE (DeploymentRepo_UpdateStatus deploymentID status) (\<lambda>d.
     Publish bus ''deployment_status_changed'' (DeploymentStatusChangedEv
        \<lparr>edx_DeploymentID = d_ID d, edx_ApplicationID = d_ApplicationID d, edx_Status = d_Status d\<rparr>))"

definition DeploymentService_UpdateCommitInfo ::
    "world Bus \<Rightarrow> int \<Rightarrow> string \<Rightarrow> string \<Rightarrow> (world, unit) op" where
  "DeploymentService_UpdateCommitInfo bus deploymentID commitHash commitMessage =
     bindE (DeploymentRepo_UpdateCommitInfo deploymentID commitHash commitMessage) (\<lambda>d.
     case (d_CommitHash d, d_CommitMessage d) of
       (Some h, Some m) \<Rightarrow> Publish bus ''deployment_commit_info_received'' (DeploymentCommitInfoReceivedEv
          \<lparr>edi_DeploymentID = d_ID d, edi_ApplicationID = d_ApplicationID d,
           edi_CommitHash = h, edi_CommitMessage = m\<rparr>)
     | _ \<Rightarrow> failE (GoPanic ''nil pointer dereference''))"

definition DeploymentService_UpdateEnvSnapshot :: "int \<Rightarrow> envmap \<Rightarrow> (world, unit) op" where
  "DeploymentService_UpdateEnvSnapshot deploymentID snapshot =
     bindE (DeploymentRepo_UpdateEnvSnapshot deploymentID snapshot) (\<lambda>_. returnE ())"

section \<open>The difference of two deployments\<close>

text \<open>
  \<open>_ = json.Unmarshal(snapshot, &env)\<close> on a \<open>map[string]string\<close>: the error is dropped; a
  member that is not a string is stored as the empty string; anything but an object leaves
  the map empty.
\<close>

definition snapshot_env :: "json option \<Rightarrow> envmap" where
  "snapshot_env raw = (case raw of
     Some (JObj kvs) \<Rightarrow> env_sets (map (\<lambda>(k, j). (k, case j of JStr s \<Rightarrow> s | _ \<Rightarrow> [])) kvs) []
   | _ \<Rightarrow> [])"

definition env_additions :: "envmap \<Rightarrow> EnvDiffEntry list" where
  "env_additions cur = map (\<lambda>(k, v). \<lparr>ed_Key = k, ed_Old = [], ed_New = v\<rparr>) cur"

text \<open>
  The loops range over Go maps, whose order is not specified; the lists below have one of
  the possible orders.
\<close>

definition DeploymentService_Diff :: "int \<Rightarrow> (world, DeploymentDiff) op" where
  "DeploymentService_Diff deploymentID =
     bindE (DeploymentRepo_GetByID deploymentID) (\<lambda>d.
     let cur = snapshot_env (d_EnvSnapshot d);
         diff = \<lparr>dd_DeploymentID = d_ID d, dd_CommitFrom = None, dd_CommitTo = d_CommitHash d,
           dd_CommitMessage = d_CommitMessage d, dd_HasPrevious = False, dd_EnvAdditions = [],
           dd_EnvRemovals = [], dd_EnvUpdates = []\<rparr>
     in case d_PreviousDeploymentID d of
       None \<Rightarrow> returnE (diff\<lparr>dd_EnvAdditions := env_additions cur\<rparr>)
     | Some prevID \<Rightarrow> (\<lambda>w. case DeploymentRepo_GetByID prevID w of
         (Inl _, w') \<Rightarrow> (Inr (diff\<lparr>dd_EnvAdditions := env_additions cur\<rparr>), w')
       | (Inr prev, w') \<Rightarrow>
           (let prevEnv = snapshot_env (d_EnvSnapshot prev) in
            (Inr (diff\<lparr>dd_HasPrevious := True, dd_CommitFrom := d_CommitHash prev,
              dd_EnvAdditions := env_additions (filter (\<lambda>(k, v). map_of prevEnv k = None) cur),
              dd_EnvUpdates := concat (map (\<lambda>(k, v). case map_of prevEnv k of None \<Rightarrow> []
                | Some oldV \<Rightarrow> if oldV \<noteq> v then [\<lparr>ed_Key = k, ed_Old = oldV, ed_New = v\<rparr>] else []) cur),
              dd_EnvRemovals := map (\<lambda>(k, v). \<lparr>ed_Key = k, ed_Old = v, ed_New = []\<rparr>)
                (filter (\<lambda>(k, v). map_of cur k = None) prevEnv)\<rparr>), w'))))"

section \<open>The listener\<close>

definition is_deployment_job :: "string \<Rightarrow> bool" where
  "is_deployment_job t \<longleftrightarrow> t = JobTypeAppDeploy \<or> t = JobTypeAppRollback"

definition DeploymentListener_handleJobCreated :: "world Bus \<Rightarrow> world handler" where
  "DeploymentListener_handleJobCreated bus ev w = (case ev of
     JobCreatedEv evt \<Rightarrow> (case (ejc_DeploymentID evt, ejc_ApplicationID evt) of
       (Some d, Some _) \<Rightarrow>
         if \<not> is_deployment_job (ejc_Type evt) then w
         else snd (ignoreE (DeploymentService_UpdateStatus bus d DeploymentPending) w)
     | _ \<Rightarrow> w)
   | _ \<Rightarrow> w)"

definition DeploymentListener_handleJobStarted :: "world Bus \<Rightarrow> world handler" where
  "DeploymentListener_handleJobStarted bus ev w = (case ev of
     JobStartedEv evt \<Rightarrow> (case (ejs_DeploymentID evt, ejs_ApplicationID evt) of
       (Some d, Some _) \<Rightarrow>
         if \<not> is_deployment_job (ejs_Type evt) then w
         else snd (bindE (ignoreE (DeploymentService_UpdateStatus bus d DeploymentDeploying)) (\<lambda>_.
                DeploymentService_Start bus d) w)
     | _ \<Rightarrow> w)
   | _ \<Rightarrow> w)"

definition DeploymentListener_handleJobFinished :: "world Bus \<Rightarrow> world handler" where
  "DeploymentListener_handleJobFinished bus ev w = (case ev of
     JobFinishedEv evt \<Rightarrow> (case (ejf_DeploymentID evt, ejf_ApplicationID evt) of
       (Some d, Some _) \<Rightarrow>
         if \<not> is_deployment_job (ejf_Type evt) then w
         else (let status = (if ejf_Status evt = JobFailed then DeploymentFailed else DeploymentSuccess)
               in snd (bindE (ignoreE (DeploymentService_UpdateStatus bus d status)) (\<lambda>_.
                    DeploymentService_Finish bus d) w))
     | _ \<Rightarrow> w)
   | _ \<Rightarrow> w)"

definition DeploymentListener_Register :: "world Bus \<Rightarrow> world Bus \<Rightarrow> world Bus" where
  "DeploymentListener_Register svc_bus bus =
     Subscribe ''job_finished'' (DeploymentListener_handleJobFinished svc_bus)
     (Subscribe ''job_started'' (DeploymentListener_handleJobStarted svc_bus)
     (Subscribe ''job_created'' (DeploymentListener_handleJobCreated svc_bus) bus))"

section \<open>Properties\<close>

definition env_sets_of :: "EnvDiffEntry list \<Rightarrow> envmap" where
  "env_sets_of es = map (\<lambda>e. (ed_Key e, ed_New e)) es"

definition apply_diff :: "DeploymentDiff \<Rightarrow> envmap \<Rightarrow> string \<Rightarrow> string option" where
  "apply_diff diff m k = (if k \<in> ed_Key ` set (dd_EnvRemovals diff) then None
     else (map_of m ++ map_of (env_sets_of (dd_EnvAdditions diff)) ++ map_of (env_sets_of (dd_EnvUpdates diff))) k)"

lemma distinct_snapshot_env: "distinct (map fst (snapshot_env raw))"
  by (auto simp: snapshot_env_def distinct_env_sets split: option.splits json.splits)

lemma sets_of_additions: "env_sets_of (env_additions xs) = xs"
  by (induction xs) (auto simp: env_sets_of_def env_additions_def)

lemma map_of_filter_key: "map_of (filter (\<lambda>(k, v). P k) xs) k = (if P k then map_of xs k else None)"
  by (induction xs) auto

lemma sets_of_updates:
  "distinct (map fst cur) \<Longrightarrow>
   map_of (env_sets_of (concat (map (\<lambda>(k, v). case f k of None \<Rightarrow> []
      | Some oldV \<Rightarrow> if oldV \<noteq> v then [\<lparr>ed_Key = k, ed_Old = oldV, ed_New = v\<rparr>] else []) cur))) k =
   (case (f k, map_of cur k) of (Some oldV, Some v) \<Rightarrow> if oldV \<noteq> v then Some v else None | _ \<Rightarrow> None)"
proof (induction cur)
  case (Cons kv cur)
  have "map_of cur (fst kv) = None" using Cons.prems by (auto simp: map_of_eq_None_iff)
  with Cons show ?case
    by (cases kv; cases "f k"; cases "k = fst kv") (auto simp: env_sets_of_def split: option.splits)
qed (simp add: env_sets_of_def split: option.split)

lemma with_deployer_calls: "with_deployer (w\<lparr>w_calls := n\<rparr>) d = with_deployer w d"
  by (simp add: with_deployer_def cong: option.case_cong)

lemma deployment_found:
  "no_faults w \<Longrightarrow> find (\<lambda>d. d_ID d = i) (w_deployments w) = Some d \<Longrightarrow>
    DeploymentRepo_GetByID i w = (Inr (with_deployer w d), w\<lparr>w_calls := Suc (w_calls w)\<rparr>)"
  by (simp add: DeploymentRepo_GetByID_def catchE_def db_exec_ok with_deployer_calls)

text \<open>
  C7. The difference reported for a deployment with a predecessor is right: applied to the
  environment of the predecessor it gives the environment of the deployment, additions are new
  keys, removals are keys that are gone, updates have the old and the new value of a key that
  changed, and the commits are those of the two deployments.
\<close>

theorem Diff_is_the_difference:
  assumes "no_faults w" and "find (\<lambda>d. d_ID d = i) (w_deployments w) = Some d"
    and "d_PreviousDeploymentID d = Some q" and "find (\<lambda>d. d_ID d = q) (w_deployments w) = Some p"
  shows "\<exists>diff. fst (DeploymentService_Diff i w) = Inr diff \<and>
    apply_diff diff (snapshot_env (d_EnvSnapshot p)) = map_of (snapshot_env (d_EnvSnapshot d)) \<and>
    (\<forall>e\<in>set (dd_EnvAdditions diff). map_of (snapshot_env (d_EnvSnapshot p)) (ed_Key e) = None) \<and>
    (\<forall>e\<in>set (dd_EnvRemovals diff). map_of (snapshot_env (d_EnvSnapshot d)) (ed_Key e) = None) \<and>
    (\<forall>e\<in>set (dd_EnvUpdates diff). map_of (snapshot_env (d_EnvSnapshot p)) (ed_Key e) = Some (ed_Old e) \<and>
       ed_Old e \<noteq> ed_New e) \<and>
    dd_CommitFrom diff = d_CommitHash p \<and> dd_CommitTo diff = d_CommitHash d"
proof -
  let ?cur = "snapshot_env (d_EnvSnapshot d)" and ?prev = "snapshot_env (d_EnvSnapshot p)"
  let ?add = "env_additions (filter (\<lambda>(k, v). map_of ?prev k = None) ?cur)"
  let ?upd = "concat (map (\<lambda>(k, v). case map_of ?prev k of None \<Rightarrow> []
    | Some oldV \<Rightarrow> if oldV \<noteq> v then [\<lparr>ed_Key = k, ed_Old = oldV, ed_New = v\<rparr>] else []) ?cur)"
  let ?rem = "map (\<lambda>(k, v). \<lparr>ed_Key = k, ed_Old = v, ed_New = []\<rparr>) (filter (\<lambda>(k, v). map_of ?cur k = None) ?prev)"
  let ?diff = "\<lparr>dd_DeploymentID = d_ID d, dd_CommitFrom = d_CommitHash p, dd_CommitTo = d_CommitHash d,
     dd_CommitMessage = d_CommitMessage d, dd_HasPrevious = True, dd_EnvAdditions = ?add,
     dd_EnvRemovals = ?rem, dd_EnvUpdates = ?upd\<rparr>"
  have wd: "d_EnvSnapshot (with_deployer w x) = d_EnvSnapshot x" "d_CommitHash (with_deployer w x) = d_CommitHash x"
    "d_CommitMessage (with_deployer w x) = d_CommitMessage x" "d_ID (with_deployer w x) = d_ID x"
    "d_PreviousDeploymentID (with_deployer w x) = d_PreviousDeploymentID x" for w x
    by (simp_all add: with_deployer_def)
  have eq: "fst (DeploymentService_Diff i w) = Inr ?diff"
    using deployment_found [OF assms(1,2)] deployment_found [OF no_faults_call [OF assms(1)], of q p] assms(3,4)
    by (simp add: DeploymentService_Diff_def bindE_def Let_def wd)
  have rem: "k \<in> ed_Key ` set ?rem \<longleftrightarrow> map_of ?prev k \<noteq> None \<and> map_of ?cur k = None" for k
    by (auto simp: image_iff map_of_eq_None_iff split: prod.splits) (metis (mono_tags, lifting) EnvDiffEntry.select_convs(1) fst_conv prod.collapse)
  have app: "apply_diff ?diff ?prev k = map_of ?cur k" for k
    unfolding apply_diff_def EnvDiffEntry.simps DeploymentDiff.simps rem sets_of_additions
    by (auto simp: map_add_def map_of_filter_key sets_of_updates [OF distinct_snapshot_env] split: option.splits)
  show ?thesis
    unfolding eq
    by (intro exI [where x = ?diff] conjI ext app HOL.refl)
      (auto simp: env_additions_def split: option.splits if_splits)
qed

definition diffed_world :: world where
  "diffed_world = empty_world\<lparr>w_deployments :=
     [Deployment0\<lparr>d_ID := 1, d_CommitHash := Some ''aaaa'', d_EnvSnapshot := Some (JObj [(''A'', JStr ''1''), (''B'', JStr ''2'')])\<rparr>,
      Deployment0\<lparr>d_ID := 2, d_CommitHash := Some ''bbbb'', d_PreviousDeploymentID := Some 1,
        d_EnvSnapshot := Some (JObj [(''B'', JStr ''3''), (''C'', JStr ''4'')])\<rparr>]\<rparr>"

theorem Diff_is_the_difference_witness:
  "\<exists>diff. fst (DeploymentService_Diff 2 diffed_world) = Inr diff \<and>
    apply_diff diff (snapshot_env (Some (JObj [(''A'', JStr ''1''), (''B'', JStr ''2'')]))) ''B'' = Some ''3'' \<and>
    dd_CommitFrom diff = Some ''aaaa''"
proof -
  have "no_faults diffed_world"
    "find (\<lambda>d. d_ID d = 2) (w_deployments diffed_world) = Some (w_deployments diffed_world ! 1)"
    "d_PreviousDeploymentID (w_deployments diffed_world ! 1) = Some 1"
    "find (\<lambda>d. d_ID d = 1) (w_deployments diffed_world) = Some (w_deployments diffed_world ! 0)"
    by (simp_all add: no_faults_def empty_world_def diffed_world_def Deployment0_def)
  from Diff_is_the_difference [OF this] show ?thesis
    by (elim exE) (auto simp: diffed_world_def snapshot_env_def env_sets_def env_set_def Deployment0_def)
qed

end
