(* ===== verification/ApplicationService.thy ===== *)
theory ApplicationService
  imports AppRepo Servers JobService DeploymentService
begin

text \<open>
  \<open>internal/application/application/service.go\<close> and \<open>listener.go\<close>: what users do with an
  application, each action that reaches the server being a job, and the subscriber that makes
  the application's status follow its jobs. The services share one bus, as \<open>internal/app/server.go\<close>
  builds them.
\<close>

section \<open>Operations\<close>

definition AppService_List :: "ApplicationListOptions \<Rightarrow> (world, Application ListResult) op" where
  "AppService_List opts =
    (let opts = opts\<lparr>al_opts := list_defaults 1000 (al_opts opts)\<rparr> in
     bindE (AppRepo_List opts) (\<lambda>r. returnE (list_result (al_opts opts) r)))"

definition AppService_GetByID :: "int \<Rightarrow> (world, Application) op" where
  "AppService_GetByID appID = AppRepo_GetByID appID"

definition env_of_request :: "EnvironmentVariableRequest \<Rightarrow> EnvironmentVariable" where
  "env_of_request env = EnvironmentVariable0\<lparr>e_Key := er_Key env, e_Value := er_Value env,
     e_IsPreview := er_IsPreview env\<rparr>"

definition AppService_Create ::
    "ApplicationRepository \<Rightarrow> world Bus \<Rightarrow> ApplicationCreateRequest \<Rightarrow> (world, Application) op" where
  "AppService_Create r bus req =
     bindE (wrapE ''server not found'' (ServerService_GetByID (ac_ServerID req))) (\<lambda>_.
     bindE (AppRepo_Create (Application0\<lparr>a_ServerID := ac_ServerID req, a_Name := ac_Name req,
       a_RepoName := ac_RepoName req, a_RepoURL := ac_RepoURL req, a_SiteURL := ac_SiteURL req,
       a_Branch := ac_Branch req, a_Status := AppStatusStopped\<rparr>)) (\<lambda>created.
     bindE (AppRepo_SyncEnvVars r (a_ID created) (map env_of_request (ac_EnvVars req))) (\<lambda>_.
     bindE (Publish bus ''application_created'' (ApplicationCreatedEv
       \<lparr>eac_ApplicationID = a_ID created, eac_ServerID = a_ServerID created\<rparr>)) (\<lambda>_.
     returnE created))))"

definition AppService_Update ::
    "ApplicationRepository \<Rightarrow> ApplicationUpdateRequest \<Rightarrow> int \<Rightarrow> (world, unit) op" where
  "AppService_Update r req appID =
     bindE (AppRepo_GetByID appID) (\<lambda>_.
     bindE (AppRepo_Update (Application0\<lparr>a_Name := au_Name req, a_SiteURL := au_SiteURL req,
       a_Branch := au_Branch req\<rparr>) appID) (\<lambda>_.
     AppRepo_SyncEnvVars r appID (map env_of_request (au_EnvVars req))))"

definition busy_statuses :: "string list" where
  "busy_statuses = [AppStatusDeploying, AppStatusStarting, AppStatusRestarting, AppStatusStopping]"

text \<open>A job literal: a fresh trace id, the server, the application, perhaps a deployment.\<close>

definition new_job :: "uuid \<Rightarrow> uuid \<Rightarrow> int \<Rightarrow> int option \<Rightarrow> string \<Rightarrow> json \<Rightarrow> Job" where
  "new_job trace serverID appID deploymentID t payload = Job0\<lparr>j_TraceID := trace,
     j_ServerID := serverID, j_ApplicationID := Some appID, j_DeploymentID := deploymentID,
     j_Type := t, j_Payload := Some payload\<rparr>"

definition AppService_Delete :: "world Bus \<Rightarrow> int \<Rightarrow> (world, unit) op" where
  "AppService_Delete bus appID =
     bindE (AppRepo_GetByID appID) (\<lambda>app.
     if ContainsAny (a_Status app) busy_statuses
     then failE (ErrMsg (''application cannot be deleted while it is '' @ a_Status app @
            ''; please wait for the operation to finish.''))
     else bindE uuid_New (\<lambda>trace.
     bindE (JobService_Create bus (new_job trace (a_ServerID app) appID None JobTypeAppDestroy
       (enc_AppInfo \<lparr>ai_ApplicationID = a_ID app, ai_AppKey = GetAppKey app\<rparr>))) (\<lambda>_.
     AppRepo_Delete appID)))"

definition AppService_UpdateStatus :: "world Bus \<Rightarrow> int \<Rightarrow> string \<Rightarrow> (world, unit) op" where
  "AppService_UpdateStatus bus appID status =
     bindE (AppRepo_UpdateStatus appID status) (\<lambda>_.
     Publish bus ''application_status_changed'' (ApplicationStatusChangedEv
       \<lparr>eax_ApplicationID = appID, eax_Status = status\<rparr>))"

definition AppService_UpdateLastDeployment :: "int \<Rightarrow> (world, unit) op" where
  "AppService_UpdateLastDeployment appID = AppRepo_UpdateLastDeployment appID"

definition env_map :: "EnvironmentVariable list \<Rightarrow> envmap" where
  "env_map envVars = env_sets (map (\<lambda>e. (e_Key e, e_Value e)) envVars) []"

text \<open>The last step of \<open>Deploy\<close> and \<open>Rollback\<close>: the job, or a failed application.\<close>

definition create_job_or_fail :: "world Bus \<Rightarrow> int \<Rightarrow> string \<Rightarrow> Job \<Rightarrow> (world, Job) op" where
  "create_job_or_fail bus appID msg job =
     catchE (JobService_Create bus job) (\<lambda>err.
       bindE (ignoreE (AppRepo_UpdateStatus appID AppStatusFailed)) (\<lambda>_.
       failE (Wrapped msg err)))"

definition AppService_Deploy ::
    "ApplicationRepository \<Rightarrow> world Bus \<Rightarrow> int \<Rightarrow> int \<Rightarrow> (world, Deployment) op" where
  "AppService_Deploy r bus appID deployedBy =
     bindE (AppRepo_GetByID appID) (\<lambda>app.
     bindE (wrapE ''failed to fetch env vars'' (AppRepo_ListEnvVars r appID)) (\<lambda>envVars.
     let envMap = env_map envVars in
     bindE (wrapE ''failed to create deployment record'' (DeploymentService_Create bus
       \<lparr>dc_ApplicationID = appID, dc_Branch = a_Branch app, dc_DeployedBy = Some deployedBy\<rparr>)) (\<lambda>deployment.
     bindE (wrapE ''failed to snapshot env vars''
       (DeploymentService_UpdateEnvSnapshot (d_ID deployment) envMap)) (\<lambda>_.
     bindE uuid_New (\<lambda>trace.
     bindE (create_job_or_fail bus appID ''failed to create deployment job''
       (new_job trace (a_ServerID app) appID (Some (d_ID deployment)) JobTypeAppDeploy
         (enc_AppDeployPayload \<lparr>pd_ApplicationID = appID, pd_DeploymentID = d_ID deployment,
            pd_AppKey = GetAppKey app, pd_RepoURL = a_RepoURL app, pd_Branch = a_Branch app,
            pd_EnvVars = envMap\<rparr>))) (\<lambda>_.
     returnE deployment))))))"

definition last_success_options :: "int \<Rightarrow> DeploymentListOptions" where
  "last_success_options appID = \<lparr>
     dl_opts = \<lparr>lo_Page = 0, lo_Limit = 1, lo_Search = [], lo_IsPaginate = False\<rparr>,
     dl_ApplicationID = Some appID, dl_DeployedBy = None, dl_Statuses = [''success'']\<rparr>"

definition rollback_hash :: "Deployment list \<Rightarrow> string option" where
  "rollback_hash prev = (case prev of
     [] \<Rightarrow> None
   | d # _ \<Rightarrow> (case d_CommitHash d of None \<Rightarrow> None | Some h \<Rightarrow> if h = [] then None else Some h))"

definition AppService_Rollback ::
    "ApplicationRepository \<Rightarrow> world Bus \<Rightarrow> int \<Rightarrow> int \<Rightarrow> (world, Deployment) op" where
  "AppService_Rollback r bus appID deployedBy =
     bindE (AppRepo_GetByID appID) (\<lambda>app.
     bindE (wrapE ''failed to fetch previous deployments''
       (DeploymentService_List (last_success_options appID))) (\<lambda>result.
     case rollback_hash (Data result) of
       None \<Rightarrow> failE (ErrMsg ''no successful deployment to roll back to'')
     | Some hash \<Rightarrow>
     let imageTag = GetAppKey app @ '':'' @ hash in
     bindE (wrapE ''failed to fetch env vars'' (AppRepo_ListEnvVars r appID)) (\<lambda>envVars.
     bindE (wrapE ''failed to create deployment record'' (DeploymentService_Create bus
       \<lparr>dc_ApplicationID = appID, dc_Branch = a_Branch app, dc_DeployedBy = Some deployedBy\<rparr>)) (\<lambda>deployment.
     bindE uuid_New (\<lambda>trace.
     bindE (create_job_or_fail bus appID ''failed to create rollback job''
       (new_job trace (a_ServerID app) appID (Some (d_ID deployment)) JobTypeAppRollback
         (enc_AppRollbackPayload \<lparr>pr_ApplicationID = appID, pr_DeploymentID = d_ID deployment,
            pr_AppKey = GetAppKey app, pr_ImageTag = imageTag, pr_EnvVars = env_map envVars\<rparr>))) (\<lambda>_.
     returnE deployment))))))"

definition create_app_job :: "world Bus \<Rightarrow> Application \<Rightarrow> int \<Rightarrow> string \<Rightarrow> (world, unit) op" where
  "create_app_job bus app appID t =
     bindE uuid_New (\<lambda>trace.
     bindE (JobService_Create bus (new_job trace (a_ServerID app) appID None t
       (enc_AppInfo \<lparr>ai_ApplicationID = appID, ai_AppKey = GetAppKey app\<rparr>))) (\<lambda>_.
     returnE ()))"

definition AppService_Start :: "world Bus \<Rightarrow> int \<Rightarrow> (world, unit) op" where
  "AppService_Start bus appID =
     bindE (AppRepo_GetByID appID) (\<lambda>app.
     if a_Status app = AppStatusRunning then failE (ErrMsg ''application is already running'')
     else bindE (AppRepo_UpdateStatus appID AppStatusStarting) (\<lambda>_.
       create_app_job bus app appID JobTypeAppStart))"

definition AppService_Stop :: "world Bus \<Rightarrow> int \<Rightarrow> (world, unit) op" where
  "AppService_Stop bus appID =
     bindE (AppRepo_GetByID appID) (\<lambda>app.
     if a_Status app = AppStatusStopped then failE (ErrMsg ''application is already stopped'')
     else create_app_job bus app appID JobTypeAppStop)"

definition AppService_Restart :: "world Bus \<Rightarrow> int \<Rightarrow> (world, unit) op" where
  "AppService_Restart bus appID =
     bindE (AppRepo_GetByID appID) (\<lambda>app.
     bindE (AppRepo_UpdateStatus appID AppStatusRestarting) (\<lambda>_.
       create_app_job bus app appID JobTypeAppRestart))"

definition AppService_ListEnvVars ::
    "ApplicationRepository \<Rightarrow> int \<Rightarrow> (world, EnvironmentVariable list) op" where
  "AppService_ListEnvVars r appID =
     bindE (AppRepo_GetByID appID) (\<lambda>_. AppRepo_ListEnvVars r appID)"

definition AppService_AddEnvVar ::
    "ApplicationRepository \<Rightarrow> int \<Rightarrow> EnvironmentVariableRequest \<Rightarrow> (world, unit) op" where
  "AppService_AddEnvVar r appID req =
     bindE (AppRepo_GetByID appID) (\<lambda>_.
     AppRepo_CreateEnvVar r ((env_of_request req)\<lparr>e_ApplicationID := appID\<rparr>))"

definition AppService_UpdateEnvVar ::
    "ApplicationRepository \<Rightarrow> int \<Rightarrow> string \<Rightarrow> EnvironmentVariableRequest \<Rightarrow> (world, unit) op" where
  "AppService_UpdateEnvVar r appID key req =
     bindE (AppRepo_GetByID appID) (\<lambda>_.
     AppRepo_UpdateEnvVar r ((env_of_request req)\<lparr>e_ApplicationID := appID, e_Key := key\<rparr>))"

definition AppService_DeleteEnvVar :: "int \<Rightarrow> string \<Rightarrow> (world, unit) op" where
  "AppService_DeleteEnvVar appID key =
     bindE (AppRepo_GetByID appID) (\<lambda>_. AppRepo_DeleteEnvVar appID key)"

definition AppService_UpdateHealth :: "uuid \<Rightarrow> ApplicationHealth list \<Rightarrow> (world, unit) op" where
  "AppService_UpdateHealth serverID reports = AppRepo_UpdateHealth serverID reports"

section \<open>The listener\<close>

definition started_status :: "string \<Rightarrow> string option" where
  "started_status t =
    (if t = JobTypeAppDeploy then Some AppStatusDeploying
     else if t = JobTypeAppStart then Some AppStatusStarting
     else if t = JobTypeAppStop then Some AppStatusStopping
     else if t = JobTypeAppRestart then Some AppStatusRestarting
     else if t = JobTypeAppRollback then Some AppStatusDeploying
     else None)"

definition AppListener_handleJobStarted :: "world Bus \<Rightarrow> world handler" where
  "AppListener_handleJobStarted bus ev w = (case ev of
     JobStartedEv evt \<Rightarrow> (case (ejs_ApplicationID evt, started_status (ejs_Type evt)) of
       (Some appID, Some status) \<Rightarrow> snd (AppService_UpdateStatus bus appID status w)
     | _ \<Rightarrow> w)
   | _ \<Rightarrow> w)"

definition AppListener_handleJobFinished :: "world Bus \<Rightarrow> world handler" where
  "AppListener_handleJobFinished bus ev w = (case ev of
     JobFinishedEv evt \<Rightarrow> (case ejf_ApplicationID evt of
       None \<Rightarrow> w
     | Some appID \<Rightarrow>
         if ejf_Status evt = JobFailed then snd (AppService_UpdateStatus bus appID AppStatusFailed w)
         else if ejf_Type evt = JobTypeAppDeploy then
           snd (bindE (ignoreE (AppService_UpdateStatus bus appID AppStatusRunning)) (\<lambda>_.
             AppService_UpdateLastDeployment appID) w)
         else if ejf_Type evt = JobTypeAppStart then snd (AppService_UpdateStatus bus appID AppStatusRunning w)
         else if ejf_Type evt = JobTypeAppStop then snd (AppService_UpdateStatus bus appID AppStatusStopped w)
         else if ejf_Type evt = JobTypeAppRestart then snd (AppService_UpdateStatus bus appID AppStatusRunning w)
         else if ejf_Type evt = JobTypeAppRollback then
           snd (bindE (ignoreE (AppService_UpdateStatus bus appID AppStatusRunning)) (\<lambda>_.
             AppService_UpdateLastDeployment appID) w)
         else w)
   | _ \<Rightarrow> w)"

definition AppListener_Register :: "world Bus \<Rightarrow> world Bus \<Rightarrow> world Bus" where
  "AppListener_Register svc_bus bus =
     Subscribe ''job_finished'' (AppListener_handleJobFinished svc_bus)
     (Subscribe ''job_started'' (AppListener_handleJobStarted svc_bus) bus)"

end
