(* ===== verification/Subscribers.thy ===== *)
theory Subscribers
  imports AppRepo Servers
begin

text \<open>
  The subscribers of the bus that publish nothing themselves: the dashboards' push channel
  (\<open>internal/adapters/ws/userws/subscribers\<close>), the audit log (\<open>internal/application/auditlog\<close>,
  \<open>internal/adapters/postgres/audit_log_repo.go\<close>) and the webhook
  (\<open>internal/adapters/webhook/notifier.go\<close>, \<open>internal/adapters/postgres/settings_repo.go\<close>).
\<close>

section \<open>Dashboards\<close>

definition channel :: "string \<Rightarrow> int \<Rightarrow> string" where
  "channel what i = what @ '':'' @ show_int i"

definition push :: "string \<Rightarrow> string \<Rightarrow> event \<Rightarrow> world \<Rightarrow> world" where
  "push ch name ev = Broadcast \<lparr>ws_Channel = ch, ws_Event = name, ws_Payload = ev\<rparr>"

definition WsApplicationCreated :: "world handler" where
  "WsApplicationCreated ev w = (case ev of
     ApplicationCreatedEv _ \<Rightarrow> push ''applications'' ''application_created'' ev w
   | _ \<Rightarrow> w)"

definition WsApplicationStatusChanged :: "world handler" where
  "WsApplicationStatusChanged ev w = (case ev of
     ApplicationStatusChangedEv e \<Rightarrow>
       push ''applications'' ''application_status_changed'' ev
       (push (channel ''application'' (eax_ApplicationID e)) ''application_status_changed'' ev w)
   | _ \<Rightarrow> w)"

definition WsDeploymentCommitInfoReceived :: "world handler" where
  "WsDeploymentCommitInfoReceived ev w = (case ev of
     DeploymentCommitInfoReceivedEv e \<Rightarrow>
       push ''deployments'' ''deployment_commit_info_received'' ev
       (push (channel ''deployment'' (edi_DeploymentID e)) ''deployment_commit_info_received'' ev w)
   | _ \<Rightarrow> w)"

definition WsDeploymentCreated :: "world handler" where
  "WsDeploymentCreated ev w = (case ev of
     DeploymentCreatedEv _ \<Rightarrow> push ''deployments'' ''deployment_created'' ev w
   | _ \<Rightarrow> w)"

definition WsDeploymentFinished :: "world handler" where
  "WsDeploymentFinished ev w = (case ev of
     DeploymentFinishedEv e \<Rightarrow>
       push ''deployments'' ''deployment_finished'' ev
       (push (channel ''deployment'' (edf_DeploymentID e)) ''deployment_finished'' ev w)
   | _ \<Rightarrow> w)"

definition WsDeploymentStarted :: "world handler" where
  "WsDeploymentStarted ev w = (case ev of
     DeploymentStartedEv e \<Rightarrow>
       push (channel ''deployment'' (eds_DeploymentID e)) ''deployment_started'' ev w
   | _ \<Rightarrow> w)"

definition WsDeploymentStatusChanged :: "world handler" where
  "WsDeploymentStatusChanged ev w = (case ev of
     DeploymentStatusChangedEv e \<Rightarrow>
       push ''deployments'' ''deployment_status_changed'' ev
       (push (channel ''deployment'' (edx_DeploymentID e)) ''deployment_status_changed'' ev w)
   | _ \<Rightarrow> w)"

definition WsJobCreated :: "world handler" where
  "WsJobCreated ev w = (case ev of
     JobCreatedEv _ \<Rightarrow> push ''jobs'' ''job_created'' ev w
   | _ \<Rightarrow> w)"

definition WsJobFinished :: "world handler" where
  "WsJobFinished ev w = (case ev of
     JobFinishedEv e \<Rightarrow> push ''jobs'' ''job_finished'' ev
       (push (channel ''job'' (ejf_JobID e)) ''job_finished'' ev w)
   | _ \<Rightarrow> w)"

definition WsJobStarted :: "world handler" where
  "WsJobStarted ev w = (case ev of
     JobStartedEv e \<Rightarrow> push (channel ''job'' (ejs_JobID e)) ''job_started'' ev w
   | _ \<Rightarrow> w)"

definition WsJobStatusChanged :: "world handler" where
  "WsJobStatusChanged ev w = (case ev of
     JobStatusChangedEv e \<Rightarrow> push ''jobs'' ''job_status_changed'' ev
       (push (channel ''job'' (ejx_JobID e)) ''job_status_changed'' ev w)
   | _ \<Rightarrow> w)"

definition logChannels :: "Log \<Rightarrow> string list" where
  "logChannels l =
    (let channels =
       (case l_JobID l of None \<Rightarrow> [] | Some j \<Rightarrow> [channel ''job'' j]) @
       (case l_DeploymentID l of None \<Rightarrow> [] | Some d \<Rightarrow> [channel ''deployment'' d])
     in if channels = [] then [''logs''] else channels)"

definition WsLogReceived :: "world handler" where
  "WsLogReceived ev w = (case ev of
     LogReceivedEv l \<Rightarrow> foldl (\<lambda>w ch. push ch ''log_received'' ev w) w (logChannels l)
   | _ \<Rightarrow> w)"

definition WsServerStatusChanged :: "world handler" where
  "WsServerStatusChanged ev w = (case ev of
     ServerStatusChangedEv e \<Rightarrow> push ''servers'' ''server_status_changed'' ev
       (push (''server:'' @ w_uuid_string w (esx_ServerID e)) ''server_status_changed'' ev w)
   | _ \<Rightarrow> w)"

text \<open>\<open>Register\<close>, but for the metrics events, which are not modelled.\<close>

definition ws_subscriptions :: "(string \<times> world handler) list" where
  "ws_subscriptions =
     [(''log_received'', WsLogReceived),
      (''server_status_changed'', WsServerStatusChanged),
      (''job_created'', WsJobCreated),
      (''job_started'', WsJobStarted),
      (''job_finished'', WsJobFinished),
      (''job_status_changed'', WsJobStatusChanged),
      (''application_created'', WsApplicationCreated),
      (''application_status_changed'', WsApplicationStatusChanged),
      (''deployment_created'', WsDeploymentCreated),
      (''deployment_started'', WsDeploymentStarted),
      (''deployment_finished'', WsDeploymentFinished),
      (''deployment_status_changed'', WsDeploymentStatusChanged),
      (''deployment_commit_info_received'', WsDeploymentCommitInfoReceived)]"

definition subscribers_Register :: "world Bus \<Rightarrow> world Bus" where
  "subscribers_Register bus = foldl (\<lambda>b (n, h). Subscribe n h b) bus ws_subscriptions"

lemma handlers_foldl_Subscribe:
  "handlers (foldl (\<lambda>b (n, h). Subscribe n h b) bus xs) n =
    handlers bus n @ map snd (filter (\<lambda>(m, h). m = n) xs)"
  by (induction xs arbitrary: bus) auto

lemma handlers_subscribers_Register:
  "handlers (subscribers_Register bus) n =
    handlers bus n @ map snd (filter (\<lambda>(m, h). m = n) ws_subscriptions)"
  by (simp add: subscribers_Register_def handlers_foldl_Subscribe)

end
