(* ===== verification/AuditWebhook.thy ===== *)
theory AuditWebhook
  imports Subscribers
begin

text \<open>
  The audit log (\<open>internal/adapters/postgres/audit_log_repo.go\<close>,
  \<open>internal/application/auditlog\<close>) and the webhook notifier with its settings
  (\<open>internal/adapters/postgres/settings_repo.go\<close>, \<open>internal/adapters/webhook/notifier.go\<close>): both
  listen to the bus and publish nothing.
\<close>

section \<open>Audit log\<close>

record AuditLogListOptions =
  aul_opts :: ListOptions
  aul_Action :: string
  aul_ResourceType :: string

definition audit_matches :: "AuditLogListOptions \<Rightarrow> AuditLog \<Rightarrow> bool" where
  "audit_matches opts l \<longleftrightarrow> (aul_Action opts \<noteq> [] \<longrightarrow> au_Action l = aul_Action opts) \<and>
     (aul_ResourceType opts \<noteq> [] \<longrightarrow> au_ResourceType l = aul_ResourceType opts)"

definition audit_created_desc :: "AuditLog \<Rightarrow> AuditLog \<Rightarrow> bool" where
  "audit_created_desc a b \<longleftrightarrow> au_CreatedAt b \<le> au_CreatedAt a"

text \<open>Unlike the other lists, the rows are always counted.\<close>

definition AuditLogRepo_List :: "AuditLogListOptions \<Rightarrow> (world, AuditLog list \<times> int) op" where
  "AuditLogRepo_List opts =
     bindE (wrapE ''failed to count audit logs'' (db_exec (getsE (\<lambda>w.
       int (length (filter (audit_matches opts) (w_audit w))))))) (\<lambda>tot.
     wrapE ''failed to query audit logs'' (db_exec (\<lambda>w.
       case page_rows (aul_opts opts)
              (order_by audit_created_desc (filter (audit_matches opts) (w_audit w))) of
         None \<Rightarrow> (Inl ErrDB, w)
       | Some r \<Rightarrow> (Inr (r, tot), w))))"

definition AuditLogRepo_Create :: "AuditLog \<Rightarrow> (world, AuditLog) op" where
  "AuditLogRepo_Create l = wrapE ''insert audit log'' (db_exec (\<lambda>w.
     let i = w_audit_seq w; w' = w\<lparr>w_audit_seq := i + 1\<rparr>;
         row = l\<lparr>au_ID := i, au_CreatedAt := w_now w\<rparr>
     in if refers (au_ActorID l) (u_ID ` set (w_users w))
        then (Inr row, w'\<lparr>w_audit := w_audit w @ [row]\<rparr>)
        else (Inl ErrDB, w')))"

definition AuditLogService_Create ::
    "int option \<Rightarrow> string \<Rightarrow> string \<Rightarrow> string \<Rightarrow> json option \<Rightarrow> (world, AuditLog) op" where
  "AuditLogService_Create actorID action resourceType resourceID details =
     AuditLogRepo_Create \<lparr>au_ID = 0, au_ActorID = actorID, au_ActorEmail = [], au_Action = action,
       au_ResourceType = resourceType, au_ResourceID = resourceID,
       au_Details = (case details of None \<Rightarrow> JObj [] | Some d \<Rightarrow> d), au_CreatedAt = 0\<rparr>"

definition AuditLogService_List :: "AuditLogListOptions \<Rightarrow> (world, AuditLog ListResult) op" where
  "AuditLogService_List opts =
    (let opts = opts\<lparr>aul_opts := list_defaults 100 (aul_opts opts)\<rparr> in
     bindE (AuditLogRepo_List opts) (\<lambda>(logs, tot).
     returnE \<lparr>Data = logs, ResMeta = Some (CalculateMeta tot (lo_Page (aul_opts opts))
       (lo_Limit (aul_opts opts)))\<rparr>))"

definition OnDeploymentCreated :: "world handler" where
  "OnDeploymentCreated ev w = (case ev of
     DeploymentCreatedEv e \<Rightarrow> snd (AuditLogService_Create (Some (edc_DeployedBy e))
       ''deployment.created'' ''deployment'' (show_int (edc_DeploymentID e))
       (Some (JObj [(''application_id'', JNum (edc_ApplicationID e))])) w)
   | _ \<Rightarrow> w)"

definition OnDeploymentStatusChanged :: "world handler" where
  "OnDeploymentStatusChanged ev w = (case ev of
     DeploymentStatusChangedEv e \<Rightarrow> snd (AuditLogService_Create None
       (''deployment.'' @ edx_Status e) ''deployment'' (show_int (edx_DeploymentID e))
       (Some (JObj [(''application_id'', JNum (edx_ApplicationID e)), (''status'', JStr (edx_Status e))])) w)
   | _ \<Rightarrow> w)"

definition OnApplicationCreated :: "world handler" where
  "OnApplicationCreated ev w = (case ev of
     ApplicationCreatedEv e \<Rightarrow> snd (AuditLogService_Create None
       ''application.created'' ''application'' (show_int (eac_ApplicationID e))
       (Some (JObj [(''server_id'', JStr (w_uuid_string w (eac_ServerID e)))])) w)
   | _ \<Rightarrow> w)"

definition OnServerStatusChanged :: "world handler" where
  "OnServerStatusChanged ev w = (case ev of
     ServerStatusChangedEv e \<Rightarrow> snd (AuditLogService_Create None
       (''server.status.'' @ (if esx_IsOnline e then ''online'' else ''offline'')) ''server''
       (w_uuid_string w (esx_ServerID e)) None w)
   | _ \<Rightarrow> w)"

definition audit_Register :: "world Bus \<Rightarrow> world Bus" where
  "audit_Register bus =
     Subscribe ''server_status_changed'' OnServerStatusChanged
     (Subscribe ''application_created'' OnApplicationCreated
     (Subscribe ''deployment_status_changed'' OnDeploymentStatusChanged
     (Subscribe ''deployment_created'' OnDeploymentCreated bus)))"

section \<open>Settings\<close>

definition SettingsRepo_Get :: "string \<Rightarrow> (world, json) op" where
  "SettingsRepo_Get key = db_exec (\<lambda>w. case map_of (w_settings w) key of
     None \<Rightarrow> (Inl ErrSettingNotFound, w)
   | Some v \<Rightarrow> (Inr v, w))"

definition SettingsRepo_Set :: "string \<Rightarrow> json \<Rightarrow> (world, unit) op" where
  "SettingsRepo_Set key val = db_exec (modifyE (\<lambda>w. w\<lparr>w_settings := AList.update key val (w_settings w)\<rparr>))"

definition SettingsRepo_Delete :: "string \<Rightarrow> (world, unit) op" where
  "SettingsRepo_Delete key = db_exec (modifyE (\<lambda>w. w\<lparr>w_settings := AList.delete key (w_settings w)\<rparr>))"

record WebhookSettings =
  Enabled :: bool
  URL :: string
  Secret :: string

definition dec_bool :: "json \<Rightarrow> error + bool" where
  "dec_bool j = (case j of JNull \<Rightarrow> Inr False | JBool b \<Rightarrow> Inr b | _ \<Rightarrow> Inl bad_json)"

fun dec_WebhookSettings :: "json \<Rightarrow> error + WebhookSettings" where
  "dec_WebhookSettings (JObj kvs) =
    (case dec_bool (json_get ''enabled'' kvs) of Inl e \<Rightarrow> Inl e | Inr b \<Rightarrow>
    (case dec_str (json_get ''url'' kvs) of Inl e \<Rightarrow> Inl e | Inr u \<Rightarrow>
    (case dec_str (json_get ''secret'' kvs) of Inl e \<Rightarrow> Inl e | Inr s \<Rightarrow>
      Inr \<lparr>Enabled = b, URL = u, Secret = s\<rparr>)))"
| "dec_WebhookSettings JNull = Inr \<lparr>Enabled = False, URL = [], Secret = []\<rparr>"
| "dec_WebhookSettings _ = Inl bad_json"

text \<open>
  The settings provider of \<open>internal/app/server.go\<close>: the stored settings, or the URL of the
  environment when there are none to be read.
\<close>

definition webhook_settings :: "string \<Rightarrow> world \<Rightarrow> WebhookSettings \<times> world" where
  "webhook_settings cfgURL w =
    (let dflt = \<lparr>Enabled = (cfgURL \<noteq> []), URL = cfgURL, Secret = []\<rparr> in
     case SettingsRepo_Get ''webhook'' w of
       (Inl _, w') \<Rightarrow> (dflt, w')
     | (Inr raw, w') \<Rightarrow> ((case dec_WebhookSettings raw of Inl _ \<Rightarrow> dflt | Inr ws \<Rightarrow> ws), w'))"

section \<open>The webhook notifier\<close>

definition webhook_active :: "WebhookSettings \<Rightarrow> bool" where
  "webhook_active ws \<longleftrightarrow> Enabled ws \<and> URL ws \<noteq> []"

definition worker_buffer :: nat where
  "worker_buffer = 64"

definition notifier_appName :: "int \<Rightarrow> world \<Rightarrow> string \<times> world" where
  "notifier_appName appID w = (case AppRepo_GetByID appID w of
     (Inl _, w') \<Rightarrow> (''app #'' @ show_int appID, w')
   | (Inr app, w') \<Rightarrow> (a_Name app, w'))"

text \<open>The two signs are written as their UTF-8 bytes.\<close>

definition check_mark :: string where
  "check_mark = [CHR 0xE2, CHR 0x9C, CHR 0x85]"

definition cross_mark :: string where
  "cross_mark = [CHR 0xE2, CHR 0x9D, CHR 0x8C]"

definition notification :: "string \<Rightarrow> int \<Rightarrow> string \<Rightarrow> json" where
  "notification appName deploymentID status = JObj [(''content'', JStr (
     (if status = DeploymentFailed then cross_mark else check_mark) @ '' Deployment **'' @ appName @
     ''** (deployment #'' @ show_int deploymentID @ '') '' @
     (if status = DeploymentFailed then ''failed'' else ''succeeded'') @ ''.''))]"

text \<open>The channel holds 64 payloads; when it is full the oldest makes room.\<close>

definition webhook_enqueue :: "json \<Rightarrow> json list \<Rightarrow> json list" where
  "webhook_enqueue payload q =
    (if length q < worker_buffer then q @ [payload]
     else let q' = tl q in if length q' < worker_buffer then q' @ [payload] else q')"

definition Notifier_Handle :: "string \<Rightarrow> world handler" where
  "Notifier_Handle cfgURL ev w =
    (case webhook_settings cfgURL w of (ws, w1) \<Rightarrow>
     if \<not> webhook_active ws then w1
     else case ev of
       DeploymentStatusChangedEv evt \<Rightarrow>
         if edx_Status evt = DeploymentSuccess \<or> edx_Status evt = DeploymentFailed
         then (case notifier_appName (edx_ApplicationID evt) w1 of (appName, w2) \<Rightarrow>
           w2\<lparr>w_webhook := webhook_enqueue
             (notification appName (edx_DeploymentID evt) (edx_Status evt)) (w_webhook w2)\<rparr>)
         else w1
     | _ \<Rightarrow> w1)"

text \<open>One round of \<open>run\<close>: the payload it would post, if any.\<close>

definition Notifier_run1 :: "string \<Rightarrow> world \<Rightarrow> (WebhookSettings \<times> json) option \<times> world" where
  "Notifier_run1 cfgURL w = (case w_webhook w of
     [] \<Rightarrow> (None, w)
   | p # q \<Rightarrow> (case webhook_settings cfgURL (w\<lparr>w_webhook := q\<rparr>) of (ws, w') \<Rightarrow>
       (if webhook_active ws then Some (ws, p) else None, w')))"

text \<open>
  \<open>sign\<close> and the header of \<open>post\<close>; HMAC-SHA256 (\<open>crypto/hmac\<close>) is a parameter. The answer of
  the receiver is a status code.
\<close>

definition sign :: "(string \<Rightarrow> string \<Rightarrow> string) \<Rightarrow> string \<Rightarrow> string \<Rightarrow> string" where
  "sign hmac_sha256 payload secret = hex_encode (hmac_sha256 secret payload)"

definition signature_header :: "(string \<Rightarrow> string \<Rightarrow> string) \<Rightarrow> WebhookSettings \<Rightarrow> string \<Rightarrow> string option" where
  "signature_header hmac_sha256 ws payload =
     (if Secret ws = [] then None else Some (sign hmac_sha256 payload (Secret ws)))"

definition post_result :: "int option \<Rightarrow> error + unit" where
  "post_result resp = (case resp of
     None \<Rightarrow> Inl (ErrMsg ''request failed'')
   | Some code \<Rightarrow> if code < 200 \<or> code \<ge> 300 then Inl (ErrMsg (''webhook returned '' @ show_int code))
       else Inr ())"

lemma webhook_enqueue_drops_oldest:
  "length q \<le> worker_buffer \<Longrightarrow> webhook_enqueue p q = drop (Suc (length q) - worker_buffer) q @ [p]"
  by (cases q) (auto simp: webhook_enqueue_def Let_def worker_buffer_def)

end
