(* ===== verification/Users.thy ===== *)
theory Users
  imports Servers
begin

text \<open>
  Users, roles and permissions: \<open>internal/adapters/postgres/user_repo.go\<close>, \<open>role_repo.go\<close>,
  \<open>internal/application/user/service.go\<close>, \<open>internal/application/role/service.go\<close>.
\<close>

section \<open>Repository\<close>

definition live_user :: "UserRow \<Rightarrow> bool" where
  "live_user u \<longleftrightarrow> u_DeletedAt u = None"

definition role_by_id :: "world \<Rightarrow> int \<Rightarrow> Role option" where
  "role_by_id w i = find (\<lambda>r. ro_ID r = i) (w_roles w)"

definition user_matches :: "UserListOptions \<Rightarrow> world \<Rightarrow> UserRow \<Rightarrow> bool" where
  "user_matches opts w u \<longleftrightarrow> live_user u \<and>
     (lo_Search (ul_opts opts) \<noteq> [] \<longrightarrow> search_matches (lo_Search (ul_opts opts)) (u_Name u) \<or>
        search_matches (lo_Search (ul_opts opts)) (u_Email u)) \<and>
     (ul_Roles opts \<noteq> [] \<longrightarrow> (case role_by_id w (u_RoleID u) of None \<Rightarrow> False
        | Some r \<Rightarrow> ro_Name r \<in> set (ul_Roles opts)))"

definition user_created_asc :: "UserRow \<Rightarrow> UserRow \<Rightarrow> bool" where
  "user_created_asc a b \<longleftrightarrow> u_CreatedAt a \<le> u_CreatedAt b"

text \<open>
  The count query names \<open>r.name\<close> but not the table \<open>roles\<close>: with a role filter and a page, the
  statement is refused. A user without a role row cannot be scanned.
\<close>

definition UserRepo_List :: "UserListOptions \<Rightarrow> (world, User list \<times> int) op" where
  "UserRepo_List opts =
     bindE (if lo_IsPaginate (ul_opts opts)
            then wrapE ''failed to count users'' (db_exec (
              if ul_Roles opts \<noteq> [] then failE ErrDB
              else getsE (\<lambda>w. int (length (filter (user_matches opts w) (w_users w))))))
            else returnE 0) (\<lambda>tot.
     wrapE ''failed to query users'' (db_exec (\<lambda>w.
       case page_rows (ul_opts opts)
              (order_by user_created_asc (filter (user_matches opts w) (w_users w))) of
         None \<Rightarrow> (Inl ErrDB, w)
       | Some r \<Rightarrow>
           if \<exists>u\<in>set r. role_by_id w (u_RoleID u) = None then (Inl ErrDB, w)
           else (Inr (map (\<lambda>u. (User.truncate u)\<lparr>u_Password := [],
                   u_Role := role_by_id w (u_RoleID u), u_Permissions := []\<rparr>) r, tot), w))))"

definition role_permissions :: "world \<Rightarrow> int \<Rightarrow> Permission list" where
  "role_permissions w i = filter (\<lambda>p. (i, p_ID p) \<in> set (w_role_perms w)) (w_perms w)"

text \<open>
  \<open>GetByID\<close> and \<open>GetByEmail\<close> join the user with the role and its permissions, which come back
  in no fixed order. The statement can fail in \<open>Query\<close> or in a row, which is returned as the
  database's error, or before the first row: \<open>isFirst\<close> is looked at before \<open>rows.Err()\<close>, so that
  failure is answered \<open>ErrUserNotFound\<close>.
\<close>

definition user_joined :: "(UserRow \<Rightarrow> bool) \<Rightarrow> (world, User) op" where
  "user_joined p = bindE (db_exec (returnE ())) (\<lambda>_.
     bindE (catchE (db_exec (returnE ())) (\<lambda>_. failE ErrUserNotFound)) (\<lambda>_ w.
     case find (\<lambda>u. p u \<and> live_user u) (w_users w) of
       None \<Rightarrow> (Inl ErrUserNotFound, w)
     | Some u \<Rightarrow> (case role_by_id w (u_RoleID u) of
         None \<Rightarrow> (Inl ErrDB, w)
       | Some r \<Rightarrow> (Inr ((User.truncate u)\<lparr>u_Role := Some r,
             u_Permissions := role_permissions w (ro_ID r)\<rparr>), w))))"

definition UserRepo_GetByID :: "int \<Rightarrow> (world, User) op" where
  "UserRepo_GetByID userID = user_joined (\<lambda>u. u_ID u = userID)"

definition UserRepo_GetByEmail :: "string \<Rightarrow> (world, User) op" where
  "UserRepo_GetByEmail email = user_joined (\<lambda>u. u_Email u = email)"

definition UserRepo_GetRoleByID :: "int \<Rightarrow> (world, Role) op" where
  "UserRepo_GetRoleByID roleID = db_exec (\<lambda>w. case role_by_id w roleID of
     None \<Rightarrow> (Inl ErrRoleNotFound, w)
   | Some r \<Rightarrow> (Inr r, w))"

text \<open>\<open>email\<close> is unique among all rows, the deleted ones included.\<close>

definition UserRepo_Create :: "User \<Rightarrow> (world, unit) op" where
  "UserRepo_Create user = bindE time_Now (\<lambda>now. wrapE ''failed to insert user'' (db_exec (\<lambda>w.
     let i = w_user_seq w; w' = w\<lparr>w_user_seq := i + 1\<rparr>;
         row = User.extend (user\<lparr>u_ID := i, u_Role := None, u_Permissions := [],
           u_CreatedAt := now, u_UpdatedAt := now\<rparr>) (UserRow.fields None)
     in if role_by_id w (u_RoleID user) \<noteq> None \<and> u_Email user \<notin> u_Email ` set (w_users w)
        then (Inr (), w'\<lparr>w_users := w_users w @ [row]\<rparr>)
        else (Inl ErrDB, w'))))"

definition user_not_found :: "int \<Rightarrow> string \<Rightarrow> error" where
  "user_not_found userID what =
     ErrMsg (''user with ID '' @ show_int userID @ '' not found or '' @ what)"

definition UserRepo_Update :: "User \<Rightarrow> int \<Rightarrow> (world, unit) op" where
  "UserRepo_Update user userID = bindE time_Now (\<lambda>now.
     bindE (wrapE ''failed to update user'' (db_exec (\<lambda>w.
       let p = (\<lambda>u. u_ID u = userID \<and> live_user u) in
       if filter p (w_users w) \<noteq> [] \<and> (role_by_id w (u_RoleID user) = None \<or>
            (\<exists>u\<in>set (w_users w). \<not> p u \<and> u_Email u = u_Email user))
       then (Inl ErrDB, w)
       else (Inr (length (filter p (w_users w))), w\<lparr>w_users := update_where p
         (\<lambda>u. u\<lparr>u_Name := u_Name user, u_Email := u_Email user, u_Password := u_Password user,
            u_RoleID := u_RoleID user, u_UpdatedAt := now\<rparr>) (w_users w)\<rparr>)))) (\<lambda>n.
     if n = 0 then failE (user_not_found userID ''deleted'') else returnE ()))"

definition UserRepo_Delete :: "int \<Rightarrow> (world, unit) op" where
  "UserRepo_Delete userID = bindE time_Now (\<lambda>now.
     bindE (wrapE ''failed to delete user'' (db_exec (\<lambda>w.
       let p = (\<lambda>u. u_ID u = userID \<and> live_user u) in
       (Inr (length (filter p (w_users w))),
        w\<lparr>w_users := update_where p (\<lambda>u. u\<lparr>u_DeletedAt := Some now\<rparr>) (w_users w)\<rparr>)))) (\<lambda>n.
     if n = 0 then failE (user_not_found userID ''already deleted'') else returnE ()))"

section \<open>User service\<close>

definition UserService_List :: "UserListOptions \<Rightarrow> (world, User ListResult) op" where
  "UserService_List opts =
    (let opts = opts\<lparr>ul_opts := list_defaults 1000 (ul_opts opts)\<rparr> in
     bindE (UserRepo_List opts) (\<lambda>r. returnE (list_result (ul_opts opts) r)))"

text \<open>\<open>if user, _ := s.repo.GetByEmail(...); user != nil\<close>: an error counts as a free address.\<close>

definition email_taken :: "string \<Rightarrow> (world, bool) op" where
  "email_taken email = (\<lambda>w. case UserRepo_GetByEmail email w of
     (Inl _, w') \<Rightarrow> (Inr False, w') | (Inr _, w') \<Rightarrow> (Inr True, w'))"

definition UserService_Create :: "Bcrypt \<Rightarrow> UserSaveRequest \<Rightarrow> (world, unit) op" where
  "UserService_Create bc req =
     bindE (UserRepo_GetRoleByID (us_RoleID req)) (\<lambda>_.
     bindE (email_taken (us_Email req)) (\<lambda>taken.
     if taken then failE ErrEmailAlreadyExists
     else bindE (hash_password bc (us_Password req)) (\<lambda>hashedPwd.
       UserRepo_Create (User0\<lparr>u_Name := us_Name req, u_Email := us_Email req,
         u_Password := hashedPwd, u_RoleID := us_RoleID req\<rparr>))))"

definition UserService_Update :: "Bcrypt \<Rightarrow> UserSaveRequest \<Rightarrow> int \<Rightarrow> (world, unit) op" where
  "UserService_Update bc req userID =
     bindE (UserRepo_GetByID userID) (\<lambda>existingUser.
     bindE (if us_RoleID req \<noteq> u_RoleID existingUser
            then bindE (UserRepo_GetRoleByID (us_RoleID req)) (\<lambda>_. returnE ()) else returnE ()) (\<lambda>_.
     bindE (if us_Email req \<noteq> u_Email existingUser then email_taken (us_Email req)
            else returnE False) (\<lambda>taken.
     if taken then failE ErrEmailAlreadyExists
     else bindE (if us_Password req \<noteq> [] then hash_password bc (us_Password req)
                 else returnE (u_Password existingUser)) (\<lambda>passwordToSave.
       UserRepo_Update (User0\<lparr>u_ID := userID, u_Name := us_Name req, u_Email := us_Email req,
         u_Password := passwordToSave, u_RoleID := us_RoleID req\<rparr>) userID))))"

definition UserService_Delete :: "int \<Rightarrow> (world, unit) op" where
  "UserService_Delete userID = bindE (UserRepo_GetByID userID) (\<lambda>_. UserRepo_Delete userID)"

end
