(* ===== verification/Integrity.thy ===== *)
theory Integrity
  imports ApplicationService AuditWebhook Users
begin

text \<open>
  Integrity of the tables: keys are unique and below their sequences, references point to
  rows, the previous deployment of a deployment is an earlier one of the same application,
  live applications have different repositories on one server. Every operation of the
  repositories and services keeps it, whichever statements fail; and a job that has ended stays
  in the table as it is unless it is retried or deleted itself. Both are one two-state
  guarantee, \<open>cp\<close>.
\<close>

section \<open>The invariant\<close>

definition jobs_ok :: "world \<Rightarrow> bool" where
  "jobs_ok w \<longleftrightarrow> distinct (map j_ID (w_jobs w)) \<and>
     (\<forall>j\<in>set (w_jobs w). j_ID j < w_job_seq w \<and> job_refs_ok w j)"

definition previous_ok :: "world \<Rightarrow> Deployment \<Rightarrow> bool" where
  "previous_ok w d \<longleftrightarrow> refers (d_PreviousDeploymentID d) {d_ID q | q. q \<in> set (w_deployments w) \<and>
     d_ID q < d_ID d \<and> d_ApplicationID q = d_ApplicationID d}"

definition deployments_ok :: "world \<Rightarrow> bool" where
  "deployments_ok w \<longleftrightarrow> distinct (map d_ID (w_deployments w)) \<and>
     (\<forall>d\<in>set (w_deployments w). d_ID d < w_deployment_seq w \<and> deployment_refs_ok w d \<and> previous_ok w d)"

definition app_place :: "AppRow \<Rightarrow> uuid \<times> string" where
  "app_place a = (a_ServerID a, a_RepoName a)"

definition apps_ok :: "world \<Rightarrow> bool" where
  "apps_ok w \<longleftrightarrow> distinct (map a_ID (w_apps w)) \<and>
     (\<forall>a\<in>set (w_apps w). a_ID a < w_app_seq w \<and> a_ServerID a \<in> s_ID ` set (w_servers w)) \<and>
     distinct (map app_place (filter live_app (w_apps w)))"

definition env_place :: "EnvironmentVariable \<Rightarrow> int \<times> string" where
  "env_place e = (e_ApplicationID e, e_Key e)"

definition env_ok :: "world \<Rightarrow> bool" where
  "env_ok w \<longleftrightarrow> distinct (map e_ID (w_env w)) \<and> distinct (map env_place (w_env w)) \<and>
     (\<forall>e\<in>set (w_env w). e_ID e < w_env_seq w \<and> e_ApplicationID e \<in> a_ID ` set (w_apps w))"

definition servers_ok :: "world \<Rightarrow> bool" where
  "servers_ok w \<longleftrightarrow> distinct (map s_ID (w_servers w)) \<and> distinct (map s_APIToken (w_servers w))"

definition users_ok :: "world \<Rightarrow> bool" where
  "users_ok w \<longleftrightarrow> distinct (map u_ID (w_users w)) \<and> distinct (map u_Email (w_users w)) \<and>
     (\<forall>u\<in>set (w_users w). u_ID u < w_user_seq w \<and> u_RoleID u \<in> ro_ID ` set (w_roles w))"

definition logs_ok :: "world \<Rightarrow> bool" where
  "logs_ok w \<longleftrightarrow> distinct (map l_ID (w_logs w)) \<and>
     (\<forall>l\<in>set (w_logs w). l_ID l < w_log_seq w \<and> log_refs_ok w l)"

definition audit_ok :: "world \<Rightarrow> bool" where
  "audit_ok w \<longleftrightarrow> distinct (map au_ID (w_audit w)) \<and> (\<forall>l\<in>set (w_audit w). au_ID l < w_audit_seq w)"

definition store_ok :: "world \<Rightarrow> bool" where
  "store_ok w \<longleftrightarrow> jobs_ok w \<and> deployments_ok w \<and> apps_ok w \<and> env_ok w \<and> servers_ok w \<and>
     users_ok w \<and> logs_ok w \<and> audit_ok w"

lemmas store_defs = store_ok_def jobs_ok_def deployments_ok_def apps_ok_def env_ok_def
  servers_ok_def users_ok_def logs_ok_def audit_ok_def

section \<open>Ended jobs\<close>

definition job_ended :: "Job \<Rightarrow> bool" where
  "job_ended j \<longleftrightarrow> j_Status j \<noteq> JobQueued \<and> j_Status j \<noteq> JobRunning"

definition job_ids_ok :: "world \<Rightarrow> bool" where
  "job_ids_ok w \<longleftrightarrow> distinct (map j_ID (w_jobs w)) \<and> (\<forall>j\<in>set (w_jobs w). j_ID j < w_job_seq w)"

text \<open>
  What may happen to the jobs: ids are never given out twice, and a row that has ended is still
  there as it was when its id is among \<open>K\<close>, the ids that are neither retried nor deleted.
\<close>

definition job_history :: "int set \<Rightarrow> world \<Rightarrow> world \<Rightarrow> bool" where
  "job_history K w w' \<longleftrightarrow> (job_ids_ok w \<longrightarrow> job_ids_ok w' \<and> w_job_seq w \<le> w_job_seq w' \<and>
     (\<forall>j\<in>set (w_jobs w). j_ID j \<in> K \<longrightarrow> job_ended j \<longrightarrow> j \<in> set (w_jobs w')))"

lemma job_history_refl: "job_history K w w"
  by (auto simp: job_history_def)

lemma job_history_same:
  "w_jobs w' = w_jobs w \<Longrightarrow> w_job_seq w' = w_job_seq w \<Longrightarrow> job_history K w w'"
  by (auto simp: job_history_def job_ids_ok_def)

lemma job_history_trans: "job_history K a b \<Longrightarrow> job_history K b c \<Longrightarrow> job_history K a c"
  unfolding job_history_def by (blast intro: order.trans)

section \<open>The guarantee\<close>

definition cp :: "int set \<Rightarrow> world \<Rightarrow> world \<Rightarrow> bool" where
  "cp K w w' \<longleftrightarrow> keeps store_ok w w' \<and> job_history K w w'"

lemma store_ok_aside:
  "store_ok (w\<lparr>w_calls := n\<rparr>) = store_ok w" "store_ok (w\<lparr>w_uuids := n\<rparr>) = store_ok w"
  "store_ok (w\<lparr>w_rands := n\<rparr>) = store_ok w"
  by (simp_all add: store_defs job_refs_ok_def deployment_refs_ok_def previous_ok_def log_refs_ok_def)

interpretation cp: db_guarantee "cp h" for h
proof
  show "cp h w w" for h w
    by (simp add: cp_def keeps_def job_history_refl)
  show "cp h a b \<Longrightarrow> cp h b c \<Longrightarrow> cp h a c" for h a b c
    by (auto simp: cp_def keeps_def intro: job_history_trans)
  show "cp h w (w\<lparr>w_calls := n\<rparr>)" "cp h w (w\<lparr>w_uuids := n\<rparr>)" "cp h w (w\<lparr>w_rands := n\<rparr>)" for h w n
    by (simp_all add: cp_def keeps_def store_ok_aside job_history_same)
qed

text \<open>A change of no table of the invariant.\<close>

lemma cp_aside:
  assumes "w_jobs w' = w_jobs w" "w_job_seq w' = w_job_seq w" "w_deployments w' = w_deployments w"
    "w_deployment_seq w' = w_deployment_seq w" "w_apps w' = w_apps w" "w_app_seq w' = w_app_seq w"
    "w_env w' = w_env w" "w_env_seq w' = w_env_seq w" "w_servers w' = w_servers w" "w_users w' = w_users w"
    "w_user_seq w' = w_user_seq w" "w_roles w' = w_roles w" "w_logs w' = w_logs w"
    "w_log_seq w' = w_log_seq w" "w_audit w' = w_audit w" "w_audit_seq w' = w_audit_seq w"
  shows "cp h w w'"
  using assms by (simp add: cp_def keeps_def job_history_same store_defs job_refs_ok_def
      deployment_refs_ok_def previous_ok_def log_refs_ok_def)

section \<open>Changes of one table\<close>

definition wider :: "world \<Rightarrow> world \<Rightarrow> bool" where
  "wider w w' \<longleftrightarrow> s_ID ` set (w_servers w) \<subseteq> s_ID ` set (w_servers w') \<and>
     a_ID ` set (w_apps w) \<subseteq> a_ID ` set (w_apps w') \<and>
     (\<lambda>d. (d_ID d, d_ApplicationID d)) ` set (w_deployments w) \<subseteq>
       (\<lambda>d. (d_ID d, d_ApplicationID d)) ` set (w_deployments w') \<and>
     u_ID ` set (w_users w) \<subseteq> u_ID ` set (w_users w') \<and>
     ro_ID ` set (w_roles w) \<subseteq> ro_ID ` set (w_roles w')"

lemma wider_deployments: "wider w w' \<Longrightarrow> d_ID ` set (w_deployments w) \<subseteq> d_ID ` set (w_deployments w')"
  unfolding wider_def by (auto dest!: subsetD)

lemma wider_parts:
  assumes "wider w w'"
  shows "s_ID ` set (w_servers w) \<subseteq> s_ID ` set (w_servers w')"
    and "a_ID ` set (w_apps w) \<subseteq> a_ID ` set (w_apps w')"
    and "u_ID ` set (w_users w) \<subseteq> u_ID ` set (w_users w')"
    and "ro_ID ` set (w_roles w) \<subseteq> ro_ID ` set (w_roles w')"
  using assms by (simp_all add: wider_def)

lemma previous_ok_wider:
  assumes "previous_ok w d" and "wider w w'"
  shows "previous_ok w' d"
proof -
  have "{d_ID q | q. q \<in> set (w_deployments w) \<and> d_ID q < d_ID d \<and> d_ApplicationID q = d_ApplicationID d}
    \<subseteq> {d_ID q | q. q \<in> set (w_deployments w') \<and> d_ID q < d_ID d \<and> d_ApplicationID q = d_ApplicationID d}"
    using assms(2) unfolding wider_def by (auto dest!: subsetD)
  with assms(1) show ?thesis by (auto simp: previous_ok_def intro: refers_mono)
qed

lemma refs_wider:
  assumes "wider w w'"
  shows "job_refs_ok w j \<Longrightarrow> job_refs_ok w' j"
    and "deployment_refs_ok w d \<Longrightarrow> deployment_refs_ok w' d"
  using wider_parts [OF assms] wider_deployments [OF assms]
  by (auto simp: job_refs_ok_def deployment_refs_ok_def elim: refers_mono)

text \<open>
  An operation changes few tables and forgets no key. Each table is then either untouched or
  shown in order.
\<close>

lemma store_okI:
  assumes ok: "store_ok w" and wide: "wider w w'"
    and "w_jobs w' = w_jobs w \<and> w_job_seq w' = w_job_seq w \<or> jobs_ok w'"
    and "w_deployments w' = w_deployments w \<and> w_deployment_seq w' = w_deployment_seq w \<or> deployments_ok w'"
    and "w_apps w' = w_apps w \<and> w_app_seq w' = w_app_seq w \<or> apps_ok w'"
    and "w_env w' = w_env w \<and> w_env_seq w' = w_env_seq w \<or> env_ok w'"
    and "w_servers w' = w_servers w \<or> servers_ok w'"
    and "w_users w' = w_users w \<and> w_user_seq w' = w_user_seq w \<or> users_ok w'"
    and "w_logs w' = w_logs w \<and> w_log_seq w' = w_log_seq w \<and> j_ID ` set (w_jobs w) \<subseteq> j_ID ` set (w_jobs w') \<or> logs_ok w'"
    and "w_audit w' = w_audit w \<and> w_audit_seq w' = w_audit_seq w \<or> audit_ok w'"
  shows "store_ok w'"
proof -
  note parts = wider_parts [OF wide] wider_deployments [OF wide]
  have "jobs_ok w'" using assms(3) ok refs_wider(1) [OF wide] by (auto simp: store_ok_def jobs_ok_def)
  moreover have "deployments_ok w'"
    using assms(4) ok refs_wider(2) [OF wide] previous_ok_wider [OF _ wide]
    by (auto simp: store_ok_def deployments_ok_def)
  moreover have "apps_ok w'" using assms(5) ok parts(1) by (auto simp: store_ok_def apps_ok_def)
  moreover have "env_ok w'" using assms(6) ok parts(2) by (auto simp: store_ok_def env_ok_def)
  moreover have "servers_ok w'" using assms(7) ok by (auto simp: store_ok_def servers_ok_def)
  moreover have "users_ok w'" using assms(8) ok parts(4) by (auto simp: store_ok_def users_ok_def)
  moreover have "logs_ok w'" using assms(9) ok parts
    by (auto simp: store_ok_def logs_ok_def log_refs_ok_def elim: refers_mono)
  moreover have "audit_ok w'" using assms(10) ok by (auto simp: store_ok_def audit_ok_def)
  ultimately show ?thesis by (simp add: store_ok_def)
qed

lemma distinct_map_snoc: "distinct (map f (xs @ [x])) \<longleftrightarrow> distinct (map f xs) \<and> f x \<notin> f ` set xs"
  by simp

text \<open>The jobs.\<close>

lemma cp_job_insert:
  assumes "job_refs_ok w j" and "j_ID j = w_job_seq w"
  shows "cp h w (w\<lparr>w_job_seq := w_job_seq w + 1, w_jobs := w_jobs w @ [j]\<rparr>)"
proof -
  let ?w = "w\<lparr>w_job_seq := w_job_seq w + 1, w_jobs := w_jobs w @ [j]\<rparr>"
  have "store_ok w \<Longrightarrow> store_ok ?w"
    by (rule store_okI [of w]) (use assms in \<open>auto simp: wider_def store_ok_def jobs_ok_def job_refs_ok_def\<close>)
  moreover have "job_history h w ?w"
    using assms(2) by (force simp: job_history_def job_ids_ok_def)
  ultimately show ?thesis by (simp add: cp_def keeps_def)
qed

lemma cp_job_seq: "cp h w (w\<lparr>w_job_seq := w_job_seq w + 1\<rparr>)"
proof -
  have "store_ok w \<Longrightarrow> store_ok (w\<lparr>w_job_seq := w_job_seq w + 1\<rparr>)"
    by (rule store_okI [of w]) (auto simp: wider_def store_ok_def jobs_ok_def job_refs_ok_def)
  moreover have "job_history h w (w\<lparr>w_job_seq := w_job_seq w + 1\<rparr>)"
    by (auto simp: job_history_def job_ids_ok_def)
  ultimately show ?thesis by (simp add: cp_def keeps_def)
qed

lemma cp_job_update:
  assumes f: "\<And>j. j_ID (f j) = j_ID j" "\<And>j. j_ServerID (f j) = j_ServerID j"
      "\<And>j. j_ApplicationID (f j) = j_ApplicationID j" "\<And>j. j_DeploymentID (f j) = j_DeploymentID j"
    and h: "job_ids_ok w \<Longrightarrow> \<forall>j\<in>set (w_jobs w). j_ID j \<in> h \<longrightarrow> p j \<longrightarrow> \<not> job_ended j"
  shows "cp h w (w\<lparr>w_jobs := update_where p f (w_jobs w)\<rparr>)"
proof -
  let ?w = "w\<lparr>w_jobs := update_where p f (w_jobs w)\<rparr>"
  have ids: "map j_ID (update_where p f (w_jobs w)) = map j_ID (w_jobs w)"
    by (rule map_update_where) (simp add: f)
  then have keys: "j_ID ` set (update_where p f (w_jobs w)) = j_ID ` set (w_jobs w)"
    by (metis image_set)
  have "jobs_ok w \<Longrightarrow> jobs_ok ?w"
    unfolding jobs_ok_def by (simp add: ids ball_update_where f job_refs_ok_def)
  then have "store_ok w \<Longrightarrow> store_ok ?w"
    by - (rule store_okI [of w], simp_all add: wider_def keys, simp add: store_ok_def)
  moreover have "job_history h w ?w"
  proof -
    have "j \<in> set (update_where p f (w_jobs w))"
      if "job_ids_ok w" "j \<in> set (w_jobs w)" "j_ID j \<in> h" "job_ended j" for j
      using h [OF that(1)] that(2-) by (auto simp: set_update_where intro!: image_eqI [of _ _ j])
    moreover have "job_ids_ok w \<Longrightarrow> job_ids_ok ?w"
      unfolding job_ids_ok_def by (simp add: ids ball_update_where f)
    ultimately show ?thesis by (auto simp: job_history_def)
  qed
  ultimately show ?thesis by (auto simp: cp_def keeps_def)
qed

end
