(* ===== verification/JobGuarantees.thy ===== *)
theory JobGuarantees
  imports Integrity
begin

text \<open>The operations on jobs and logs keep the guarantee \<open>cp\<close>.\<close>

lemma cp_read: "(\<And>w. snd (q w) = w) \<Longrightarrow> guarantees (cp h) q"
  by (rule guaranteesI) (simp add: cp.refl)

lemmas cp_rules = cp.db_rules cp.g_paged

named_theorems cp_ops \<open>operations that keep the guarantee\<close>

section \<open>Jobs\<close>

lemma cp_JobRepo_reads [cp_ops]:
  "guarantees (cp h) (JobRepo_List opts)" "guarantees (cp h) (JobRepo_GetPending s)"
  "guarantees (cp h) (JobRepo_GetByID i)" "guarantees (cp h) JobRepo_CountsByStatus"
  unfolding JobRepo_List_def JobRepo_GetPending_def JobRepo_GetByID_def JobRepo_CountsByStatus_def
  by (intro cp_rules cp_read; simp split: option.split)+

lemma cp_JobRepo_Create [cp_ops]: "guarantees (cp h) (JobRepo_Create j)"
  unfolding JobRepo_Create_def
  by (intro cp.g_wrap cp.g_db guaranteesI)
    (auto simp: Let_def job_refs_ok_def intro!: cp_job_seq cp_job_insert)

lemma cp_job_update_op:
  assumes "\<And>w j. j_ID (f w j) = j_ID j" "\<And>w j. j_ServerID (f w j) = j_ServerID j"
      "\<And>w j. j_ApplicationID (f w j) = j_ApplicationID j"
      "\<And>w j. j_DeploymentID (f w j) = j_DeploymentID j"
    and h: "i \<notin> h \<or> (\<forall>j. p j \<longrightarrow> \<not> job_ended j)"
  shows "guarantees (cp h) (job_update i p f)"
proof (rule guaranteesI)
  fix w
  show "cp h w (snd (job_update i p f w))"
  proof (cases "find (\<lambda>j. j_ID j = i) (w_jobs w)")
    case None
    then show ?thesis by (simp add: job_update_def cp.refl)
  next
    case (Some j)
    have only: "\<forall>k\<in>set (w_jobs w). j_ID k = i \<longrightarrow> k = j" if "job_ids_ok w"
      using that Some by (metis find_Some_set find_distinct_key job_ids_ok_def option.inject)
    have "cp h w (w\<lparr>w_jobs := update_where (\<lambda>j. j_ID j = i) (f w) (w_jobs w)\<rparr>)" if "p j"
      by (rule cp_job_update) (use assms only that in auto)
    with Some show ?thesis by (simp add: job_update_def cp.refl)
  qed
qed

lemma cp_MarkRunning [cp_ops]: "guarantees (cp h) (JobRepo_MarkRunning i)"
  unfolding JobRepo_MarkRunning_def
  by (intro cp_rules cp_ops cp_job_update_op) (auto simp: job_ended_def)

lemma cp_MarkFinished [cp_ops]: "guarantees (cp h) (JobRepo_MarkFinished i s)"
  unfolding JobRepo_MarkFinished_def
  by (intro cp_rules cp_ops cp_job_update_op) (auto simp: job_ended_def)

lemma cp_JobRepo_Retry: "i \<notin> h \<Longrightarrow> guarantees (cp h) (JobRepo_Retry i j)"
  unfolding JobRepo_Retry_def
  by (intro cp_rules cp_job_update_op) auto

lemma cp_JobRepo_Delete:
  assumes "i \<notin> h"
  shows "guarantees (cp h) (JobRepo_Delete i)"
proof -
  have del: "cp h w (w\<lparr>w_jobs := filter (\<lambda>j. j_ID j \<noteq> i) (w_jobs w),
      w_logs := update_where (\<lambda>l. l_JobID l = Some i) (\<lambda>l. l\<lparr>l_JobID := None\<rparr>) (w_logs w)\<rparr>)"
    (is "cp h w ?w") for w
  proof -
    have 1: "store_ok w \<Longrightarrow> jobs_ok ?w"
      by (auto simp: store_ok_def jobs_ok_def job_refs_ok_def distinct_map_filter)
    have refs: "refers (l_JobID l) (j_ID ` (set (w_jobs w) \<inter> {j. j_ID j \<noteq> i}))"
      if "refers (l_JobID l) (j_ID ` set (w_jobs w))" and "l_JobID l \<noteq> Some i" for l
      using that by (cases "l_JobID l") auto
    have "map l_ID (update_where (\<lambda>l. l_JobID l = Some i) (\<lambda>l. l\<lparr>l_JobID := None\<rparr>) (w_logs w)) =
        map l_ID (w_logs w)"
      by (rule map_update_where) simp
    with refs have "store_ok w \<Longrightarrow> logs_ok ?w"
      unfolding store_ok_def logs_ok_def by (auto simp: ball_update_where log_refs_ok_def Int_def)
    with 1 have "store_ok w \<Longrightarrow> store_ok ?w"
      by - (rule store_okI [of w], simp_all add: wider_def)
    moreover have "job_history h w ?w"
      using assms by (auto simp: job_history_def job_ids_ok_def distinct_map_filter)
    ultimately show ?thesis by (simp add: cp_def keeps_def)
  qed
  show ?thesis
    unfolding JobRepo_Delete_def
    by (intro cp_rules guaranteesI) (simp add: del cp.refl split: option.split)
qed

section \<open>Logs\<close>

lemma cp_LogRepo_List [cp_ops]: "guarantees (cp h) (LogRepo_List opts)"
  unfolding LogRepo_List_def Let_def by (intro cp_rules) (simp add: case_prod_beta cp.g_return)

lemma cp_LogRepo_Create [cp_ops]: "guarantees (cp h) (LogRepo_Create l)"
proof -
  have "cp h w (w\<lparr>w_log_seq := w_log_seq w + 1\<rparr>)" for w
  proof -
    have "store_ok w \<Longrightarrow> store_ok (w\<lparr>w_log_seq := w_log_seq w + 1\<rparr>)"
      by (rule store_okI [of w]) (auto simp: wider_def store_ok_def logs_ok_def log_refs_ok_def)
    then show ?thesis by (simp add: cp_def keeps_def job_history_same)
  qed
  moreover have "cp h w (w\<lparr>w_log_seq := w_log_seq w + 1, w_logs := w_logs w @ [l\<lparr>l_ID := w_log_seq w, l_CreatedAt := t\<rparr>]\<rparr>)"
    if "log_refs_ok w l" for w t
  proof -
    have "store_ok w \<Longrightarrow> store_ok (w\<lparr>w_log_seq := w_log_seq w + 1, w_logs := w_logs w @ [l\<lparr>l_ID := w_log_seq w, l_CreatedAt := t\<rparr>]\<rparr>)"
      by (rule store_okI [of w]) (use that in \<open>auto simp: wider_def store_ok_def logs_ok_def log_refs_ok_def\<close>)
    then show ?thesis by (simp add: cp_def keeps_def job_history_same)
  qed
  ultimately show ?thesis
    unfolding LogRepo_Create_def
    by (intro cp.g_bind cp.g_now cp.g_wrap cp.g_db guaranteesI) (simp add: Let_def)
qed

lemma cp_LogService_List [cp_ops]: "guarantees (cp h) (LogService_List opts)"
  unfolding LogService_List_def Let_def by (intro cp_rules cp_ops)

end
