(* ===== verification/StoreGuarantees.thy ===== *)
theory StoreGuarantees
  imports JobGuarantees
begin

text \<open>The operations on the other tables keep the guarantee \<open>cp\<close>.\<close>

section \<open>Deployments\<close>

lemma previous_success_Some:
  assumes "previous_success w d = Some p"
  shows "p \<in> set (w_deployments w) \<and> d_ApplicationID p = d_ApplicationID d \<and> d_ID p < d_ID d \<and>
    d_Status p = DeploymentSuccess"
proof -
  let ?ps = "filter (\<lambda>p. d_ApplicationID p = d_ApplicationID d \<and> d_ID p < d_ID d \<and>
    d_Status p = DeploymentSuccess) (w_deployments w)"
  from assms obtain ps where "order_by id_desc ?ps = p # ps"
    by (auto simp: previous_success_def split: list.splits)
  then have "p \<in> set ?ps" by (metis list.set_intros(1) set_order_by)
  then show ?thesis by simp
qed

lemma cp_deployment_insert:
  assumes "deployment_refs_ok w d" and "d_ID d = w_deployment_seq w" and "d_PreviousDeploymentID d = None"
  shows "cp h w (w\<lparr>w_deployment_seq := w_deployment_seq w + 1, w_deployments := w_deployments w @ [d]\<rparr>)"
    (is "cp h w ?w")
proof -
  have wide: "wider w ?w" by (auto simp: wider_def)
  have "store_ok w \<Longrightarrow> deployments_ok ?w"
    using assms previous_ok_wider [OF _ wide] refs_wider(2) [OF wide]
    by (auto simp: store_ok_def deployments_ok_def previous_ok_def)
  then have "store_ok w \<Longrightarrow> store_ok ?w"
    by - (rule store_okI [OF _ wide], simp_all)
  then show ?thesis by (simp add: cp_def keeps_def job_history_same)
qed

lemma cp_deployment_seq: "cp h w (w\<lparr>w_deployment_seq := w_deployment_seq w + 1\<rparr>)"
proof -
  have "store_ok w \<Longrightarrow> store_ok (w\<lparr>w_deployment_seq := w_deployment_seq w + 1\<rparr>)"
    by (rule store_okI [of w])
      (auto simp: wider_def store_ok_def deployments_ok_def deployment_refs_ok_def previous_ok_def)
  then show ?thesis by (simp add: cp_def keeps_def job_history_same)
qed

lemma cp_deployment_update:
  assumes f: "\<And>d. d_ID (f d) = d_ID d" "\<And>d. d_ApplicationID (f d) = d_ApplicationID d"
      "\<And>d. d_DeployedBy (f d) = d_DeployedBy d"
    and prev: "\<And>d. previous_ok w d \<Longrightarrow> previous_ok w (f d)"
  shows "cp h w (w\<lparr>w_deployments := update_where p f (w_deployments w)\<rparr>)" (is "cp h w ?w")
proof -
  have keys: "map d_ID (update_where p f (w_deployments w)) = map d_ID (w_deployments w)"
    "map (\<lambda>d. (d_ID d, d_ApplicationID d)) (update_where p f (w_deployments w)) =
     map (\<lambda>d. (d_ID d, d_ApplicationID d)) (w_deployments w)"
    by (rule map_update_where, simp add: f)+
  have wide: "wider w ?w"
    using arg_cong [OF keys(2), of set] by (simp add: wider_def)
  have "deployments_ok w \<Longrightarrow> deployments_ok ?w"
    using prev previous_ok_wider [OF _ wide] refs_wider(2) [OF wide]
    by (auto simp: deployments_ok_def ball_update_where keys f deployment_refs_ok_def)
  then have "store_ok w \<Longrightarrow> store_ok ?w"
    by - (rule store_okI [OF _ wide], simp_all, simp add: store_ok_def)
  then show ?thesis by (simp add: cp_def keeps_def job_history_same)
qed

lemma cp_deployment_update_op:
  assumes "\<And>w d. d_ID (f w d) = d_ID d" "\<And>w d. d_ApplicationID (f w d) = d_ApplicationID d"
      "\<And>w d. d_DeployedBy (f w d) = d_DeployedBy d"
    and "\<And>w d. previous_ok w d \<Longrightarrow> previous_ok w (f w d)"
  shows "guarantees (cp h) (deployment_update i f)"
  by (rule guaranteesI)
    (auto simp: deployment_update_def cp.refl assms intro!: cp_deployment_update split: option.split)

lemma cp_DeploymentRepo_reads [cp_ops]:
  "guarantees (cp h) (DeploymentRepo_List opts)" "guarantees (cp h) (DeploymentRepo_GetByID i)"
  unfolding DeploymentRepo_List_def DeploymentRepo_GetByID_def
  by (intro cp_rules cp_read; simp split: option.split)+

lemma cp_DeploymentRepo_Create [cp_ops]: "guarantees (cp h) (DeploymentRepo_Create d)"
  unfolding DeploymentRepo_Create_def
  by (intro cp.g_bind cp.g_now cp.g_wrap cp.g_db guaranteesI)
    (auto simp: Let_def deployment_refs_ok_def Deployment0_def intro!: cp_deployment_seq cp_deployment_insert)

lemma cp_DeploymentRepo_updates [cp_ops]:
  "guarantees (cp h) (DeploymentRepo_Start i)" "guarantees (cp h) (DeploymentRepo_Finish i)"
  "guarantees (cp h) (DeploymentRepo_UpdateStatus i s)"
  "guarantees (cp h) (DeploymentRepo_UpdateCommitInfo i c m)"
  unfolding DeploymentRepo_Start_def DeploymentRepo_Finish_def DeploymentRepo_UpdateStatus_def
    DeploymentRepo_UpdateCommitInfo_def deployment_not_found_def
  by (intro cp_rules cp_deployment_update_op; simp add: previous_ok_def)+

lemma cp_DeploymentRepo_UpdateEnvSnapshot [cp_ops]:
  "guarantees (cp h) (DeploymentRepo_UpdateEnvSnapshot i env)"
  unfolding DeploymentRepo_UpdateEnvSnapshot_def deployment_not_found_def
proof (intro cp_rules cp_deployment_update_op)
  fix w d
  show "previous_ok w (d\<lparr>d_EnvSnapshot := Some (enc_env env),
      d_PreviousDeploymentID := map_option d_ID (previous_success w d),
      d_PreviousCommitHash := case previous_success w d of None \<Rightarrow> None | Some p \<Rightarrow> d_CommitHash p\<rparr>)"
    by (cases "previous_success w d") (auto simp: previous_ok_def dest: previous_success_Some)
qed simp_all

section \<open>Applications\<close>

lemma cp_app_insert:
  assumes "a_ServerID a \<in> s_ID ` set (w_servers w)" and "a_ID a = w_app_seq w"
    and "live_app a" "\<not> (\<exists>b\<in>set (w_apps w). live_app b \<and> a_ServerID b = a_ServerID a \<and> a_RepoName b = a_RepoName a)"
  shows "cp h w (w\<lparr>w_app_seq := w_app_seq w + 1, w_apps := w_apps w @ [a]\<rparr>)" (is "cp h w ?w")
proof -
  have "store_ok w \<Longrightarrow> apps_ok ?w"
    using assms by (auto simp: store_ok_def apps_ok_def app_place_def)
  then have "store_ok w \<Longrightarrow> store_ok ?w"
    by - (rule store_okI [of w], auto simp: wider_def)
  then show ?thesis by (simp add: cp_def keeps_def job_history_same)
qed

lemma cp_app_seq: "cp h w (w\<lparr>w_app_seq := w_app_seq w + 1\<rparr>)"
proof -
  have "store_ok w \<Longrightarrow> store_ok (w\<lparr>w_app_seq := w_app_seq w + 1\<rparr>)"
    by (rule store_okI [of w]) (auto simp: wider_def store_ok_def apps_ok_def)
  then show ?thesis by (simp add: cp_def keeps_def job_history_same)
qed

text \<open>A row keeps its id and place, and does not come back to life.\<close>

lemma places_update:
  assumes "\<And>a. app_place (f a) = app_place a" and "\<And>a. live_app (f a) \<Longrightarrow> live_app a"
  shows "distinct (map app_place (filter live_app xs)) \<Longrightarrow>
    distinct (map app_place (filter live_app (map f xs)))"
proof (induction xs)
  case (Cons a xs)
  have "app_place ` {x. x \<in> f ` set xs \<and> live_app x} \<subseteq> app_place ` {x \<in> set xs. live_app x}"
  proof
    fix pl
    assume "pl \<in> app_place ` {x. x \<in> f ` set xs \<and> live_app x}"
    then obtain x where "pl = app_place (f x)" "x \<in> set xs" "live_app (f x)" by auto
    then show "pl \<in> app_place ` {x \<in> set xs. live_app x}"
      by (intro image_eqI [of _ _ x]) (simp_all add: assms)
  qed
  with Cons assms show ?case by (auto split: if_splits)
qed simp

lemma cp_app_map:
  assumes f: "\<And>a. a_ID (f a) = a_ID a" "\<And>a. a_ServerID (f a) = a_ServerID a"
      "\<And>a. a_RepoName (f a) = a_RepoName a" "\<And>a. live_app (f a) \<Longrightarrow> live_app a"
  shows "cp h w (w\<lparr>w_apps := map f (w_apps w)\<rparr>)" (is "cp h w ?w")
proof -
  have "apps_ok w \<Longrightarrow> apps_ok ?w"
    using places_update [of f "w_apps w"] f by (simp add: apps_ok_def app_place_def o_def)
  then have "store_ok w \<Longrightarrow> store_ok ?w"
    by - (rule store_okI [of w], simp_all add: wider_def image_image f, simp add: store_ok_def)
  then show ?thesis by (simp add: cp_def keeps_def job_history_same)
qed

lemma cp_app_update:
  assumes "\<And>a. a_ID (f a) = a_ID a" "\<And>a. a_ServerID (f a) = a_ServerID a"
      "\<And>a. a_RepoName (f a) = a_RepoName a" "\<And>a. live_app (f a) \<Longrightarrow> live_app a"
  shows "guarantees (cp h) (app_update msg i f)"
  unfolding app_update_def update_where_def Let_def
  by (intro cp_rules guaranteesI; simp; intro cp_app_map; simp add: assms split: if_splits)

lemma cp_AppRepo_reads [cp_ops]:
  "guarantees (cp h) (AppRepo_List opts)" "guarantees (cp h) (AppRepo_GetByID i)"
  unfolding AppRepo_List_def AppRepo_GetByID_def
  by (intro cp_rules cp_read; simp split: option.split)+

lemma cp_AppRepo_Create [cp_ops]: "guarantees (cp h) (AppRepo_Create app)"
  unfolding AppRepo_Create_def
  by (intro cp.g_bind cp.g_now cp.g_wrap cp.g_db guaranteesI)
    (auto simp: Let_def Application.extend_def AppRow.fields_def live_app_def
      intro!: cp_app_seq cp_app_insert)

lemma cp_AppRepo_updates [cp_ops]:
  "guarantees (cp h) (AppRepo_Update app i)" "guarantees (cp h) (AppRepo_Delete i)"
  "guarantees (cp h) (AppRepo_UpdateStatus i s)" "guarantees (cp h) (AppRepo_UpdateLastDeployment i)"
  unfolding AppRepo_Update_def AppRepo_Delete_def AppRepo_UpdateStatus_def AppRepo_UpdateLastDeployment_def
  by (intro cp_rules cp_app_update; simp add: live_app_def)+

lemma cp_AppRepo_UpdateHealth [cp_ops]: "guarantees (cp h) (AppRepo_UpdateHealth s reports)"
  unfolding AppRepo_UpdateHealth_def
  by (intro cp_rules cp.g_modify cp_app_map; auto simp: live_app_def split: if_splits option.splits)

section \<open>Environment variables\<close>

lemma cp_env:
  assumes "store_ok w \<Longrightarrow> env_ok (w\<lparr>w_env_seq := s, w_env := E\<rparr>)"
  shows "cp h w (w\<lparr>w_env_seq := s, w_env := E\<rparr>)"
proof -
  have "store_ok w \<Longrightarrow> store_ok (w\<lparr>w_env_seq := s, w_env := E\<rparr>)"
    using assms by - (rule store_okI [of w], simp_all add: wider_def)
  then show ?thesis by (simp add: cp_def keeps_def job_history_same)
qed

lemma cp_env_only:
  assumes "store_ok w \<Longrightarrow> env_ok (w\<lparr>w_env := E\<rparr>)"
  shows "cp h w (w\<lparr>w_env := E\<rparr>)"
proof -
  have "store_ok w \<Longrightarrow> store_ok (w\<lparr>w_env := E\<rparr>)"
    using assms by - (rule store_okI [of w], simp_all add: wider_def)
  then show ?thesis by (simp add: cp_def keeps_def job_history_same)
qed

lemma env_ok_filter: "env_ok w \<Longrightarrow> env_ok (w\<lparr>w_env := filter p (w_env w)\<rparr>)"
  by (auto simp: env_ok_def distinct_map_filter)

lemma env_ok_update:
  assumes "\<And>e. e_ID (f e) = e_ID e" "\<And>e. e_ApplicationID (f e) = e_ApplicationID e" and "\<And>e. e_Key (f e) = e_Key e"
    and "env_ok w"
  shows "env_ok (w\<lparr>w_env := update_where p f (w_env w)\<rparr>)"
proof -
  have "map env_place (update_where p f (w_env w)) = map env_place (w_env w)"
    "map e_ID (update_where p f (w_env w)) = map e_ID (w_env w)"
    by (rule map_update_where, simp add: env_place_def assms)+
  with assms show ?thesis by (simp add: env_ok_def ball_update_where)
qed

lemma env_ok_seq: "env_ok w \<Longrightarrow> env_ok (w\<lparr>w_env_seq := w_env_seq w + 1\<rparr>)"
  by (auto simp: env_ok_def)

lemma cp_env_seq: "cp h w (w\<lparr>w_env_seq := w_env_seq w + 1\<rparr>)"
proof -
  have "store_ok w \<Longrightarrow> store_ok (w\<lparr>w_env_seq := w_env_seq w + 1\<rparr>)"
    by (rule store_okI [of w], assumption) (simp_all add: wider_def store_ok_def env_ok_seq)
  then show ?thesis by (simp add: cp_def keeps_def job_history_same)
qed

lemma cp_env_upsert: "guarantees (cp h) (env_upsert now i e)"
proof (rule guaranteesI)
  fix w :: world
  let ?s = "w_env_seq w + 1"
  note seq = cp_env_seq [of h w]
  have upd: "cp h w (w\<lparr>w_env_seq := ?s, w_env := update_where (env_at i (e_Key e)) (\<lambda>r. r\<lparr>
      e_Value := e_Value e, e_ValueEncrypted := e_ValueEncrypted e, e_IsPreview := e_IsPreview e,
      e_UpdatedAt := now\<rparr>) (w_env w)\<rparr>)"
    by (rule cp_env) (use env_ok_update [where w = "w\<lparr>w_env_seq := ?s\<rparr>"] in \<open>simp add: store_ok_def env_ok_seq\<close>)
  have ins: "cp h w (w\<lparr>w_env_seq := ?s, w_env := w_env w @ [e\<lparr>e_ID := w_env_seq w, e_ApplicationID := i,
      e_CreatedAt := now, e_UpdatedAt := now\<rparr>]\<rparr>)"
    if "find (env_at i (e_Key e)) (w_env w) = None" and "i \<in> a_ID ` set (w_apps w)"
    by (rule cp_env) (use that in \<open>auto simp: store_ok_def env_ok_def env_place_def find_None_set env_at_def\<close>)
  show "cp h w (snd (env_upsert now i e w))"
    using seq upd ins by (auto simp: env_upsert_def Let_def split: option.split)
qed

lemma job_history_env: "job_history h w (u\<lparr>w_env := E\<rparr>) = job_history h w u"
  by (simp add: job_history_def job_ids_ok_def)

text \<open>Operations that leave the applications alone and take ids of variables off the sequence only.\<close>

definition same_apps :: "world \<Rightarrow> world \<Rightarrow> bool" where
  "same_apps w w' \<longleftrightarrow> w_apps w' = w_apps w \<and> w_env_seq w \<le> w_env_seq w'"

interpretation sa: db_guarantee same_apps
  by unfold_locales (simp_all add: same_apps_def)

lemma cp_env_tx:
  assumes m: "guarantees (cp h) m" and apps: "guarantees same_apps m"
  shows "guarantees (cp h) (env_tx m)"
proof (rule guaranteesI)
  fix w :: world
  let ?u = "snd (m w)"
  have mw: "cp h w ?u" using m by (simp add: guarantees_def)
  have "store_ok (?u\<lparr>w_env := w_env w\<rparr>)" if "store_ok w"
  proof (rule store_okI [of ?u])
    show "store_ok ?u" using mw that by (simp add: cp_def keeps_def)
    have "env_ok (?u\<lparr>w_env := w_env w\<rparr>)"
      using that apps by (auto simp: store_ok_def env_ok_def guarantees_def same_apps_def intro: order.strict_trans2)
    then show "w_env (?u\<lparr>w_env := w_env w\<rparr>) = w_env ?u \<and> w_env_seq (?u\<lparr>w_env := w_env w\<rparr>) = w_env_seq ?u \<or>
      env_ok (?u\<lparr>w_env := w_env w\<rparr>)" ..
  qed (simp_all add: wider_def)
  then have rolled: "cp h w (?u\<lparr>w_env := w_env w\<rparr>)"
    using mw by (simp add: cp_def keeps_def job_history_env)
  obtain r u where "m w = (r, u)" by (cases "m w")
  with mw rolled show "cp h w (snd (env_tx m w))"
    by (cases r) (simp_all add: env_tx_def)
qed

lemma sa_env_upsert: "guarantees same_apps (env_upsert now i e)"
  by (rule guaranteesI) (simp add: env_upsert_def same_apps_def Let_def split: option.split)

context db_guarantee
begin

lemma g_Encrypt: "guarantees R (Encrypt gcm text key)"
  unfolding Encrypt_def Let_def by (intro db_rules)

lemma g_encrypted_row: "guarantees R (encrypted_row r e)"
  unfolding encrypted_row_def encryptEnvValue_def by (intro db_rules g_Encrypt)

lemma g_encrypt_rows: "guarantees R (encrypt_rows r es)"
proof (induction es)
  case (Cons e es)
  then show ?case unfolding encrypt_rows.simps by (intro db_rules g_encrypted_row)
qed (simp only: encrypt_rows.simps g_return)

end

lemma cp_AppRepo_SyncEnvVars [cp_ops]: "guarantees (cp h) (AppRepo_SyncEnvVars r i es)"
proof -
  have filt: "cp h w (w\<lparr>w_env := filter p (w_env w)\<rparr>)" for w p
    by (rule cp_env_only) (simp add: store_ok_def env_ok_filter)
  show ?thesis
    unfolding AppRepo_SyncEnvVars_def
  proof (rule cp.g_if [OF cp.g_return cp.g_bind [OF cp.g_now cp_env_tx]], goal_cases)
    case (1 now)
    then show ?case
      by (intro cp_rules cp.g_encrypt_rows cp_env_upsert cp.g_modify filt)
  next
    case (2 now)
    have "guarantees same_apps (bindE (wrapE ''failed to begin tx'' (db_exec (returnE ()))) (\<lambda>_.
        bindE (encrypt_rows r es) (\<lambda>rows.
        bindE (wrapE ''failed to upsert env vars'' (db_exec (env_upsert now i (hd rows)))) (\<lambda>_.
        bindE (wrapE ''failed to delete stale env vars''
          (bindE (forE (tl rows) (\<lambda>e. bindE (db_exec (env_upsert now i e)) (\<lambda>_. returnE ()))) (\<lambda>_.
           db_exec (modifyE (\<lambda>w. w\<lparr>w_env := filter (\<lambda>e. \<not> (e_ApplicationID e = i \<and>
              e_Key e \<notin> e_Key ` set es)) (w_env w)\<rparr>))))) (\<lambda>_.
        wrapE ''failed to commit tx'' (db_exec (returnE ())))))))"
      by (intro sa.db_rules sa.g_encrypt_rows sa_env_upsert sa.g_modify) (simp add: same_apps_def)
    then show ?case .
  qed
qed

lemma cp_AppRepo_ListEnvVars [cp_ops]: "guarantees (cp h) (AppRepo_ListEnvVars r i)"
  unfolding AppRepo_ListEnvVars_def
  by (intro cp_rules) (simp add: cp_rules split: sum.split)

lemma cp_AppRepo_CreateEnvVar [cp_ops]: "guarantees (cp h) (AppRepo_CreateEnvVar r e)"
  unfolding AppRepo_CreateEnvVar_def by (intro cp_rules cp.g_encrypted_row cp_env_upsert)

lemma cp_AppRepo_UpdateEnvVar [cp_ops]: "guarantees (cp h) (AppRepo_UpdateEnvVar r e)"
  unfolding AppRepo_UpdateEnvVar_def Let_def
  by (intro cp_rules cp.g_encrypted_row guaranteesI) (auto simp: store_ok_def intro!: cp_env_only env_ok_update)

lemma cp_AppRepo_DeleteEnvVar [cp_ops]: "guarantees (cp h) (AppRepo_DeleteEnvVar i k)"
  unfolding AppRepo_DeleteEnvVar_def
  by (intro cp_rules guaranteesI) (auto simp: store_ok_def intro!: cp_env_only env_ok_filter)

section \<open>Servers\<close>

lemma cp_servers:
  assumes "store_ok w \<Longrightarrow> s_ID ` set (w_servers w) \<subseteq> s_ID ` set S"
    and "store_ok w \<Longrightarrow> servers_ok (w\<lparr>w_servers := S\<rparr>)"
  shows "cp h w (w\<lparr>w_servers := S\<rparr>)"
proof -
  have "store_ok w \<Longrightarrow> store_ok (w\<lparr>w_servers := S\<rparr>)"
    using assms by - (rule store_okI [of w], simp_all add: wider_def)
  then show ?thesis by (simp add: cp_def keeps_def job_history_same)
qed

lemma cp_server_update:
  assumes f: "\<And>s. s_ID (f s) = s_ID s" "\<And>s. s_APIToken (f s) = s_APIToken s"
  shows "guarantees (cp h) (server_update i f)"
proof (rule guaranteesI)
  fix w :: world
  have "map s_ID (update_where p f (w_servers w)) = map s_ID (w_servers w)"
    "map s_APIToken (update_where p f (w_servers w)) = map s_APIToken (w_servers w)" for p
    by (rule map_update_where, simp add: f)+
  then have "cp h w (w\<lparr>w_servers := update_where p f (w_servers w)\<rparr>)" for p
    by (intro cp_servers) (auto simp: store_ok_def servers_ok_def simp del: set_map simp flip: set_map)
  then show "cp h w (snd (server_update i f w))" by (simp add: server_update_def Let_def)
qed

lemma cp_server_affected: "guarantees (cp h) (server_affected i what n)"
  by (rule guaranteesI) (simp add: server_affected_def cp.refl)

lemma cp_ServerRepo_reads [cp_ops]:
  "guarantees (cp h) (ServerRepo_List opts)" "guarantees (cp h) (ServerRepo_GetByID i)"
  "guarantees (cp h) (ServerRepo_GetByToken t)" "guarantees (cp h) ServerRepo_CountOnline"
  unfolding ServerRepo_List_def ServerRepo_GetByID_def ServerRepo_GetByToken_def ServerRepo_CountOnline_def
  by (intro cp_rules cp_read; simp split: option.split)+

lemma cp_ServerRepo_updates [cp_ops]:
  "guarantees (cp h) (ServerRepo_Update inet s i)" "guarantees (cp h) (ServerRepo_UpdateOSInfo i os)"
  "guarantees (cp h) (ServerRepo_Delete i)" "guarantees (cp h) (ServerRepo_UpdateStatus i b)"
  unfolding ServerRepo_Update_def ServerRepo_UpdateOSInfo_def ServerRepo_Delete_def ServerRepo_UpdateStatus_def
  by (intro cp_rules cp_server_update cp_server_affected; simp)+

lemma cp_ServerRepo_Create [cp_ops]: "guarantees (cp h) (ServerRepo_Create inet s)"
  unfolding ServerRepo_Create_def
proof (intro cp.g_bind cp.g_now cp.g_wrap cp.g_db cp.g_uuid, rule guaranteesI)
  fix now i and w :: world
  have "cp h w (w\<lparr>w_servers := w_servers w @ [row]\<rparr>)"
    if "s_ID row \<notin> s_ID ` set (w_servers w)" "s_APIToken row \<notin> s_APIToken ` set (w_servers w)" for row
    by (rule cp_servers) (use that in \<open>auto simp: store_ok_def servers_ok_def\<close>)
  then show "cp h w (snd ((\<lambda>w. case if s_IPAddress s = [] then None else inet (s_IPAddress s) of
         None \<Rightarrow> (Inl ErrDB, w)
       | Some ip \<Rightarrow>
          (let row = s\<lparr>s_ID := i, s_IPAddress := ip, s_OSInfo := None, s_CreatedAt := now, s_UpdatedAt := now\<rparr>
           in if i \<notin> s_ID ` set (w_servers w) \<and> s_APIToken s \<notin> s_APIToken ` set (w_servers w)
              then (Inr (s\<lparr>s_ID := i, s_CreatedAt := now, s_UpdatedAt := now\<rparr>),
                    w\<lparr>w_servers := w_servers w @ [Server.extend row (ServerRow.fields None)]\<rparr>)
              else (Inl ErrDB, w))) w))"
    by (simp add: Let_def cp.refl Server.extend_def ServerRow.fields_def split: option.split)
qed

text \<open>Overwriting a unique column in one row, with a value no other row has.\<close>

lemma distinct_overwrite:
  assumes "distinct (map k xs)" and "distinct (map t xs)" and "\<And>x. p x \<Longrightarrow> k x = i"
    and "\<And>x. x \<in> set xs \<Longrightarrow> \<not> p x \<Longrightarrow> t x \<noteq> v"
  shows "distinct (map (\<lambda>x. if p x then v else t x) xs)"
  using assms(1,2,4)
proof (induction xs)
  case (Cons x xs)
  have "distinct (map (\<lambda>x. if p x then v else t x) xs)"
    by (rule Cons.IH) (use Cons.prems in auto)
  moreover have "(if p x then v else t x) \<noteq> (if p y then v else t y)" if y: "y \<in> set xs" for y
  proof -
    have "k x \<noteq> k y" "t x \<noteq> t y" using Cons.prems(1,2) y by auto
    then show ?thesis
      using assms(3) [of x] assms(3) [of y] Cons.prems(3) [of x] Cons.prems(3) [of y] y
      by (cases "p x"; cases "p y") auto
  qed
  ultimately show ?case unfolding list.map distinct.simps set_map by blast
qed simp

lemma distinct_overwrite_update:
  assumes "distinct (map k xs)" and "distinct (map t xs)" and "\<And>x. p x \<Longrightarrow> k x = i"
    and "\<And>x. t (f x) = v" and "\<And>x. x \<in> set xs \<Longrightarrow> \<not> p x \<Longrightarrow> t x \<noteq> v"
  shows "distinct (map t (update_where p f xs))"
proof -
  have "map t (update_where p f xs) = map (\<lambda>x. if p x then v else t x) xs"
    by (simp add: update_where_def assms(4))
  with distinct_overwrite [of k xs t p i v] assms(1-3,5) show ?thesis by simp
qed

lemma cp_ServerRepo_UpdateSecret [cp_ops]: "guarantees (cp h) (ServerRepo_UpdateSecret i secret)"
  unfolding ServerRepo_UpdateSecret_def
proof (intro cp.g_bind cp.g_now cp.g_wrap cp.g_db cp_server_affected, rule guaranteesI)
  fix now and w :: world
  let ?p = "\<lambda>s. s_ID s = i \<and> live_server s"
  let ?S = "update_where ?p (\<lambda>r. r\<lparr>s_APIToken := secret, s_UpdatedAt := now\<rparr>) (w_servers w)"
  have ids: "map s_ID ?S = map s_ID (w_servers w)"
    by (rule map_update_where) simp
  have "cp h w (w\<lparr>w_servers := ?S\<rparr>)"
    if "\<not> (\<exists>s\<in>set (w_servers w). s_APIToken s = secret \<and> \<not> ?p s)"
  proof (rule cp_servers)
    show "s_ID ` set (w_servers w) \<subseteq> s_ID ` set ?S"
      using arg_cong [OF ids, of set] unfolding set_map by (rule equalityD2)
    assume "store_ok w"
    then have "distinct (map s_ID (w_servers w))" "distinct (map s_APIToken (w_servers w))"
      by (simp_all add: store_ok_def servers_ok_def)
    then have "distinct (map s_APIToken ?S)"
    proof (rule distinct_overwrite_update [where i = i])
      show "s_APIToken x \<noteq> secret" if "x \<in> set (w_servers w)" "\<not> ?p x" for x
        using \<open>\<not> (\<exists>s\<in>set (w_servers w). s_APIToken s = secret \<and> \<not> ?p s)\<close> that by blast
    qed simp_all
    moreover have "distinct (map s_ID ?S)"
      using \<open>store_ok w\<close> unfolding ids by (simp add: store_ok_def servers_ok_def)
    ultimately show "servers_ok (w\<lparr>w_servers := ?S\<rparr>)"
      unfolding servers_ok_def by simp
  qed
  then show "cp h w (snd ((\<lambda>w. if \<exists>s\<in>set (w_servers w). s_APIToken s = secret \<and> \<not> ?p s
       then (Inl ErrDB, w)
       else server_update i (\<lambda>r. r\<lparr>s_APIToken := secret, s_UpdatedAt := now\<rparr>) w) w))"
    unfolding server_update_def Let_def
    by (cases "\<exists>s\<in>set (w_servers w). s_APIToken s = secret \<and> \<not> ?p s") (simp_all only: if_True if_False snd_conv cp.refl simp_thms)
qed

end
