(* ===== verification/Sessions.thy ===== *)
theory Sessions
  imports Users
begin

text \<open>
  Logins: the session store of \<open>internal/adapters/redis/session_store.go\<close>, the interface
  \<open>domain.SessionStore\<close> as a locale, and the services that rest on it,
  \<open>internal/application/auth/service.go\<close> and \<open>internal/application/account/service.go\<close>.

  A key \<open>sess:{id}\<close> disappears at its deadline: \<open>Get\<close> looks at the clock. Redis keeps a time to
  live in milliseconds, the model keeps the deadline itself.
\<close>

section \<open>The store\<close>

definition live_session :: "world \<Rightarrow> string \<Rightarrow> Session option" where
  "live_session w i = (case rd_sess (w_redis w) i of
     None \<Rightarrow> None
   | Some (s, deadline) \<Rightarrow> if w_now w < deadline then Some s else None)"

definition redis_update :: "(RedisState \<Rightarrow> RedisState) \<Rightarrow> (world, unit) op" where
  "redis_update f = redis_exec (modifyE (\<lambda>w. w\<lparr>w_redis := f (w_redis w)\<rparr>))"

definition SessionStore_Create :: "Session \<Rightarrow> (world, unit) op" where
  "SessionStore_Create sess = bindE time_Now (\<lambda>now.
     if se_ExpiresAt sess - now \<le> 0 then failE (ErrMsg ''session already expired'')
     else redis_update (\<lambda>r. r\<lparr>rd_sess := (rd_sess r)(se_ID sess \<mapsto> (sess, se_ExpiresAt sess)),
       rd_user_sessions := (rd_user_sessions r)(se_UserID sess :=
         List.insert (se_ID sess) (rd_user_sessions r (se_UserID sess)))\<rparr>))"

definition SessionStore_Get :: "string \<Rightarrow> (world, Session option) op" where
  "SessionStore_Get sessionID = redis_exec (getsE (\<lambda>w. live_session w sessionID))"

definition SessionStore_Delete :: "string \<Rightarrow> (world, unit) op" where
  "SessionStore_Delete sessionID = bindE (SessionStore_Get sessionID) (\<lambda>sess.
     redis_update (\<lambda>r. let r' = r\<lparr>rd_sess := (rd_sess r)(sessionID := None)\<rparr> in
       case sess of None \<Rightarrow> r'
       | Some s \<Rightarrow> r'\<lparr>rd_user_sessions := (rd_user_sessions r)(se_UserID s :=
           removeAll sessionID (rd_user_sessions r (se_UserID s)))\<rparr>))"

definition SMembers :: "int \<Rightarrow> (world, string list) op" where
  "SMembers userID = redis_exec (getsE (\<lambda>w. rd_user_sessions (w_redis w) userID))"

definition SessionStore_DeleteAllForUser :: "int \<Rightarrow> (world, unit) op" where
  "SessionStore_DeleteAllForUser userID = bindE (SMembers userID) (\<lambda>ids.
     if ids = [] then returnE ()
     else redis_update (\<lambda>r. r\<lparr>rd_sess := (\<lambda>i. if i \<in> set ids then None else rd_sess r i),
       rd_user_sessions := (rd_user_sessions r)(userID := [])\<rparr>))"

fun live_sessions :: "string list \<Rightarrow> (world, Session list) op" where
  "live_sessions [] = returnE []"
| "live_sessions (i # is) = bindE (SessionStore_Get i) (\<lambda>sess. bindE (live_sessions is) (\<lambda>rest.
     returnE (case sess of None \<Rightarrow> rest | Some s \<Rightarrow> s # rest)))"

definition SessionStore_ListForUser :: "int \<Rightarrow> (world, Session list) op" where
  "SessionStore_ListForUser userID = bindE (SMembers userID) live_sessions"

section \<open>The interface\<close>

text \<open>
  What the services rely on. \<open>sound\<close> is the store's invariant, \<open>live\<close> what it holds, \<open>fresh\<close> says
  that an id was never used. Every operation that fails leaves the live sessions alone; a
  revocation that succeeds drops the user's sessions and no other.
\<close>

locale session_store =
  fixes sound :: "world \<Rightarrow> bool"
    and live :: "world \<Rightarrow> string \<Rightarrow> Session option"
    and fresh :: "world \<Rightarrow> string \<Rightarrow> bool"
    and create :: "Session \<Rightarrow> (world, unit) op"
    and get :: "string \<Rightarrow> (world, Session option) op"
    and delete :: "string \<Rightarrow> (world, unit) op"
    and delete_all :: "int \<Rightarrow> (world, unit) op"
  assumes live_named: "sound w \<Longrightarrow> live w i = Some s \<Longrightarrow> se_ID s = i"
    and get_live: "get i w = (Inr x, w') \<Longrightarrow> x = live w i"
    and get_keeps: "sound w \<Longrightarrow> get i w = (rg, w') \<Longrightarrow> sound w' \<and> live w' = live w"
    and create_sound: "sound w \<Longrightarrow> fresh w (se_ID s) \<Longrightarrow> create s w = (r, w') \<Longrightarrow> sound w'"
    and create_live: "sound w \<Longrightarrow> create s w = (Inr u, w') \<Longrightarrow> live w' = (live w)(se_ID s \<mapsto> s)"
    and create_fails: "sound w \<Longrightarrow> create s w = (Inl e, w') \<Longrightarrow> live w' = live w"
    and delete_sound: "sound w \<Longrightarrow> delete i w = (r, w') \<Longrightarrow> sound w'"
    and delete_live: "sound w \<Longrightarrow> delete i w = (Inr u, w') \<Longrightarrow> live w' = (live w)(i := None)"
    and delete_fails: "sound w \<Longrightarrow> delete i w = (Inl e, w') \<Longrightarrow> live w' = live w"
    and delete_all_sound: "sound w \<Longrightarrow> delete_all uid w = (r, w') \<Longrightarrow> sound w'"
    and delete_all_live: "sound w \<Longrightarrow> delete_all uid w = (Inr u, w') \<Longrightarrow>
      live w' i = (case live w i of None \<Rightarrow> None | Some s \<Rightarrow> if se_UserID s = uid then None else Some s)"
    and delete_all_fails: "sound w \<Longrightarrow> delete_all uid w = (Inl e, w') \<Longrightarrow> live w' = live w"
begin

lemma deleted_is_gone:
  assumes "sound w" and "delete i w = (Inr u, w')" and "get i w' = (Inr x, w'')"
  shows "x = None"
  using delete_live [OF assms(1,2)] get_live [OF assms(3)] by simp

lemma revoked_are_gone:
  assumes "sound w" and "delete_all uid w = (Inr u, w')" and "get i w' = (Inr (Some s), w'')"
  shows "se_UserID s \<noteq> uid"
  using delete_all_live [OF assms(1,2)] get_live [OF assms(3)] by (auto split: option.splits if_splits)

lemma created_is_found:
  assumes "sound w" and "create s w = (Inr u, w')" and "get (se_ID s) w' = (Inr x, w'')"
  shows "x = Some s"
  using create_live [OF assms(1,2)] get_live [OF assms(3)] by simp

text \<open>Whether it fails or not, a revocation brings no session to life.\<close>

lemma delete_all_shrinks:
  assumes "sound w" and "delete_all uid w = (r, w')" and "live w' i = Some s"
  shows "live w i = Some s"
  using assms delete_all_live [of w uid _ w' i] delete_all_fails [of w uid _ w']
  by (cases r) (auto split: option.splits if_splits)

end

section \<open>The store implements the interface\<close>

text \<open>
  Every session is stored under its own id and its id is in its user's set, expired or not: this
  is what lets \<open>DeleteAllForUser\<close> reach it. An id in a user's set names no session of somebody else:
  this is why it reaches nothing more. The second needs the ids of new sessions to be unused.
\<close>

definition sessions_indexed :: "world \<Rightarrow> bool" where
  "sessions_indexed w \<longleftrightarrow>
     (\<forall>i s d. rd_sess (w_redis w) i = Some (s, d) \<longrightarrow>
       se_ID s = i \<and> i \<in> set (rd_user_sessions (w_redis w) (se_UserID s))) \<and>
     (\<forall>u i s d. i \<in> set (rd_user_sessions (w_redis w) u) \<longrightarrow> rd_sess (w_redis w) i = Some (s, d) \<longrightarrow> se_UserID s = u)"

definition session_fresh :: "world \<Rightarrow> string \<Rightarrow> bool" where
  "session_fresh w i \<longleftrightarrow> (\<forall>u. i \<notin> set (rd_user_sessions (w_redis w) u))"

lemma redis_update_result:
  "redis_update f w = (Inl ErrRedis, w\<lparr>w_calls := Suc (w_calls w)\<rparr>) \<or>
   redis_update f w = (Inr (), w\<lparr>w_calls := Suc (w_calls w), w_redis := f (w_redis w)\<rparr>)"
  by (simp add: redis_update_def redis_exec_def Let_def)

lemma redis_update_later:
  "redis_update f (w\<lparr>w_calls := n\<rparr>) = (Inl ErrRedis, w\<lparr>w_calls := Suc n\<rparr>) \<or>
   redis_update f (w\<lparr>w_calls := n\<rparr>) = (Inr (), w\<lparr>w_calls := Suc n, w_redis := f (w_redis w)\<rparr>)"
  using redis_update_result [of f "w\<lparr>w_calls := n\<rparr>"] by simp

lemma SessionStore_Get_result:
  "SessionStore_Get i w = (Inl ErrRedis, w\<lparr>w_calls := Suc (w_calls w)\<rparr>) \<or>
   SessionStore_Get i w = (Inr (live_session w i), w\<lparr>w_calls := Suc (w_calls w)\<rparr>)"
  by (simp add: SessionStore_Get_def redis_exec_def Let_def live_session_def cong: option.case_cong)

lemma SMembers_result:
  "SMembers u w = (Inl ErrRedis, w\<lparr>w_calls := Suc (w_calls w)\<rparr>) \<or>
   SMembers u w = (Inr (rd_user_sessions (w_redis w) u), w\<lparr>w_calls := Suc (w_calls w)\<rparr>)"
  by (simp add: SMembers_def redis_exec_def Let_def)

lemma live_session_calls [simp]:
  "live_session (w\<lparr>w_calls := n\<rparr>) = live_session w" "sessions_indexed (w\<lparr>w_calls := n\<rparr>) = sessions_indexed w"
  by (simp_all add: live_session_def sessions_indexed_def fun_eq_iff split: option.split)

text \<open>A relation that describes each of the three changes, failures included.\<close>

lemma SessionStore_Create_cases:
  "(\<exists>e n. SessionStore_Create s w = (Inl e, w\<lparr>w_calls := n\<rparr>)) \<or>
   (w_now w < se_ExpiresAt s \<and> SessionStore_Create s w = (Inr (), w\<lparr>w_calls := Suc (w_calls w),
      w_redis := (w_redis w)\<lparr>rd_sess := (rd_sess (w_redis w))(se_ID s \<mapsto> (s, se_ExpiresAt s)),
        rd_user_sessions := (rd_user_sessions (w_redis w))(se_UserID s :=
          List.insert (se_ID s) (rd_user_sessions (w_redis w) (se_UserID s)))\<rparr>\<rparr>))"
proof (cases "se_ExpiresAt s - w_now w \<le> 0")
  case True
  then have "SessionStore_Create s w = (Inl (ErrMsg ''session already expired''), w\<lparr>w_calls := w_calls w\<rparr>)"
    by (simp add: SessionStore_Create_def bindE_def time_Now_def)
  then show ?thesis by blast
next
  case False
  let ?f = "\<lambda>r. r\<lparr>rd_sess := (rd_sess r)(se_ID s \<mapsto> (s, se_ExpiresAt s)),
       rd_user_sessions := (rd_user_sessions r)(se_UserID s :=
         List.insert (se_ID s) (rd_user_sessions r (se_UserID s)))\<rparr>"
  have run: "SessionStore_Create s w = redis_update ?f w"
    using False by (simp add: SessionStore_Create_def bindE_def time_Now_def)
  from redis_update_result [of ?f w] show ?thesis
  proof
    assume "redis_update ?f w = (Inl ErrRedis, w\<lparr>w_calls := Suc (w_calls w)\<rparr>)"
    with run show ?thesis by metis
  next
    assume "redis_update ?f w = (Inr (), w\<lparr>w_calls := Suc (w_calls w), w_redis := ?f (w_redis w)\<rparr>)"
    with run False show ?thesis by (simp add: not_le)
  qed
qed

lemma SessionStore_Delete_cases:
  "(\<exists>e n. SessionStore_Delete i w = (Inl e, w\<lparr>w_calls := n\<rparr>)) \<or>
   (\<exists>n us. SessionStore_Delete i w = (Inr (), w\<lparr>w_calls := n,
      w_redis := (w_redis w)\<lparr>rd_sess := (rd_sess (w_redis w))(i := None), rd_user_sessions := us\<rparr>\<rparr>) \<and>
      (\<forall>u j. j \<noteq> i \<longrightarrow> j \<in> set (us u) \<longleftrightarrow> j \<in> set (rd_user_sessions (w_redis w) u)))"
proof -
  let ?w = "w\<lparr>w_calls := Suc (w_calls w)\<rparr>"
  let ?f = "\<lambda>r. let r' = r\<lparr>rd_sess := (rd_sess r)(i := None)\<rparr> in
       case live_session w i of None \<Rightarrow> r'
       | Some s \<Rightarrow> r'\<lparr>rd_user_sessions := (rd_user_sessions r)(se_UserID s :=
           removeAll i (rd_user_sessions r (se_UserID s)))\<rparr>"
  let ?us = "case live_session w i of None \<Rightarrow> rd_user_sessions (w_redis w)
    | Some s \<Rightarrow> (rd_user_sessions (w_redis w))(se_UserID s := removeAll i (rd_user_sessions (w_redis w) (se_UserID s)))"
  have us: "\<forall>u j. j \<noteq> i \<longrightarrow> j \<in> set (?us u) \<longleftrightarrow> j \<in> set (rd_user_sessions (w_redis w) u)"
    by (simp split: option.split)
  have f: "?f (w_redis w) = (w_redis w)\<lparr>rd_sess := (rd_sess (w_redis w))(i := None), rd_user_sessions := ?us\<rparr>"
    by (simp split: option.split)
  from SessionStore_Get_result [of i w] show ?thesis
  proof
    assume "SessionStore_Get i w = (Inl ErrRedis, ?w)"
    then show ?thesis by (auto simp: SessionStore_Delete_def bindE_def)
  next
    assume "SessionStore_Get i w = (Inr (live_session w i), ?w)"
    then have run: "SessionStore_Delete i w = redis_update ?f ?w"
      by (simp add: SessionStore_Delete_def bindE_def)
    from redis_update_later [where f = ?f and w = w and n = "Suc (w_calls w)"] show ?thesis
    proof
      assume "redis_update ?f ?w = (Inl ErrRedis, w\<lparr>w_calls := Suc (Suc (w_calls w))\<rparr>)"
      with run have "SessionStore_Delete i w = (Inl ErrRedis, w\<lparr>w_calls := Suc (Suc (w_calls w))\<rparr>)" by (simp only:)
      then show ?thesis by blast
    next
      assume "redis_update ?f ?w = (Inr (), w\<lparr>w_calls := Suc (Suc (w_calls w)), w_redis := ?f (w_redis w)\<rparr>)"
      then have "SessionStore_Delete i w = (Inr (), w\<lparr>w_calls := Suc (Suc (w_calls w)), w_redis := ?f (w_redis w)\<rparr>)"
        by (simp only: run)
      with us show ?thesis unfolding f by blast
    qed
  qed
qed

lemma SessionStore_DeleteAllForUser_cases:
  "(\<exists>e n. SessionStore_DeleteAllForUser u w = (Inl e, w\<lparr>w_calls := n\<rparr>)) \<or>
   (\<exists>n. SessionStore_DeleteAllForUser u w = (Inr (), w\<lparr>w_calls := n,
      w_redis := (w_redis w)\<lparr>rd_sess := (\<lambda>i. if i \<in> set (rd_user_sessions (w_redis w) u) then None else rd_sess (w_redis w) i),
        rd_user_sessions := (rd_user_sessions (w_redis w))(u := [])\<rparr>\<rparr>))"
proof -
  let ?w = "w\<lparr>w_calls := Suc (w_calls w)\<rparr>" and ?ids = "rd_user_sessions (w_redis w) u"
  let ?f = "\<lambda>r. r\<lparr>rd_sess := (\<lambda>i. if i \<in> set ?ids then None else rd_sess r i),
       rd_user_sessions := (rd_user_sessions r)(u := [])\<rparr>"
  from SMembers_result [of u w] show ?thesis
  proof
    assume "SMembers u w = (Inl ErrRedis, ?w)"
    then show ?thesis by (auto simp: SessionStore_DeleteAllForUser_def bindE_def)
  next
    assume m: "SMembers u w = (Inr ?ids, ?w)"
    show ?thesis
    proof (cases "?ids = []")
      case True
      then have e: "(rd_user_sessions (w_redis w))(u := []) = rd_user_sessions (w_redis w)" by auto
      from m True have "SessionStore_DeleteAllForUser u w = (Inr (), w\<lparr>w_calls := Suc (w_calls w), w_redis := w_redis w\<rparr>)"
        by (simp add: SessionStore_DeleteAllForUser_def bindE_def)
      moreover have "w_redis w = ?f (w_redis w)" by (simp add: True e)
      ultimately show ?thesis by metis
    next
      case False
      with m have run: "SessionStore_DeleteAllForUser u w = redis_update ?f ?w"
        by (simp add: SessionStore_DeleteAllForUser_def bindE_def)
      from redis_update_later [where f = ?f and w = w and n = "Suc (w_calls w)"] show ?thesis
      proof
        assume "redis_update ?f ?w = (Inl ErrRedis, w\<lparr>w_calls := Suc (Suc (w_calls w))\<rparr>)"
        with run have "SessionStore_DeleteAllForUser u w = (Inl ErrRedis, w\<lparr>w_calls := Suc (Suc (w_calls w))\<rparr>)" by (simp only:)
        then show ?thesis by blast
      next
        assume "redis_update ?f ?w = (Inr (), w\<lparr>w_calls := Suc (Suc (w_calls w)), w_redis := ?f (w_redis w)\<rparr>)"
        then have "SessionStore_DeleteAllForUser u w = (Inr (), w\<lparr>w_calls := Suc (Suc (w_calls w)), w_redis := ?f (w_redis w)\<rparr>)"
          by (simp only: run)
        then show ?thesis by blast
      qed
    qed
  qed
qed

interpretation redis_sessions: session_store sessions_indexed live_session session_fresh SessionStore_Create SessionStore_Get
    SessionStore_Delete SessionStore_DeleteAllForUser
proof
  fix w w' w'' :: world and i s u uid and r :: "error + unit" and rg :: "error + Session option" and x e
  show "se_ID s = i" if "sessions_indexed w" "live_session w i = Some s"
    using that by (auto simp: sessions_indexed_def live_session_def split: option.splits if_splits)
  show "x = live_session w i" if "SessionStore_Get i w = (Inr x, w')"
    using that SessionStore_Get_result [of i w] by auto
  show "sessions_indexed w' \<and> live_session w' = live_session w"
    if "sessions_indexed w" "SessionStore_Get i w = (rg, w')"
    using that SessionStore_Get_result [of i w] by auto
  show "sessions_indexed w'" if "sessions_indexed w" "session_fresh w (se_ID s)" "SessionStore_Create s w = (r, w')"
    using that SessionStore_Create_cases [of s w]
    by (auto simp: sessions_indexed_def session_fresh_def split: if_splits) metis+
  show "live_session w' = (live_session w)(se_ID s \<mapsto> s)"
    if "sessions_indexed w" "SessionStore_Create s w = (Inr u, w')"
    using that SessionStore_Create_cases [of s w] by (auto simp: live_session_def fun_eq_iff split: option.split)
  show "live_session w' = live_session w" if "sessions_indexed w" "SessionStore_Create s w = (Inl e, w')"
    using that SessionStore_Create_cases [of s w] by auto
  show "sessions_indexed w'" if "sessions_indexed w" "SessionStore_Delete i w = (r, w')"
    using that SessionStore_Delete_cases [of i w]
    by (auto simp: sessions_indexed_def split: if_splits)
  show "live_session w' = (live_session w)(i := None)"
    if "sessions_indexed w" "SessionStore_Delete i w = (Inr u, w')"
    using that SessionStore_Delete_cases [of i w]
    by (auto simp: live_session_def fun_eq_iff split: option.splits if_splits)
  show "live_session w' = live_session w" if "sessions_indexed w" "SessionStore_Delete i w = (Inl e, w')"
    using that SessionStore_Delete_cases [of i w] by auto
  show "sessions_indexed w'" if "sessions_indexed w" "SessionStore_DeleteAllForUser uid w = (r, w')"
    using that SessionStore_DeleteAllForUser_cases [of uid w]
    by (auto simp: sessions_indexed_def split: if_splits)
  show "live_session w' i = (case live_session w i of None \<Rightarrow> None
      | Some s \<Rightarrow> if se_UserID s = uid then None else Some s)"
    if "sessions_indexed w" "SessionStore_DeleteAllForUser uid w = (Inr u, w')"
    using that SessionStore_DeleteAllForUser_cases [of uid w]
    by (cases "rd_sess (w_redis w) i") (auto simp: sessions_indexed_def live_session_def)
  show "live_session w' = live_session w"
    if "sessions_indexed w" "SessionStore_DeleteAllForUser uid w = (Inl e, w')"
    using that SessionStore_DeleteAllForUser_cases [of uid w] by auto
qed

section \<open>Login and logout\<close>

record AuthClaims =
  ac_UserID :: int
  ac_Role :: string
  ac_SessionID :: string
  ac_ExpiresAt :: gotime
  ac_IssuedAt :: gotime
  ac_Subject :: string

text \<open>
  \<open>github.com/golang-jwt/jwt\<close> is a parameter: a token is signed with a secret, or refused, and
  parsed with a secret at a time, accepting only HMAC methods, as the key function of
  \<open>ValidateToken\<close> asks.
\<close>

record JWT =
  SignedString :: "string \<Rightarrow> AuthClaims \<Rightarrow> string option"
  ParseWithClaims :: "string \<Rightarrow> string \<Rightarrow> gotime \<Rightarrow> AuthClaims option"

definition ValidateToken :: "JWT \<Rightarrow> string \<Rightarrow> string \<Rightarrow> (world, AuthClaims) op" where
  "ValidateToken jwt tokenString secret = bindE time_Now (\<lambda>now.
     case ParseWithClaims jwt secret tokenString now of
       None \<Rightarrow> failE (ErrMsg ''invalid token'')
     | Some claims \<Rightarrow> returnE claims)"

record LoginRequest =
  lr_Email :: string
  lr_Password :: string

record AuthResponse =
  ar_User :: User
  ar_AccessToken :: string

record AuthService =
  as_bcrypt :: Bcrypt
  as_jwt :: JWT
  as_jwtSecret :: string
  as_jwtExpiry :: int

text \<open>A JWT date is truncated to the second.\<close>

definition NewNumericDate :: "gotime \<Rightarrow> gotime" where
  "NewNumericDate t = t - t mod 1000000000"

definition AuthService_GetUser :: "UserContext option \<Rightarrow> (world, User) op" where
  "AuthService_GetUser uctx = (case uctx of
     None \<Rightarrow> failE ErrUnauthorized
   | Some u \<Rightarrow> UserRepo_GetByID (uc_ID u))"

definition uuid_NewString :: "(world, string) op" where
  "uuid_NewString = bindE uuid_New (\<lambda>u. getsE (\<lambda>w. w_uuid_string w u))"

text \<open>\<open>ip\<close> and \<open>agent\<close> come from the request's context.\<close>

definition AuthService_Login ::
    "AuthService \<Rightarrow> string \<Rightarrow> string \<Rightarrow> LoginRequest \<Rightarrow> (world, AuthResponse) op" where
  "AuthService_Login s ip agent req =
     bindE (catchE (UserRepo_GetByEmail (lr_Email req)) (\<lambda>_. failE ErrInvalidCredentials)) (\<lambda>user.
     if \<not> CompareHashAndPassword (as_bcrypt s) (u_Password user) (lr_Password req)
     then failE ErrInvalidCredentials
     else
     bindE uuid_NewString (\<lambda>sessionID.
     bindE time_Now (\<lambda>now.
     bindE (SessionStore_Create \<lparr>se_ID = sessionID, se_UserID = u_ID user, se_CreatedAt = now,
       se_ExpiresAt = now + as_jwtExpiry s, se_IP = ip, se_UserAgent = agent\<rparr>) (\<lambda>_.
     case u_Role user of None \<Rightarrow> failE (GoPanic ''nil pointer dereference'') | Some role \<Rightarrow>
     case SignedString (as_jwt s) (as_jwtSecret s) \<lparr>ac_UserID = u_ID user, ac_Role = ro_Name role,
        ac_SessionID = sessionID, ac_ExpiresAt = NewNumericDate (now + as_jwtExpiry s),
        ac_IssuedAt = NewNumericDate now, ac_Subject = show_int (u_ID user)\<rparr> of
       None \<Rightarrow> failE ErrCrypto
     | Some tokenString \<Rightarrow> returnE \<lparr>ar_User = user, ar_AccessToken = tokenString\<rparr>))))"

definition AuthService_Logout :: "UserContext option \<Rightarrow> (world, unit) op" where
  "AuthService_Logout uctx = (case uctx of
     None \<Rightarrow> failE ErrUnauthorized
   | Some u \<Rightarrow> if uc_SessionID u \<noteq> [] then SessionStore_Delete (uc_SessionID u) else returnE ())"

definition AuthService_RevokeAllSessions :: "int \<Rightarrow> (world, unit) op" where
  "AuthService_RevokeAllSessions userID = SessionStore_DeleteAllForUser userID"

section \<open>The account\<close>

record AccountPasswordRequest =
  ap_CurrentPassword :: string
  ap_Password :: string
  ap_PasswordConfirmation :: string

definition AccountService_UpdateProfile :: "UserContext option \<Rightarrow> string \<Rightarrow> (world, unit) op" where
  "AccountService_UpdateProfile uctx name = (case uctx of
     None \<Rightarrow> failE ErrUnauthorized
   | Some u \<Rightarrow> bindE (UserRepo_GetByID (uc_ID u)) (\<lambda>user.
       UserRepo_Update (user\<lparr>u_Name := name\<rparr>) (u_ID user)))"

definition AccountService_ChangePassword ::
    "Bcrypt \<Rightarrow> UserContext option \<Rightarrow> AccountPasswordRequest \<Rightarrow> (world, unit) op" where
  "AccountService_ChangePassword bc uctx req = (case uctx of
     None \<Rightarrow> failE ErrUnauthorized
   | Some u \<Rightarrow> bindE (UserRepo_GetByID (uc_ID u)) (\<lambda>user.
       if \<not> CompareHashAndPassword bc (u_Password user) (ap_CurrentPassword req)
       then failE ErrInvalidCurrentPassword
       else bindE (hash_password bc (ap_Password req)) (\<lambda>h.
         bindE (UserRepo_Update (user\<lparr>u_Password := h\<rparr>) (u_ID user)) (\<lambda>_.
         SessionStore_DeleteAllForUser (uc_ID u)))))"

section \<open>What the services keep of the sessions\<close>

text \<open>Operations on the tables do not touch Redis.\<close>

definition same_redis :: "world \<Rightarrow> world \<Rightarrow> bool" where
  "same_redis w w' \<longleftrightarrow> w_redis w' = w_redis w \<and> w_now w' = w_now w"

interpretation sr: db_guarantee same_redis
  by unfold_locales (auto simp: same_redis_def)

lemma same_redis_live:
  "same_redis w w' \<Longrightarrow> live_session w' = live_session w \<and> sessions_indexed w' = sessions_indexed w \<and>
    session_fresh w' = session_fresh w"
  by (simp add: same_redis_def live_session_def sessions_indexed_def session_fresh_def fun_eq_iff split: option.split)

lemma sr_users:
  "guarantees same_redis (user_joined p)" "guarantees same_redis (UserRepo_Update u i)"
  "guarantees same_redis (hash_password bc pw)" "guarantees same_redis uuid_NewString"
  unfolding user_joined_def UserRepo_Update_def hash_password_def uuid_NewString_def
  by (intro sr.db_rules guaranteesI; simp add: same_redis_def Let_def split: option.split)+

lemma sr_run: "guarantees same_redis m \<Longrightarrow> m w = (r, w') \<Longrightarrow>
    live_session w' = live_session w \<and> sessions_indexed w' = sessions_indexed w \<and> session_fresh w' = session_fresh w"
  by (metis guaranteesD same_redis_live)

section \<open>Properties\<close>

text \<open>
  C11. A password change that succeeds kills the live sessions of its user and no other: exactly
  those are gone, every other id finds what it found before.
\<close>

theorem ChangePassword_revokes:
  assumes ok: "sessions_indexed w" and run: "AccountService_ChangePassword bc (Some u) req w = (Inr x, w')"
  shows "sessions_indexed w' \<and> live_session w' = (\<lambda>i. case live_session w i of None \<Rightarrow> None
    | Some s \<Rightarrow> if se_UserID s = uc_ID u then None else Some s)"
proof -
  from run obtain user h w1 w2 w3 where 1: "UserRepo_GetByID (uc_ID u) w = (Inr user, w1)"
    and 2: "hash_password bc (ap_Password req) w1 = (Inr h, w2)"
    and 3: "UserRepo_Update (user\<lparr>u_Password := h\<rparr>) (u_ID user) w2 = (Inr (), w3)"
    and 4: "SessionStore_DeleteAllForUser (uc_ID u) w3 = (Inr x, w')"
    unfolding AccountService_ChangePassword_def
    by (auto simp: bindE_Inr_iff split: if_splits)
  have "live_session w3 = live_session w" "sessions_indexed w3"
    using sr_run [OF sr_users(1) 1 [unfolded UserRepo_GetByID_def]] sr_run [OF sr_users(3) 2]
      sr_run [OF sr_users(2) 3] ok by simp_all
  with redis_sessions.delete_all_live [OF _ 4] redis_sessions.delete_all_sound [OF _ 4] show ?thesis
    by (simp add: fun_eq_iff)
qed

definition session_of :: "int \<Rightarrow> Session" where
  "session_of u = \<lparr>se_ID = ''s7'', se_UserID = u, se_CreatedAt = 0, se_ExpiresAt = 100, se_IP = [], se_UserAgent = []\<rparr>"

definition logged_in_world :: world where
  "logged_in_world = empty_world\<lparr>w_users := [User.extend (User0\<lparr>u_ID := 7, u_Email := ''a@b'', u_Password := ''old'',
       u_RoleID := 1\<rparr>) \<lparr>u_DeletedAt = None\<rparr>],
     w_redis := \<lparr>rd_sess = Map.empty(''s7'' \<mapsto> (session_of 7, 100), ''s8'' \<mapsto> ((session_of 8)\<lparr>se_ID := ''s8''\<rparr>, 100)),
       rd_user_sessions = (\<lambda>_. [])(7 := [''s7''], 8 := [''s8''])\<rparr>\<rparr>"

definition plain_bcrypt :: Bcrypt where
  "plain_bcrypt = \<lparr>GenerateFromPassword = (\<lambda>_ pw. Some pw), CompareHashAndPassword = (=)\<rparr>"

definition example_user :: UserContext where
  "example_user = \<lparr>uc_ID = 7, uc_Role = ''admin'', uc_SessionID = ''s7''\<rparr>"

theorem ChangePassword_revokes_witness:
  "\<exists>w'. AccountService_ChangePassword plain_bcrypt (Some example_user)
      \<lparr>ap_CurrentPassword = ''old'', ap_Password = ''new'', ap_PasswordConfirmation = ''new''\<rparr> logged_in_world = (Inr (), w') \<and>
    live_session logged_in_world ''s7'' = Some (session_of 7) \<and> live_session w' ''s7'' = None \<and>
    live_session w' ''s8'' = Some ((session_of 8)\<lparr>se_ID := ''s8''\<rparr>)"
proof -
  let ?run = "AccountService_ChangePassword plain_bcrypt (Some example_user)
      \<lparr>ap_CurrentPassword = ''old'', ap_Password = ''new'', ap_PasswordConfirmation = ''new''\<rparr> logged_in_world"
  have ok: "sessions_indexed logged_in_world"
    by (simp add: sessions_indexed_def logged_in_world_def session_of_def)
  have "fst ?run = Inr ()"
    by (simp add: AccountService_ChangePassword_def bindE_def UserRepo_GetByID_def user_joined_def db_exec_def
        logged_in_world_def empty_world_def live_user_def role_by_id_def User.defs User0_def plain_bcrypt_def
        hash_password_def rand_Read_def UserRepo_Update_def time_Now_def wrapE_def catchE_def Let_def
        SessionStore_DeleteAllForUser_def SMembers_def redis_exec_def redis_update_def example_user_def)
  then have run: "?run = (Inr (), snd ?run)" by (metis prod.collapse)
  have "live_session logged_in_world ''s7'' = Some (session_of 7)"
    "live_session logged_in_world ''s8'' = Some ((session_of 8)\<lparr>se_ID := ''s8''\<rparr>)"
    by (simp_all add: live_session_def logged_in_world_def empty_world_def)
  moreover from this ChangePassword_revokes [OF ok run]
  have "live_session (snd ?run) ''s7'' = None" "live_session (snd ?run) ''s8'' = Some ((session_of 8)\<lparr>se_ID := ''s8''\<rparr>)"
    by (simp_all add: example_user_def session_of_def)
  ultimately show ?thesis using run by blast
qed

text \<open>
  A login that succeeds was given the password of a live user; it adds exactly one live
  session, of that user, until the token's expiry, and the token is the signature of claims that
  name the user, the user's role and that session.
\<close>

theorem Login_opens_session:
  assumes ok: "sessions_indexed w" and run: "AuthService_Login s ip agent req w = (Inr resp, w')"
  shows "\<exists>sess claims. live_session w' = (live_session w)(se_ID sess \<mapsto> sess) \<and>
    (session_fresh w (se_ID sess) \<longrightarrow> sessions_indexed w') \<and>
    se_UserID sess = u_ID (ar_User resp) \<and> se_ExpiresAt sess = w_now w + as_jwtExpiry s \<and>
    CompareHashAndPassword (as_bcrypt s) (u_Password (ar_User resp)) (lr_Password req) \<and>
    SignedString (as_jwt s) (as_jwtSecret s) claims = Some (ar_AccessToken resp) \<and>
    ac_UserID claims = u_ID (ar_User resp) \<and> ac_SessionID claims = se_ID sess \<and>
    map_option ro_Name (u_Role (ar_User resp)) = Some (ac_Role claims)"
proof -
  from run obtain user w1 i w2 role tok where
    1: "catchE (UserRepo_GetByEmail (lr_Email req)) (\<lambda>_. failE ErrInvalidCredentials) w = (Inr user, w1)"
    and 2: "CompareHashAndPassword (as_bcrypt s) (u_Password user) (lr_Password req)"
    and 3: "uuid_NewString w1 = (Inr i, w2)"
    and 4: "SessionStore_Create \<lparr>se_ID = i, se_UserID = u_ID user, se_CreatedAt = w_now w2,
       se_ExpiresAt = w_now w2 + as_jwtExpiry s, se_IP = ip, se_UserAgent = agent\<rparr> w2 = (Inr (), w')"
    and 5: "u_Role user = Some role"
    and 6: "SignedString (as_jwt s) (as_jwtSecret s) \<lparr>ac_UserID = u_ID user, ac_Role = ro_Name role,
        ac_SessionID = i, ac_ExpiresAt = NewNumericDate (w_now w2 + as_jwtExpiry s),
        ac_IssuedAt = NewNumericDate (w_now w2), ac_Subject = show_int (u_ID user)\<rparr> = Some tok"
    and 7: "resp = \<lparr>ar_User = user, ar_AccessToken = tok\<rparr>"
    unfolding AuthService_Login_def
    by (auto simp: bindE_Inr_iff time_Now_def split: if_splits option.splits)
  have g: "guarantees same_redis (catchE (UserRepo_GetByEmail (lr_Email req)) (\<lambda>_. failE ErrInvalidCredentials))"
    unfolding UserRepo_GetByEmail_def by (intro sr.db_rules sr_users)
  have l: "live_session w2 = live_session w" "sessions_indexed w2" "w_now w2 = w_now w" "session_fresh w2 = session_fresh w"
    using sr_run [OF g 1] sr_run [OF sr_users(4) 3] ok guaranteesD [OF g 1] guaranteesD [OF sr_users(4) 3]
    by (simp_all add: same_redis_def)
  show ?thesis
    using redis_sessions.create_live [OF l(2) 4] redis_sessions.create_sound [OF l(2) _ 4] 2 5 6
    by (intro exI [of _ "\<lparr>se_ID = i, se_UserID = u_ID user, se_CreatedAt = w_now w2,
        se_ExpiresAt = w_now w2 + as_jwtExpiry s, se_IP = ip, se_UserAgent = agent\<rparr>"] exI [of _ "\<lparr>ac_UserID = u_ID user,
        ac_Role = ro_Name role, ac_SessionID = i, ac_ExpiresAt = NewNumericDate (w_now w2 + as_jwtExpiry s),
        ac_IssuedAt = NewNumericDate (w_now w2), ac_Subject = show_int (u_ID user)\<rparr>"]) (simp add: 7 l)
qed

definition plain_jwt :: JWT where
  "plain_jwt = \<lparr>SignedString = (\<lambda>_ c. Some (ac_SessionID c)), ParseWithClaims = (\<lambda>_ t now. None)\<rparr>"

definition example_auth :: AuthService where
  "example_auth = \<lparr>as_bcrypt = plain_bcrypt, as_jwt = plain_jwt, as_jwtSecret = ''k'', as_jwtExpiry = 60\<rparr>"

theorem Login_opens_session_witness:
  "\<exists>resp w' sess. AuthService_Login example_auth [] [] \<lparr>lr_Email = ''a@b'', lr_Password = ''old''\<rparr> logged_in_world = (Inr resp, w') \<and>
    live_session w' = (live_session logged_in_world)(se_ID sess \<mapsto> sess) \<and> se_UserID sess = 7"
proof -
  let ?run = "AuthService_Login example_auth [] [] \<lparr>lr_Email = ''a@b'', lr_Password = ''old''\<rparr> logged_in_world"
  have ok: "sessions_indexed logged_in_world"
    by (simp add: sessions_indexed_def logged_in_world_def session_of_def)
  have "\<exists>resp. fst ?run = Inr resp \<and> u_ID (ar_User resp) = 7"
    by (simp add: AuthService_Login_def bindE_def catchE_def UserRepo_GetByEmail_def user_joined_def db_exec_def
        logged_in_world_def empty_world_def live_user_def role_by_id_def User.defs User0_def example_auth_def plain_bcrypt_def
        plain_jwt_def uuid_NewString_def uuid_New_def time_Now_def SessionStore_Create_def redis_update_def redis_exec_def Let_def)
  then obtain resp where run: "?run = (Inr resp, snd ?run)" "u_ID (ar_User resp) = 7" by (metis prod.collapse)
  from Login_opens_session [OF ok run(1)] run show ?thesis by metis
qed

end
