(* ===== verification/ServiceGuarantees.thy ===== *)
theory ServiceGuarantees
  imports StoreGuarantees Sessions
begin

text \<open>Users, the audit log, the subscribers and the services keep the guarantee \<open>cp\<close>.\<close>

section \<open>Users\<close>

lemma cp_users:
  assumes "u_ID ` set (w_users w) \<subseteq> u_ID ` set U"
    and "store_ok w \<Longrightarrow> users_ok (w\<lparr>w_user_seq := s, w_users := U\<rparr>)"
  shows "cp h w (w\<lparr>w_user_seq := s, w_users := U\<rparr>)"
proof -
  have "store_ok w \<Longrightarrow> store_ok (w\<lparr>w_user_seq := s, w_users := U\<rparr>)"
    using assms by - (rule store_okI [of w], simp_all add: wider_def)
  then show ?thesis by (simp add: cp_def keeps_def job_history_same)
qed

lemma cp_user_seq: "cp h w (w\<lparr>w_user_seq := w_user_seq w + 1\<rparr>)"
proof -
  have "store_ok w \<Longrightarrow> store_ok (w\<lparr>w_user_seq := w_user_seq w + 1\<rparr>)"
    by (rule store_okI [of w]) (auto simp: wider_def store_ok_def users_ok_def)
  then show ?thesis by (simp add: cp_def keeps_def job_history_same)
qed

lemma role_by_id_mem: "role_by_id w i \<noteq> None \<Longrightarrow> i \<in> ro_ID ` set (w_roles w)"
  by (auto simp: role_by_id_def dest: find_Some_set)

lemma cp_UserRepo_reads [cp_ops]:
  "guarantees (cp h) (UserRepo_List opts)" "guarantees (cp h) (UserRepo_GetByID i)"
  "guarantees (cp h) (UserRepo_GetByEmail e)" "guarantees (cp h) (UserRepo_GetRoleByID r)"
  unfolding UserRepo_List_def UserRepo_GetByID_def UserRepo_GetByEmail_def UserRepo_GetRoleByID_def
    user_joined_def
  by (intro cp_rules cp_read; simp split: option.split)+

lemma cp_UserRepo_Create [cp_ops]: "guarantees (cp h) (UserRepo_Create user)"
  unfolding UserRepo_Create_def
proof (intro cp.g_bind cp.g_now cp.g_wrap cp.g_db, rule guaranteesI)
  fix now and w :: world
  have "cp h w (w\<lparr>w_user_seq := w_user_seq w + 1, w_users := w_users w @ [row]\<rparr>)"
    if "u_ID row = w_user_seq w" "u_Email row \<notin> u_Email ` set (w_users w)"
      "u_RoleID row \<in> ro_ID ` set (w_roles w)" for row
    by (rule cp_users) (use that in \<open>auto simp: store_ok_def users_ok_def\<close>)
  then show "cp h w (snd ((\<lambda>w. let i = w_user_seq w; w' = w\<lparr>w_user_seq := i + 1\<rparr>;
         row = User.extend (user\<lparr>u_ID := i, u_Role := None, u_Permissions := [],
           u_CreatedAt := now, u_UpdatedAt := now\<rparr>) (UserRow.fields None)
     in if role_by_id w (u_RoleID user) \<noteq> None \<and> u_Email user \<notin> u_Email ` set (w_users w)
        then (Inr (), w'\<lparr>w_users := w_users w @ [row]\<rparr>)
        else (Inl ErrDB, w')) w))"
    using cp_user_seq role_by_id_mem by (simp add: Let_def User.extend_def UserRow.fields_def)
qed

lemma users_ok_update:
  assumes f: "\<And>u. u_ID (f u) = u_ID u" "\<And>u. u_Email (f u) = v" "\<And>u. u_RoleID (f u) = r"
    and p: "\<And>u. p u \<Longrightarrow> u_ID u = i"
    and v: "filter p (w_users w) \<noteq> [] \<Longrightarrow> r \<in> ro_ID ` set (w_roles w) \<and>
      (\<forall>u\<in>set (w_users w). \<not> p u \<longrightarrow> u_Email u \<noteq> v)"
    and ok: "users_ok w"
  shows "users_ok (w\<lparr>w_users := update_where p f (w_users w)\<rparr>)"
proof (cases "filter p (w_users w) = []")
  case True
  then have "update_where p f (w_users w) = w_users w"
    unfolding update_where_def by (intro map_idI) (auto simp: filter_empty_conv)
  with ok show ?thesis by (simp add: users_ok_def)
next
  case False
  have ids: "map u_ID (update_where p f (w_users w)) = map u_ID (w_users w)"
    by (rule map_update_where) (simp add: f)
  have "distinct (map u_Email (update_where p f (w_users w)))"
    by (rule distinct_overwrite_update [where k = u_ID and i = i and v = v])
      (use v [OF False] ok p in \<open>auto simp: users_ok_def f\<close>)
  with v [OF False] ok show ?thesis by (simp add: users_ok_def ids ball_update_where f)
qed

lemma cp_users_update:
  assumes f: "\<And>u. u_ID (f u) = u_ID u"
    and "store_ok w \<Longrightarrow> users_ok (w\<lparr>w_users := update_where p f (w_users w)\<rparr>)"
  shows "cp h w (w\<lparr>w_users := update_where p f (w_users w)\<rparr>)"
proof -
  have ids: "map u_ID (update_where p f (w_users w)) = map u_ID (w_users w)"
    by (rule map_update_where) (simp add: f)
  have "u_ID ` set (w_users w) \<subseteq> u_ID ` set (update_where p f (w_users w))"
    using arg_cong [OF ids, of set] unfolding set_map by (rule equalityD2)
  then have "store_ok w \<Longrightarrow> store_ok (w\<lparr>w_users := update_where p f (w_users w)\<rparr>)"
    using assms(2) by - (rule store_okI [of w], simp_all add: wider_def)
  then show ?thesis by (simp add: cp_def keeps_def job_history_same)
qed

lemma cp_UserRepo_Delete [cp_ops]: "guarantees (cp h) (UserRepo_Delete i)"
  unfolding UserRepo_Delete_def
proof (intro cp_rules, rule guaranteesI)
  fix now and w :: world
  have "users_ok w \<Longrightarrow> users_ok (w\<lparr>w_users := update_where p (\<lambda>u. u\<lparr>u_DeletedAt := Some now\<rparr>) (w_users w)\<rparr>)" for p
  proof -
    have "map u_ID (update_where p (\<lambda>u. u\<lparr>u_DeletedAt := Some now\<rparr>) (w_users w)) = map u_ID (w_users w)"
      "map u_Email (update_where p (\<lambda>u. u\<lparr>u_DeletedAt := Some now\<rparr>) (w_users w)) = map u_Email (w_users w)"
      by (rule map_update_where, simp)+
    then show "users_ok w \<Longrightarrow> ?thesis" by (simp add: users_ok_def ball_update_where)
  qed
  then show "cp h w (snd (let p = \<lambda>u. u_ID u = i \<and> live_user u in
       (Inr (length (filter p (w_users w))),
        w\<lparr>w_users := update_where p (\<lambda>u. u\<lparr>u_DeletedAt := Some now\<rparr>) (w_users w)\<rparr>)))"
    unfolding Let_def snd_conv by (intro cp_users_update) (simp_all add: store_ok_def)
qed

lemma cp_UserRepo_Update [cp_ops]: "guarantees (cp h) (UserRepo_Update user i)"
  unfolding UserRepo_Update_def
proof (intro cp.g_bind cp.g_now cp.g_wrap cp.g_db cp.g_if cp.g_fail cp.g_return, rule guaranteesI)
  fix now and w :: world
  let ?p = "\<lambda>u. u_ID u = i \<and> live_user u"
  let ?f = "\<lambda>u. u\<lparr>u_Name := u_Name user, u_Email := u_Email user, u_Password := u_Password user,
            u_RoleID := u_RoleID user, u_UpdatedAt := now\<rparr>"
  let ?bad = "filter ?p (w_users w) \<noteq> [] \<and> (role_by_id w (u_RoleID user) = None \<or>
            (\<exists>u\<in>set (w_users w). \<not> ?p u \<and> u_Email u = u_Email user))"
  have "cp h w (w\<lparr>w_users := update_where ?p ?f (w_users w)\<rparr>)" if ok: "\<not> ?bad"
  proof (rule cp_users_update)
    have "users_ok w \<Longrightarrow> users_ok (w\<lparr>w_users := update_where ?p ?f (w_users w)\<rparr>)"
    proof (rule users_ok_update [where i = i and v = "u_Email user" and r = "u_RoleID user"])
      show "filter ?p (w_users w) \<noteq> [] \<Longrightarrow> u_RoleID user \<in> ro_ID ` set (w_roles w) \<and>
          (\<forall>u\<in>set (w_users w). \<not> ?p u \<longrightarrow> u_Email u \<noteq> u_Email user)"
        using ok role_by_id_mem by blast
    qed simp_all
    then show "store_ok w \<Longrightarrow> users_ok (w\<lparr>w_users := update_where ?p ?f (w_users w)\<rparr>)"
      by (simp add: store_ok_def)
  qed simp
  then show "cp h w (snd (let p = ?p in if filter p (w_users w) \<noteq> [] \<and> (role_by_id w (u_RoleID user) = None \<or>
            (\<exists>u\<in>set (w_users w). \<not> p u \<and> u_Email u = u_Email user))
       then (Inl ErrDB, w)
       else (Inr (length (filter p (w_users w))), w\<lparr>w_users := update_where p ?f (w_users w)\<rparr>)))"
    unfolding Let_def by (cases ?bad) (simp_all only: if_True if_False snd_conv cp.refl simp_thms)
qed

section \<open>Subscribers\<close>

definition handlers_keep :: "('s \<Rightarrow> 's \<Rightarrow> bool) \<Rightarrow> 's Bus \<Rightarrow> bool" where
  "handlers_keep R b \<longleftrightarrow> (\<forall>n. \<forall>k\<in>set (handlers b n). \<forall>ev w. R w (k ev w))"

lemma handlers_keep_New [simp]: "handlers_keep R Bus_New"
  by (simp add: handlers_keep_def)

lemma handlers_keep_Subscribe [simp]:
  "(\<And>ev w. R w (k ev w)) \<Longrightarrow> handlers_keep R b \<Longrightarrow> handlers_keep R (Subscribe n k b)"
  by (auto simp: handlers_keep_def)

context guarantee
begin

lemma g_publish_all: "handlers_keep R b \<Longrightarrow> guarantees R (Publish b n ev)"
  by (rule g_publish) (simp add: handlers_keep_def)

end

text \<open>Pushing to dashboards changes the hub's queue only.\<close>

definition only_ws :: "world \<Rightarrow> world \<Rightarrow> bool" where
  "only_ws w w' \<longleftrightarrow> (\<exists>q. w' = w\<lparr>w_ws := q\<rparr>)"

interpretation ow: guarantee only_ws
proof
  show "only_ws w w" for w
    unfolding only_ws_def by (rule exI [of _ "w_ws w"]) simp
qed (auto simp: only_ws_def)

lemma only_ws_push: "only_ws w (push ch n ev w)"
  by (auto simp: only_ws_def push_def Broadcast_def intro: exI [of _ "w_ws w"])

lemma only_ws_push2: "only_ws w (push ch n ev (push ch' n' ev' w))"
  by (rule ow.trans) (rule only_ws_push)+

lemma only_ws_handlers:
  "only_ws w (WsApplicationCreated ev w)" "only_ws w (WsApplicationStatusChanged ev w)"
  "only_ws w (WsDeploymentCommitInfoReceived ev w)" "only_ws w (WsDeploymentCreated ev w)"
  "only_ws w (WsDeploymentFinished ev w)" "only_ws w (WsDeploymentStarted ev w)"
  "only_ws w (WsDeploymentStatusChanged ev w)" "only_ws w (WsJobCreated ev w)"
  "only_ws w (WsJobFinished ev w)" "only_ws w (WsJobStarted ev w)"
  "only_ws w (WsJobStatusChanged ev w)" "only_ws w (WsServerStatusChanged ev w)"
  unfolding WsApplicationCreated_def WsApplicationStatusChanged_def WsDeploymentCommitInfoReceived_def
    WsDeploymentCreated_def WsDeploymentFinished_def WsDeploymentStarted_def
    WsDeploymentStatusChanged_def WsJobCreated_def WsJobFinished_def WsJobStarted_def
    WsJobStatusChanged_def WsServerStatusChanged_def
  by (cases ev; simp add: only_ws_push only_ws_push2 ow.refl)+

lemma only_ws_log: "only_ws w (WsLogReceived ev w)"
  unfolding WsLogReceived_def
  by (cases ev; simp add: ow.refl ow.g_foldl only_ws_push)

lemma cp_only_ws: "only_ws w w' \<Longrightarrow> cp h w w'"
  by (auto simp: only_ws_def intro: cp_aside)

lemma cp_audit_insert:
  assumes "au_ID a = w_audit_seq w"
  shows "cp h w (w\<lparr>w_audit_seq := w_audit_seq w + 1, w_audit := w_audit w @ [a]\<rparr>)"
proof -
  have "store_ok w \<Longrightarrow> store_ok (w\<lparr>w_audit_seq := w_audit_seq w + 1, w_audit := w_audit w @ [a]\<rparr>)"
    by (rule store_okI [of w]) (use assms in \<open>auto simp: wider_def store_ok_def audit_ok_def\<close>)
  then show ?thesis by (simp add: cp_def keeps_def job_history_same)
qed

lemma cp_audit_seq: "cp h w (w\<lparr>w_audit_seq := w_audit_seq w + 1\<rparr>)"
proof -
  have "store_ok w \<Longrightarrow> store_ok (w\<lparr>w_audit_seq := w_audit_seq w + 1\<rparr>)"
    by (rule store_okI [of w]) (auto simp: wider_def store_ok_def audit_ok_def)
  then show ?thesis by (simp add: cp_def keeps_def job_history_same)
qed

lemma cp_AuditLogRepo [cp_ops]:
  "guarantees (cp h) (AuditLogRepo_Create l)" "guarantees (cp h) (AuditLogRepo_List aopts)"
proof -
  show "guarantees (cp h) (AuditLogRepo_Create l)"
    unfolding AuditLogRepo_Create_def
    by (intro cp_rules guaranteesI) (simp add: Let_def cp_audit_insert cp_audit_seq)
  show "guarantees (cp h) (AuditLogRepo_List aopts)"
    unfolding AuditLogRepo_List_def by (intro cp_rules cp_read) (simp split: option.split)
qed

lemma cp_snd: "guarantees (cp h) m \<Longrightarrow> cp h w (snd (m w))"
  by (simp add: guarantees_def)

lemma cp_audit_handlers:
  "cp h w (OnDeploymentCreated ev w)" "cp h w (OnDeploymentStatusChanged ev w)"
  "cp h w (OnApplicationCreated ev w)" "cp h w (OnServerStatusChanged ev w)"
  unfolding OnDeploymentCreated_def OnDeploymentStatusChanged_def OnApplicationCreated_def
    OnServerStatusChanged_def AuditLogService_Create_def
  by (cases ev; simp add: cp.refl cp_snd cp_ops)+

lemma cp_SettingsRepo [cp_ops]:
  "guarantees (cp h) (SettingsRepo_Get k)" "guarantees (cp h) (SettingsRepo_Set k v)"
  "guarantees (cp h) (SettingsRepo_Delete k)"
  unfolding SettingsRepo_Get_def SettingsRepo_Set_def SettingsRepo_Delete_def
  by (intro cp_rules cp_read cp.g_modify cp_aside; simp split: option.split)+

lemma cp_webhook_settings: "cp h w (snd (webhook_settings url w))"
  using cp_snd [OF cp_SettingsRepo(1), of h w "''webhook''"]
  by (cases "SettingsRepo_Get ''webhook'' w"; cases "fst (SettingsRepo_Get ''webhook'' w)")
    (simp_all add: webhook_settings_def)

lemma cp_notifier_appName: "cp h w (snd (notifier_appName i w))"
  using cp_snd [OF cp_AppRepo_reads(2), of h w i]
  by (cases "AppRepo_GetByID i w"; cases "fst (AppRepo_GetByID i w)") (simp_all add: notifier_appName_def)

lemma cp_Notifier_Handle: "cp h w (Notifier_Handle url ev w)"
proof -
  obtain ws w1 where s: "webhook_settings url w = (ws, w1)" by (cases "webhook_settings url w")
  have 1: "cp h w w1" using cp_webhook_settings [of h w url] s by simp
  have "cp h w1 (case ev of DeploymentStatusChangedEv evt \<Rightarrow>
         if edx_Status evt = DeploymentSuccess \<or> edx_Status evt = DeploymentFailed
         then (case notifier_appName (edx_ApplicationID evt) w1 of (appName, w2) \<Rightarrow>
           w2\<lparr>w_webhook := webhook_enqueue
             (notification appName (edx_DeploymentID evt) (edx_Status evt)) (w_webhook w2)\<rparr>)
         else w1 | _ \<Rightarrow> w1)"
  proof (cases ev)
    case (DeploymentStatusChangedEv evt)
    obtain n w2 where n: "notifier_appName (edx_ApplicationID evt) w1 = (n, w2)"
      by (cases "notifier_appName (edx_ApplicationID evt) w1")
    have "cp h w1 w2" using cp_notifier_appName [of h w1 "edx_ApplicationID evt"] n by simp
    moreover have "cp h w2 (w2\<lparr>w_webhook := q\<rparr>)" for q by (rule cp_aside) simp_all
    ultimately show ?thesis
      by (auto simp: DeploymentStatusChangedEv n cp.refl intro: cp.trans)
  qed (simp_all add: cp.refl)
  with 1 s show ?thesis by (auto simp: Notifier_Handle_def intro: cp.trans)
qed

section \<open>Services\<close>

lemma cp_JobService_reads [cp_ops]:
  "guarantees (cp h) (JobService_List opts)" "guarantees (cp h) (JobService_GetPending s)"
  "guarantees (cp h) (JobService_GetByID i)" "guarantees (cp h) JobService_Summary"
  unfolding JobService_List_def JobService_GetPending_def JobService_GetByID_def JobService_Summary_def Let_def
  by (intro cp_rules cp_ops)+

lemma cp_JobService_Delete: "i \<notin> h \<Longrightarrow> guarantees (cp h) (JobService_Delete i)"
  unfolding JobService_Delete_def by (rule cp_JobRepo_Delete)

text \<open>The writing services keep the guarantee when the subscribers of their bus do.\<close>

lemmas cp_bus_rules = cp_rules cp_ops cp.g_publish_all

lemma cp_JobService_writes:
  assumes bus: "handlers_keep (cp h) bus"
  shows "guarantees (cp h) (JobService_Create bus j)" "guarantees (cp h) (JobService_Start bus i)"
    "guarantees (cp h) (JobService_Finish bus i st)"
  unfolding JobService_Create_def JobService_Start_def JobService_Finish_def
  by (intro cp_bus_rules bus)+

lemma cp_JobService_Retry:
  assumes bus: "handlers_keep (cp h) bus" and "i \<notin> h"
  shows "guarantees (cp h) (JobService_Retry bus i j)"
  unfolding JobService_Retry_def by (intro cp_bus_rules cp_JobRepo_Retry assms)

lemma cp_LogService_Create:
  assumes bus: "handlers_keep (cp h) bus"
  shows "guarantees (cp h) (LogService_Create bus l)"
  unfolding LogService_Create_def by (intro cp_bus_rules bus)

lemma cp_DeploymentService_reads [cp_ops]:
  "guarantees (cp h) (DeploymentService_List opts)" "guarantees (cp h) (DeploymentService_GetByID i)"
  unfolding DeploymentService_List_def DeploymentService_GetByID_def Let_def
  by (intro cp_rules cp_ops)+

lemma cp_DeploymentService_Diff [cp_ops]: "guarantees (cp h) (DeploymentService_Diff i)"
  unfolding DeploymentService_Diff_def Let_def
proof (intro cp.g_bind cp_ops cp.g_option cp.g_return)
  fix d prev
  have "cp h w (snd (DeploymentRepo_GetByID prev w))" for w by (rule cp_snd) (rule cp_ops)
  then show "guarantees (cp h) (\<lambda>w. case DeploymentRepo_GetByID prev w of
       (Inl e, w') \<Rightarrow> (Inr (A d), w') | (Inr p, w') \<Rightarrow> (Inr (B d p), w'))" for A B
    by (intro guaranteesI) (auto split: prod.split sum.split, (metis snd_conv)+)
qed

lemma cp_DeploymentService_writes:
  assumes bus: "handlers_keep (cp h) bus"
  shows "guarantees (cp h) (DeploymentService_Create bus req)" "guarantees (cp h) (DeploymentService_Start bus i)"
    "guarantees (cp h) (DeploymentService_Finish bus i)"
    "guarantees (cp h) (DeploymentService_UpdateStatus bus i st)"
    "guarantees (cp h) (DeploymentService_UpdateCommitInfo bus i c m)"
  unfolding DeploymentService_Create_def DeploymentService_Start_def DeploymentService_Finish_def
    DeploymentService_UpdateStatus_def DeploymentService_UpdateCommitInfo_def
  by (intro cp_bus_rules bus; simp add: cp_bus_rules bus split: option.split)+

lemma cp_DeploymentService_UpdateEnvSnapshot [cp_ops]:
  "guarantees (cp h) (DeploymentService_UpdateEnvSnapshot i env)"
  unfolding DeploymentService_UpdateEnvSnapshot_def by (intro cp_rules cp_ops)

lemma cp_ServerService_reads [cp_ops]:
  "guarantees (cp h) (ServerService_List opts)" "guarantees (cp h) (ServerService_GetByID i)"
  "guarantees (cp h) (ServerService_AuthorizeAgent bc i secret)"
  unfolding ServerService_List_def ServerService_GetByID_def ServerService_AuthorizeAgent_def Let_def
  by (intro cp_rules cp_ops)+

lemma cp_tokens [cp_ops]: "guarantees (cp h) GenerateToken" "guarantees (cp h) (hash_password bc pw)"
  unfolding GenerateToken_def hash_password_def by (intro cp_rules)+

lemma cp_ServerService_writes [cp_ops]:
  "guarantees (cp h) (ServerService_Register bc inet req)" "guarantees (cp h) (ServerService_Update inet req i)"
  "guarantees (cp h) (ServerService_UpdateOSInfo i os)" "guarantees (cp h) (ServerService_Delete i)"
  "guarantees (cp h) (ServerService_RotateSecret bc i)"
  unfolding ServerService_Register_def ServerService_Update_def ServerService_UpdateOSInfo_def
    ServerService_Delete_def ServerService_RotateSecret_def
  by (intro cp_rules cp_ops)+

lemma cp_ServerService_UpdateStatus:
  assumes bus: "handlers_keep (cp h) bus"
  shows "guarantees (cp h) (ServerService_UpdateStatus bus i b)"
  unfolding ServerService_UpdateStatus_def by (intro cp_bus_rules bus)

lemma cp_UserService [cp_ops]:
  "guarantees (cp h) (UserService_List opts)" "guarantees (cp h) (UserService_Create bc req)"
  "guarantees (cp h) (UserService_Update bc req i)" "guarantees (cp h) (UserService_Delete i)"
proof -
  have taken: "guarantees (cp h) (email_taken e)" for e
    using cp_snd [OF cp_UserRepo_reads(3), of h _ e]
    by (intro guaranteesI) (auto simp: email_taken_def split: prod.split sum.split, (metis snd_conv)+)
  show "guarantees (cp h) (UserService_List opts)" "guarantees (cp h) (UserService_Create bc req)"
    "guarantees (cp h) (UserService_Update bc req i)" "guarantees (cp h) (UserService_Delete i)"
    unfolding UserService_List_def UserService_Create_def UserService_Update_def UserService_Delete_def Let_def
    by (intro cp_rules cp_ops taken)+
qed

text \<open>The session store keeps to Redis.\<close>

lemma cp_redis_update: "guarantees (cp h) (redis_update f)"
  unfolding redis_update_def by (intro cp_rules cp.g_redis cp.g_modify cp_aside) simp_all

lemma cp_SessionStore [cp_ops]:
  "guarantees (cp h) (SessionStore_Create sess)" "guarantees (cp h) (SessionStore_Delete i)"
  "guarantees (cp h) (SessionStore_DeleteAllForUser u)"
  unfolding SessionStore_Create_def SessionStore_Delete_def SessionStore_Get_def
    SessionStore_DeleteAllForUser_def SMembers_def
  by (intro cp_rules cp.g_redis cp_redis_update)+

lemma cp_AuthService [cp_ops]:
  "guarantees (cp h) (AuthService_Login s ip agent req)" "guarantees (cp h) (AuthService_Logout uctx)"
  unfolding AuthService_Login_def AuthService_Logout_def uuid_NewString_def
  by (intro cp_rules cp_ops)+

lemma cp_AccountService [cp_ops]:
  "guarantees (cp h) (AccountService_UpdateProfile uctx name)"
  "guarantees (cp h) (AccountService_ChangePassword bc uctx preq)"
  unfolding AccountService_UpdateProfile_def AccountService_ChangePassword_def
  by (intro cp_rules cp_ops)+

end
