(* ===== verification/ControlPlane.thy ===== *)
theory ControlPlane
  imports ServiceGuarantees
begin

text \<open>
  The control plane as \<open>internal/app/server.go\<close> wires it: one bus, the listeners, the webhook,
  the audit log and the dashboards subscribed in that order, and the requests of users and
  agents as commands on the store.

  A handler of the bus publishes on the same bus. The events the listeners' services publish
  have no listener among their subscribers, so the handlers can be given the bus without the
  listeners, \<open>leaf_bus\<close>; \<open>leaf_bus_agrees\<close> shows that for those events the two buses have the
  same handlers.
\<close>

section \<open>Wiring\<close>

definition leaf_bus :: "string \<Rightarrow> world Bus" where
  "leaf_bus url = subscribers_Register (audit_Register
     (Subscribe ''deployment_status_changed'' (Notifier_Handle url) Bus_New))"

definition server_bus :: "string \<Rightarrow> world Bus" where
  "server_bus url = subscribers_Register (audit_Register
     (Subscribe ''deployment_status_changed'' (Notifier_Handle url)
       (DeploymentListener_Register (leaf_bus url) (AppListener_Register (leaf_bus url) Bus_New))))"

definition listener_events :: "string list" where
  "listener_events = [''job_created'', ''job_started'', ''job_finished'']"

lemma leaf_bus_agrees:
  "n \<notin> set listener_events \<Longrightarrow> handlers (server_bus url) n = handlers (leaf_bus url) n"
  by (simp add: server_bus_def leaf_bus_def handlers_subscribers_Register audit_Register_def
      DeploymentListener_Register_def AppListener_Register_def listener_events_def)

lemma server_handlers:
  "handlers (server_bus url) ''job_created'' =
     [DeploymentListener_handleJobCreated (leaf_bus url), WsJobCreated]"
  "handlers (server_bus url) ''job_started'' =
     [AppListener_handleJobStarted (leaf_bus url),
      DeploymentListener_handleJobStarted (leaf_bus url), WsJobStarted]"
  "handlers (server_bus url) ''job_finished'' =
     [AppListener_handleJobFinished (leaf_bus url),
      DeploymentListener_handleJobFinished (leaf_bus url), WsJobFinished]"
  "handlers (server_bus url) ''job_status_changed'' = [WsJobStatusChanged]"
  by (simp_all add: server_bus_def handlers_subscribers_Register ws_subscriptions_def audit_Register_def
      DeploymentListener_Register_def AppListener_Register_def)

section \<open>Commands\<close>

text \<open>
  The requests that write, after the handlers of \<open>internal/adapters/http\<close> have decoded them, and
  what the agents' connections report: \<open>SetServerStatus\<close> and \<open>ReportOSInfo\<close>. \<open>Environment\<close> is
  everything the control plane does not do itself: time passes and statements start or stop failing.
\<close>

datatype command =
    CreateApplication ApplicationCreateRequest
  | UpdateApplication ApplicationUpdateRequest int
  | DeleteApplication int
  | DeployApplication int int
  | RollbackApplication int int
  | StartApplication int
  | StopApplication int
  | RestartApplication int
  | AddEnvVar int EnvironmentVariableRequest
  | UpdateEnvVar int string EnvironmentVariableRequest
  | DeleteEnvVar int string
  | ReportHealth uuid "ApplicationHealth list"
  | ReportCommit int string string
  | StartJob int
  | FinishJob int string
  | DeleteJob int
  | RetryJob int Job
  | StoreLog Log
  | RegisterServer ServerSaveRequest
  | UpdateServer ServerSaveRequest uuid
  | DeleteServer uuid
  | RotateServerSecret uuid
  | SetServerStatus uuid bool
  | CreateUser UserSaveRequest
  | UpdateUser UserSaveRequest int
  | DeleteUser int
  | UpdateProfile "UserContext option" string
  | ChangePassword "UserContext option" AccountPasswordRequest
  | Login string string LoginRequest
  | Logout "UserContext option"
  | SaveWebhook json
  | ReportOSInfo uuid json
  | Environment gotime "nat \<Rightarrow> bool"

record Deps =
  cp_repo :: ApplicationRepository
  cp_bcrypt :: Bcrypt
  cp_auth :: AuthService
  cp_inet :: "string \<Rightarrow> string option"
  cp_webhook :: string

primrec run_command :: "Deps \<Rightarrow> command \<Rightarrow> world \<Rightarrow> world" where
  "run_command d (CreateApplication req) w = snd (AppService_Create (cp_repo d) (server_bus (cp_webhook d)) req w)"
| "run_command d (UpdateApplication req i) w = snd (AppService_Update (cp_repo d) req i w)"
| "run_command d (DeleteApplication i) w = snd (AppService_Delete (server_bus (cp_webhook d)) i w)"
| "run_command d (DeployApplication i u) w = snd (AppService_Deploy (cp_repo d) (server_bus (cp_webhook d)) i u w)"
| "run_command d (RollbackApplication i u) w = snd (AppService_Rollback (cp_repo d) (server_bus (cp_webhook d)) i u w)"
| "run_command d (StartApplication i) w = snd (AppService_Start (server_bus (cp_webhook d)) i w)"
| "run_command d (StopApplication i) w = snd (AppService_Stop (server_bus (cp_webhook d)) i w)"
| "run_command d (RestartApplication i) w = snd (AppService_Restart (server_bus (cp_webhook d)) i w)"
| "run_command d (AddEnvVar i req) w = snd (AppService_AddEnvVar (cp_repo d) i req w)"
| "run_command d (UpdateEnvVar i k req) w = snd (AppService_UpdateEnvVar (cp_repo d) i k req w)"
| "run_command d (DeleteEnvVar i k) w = snd (AppService_DeleteEnvVar i k w)"
| "run_command d (ReportHealth s hs) w = snd (AppService_UpdateHealth s hs w)"
| "run_command d (ReportCommit i h m) w = snd (DeploymentService_UpdateCommitInfo (server_bus (cp_webhook d)) i h m w)"
| "run_command d (StartJob i) w = snd (JobService_Start (server_bus (cp_webhook d)) i w)"
| "run_command d (FinishJob i st) w = snd (JobService_Finish (server_bus (cp_webhook d)) i st w)"
| "run_command d (DeleteJob i) w = snd (JobService_Delete i w)"
| "run_command d (RetryJob i j) w = snd (JobService_Retry (server_bus (cp_webhook d)) i j w)"
| "run_command d (StoreLog l) w = snd (LogService_Create (server_bus (cp_webhook d)) l w)"
| "run_command d (RegisterServer req) w = snd (ServerService_Register (cp_bcrypt d) (cp_inet d) req w)"
| "run_command d (UpdateServer req i) w = snd (ServerService_Update (cp_inet d) req i w)"
| "run_command d (DeleteServer i) w = snd (ServerService_Delete i w)"
| "run_command d (RotateServerSecret i) w = snd (ServerService_RotateSecret (cp_bcrypt d) i w)"
| "run_command d (SetServerStatus i b) w = snd (ServerService_UpdateStatus (server_bus (cp_webhook d)) i b w)"
| "run_command d (CreateUser req) w = snd (UserService_Create (cp_bcrypt d) req w)"
| "run_command d (UpdateUser req i) w = snd (UserService_Update (cp_bcrypt d) req i w)"
| "run_command d (DeleteUser i) w = snd (UserService_Delete i w)"
| "run_command d (UpdateProfile u name) w = snd (AccountService_UpdateProfile u name w)"
| "run_command d (ChangePassword u req) w = snd (AccountService_ChangePassword (cp_bcrypt d) u req w)"
| "run_command d (Login ip agent req) w = snd (AuthService_Login (cp_auth d) ip agent req w)"
| "run_command d (Logout u) w = snd (AuthService_Logout u w)"
| "run_command d (SaveWebhook settings) w = snd (SettingsRepo_Set ''webhook'' settings w)"
| "run_command d (ReportOSInfo i os) w = snd (ServerService_UpdateOSInfo i os w)"
| "run_command d (Environment t f) w = w\<lparr>w_now := t, w_fault := f\<rparr>"

definition run_commands :: "Deps \<Rightarrow> command list \<Rightarrow> world \<Rightarrow> world" where
  "run_commands d cs w = foldl (\<lambda>w c. run_command d c w) w cs"

text \<open>The commands that leave an ended job alone.\<close>

fun spares :: "int \<Rightarrow> command \<Rightarrow> bool" where
  "spares k (RetryJob i j) = (i \<noteq> k)"
| "spares k (DeleteJob i) = (i \<noteq> k)"
| "spares k c = True"

section \<open>Every command keeps the guarantee\<close>

lemma cp_leaf_bus [simp]: "handlers_keep (cp h) (leaf_bus url)"
  unfolding leaf_bus_def subscribers_Register_def ws_subscriptions_def audit_Register_def
  by (simp add: cp_Notifier_Handle cp_audit_handlers cp_only_ws only_ws_handlers only_ws_log)

lemma cp_AppService_UpdateStatus:
  assumes "handlers_keep (cp h) bus"
  shows "guarantees (cp h) (AppService_UpdateStatus bus i st)"
    "guarantees (cp h) (AppService_UpdateLastDeployment i)"
  unfolding AppService_UpdateStatus_def AppService_UpdateLastDeployment_def
  by (intro cp_rules cp_ops cp.g_publish_all assms)+

lemma cp_AppListener:
  assumes bus: "handlers_keep (cp h) bus"
  shows "cp h w (AppListener_handleJobStarted bus ev w)" "cp h w (AppListener_handleJobFinished bus ev w)"
proof -
  note ops = cp_snd cp_rules cp_ops cp.g_publish_all cp_AppService_UpdateStatus [OF bus]
  show "cp h w (AppListener_handleJobStarted bus ev w)"
    unfolding AppListener_handleJobStarted_def
    by (cases ev) (simp_all add: cp.refl ops split: option.split)
  show "cp h w (AppListener_handleJobFinished bus ev w)"
    unfolding AppListener_handleJobFinished_def
    by (cases ev) (simp_all add: cp.refl ops split: option.split)
qed

lemma cp_DeploymentListener:
  assumes bus: "handlers_keep (cp h) bus"
  shows "cp h w (DeploymentListener_handleJobCreated bus ev w)"
    "cp h w (DeploymentListener_handleJobStarted bus ev w)"
    "cp h w (DeploymentListener_handleJobFinished bus ev w)"
  unfolding DeploymentListener_handleJobCreated_def DeploymentListener_handleJobStarted_def
    DeploymentListener_handleJobFinished_def Let_def
  by (cases ev; simp add: cp.refl cp_snd cp_rules cp_ops cp.g_publish_all cp_DeploymentService_writes [OF bus] split: option.split)+

lemma cp_server_bus [simp]: "handlers_keep (cp h) (server_bus url)"
  unfolding server_bus_def subscribers_Register_def ws_subscriptions_def audit_Register_def
    DeploymentListener_Register_def AppListener_Register_def
  by (simp add: cp_Notifier_Handle cp_audit_handlers cp_only_ws only_ws_handlers only_ws_log
      cp_AppListener cp_DeploymentListener)

lemma cp_AppService_reads [cp_ops]:
  "guarantees (cp h) (AppService_List opts)" "guarantees (cp h) (AppService_GetByID i)"
  "guarantees (cp h) (AppService_ListEnvVars r i)"
  unfolding AppService_List_def AppService_GetByID_def AppService_ListEnvVars_def Let_def
  by (intro cp_rules cp_ops)+

lemma cp_AppService_env [cp_ops]:
  "guarantees (cp h) (AppService_Update r ureq i)" "guarantees (cp h) (AppService_AddEnvVar r i req)"
  "guarantees (cp h) (AppService_UpdateEnvVar r i k req)" "guarantees (cp h) (AppService_DeleteEnvVar i k)"
  "guarantees (cp h) (AppService_UpdateHealth s hs)"
  unfolding AppService_Update_def AppService_AddEnvVar_def AppService_UpdateEnvVar_def
    AppService_DeleteEnvVar_def AppService_UpdateHealth_def
  by (intro cp_rules cp_ops)+

lemma cp_app_jobs:
  assumes bus: "handlers_keep (cp h) bus"
  shows "guarantees (cp h) (create_app_job bus app i t)" "guarantees (cp h) (create_job_or_fail bus i msg j)"
  unfolding create_app_job_def create_job_or_fail_def
  by (intro cp_rules cp_ops cp_JobService_writes [OF bus])+

lemma cp_AppService_actions:
  assumes bus: "handlers_keep (cp h) bus"
  shows "guarantees (cp h) (AppService_Create r bus creq)" "guarantees (cp h) (AppService_Delete bus i)"
    "guarantees (cp h) (AppService_Start bus i)" "guarantees (cp h) (AppService_Stop bus i)"
    "guarantees (cp h) (AppService_Restart bus i)"
  unfolding AppService_Create_def AppService_Delete_def AppService_Start_def AppService_Stop_def
    AppService_Restart_def
  by (intro cp_rules cp_ops cp.g_publish_all [OF bus] cp_JobService_writes [OF bus] cp_app_jobs [OF bus])+

lemma cp_AppService_deploys:
  assumes bus: "handlers_keep (cp h) bus"
  shows "guarantees (cp h) (AppService_Deploy r bus i u)" "guarantees (cp h) (AppService_Rollback r bus i u)"
  unfolding AppService_Deploy_def AppService_Rollback_def Let_def
  by (intro cp_rules cp_ops cp_DeploymentService_writes [OF bus] cp_app_jobs [OF bus])+

theorem run_command_cp:
  assumes "\<forall>k\<in>h. spares k c"
  shows "cp h w (run_command d c w)"
proof -
  have env: "cp h w (w\<lparr>w_now := t, w_fault := f\<rparr>)" for t f
    by (rule cp_aside) simp_all
  note ops = cp_ops cp_AppService_actions [OF cp_server_bus] cp_AppService_deploys [OF cp_server_bus]
    cp_JobService_writes [OF cp_server_bus] cp_DeploymentService_writes [OF cp_server_bus]
    cp_LogService_Create [OF cp_server_bus] cp_ServerService_UpdateStatus [OF cp_server_bus]
  show ?thesis
  proof (cases c)
    case (RetryJob i j)
    with assms have "i \<notin> h" by auto
    then show ?thesis
      using cp_snd [OF cp_JobService_Retry [OF cp_server_bus]] by (simp add: RetryJob)
  next
    case (DeleteJob i)
    with assms have "i \<notin> h" by auto
    then show ?thesis
      using cp_snd [OF cp_JobService_Delete] by (simp add: DeleteJob)
  qed (simp_all only: run_command.simps env, (rule cp_snd, rule ops)+)
qed

lemma run_commands_cp:
  assumes "\<forall>k\<in>h. list_all (spares k) cs"
  shows "cp h w (run_commands d cs w)"
  unfolding run_commands_def
  by (rule cp.g_foldl) (use assms in \<open>auto simp: list_all_iff intro!: run_command_cp\<close>)

section \<open>Properties\<close>

lemma store_ok_empty: "store_ok empty_world"
  by (simp add: store_defs empty_world_def)


text \<open>
  C5. A job that has ended stays as it is: after any commands that neither retry nor delete that
  very job, with any failures of the database, its row is still the only one with its id, and is
  the row it was, status, times and payload included.
\<close>

theorem ended_job_stays:
  assumes ok: "job_ids_ok w" and j: "j \<in> set (w_jobs w)" "job_ended j"
    and cs: "list_all (spares (j_ID j)) cs"
  shows "filter (\<lambda>j'. j_ID j' = j_ID j) (w_jobs (run_commands d cs w)) = [j]"
proof -
  have "job_history {j_ID j} w (run_commands d cs w)"
    using run_commands_cp [of "{j_ID j}" cs w d] cs by (simp add: cp_def)
  with ok j have "j \<in> set (w_jobs (run_commands d cs w))" "distinct (map j_ID (w_jobs (run_commands d cs w)))"
    by (auto simp: job_history_def job_ids_ok_def)
  then show ?thesis by (rule filter_distinct_key)
qed

definition ended_job :: Job where
  "ended_job = Job0\<lparr>j_ID := 7, j_Type := JobTypeAppDeploy, j_Status := JobSuccess, j_FinishedAt := Some 5\<rparr>"

definition ended_world :: world where
  "ended_world = empty_world\<lparr>w_now := 9, w_jobs := [ended_job], w_job_seq := 8\<rparr>"

theorem ended_job_stays_witness:
  "\<forall>d. filter (\<lambda>j. j_ID j = 7) (w_jobs (run_commands d [StartJob 7, DeleteJob 6, FinishJob 7 JobFailed] ended_world))
     = [ended_job]"
proof
  fix d
  have "job_ids_ok ended_world" "ended_job \<in> set (w_jobs ended_world)" "job_ended ended_job" "j_ID ended_job = 7"
    by (simp_all add: job_ids_ok_def ended_world_def ended_job_def job_ended_def Job0_def)
  then show "filter (\<lambda>j. j_ID j = 7) (w_jobs (run_commands d [StartJob 7, DeleteJob 6, FinishJob 7 JobFailed] ended_world))
     = [ended_job]"
    using ended_job_stays [of ended_world ended_job "[StartJob 7, DeleteJob 6, FinishJob 7 JobFailed]" d] by simp
qed

end
