(* ===== verification/Pipeline.thy ===== *)
theory Pipeline
  imports ControlPlane
begin

text \<open>
  What starting and finishing a job does to the job, its deployment and its application, as a
  function on these three tables, and the proof that the services, listeners and subscribers
  on the bus do just that.
\<close>

section \<open>The abstract state\<close>

record core =
  k_jobs :: "Job list"
  k_deployments :: "Deployment list"
  k_apps :: "AppRow list"

definition abs_world :: "world \<Rightarrow> core" where
  "abs_world w = \<lparr>k_jobs = w_jobs w, k_deployments = w_deployments w, k_apps = w_apps w\<rparr>"

definition set_job :: "int \<Rightarrow> (Job \<Rightarrow> Job) \<Rightarrow> core \<Rightarrow> core" where
  "set_job i f k = k\<lparr>k_jobs := update_where (\<lambda>j. j_ID j = i) f (k_jobs k)\<rparr>"

definition set_app :: "int \<Rightarrow> (AppRow \<Rightarrow> AppRow) \<Rightarrow> core \<Rightarrow> core" where
  "set_app i f k = k\<lparr>k_apps := update_where (\<lambda>a. a_ID a = i \<and> live_app a) f (k_apps k)\<rparr>"

definition set_deployment :: "int \<Rightarrow> (Deployment \<Rightarrow> Deployment) \<Rightarrow> core \<Rightarrow> core" where
  "set_deployment i f k = k\<lparr>k_deployments := update_where (\<lambda>d. d_ID d = i) f (k_deployments k)\<rparr>"

definition app_status :: "gotime \<Rightarrow> int \<Rightarrow> string \<Rightarrow> core \<Rightarrow> core" where
  "app_status now i st = set_app i (\<lambda>a. a\<lparr>a_Status := st, a_UpdatedAt := now\<rparr>)"

section \<open>The specification\<close>

text \<open>The status an application has once a job of a type has succeeded.\<close>

definition finished_status :: "string \<Rightarrow> string option" where
  "finished_status t =
    (if t = JobTypeAppDeploy \<or> t = JobTypeAppStart \<or> t = JobTypeAppRestart \<or> t = JobTypeAppRollback
     then Some AppStatusRunning else if t = JobTypeAppStop then Some AppStatusStopped else None)"

definition app_started :: "gotime \<Rightarrow> Job \<Rightarrow> core \<Rightarrow> core" where
  "app_started now j k = (case (j_ApplicationID j, started_status (j_Type j)) of
     (Some i, Some st) \<Rightarrow> app_status now i st k | _ \<Rightarrow> k)"

definition app_finished :: "gotime \<Rightarrow> Job \<Rightarrow> string \<Rightarrow> core \<Rightarrow> core" where
  "app_finished now j st k = (case j_ApplicationID j of
     None \<Rightarrow> k
   | Some i \<Rightarrow>
       if st = JobFailed then app_status now i AppStatusFailed k
       else case finished_status (j_Type j) of
         None \<Rightarrow> k
       | Some s \<Rightarrow>
           if is_deployment_job (j_Type j)
           then set_app i (\<lambda>a. a\<lparr>a_LastDeploymentAt := Some now\<rparr>) (app_status now i s k)
           else app_status now i s k)"

definition has_deployment :: "Job \<Rightarrow> int option" where
  "has_deployment j =
    (if j_ApplicationID j \<noteq> None \<and> is_deployment_job (j_Type j) then j_DeploymentID j else None)"

definition deployment_started :: "gotime \<Rightarrow> Job \<Rightarrow> core \<Rightarrow> core" where
  "deployment_started now j k = (case has_deployment j of
     None \<Rightarrow> k
   | Some i \<Rightarrow> set_deployment i (\<lambda>d. d\<lparr>d_Status := DeploymentDeploying, d_StartedAt := Some now\<rparr>) k)"

definition deployment_finished :: "gotime \<Rightarrow> Job \<Rightarrow> string \<Rightarrow> core \<Rightarrow> core" where
  "deployment_finished now j st k = (case has_deployment j of
     None \<Rightarrow> k
   | Some i \<Rightarrow> set_deployment i (\<lambda>d. d\<lparr>
       d_Status := (if st = JobFailed then DeploymentFailed else DeploymentSuccess),
       d_FinishedAt := Some now\<rparr>) k)"

text \<open>
  A job that is not queued is announced as started all the same, and one that is not running
  as finished, with the status the caller asked for.
\<close>

definition spec_start :: "gotime \<Rightarrow> int \<Rightarrow> core \<Rightarrow> core" where
  "spec_start now i k = (case find (\<lambda>j. j_ID j = i) (k_jobs k) of
     None \<Rightarrow> k
   | Some j \<Rightarrow> deployment_started now j (app_started now j
       (if j_Status j = JobQueued
        then set_job i (\<lambda>j. j\<lparr>j_Status := JobRunning, j_StartedAt := Some now\<rparr>) k else k)))"

definition spec_finish :: "gotime \<Rightarrow> int \<Rightarrow> string \<Rightarrow> core \<Rightarrow> core" where
  "spec_finish now i st k = (case find (\<lambda>j. j_ID j = i) (k_jobs k) of
     None \<Rightarrow> k
   | Some j \<Rightarrow> deployment_finished now j st (app_finished now j st
       (if j_Status j = JobRunning
        then set_job i (\<lambda>j. j\<lparr>j_Status := st, j_FinishedAt := Some now\<rparr>) k else k)))"

section \<open>Operations that act as a function of the abstract state\<close>

definition follows :: "world \<Rightarrow> core \<Rightarrow> world \<Rightarrow> bool" where
  "follows w k w' \<longleftrightarrow> abs_world w' = k \<and> w_now w' = w_now w \<and> no_faults w'"

definition same_core :: "world \<Rightarrow> world \<Rightarrow> bool" where
  "same_core w w' \<longleftrightarrow> abs_world w' = abs_world w \<and> w_now w' = w_now w \<and> w_job_seq w' = w_job_seq w \<and>
     w_deployment_seq w' = w_deployment_seq w \<and> w_env w' = w_env w \<and> w_servers w' = w_servers w \<and>
     w_users w' = w_users w \<and> (no_faults w \<longrightarrow> no_faults w')"

lemma same_coreD:
  assumes "same_core w w'"
  shows "w_jobs w' = w_jobs w" "w_deployments w' = w_deployments w" "w_apps w' = w_apps w"
    "w_job_seq w' = w_job_seq w" "w_deployment_seq w' = w_deployment_seq w" "w_env w' = w_env w"
    "w_servers w' = w_servers w" "w_users w' = w_users w" "w_now w' = w_now w"
    "no_faults w \<Longrightarrow> no_faults w'"
  using assms by (auto simp: same_core_def abs_world_def)

interpretation sc: db_guarantee same_core
  by unfold_locales (auto simp: same_core_def abs_world_def no_faults_def)

definition acts :: "(world \<Rightarrow> world) \<Rightarrow> (gotime \<Rightarrow> core \<Rightarrow> core) \<Rightarrow> bool" where
  "acts m f \<longleftrightarrow> (\<forall>w. no_faults w \<longrightarrow> follows w (f (w_now w) (abs_world w)) (m w))"

lemma actsI: "(\<And>w. no_faults w \<Longrightarrow> follows w (f (w_now w) (abs_world w)) (m w)) \<Longrightarrow> acts m f"
  by (simp add: acts_def)

lemma acts_same: "(\<And>w. same_core w (m w)) \<Longrightarrow> acts m (\<lambda>_ k. k)"
  by (auto simp: acts_def follows_def same_core_def)

lemma acts_comp: "acts m f \<Longrightarrow> acts n g \<Longrightarrow> acts (\<lambda>w. n (m w)) (\<lambda>now k. g now (f now k))"
  by (auto simp: acts_def follows_def)

lemma acts_then_same: "acts m f \<Longrightarrow> (\<And>w. same_core w (n w)) \<Longrightarrow> acts (\<lambda>w. n (m w)) f"
  using acts_comp [of m f n "\<lambda>_ k. k"] acts_same by blast

section \<open>Subscribers leave the abstract state alone\<close>

lemma sc_only_ws: "only_ws w w' \<Longrightarrow> same_core w w'"
  by (auto simp: only_ws_def same_core_def abs_world_def no_faults_def)

lemma sc_snd: "guarantees same_core m \<Longrightarrow> same_core w (snd (m w))"
  by (simp add: guarantees_def)

lemma sc_AuditLogRepo_Create: "guarantees same_core (AuditLogRepo_Create l)"
  unfolding AuditLogRepo_Create_def
  by (intro sc.db_rules guaranteesI) (auto simp: Let_def same_core_def abs_world_def)

lemma sc_audit_handlers:
  "same_core w (OnDeploymentCreated ev w)" "same_core w (OnDeploymentStatusChanged ev w)"
  "same_core w (OnApplicationCreated ev w)" "same_core w (OnServerStatusChanged ev w)"
  unfolding OnDeploymentCreated_def OnDeploymentStatusChanged_def OnApplicationCreated_def
    OnServerStatusChanged_def AuditLogService_Create_def
  by (cases ev; simp add: sc.refl sc_snd sc_AuditLogRepo_Create)+

lemma sc_read: "(\<And>w. snd (q w) = w) \<Longrightarrow> guarantees same_core q"
  by (rule guaranteesI) (simp add: sc.refl)

lemma sc_SettingsRepo_Get: "guarantees same_core (SettingsRepo_Get k)"
  unfolding SettingsRepo_Get_def by (intro sc.db_rules sc_read) (simp split: option.split)

lemma sc_AppRepo_GetByID: "guarantees same_core (AppRepo_GetByID i)"
  unfolding AppRepo_GetByID_def by (intro sc.db_rules sc_read) (simp split: option.split)

lemma sc_Notifier_Handle: "same_core w (Notifier_Handle url ev w)"
proof -
  obtain ws w1 where s: "webhook_settings url w = (ws, w1)" by (cases "webhook_settings url w")
  have "same_core w (snd (webhook_settings url w))"
    using sc_snd [OF sc_SettingsRepo_Get, of w "''webhook''"]
    by (cases "SettingsRepo_Get ''webhook'' w"; cases "fst (SettingsRepo_Get ''webhook'' w)")
      (simp_all add: webhook_settings_def)
  then have 1: "same_core w w1" by (simp add: s)
  have 2: "same_core w1 (snd (notifier_appName i w1))" for i
    using sc_snd [OF sc_AppRepo_GetByID, of w1 i]
    by (cases "AppRepo_GetByID i w1"; cases "fst (AppRepo_GetByID i w1)") (simp_all add: notifier_appName_def)
  have 3: "same_core w1 (w2\<lparr>w_webhook := q\<rparr>)" if "notifier_appName i w1 = (n, w2)" for i n w2 q
    using 2 [of i] that by (simp add: same_core_def abs_world_def)
  show ?thesis
    using 1 3 unfolding Notifier_Handle_def s
    by (cases ev) (auto intro: sc.trans split: prod.split)
qed

lemma sc_leaf_bus: "handlers_keep same_core (leaf_bus url)"
  unfolding leaf_bus_def subscribers_Register_def ws_subscriptions_def audit_Register_def
  by (simp add: sc_Notifier_Handle sc_audit_handlers sc_only_ws only_ws_handlers only_ws_log)

lemma sc_leaf_publish: "same_core w (snd (Publish (leaf_bus url) n ev w))"
  by (rule sc_snd) (rule sc.g_publish_all [OF sc_leaf_bus])

section \<open>What each step does\<close>

text \<open>An operation whose result is not looked at, then an announcement when it succeeded.\<close>

lemma acts_bind_same:
  assumes "acts (\<lambda>w. snd (m w)) f" and "\<And>x. guarantees same_core (n x)"
  shows "acts (\<lambda>w. snd (bindE m n w)) f"
proof (rule actsI)
  fix w
  assume nf: "no_faults w"
  obtain r u where m: "m w = (r, u)" by (cases "m w")
  have u: "follows w (f (w_now w) (abs_world w)) u"
    using assms(1) nf m by (auto simp: acts_def)
  show "follows w (f (w_now w) (abs_world w)) (snd (bindE m n w))"
  proof (cases r)
    case (Inr x)
    have "same_core u (snd (n x u))" using assms(2) by (simp add: guarantees_def)
    with u show ?thesis by (auto simp: bindE_def m Inr follows_def same_core_def)
  qed (simp add: bindE_def m u)
qed

lemma acts_ignore_then:
  assumes "acts (\<lambda>w. snd (m w)) f" and "acts (\<lambda>w. snd (n w)) g"
  shows "acts (\<lambda>w. snd (bindE (ignoreE m) (\<lambda>_. n) w)) (\<lambda>now k. g now (f now k))"
  using acts_comp [OF assms] by (simp add: bindE_def ignoreE_def)

lemma acts_app_update:
  "acts (\<lambda>w. snd (bindE time_Now (\<lambda>now. app_update msg i (f now)) w)) (\<lambda>now. set_app i (f now))"
proof (rule actsI)
  fix w :: world
  assume nf: "no_faults w"
  show "follows w (set_app i (f (w_now w)) (abs_world w))
    (snd (bindE time_Now (\<lambda>now. app_update msg i (f now)) w))"
    using nf by (simp add: bindE_def time_Now_def app_update_def wrapE_def catchE_def db_exec_ok
        follows_def set_app_def abs_world_def Let_def)
qed

lemma acts_app_status:
  "acts (\<lambda>w. snd (AppService_UpdateStatus (leaf_bus url) i st w)) (\<lambda>now. app_status now i st)"
  unfolding AppService_UpdateStatus_def AppRepo_UpdateStatus_def app_status_def
  by (intro acts_bind_same acts_app_update sc.g_publish_all sc_leaf_bus)

lemma acts_last_deployment:
  "acts (\<lambda>w. snd (AppService_UpdateLastDeployment i w)) (\<lambda>now. set_app i (\<lambda>a. a\<lparr>a_LastDeploymentAt := Some now\<rparr>))"
  unfolding AppService_UpdateLastDeployment_def AppRepo_UpdateLastDeployment_def
  by (rule acts_app_update)

lemma update_where_none: "find p xs = None \<Longrightarrow> update_where p f xs = xs"
  unfolding update_where_def by (intro map_idI) (simp add: find_None_set)

lemma deployment_update_world:
  "no_faults w \<Longrightarrow> snd (db_exec (deployment_update i f) w) =
    w\<lparr>w_calls := Suc (w_calls w), w_deployments := update_where (\<lambda>d. d_ID d = i)
      (f (w\<lparr>w_calls := Suc (w_calls w)\<rparr>)) (w_deployments w)\<rparr>"
  by (cases "find (\<lambda>d. d_ID d = i) (w_deployments w)")
    (simp_all add: db_exec_ok deployment_update_def update_where_none)

lemma snd_bind_pure: "(\<And>x w. snd (n x w) = w) \<Longrightarrow> snd (bindE m n w) = snd (m w)"
  by (simp add: bindE_def split: prod.split sum.split)

lemma snd_catch_pure: "(\<And>e w. snd (hd' e w) = w) \<Longrightarrow> snd (catchE m hd' w) = snd (m w)"
  by (simp add: catchE_def split: prod.split sum.split)

lemma acts_deployment_update:
  assumes "\<And>w n. f (w\<lparr>w_calls := n\<rparr>) = g (w_now w)"
  shows "acts (\<lambda>w. snd (db_exec (deployment_update i f) w)) (\<lambda>now. set_deployment i (g now))"
proof (rule actsI)
  fix w :: world
  assume nf: "no_faults w"
  show "follows w (set_deployment i (g (w_now w)) (abs_world w)) (snd (db_exec (deployment_update i f) w))"
    using nf by (simp add: assms deployment_update_world follows_def set_deployment_def abs_world_def)
qed

lemma bind_now: "bindE time_Now f w = f (w_now w) w"
  by (simp add: time_Now_def bindE_def)

lemma acts_DeploymentRepo:
  "acts (\<lambda>w. snd (DeploymentRepo_UpdateStatus i st w)) (\<lambda>_. set_deployment i (\<lambda>d. d\<lparr>d_Status := st\<rparr>))"
  "acts (\<lambda>w. snd (DeploymentRepo_Start i w)) (\<lambda>now. set_deployment i (\<lambda>d. d\<lparr>d_StartedAt := Some now\<rparr>))"
  "acts (\<lambda>w. snd (DeploymentRepo_Finish i w)) (\<lambda>now. set_deployment i (\<lambda>d. d\<lparr>d_FinishedAt := Some now\<rparr>))"
proof -
  show "acts (\<lambda>w. snd (DeploymentRepo_UpdateStatus i st w)) (\<lambda>_. set_deployment i (\<lambda>d. d\<lparr>d_Status := st\<rparr>))"
    unfolding DeploymentRepo_UpdateStatus_def
    by (simp add: snd_bind_pure snd_catch_pure deployment_not_found_def acts_deployment_update
        [where g = "\<lambda>_ d. d\<lparr>d_Status := st\<rparr>"])
  have upd: "acts (\<lambda>w. snd (bindE time_Now (\<lambda>now. wrapE msg (bindE (db_exec (deployment_update i (\<lambda>_. f now)))
      (\<lambda>d. returnE (h d)))) w)) (\<lambda>now. set_deployment i (f now))" for msg f and h :: "Deployment \<Rightarrow> Deployment"
  proof (rule actsI)
    fix w :: world
    assume nf: "no_faults w"
    have "snd (bindE time_Now (\<lambda>now. wrapE msg (bindE (db_exec (deployment_update i (\<lambda>_. f now)))
      (\<lambda>d. returnE (h d)))) w) = snd (db_exec (deployment_update i (\<lambda>_. f (w_now w))) w)"
      by (simp add: bind_now wrapE_def snd_catch_pure snd_bind_pure)
    with nf show "follows w (set_deployment i (f (w_now w)) (abs_world w)) (snd (bindE time_Now
        (\<lambda>now. wrapE msg (bindE (db_exec (deployment_update i (\<lambda>_. f now))) (\<lambda>d. returnE (h d)))) w))"
      by (simp add: bind_now deployment_update_world follows_def set_deployment_def abs_world_def)
  qed
  show "acts (\<lambda>w. snd (DeploymentRepo_Start i w)) (\<lambda>now. set_deployment i (\<lambda>d. d\<lparr>d_StartedAt := Some now\<rparr>))"
    unfolding DeploymentRepo_Start_def by (rule upd)
  show "acts (\<lambda>w. snd (DeploymentRepo_Finish i w)) (\<lambda>now. set_deployment i (\<lambda>d. d\<lparr>d_FinishedAt := Some now\<rparr>))"
    unfolding DeploymentRepo_Finish_def by (rule upd)
qed


section \<open>The services and the listeners\<close>

abbreviation job_started_event :: "Job \<Rightarrow> event" where
  "job_started_event j \<equiv> JobStartedEv
     \<lparr>ejs_JobID = j_ID j, ejs_TraceID = j_TraceID j, ejs_ServerID = j_ServerID j,
      ejs_ApplicationID = j_ApplicationID j, ejs_DeploymentID = j_DeploymentID j,
      ejs_Type = j_Type j\<rparr>"

abbreviation job_finished_event :: "string \<Rightarrow> Job \<Rightarrow> event" where
  "job_finished_event st j \<equiv> JobFinishedEv
     \<lparr>ejf_JobID = j_ID j, ejf_TraceID = j_TraceID j, ejf_ServerID = j_ServerID j,
      ejf_ApplicationID = j_ApplicationID j, ejf_DeploymentID = j_DeploymentID j,
      ejf_Type = j_Type j, ejf_Status = st\<rparr>"

lemma acts_DeploymentService:
  "acts (\<lambda>w. snd (DeploymentService_UpdateStatus (leaf_bus url) i st w))
     (\<lambda>_. set_deployment i (\<lambda>d. d\<lparr>d_Status := st\<rparr>))"
  "acts (\<lambda>w. snd (DeploymentService_Start (leaf_bus url) i w))
     (\<lambda>now. set_deployment i (\<lambda>d. d\<lparr>d_StartedAt := Some now\<rparr>))"
  "acts (\<lambda>w. snd (DeploymentService_Finish (leaf_bus url) i w))
     (\<lambda>now. set_deployment i (\<lambda>d. d\<lparr>d_FinishedAt := Some now\<rparr>))"
  unfolding DeploymentService_UpdateStatus_def DeploymentService_Start_def DeploymentService_Finish_def
  by (intro acts_bind_same acts_DeploymentRepo sc.g_publish_all sc_leaf_bus;
      intro sc.g_option sc.g_fail sc.g_publish_all sc_leaf_bus)+

lemma acts_snd_ignore: "acts (\<lambda>w. snd (m w)) f \<Longrightarrow> acts (\<lambda>w. snd (ignoreE m w)) f"
  by (simp add: ignoreE_def)

lemma set_deployment_twice:
  "(\<And>d. d_ID (f d) = d_ID d) \<Longrightarrow>
    set_deployment i g (set_deployment i f k) = set_deployment i (\<lambda>d. g (f d)) k"
  by (simp add: set_deployment_def update_where_def comp_def if_distrib [of "\<lambda>d. d_ID d"] cong: if_cong)

lemma acts_id: "acts (\<lambda>w. w) (\<lambda>_ k. k)"
  by (simp add: acts_def follows_def)

lemma acts_app_started:
  "acts (AppListener_handleJobStarted (leaf_bus url) (job_started_event j)) (\<lambda>now. app_started now j)"
  unfolding AppListener_handleJobStarted_def app_started_def
  by (cases "j_ApplicationID j"; cases "started_status (j_Type j)") (simp_all add: acts_id acts_app_status)

lemma acts_app_finished:
  "acts (AppListener_handleJobFinished (leaf_bus url) (job_finished_event st j)) (\<lambda>now. app_finished now j st)"
proof (cases "j_ApplicationID j")
  case None
  then show ?thesis
    unfolding AppListener_handleJobFinished_def app_finished_def by (simp add: acts_id)
next
  case (Some i)
  note both = acts_ignore_then [OF acts_app_status acts_last_deployment]
  consider "j_Type j = JobTypeAppDeploy" | "j_Type j = JobTypeAppStart" | "j_Type j = JobTypeAppStop"
    | "j_Type j = JobTypeAppRestart" | "j_Type j = JobTypeAppRollback"
    | "finished_status (j_Type j) = None" "j_Type j \<notin>
        {JobTypeAppDeploy, JobTypeAppStart, JobTypeAppStop, JobTypeAppRestart, JobTypeAppRollback}"
    by (fastforce simp: finished_status_def)
  then show ?thesis
    unfolding AppListener_handleJobFinished_def app_finished_def
    by cases (cases "st = JobFailed"; simp add: Some acts_id acts_app_status both finished_status_def
        is_deployment_job_def)+
qed

lemma acts_deployment_started:
  "acts (DeploymentListener_handleJobStarted (leaf_bus url) (job_started_event j)) (\<lambda>now. deployment_started now j)"
proof -
  have "acts (\<lambda>w. snd (bindE (ignoreE (DeploymentService_UpdateStatus (leaf_bus url) i DeploymentDeploying))
      (\<lambda>_. DeploymentService_Start (leaf_bus url) i) w))
    (\<lambda>now. set_deployment i (\<lambda>d. d\<lparr>d_Status := DeploymentDeploying, d_StartedAt := Some now\<rparr>))" for i
    using acts_ignore_then [OF acts_DeploymentService(1) acts_DeploymentService(2), of url i _ url i]
    by (simp add: set_deployment_twice)
  then show ?thesis
    unfolding DeploymentListener_handleJobStarted_def deployment_started_def has_deployment_def
    by (cases "j_ApplicationID j"; cases "j_DeploymentID j"; cases "is_deployment_job (j_Type j)")
      (simp_all add: acts_id)
qed

lemma acts_deployment_finished:
  "acts (DeploymentListener_handleJobFinished (leaf_bus url) (job_finished_event st j)) (\<lambda>now. deployment_finished now j st)"
proof -
  have "acts (\<lambda>w. snd (bindE (ignoreE (DeploymentService_UpdateStatus (leaf_bus url) i s))
      (\<lambda>_. DeploymentService_Finish (leaf_bus url) i) w))
    (\<lambda>now. set_deployment i (\<lambda>d. d\<lparr>d_Status := s, d_FinishedAt := Some now\<rparr>))" for i s
    using acts_ignore_then [OF acts_DeploymentService(1) acts_DeploymentService(3), of url i _ url i]
    by (simp add: set_deployment_twice)
  then show ?thesis
    unfolding DeploymentListener_handleJobFinished_def deployment_finished_def has_deployment_def Let_def
    by (cases "j_ApplicationID j"; cases "j_DeploymentID j"; cases "is_deployment_job (j_Type j)")
      (simp_all add: acts_id)
qed

lemma sc_ws_publish:
  "same_core w (WsJobStarted ev w)" "same_core w (WsJobFinished ev w)" "same_core w (WsJobStatusChanged ev w)"
  by (simp_all add: sc_only_ws only_ws_handlers)

section \<open>Starting and finishing\<close>

text \<open>A transition that fires, idles or misses, then the two announcements.\<close>

lemma follows_transition:
  assumes gt: "guarded_transition step src eff" and nf: "no_faults w"
    and eff: "\<And>j. eff w j = f (w_now w) j"
  shows "case find (\<lambda>j. j_ID j = i) (w_jobs w) of
      None \<Rightarrow> step i w = (Inl ErrJobNotFound, snd (step i w)) \<and> follows w (abs_world w) (snd (step i w))
    | Some j \<Rightarrow> (\<exists>j'. step i w = (Inr j', snd (step i w)) \<and>
        j' = (if j_Status j = src then f (w_now w) j else j)) \<and>
        follows w (if j_Status j = src then set_job i (f (w_now w)) (abs_world w) else abs_world w)
          (snd (step i w))"
proof (cases "find (\<lambda>j. j_ID j = i) (w_jobs w)")
  case None
  from guarded_transition.missing [OF gt nf None] nf show ?thesis
    by (auto simp: None follows_def abs_world_def no_faults_def)
next
  case (Some j)
  have ext: "eff w = f (w_now w)" by (rule ext) (rule eff)
  show ?thesis
    using guarded_transition.fires [OF gt nf Some] guarded_transition.idles [OF gt nf Some] nf
    by (cases "j_Status j = src")
      (auto simp: Some ext follows_def abs_world_def set_job_def no_faults_def)
qed

lemma publish_acts2:
  assumes "handlers bus n = [h1, h2, h3]" and "acts (h1 ev) f" and "acts (h2 ev) g"
    and "\<And>w. same_core w (h3 ev w)"
  shows "acts (\<lambda>w. snd (Publish bus n ev w)) (\<lambda>now k. g now (f now k))"
  using acts_then_same [OF acts_comp [OF assms(2,3)] assms(4)]
  by (simp add: Publish_def assms(1))

lemma acts_follows:
  "acts m f \<Longrightarrow> follows w k u \<Longrightarrow> follows w (f (w_now w) k) (m u)"
  by (simp add: acts_def follows_def)

lemma status_publish_same: "same_core w (snd (Publish (server_bus url) ''job_status_changed'' ev w))"
  by (simp add: Publish_def server_handlers sc_ws_publish)

lemma follows_same: "follows w k u \<Longrightarrow> same_core u v \<Longrightarrow> follows w k v"
  by (auto simp: follows_def same_core_def)


lemma server_bus_started:
  "acts (\<lambda>w. snd (Publish (server_bus url) ''job_started'' (job_started_event j) w)) (\<lambda>now k. deployment_started now j (app_started now j k))"
  by (rule publish_acts2 [OF server_handlers(2) acts_app_started acts_deployment_started sc_ws_publish(1)])

lemma server_bus_finished:
  "acts (\<lambda>w. snd (Publish (server_bus url) ''job_finished'' (job_finished_event st j) w)) (\<lambda>now k. deployment_finished now j st (app_finished now j st k))"
  by (rule publish_acts2 [OF server_handlers(3) acts_app_finished acts_deployment_finished sc_ws_publish(2)])

lemma abs_jobs: "k_jobs (abs_world w) = w_jobs w"
  by (simp add: abs_world_def)

lemma missed:
  assumes "step i w = (Inl e, snd (step i w))" and "follows w (abs_world w) (snd (step i w))"
  shows "follows w (abs_world w) (snd (bindE (step i) n w))"
  unfolding bindE_Inl [where m = "step i", OF assms(1)] using assms(2) by simp

lemma announced:
  assumes step: "step i w = (Inr j, u)" and u: "follows w k u"
    and pub: "acts (\<lambda>w. snd (Publish (server_bus url) n (ev j) w)) f"
  shows "follows w (f (w_now w) k) (snd (bindE (step i) (\<lambda>job.
     bindE (Publish (server_bus url) n (ev job)) (\<lambda>_.
     bindE (Publish (server_bus url) ''job_status_changed'' (ev' job)) (\<lambda>_. returnE job))) w))"
proof -
  let ?v = "snd (Publish (server_bus url) n (ev j) u)"
  have "bindE (step i) (\<lambda>job. bindE (Publish (server_bus url) n (ev job)) (\<lambda>_.
      bindE (Publish (server_bus url) ''job_status_changed'' (ev' job)) (\<lambda>_. returnE job))) w =
    (Inr j, snd (Publish (server_bus url) ''job_status_changed'' (ev' j) ?v))"
    by (simp add: bindE_def step Publish_def)
  moreover have "follows w (f (w_now w) k) ?v"
    using acts_follows [OF pub u] by simp
  ultimately show ?thesis
    by (simp only: snd_conv) (rule follows_same [OF _ status_publish_same])
qed

text \<open>The specification reads only what the transition keeps of the job.\<close>

lemma spec_reads:
  assumes "j_ApplicationID j' = j_ApplicationID j" "j_DeploymentID j' = j_DeploymentID j" "j_Type j' = j_Type j"
  shows "app_started now j' = app_started now j" "app_finished now j' st = app_finished now j st"
    "deployment_started now j' = deployment_started now j"
    "deployment_finished now j' st = deployment_finished now j st"
  unfolding app_started_def app_finished_def deployment_started_def deployment_finished_def
    has_deployment_def assms by (rule HOL.refl)+

lemma start_follows:
  assumes nf: "no_faults w"
  shows "follows w (spec_start (w_now w) i (abs_world w))
    (snd (JobService_Start (server_bus url) i w))"
proof (cases "find (\<lambda>j. j_ID j = i) (w_jobs w)")
  case None
  from follows_transition [OF mark_running.guarded_transition_axioms nf, of "\<lambda>now j. j\<lparr>j_Status := JobRunning, j_StartedAt := Some now\<rparr>" i]
  have "JobRepo_MarkRunning i w = (Inl ErrJobNotFound, snd (JobRepo_MarkRunning i w))"
    and "follows w (abs_world w) (snd (JobRepo_MarkRunning i w))" by (simp_all add: None)
  note missed = missed [where step = "JobRepo_MarkRunning", OF this]
  show ?thesis
    unfolding JobService_Start_def spec_start_def by (simp add: abs_jobs None) (rule missed)
next
  case (Some j)
  let ?f = "\<lambda>now j. j\<lparr>j_Status := JobRunning, j_StartedAt := Some now\<rparr>"
  let ?j = "if j_Status j = JobQueued then ?f (w_now w) j else j"
  let ?k = "if j_Status j = JobQueued then set_job i (?f (w_now w)) (abs_world w) else abs_world w"
  have same: "deployment_started now ?j (app_started now ?j k) = deployment_started now j (app_started now j k)" for now k
    by (simp add: spec_reads [of ?j j])
  from follows_transition [OF mark_running.guarded_transition_axioms nf, of ?f i]
  have "JobRepo_MarkRunning i w = (Inr ?j, snd (JobRepo_MarkRunning i w))"
    and "follows w ?k (snd (JobRepo_MarkRunning i w))" by (simp_all add: Some)
  from announced [where step = JobRepo_MarkRunning and ev = job_started_event, OF this server_bus_started]
  have "follows w (deployment_started (w_now w) ?j (app_started (w_now w) ?j ?k)) (snd (JobService_Start (server_bus url) i w))"
    unfolding JobService_Start_def .
  then show ?thesis
    unfolding same by (simp add: spec_start_def Some abs_jobs)
qed

lemma finish_follows:
  assumes nf: "no_faults w"
  shows "follows w (spec_finish (w_now w) i st (abs_world w))
    (snd (JobService_Finish (server_bus url) i st w))"
proof (cases "find (\<lambda>j. j_ID j = i) (w_jobs w)")
  case None
  from follows_transition [OF mark_finished.guarded_transition_axioms nf, of st "\<lambda>now j. j\<lparr>j_Status := st, j_FinishedAt := Some now\<rparr>" i]
  have "JobRepo_MarkFinished i st w = (Inl ErrJobNotFound, snd (JobRepo_MarkFinished i st w))"
    and "follows w (abs_world w) (snd (JobRepo_MarkFinished i st w))" by (simp_all add: None)
  note missed = missed [where step = "\<lambda>i. JobRepo_MarkFinished i st", OF this]
  show ?thesis
    unfolding JobService_Finish_def spec_finish_def by (simp add: abs_jobs None) (rule missed)
next
  case (Some j)
  let ?f = "\<lambda>now j. j\<lparr>j_Status := st, j_FinishedAt := Some now\<rparr>"
  let ?j = "if j_Status j = JobRunning then ?f (w_now w) j else j"
  let ?k = "if j_Status j = JobRunning then set_job i (?f (w_now w)) (abs_world w) else abs_world w"
  have same: "deployment_finished now ?j st (app_finished now ?j st k) = deployment_finished now j st (app_finished now j st k)" for now k
    by (simp add: spec_reads [of ?j j])
  from follows_transition [OF mark_finished.guarded_transition_axioms nf, of st ?f i]
  have "JobRepo_MarkFinished i st w = (Inr ?j, snd (JobRepo_MarkFinished i st w))"
    and "follows w ?k (snd (JobRepo_MarkFinished i st w))" by (simp_all add: Some)
  from announced [where step = "\<lambda>i. JobRepo_MarkFinished i st" and ev = "job_finished_event st", OF this server_bus_finished]
  have "follows w (deployment_finished (w_now w) ?j st (app_finished (w_now w) ?j st ?k)) (snd (JobService_Finish (server_bus url) i st w))"
    unfolding JobService_Finish_def .
  then show ?thesis
    unfolding same by (simp add: spec_finish_def Some abs_jobs)
qed

section \<open>Properties\<close>

text \<open>
  C2. Starting a job on the wired bus is the abstract step: the job is marked running if it was
  queued, its application takes the status of work in progress, its deployment is marked
  deploying with the start time, and nothing else of the three tables changes.
\<close>

theorem start_refines:
  assumes "no_faults w"
  shows "abs_world (snd (JobService_Start (server_bus url) i w)) = spec_start (w_now w) i (abs_world w)"
  using start_follows [OF assms] by (simp add: follows_def)

text \<open>
  C3. Finishing a job on the wired bus is the abstract step: a running job takes the reported
  status and the end time, its application becomes running, stopped or failed by the type and
  the status of the job, its deployment succeeds or fails with the end time, and nothing else
  of the three tables changes.
\<close>

theorem finish_refines:
  assumes "no_faults w"
  shows "abs_world (snd (JobService_Finish (server_bus url) i st w)) = spec_finish (w_now w) i st (abs_world w)"
  using finish_follows [OF assms] by (simp add: follows_def)

definition queued_deploy :: Job where
  "queued_deploy = Job0\<lparr>j_ID := 3, j_Type := JobTypeAppDeploy, j_ApplicationID := Some 1,
     j_DeploymentID := Some 2, j_Status := JobQueued\<rparr>"

definition pipeline_world :: "Job \<Rightarrow> world" where
  "pipeline_world j = empty_world\<lparr>w_now := 50, w_jobs := [j],
     w_deployments := [Deployment0\<lparr>d_ID := 2, d_ApplicationID := 1, d_Status := DeploymentPending\<rparr>],
     w_apps := [Application.extend (Application0\<lparr>a_ID := 1, a_Status := AppStatusUnknown\<rparr>)
       \<lparr>a_DeletedAt = None\<rparr>]\<rparr>"

lemma pipeline_world_ok: "no_faults (pipeline_world j)" "w_now (pipeline_world j) = 50"
  by (simp_all add: pipeline_world_def no_faults_def empty_world_def)

lemmas pipeline_simps = spec_start_def spec_finish_def abs_world_def pipeline_world_def empty_world_def
  queued_deploy_def Job0_def Deployment0_def Application0_def set_job_def set_deployment_def set_app_def
  app_status_def app_started_def app_finished_def deployment_started_def deployment_finished_def
  has_deployment_def is_deployment_job_def started_status_def finished_status_def update_where_def
  live_app_def Application.defs

theorem start_refines_witness:
  "let k = abs_world (snd (JobService_Start (server_bus ''http://hook'') 3 (pipeline_world queued_deploy)))
   in map j_Status (k_jobs k) = [JobRunning] \<and> map d_Status (k_deployments k) = [DeploymentDeploying] \<and>
      map a_Status (k_apps k) = [AppStatusDeploying]"
  unfolding start_refines [OF pipeline_world_ok(1)] pipeline_world_ok
  by (simp add: pipeline_simps Let_def)

theorem finish_refines_witness:
  "let k = abs_world (snd (JobService_Finish (server_bus ''http://hook'') 3 JobFailed
       (pipeline_world (queued_deploy\<lparr>j_Status := JobRunning\<rparr>))))
   in map j_Status (k_jobs k) = [JobFailed] \<and> map d_Status (k_deployments k) = [DeploymentFailed] \<and>
      map a_Status (k_apps k) = [AppStatusFailed]"
  unfolding finish_refines [OF pipeline_world_ok(1)] pipeline_world_ok
  by (simp add: pipeline_simps Let_def)

end
