(* ===== verification/Releases.thy ===== *)
theory Releases
  imports Pipeline
begin

text \<open>
  What the requests to deploy, to roll back and to delete an application leave in the tables:
  the deployment, its link and snapshot, and the queued job with its payload. The steps are
  those of \<open>internal/application/application/service.go\<close> on the wired bus.
\<close>

section \<open>Steps on the wired bus\<close>

lemma same_coreI:
  assumes "w_jobs w' = w_jobs w" "w_deployments w' = w_deployments w" "w_apps w' = w_apps w"
    "w_job_seq w' = w_job_seq w" "w_deployment_seq w' = w_deployment_seq w" "w_env w' = w_env w"
    "w_servers w' = w_servers w" "w_users w' = w_users w" "w_now w' = w_now w"
    "w_fault w' = w_fault w" "w_calls w \<le> w_calls w'"
  shows "same_core w w'"
  using assms by (simp add: same_core_def abs_world_def no_faults_def)

lemma Publish_other:
  assumes "n \<notin> set listener_events"
  shows "same_core w (snd (Publish (server_bus url) n ev w))"
proof -
  have "Publish (server_bus url) n ev = Publish (leaf_bus url) n ev"
    by (simp add: Publish_def leaf_bus_agrees [OF assms] fun_eq_iff)
  then show ?thesis by (simp add: sc_leaf_publish)
qed

lemma bind_Publish: "bindE (Publish bus n ev) f w = f () (snd (Publish bus n ev w))"
  by (simp add: Publish_def bindE_def)


lemma app_found:
  assumes "no_faults w" and "find (\<lambda>a. a_ID a = i \<and> live_app a) (w_apps w) = Some a"
  shows "\<exists>w1. AppRepo_GetByID i w = (Inr (app_of_row a), w1) \<and> same_core w w1"
  using sc_snd [OF sc_AppRepo_GetByID, of w i] assms
  by (simp add: AppRepo_GetByID_def catchE_def db_exec_ok)

lemma env_listed:
  assumes "no_faults w"
    and "decrypt_rows r (order_by env_key_asc (filter (\<lambda>e. e_ApplicationID e = i) (w_env w))) = Inr es"
  shows "\<exists>w1. AppRepo_ListEnvVars r i w = (Inr es, w1) \<and> same_core w w1"
  using assms sc.R_call [of w] by (simp add: AppRepo_ListEnvVars_def bindE_def wrapE_def catchE_def db_exec_ok)

lemma uuid_drawn: "\<exists>u w1. uuid_New w = (Inr u, w1) \<and> same_core w w1"
  by (simp add: uuid_New_def sc.R_uuids)

definition new_deployment :: "int \<Rightarrow> int \<Rightarrow> string \<Rightarrow> int \<Rightarrow> gotime \<Rightarrow> Deployment" where
  "new_deployment i app branch by now = Deployment0\<lparr>d_ID := i, d_ApplicationID := app, d_Branch := branch,
     d_DeployedBy := Some by, d_Status := DeploymentPending, d_TriggeredAt := now, d_EnvSnapshot := Some (JObj [])\<rparr>"

definition with_deployment :: "int \<Rightarrow> string \<Rightarrow> int \<Rightarrow> world \<Rightarrow> world" where
  "with_deployment app branch by w = w\<lparr>w_deployments := w_deployments w @
     [new_deployment (w_deployment_seq w) app branch by (w_now w)], w_deployment_seq := w_deployment_seq w + 1\<rparr>"

lemma deployment_created:
  assumes "no_faults w" and "app \<in> a_ID ` set (w_apps w)" and "by \<in> u_ID ` set (w_users w)"
  shows "\<exists>d w1. DeploymentService_Create (server_bus url)
      \<lparr>dc_ApplicationID = app, dc_Branch = branch, dc_DeployedBy = Some by\<rparr> w = (Inr d, w1) \<and>
    d_ID d = w_deployment_seq w \<and> same_core (with_deployment app branch by w) w1"
proof -
  let ?d = "Deployment0\<lparr>d_ApplicationID := app, d_Branch := branch, d_DeployedBy := Some by,
    d_Status := DeploymentPending, d_ID := w_deployment_seq w, d_TriggeredAt := w_now w\<rparr>"
  let ?w = "(with_deployment app branch by w)\<lparr>w_calls := Suc (w_calls w)\<rparr>"
  let ?ev = "DeploymentCreatedEv \<lparr>edc_DeploymentID = w_deployment_seq w, edc_ApplicationID = app,
    edc_DeployedBy = by, edc_TriggeredAt = w_now w\<rparr>"
  let ?u = "snd (Publish (server_bus url) ''deployment_created'' ?ev ?w)"
  have create: "DeploymentRepo_Create (Deployment0\<lparr>d_ApplicationID := app, d_Branch := branch,
      d_DeployedBy := Some by, d_Status := DeploymentPending\<rparr>) w = (Inr ?d, ?w)"
    using assms by (simp add: DeploymentRepo_Create_def bind_now wrapE_def catchE_def db_exec_ok Let_def
        deployment_refs_ok_def new_deployment_def with_deployment_def)
  have run: "DeploymentService_Create (server_bus url)
      \<lparr>dc_ApplicationID = app, dc_Branch = branch, dc_DeployedBy = Some by\<rparr> w = (Inr ?d, ?u)"
    unfolding DeploymentService_Create_def DeploymentCreateRequest.simps
    by (subst bindE_Inr, rule create) (simp add: bind_Publish)
  have "same_core (with_deployment app branch by w) ?w"
    by (rule same_coreI) (simp_all add: with_deployment_def)
  moreover have "same_core ?w ?u"
    by (rule Publish_other) (simp add: listener_events_def)
  ultimately have "same_core (with_deployment app branch by w) ?u" by (rule sc.trans)
  moreover have "d_ID ?d = w_deployment_seq w" by simp
  ultimately show ?thesis using run by blast
qed

definition snapshot_deployment :: "world \<Rightarrow> envmap \<Rightarrow> Deployment \<Rightarrow> Deployment" where
  "snapshot_deployment w env d = d\<lparr>d_EnvSnapshot := Some (enc_env env),
     d_PreviousDeploymentID := map_option d_ID (previous_success w d),
     d_PreviousCommitHash := (case previous_success w d of None \<Rightarrow> None | Some p \<Rightarrow> d_CommitHash p)\<rparr>"

lemma previous_success_calls: "previous_success (w\<lparr>w_calls := n\<rparr>) = previous_success w"
  by (simp add: previous_success_def fun_eq_iff)

lemma snapshot_taken:
  assumes "no_faults w" and "find (\<lambda>d. d_ID d = i) (w_deployments w) = Some d"
  shows "\<exists>w1. DeploymentService_UpdateEnvSnapshot i env w = (Inr (), w1) \<and>
    same_core (w\<lparr>w_deployments := update_where (\<lambda>d. d_ID d = i) (snapshot_deployment w env) (w_deployments w)\<rparr>) w1"
proof -
  have "snapshot_deployment (w\<lparr>w_calls := Suc (w_calls w)\<rparr>) env = snapshot_deployment w env"
    by (simp add: snapshot_deployment_def previous_success_calls fun_eq_iff)
  then have "DeploymentService_UpdateEnvSnapshot i env w = (Inr (), w\<lparr>w_calls := Suc (w_calls w),
      w_deployments := update_where (\<lambda>d. d_ID d = i) (snapshot_deployment w env) (w_deployments w)\<rparr>)"
    using assms by (simp add: DeploymentService_UpdateEnvSnapshot_def DeploymentRepo_UpdateEnvSnapshot_def
        bindE_def catchE_def db_exec_ok deployment_update_def snapshot_deployment_def [symmetric])
  moreover have "same_core (w\<lparr>w_deployments := update_where (\<lambda>d. d_ID d = i) (snapshot_deployment w env) (w_deployments w)\<rparr>)
      (w\<lparr>w_calls := Suc (w_calls w),
       w_deployments := update_where (\<lambda>d. d_ID d = i) (snapshot_deployment w env) (w_deployments w)\<rparr>)"
    by (rule same_coreI) simp_all
  ultimately show ?thesis by blast
qed

lemma sc_bind_after:
  "(\<And>x. guarantees same_core (n x)) \<Longrightarrow> same_core (snd (m w)) (snd (bindE m n w))"
  by (auto simp: bindE_def guarantees_def sc.refl split: prod.split sum.split)

lemma pending_announced:
  assumes "no_faults w"
  shows "same_core (w\<lparr>w_deployments := update_where (\<lambda>d. d_ID d = i) (\<lambda>d. d\<lparr>d_Status := st\<rparr>) (w_deployments w)\<rparr>)
    (snd (DeploymentService_UpdateStatus (leaf_bus url) i st w))"
proof -
  let ?v = "w\<lparr>w_calls := Suc (w_calls w),
    w_deployments := update_where (\<lambda>d. d_ID d = i) (\<lambda>d. d\<lparr>d_Status := st\<rparr>) (w_deployments w)\<rparr>"
  have "snd (DeploymentRepo_UpdateStatus i st w) = ?v"
    unfolding DeploymentRepo_UpdateStatus_def
    by (simp add: snd_bind_pure snd_catch_pure deployment_not_found_def deployment_update_world [OF assms])
  moreover have "same_core (snd (DeploymentRepo_UpdateStatus i st w)) (snd (DeploymentService_UpdateStatus (leaf_bus url) i st w))"
    unfolding DeploymentService_UpdateStatus_def by (intro sc_bind_after sc.g_publish_all sc_leaf_bus)
  moreover have "same_core (w\<lparr>w_deployments := update_where (\<lambda>d. d_ID d = i) (\<lambda>d. d\<lparr>d_Status := st\<rparr>) (w_deployments w)\<rparr>) ?v"
    by (rule same_coreI) simp_all
  ultimately show ?thesis using sc.trans by simp
qed

definition queued_row :: "world \<Rightarrow> Job \<Rightarrow> Job" where
  "queued_row w j = j\<lparr>j_ID := w_job_seq w, j_Status := JobQueued, j_QueuedAt := Some (w_now w),
     j_StartedAt := None, j_FinishedAt := None, j_Logs := []\<rparr>"

definition with_job :: "Job \<Rightarrow> world \<Rightarrow> world" where
  "with_job j w = w\<lparr>w_jobs := w_jobs w @ [queued_row w j], w_job_seq := w_job_seq w + 1,
     w_deployments := (case has_deployment j of None \<Rightarrow> w_deployments w
       | Some i \<Rightarrow> update_where (\<lambda>d. d_ID d = i) (\<lambda>d. d\<lparr>d_Status := DeploymentPending\<rparr>) (w_deployments w))\<rparr>"

lemma job_created:
  assumes nf: "no_faults w" and refs: "job_refs_ok w j"
  shows "\<exists>j' w1. JobService_Create (server_bus url) j w = (Inr j', w1) \<and> same_core (with_job j w) w1"
proof -
  let ?j = "j\<lparr>j_ID := w_job_seq w, j_QueuedAt := Some (w_now w)\<rparr>"
  let ?v = "w\<lparr>w_calls := Suc (w_calls w), w_job_seq := w_job_seq w + 1, w_jobs := w_jobs w @ [queued_row w j]\<rparr>"
  define ev where "ev = JobCreatedEv \<lparr>ejc_JobID = j_ID ?j, ejc_TraceID = j_TraceID ?j, ejc_ServerID = j_ServerID ?j,
    ejc_ApplicationID = j_ApplicationID ?j, ejc_DeploymentID = j_DeploymentID ?j, ejc_Type = j_Type ?j\<rparr>"
  let ?u = "snd (Publish (server_bus url) ''job_created'' ev ?v)"
  have "job_refs_ok (w\<lparr>w_calls := Suc (w_calls w)\<rparr>) j" using refs by (simp add: job_refs_ok_def)
  then have create: "JobRepo_Create j w = (Inr ?j, ?v)"
    using nf by (simp add: JobRepo_Create_def wrapE_def catchE_def db_exec_ok Let_def queued_row_def)
  have run: "JobService_Create (server_bus url) j w =
      (Inr ?j, snd (Publish (server_bus url) ''job_status_changed'' (job_status_event ?j) ?u))"
    unfolding JobService_Create_def by (subst bindE_Inr, rule create) (simp add: bind_Publish ev_def)
  have nv: "no_faults ?v" using nf by (simp add: no_faults_def)
  define h where "h = DeploymentListener_handleJobCreated (leaf_bus url) ev ?v"
  have u: "?u = WsJobCreated ev h" by (simp add: Publish_def server_handlers h_def)
  have "same_core (with_job j w) h"
  proof (cases "has_deployment j")
    case None
    then have "h = ?v"
      unfolding h_def ev_def DeploymentListener_handleJobCreated_def
      by (auto simp: has_deployment_def split: option.splits if_splits)
    then show ?thesis by (simp only:) (rule same_coreI; simp add: with_job_def None)
  next
    case (Some i)
    then have h: "h = snd (DeploymentService_UpdateStatus (leaf_bus url) i DeploymentPending ?v)"
      unfolding h_def ev_def DeploymentListener_handleJobCreated_def
      by (auto simp: has_deployment_def ignoreE_def split: option.splits if_splits)
    have "same_core (with_job j w) (?v\<lparr>w_deployments :=
        update_where (\<lambda>d. d_ID d = i) (\<lambda>d. d\<lparr>d_Status := DeploymentPending\<rparr>) (w_deployments ?v)\<rparr>)"
      by (rule same_coreI) (simp_all add: with_job_def Some)
    then show ?thesis unfolding h by (rule sc.trans) (rule pending_announced [OF nv])
  qed
  moreover have "same_core h ?u" unfolding u by (simp add: sc_only_ws only_ws_handlers)
  ultimately have "same_core (with_job j w) (snd (Publish (server_bus url) ''job_status_changed'' (job_status_event ?j) ?u))"
    by (rule sc.trans [OF sc.trans status_publish_same])
  with run show ?thesis by blast
qed

section \<open>Environments on their way to the agent\<close>

lemma snapshot_enc_env: "distinct (map fst m) \<Longrightarrow> map_of (snapshot_env (Some (enc_env m))) = map_of m"
  by (simp add: snapshot_env_def enc_env_def comp_def case_prod_beta' map_of_env_sets)
    (metis distinct_sort_keys map_of_eqI map_of_sort_keys set_rev distinct_rev rev_map)

lemma distinct_env_map: "distinct (map fst (env_map es))"
  by (simp add: env_map_def distinct_env_sets)

lemma update_where_last:
  "\<forall>x\<in>set xs. \<not> p x \<Longrightarrow> update_where p f (xs @ [y]) = xs @ [if p y then f y else y]"
  unfolding update_where_def by (simp add: map_idI)

lemma find_last: "\<forall>x\<in>set xs. \<not> p x \<Longrightarrow> p y \<Longrightarrow> find p (xs @ [y]) = Some y"
  by (induction xs) auto

lemma fresh_deployment: "store_ok w \<Longrightarrow> \<forall>d\<in>set (w_deployments w). d_ID d \<noteq> w_deployment_seq w"
  by (auto simp: store_defs)

lemma live_app_refs:
  assumes "store_ok w" and "find (\<lambda>a. a_ID a = i \<and> live_app a) (w_apps w) = Some a"
  shows "i \<in> a_ID ` set (w_apps w)" "a_ServerID a \<in> s_ID ` set (w_servers w)" "a_ID a = i"
  using assms(1) find_Some_set [OF assms(2)] by (auto simp: store_defs)

lemma app_of_row_simps [simp]:
  "a_ID (app_of_row a) = a_ID a" "a_ServerID (app_of_row a) = a_ServerID a" "a_Branch (app_of_row a) = a_Branch a"
  "a_RepoURL (app_of_row a) = a_RepoURL a" "a_RepoName (app_of_row a) = a_RepoName a" "a_Status (app_of_row a) = a_Status a"
  by (simp_all add: app_of_row_def Application.truncate_def)

section \<open>Properties\<close>

text \<open>
  C4. A deploy request for a live application, on a healthy database, adds one pending deployment
  and one queued deploy job for the application's server and nothing else; the deployment's
  snapshot and the payload the agent decodes both carry the application's decrypted environment.
\<close>

theorem Deploy_queues_release:
  assumes ok: "store_ok w" and nf: "no_faults w" and a: "find (\<lambda>a. a_ID a = i \<and> live_app a) (w_apps w) = Some a"
    and es: "decrypt_rows r (order_by env_key_asc (filter (\<lambda>e. e_ApplicationID e = i) (w_env w))) = Inr es"
    and u: "by \<in> u_ID ` set (w_users w)"
  shows "\<exists>dep w' d j p. AppService_Deploy r (server_bus url) i by w = (Inr dep, w') \<and>
    w_deployments w' = w_deployments w @ [d] \<and> w_jobs w' = w_jobs w @ [j] \<and> w_apps w' = w_apps w \<and>
    d_ID d = d_ID dep \<and> d_ApplicationID d = i \<and> d_Branch d = a_Branch a \<and> d_DeployedBy d = Some by \<and>
    d_Status d = DeploymentPending \<and> map_of (snapshot_env (d_EnvSnapshot d)) = map_of (env_map es) \<and>
    j_Status j = JobQueued \<and> j_Type j = JobTypeAppDeploy \<and> j_ServerID j = a_ServerID a \<and>
    j_ApplicationID j = Some i \<and> j_DeploymentID j = Some (d_ID d) \<and>
    unmarshal dec_AppDeployPayload (j_Payload j) = Inr p \<and> pd_ApplicationID p = i \<and>
    pd_DeploymentID p = d_ID d \<and> pd_RepoURL p = a_RepoURL a \<and> pd_Branch p = a_Branch a \<and>
    pd_AppKey p = GetAppKey (app_of_row a) \<and> map_of (pd_EnvVars p) = map_of (env_map es)"
proof -
  note refs = live_app_refs [OF ok a]
  let ?n = "w_deployment_seq w" and ?app = "app_of_row a" and ?env = "env_map es"
  let ?p = "\<lparr>pd_ApplicationID = i, pd_DeploymentID = ?n, pd_AppKey = GetAppKey ?app,
     pd_RepoURL = a_RepoURL a, pd_Branch = a_Branch a, pd_EnvVars = ?env\<rparr>"
  let ?row = "new_deployment ?n i (a_Branch a) by (w_now w)"
  obtain w1 where 1: "AppRepo_GetByID i w = (Inr ?app, w1)" "same_core w w1"
    using app_found [OF nf a] by blast
  note c1 = same_coreD [OF 1(2)]
  obtain w2 where 2: "AppRepo_ListEnvVars r i w1 = (Inr es, w2)" "same_core w1 w2"
    using env_listed [OF c1(10) [OF nf], of r i es] es by (auto simp: c1)
  note c2 = same_coreD [OF sc.trans [OF 1(2) 2(2)]]
  obtain dep w3 where 3: "DeploymentService_Create (server_bus url)
      \<lparr>dc_ApplicationID = i, dc_Branch = a_Branch a, dc_DeployedBy = Some by\<rparr> w2 = (Inr dep, w3)"
      "d_ID dep = ?n" "same_core (with_deployment i (a_Branch a) by w2) w3"
    using deployment_created [OF c2(10) [OF nf], of i "by" url "a_Branch a", unfolded c2, OF refs(1) u] by blast
  have n3: "no_faults w3" using same_coreD(10) [OF 3(3)] c2(10) [OF nf] by (simp add: with_deployment_def)
  have d3: "w_deployments w3 = w_deployments w @ [?row]"
    using same_coreD(2) [OF 3(3)] by (simp add: with_deployment_def c2)
  have f3: "find (\<lambda>d. d_ID d = ?n) (w_deployments w3) = Some ?row"
    unfolding d3 by (rule find_last) (use fresh_deployment [OF ok] in \<open>auto simp: new_deployment_def\<close>)
  obtain w4 where 4: "DeploymentService_UpdateEnvSnapshot ?n ?env w3 = (Inr (), w4)"
      "same_core (w3\<lparr>w_deployments := update_where (\<lambda>d. d_ID d = ?n) (snapshot_deployment w3 ?env) (w_deployments w3)\<rparr>) w4"
    using snapshot_taken [OF n3 f3] by blast
  note c4 = same_coreD [OF 4(2)]
  let ?d = "snapshot_deployment w3 ?env ?row"
  have d4: "w_deployments w4 = w_deployments w @ [?d]"
    using fresh_deployment [OF ok] by (simp add: c4 d3 update_where_last new_deployment_def)
  obtain tr w5 where 5: "uuid_New w4 = (Inr tr, w5)" "same_core w4 w5" using uuid_drawn by blast
  note c5 = same_coreD [OF 5(2)]
  let ?j = "new_job tr (a_ServerID a) i (Some ?n) JobTypeAppDeploy (enc_AppDeployPayload ?p)"
  have tabs: "w_apps w5 = w_apps w" "w_servers w5 = w_servers w" "w_jobs w5 = w_jobs w"
    using same_coreD [OF 3(3)] by (simp_all add: c5 c4 with_deployment_def c2)
  have "d_ID ?d = ?n" by (simp add: snapshot_deployment_def new_deployment_def)
  then have dn: "?n \<in> d_ID ` set (w_deployments w5)" by (simp add: c5 d4)
  have "job_refs_ok w5 ?j"
    using refs dn by (simp add: job_refs_ok_def new_job_def tabs)
  moreover have "no_faults w5" using c5(10) c4(10) n3 by simp
  ultimately obtain j' w6 where 6: "JobService_Create (server_bus url) ?j w5 = (Inr j', w6)" "same_core (with_job ?j w5) w6"
    using job_created by blast
  have hd: "has_deployment ?j = Some ?n" by (simp add: has_deployment_def new_job_def is_deployment_job_def)
  note c6 = same_coreD [OF 6(2)]
  have run: "AppService_Deploy r (server_bus url) i by w = (Inr dep, w6)"
    using 1 2 3 4 5 6 by (simp add: AppService_Deploy_def bindE_def wrapE_def catchE_def Let_def create_job_or_fail_def refs(3))
  have d6: "w_deployments w6 = w_deployments w @ [?d\<lparr>d_Status := DeploymentPending\<rparr>]"
    using fresh_deployment [OF ok]
    by (simp add: c6 with_job_def hd c5 d4 update_where_last snapshot_deployment_def new_deployment_def)
  have j6: "w_jobs w6 = w_jobs w @ [queued_row w5 ?j]" by (simp add: c6 with_job_def tabs)
  obtain m where m: "dec_AppDeployPayload (enc_AppDeployPayload ?p) = Inr (?p\<lparr>pd_EnvVars := m\<rparr>)" "map_of m = map_of ?env"
    using dec_enc_deploy [of ?p] distinct_env_map by auto
  show ?thesis
    by (rule exI [of _ dep], rule exI [of _ w6], rule exI [of _ "?d\<lparr>d_Status := DeploymentPending\<rparr>"],
        rule exI [of _ "queued_row w5 ?j"], rule exI [of _ "?p\<lparr>pd_EnvVars := m\<rparr>"])
      (simp add: run d6 j6 3(2) m unmarshal_def queued_row_def new_job_def snapshot_deployment_def new_deployment_def
        snapshot_enc_env [OF distinct_env_map] c6 with_job_def tabs)
qed

definition release_world :: world where
  "release_world = empty_world\<lparr>w_now := 20,
     w_servers := [Server.extend (Server0\<lparr>s_ID := 5\<rparr>) \<lparr>s_DeletedAt = None\<rparr>],
     w_users := [User.extend (User0\<lparr>u_ID := 1, u_RoleID := 1\<rparr>) \<lparr>u_DeletedAt = None\<rparr>], w_user_seq := 2,
     w_apps := [Application.extend (Application0\<lparr>a_ID := 4, a_ServerID := 5, a_RepoName := ''shop'',
       a_Branch := ''main'', a_Status := AppStatusRunning\<rparr>) \<lparr>a_DeletedAt = None\<rparr>], w_app_seq := 5,
     w_env := [EnvironmentVariable0\<lparr>e_ID := 1, e_ApplicationID := 4, e_Key := ''PORT'', e_Value := ''80''\<rparr>], w_env_seq := 2\<rparr>"

definition plain_repository :: ApplicationRepository where
  "plain_repository = \<lparr>encKey = [], aead = \<lparr>Seal = (\<lambda>_ _ _. []), Open = (\<lambda>_ _ _. None)\<rparr>\<rparr>"

lemma release_world_ok:
  "store_ok release_world" "no_faults release_world" "1 \<in> u_ID ` set (w_users release_world)"
  "find (\<lambda>a. a_ID a = 4 \<and> live_app a) (w_apps release_world) = Some (hd (w_apps release_world))"
  by (simp_all add: store_defs release_world_def empty_world_def no_faults_def Application.defs Server.defs
      User.defs User0_def Server0_def Application0_def EnvironmentVariable0_def live_app_def)

lemma release_world_env: "decrypt_rows plain_repository (order_by env_key_asc
    (filter (\<lambda>e. e_ApplicationID e = 4) (w_env release_world))) = Inr (w_env release_world)"
  by (simp add: release_world_def order_by_def decryptEnvValue_def plain_repository_def EnvironmentVariable0_def)

theorem Deploy_queues_release_witness:
  "\<exists>dep w' j. AppService_Deploy plain_repository (server_bus ''http://hook'') 4 1 release_world = (Inr dep, w') \<and>
    w_jobs w' = [j] \<and> j_ServerID j = 5 \<and> j_Type j = JobTypeAppDeploy"
proof -
  from Deploy_queues_release [OF release_world_ok(1,2,4) release_world_env release_world_ok(3), of "''http://hook''"]
  obtain dep w' j where "AppService_Deploy plain_repository (server_bus ''http://hook'') 4 1 release_world = (Inr dep, w')"
    "w_jobs w' = w_jobs release_world @ [j]" "j_Type j = JobTypeAppDeploy"
    "j_ServerID j = a_ServerID (hd (w_apps release_world))"
    by blast
  moreover have "w_jobs release_world = []" "a_ServerID (hd (w_apps release_world)) = 5"
    by (simp_all add: release_world_def empty_world_def Application.defs)
  ultimately show ?thesis by auto
qed

end
