(* ===== verification/Roles.thy ===== *)
theory Roles
  imports Users
begin

text \<open>
  Roles and permissions: the table of \<open>internal/application/role/service.go\<close> the server enforces
  and its copy in the database, written by \<open>internal/adapters/postgres/role_repo.go\<close>, which is
  what users are shown.
\<close>

section \<open>The enforced permissions\<close>

definition PermMetricsRead :: string where "PermMetricsRead = ''metrics_read''"
definition PermServerRead :: string where "PermServerRead = ''server_read''"
definition PermServerWrite :: string where "PermServerWrite = ''server_write''"
definition PermMemberRead :: string where "PermMemberRead = ''member_read''"
definition PermMemberWrite :: string where "PermMemberWrite = ''member_write''"
definition PermAppRead :: string where "PermAppRead = ''app_read''"
definition PermAppWrite :: string where "PermAppWrite = ''app_write''"
definition RoleAdmin :: string where "RoleAdmin = ''admin''"
definition RoleViewer :: string where "RoleViewer = ''viewer''"

lemmas perm_defs = PermMetricsRead_def PermServerRead_def PermServerWrite_def PermMemberRead_def
  PermMemberWrite_def PermAppRead_def PermAppWrite_def RoleAdmin_def RoleViewer_def

text \<open>A map of maps to \<open>true\<close>; a range over it visits the entries in an order Go leaves open.\<close>

definition roleHasPermissions :: "(string \<times> string list) list" where
  "roleHasPermissions =
    [(RoleAdmin, [PermMetricsRead, PermServerRead, PermServerWrite, PermMemberRead, PermMemberWrite,
        PermAppRead, PermAppWrite]),
     (RoleViewer, [PermMetricsRead, PermServerRead, PermMemberRead, PermAppRead])]"

definition HasPermission :: "UserContext option \<Rightarrow> string \<Rightarrow> error + unit" where
  "HasPermission uctx perm = (case uctx of
     None \<Rightarrow> Inl ErrUnauthorized
   | Some u \<Rightarrow> (case map_of roleHasPermissions (uc_Role u) of
       None \<Rightarrow> Inl ErrYouDontHavePermission
     | Some perms \<Rightarrow> if perm \<in> set perms then Inr () else Inl ErrYouDontHavePermission))"

section \<open>Writing them to the database\<close>

text \<open>
  \<open>INSERT ... ON CONFLICT (name) DO UPDATE SET name = EXCLUDED.name RETURNING id\<close>: the sequence
  advances in both cases.
\<close>

definition upsert_role :: "string \<Rightarrow> (world, int) op" where
  "upsert_role name = (\<lambda>w. let w' = w\<lparr>w_role_seq := w_role_seq w + 1\<rparr> in
     case find (\<lambda>r. ro_Name r = name) (w_roles w) of
       Some r \<Rightarrow> (Inr (ro_ID r), w')
     | None \<Rightarrow> (Inr (w_role_seq w), w'\<lparr>w_roles := w_roles w @ [\<lparr>ro_ID = w_role_seq w, ro_Name = name\<rparr>]\<rparr>))"

definition upsert_permission :: "string \<Rightarrow> (world, int) op" where
  "upsert_permission name = (\<lambda>w. let w' = w\<lparr>w_perm_seq := w_perm_seq w + 1\<rparr> in
     case find (\<lambda>p. p_Name p = name) (w_perms w) of
       Some p \<Rightarrow> (Inr (p_ID p), w')
     | None \<Rightarrow> (Inr (w_perm_seq w), w'\<lparr>w_perms := w_perms w @ [\<lparr>p_ID = w_perm_seq w, p_Name = name\<rparr>]\<rparr>))"

text \<open>One row per name, in turn: the name with the id it got.\<close>

fun upsert_all :: "(string \<Rightarrow> (world, int) op) \<Rightarrow> string \<Rightarrow> string list \<Rightarrow> (world, (string \<times> int) list) op" where
  "upsert_all f what [] = returnE []"
| "upsert_all f what (n # ns) =
     bindE (wrapE (''failed upsert '' @ what @ '' '' @ n) (db_exec (f n))) (\<lambda>i.
     bindE (upsert_all f what ns) (\<lambda>rest. returnE ((n, i) # rest)))"

text \<open>A missing name reads as 0, as a Go map does.\<close>

definition id_of :: "(string \<times> int) list \<Rightarrow> string \<Rightarrow> int" where
  "id_of ids n = (case map_of ids n of None \<Rightarrow> 0 | Some i \<Rightarrow> i)"

text \<open>An error rolls the three tables back; the sequences keep their values.\<close>

definition role_tx :: "(world, 'a) op \<Rightarrow> (world, 'a) op" where
  "role_tx m = (\<lambda>w. case m w of
     (Inl e, w') \<Rightarrow> (Inl e, w'\<lparr>w_roles := w_roles w, w_perms := w_perms w, w_role_perms := w_role_perms w\<rparr>)
   | (Inr x, w') \<Rightarrow> (Inr x, w'))"

definition RoleRepo_SyncPermissions :: "(string \<times> string list) list \<Rightarrow> (world, unit) op" where
  "RoleRepo_SyncPermissions data =
     bindE (db_exec (returnE ())) (\<lambda>_. role_tx (
     bindE (upsert_all upsert_role ''role'' (map fst data)) (\<lambda>roleNameToID.
     bindE (upsert_all upsert_permission ''permission'' (remdups (concat (map snd data)))) (\<lambda>permNameToID.
     bindE (wrapE ''failed to clear role_has_permissions'' (db_exec (modifyE (\<lambda>w. w\<lparr>w_role_perms := []\<rparr>)))) (\<lambda>_.
     bindE (wrapE ''failed to insert role_has_permissions batch'' (db_exec (modifyE (\<lambda>w. w\<lparr>w_role_perms :=
       w_role_perms w @ concat (map (\<lambda>(r, ps). map (\<lambda>p. (id_of roleNameToID r, id_of permNameToID p)) ps) data)\<rparr>)))) (\<lambda>_.
     db_exec (returnE ())))))))"

definition RoleService_SyncPermissions :: "(world, unit) op" where
  "RoleService_SyncPermissions = RoleRepo_SyncPermissions roleHasPermissions"

section \<open>Lemmas\<close>

definition names_unique :: "world \<Rightarrow> bool" where
  "names_unique w \<longleftrightarrow> distinct (map ro_Name (w_roles w)) \<and> distinct (map ro_ID (w_roles w)) \<and>
     (\<forall>r\<in>set (w_roles w). ro_ID r < w_role_seq w) \<and>
     distinct (map p_Name (w_perms w)) \<and> distinct (map p_ID (w_perms w)) \<and>
     (\<forall>p\<in>set (w_perms w). p_ID p < w_perm_seq w)"

lemma row_eta: "\<lparr>ro_ID = ro_ID x, ro_Name = ro_Name x\<rparr> = (x :: Role)" "\<lparr>p_ID = p_ID y, p_Name = p_Name y\<rparr> = (y :: Permission)"
  by simp_all

lemma upsert_role_spec:
  assumes "names_unique w" and "upsert_role n w = (r, w')"
  shows "\<exists>i. r = Inr i \<and> names_unique w' \<and> \<lparr>ro_ID = i, ro_Name = n\<rparr> \<in> set (w_roles w') \<and>
    set (w_roles w) \<subseteq> set (w_roles w') \<and> w_perms w' = w_perms w \<and> w_role_perms w' = w_role_perms w"
proof (cases "find (\<lambda>r. ro_Name r = n) (w_roles w)")
  case None
  then have "n \<notin> ro_Name ` set (w_roles w)" by (auto simp: find_None_set)
  moreover have "w_role_seq w \<notin> ro_ID ` set (w_roles w)" "\<forall>r\<in>set (w_roles w). ro_ID r < w_role_seq w + 1"
    using assms(1) by (auto simp: names_unique_def)
  ultimately show ?thesis using None assms by (auto simp: upsert_role_def Let_def names_unique_def)
next
  case (Some x)
  then have "x \<in> set (w_roles w)" "ro_Name x = n" by (auto dest: find_Some_set)
  moreover have "\<forall>r\<in>set (w_roles w). ro_ID r < w_role_seq w + 1"
    using assms(1) by (auto simp: names_unique_def)
  ultimately show ?thesis using Some assms
    by (auto simp: row_eta upsert_role_def Let_def names_unique_def)
qed

lemma upsert_permission_spec:
  assumes "names_unique w" and "upsert_permission n w = (r, w')"
  shows "\<exists>i. r = Inr i \<and> names_unique w' \<and> \<lparr>p_ID = i, p_Name = n\<rparr> \<in> set (w_perms w') \<and>
    set (w_perms w) \<subseteq> set (w_perms w') \<and> w_roles w' = w_roles w \<and> w_role_perms w' = w_role_perms w"
proof (cases "find (\<lambda>r. p_Name r = n) (w_perms w)")
  case None
  then have "n \<notin> p_Name ` set (w_perms w)" by (auto simp: find_None_set)
  moreover have "w_perm_seq w \<notin> p_ID ` set (w_perms w)" "\<forall>p\<in>set (w_perms w). p_ID p < w_perm_seq w + 1"
    using assms(1) by (auto simp: names_unique_def)
  ultimately show ?thesis using None assms by (auto simp: upsert_permission_def Let_def names_unique_def)
next
  case (Some x)
  then have "x \<in> set (w_perms w)" "p_Name x = n" by (auto dest: find_Some_set)
  moreover have "\<forall>p\<in>set (w_perms w). p_ID p < w_perm_seq w + 1"
    using assms(1) by (auto simp: names_unique_def)
  ultimately show ?thesis using Some assms
    by (auto simp: row_eta upsert_permission_def Let_def names_unique_def)
qed

lemma names_unique_calls: "names_unique (w\<lparr>w_calls := n\<rparr>) = names_unique w"
  by (simp add: names_unique_def)

lemma db_wrap_Inr: "wrapE msg (db_exec q) w = (Inr x, w') \<longleftrightarrow>
    \<not> w_fault w (w_calls w) \<and> q (w\<lparr>w_calls := Suc (w_calls w)\<rparr>) = (Inr x, w')"
  by (auto simp: wrapE_def catchE_def db_exec_def Let_def split: prod.split sum.split)

lemma db_Inr: "db_exec q w = (Inr x, w') \<longleftrightarrow>
    \<not> w_fault w (w_calls w) \<and> q (w\<lparr>w_calls := Suc (w_calls w)\<rparr>) = (Inr x, w')"
  by (auto simp: db_exec_def Let_def)

lemma role_tx_Inr: "role_tx m w = (Inr x, w') \<longleftrightarrow> m w = (Inr x, w')"
  by (auto simp: role_tx_def split: prod.splits sum.splits)

lemma upsert_roles:
  assumes "names_unique w" and "upsert_all upsert_role what ns w = (Inr ids, w')"
  shows "map fst ids = ns \<and> names_unique w' \<and> (\<forall>(n, i)\<in>set ids. \<lparr>ro_ID = i, ro_Name = n\<rparr> \<in> set (w_roles w')) \<and>
    set (w_roles w) \<subseteq> set (w_roles w') \<and> w_perms w' = w_perms w"
  using assms
proof (induction ns arbitrary: w ids)
  case (Cons n ns)
  from Cons.prems(2) obtain i u rest where
    1: "upsert_role n (w\<lparr>w_calls := Suc (w_calls w)\<rparr>) = (Inr i, u)"
    and 2: "upsert_all upsert_role what ns u = (Inr rest, w')" and 3: "ids = (n, i) # rest"
    by (auto simp: bindE_Inr_iff db_wrap_Inr)
  from upsert_role_spec [OF _ 1] Cons.prems(1) have u: "names_unique u"
    "\<lparr>ro_ID = i, ro_Name = n\<rparr> \<in> set (w_roles u)" "set (w_roles w) \<subseteq> set (w_roles u)" "w_perms u = w_perms w"
    by (auto simp: names_unique_calls)
  from Cons.IH [OF u(1) 2] u(2-4) show ?case by (auto simp: 3)
qed simp

lemma upsert_permissions:
  assumes "names_unique w" and "upsert_all upsert_permission what ns w = (Inr ids, w')"
  shows "map fst ids = ns \<and> names_unique w' \<and> (\<forall>(n, i)\<in>set ids. \<lparr>p_ID = i, p_Name = n\<rparr> \<in> set (w_perms w')) \<and>
    set (w_perms w) \<subseteq> set (w_perms w') \<and> w_roles w' = w_roles w"
  using assms
proof (induction ns arbitrary: w ids)
  case (Cons n ns)
  from Cons.prems(2) obtain i u rest where
    1: "upsert_permission n (w\<lparr>w_calls := Suc (w_calls w)\<rparr>) = (Inr i, u)"
    and 2: "upsert_all upsert_permission what ns u = (Inr rest, w')" and 3: "ids = (n, i) # rest"
    by (auto simp: bindE_Inr_iff db_wrap_Inr)
  from upsert_permission_spec [OF _ 1] Cons.prems(1) have u: "names_unique u"
    "\<lparr>p_ID = i, p_Name = n\<rparr> \<in> set (w_perms u)" "set (w_perms w) \<subseteq> set (w_perms u)" "w_roles u = w_roles w"
    by (auto simp: names_unique_calls)
  from Cons.IH [OF u(1) 2] u(2-4) show ?case by (auto simp: 3)
qed simp

lemma id_of_in: "map fst ids = ns \<Longrightarrow> n \<in> set ns \<Longrightarrow> (n, id_of ids n) \<in> set ids"
  by (auto simp: id_of_def map_of_eq_None_iff dest: map_of_SomeD split: option.split)

lemma unique_row:
  "distinct (map f xs) \<Longrightarrow> x \<in> set xs \<Longrightarrow> y \<in> set xs \<Longrightarrow> f x = f y \<Longrightarrow> x = y"
  by (metis find_distinct_key option.inject)

lemma SyncPermissions_pivot:
  assumes "names_unique w" and "RoleRepo_SyncPermissions data w = (Inr u, w')"
  shows "names_unique w' \<and> (\<exists>rids pids. map fst rids = map fst data \<and>
      map fst pids = remdups (concat (map snd data)) \<and>
      (\<forall>(n, i)\<in>set rids. \<lparr>ro_ID = i, ro_Name = n\<rparr> \<in> set (w_roles w')) \<and>
      (\<forall>(n, i)\<in>set pids. \<lparr>p_ID = i, p_Name = n\<rparr> \<in> set (w_perms w')) \<and>
      w_role_perms w' = concat (map (\<lambda>(r, ps). map (\<lambda>p. (id_of rids r, id_of pids p)) ps) data))"
proof -
  let ?w = "w\<lparr>w_calls := Suc (w_calls w)\<rparr>"
  from assms(2) obtain rids w1 pids w2 n where
    1: "upsert_all upsert_role ''role'' (map fst data) ?w = (Inr rids, w1)"
    and 2: "upsert_all upsert_permission ''permission'' (remdups (concat (map snd data))) w1 = (Inr pids, w2)"
    and 3: "w' = w2\<lparr>w_role_perms := concat (map (\<lambda>(r, ps). map (\<lambda>p. (id_of rids r, id_of pids p)) ps) data), w_calls := n\<rparr>"
    unfolding RoleRepo_SyncPermissions_def
    by (auto simp: bindE_Inr_iff db_wrap_Inr db_Inr role_tx_Inr)
  have u: "names_unique ?w" using assms(1) by (simp add: names_unique_calls)
  note a = upsert_roles [OF u 1]
  then have "names_unique w1" by simp
  note b = upsert_permissions [OF this 2]
  have "names_unique w' = names_unique w2" by (simp add: 3 names_unique_def)
  moreover have "w_roles w' = w_roles w2" "w_perms w' = w_perms w2" by (simp_all add: 3)
  ultimately show ?thesis using a b by (intro conjI exI [of _ rids] exI [of _ pids]) (simp_all add: 3)
qed

section \<open>Properties\<close>

text \<open>
  C12. Once the permissions are synchronised, the database says of every role exactly what the
  server enforces: a user of the role may use a permission if and only if it is among the
  permissions the role's rows give.
\<close>

theorem SyncPermissions_agrees:
  assumes ok: "names_unique w" and run: "RoleService_SyncPermissions w = (Inr u, w')"
    and r: "r \<in> set (w_roles w')" and ctx: "uc_Role ctx = ro_Name r"
  shows "HasPermission (Some ctx) perm = Inr () \<longleftrightarrow> perm \<in> p_Name ` set (role_permissions w' (ro_ID r))"
proof -
  let ?data = roleHasPermissions
  obtain rids pids where nu: "names_unique w'" and rf: "map fst rids = map fst ?data"
    and pf: "map fst pids = remdups (concat (map snd ?data))"
    and ri: "\<forall>(n, i)\<in>set rids. \<lparr>ro_ID = i, ro_Name = n\<rparr> \<in> set (w_roles w')"
    and pi: "\<forall>(n, i)\<in>set pids. \<lparr>p_ID = i, p_Name = n\<rparr> \<in> set (w_perms w')"
    and piv: "w_role_perms w' = concat (map (\<lambda>(r, ps). map (\<lambda>p. (id_of rids r, id_of pids p)) ps) ?data)"
    using SyncPermissions_pivot [OF ok run [unfolded RoleService_SyncPermissions_def]] by auto
  have role: "\<lparr>ro_ID = id_of rids n, ro_Name = n\<rparr> \<in> set (w_roles w')" if "(n, ps) \<in> set ?data" for n ps
    using id_of_in [OF rf, of n] that ri by force
  have prm: "\<lparr>p_ID = id_of pids n, p_Name = n\<rparr> \<in> set (w_perms w')" if "(m, ps) \<in> set ?data" "n \<in> set ps" for m n ps
    using id_of_in [OF pf, of n] that pi by force
  have "perm \<in> p_Name ` set (role_permissions w' (ro_ID r)) \<longleftrightarrow>
      (\<exists>ps. (ro_Name r, ps) \<in> set ?data \<and> perm \<in> set ps)"
  proof
    assume "perm \<in> p_Name ` set (role_permissions w' (ro_ID r))"
    then obtain p where p: "p \<in> set (w_perms w')" "p_Name p = perm" "(ro_ID r, p_ID p) \<in> set (w_role_perms w')"
      by (auto simp: role_permissions_def)
    then obtain n ps q where d: "(n, ps) \<in> set ?data" "q \<in> set ps" "id_of rids n = ro_ID r" "id_of pids q = p_ID p"
      unfolding piv by auto
    have "r = \<lparr>ro_ID = id_of rids n, ro_Name = n\<rparr>"
      by (rule unique_row [where f = ro_ID]) (use nu r role [OF d(1)] d(3) in \<open>auto simp: names_unique_def\<close>)
    moreover have "p = \<lparr>p_ID = id_of pids q, p_Name = q\<rparr>"
      by (rule unique_row [where f = p_ID]) (use nu p prm [OF d(1,2)] d(4) in \<open>auto simp: names_unique_def\<close>)
    ultimately have "n = ro_Name r" "q = perm" using p(2) by (metis Role.select_convs(2), metis Permission.select_convs(2))
    then show "\<exists>ps. (ro_Name r, ps) \<in> set ?data \<and> perm \<in> set ps" using d(1,2) by blast
  next
    assume "\<exists>ps. (ro_Name r, ps) \<in> set ?data \<and> perm \<in> set ps"
    then obtain ps where d: "(ro_Name r, ps) \<in> set ?data" "perm \<in> set ps" by blast
    have "r = \<lparr>ro_ID = id_of rids (ro_Name r), ro_Name = ro_Name r\<rparr>"
      by (rule unique_row [where f = ro_Name]) (use nu r role [OF d(1)] in \<open>auto simp: names_unique_def\<close>)
    then have "ro_ID r = id_of rids (ro_Name r)" by (metis Role.select_convs(1))
    then have "(ro_ID r, id_of pids perm) \<in> set (w_role_perms w')"
      unfolding piv using d by force
    with prm [OF d] show "perm \<in> p_Name ` set (role_permissions w' (ro_ID r))"
      by (force simp: role_permissions_def)
  qed
  moreover have "HasPermission (Some ctx) perm = Inr () \<longleftrightarrow> (\<exists>ps. (ro_Name r, ps) \<in> set ?data \<and> perm \<in> set ps)"
  proof -
    have "distinct (map fst ?data)" by (simp add: roleHasPermissions_def perm_defs)
    then have "(ro_Name r, ps) \<in> set ?data \<longleftrightarrow> map_of ?data (ro_Name r) = Some ps" for ps
      by (metis map_of_eq_Some_iff)
    then show ?thesis by (auto simp: HasPermission_def ctx split: option.split)
  qed
  ultimately show ?thesis by simp
qed

theorem SyncPermissions_agrees_witness:
  "\<exists>w'. RoleService_SyncPermissions empty_world = (Inr (), w') \<and>
    PermAppWrite \<notin> p_Name ` set (role_permissions w' 2)"
proof -
  let ?w = "snd (RoleService_SyncPermissions empty_world)"
  have ok: "names_unique empty_world" by (simp add: names_unique_def empty_world_def)
  have "fst (RoleService_SyncPermissions empty_world) = Inr () \<and> \<lparr>ro_ID = 2, ro_Name = ''viewer''\<rparr> \<in> set (w_roles ?w)"
    by code_simp
  then have run: "RoleService_SyncPermissions empty_world = (Inr (), ?w)"
    and r: "\<lparr>ro_ID = 2, ro_Name = ''viewer''\<rparr> \<in> set (w_roles ?w)" by (metis prod.collapse)+
  have "\<not> (HasPermission (Some \<lparr>uc_ID = 1, uc_Role = ''viewer'', uc_SessionID = []\<rparr>) PermAppWrite = Inr ())"
    by code_simp
  with SyncPermissions_agrees [OF ok run r, of "\<lparr>uc_ID = 1, uc_Role = ''viewer'', uc_SessionID = []\<rparr>" PermAppWrite] run
  show ?thesis by auto
qed

end
