(* ===== verification/Http.thy ===== *)
theory Http
  imports Sessions Roles Security
begin

text \<open>
  Requests, replies and what stands between them and the handlers: the query getters of
  \<open>internal/adapters/http/query.go\<close>, the JSON writer and decoder, the validator's messages, and
  the middlewares of \<open>internal/adapters/http/middleware\<close> with their chains.

  A handler maps a request and the state to a reply and the new state. A run that panics sends
  no reply: its status is 0.
\<close>

section \<open>Requests and replies\<close>

text \<open>
  A header, query or path value that is absent reads as the empty string. The body is the
  first JSON document in it. \<open>rq_User\<close> and \<open>rq_ServerID\<close> are the values middlewares put into
  the request's context.
\<close>

record Request =
  rq_Method :: string
  rq_Path :: "string list"
  rq_PathValue :: "string \<Rightarrow> string"
  rq_Query :: "string \<Rightarrow> string"
  rq_Header :: "string \<Rightarrow> string"
  rq_Cookie :: "string \<Rightarrow> string option"
  rq_Body :: "json option"
  rq_RemoteAddr :: string
  rq_User :: "UserContext option"
  rq_ServerID :: "uuid option"

record Cookie =
  ck_Name :: string
  ck_Value :: string
  ck_Expires :: gotime
  ck_HttpOnly :: bool

text \<open>What the handlers put into the field \<open>data\<close> of an answer.\<close>

datatype rdata =
    DJob Job
  | DJobs "Job list"
  | DJobCounts JobStatusCounts
  | DServers "Server list"
  | DServerRegistered Server string
  | DToken string
  | DUser User
  | DUsers "User list"
  | DApplication Application "EnvironmentVariable list option"
  | DApplications "Application list"
  | DDeployment Deployment
  | DDeployments "Deployment list"
  | DDiff DeploymentDiff
  | DLogs "Log list"
  | DAuditLogs "AuditLog list"
  | DWebhook bool string string
  | DTestPing int

record Response =
  rp_Message :: string
  rp_Data :: "rdata option"
  rp_Meta :: "Meta option"
  rp_Errors :: "(string \<times> string) list option"

definition Response0 :: Response where
  "Response0 = \<lparr>rp_Message = [], rp_Data = None, rp_Meta = None, rp_Errors = None\<rparr>"

datatype body = NoBody | PlainText string | JsonBody Response

record Reply =
  re_Status :: int
  re_Headers :: "(string \<times> string) list"
  re_Cookies :: "Cookie list"
  re_Body :: body

type_synonym http_handler = "Request \<Rightarrow> world \<Rightarrow> Reply \<times> world"
type_synonym middleware = "http_handler \<Rightarrow> http_handler"

text \<open>\<open>http.Error\<close>.\<close>

definition http_Error :: "string \<Rightarrow> int \<Rightarrow> Reply" where
  "http_Error msg code = \<lparr>re_Status = code, re_Headers = [(''Content-Type'', ''text/plain; charset=utf-8''),
     (''X-Content-Type-Options'', ''nosniff'')], re_Cookies = [], re_Body = PlainText msg\<rparr>"

definition JSONWriter_Write :: "int \<Rightarrow> Response \<Rightarrow> Reply" where
  "JSONWriter_Write status data = \<lparr>re_Status = status, re_Headers = [(''Content-Type'', ''application/json'')],
     re_Cookies = [], re_Body = JsonBody data\<rparr>"

definition say :: "int \<Rightarrow> string \<Rightarrow> Reply" where
  "say status msg = JSONWriter_Write status (Response0\<lparr>rp_Message := msg\<rparr>)"

definition give :: "int \<Rightarrow> string \<Rightarrow> rdata \<Rightarrow> Reply" where
  "give status msg d = JSONWriter_Write status (Response0\<lparr>rp_Message := msg, rp_Data := Some d\<rparr>)"

text \<open>The connection is closed without an answer.\<close>

definition aborted :: Reply where
  "aborted = \<lparr>re_Status = 0, re_Headers = [], re_Cookies = [], re_Body = NoBody\<rparr>"

fun is_panic :: "error \<Rightarrow> bool" where
  "is_panic (GoPanic m) = True"
| "is_panic (Wrapped m e) = is_panic e"
| "is_panic e = False"

text \<open>A service call, then an answer for the error, or the rest of the handler.\<close>

definition after :: "(world, 'a) op \<Rightarrow> (error \<Rightarrow> Reply) \<Rightarrow> ('a \<Rightarrow> world \<Rightarrow> Reply \<times> world) \<Rightarrow> world \<Rightarrow> Reply \<times> world" where
  "after m bad k w = (case m w of
     (Inl e, w') \<Rightarrow> (if is_panic e then aborted else bad e, w')
   | (Inr x, w') \<Rightarrow> k x w')"

definition answer :: "(world, 'a) op \<Rightarrow> (error \<Rightarrow> Reply) \<Rightarrow> ('a \<Rightarrow> Reply) \<Rightarrow> world \<Rightarrow> Reply \<times> world" where
  "answer m bad good = after m bad (\<lambda>x w. (good x, w))"

text \<open>The tests \<open>errors.Is\<close> of a handler, in order, and its last answer.\<close>

fun on_error :: "(error \<times> Reply) list \<Rightarrow> Reply \<Rightarrow> error \<Rightarrow> Reply" where
  "on_error [] otherwise e = otherwise"
| "on_error ((target, rep) # cases) otherwise e =
    (if errors_Is e target then rep else on_error cases otherwise e)"

definition give_list :: "('a list \<Rightarrow> rdata) \<Rightarrow> 'a ListResult \<Rightarrow> Reply" where
  "give_list f res = JSONWriter_Write 200 (Response0\<lparr>rp_Data := Some (f (Data res)), rp_Meta := ResMeta res\<rparr>)"

text \<open>
  \<open>err.Error()\<close>. The texts of the driver's errors are their own business; here they are fixed
  strings.
\<close>

fun error_text :: "error \<Rightarrow> string" where
  "error_text (ErrMsg m) = m"
| "error_text (GoPanic m) = m"
| "error_text (Wrapped m e) = m @ '': '' @ error_text e"
| "error_text ErrNoRows = ''no rows in result set''"
| "error_text ErrDB = ''database error''"
| "error_text ErrRedis = ''redis error''"
| "error_text ErrCrypto = ''crypto error''"
| "error_text ErrJobNotFound = ''job not found''"
| "error_text ErrDeploymentNotFound = ''deployment not found''"
| "error_text ErrApplicationNotFound = ''application not found''"
| "error_text ErrServerNotFound = ''server not found''"
| "error_text ErrUserNotFound = ''user not found''"
| "error_text ErrRoleNotFound = ''role not found''"
| "error_text ErrSettingNotFound = ''setting not found''"
| "error_text ErrMetricsNotFound = ''metrics not found''"
| "error_text ErrEmailAlreadyExists = ''email already exists''"
| "error_text ErrInvalidCredentials = ''invalid credentials''"
| "error_text ErrInvalidCurrentPassword = ''invalid current password''"
| "error_text ErrUnauthorized = ''unauthorized''"
| "error_text ErrYouDontHavePermission = ''you don't have permission''"

lemma after_state: "snd (after m bad k w) = (case m w of (Inl e, w') \<Rightarrow> w' | (Inr x, w') \<Rightarrow> snd (k x w'))"
  by (simp add: after_def split: prod.split sum.split)

context db_guarantee
begin

lemma g_after:
  assumes "guarantees R m" and "\<And>x w. R w (snd (k x w))"
  shows "R w (snd (after m bad k w))"
proof (cases "m w")
  case (Pair v w')
  with guaranteesD [OF assms(1)] have "R w w'" by blast
  with assms(2) trans Pair show ?thesis by (auto simp: after_state split: sum.split)
qed

lemma g_answer: "guarantees R m \<Longrightarrow> R w (snd (answer m bad good w))"
  unfolding answer_def by (rule g_after) (simp_all add: refl)

end

section \<open>Numbers in requests\<close>

definition is_digit :: "char \<Rightarrow> bool" where
  "is_digit c \<longleftrightarrow> 48 \<le> (of_char c :: nat) \<and> (of_char c :: nat) \<le> 57"

text \<open>\<open>strconv.ParseInt(s, 10, 64)\<close> and \<open>strconv.Atoi\<close>: an optional sign, digits, in range.\<close>

definition ParseInt :: "string \<Rightarrow> int option" where
  "ParseInt s =
    (let (neg, ds) = (case s of c # cs \<Rightarrow> if c = CHR ''-'' then (True, cs)
           else if c = CHR ''+'' then (False, cs) else (False, s) | [] \<Rightarrow> (False, []));
         n = int (read_nat ds); v = (if neg then - n else n)
     in if ds \<noteq> [] \<and> list_all is_digit ds \<and> - (2 ^ 63) \<le> v \<and> v < 2 ^ 63 then Some v else None)"

definition GetString :: "(string \<Rightarrow> string) \<Rightarrow> string \<Rightarrow> string \<Rightarrow> string" where
  "GetString q key def = (if q key \<noteq> [] then q key else def)"

definition GetInt :: "(string \<Rightarrow> string) \<Rightarrow> string \<Rightarrow> int \<Rightarrow> int" where
  "GetInt q key def = (if q key \<noteq> [] then (case ParseInt (q key) of Some n \<Rightarrow> n | None \<Rightarrow> def) else def)"

definition GetInt64 :: "(string \<Rightarrow> string) \<Rightarrow> string \<Rightarrow> int option" where
  "GetInt64 q key = (if q key \<noteq> [] then ParseInt (q key) else None)"

definition GetUUID :: "(string \<Rightarrow> uuid option) \<Rightarrow> (string \<Rightarrow> string) \<Rightarrow> string \<Rightarrow> uuid option" where
  "GetUUID uuid_Parse q key = (if q key \<noteq> [] then uuid_Parse (q key) else None)"

definition GetBool :: "(string \<Rightarrow> string) \<Rightarrow> string \<Rightarrow> bool" where
  "GetBool q key \<longleftrightarrow> q key = ''true''"

definition GetBoolPtr :: "(string \<Rightarrow> string) \<Rightarrow> string \<Rightarrow> bool option" where
  "GetBoolPtr q key = (if q key = [] then None else if q key = ''true'' then Some True
     else if q key = ''false'' then Some False else None)"

definition GetStringSlice :: "(string \<Rightarrow> string) \<Rightarrow> string \<Rightarrow> string list" where
  "GetStringSlice q key = filter (\<lambda>s. s \<noteq> []) (map trim_space (split_on (CHR '','') (q key)))"

definition page_options :: "(string \<Rightarrow> string) \<Rightarrow> string \<Rightarrow> int \<Rightarrow> ListOptions" where
  "page_options q limit_key limit = \<lparr>lo_Page = GetInt q ''page'' 1, lo_Limit = GetInt q limit_key limit,
     lo_Search = GetString q ''search'' [], lo_IsPaginate = GetBool q ''paginate''\<rparr>"

section \<open>Bodies\<close>

text \<open>
  \<open>JSONDecoder.Decode\<close> into a struct with the given member names: names match exactly or up to
  case, an unknown member, a missing document or a document of another kind is an error, and a
  null member leaves its field alone. Any error becomes \<open>ErrInvalidBody\<close>.
\<close>

definition ErrInvalidBody :: error where
  "ErrInvalidBody = ErrMsg ''invalid request body''"

definition resolve_field :: "string list \<Rightarrow> string \<Rightarrow> string option" where
  "resolve_field fs k = (if k \<in> set fs then Some k else find (\<lambda>f. to_lower f = to_lower k) fs)"

fun resolve_members :: "string list \<Rightarrow> (string \<times> json) list \<Rightarrow> (string \<times> json) list option" where
  "resolve_members fs [] = Some []"
| "resolve_members fs ((k, j) # kvs) = (case (resolve_field fs k, resolve_members fs kvs) of
     (Some f, Some rest) \<Rightarrow> Some (if j = JNull then rest else (f, j) # rest)
   | _ \<Rightarrow> None)"

definition object_members :: "string list \<Rightarrow> json \<Rightarrow> error + (string \<times> json) list" where
  "object_members fs j = (case j of
     JObj kvs \<Rightarrow> (case resolve_members fs kvs of None \<Rightarrow> Inl ErrInvalidBody | Some m \<Rightarrow> Inr m)
   | JNull \<Rightarrow> Inr []
   | _ \<Rightarrow> Inl ErrInvalidBody)"

definition Decode :: "(json \<Rightarrow> error + 'a) \<Rightarrow> Request \<Rightarrow> error + 'a" where
  "Decode dec r = (case rq_Body r of
     None \<Rightarrow> Inl ErrInvalidBody
   | Some j \<Rightarrow> (case dec j of Inl e \<Rightarrow> Inl ErrInvalidBody | Inr x \<Rightarrow> Inr x))"

section \<open>Validation\<close>

text \<open>
  \<open>go-playground/validator\<close> is a parameter: for a field of a struct, with its name, tags and
  value, the first tag that fails, with the tag's parameter. \<open>vf_Json\<close> is the member name \<open>resolveFieldName\<close>
  finds, the field's name in lower case for a field of a nested struct.
\<close>

datatype vvalue = VStr string | VInt int | VUuid uuid | VTime gotime

record vfield =
  vf_Field :: string
  vf_Json :: string
  vf_Tags :: string
  vf_Value :: vvalue

type_synonym struct_validator = "vfield list \<Rightarrow> vfield \<Rightarrow> (string \<times> string) option"

definition messageFor :: "string \<Rightarrow> string \<Rightarrow> string \<Rightarrow> string" where
  "messageFor tag param field =
    (if tag = ''required'' then field @ '' is required''
     else if tag = ''email'' then field @ '' must be a valid email address''
     else if tag = ''min'' then field @ '' must be at least '' @ param @ '' characters''
     else if tag = ''eqfield'' then field @ '' must match '' @ param
     else field @ '' is invalid'')"

definition Validate :: "struct_validator \<Rightarrow> vfield list \<Rightarrow> (string \<times> string) list" where
  "Validate v fs = foldl (\<lambda>m f. case v fs f of None \<Rightarrow> m
     | Some (tag, param) \<Rightarrow> AList.update (vf_Json f) (messageFor tag param (vf_Field f)) m) [] fs"

text \<open>The message names the first field in alphabetical order and counts the others.\<close>

definition validation_message :: "(string \<times> string) list \<Rightarrow> string" where
  "validation_message errs =
    (case order_by (\<lambda>a b. string_le (fst a) (fst b)) errs of
       [] \<Rightarrow> []
     | (k, m) # rest \<Rightarrow>
        (case length rest of
           0 \<Rightarrow> m
         | Suc 0 \<Rightarrow> m @ '' (and 1 more error)''
         | n \<Rightarrow> m @ '' (and '' @ show_nat n @ '' more errors)''))"

definition WriteValidationError :: "(string \<times> string) list \<Rightarrow> Reply" where
  "WriteValidationError errs = JSONWriter_Write 422
     (Response0\<lparr>rp_Message := validation_message errs, rp_Errors := Some errs\<rparr>)"

text \<open>Decode, validate, go on.\<close>

definition decoded :: "(json \<Rightarrow> error + 'a) \<Rightarrow> Request \<Rightarrow> ('a \<Rightarrow> world \<Rightarrow> Reply \<times> world) \<Rightarrow> world \<Rightarrow> Reply \<times> world" where
  "decoded dec r k w = (case Decode dec r of Inl e \<Rightarrow> (say 400 (error_text e), w) | Inr req \<Rightarrow> k req w)"

definition validated :: "struct_validator \<Rightarrow> vfield list \<Rightarrow> (world \<Rightarrow> Reply \<times> world) \<Rightarrow> world \<Rightarrow> Reply \<times> world" where
  "validated v fs k w = (let errs = Validate v fs in
     if errs \<noteq> [] then (WriteValidationError errs, w) else k w)"

definition with_id :: "Request \<Rightarrow> string \<Rightarrow> Reply \<Rightarrow> (int \<Rightarrow> world \<Rightarrow> Reply \<times> world) \<Rightarrow> world \<Rightarrow> Reply \<times> world" where
  "with_id r name bad k w = (case ParseInt (rq_PathValue r name) of None \<Rightarrow> (bad, w) | Some i \<Rightarrow> k i w)"

section \<open>Middlewares\<close>

record Config =
  cf_AllowedOrigins :: "string list"
  cf_JWTSecret :: string
  cf_JWTExpiry :: int
  cf_TrustProxy :: bool

definition add_headers :: "(string \<times> string) list \<Rightarrow> Reply \<times> world \<Rightarrow> Reply \<times> world" where
  "add_headers hs p = ((fst p)\<lparr>re_Headers := hs @ re_Headers (fst p)\<rparr>, snd p)"

definition CORS :: "Config \<Rightarrow> middleware" where
  "CORS cfg next r w =
    (let origin = rq_Header r ''Origin'';
         hs = (if origin \<in> set (cf_AllowedOrigins cfg)
           then [(''Access-Control-Allow-Origin'', origin), (''Vary'', ''Origin''),
             (''Access-Control-Allow-Credentials'', ''true''),
             (''Access-Control-Allow-Methods'', ''GET, POST, PUT, DELETE, OPTIONS''),
             (''Access-Control-Allow-Headers'', ''Content-Type, Authorization'')]
           else [])
     in if rq_Method r = ''OPTIONS''
        then (\<lparr>re_Status = 200, re_Headers = hs, re_Cookies = [], re_Body = NoBody\<rparr>, w)
        else add_headers hs (next r w))"

definition JWT_mw :: "JWT \<Rightarrow> Config \<Rightarrow> middleware" where
  "JWT_mw jwt cfg next r w = (case rq_Cookie r ''horizonx_access_token'' of
     None \<Rightarrow> (http_Error ''Unauthorized: No token found'' 401, w)
   | Some cookie \<Rightarrow>
    (case ValidateToken jwt cookie (cf_JWTSecret cfg) w of
       (Inl e, w1) \<Rightarrow> (http_Error ''Unauthorized: Invalid token'' 401, w1)
     | (Inr claims, w1) \<Rightarrow>
       (let go = (\<lambda>w2. next (r\<lparr>rq_User := Some \<lparr>uc_ID = ac_UserID claims, uc_Role = ac_Role claims,
              uc_SessionID = ac_SessionID claims\<rparr>\<rparr>) w2)
        in if ac_SessionID claims = [] then go w1
           else (case SessionStore_Get (ac_SessionID claims) w1 of
              (Inr (Some sess), w2) \<Rightarrow>
                if se_UserID sess \<noteq> ac_UserID claims then (http_Error ''Unauthorized: Session mismatch'' 401, w2)
                else go w2
            | (_, w2) \<Rightarrow> (http_Error ''Unauthorized: Session revoked'' 401, w2)))))"

text \<open>\<open>base64.URLEncoding\<close>; a failed read leaves the buffer zero.\<close>

definition base64_URLEncode :: "string \<Rightarrow> string" where
  "base64_URLEncode s = map (\<lambda>c. if c = CHR ''+'' then CHR ''-'' else if c = CHR ''/'' then CHR ''_'' else c)
     (base64_Encode s)"

definition generateRandomString :: "nat \<Rightarrow> world \<Rightarrow> string \<times> world" where
  "generateRandomString n w = (case rand_Read n w of
     (Inl e, w') \<Rightarrow> (base64_URLEncode (replicate n (CHR 0x00)), w')
   | (Inr b, w') \<Rightarrow> (base64_URLEncode b, w'))"

definition safe_methods :: "string list" where
  "safe_methods = [''GET'', ''HEAD'', ''OPTIONS'']"

definition CSRF :: "Config \<Rightarrow> middleware" where
  "CSRF cfg next r w =
    (if rq_Method r \<in> set safe_methods then
       (if rq_Cookie r ''horizonx_csrf_token'' = None then
          (let (token, w1) = generateRandomString 32 w;
               (rep, w2) = next r w1
           in (rep\<lparr>re_Cookies := \<lparr>ck_Name = ''horizonx_csrf_token'', ck_Value = token,
                 ck_Expires = w_now w + cf_JWTExpiry cfg, ck_HttpOnly = False\<rparr> # re_Cookies rep\<rparr>, w2))
        else next r w)
     else (case rq_Cookie r ''horizonx_csrf_token'' of
         None \<Rightarrow> (http_Error ''Missing CSRF cookie'' 403, w)
       | Some cookie \<Rightarrow>
           if rq_Header r ''X-CSRF-Token'' = [] then (http_Error ''Missing CSRF token header'' 403, w)
           else if cookie \<noteq> rq_Header r ''X-CSRF-Token'' then (http_Error ''Invalid CSRF token'' 403, w)
           else next r w))"

definition Permission_mw :: "string \<Rightarrow> middleware" where
  "Permission_mw perm next r w = (case HasPermission (rq_User r) perm of
     Inl e \<Rightarrow> (say 403 ''you don't have permission'', w)
   | Inr _ \<Rightarrow> next r w)"

definition Agent :: "Bcrypt \<Rightarrow> (string \<Rightarrow> uuid option) \<Rightarrow> middleware" where
  "Agent bc uuid_Parse next r w =
    (let auth = rq_Header r ''Authorization'' in
     if auth = [] then (http_Error ''missing authorization header'' 401, w)
     else (case split2 (CHR '' '') auth of
         (scheme, Some token) \<Rightarrow>
           if scheme \<noteq> ''Bearer'' then (http_Error ''unauthorized'' 401, w)
           else (case ValidateAgentCredentials uuid_Parse token of
               Inl err \<Rightarrow> (http_Error (error_text err) 401, w)
             | Inr (serverID, secret) \<Rightarrow>
                (case ServerService_AuthorizeAgent bc serverID secret w of
                   (Inl err, w') \<Rightarrow> (http_Error ''invalid credentials'' 401, w')
                 | (Inr server, w') \<Rightarrow> next (r\<lparr>rq_ServerID := Some (s_ID server)\<rparr>) w'))
       | _ \<Rightarrow> (http_Error ''unauthorized'' 401, w)))"

section \<open>Chains\<close>

type_synonym Chain = "middleware list"

definition Chain_New :: Chain where
  "Chain_New = []"

definition Chain_Use :: "Chain \<Rightarrow> middleware \<Rightarrow> Chain" where
  "Chain_Use c mw = c @ [mw]"

definition Chain_Extend :: "Chain \<Rightarrow> middleware \<Rightarrow> Chain" where
  "Chain_Extend c mw = c @ [mw]"

definition Chain_Then :: "Chain \<Rightarrow> http_handler \<Rightarrow> http_handler" where
  "Chain_Then c h = foldr (\<lambda>mw h. mw h) c h"

definition userStack :: "JWT \<Rightarrow> Config \<Rightarrow> Chain" where
  "userStack jwt cfg = Chain_Use (Chain_Use Chain_New (JWT_mw jwt cfg)) (CSRF cfg)"

definition agentStack :: "Bcrypt \<Rightarrow> (string \<Rightarrow> uuid option) \<Rightarrow> Chain" where
  "agentStack bc uuid_Parse = Chain_Use Chain_New (Agent bc uuid_Parse)"

lemma Chain_Then_Use: "Chain_Then (Chain_Use c mw) h = Chain_Then c (mw h)"
  by (simp add: Chain_Then_def Chain_Use_def)

lemma Chain_Then_Extend: "Chain_Then (Chain_Extend c mw) h = Chain_Then c (mw h)"
  by (simp add: Chain_Then_def Chain_Extend_def)

lemma Chain_Then_New: "Chain_Then Chain_New h = h"
  by (simp add: Chain_Then_def Chain_New_def)

lemma userStack_then: "Chain_Then (userStack jwt cfg) h = JWT_mw jwt cfg (CSRF cfg h)"
  by (simp add: userStack_def Chain_Then_Use Chain_Then_New)

section \<open>What the stacks let through\<close>

text \<open>The same state, but for the statement counter and the sources of randomness.\<close>

definition aside :: "world \<Rightarrow> world \<Rightarrow> bool" where
  "aside w w' \<longleftrightarrow> (\<exists>c u n. w' = w\<lparr>w_calls := c, w_uuids := u, w_rands := n\<rparr>)"

lemma asideI: "w' = w\<lparr>w_calls := c, w_uuids := u, w_rands := n\<rparr> \<Longrightarrow> aside w w'"
  unfolding aside_def by blast

lemma aside_refl: "aside w w"
  by (rule asideI [where c = "w_calls w" and u = "w_uuids w" and n = "w_rands w"]) simp

lemma aside_trans: "aside w w1 \<Longrightarrow> aside w1 w2 \<Longrightarrow> aside w w2"
  unfolding aside_def
  by (elim exE, rule exI [of _ "w_calls w2"], rule exI [of _ "w_uuids w2"], rule exI [of _ "w_rands w2"]) simp

lemma aside_step: "aside w (w\<lparr>w_calls := n\<rparr>)" "aside w (w\<lparr>w_uuids := n\<rparr>)" "aside w (w\<lparr>w_rands := n\<rparr>)"
  by (rule asideI [where c = n and u = "w_uuids w" and n = "w_rands w"], simp,
      rule asideI [where c = "w_calls w" and u = n and n = "w_rands w"], simp,
      rule asideI [where c = "w_calls w" and u = "w_uuids w" and n = n], simp)

interpretation ag: db_guarantee aside
  by unfold_locales (simp_all add: aside_refl aside_step, rule aside_trans)

lemma aside_calls: "aside w w' \<Longrightarrow> aside w (w'\<lparr>w_calls := c\<rparr>)"
  by (rule aside_trans [OF _ aside_step(1)])

lemma aside_rands: "aside w w' \<Longrightarrow> aside w (w'\<lparr>w_rands := n\<rparr>)"
  by (rule aside_trans [OF _ aside_step(3)])

text \<open>
  Who the request's token and session make the caller: the token parses under the server's
  secret, and when it names a session, that session is live and belongs to the token's user.
\<close>

definition authenticated :: "JWT \<Rightarrow> Config \<Rightarrow> Request \<Rightarrow> world \<Rightarrow> UserContext \<Rightarrow> bool" where
  "authenticated jwt cfg r w u \<longleftrightarrow> (\<exists>token claims. rq_Cookie r ''horizonx_access_token'' = Some token \<and>
     ParseWithClaims jwt (cf_JWTSecret cfg) token (w_now w) = Some claims \<and>
     u = \<lparr>uc_ID = ac_UserID claims, uc_Role = ac_Role claims, uc_SessionID = ac_SessionID claims\<rparr> \<and>
     (uc_SessionID u = [] \<or> (\<exists>s. live_session w (uc_SessionID u) = Some s \<and> se_UserID s = uc_ID u)))"

definition csrf_ok :: "Request \<Rightarrow> bool" where
  "csrf_ok r \<longleftrightarrow> rq_Method r \<in> set safe_methods \<or>
     (\<exists>token. rq_Cookie r ''horizonx_csrf_token'' = Some token \<and> rq_Header r ''X-CSRF-Token'' = token \<and> token \<noteq> [])"

text \<open>A middleware that answers itself, or hands a request on from a state it did not change.\<close>

definition let_through :: "(Request \<Rightarrow> bool) \<Rightarrow> http_handler \<Rightarrow> world \<Rightarrow> Reply \<times> world \<Rightarrow> bool" where
  "let_through P next w p \<longleftrightarrow> (re_Status (fst p) \<in> {401, 403} \<and> aside w (snd p)) \<or>
     (\<exists>r1 w1. P r1 \<and> aside w w1 \<and> snd p = snd (next r1 w1) \<and> re_Status (fst p) = re_Status (fst (next r1 w1)))"

lemma refused: "re_Status rep \<in> {401, 403} \<Longrightarrow> aside w w' \<Longrightarrow> let_through P next w (rep, w')"
  by (simp add: let_through_def)

lemma handed_on: "P r1 \<Longrightarrow> aside w w1 \<Longrightarrow> let_through P next w (next r1 w1)"
  unfolding let_through_def by blast

lemma let_through_mono: "let_through P next w p \<Longrightarrow> (\<And>r1. P r1 \<Longrightarrow> Q r1) \<Longrightarrow> let_through Q next w p"
  unfolding let_through_def by blast

lemma ValidateToken_result:
  "ValidateToken jwt token secret w = (case ParseWithClaims jwt secret token (w_now w) of
     None \<Rightarrow> (Inl (ErrMsg ''invalid token''), w) | Some claims \<Rightarrow> (Inr claims, w))"
  by (simp add: ValidateToken_def bindE_def time_Now_def split: option.split)

lemma SessionStore_Get_cases:
  obtains "SessionStore_Get sid w = (Inl ErrRedis, w\<lparr>w_calls := Suc (w_calls w)\<rparr>)"
  | "SessionStore_Get sid w = (Inr (live_session w sid), w\<lparr>w_calls := Suc (w_calls w)\<rparr>)"
  using SessionStore_Get_result [of sid w] by blast

lemma JWT_gate:
  "let_through (\<lambda>r1. \<exists>u. authenticated jwt cfg r w u \<and> r1 = r\<lparr>rq_User := Some u\<rparr>) next w (JWT_mw jwt cfg next r w)"
proof (cases "rq_Cookie r ''horizonx_access_token''")
  case None
  then show ?thesis by (simp add: JWT_mw_def http_Error_def aside_refl refused)
next
  case tok: (Some token)
  show ?thesis
  proof (cases "ParseWithClaims jwt (cf_JWTSecret cfg) token (w_now w)")
    case None
    with tok show ?thesis by (simp add: JWT_mw_def ValidateToken_result http_Error_def aside_refl refused)
  next
    case claims: (Some claims)
    let ?u = "\<lparr>uc_ID = ac_UserID claims, uc_Role = ac_Role claims, uc_SessionID = ac_SessionID claims\<rparr>"
    note step = JWT_mw_def tok ValidateToken_result claims
    have a: "aside w (w\<lparr>w_calls := Suc (w_calls w)\<rparr>)" by (rule aside_calls [OF aside_refl])
    show ?thesis
    proof (cases "ac_SessionID claims = []")
      case True
      then have "authenticated jwt cfg r w ?u" using tok claims by (simp add: authenticated_def)
      then have "let_through (\<lambda>r1. \<exists>u. authenticated jwt cfg r w u \<and> r1 = r\<lparr>rq_User := Some u\<rparr>) next w
          (next (r\<lparr>rq_User := Some ?u\<rparr>) w)"
        by (intro handed_on exI [of _ ?u] conjI refl aside_refl)
      with True show ?thesis by (simp add: step)
    next
      case False
      show ?thesis
      proof (rule SessionStore_Get_cases [of "ac_SessionID claims" w])
        assume "SessionStore_Get (ac_SessionID claims) w = (Inl ErrRedis, w\<lparr>w_calls := Suc (w_calls w)\<rparr>)"
        with a False show ?thesis by (simp add: step http_Error_def refused)
      next
        assume g: "SessionStore_Get (ac_SessionID claims) w =
          (Inr (live_session w (ac_SessionID claims)), w\<lparr>w_calls := Suc (w_calls w)\<rparr>)"
        show ?thesis
        proof (cases "\<exists>s. live_session w (ac_SessionID claims) = Some s \<and> se_UserID s = ac_UserID claims")
          case True
          then have "authenticated jwt cfg r w ?u" using tok claims by (simp add: authenticated_def)
          then have "let_through (\<lambda>r1. \<exists>u. authenticated jwt cfg r w u \<and> r1 = r\<lparr>rq_User := Some u\<rparr>) next w
              (next (r\<lparr>rq_User := Some ?u\<rparr>) (w\<lparr>w_calls := Suc (w_calls w)\<rparr>))"
            by (intro handed_on exI [of _ ?u] conjI refl a)
          with True g False show ?thesis by (auto simp: step)
        next
          case mis: False
          with g a False show ?thesis by (simp add: step http_Error_def refused split: option.split)
        qed
      qed
    qed
  qed
qed

lemma rand_Read_aside: "aside w (snd (rand_Read n w))"
  by (simp add: rand_Read_def Let_def aside_rands aside_refl)

lemma generateRandomString_aside: "aside w (snd (generateRandomString n w))"
  using rand_Read_aside [of w n] by (auto simp: generateRandomString_def split: prod.split sum.split)

lemma CSRF_gate: "let_through (\<lambda>r1. r1 = r \<and> csrf_ok r) next w (CSRF cfg next r w)"
proof (cases "rq_Method r \<in> set safe_methods")
  case True
  then have ok: "csrf_ok r" by (simp add: csrf_ok_def)
  show ?thesis
  proof (cases "rq_Cookie r ''horizonx_csrf_token'' = None")
    case none: True
    have "aside w (snd (generateRandomString 32 w))" by (rule generateRandomString_aside)
    with ok True none show ?thesis by (auto simp: CSRF_def let_through_def split: prod.split)
  next
    case False
    then obtain c where "rq_Cookie r ''horizonx_csrf_token'' = Some c" by auto
    with ok True show ?thesis by (simp add: CSRF_def handed_on aside_refl)
  qed
next
  case False
  show ?thesis
  proof (cases "\<exists>c. rq_Cookie r ''horizonx_csrf_token'' = Some c \<and> rq_Header r ''X-CSRF-Token'' = c \<and> c \<noteq> []")
    case True
    then have "csrf_ok r" by (simp add: csrf_ok_def)
    with True False show ?thesis by (auto simp: CSRF_def intro!: handed_on aside_refl)
  next
    case bad: False
    with False show ?thesis by (auto simp: CSRF_def http_Error_def aside_refl refused split: option.split)
  qed
qed

lemma Permission_gate:
  "let_through (\<lambda>r1. r1 = r \<and> HasPermission (rq_User r) p = Inr ()) next w (Permission_mw p next r w)"
proof (cases "HasPermission (rq_User r) p")
  case (Inl e)
  then show ?thesis by (simp add: Permission_mw_def say_def JSONWriter_Write_def aside_refl refused)
next
  case (Inr x)
  then show ?thesis by (cases x) (simp add: Permission_mw_def handed_on aside_refl)
qed

lemma gates_compose:
  assumes "let_through P next w p" and "\<And>r1 w1. P r1 \<Longrightarrow> let_through (Q r1) next' w1 (next r1 w1)"
  shows "let_through (\<lambda>r2. \<exists>r1. P r1 \<and> Q r1 r2) next' w p"
proof (cases "re_Status (fst p) \<in> {401, 403} \<and> aside w (snd p)")
  case True
  then show ?thesis by (simp add: let_through_def)
next
  case False
  with assms(1) obtain r1 w1 where 1: "P r1" "aside w w1" "snd p = snd (next r1 w1)"
    "re_Status (fst p) = re_Status (fst (next r1 w1))" unfolding let_through_def by blast
  from assms(2) [OF 1(1), of w1] consider
      "re_Status (fst (next r1 w1)) \<in> {401, 403}" "aside w1 (snd (next r1 w1))"
    | r2 w2 where "Q r1 r2" "aside w1 w2" "snd (next r1 w1) = snd (next' r2 w2)"
        "re_Status (fst (next r1 w1)) = re_Status (fst (next' r2 w2))"
    unfolding let_through_def by blast
  then show ?thesis
  proof cases
    case 1
    with \<open>aside w w1\<close> \<open>snd p = _\<close> \<open>re_Status (fst p) = _\<close> show ?thesis
      by (simp add: let_through_def aside_trans [of w w1])
  next
    case (2 r2 w2)
    with 1 show ?thesis unfolding let_through_def
      by (intro disjI2 exI [of _ r2] exI [of _ w2] conjI exI [of _ r1] aside_trans [of w w1 w2]) simp_all
  qed
qed

lemma userStack_gate:
  "let_through (\<lambda>r1. \<exists>u. authenticated jwt cfg r w u \<and> csrf_ok r \<and> r1 = r\<lparr>rq_User := Some u\<rparr>) next w
     (Chain_Then (userStack jwt cfg) next r w)"
proof -
  have "let_through (\<lambda>r2. \<exists>r1. (\<exists>u. authenticated jwt cfg r w u \<and> r1 = r\<lparr>rq_User := Some u\<rparr>) \<and>
      r2 = r1 \<and> csrf_ok r1) next w (JWT_mw jwt cfg (CSRF cfg next) r w)"
    by (rule gates_compose [OF JWT_gate]) (rule CSRF_gate)
  moreover have "csrf_ok (r\<lparr>rq_User := u\<rparr>) = csrf_ok r" for u by (simp add: csrf_ok_def)
  ultimately show ?thesis unfolding userStack_then let_through_def by auto
qed

lemma guarded_gate:
  "let_through (\<lambda>r1. \<exists>u. authenticated jwt cfg r w u \<and> csrf_ok r \<and> HasPermission (Some u) p = Inr () \<and>
     r1 = r\<lparr>rq_User := Some u\<rparr>) next w (Chain_Then (Chain_Extend (userStack jwt cfg) (Permission_mw p)) next r w)"
proof -
  have "let_through (\<lambda>r2. \<exists>r1. (\<exists>u. authenticated jwt cfg r w u \<and> csrf_ok r \<and> r1 = r\<lparr>rq_User := Some u\<rparr>) \<and>
      r2 = r1 \<and> HasPermission (rq_User r1) p = Inr ()) next w
      (Chain_Then (userStack jwt cfg) (Permission_mw p next) r w)"
    by (rule gates_compose [OF userStack_gate]) (rule Permission_gate)
  then show ?thesis unfolding Chain_Then_Extend by (rule let_through_mono) auto
qed

text \<open>
  C10. A route that needs a permission changes nothing and answers 401 or 403, unless the request
  carries a token signed with the server's secret whose session is live and belongs to the
  token's user, an unsafe method carries the same CSRF token in cookie and header, and the user's
  role has the permission; only then does its handler run, for that user.
\<close>

theorem guarded_route:
  "case Chain_Then (Chain_Extend (userStack jwt cfg) (Permission_mw p)) next r w of (rep, w') \<Rightarrow>
     (re_Status rep \<in> {401, 403} \<and> aside w w') \<or>
     (\<exists>u w1. authenticated jwt cfg r w u \<and> csrf_ok r \<and> HasPermission (Some u) p = Inr () \<and> aside w w1 \<and>
        w' = snd (next (r\<lparr>rq_User := Some u\<rparr>) w1) \<and>
        re_Status rep = re_Status (fst (next (r\<lparr>rq_User := Some u\<rparr>) w1)))"
  using guarded_gate [of jwt cfg r w p "next"] unfolding let_through_def by (auto simp: case_prod_beta)

end
