(* ===== verification/Requests.thy ===== *)
theory Requests
  imports Http AuditWebhook
begin

text \<open>
  The bodies of requests: what the decoder reads into each request struct of \<open>internal/domain\<close>,
  and the struct's fields with their \<open>validate\<close> tags.
\<close>

section \<open>Reading members\<close>

definition andThen :: "error + 'a \<Rightarrow> ('a \<Rightarrow> error + 'b) \<Rightarrow> error + 'b" where
  "andThen m f = (case m of Inl e \<Rightarrow> Inl e | Inr x \<Rightarrow> f x)"

definition dec_struct :: "string list \<Rightarrow> ((string \<times> json) list \<Rightarrow> error + 'a) \<Rightarrow> json \<Rightarrow> error + 'a" where
  "dec_struct fs f j = andThen (object_members fs j) f"

definition str_member :: "string \<Rightarrow> (string \<times> json) list \<Rightarrow> error + string" where
  "str_member k kvs = dec_str (json_get k kvs)"

text \<open>A number has to fit the field.\<close>

definition dec_int64 :: "json \<Rightarrow> error + int" where
  "dec_int64 j = andThen (dec_int j) (\<lambda>n. if - (2 ^ 63) \<le> n \<and> n < 2 ^ 63 then Inr n else Inl bad_json)"

definition int_member :: "string \<Rightarrow> (string \<times> json) list \<Rightarrow> error + int" where
  "int_member k kvs = dec_int64 (json_get k kvs)"

text \<open>A pointer field: null is nil.\<close>

definition dec_ptr :: "(json \<Rightarrow> error + 'a) \<Rightarrow> json \<Rightarrow> error + 'a option" where
  "dec_ptr dec j = (if j = JNull then Inr None else andThen (dec j) (\<lambda>x. Inr (Some x)))"

definition dec_slice :: "(json \<Rightarrow> error + 'a) \<Rightarrow> json \<Rightarrow> error + 'a list" where
  "dec_slice dec = dec_array (dec_list dec) array_items"

text \<open>\<open>time.Time\<close>: the RFC 3339 parser of the library is a parameter.\<close>

definition dec_time :: "(string \<Rightarrow> gotime option) \<Rightarrow> json \<Rightarrow> error + gotime" where
  "dec_time time_Parse j = (if j = JNull then Inr 0 else andThen (dec_str j)
     (\<lambda>s. case time_Parse s of None \<Rightarrow> Inl bad_json | Some t \<Rightarrow> Inr t))"

section \<open>The request structs\<close>

definition dec_EnvironmentVariableRequest :: "json \<Rightarrow> error + EnvironmentVariableRequest" where
  "dec_EnvironmentVariableRequest = dec_struct [''key'', ''value'', ''is_preview''] (\<lambda>m.
     andThen (str_member ''key'' m) (\<lambda>k.
     andThen (str_member ''value'' m) (\<lambda>v.
     andThen (dec_bool (json_get ''is_preview'' m)) (\<lambda>p.
     Inr \<lparr>er_Key = k, er_Value = v, er_IsPreview = p\<rparr>))))"

definition dec_ApplicationCreateRequest :: "(string \<Rightarrow> uuid option) \<Rightarrow> json \<Rightarrow> error + ApplicationCreateRequest" where
  "dec_ApplicationCreateRequest uuid_Parse = dec_struct
     [''server_id'', ''name'', ''repo_name'', ''repo_url'', ''site_url'', ''branch'', ''env_vars''] (\<lambda>m.
     andThen (dec_uuid uuid_Parse (json_get ''server_id'' m)) (\<lambda>srv.
     andThen (str_member ''name'' m) (\<lambda>n.
     andThen (str_member ''repo_name'' m) (\<lambda>rn.
     andThen (str_member ''repo_url'' m) (\<lambda>ru.
     andThen (str_member ''site_url'' m) (\<lambda>su.
     andThen (str_member ''branch'' m) (\<lambda>b.
     andThen (dec_slice dec_EnvironmentVariableRequest (json_get ''env_vars'' m)) (\<lambda>es.
     Inr \<lparr>ac_ServerID = srv, ac_Name = n, ac_RepoName = rn, ac_RepoURL = ru, ac_SiteURL = su,
       ac_Branch = b, ac_EnvVars = es\<rparr>))))))))"

definition dec_ApplicationUpdateRequest :: "json \<Rightarrow> error + ApplicationUpdateRequest" where
  "dec_ApplicationUpdateRequest = dec_struct [''name'', ''site_url'', ''branch'', ''env_vars''] (\<lambda>m.
     andThen (str_member ''name'' m) (\<lambda>n.
     andThen (str_member ''site_url'' m) (\<lambda>su.
     andThen (str_member ''branch'' m) (\<lambda>b.
     andThen (dec_slice dec_EnvironmentVariableRequest (json_get ''env_vars'' m)) (\<lambda>es.
     Inr \<lparr>au_Name = n, au_SiteURL = su, au_Branch = b, au_EnvVars = es\<rparr>)))))"

definition dec_ApplicationHealth :: "json \<Rightarrow> error + ApplicationHealth" where
  "dec_ApplicationHealth = dec_struct [''application_id'', ''status''] (\<lambda>m.
     andThen (int_member ''application_id'' m) (\<lambda>i.
     andThen (str_member ''status'' m) (\<lambda>s.
     Inr \<lparr>h_ApplicationID = i, h_Status = s\<rparr>)))"

definition dec_ServerSaveRequest :: "json \<Rightarrow> error + ServerSaveRequest" where
  "dec_ServerSaveRequest = dec_struct [''name'', ''ip_address''] (\<lambda>m.
     andThen (str_member ''name'' m) (\<lambda>n.
     andThen (str_member ''ip_address'' m) (\<lambda>ip.
     Inr \<lparr>sr_Name = n, sr_IPAddress = ip\<rparr>)))"

definition dec_UserSaveRequest :: "json \<Rightarrow> error + UserSaveRequest" where
  "dec_UserSaveRequest = dec_struct [''name'', ''email'', ''password'', ''role_id''] (\<lambda>m.
     andThen (str_member ''name'' m) (\<lambda>n.
     andThen (str_member ''email'' m) (\<lambda>e.
     andThen (str_member ''password'' m) (\<lambda>p.
     andThen (int_member ''role_id'' m) (\<lambda>r.
     Inr \<lparr>us_Name = n, us_Email = e, us_Password = p, us_RoleID = r\<rparr>)))))"

definition dec_LoginRequest :: "json \<Rightarrow> error + LoginRequest" where
  "dec_LoginRequest = dec_struct [''email'', ''password''] (\<lambda>m.
     andThen (str_member ''email'' m) (\<lambda>e.
     andThen (str_member ''password'' m) (\<lambda>p.
     Inr \<lparr>lr_Email = e, lr_Password = p\<rparr>)))"

definition dec_AccountProfileRequest :: "json \<Rightarrow> error + string" where
  "dec_AccountProfileRequest = dec_struct [''name''] (str_member ''name'')"

definition dec_AccountPasswordRequest :: "json \<Rightarrow> error + AccountPasswordRequest" where
  "dec_AccountPasswordRequest = dec_struct [''current_password'', ''password'', ''password_confirmation''] (\<lambda>m.
     andThen (str_member ''current_password'' m) (\<lambda>c.
     andThen (str_member ''password'' m) (\<lambda>p.
     andThen (str_member ''password_confirmation'' m) (\<lambda>pc.
     Inr \<lparr>ap_CurrentPassword = c, ap_Password = p, ap_PasswordConfirmation = pc\<rparr>))))"

definition dec_JobFinishRequest :: "json \<Rightarrow> error + string" where
  "dec_JobFinishRequest = dec_struct [''status''] (str_member ''status'')"

definition dec_DeploymentCommitInfoRequest :: "json \<Rightarrow> error + string \<times> string" where
  "dec_DeploymentCommitInfoRequest = dec_struct [''commit_hash'', ''commit_message''] (\<lambda>m.
     andThen (str_member ''commit_hash'' m) (\<lambda>h.
     andThen (str_member ''commit_message'' m) (\<lambda>msg. Inr (h, msg))))"

definition dec_LogContext :: "json \<Rightarrow> error + LogContext" where
  "dec_LogContext = dec_struct [''step'', ''stream'', ''line'', ''exit_code'', ''latency_ms'', ''status''] (\<lambda>m.
     andThen (str_member ''step'' m) (\<lambda>st.
     andThen (str_member ''stream'' m) (\<lambda>sm.
     andThen (str_member ''line'' m) (\<lambda>ln.
     andThen (dec_ptr dec_int64 (json_get ''exit_code'' m)) (\<lambda>ex.
     andThen (dec_ptr dec_int64 (json_get ''latency_ms'' m)) (\<lambda>la.
     andThen (str_member ''status'' m) (\<lambda>s.
     Inr \<lparr>lc_Step = st, lc_Stream = sm, lc_Line = ln, lc_ExitCode = ex, lc_Latency = la, lc_Status = s\<rparr>)))))))"

text \<open>\<open>LogEmitRequest\<close>, as the \<open>Log\<close> the handler copies it to.\<close>

definition dec_LogEmitRequest :: "(string \<Rightarrow> uuid option) \<Rightarrow> (string \<Rightarrow> gotime option) \<Rightarrow> json \<Rightarrow> error + Log" where
  "dec_LogEmitRequest uuid_Parse time_Parse = dec_struct [''timestamp'', ''level'', ''source'', ''action'',
     ''trace_id'', ''job_id'', ''server_id'', ''application_id'', ''deployment_id'', ''message'', ''context''] (\<lambda>m.
     andThen (dec_time time_Parse (json_get ''timestamp'' m)) (\<lambda>ts.
     andThen (str_member ''level'' m) (\<lambda>lv.
     andThen (str_member ''source'' m) (\<lambda>src.
     andThen (str_member ''action'' m) (\<lambda>act.
     andThen (dec_uuid uuid_Parse (json_get ''trace_id'' m)) (\<lambda>tr.
     andThen (dec_ptr dec_int64 (json_get ''job_id'' m)) (\<lambda>jb.
     andThen (dec_ptr (dec_uuid uuid_Parse) (json_get ''server_id'' m)) (\<lambda>srv.
     andThen (dec_ptr dec_int64 (json_get ''application_id'' m)) (\<lambda>app.
     andThen (dec_ptr dec_int64 (json_get ''deployment_id'' m)) (\<lambda>dep.
     andThen (str_member ''message'' m) (\<lambda>msg.
     andThen (dec_ptr dec_LogContext (json_get ''context'' m)) (\<lambda>ctx.
     Inr \<lparr>l_ID = 0, l_Timestamp = ts, l_Level = lv, l_Source = src, l_Action = act, l_TraceID = tr,
       l_JobID = jb, l_ServerID = srv, l_ApplicationID = app, l_DeploymentID = dep, l_Message = msg,
       l_Context = ctx, l_CreatedAt = 0\<rparr>))))))))))))"

text \<open>The body of \<open>UpdateWebhook\<close>.\<close>

record WebhookRequest =
  wr_Enabled :: "bool option"
  wr_URL :: string
  wr_Secret :: string

definition dec_WebhookRequest :: "json \<Rightarrow> error + WebhookRequest" where
  "dec_WebhookRequest = dec_struct [''enabled'', ''url'', ''secret''] (\<lambda>m.
     andThen (dec_ptr dec_bool (json_get ''enabled'' m)) (\<lambda>en.
     andThen (str_member ''url'' m) (\<lambda>u.
     andThen (str_member ''secret'' m) (\<lambda>s.
     Inr \<lparr>wr_Enabled = en, wr_URL = u, wr_Secret = s\<rparr>))))"

section \<open>Their fields\<close>

definition env_fields :: "EnvironmentVariableRequest \<Rightarrow> vfield list" where
  "env_fields e = [
     \<lparr>vf_Field = ''Key'', vf_Json = ''key'', vf_Tags = ''required'', vf_Value = VStr (er_Key e)\<rparr>,
     \<lparr>vf_Field = ''Value'', vf_Json = ''value'', vf_Tags = ''required'', vf_Value = VStr (er_Value e)\<rparr>]"

definition app_create_fields :: "ApplicationCreateRequest \<Rightarrow> vfield list" where
  "app_create_fields q = [
     \<lparr>vf_Field = ''ServerID'', vf_Json = ''server_id'', vf_Tags = ''required'', vf_Value = VUuid (ac_ServerID q)\<rparr>,
     \<lparr>vf_Field = ''Name'', vf_Json = ''name'', vf_Tags = ''required,min=3,max=100'', vf_Value = VStr (ac_Name q)\<rparr>,
     \<lparr>vf_Field = ''RepoName'', vf_Json = ''repo_name'', vf_Tags = ''required,max=100'', vf_Value = VStr (ac_RepoName q)\<rparr>,
     \<lparr>vf_Field = ''RepoURL'', vf_Json = ''repo_url'', vf_Tags = ''required,max=255'', vf_Value = VStr (ac_RepoURL q)\<rparr>,
     \<lparr>vf_Field = ''SiteURL'', vf_Json = ''site_url'', vf_Tags = ''omitempty,max=255'', vf_Value = VStr (ac_SiteURL q)\<rparr>,
     \<lparr>vf_Field = ''Branch'', vf_Json = ''branch'', vf_Tags = ''required'', vf_Value = VStr (ac_Branch q)\<rparr>]
     @ concat (map env_fields (ac_EnvVars q))"

definition app_update_fields :: "ApplicationUpdateRequest \<Rightarrow> vfield list" where
  "app_update_fields q = [
     \<lparr>vf_Field = ''Name'', vf_Json = ''name'', vf_Tags = ''required,min=3,max=100'', vf_Value = VStr (au_Name q)\<rparr>,
     \<lparr>vf_Field = ''SiteURL'', vf_Json = ''site_url'', vf_Tags = ''omitempty,max=255'', vf_Value = VStr (au_SiteURL q)\<rparr>,
     \<lparr>vf_Field = ''Branch'', vf_Json = ''branch'', vf_Tags = ''required'', vf_Value = VStr (au_Branch q)\<rparr>]
     @ concat (map env_fields (au_EnvVars q))"

definition server_fields :: "ServerSaveRequest \<Rightarrow> vfield list" where
  "server_fields q = [
     \<lparr>vf_Field = ''Name'', vf_Json = ''name'', vf_Tags = ''required'', vf_Value = VStr (sr_Name q)\<rparr>,
     \<lparr>vf_Field = ''IPAddress'', vf_Json = ''ip_address'', vf_Tags = ''required'', vf_Value = VStr (sr_IPAddress q)\<rparr>]"

definition user_fields :: "UserSaveRequest \<Rightarrow> vfield list" where
  "user_fields q = [
     \<lparr>vf_Field = ''Name'', vf_Json = ''name'', vf_Tags = ''required'', vf_Value = VStr (us_Name q)\<rparr>,
     \<lparr>vf_Field = ''Email'', vf_Json = ''email'', vf_Tags = ''required,email'', vf_Value = VStr (us_Email q)\<rparr>,
     \<lparr>vf_Field = ''Password'', vf_Json = ''password'', vf_Tags = ''omitempty,min=8'', vf_Value = VStr (us_Password q)\<rparr>,
     \<lparr>vf_Field = ''RoleID'', vf_Json = ''role_id'', vf_Tags = ''required,numeric'', vf_Value = VInt (us_RoleID q)\<rparr>]"

definition login_fields :: "LoginRequest \<Rightarrow> vfield list" where
  "login_fields q = [
     \<lparr>vf_Field = ''Email'', vf_Json = ''email'', vf_Tags = ''required,email'', vf_Value = VStr (lr_Email q)\<rparr>,
     \<lparr>vf_Field = ''Password'', vf_Json = ''password'', vf_Tags = ''required,min=8'', vf_Value = VStr (lr_Password q)\<rparr>]"

definition profile_fields :: "string \<Rightarrow> vfield list" where
  "profile_fields n = [\<lparr>vf_Field = ''Name'', vf_Json = ''name'', vf_Tags = ''required'', vf_Value = VStr n\<rparr>]"

definition password_fields :: "AccountPasswordRequest \<Rightarrow> vfield list" where
  "password_fields q = [
     \<lparr>vf_Field = ''CurrentPassword'', vf_Json = ''current_password'', vf_Tags = ''required,min=8'',
       vf_Value = VStr (ap_CurrentPassword q)\<rparr>,
     \<lparr>vf_Field = ''Password'', vf_Json = ''password'', vf_Tags = ''required,min=8'', vf_Value = VStr (ap_Password q)\<rparr>,
     \<lparr>vf_Field = ''PasswordConfirmation'', vf_Json = ''password_confirmation'',
       vf_Tags = ''required,min=8,eqfield=Password'', vf_Value = VStr (ap_PasswordConfirmation q)\<rparr>]"

end
