(* ===== verification/RateLimit.thy ===== *)
theory RateLimit
  imports Http
begin

text \<open>
  The sliding-window limiter in front of the login route
  (\<open>internal/adapters/http/middleware/ratelimit\<close>) and the address it counts by. Times are read
  from one clock, so successive calls of \<open>Allow\<close> see times in order; the mutex makes each call
  one step.
\<close>

section \<open>The limiter\<close>

record Limiter =
  lm_window :: int
  lm_limit :: int
  lm_hits :: "string \<Rightarrow> gotime list"

definition Limiter_New :: "int \<Rightarrow> int \<Rightarrow> Limiter" where
  "Limiter_New limit window = \<lparr>lm_window = window, lm_limit = limit, lm_hits = (\<lambda>_. [])\<rparr>"

definition Limiter_Allow :: "Limiter \<Rightarrow> string \<Rightarrow> gotime \<Rightarrow> bool \<times> Limiter" where
  "Limiter_Allow l key now =
    (let cutoff = now - lm_window l;
         kept = filter (\<lambda>t. cutoff < t) (lm_hits l key)
     in if lm_limit l \<le> int (length kept)
        then (False, l\<lparr>lm_hits := (lm_hits l)(key := kept)\<rparr>)
        else (True, l\<lparr>lm_hits := (lm_hits l)(key := kept @ [now])\<rparr>))"

section \<open>Whose requests are counted together\<close>

text \<open>\<open>ClientIP\<close> cuts the address at its last colon.\<close>

definition ClientIP :: "string \<Rightarrow> string" where
  "ClientIP host = (if CHR '':'' \<in> set host
     then rev (tl (dropWhile (\<lambda>c. c \<noteq> CHR '':'') (rev host))) else host)"

definition RealClientIP :: "Request \<Rightarrow> bool \<Rightarrow> string" where
  "RealClientIP r trustProxy =
    (if trustProxy \<and> rq_Header r ''X-Forwarded-For'' \<noteq> [] then
       (let first = trim_space (takeWhile (\<lambda>c. c \<noteq> CHR '','') (rq_Header r ''X-Forwarded-For''))
        in if first \<noteq> [] then first else ClientIP (rq_RemoteAddr r))
     else ClientIP (rq_RemoteAddr r))"

section \<open>The middleware\<close>

text \<open>The state holds the table of the router's one limiter: five attempts a minute.\<close>

definition loginLimiter :: "world \<Rightarrow> Limiter" where
  "loginLimiter w = (Limiter_New 5 60000000000)\<lparr>lm_hits := w_login_hits w\<rparr>"

definition Limiter_Middleware :: "(Request \<Rightarrow> string) \<Rightarrow> middleware" where
  "Limiter_Middleware keyFunc next r w =
    (case Limiter_Allow (loginLimiter w) (keyFunc r) (w_now w) of
       (False, l) \<Rightarrow> (http_Error ''too many requests'' 429, w\<lparr>w_login_hits := lm_hits l\<rparr>)
     | (True, l) \<Rightarrow> next r (w\<lparr>w_login_hits := lm_hits l\<rparr>))"

definition loginStack :: "Config \<Rightarrow> Chain" where
  "loginStack cfg = Chain_Use Chain_New (Limiter_Middleware (\<lambda>r. RealClientIP r (cf_TrustProxy cfg)))"

lemma ClientIP_port: "CHR '':'' \<notin> set port \<Longrightarrow> ClientIP (host @ CHR '':'' # port) = host"
  by (simp add: ClientIP_def dropWhile_append)

section \<open>What it promises\<close>

text \<open>The calls that are admitted, of a sequence of calls.\<close>

fun admitted :: "Limiter \<Rightarrow> (string \<times> gotime) list \<Rightarrow> (string \<times> gotime) list" where
  "admitted l [] = []"
| "admitted l ((key, now) # calls) = (case Limiter_Allow l key now of
     (ok, l') \<Rightarrow> (if ok then [(key, now)] else []) @ admitted l' calls)"

text \<open>
  The specification keeps every admitted call for ever and counts the ones of the last window.
\<close>

definition in_window :: "int \<Rightarrow> string \<Rightarrow> gotime \<Rightarrow> (string \<times> gotime) list \<Rightarrow> gotime list" where
  "in_window window key now past = filter (\<lambda>t. now - window < t \<and> t \<le> now)
     (map snd (filter (\<lambda>c. fst c = key) past))"

fun admitted_spec :: "int \<Rightarrow> int \<Rightarrow> (string \<times> gotime) list \<Rightarrow> (string \<times> gotime) list \<Rightarrow> (string \<times> gotime) list" where
  "admitted_spec limit window past [] = []"
| "admitted_spec limit window past ((key, now) # calls) =
    (if int (length (in_window window key now past)) < limit
     then (key, now) # admitted_spec limit window (past @ [(key, now)]) calls
     else admitted_spec limit window past calls)"

text \<open>The table holds what the specification still needs at time \<open>now\<close> and later.\<close>

definition remembers :: "Limiter \<Rightarrow> gotime \<Rightarrow> (string \<times> gotime) list \<Rightarrow> bool" where
  "remembers l now past \<longleftrightarrow> (\<forall>key. filter (\<lambda>t. now - lm_window l < t) (lm_hits l key) =
     filter (\<lambda>t. now - lm_window l < t) (map snd (filter (\<lambda>c. fst c = key) past)))"

lemma filter_weaken:
  assumes "filter P xs = filter P ys" and "\<And>x. Q x \<Longrightarrow> P x"
  shows "filter Q xs = filter Q ys"
proof -
  have r: "filter Q zs = filter Q (filter P zs)" for zs
    using assms(2) by (induction zs) auto
  show ?thesis unfolding r [of xs] r [of ys] assms(1) ..
qed

lemma remembers_later:
  assumes "remembers l now past" and "now \<le> later"
  shows "remembers l later past"
  unfolding remembers_def
proof
  fix key
  show "filter (\<lambda>t. later - lm_window l < t) (lm_hits l key) =
      filter (\<lambda>t. later - lm_window l < t) (map snd (filter (\<lambda>c. fst c = key) past))"
    by (rule filter_weaken [OF assms(1) [unfolded remembers_def, rule_format]]) (use assms(2) in linarith)
qed

lemma in_window_all: "\<forall>c\<in>set past. snd c \<le> now \<Longrightarrow>
    in_window window key now past = filter (\<lambda>t. now - window < t) (map snd (filter (\<lambda>c. fst c = key) past))"
  unfolding in_window_def by (rule filter_cong) auto

lemma Allow_spec:
  assumes "remembers l now past" and "\<forall>c\<in>set past. snd c \<le> now" and "0 \<le> lm_window l"
    and "Limiter_Allow l key now = (ok, l')"
  shows "ok \<longleftrightarrow> int (length (in_window (lm_window l) key now past)) < lm_limit l"
    and "remembers l' now (past @ (if ok then [(key, now)] else []))"
    and "lm_window l' = lm_window l" and "lm_limit l' = lm_limit l"
  using assms by (auto simp: Limiter_Allow_def Let_def remembers_def in_window_all split: if_splits)

lemma admitted_eq_spec:
  assumes "remembers l now past" and "\<forall>c\<in>set past. snd c \<le> now" and "0 \<le> lm_window l"
    and "sorted (now # map snd calls)"
  shows "admitted l calls = admitted_spec (lm_limit l) (lm_window l) past calls"
  using assms
proof (induction calls arbitrary: l now past)
  case (Cons c calls)
  obtain key t where c: "c = (key, t)" by force
  obtain ok l' where a: "Limiter_Allow l key t = (ok, l')" by force
  from Cons.prems c have t: "now \<le> t" "sorted (t # map snd calls)" by auto
  have r: "remembers l t past" "\<forall>c\<in>set past. snd c \<le> t"
    using remembers_later [OF Cons.prems(1) t(1)] Cons.prems(2) t(1) by auto
  note s = Allow_spec [OF r Cons.prems(3) a]
  have "admitted l' calls = admitted_spec (lm_limit l') (lm_window l') (past @ (if ok then [(key, t)] else [])) calls"
    by (rule Cons.IH [OF s(2)]) (use r(2) t s(3) Cons.prems(3) in auto)
  with s a show ?case by (simp add: c)
qed simp

text \<open>
  C13. For calls in the order of the clock, the limiter, which drops old hits as it goes, admits the
  same calls as one that remembers every admitted call for ever and counts those of the last
  window.
\<close>

theorem Limiter_is_sliding_window:
  assumes "0 \<le> window" and "sorted (map snd calls)"
  shows "admitted (Limiter_New limit window) calls = admitted_spec limit window [] calls"
proof (cases calls)
  case (Cons c cs)
  with assms admitted_eq_spec [of "Limiter_New limit window" "snd c" "[]" calls] show ?thesis
    by (auto simp: Limiter_New_def remembers_def)
qed simp

theorem Limiter_is_sliding_window_witness:
  "admitted (Limiter_New 2 10) [(''a'', 0), (''a'', 1), (''b'', 2), (''a'', 3), (''a'', 10)] =
    [(''a'', 0), (''a'', 1), (''b'', 2), (''a'', 10)]"
  using Limiter_is_sliding_window [of 10 "[(''a'', 0), (''a'', 1), (''b'', 2), (''a'', 3), (''a'', 10)]" 2]
  by (simp add: in_window_def)

lemma in_window_append: "in_window window key now (xs @ ys) = in_window window key now xs @ in_window window key now ys"
  by (simp add: in_window_def)

lemma in_window_shift:
  "\<forall>c\<in>set past. snd c \<le> now \<Longrightarrow> now \<le> t \<Longrightarrow>
    length (in_window window key t past) \<le> length (in_window window key now past)"
proof (induction past)
  case (Cons c past)
  then show ?case by (auto simp: in_window_def)
qed (simp add: in_window_def)

lemma admitted_spec_bound:
  assumes "\<forall>key t. int (length (in_window window key t past)) \<le> limit" and "\<forall>c\<in>set past. snd c \<le> now"
    and "sorted (now # map snd calls)"
  shows "int (length (in_window window key t (past @ admitted_spec limit window past calls))) \<le> limit"
  using assms
proof (induction calls arbitrary: past now)
  case (Cons c calls)
  obtain k n where c: "c = (k, n)" by force
  from Cons.prems c have n: "now \<le> n" "sorted (n # map snd calls)" by auto
  have late: "\<forall>c\<in>set past. snd c \<le> n" using Cons.prems(2) n(1) by auto
  show ?case
  proof (cases "int (length (in_window window k n past)) < limit")
    case True
    have "int (length (in_window window key t (past @ [(k, n)]))) \<le> limit" for key t
    proof (cases "key = k \<and> n \<le> t")
      case new: True
      have "length (in_window window k t past) \<le> length (in_window window k n past)"
        by (rule in_window_shift) (use late new in auto)
      with True new show ?thesis by (simp add: in_window_append) (simp add: in_window_def)
    next
      case False
      then have "in_window window key t [(k, n)] = []" by (auto simp: in_window_def)
      with Cons.prems(1) show ?thesis by (simp add: in_window_append)
    qed
    with Cons.IH [of "past @ [(k, n)]" n] late n True show ?thesis by (auto simp: c)
  next
    case False
    with Cons.IH [OF Cons.prems(1) late n(2)] show ?thesis by (simp add: c)
  qed
qed simp

text \<open>
  C14. In every interval of the window's length at most \<open>limit\<close> calls of one key are admitted,
  whatever the calls of other keys.
\<close>

theorem Limiter_bound:
  assumes "0 \<le> window" and "0 \<le> limit" and "sorted (map snd calls)"
  shows "int (length (in_window window key t (admitted (Limiter_New limit window) calls))) \<le> limit"
proof (cases calls)
  case Nil
  with assms show ?thesis by (simp add: in_window_def)
next
  case (Cons c cs)
  have "int (length (in_window window key t ([] @ admitted_spec limit window [] calls))) \<le> limit"
    by (rule admitted_spec_bound [where now = "snd c"]) (use assms Cons in \<open>auto simp: in_window_def\<close>)
  moreover have "admitted (Limiter_New limit window) calls = admitted_spec limit window [] calls"
    using admitted_eq_spec [of "Limiter_New limit window" "snd c" "[]" calls] assms Cons
    by (auto simp: Limiter_New_def remembers_def)
  ultimately show ?thesis by simp
qed

theorem Limiter_bound_witness:
  "int (length (in_window 10 ''a'' 9 (admitted (Limiter_New 2 10) [(''a'', 0), (''a'', 1), (''a'', 3), (''a'', 10)]))) \<le> 2"
  by (rule Limiter_bound) simp_all

end
