(* ===== verification/Handlers.thy ===== *)
theory Handlers
  imports Requests RateLimit ApplicationService Subscribers
begin

text \<open>
  The handlers of \<open>internal/adapters/http\<close>, one definition per method. What a handler needs is in
  one record: the event bus, the repository of the encrypted variables, the libraries of other
  packages and the configuration.
\<close>

text \<open>The methods of \<open>MetricsHandler\<close> the router has routes for.\<close>

datatype MetricsMethod = Metrics_Ingest | Metrics_Latest | Metrics_CPUUsageHistory | Metrics_NetSpeedHistory

record RouterDeps =
  rd_bus :: "world Bus"
  rd_repo :: ApplicationRepository
  rd_bcrypt :: Bcrypt
  rd_inet :: "string \<Rightarrow> string option"
  rd_jwt :: JWT
  rd_uuid_Parse :: "string \<Rightarrow> uuid option"
  rd_time_Parse :: "string \<Rightarrow> gotime option"
  rd_url_Parse :: "string \<Rightarrow> (string \<times> string) option"
  rd_validate :: struct_validator
  rd_hmac :: "string \<Rightarrow> string \<Rightarrow> string"
  rd_post :: "string \<Rightarrow> string option \<Rightarrow> string \<Rightarrow> int option"
  rd_webhook :: string
  rd_metrics :: "MetricsMethod \<Rightarrow> Request \<Rightarrow> world \<Rightarrow> Reply \<times> nat"
  rd_exposition :: "error + JobStatusCounts \<Rightarrow> error + int \<Rightarrow> string"
  rd_Upgrade :: "bool \<Rightarrow> Request \<Rightarrow> bool \<times> Reply"
  rd_cfg :: Config

section \<open>Applications\<close>

definition bad_app_id :: Reply where
  "bad_app_id = say 400 ''invalid application id''"

definition app_errors :: "Reply \<Rightarrow> error \<Rightarrow> Reply" where
  "app_errors = on_error [(ErrApplicationNotFound, say 404 ''application not found'')]"

definition echo_error :: "int \<Rightarrow> error \<Rightarrow> Reply" where
  "echo_error status e = app_errors (say status (error_text e)) e"

definition ApplicationHandler_Index :: "RouterDeps \<Rightarrow> http_handler" where
  "ApplicationHandler_Index d r w =
    (if rq_Query r ''server_id'' = [] then (say 400 ''server_id query parameter is required'', w)
     else case rd_uuid_Parse d (rq_Query r ''server_id'') of
       None \<Rightarrow> (say 400 ''invalid server_id'', w)
     | Some serverID \<Rightarrow>
         answer (AppService_List \<lparr>al_opts = page_options (rq_Query r) ''lmit'' 10, al_ServerID = Some serverID\<rparr>)
           (\<lambda>_. say 500 ''failed to list applications'') (give_list DApplications) w)"

definition ApplicationHandler_Show :: "RouterDeps \<Rightarrow> http_handler" where
  "ApplicationHandler_Show d r = with_id r ''id'' bad_app_id (\<lambda>appID.
     after (AppService_GetByID appID) (app_errors (say 500 ''failed to get application'')) (\<lambda>app.
     answer (AppService_ListEnvVars (rd_repo d) appID)
       (\<lambda>_. say 500 ''failed to get applications environment variables'')
       (\<lambda>envVars. give 200 [] (DApplication app (Some envVars)))))"

definition ApplicationHandler_Store :: "RouterDeps \<Rightarrow> http_handler" where
  "ApplicationHandler_Store d r = decoded (dec_ApplicationCreateRequest (rd_uuid_Parse d)) r (\<lambda>req.
     validated (rd_validate d) (app_create_fields req)
       (answer (AppService_Create (rd_repo d) (rd_bus d) req) (\<lambda>_. say 500 ''failed to create application'')
         (\<lambda>app. give 201 ''application created successfully'' (DApplication app None))))"

definition ApplicationHandler_Update :: "RouterDeps \<Rightarrow> http_handler" where
  "ApplicationHandler_Update d r = with_id r ''id'' bad_app_id (\<lambda>appID.
     decoded dec_ApplicationUpdateRequest r (\<lambda>req.
     validated (rd_validate d) (app_update_fields req)
       (answer (AppService_Update (rd_repo d) req appID) (app_errors (say 500 ''failed to update application''))
         (\<lambda>_. say 200 ''application updated successfully''))))"

definition ApplicationHandler_Destroy :: "RouterDeps \<Rightarrow> http_handler" where
  "ApplicationHandler_Destroy d r = with_id r ''id'' bad_app_id (\<lambda>appID.
     answer (AppService_Delete (rd_bus d) appID) (echo_error 400)
       (\<lambda>_. say 200 ''application deleted successfully''))"

definition with_user :: "Request \<Rightarrow> (UserContext \<Rightarrow> world \<Rightarrow> Reply \<times> world) \<Rightarrow> world \<Rightarrow> Reply \<times> world" where
  "with_user r k w = (case rq_User r of None \<Rightarrow> (say 401 ''unauthorized'', w) | Some u \<Rightarrow> k u w)"

definition ApplicationHandler_Deploy :: "RouterDeps \<Rightarrow> http_handler" where
  "ApplicationHandler_Deploy d r = with_user r (\<lambda>userCtx. with_id r ''id'' bad_app_id (\<lambda>appID.
     answer (AppService_Deploy (rd_repo d) (rd_bus d) appID (uc_ID userCtx)) (echo_error 500)
       (\<lambda>deployment. give 200 ''deployment started'' (DDeployment deployment))))"

definition ApplicationHandler_Rollback :: "RouterDeps \<Rightarrow> http_handler" where
  "ApplicationHandler_Rollback d r = with_user r (\<lambda>userCtx. with_id r ''id'' bad_app_id (\<lambda>appID.
     answer (AppService_Rollback (rd_repo d) (rd_bus d) appID (uc_ID userCtx)) (echo_error 400)
       (\<lambda>deployment. give 200 ''rollback started'' (DDeployment deployment))))"

definition ApplicationHandler_Start :: "RouterDeps \<Rightarrow> http_handler" where
  "ApplicationHandler_Start d r = with_id r ''id'' bad_app_id (\<lambda>appID.
     answer (AppService_Start (rd_bus d) appID) (echo_error 400) (\<lambda>_. say 200 ''starting application''))"

definition ApplicationHandler_Stop :: "RouterDeps \<Rightarrow> http_handler" where
  "ApplicationHandler_Stop d r = with_id r ''id'' bad_app_id (\<lambda>appID.
     answer (AppService_Stop (rd_bus d) appID) (echo_error 400) (\<lambda>_. say 200 ''stopping application''))"

definition ApplicationHandler_Restart :: "RouterDeps \<Rightarrow> http_handler" where
  "ApplicationHandler_Restart d r = with_id r ''id'' bad_app_id (\<lambda>appID.
     answer (AppService_Restart (rd_bus d) appID) (echo_error 400) (\<lambda>_. say 200 ''restarting application''))"

definition ApplicationHandler_AddEnvVar :: "RouterDeps \<Rightarrow> http_handler" where
  "ApplicationHandler_AddEnvVar d r = with_id r ''id'' bad_app_id (\<lambda>appID.
     decoded dec_EnvironmentVariableRequest r (\<lambda>req.
     validated (rd_validate d) (env_fields req)
       (answer (AppService_AddEnvVar (rd_repo d) appID req)
         (app_errors (say 500 ''failed to add environment variable''))
         (\<lambda>_. say 200 ''environment variable added''))))"

definition with_key :: "Request \<Rightarrow> (string \<Rightarrow> world \<Rightarrow> Reply \<times> world) \<Rightarrow> world \<Rightarrow> Reply \<times> world" where
  "with_key r k w = (if rq_PathValue r ''key'' = [] then (say 400 ''key is required'', w) else k (rq_PathValue r ''key'') w)"

definition ApplicationHandler_UpdateEnvVar :: "RouterDeps \<Rightarrow> http_handler" where
  "ApplicationHandler_UpdateEnvVar d r = with_id r ''id'' bad_app_id (\<lambda>appID. with_key r (\<lambda>key.
     decoded dec_EnvironmentVariableRequest r (\<lambda>req.
     validated (rd_validate d) (env_fields req)
       (answer (AppService_UpdateEnvVar (rd_repo d) appID key req)
         (app_errors (say 500 ''failed to update environment variable''))
         (\<lambda>_. say 200 ''environment variable updated'')))))"

definition ApplicationHandler_DeleteEnvVar :: "RouterDeps \<Rightarrow> http_handler" where
  "ApplicationHandler_DeleteEnvVar d r = with_id r ''id'' bad_app_id (\<lambda>appID. with_key r (\<lambda>key.
     answer (AppService_DeleteEnvVar appID key)
       (app_errors (say 500 ''failed to delete environment variable''))
       (\<lambda>_. say 200 ''environment variable deleted'')))"

definition with_server :: "Request \<Rightarrow> (uuid \<Rightarrow> world \<Rightarrow> Reply \<times> world) \<Rightarrow> world \<Rightarrow> Reply \<times> world" where
  "with_server r k w = (case rq_ServerID r of None \<Rightarrow> (say 401 ''invalid credentials'', w) | Some s \<Rightarrow> k s w)"

definition ApplicationHandler_ReportHealth :: "RouterDeps \<Rightarrow> http_handler" where
  "ApplicationHandler_ReportHealth d r = with_server r (\<lambda>serverID.
     decoded (dec_slice dec_ApplicationHealth) r (\<lambda>req.
     answer (AppService_UpdateHealth serverID req) (\<lambda>_. say 500 ''failed to update application health'')
       (\<lambda>_. say 200 ''applications health reported'')))"

section \<open>Jobs\<close>

definition bad_job_id :: Reply where
  "bad_job_id = say 400 ''invalid job id''"

definition job_errors :: "Reply \<Rightarrow> error \<Rightarrow> Reply" where
  "job_errors = on_error [(ErrJobNotFound, say 404 ''job not found'')]"

definition JobHandler_Index :: "RouterDeps \<Rightarrow> http_handler" where
  "JobHandler_Index d r = (let q = rq_Query r in
     answer (JobService_List \<lparr>jl_opts = page_options q ''limit'' 10,
         jl_TraceID = GetUUID (rd_uuid_Parse d) q ''trace_id'', jl_ServerID = GetUUID (rd_uuid_Parse d) q ''server_id'',
         jl_ApplicationID = GetInt64 q ''application_id'', jl_DeploymentID = GetInt64 q ''deployment_id'',
         jl_Type = GetString q ''job_type'' [], jl_Statuses = GetStringSlice q ''statuses''\<rparr>)
       (\<lambda>_. say 500 ''failed to list jobs'') (give_list DJobs))"

definition JobHandler_Pending :: "RouterDeps \<Rightarrow> http_handler" where
  "JobHandler_Pending d r = with_server r (\<lambda>serverID.
     answer (JobService_GetPending serverID) (\<lambda>_. say 500 ''failed to get pending jobs'')
       (\<lambda>jobs. give 200 [] (DJobs jobs)))"

definition JobHandler_Show :: "RouterDeps \<Rightarrow> http_handler" where
  "JobHandler_Show d r = with_id r ''id'' bad_job_id (\<lambda>jobID.
     answer (JobService_GetByID jobID) (job_errors (say 500 ''failed to get job'')) (\<lambda>job. give 200 [] (DJob job)))"

definition JobHandler_Start :: "RouterDeps \<Rightarrow> http_handler" where
  "JobHandler_Start d r = with_id r ''id'' bad_job_id (\<lambda>jobID.
     answer (JobService_Start (rd_bus d) jobID) (job_errors (say 500 ''failed to start job''))
       (\<lambda>job. give 200 [] (DJob job)))"

definition JobHandler_Finish :: "RouterDeps \<Rightarrow> http_handler" where
  "JobHandler_Finish d r = decoded dec_JobFinishRequest r (\<lambda>status.
     validated (rd_validate d) []
       (with_id r ''id'' bad_job_id (\<lambda>jobID.
       answer (JobService_Finish (rd_bus d) jobID status) (job_errors (say 500 ''failed to finish job''))
         (\<lambda>job. give 200 [] (DJob job)))))"

definition JobHandler_Summary :: "RouterDeps \<Rightarrow> http_handler" where
  "JobHandler_Summary d r = answer JobService_Summary (\<lambda>_. say 500 ''failed to get job summary'')
     (\<lambda>counts. give 200 [] (DJobCounts counts))"

definition JobHandler_Retry :: "RouterDeps \<Rightarrow> http_handler" where
  "JobHandler_Retry d r = with_id r ''id'' bad_job_id (\<lambda>jobID.
     after (JobService_GetByID jobID) (job_errors (say 500 ''failed to get job'')) (\<lambda>job w.
     if j_Status job \<noteq> JobFailed \<and> j_Status job \<noteq> JobExpired
     then (say 409 ''job is not in a retryable state'', w)
     else answer (JobService_Retry (rd_bus d) jobID
         (Job0\<lparr>j_Payload := j_Payload job, j_Status := JobQueued, j_QueuedAt := Some (w_now w)\<rparr>))
       (\<lambda>_. say 500 ''failed to retry job'') (\<lambda>retried. give 200 [] (DJob retried)) w))"

section \<open>Servers\<close>

definition with_server_id :: "RouterDeps \<Rightarrow> Request \<Rightarrow> (uuid \<Rightarrow> world \<Rightarrow> Reply \<times> world) \<Rightarrow> world \<Rightarrow> Reply \<times> world" where
  "with_server_id d r k w = (case rd_uuid_Parse d (rq_PathValue r ''id'') of
     None \<Rightarrow> (say 400 ''invalid server ID'', w) | Some s \<Rightarrow> k s w)"

definition server_errors :: "Reply \<Rightarrow> error \<Rightarrow> Reply" where
  "server_errors = on_error [(ErrServerNotFound, say 404 ''server not found'')]"

definition ServerHandler_Index :: "RouterDeps \<Rightarrow> http_handler" where
  "ServerHandler_Index d r =
     answer (ServerService_List \<lparr>sl_opts = page_options (rq_Query r) ''limit'' 10,
         sl_IsOnline = GetBoolPtr (rq_Query r) ''is_online''\<rparr>)
       (\<lambda>_. say 500 ''failed to list servers'') (give_list DServers)"

definition ServerHandler_Store :: "RouterDeps \<Rightarrow> http_handler" where
  "ServerHandler_Store d r = decoded dec_ServerSaveRequest r (\<lambda>req.
     validated (rd_validate d) (server_fields req)
       (answer (ServerService_Register (rd_bcrypt d) (rd_inet d) req) (\<lambda>_. say 500 ''failed to register server'')
         (\<lambda>(srv, token). give 201 ''server registered successfully'' (DServerRegistered srv token))))"

definition ServerHandler_Update :: "RouterDeps \<Rightarrow> http_handler" where
  "ServerHandler_Update d r = decoded dec_ServerSaveRequest r (\<lambda>req.
     validated (rd_validate d) (server_fields req) (with_server_id d r (\<lambda>serverID.
       answer (ServerService_Update (rd_inet d) req serverID) (server_errors (say 500 ''failed to update server''))
         (\<lambda>_. say 200 ''server updated successfully''))))"

definition ServerHandler_Destroy :: "RouterDeps \<Rightarrow> http_handler" where
  "ServerHandler_Destroy d r = with_server_id d r (\<lambda>serverID.
     answer (ServerService_Delete serverID) (server_errors (say 500 ''failed to delete server''))
       (\<lambda>_. say 200 ''server deleted successfully''))"

definition ServerHandler_RotateSecret :: "RouterDeps \<Rightarrow> http_handler" where
  "ServerHandler_RotateSecret d r = with_server_id d r (\<lambda>serverID.
     answer (ServerService_RotateSecret (rd_bcrypt d) serverID)
       (server_errors (say 500 ''failed to rotate server secret'')) (\<lambda>token. give 200 [] (DToken token)))"

section \<open>Sign in\<close>

definition auth_service :: "RouterDeps \<Rightarrow> AuthService" where
  "auth_service d = \<lparr>as_bcrypt = rd_bcrypt d, as_jwt = rd_jwt d, as_jwtSecret = cf_JWTSecret (rd_cfg d),
     as_jwtExpiry = cf_JWTExpiry (rd_cfg d)\<rparr>"

definition AuthHandler_User :: "RouterDeps \<Rightarrow> http_handler" where
  "AuthHandler_User d r = answer (AuthService_GetUser (rq_User r))
     (on_error [(ErrUnauthorized, say 401 ''unauthorized'')] (say 500 ''failed to get user''))
     (\<lambda>user. give 200 [] (DUser user))"

definition AuthHandler_Login :: "RouterDeps \<Rightarrow> http_handler" where
  "AuthHandler_Login d r = decoded dec_LoginRequest r (\<lambda>req.
     validated (rd_validate d) (login_fields req)
       (after (AuthService_Login (auth_service d) (RealClientIP r (cf_TrustProxy (rd_cfg d)))
           (rq_Header r ''User-Agent'') req)
         (on_error [(ErrInvalidCredentials, say 401 ''invalid credentials'')] (say 500 ''failed to sign in''))
         (\<lambda>res w. ((give 200 [] (DUser (ar_User res)))\<lparr>re_Cookies := [\<lparr>ck_Name = ''horizonx_access_token'',
            ck_Value = ar_AccessToken res, ck_Expires = w_now w + cf_JWTExpiry (rd_cfg d), ck_HttpOnly = True\<rparr>]\<rparr>, w))))"

text \<open>An expired cookie: \<open>time.Unix(0, 0)\<close>.\<close>

definition clear_cookies :: "Cookie list" where
  "clear_cookies = [
     \<lparr>ck_Name = ''horizonx_access_token'', ck_Value = [], ck_Expires = 0, ck_HttpOnly = True\<rparr>,
     \<lparr>ck_Name = ''horizonx_csrf_token'', ck_Value = [], ck_Expires = 0, ck_HttpOnly = False\<rparr>]"

definition AuthHandler_Logout :: "RouterDeps \<Rightarrow> http_handler" where
  "AuthHandler_Logout d r w = (let good = (JSONWriter_Write 200 Response0)\<lparr>re_Cookies := clear_cookies\<rparr> in
     answer (AuthService_Logout (rq_User r))
       (on_error [(ErrUnauthorized, good)] (say 500 ''failed to sign out'')) (\<lambda>_. good) w)"

definition AccountHandler_Profile :: "RouterDeps \<Rightarrow> http_handler" where
  "AccountHandler_Profile d r = decoded dec_AccountProfileRequest r (\<lambda>name.
     validated (rd_validate d) (profile_fields name)
       (answer (AccountService_UpdateProfile (rq_User r) name) (\<lambda>_. say 500 ''failed to update profile'')
         (\<lambda>_. say 200 ''profile updated successfully'')))"

definition AccountHandler_Password :: "RouterDeps \<Rightarrow> http_handler" where
  "AccountHandler_Password d r = decoded dec_AccountPasswordRequest r (\<lambda>req.
     validated (rd_validate d) (password_fields req)
       (answer (AccountService_ChangePassword (rd_bcrypt d) (rq_User r) req)
         (\<lambda>e. on_error [(ErrInvalidCurrentPassword, say 400 (error_text e))] (say 500 ''failed to change password'') e)
         (\<lambda>_. say 200 ''password changed successfully'')))"

section \<open>Users\<close>

definition user_save_errors :: "(error \<times> Reply) list" where
  "user_save_errors = [(ErrRoleNotFound, say 400 ''role not found''),
     (ErrEmailAlreadyExists, say 400 ''email already registered'')]"

definition UserHandler_Index :: "RouterDeps \<Rightarrow> http_handler" where
  "UserHandler_Index d r =
     answer (UserService_List \<lparr>ul_opts = page_options (rq_Query r) ''limit'' 10,
         ul_Roles = GetStringSlice (rq_Query r) ''roles''\<rparr>)
       (\<lambda>_. say 500 ''failed to list users'') (give_list DUsers)"

definition UserHandler_Store :: "RouterDeps \<Rightarrow> http_handler" where
  "UserHandler_Store d r = decoded dec_UserSaveRequest r (\<lambda>req.
     validated (rd_validate d) (user_fields req)
       (answer (UserService_Create (rd_bcrypt d) req) (on_error user_save_errors (say 500 ''failed to create user''))
         (\<lambda>_. say 200 ''user created successfully'')))"

definition bad_user_id :: "int \<Rightarrow> Reply" where
  "bad_user_id status = say status ''invalid user id''"

definition UserHandler_Update :: "RouterDeps \<Rightarrow> http_handler" where
  "UserHandler_Update d r = with_id r ''id'' (bad_user_id 500) (\<lambda>userID.
     decoded dec_UserSaveRequest r (\<lambda>req.
     validated (rd_validate d) (user_fields req)
       (answer (UserService_Update (rd_bcrypt d) req userID)
         (on_error ((ErrUserNotFound, say 404 ''user not found'') # user_save_errors) (say 500 ''failed to update user''))
         (\<lambda>_. say 200 ''user updated successfully''))))"

definition UserHandler_Destroy :: "RouterDeps \<Rightarrow> http_handler" where
  "UserHandler_Destroy d r = with_user r (\<lambda>userCtx. with_id r ''id'' (bad_user_id 500) (\<lambda>userID w.
     if userID = uc_ID userCtx then (say 400 ''you cannot delete yourself'', w)
     else answer (UserService_Delete userID)
       (on_error [(ErrUserNotFound, say 404 ''user not found'')] (say 500 ''failed to delete user''))
       (\<lambda>_. say 200 ''user deleted successfully'') w))"

definition UserHandler_RevokeSessions :: "RouterDeps \<Rightarrow> http_handler" where
  "UserHandler_RevokeSessions d r = with_id r ''id'' (bad_user_id 400) (\<lambda>userID.
     answer (AuthService_RevokeAllSessions userID) (\<lambda>_. say 500 ''failed to revoke sessions'')
       (\<lambda>_. say 200 ''user sessions revoked''))"

section \<open>Deployments\<close>

definition deployment_errors :: "Reply \<Rightarrow> error \<Rightarrow> Reply" where
  "deployment_errors = on_error [(ErrDeploymentNotFound, say 404 ''deployment not found'')]"

definition bad_deployment_id :: Reply where
  "bad_deployment_id = say 400 ''invalid deployment id''"

definition DeploymentHandler_Index :: "RouterDeps \<Rightarrow> http_handler" where
  "DeploymentHandler_Index d r = with_id r ''id'' bad_app_id (\<lambda>appID.
     answer (DeploymentService_List \<lparr>dl_opts = page_options (rq_Query r) ''limit'' 10,
         dl_ApplicationID = Some appID, dl_DeployedBy = GetInt64 (rq_Query r) ''deployed_by'',
         dl_Statuses = GetStringSlice (rq_Query r) ''statuses''\<rparr>)
       (\<lambda>_. say 500 ''failed to list deployments'') (give_list DDeployments))"

definition DeploymentHandler_Show :: "RouterDeps \<Rightarrow> http_handler" where
  "DeploymentHandler_Show d r = with_id r ''id'' bad_app_id (\<lambda>appID.
     with_id r ''deployment_id'' bad_deployment_id (\<lambda>deploymentID.
     answer (DeploymentService_GetByID deploymentID) (deployment_errors (say 500 ''failed to get deployment''))
       (\<lambda>deployment. if d_ApplicationID deployment \<noteq> appID then bad_app_id
          else give 200 [] (DDeployment deployment))))"

definition DeploymentHandler_Diff :: "RouterDeps \<Rightarrow> http_handler" where
  "DeploymentHandler_Diff d r = with_id r ''deployment_id'' bad_deployment_id (\<lambda>deploymentID.
     answer (DeploymentService_Diff deploymentID) (deployment_errors (say 500 ''failed to compute deployment diff''))
       (\<lambda>diff. give 200 [] (DDiff diff)))"

definition DeploymentHandler_UpdateCommitInfo :: "RouterDeps \<Rightarrow> http_handler" where
  "DeploymentHandler_UpdateCommitInfo d r = with_id r ''id'' bad_deployment_id (\<lambda>deploymentID.
     decoded dec_DeploymentCommitInfoRequest r (\<lambda>(hash, msg).
     answer (DeploymentService_UpdateCommitInfo (rd_bus d) deploymentID hash msg)
       (deployment_errors (say 500 ''failed to update commit info'')) (\<lambda>_. say 200 ''commit info updated'')))"

section \<open>Logs and the audit log\<close>

definition LogHandler_Index :: "RouterDeps \<Rightarrow> http_handler" where
  "LogHandler_Index d r = (let q = rq_Query r in
     answer (LogService_List \<lparr>ll_opts = page_options q ''limit'' 10,
         ll_TraceID = GetUUID (rd_uuid_Parse d) q ''trace_id'', ll_JobID = None,
         ll_ServerID = GetUUID (rd_uuid_Parse d) q ''server_id'', ll_ApplicationID = GetInt64 q ''application_id'',
         ll_DeploymentID = GetInt64 q ''deployment_id'', ll_Levels = GetStringSlice q ''levels'',
         ll_Sources = GetStringSlice q ''sources'', ll_Actions = GetStringSlice q ''actions''\<rparr>)
       (\<lambda>_. say 500 ''failed to list logs'') (give_list DLogs))"

definition LogHandler_Store :: "RouterDeps \<Rightarrow> http_handler" where
  "LogHandler_Store d r = decoded (dec_LogEmitRequest (rd_uuid_Parse d) (rd_time_Parse d)) r (\<lambda>l.
     validated (rd_validate d) []
       (answer (LogService_Create (rd_bus d) l) (\<lambda>_. say 500 ''failed to create log'')
         (\<lambda>_. say 201 ''log created successfully'')))"

definition AuditLogHandler_Index :: "RouterDeps \<Rightarrow> http_handler" where
  "AuditLogHandler_Index d r = (let q = rq_Query r in
     answer (AuditLogService_List \<lparr>aul_opts = \<lparr>lo_Page = GetInt q ''page'' 1, lo_Limit = GetInt q ''limit'' 20,
           lo_Search = [], lo_IsPaginate = GetBool q ''paginate''\<rparr>,
         aul_Action = GetString q ''action'' [], aul_ResourceType = GetString q ''resource_type'' []\<rparr>)
       (\<lambda>_. say 500 ''failed to list audit logs'') (give_list DAuditLogs))"

section \<open>Settings\<close>

definition DefaultWebhookSettings :: WebhookSettings where
  "DefaultWebhookSettings = \<lparr>Enabled = False, URL = [], Secret = []\<rparr>"

definition loadWebhook :: "(world, WebhookSettings) op" where
  "loadWebhook = (\<lambda>w. case SettingsRepo_Get ''webhook'' w of
     (Inl e, w') \<Rightarrow> (if e = ErrSettingNotFound then (Inr DefaultWebhookSettings, w') else (Inl e, w'))
   | (Inr raw, w') \<Rightarrow> (dec_WebhookSettings raw, w'))"

definition webhookView :: "WebhookSettings \<Rightarrow> rdata" where
  "webhookView ws = DWebhook (Enabled ws) (URL ws) (if Secret ws \<noteq> [] then ''set'' else [])"

definition isValidWebhookURL :: "RouterDeps \<Rightarrow> string \<Rightarrow> bool" where
  "isValidWebhookURL d raw = (case rd_url_Parse d raw of
     None \<Rightarrow> False
   | Some (scheme, host) \<Rightarrow> (scheme = ''http'' \<or> scheme = ''https'') \<and> host \<noteq> [])"

definition SettingsHandler_GetWebhook :: "RouterDeps \<Rightarrow> http_handler" where
  "SettingsHandler_GetWebhook d r = answer loadWebhook (\<lambda>_. say 500 ''failed to load webhook settings'')
     (\<lambda>ws. give 200 [] (webhookView ws))"

definition merge_webhook :: "WebhookSettings \<Rightarrow> WebhookRequest \<Rightarrow> WebhookSettings" where
  "merge_webhook current req = \<lparr>
     Enabled = (case wr_Enabled req of None \<Rightarrow> Enabled current | Some b \<Rightarrow> b),
     URL = (if wr_URL req \<noteq> [] then wr_URL req else URL current),
     Secret = (if wr_Secret req = [] then Secret current
       else if wr_Secret req = ''reset'' then [] else wr_Secret req)\<rparr>"

definition enc_WebhookSettings :: "WebhookSettings \<Rightarrow> json" where
  "enc_WebhookSettings ws = JObj [(''enabled'', JBool (Enabled ws)), (''url'', JStr (URL ws)),
     (''secret'', JStr (Secret ws))]"

definition SettingsHandler_UpdateWebhook :: "RouterDeps \<Rightarrow> http_handler" where
  "SettingsHandler_UpdateWebhook d r = decoded dec_WebhookRequest r (\<lambda>req.
     after loadWebhook (\<lambda>_. say 500 ''failed to load webhook settings'') (\<lambda>current w.
     if wr_URL req \<noteq> [] \<and> \<not> isValidWebhookURL d (wr_URL req)
     then (say 400 ''webhook URL must be a valid http(s) URL'', w)
     else (let nxt = merge_webhook current req in
       answer (SettingsRepo_Set ''webhook'' (enc_WebhookSettings nxt))
         (\<lambda>_. say 500 ''failed to save webhook settings'') (\<lambda>_. give 200 [] (webhookView nxt)) w)))"

definition test_payload :: string where
  "test_payload = CHR 0x7B # [CHR 0x22] @ ''content'' @ [CHR 0x22, CHR 0x3A, CHR 0x22] @ check_mark @
     '' HorizonX webhook test ping.'' @ [CHR 0x22, CHR 0x7D]"

definition TestPing :: "RouterDeps \<Rightarrow> (world, int) op" where
  "TestPing d = (\<lambda>w. case webhook_settings (rd_webhook d) w of (ws, w') \<Rightarrow>
     if \<not> webhook_active ws then (Inl (ErrMsg ''webhook is not enabled or has no URL''), w')
     else (let resp = rd_post d (URL ws) (signature_header (rd_hmac d) ws test_payload) test_payload in
       case resp of
         None \<Rightarrow> (Inl (ErrMsg ''request failed''), w')
       | Some code \<Rightarrow> ((case post_result resp of Inl e \<Rightarrow> Inl e | Inr _ \<Rightarrow> Inr code), w')))"

definition SettingsHandler_TestWebhook :: "RouterDeps \<Rightarrow> http_handler" where
  "SettingsHandler_TestWebhook d r = answer (TestPing d)
     (\<lambda>e. say 502 (''webhook test ping failed: '' @ error_text e)) (\<lambda>code. give 200 [] (DTestPing code))"

end
