(* ===== verification/PublicRoutes.thy ===== *)
theory PublicRoutes
  imports Handlers
begin

text \<open>
  The routes of \<open>internal/adapters/http/router.go\<close> that have no handler in \<open>Handlers\<close>: the two public
  pages, the methods of \<open>MetricsHandler\<close>, and the handshakes of the two WebSocket endpoints
  (\<open>internal/adapters/ws/userws/handler.go\<close>, \<open>agentws/handler.go\<close>) up to the point where the
  connection is handed to its hub, which is in \<open>UserHub\<close> and \<open>AgentHub\<close>.
\<close>

section \<open>The public pages\<close>

definition text_reply :: "string \<Rightarrow> Reply" where
  "text_reply s = \<lparr>re_Status = 200, re_Headers = [], re_Cookies = [], re_Body = PlainText s\<rparr>"

definition health_page :: http_handler where
  "health_page r w = (text_reply ''OK'', w)"

text \<open>
  A scrape counts the jobs and the servers that are online; the registry, which keeps the last
  counts, and its text are \<open>rd_exposition\<close> here and in \<open>Observability\<close>.
\<close>

definition scrape_page :: "RouterDeps \<Rightarrow> http_handler" where
  "scrape_page d r w =
    (let (counts, w1) = JobRepo_CountsByStatus w; (online, w2) = ServerRepo_CountOnline w1
     in (text_reply (rd_exposition d counts online), w2))"

section \<open>Metrics\<close>

text \<open>
  The handlers work on the telemetry, the state of \<open>Metrics\<close>; of the tables of this router they
  change nothing. What is left of them here is the answer and the number of statements.
\<close>

definition MetricsHandler_route :: "RouterDeps \<Rightarrow> MetricsMethod \<Rightarrow> http_handler" where
  "MetricsHandler_route d m r w = (case rd_metrics d m r w of (rep, n) \<Rightarrow> (rep, w\<lparr>w_calls := w_calls w + n\<rparr>))"

section \<open>The handshake of a dashboard\<close>

definition CheckOrigin :: "string list \<Rightarrow> Request \<Rightarrow> bool" where
  "CheckOrigin allowedOrigins r \<longleftrightarrow> rq_Header r ''Origin'' = [] \<or> rq_Header r ''Origin'' \<in> set allowedOrigins"

text \<open>
  \<open>Serve\<close> up to the upgrade: the id of the client, or the refusal. The token's session is not
  looked up.
\<close>

definition userws_client :: "JWT \<Rightarrow> Config \<Rightarrow> Request \<Rightarrow> world \<Rightarrow> (Reply + string) \<times> world" where
  "userws_client jwt cfg r w =
    (let (clientID, w1) = (case rq_Cookie r ''horizonx_access_token'' of
        None \<Rightarrow> ([], w)
      | Some tokenString \<Rightarrow> (case ValidateToken jwt tokenString (cf_JWTSecret cfg) w of
          (Inl e, w1) \<Rightarrow> ([], w1)
        | (Inr claims, w1) \<Rightarrow> (show_int (ac_UserID claims), w1)))
     in if clientID = [] then (Inl (http_Error ''Unauthorized'' 401), w1) else (Inr clientID, w1))"

text \<open>
  \<open>Upgrade\<close> of package websocket is a parameter: given what \<open>CheckOrigin\<close> says, whether the
  connection is upgraded and what the peer is answered.
\<close>

definition userws_Serve :: "RouterDeps \<Rightarrow> http_handler" where
  "userws_Serve d r w = (case userws_client (rd_jwt d) (rd_cfg d) r w of
     (Inl reply, w1) \<Rightarrow> (reply, w1)
   | (Inr clientID, w1) \<Rightarrow> (snd (rd_Upgrade d (CheckOrigin (cf_AllowedOrigins (rd_cfg d)) r) r), w1))"

section \<open>The handshake of an agent\<close>

text \<open>The server and the secret the request names, or the refusal.\<close>

definition agent_credentials :: "(string \<Rightarrow> uuid option) \<Rightarrow> Request \<Rightarrow> Reply + (uuid \<times> string)" where
  "agent_credentials uuid_Parse r =
    (let auth = rq_Header r ''Authorization'' in
     if auth = [] then Inl (http_Error ''missing authorization header'' 401)
     else (case split2 (CHR '' '') auth of
         (scheme, Some token) \<Rightarrow>
           if scheme \<noteq> ''Bearer'' then Inl (http_Error ''unauthorized'' 401)
           else (case ValidateAgentCredentials uuid_Parse token of
               Inl err \<Rightarrow> Inl (http_Error (error_text err) 401)
             | Inr cred \<Rightarrow> Inr cred)
       | _ \<Rightarrow> Inl (http_Error ''unauthorized'' 401)))"

text \<open>An upgraded connection puts the server online; a failure of that only closes the connection.\<close>

definition agentws_route :: "RouterDeps \<Rightarrow> http_handler" where
  "agentws_route d r w = (case agent_credentials (rd_uuid_Parse d) r of
     Inl reply \<Rightarrow> (reply, w)
   | Inr (serverID, secret) \<Rightarrow> (case ServerService_AuthorizeAgent (rd_bcrypt d) serverID secret w of
       (Inl err, w1) \<Rightarrow> (http_Error ''invalid credentials'' 401, w1)
     | (Inr server, w1) \<Rightarrow> (case rd_Upgrade d True r of (upgraded, reply) \<Rightarrow>
         (reply, if upgraded then snd (ServerService_UpdateStatus (rd_bus d) serverID True w1) else w1))))"

end
