(* ===== verification/Router.thy ===== *)
theory Router
  imports PublicRoutes
begin

text \<open>
  \<open>NewRouter\<close> of \<open>internal/adapters/http/router.go\<close>: every route with its stack and its handler,
  and how \<open>http.ServeMux\<close> finds the route of a request.
\<close>

section \<open>Patterns\<close>

datatype segment = Lit string | Wild string

record Route =
  rt_Method :: string
  rt_Pattern :: "segment list"
  rt_Handler :: http_handler

text \<open>A wildcard matches one segment that is not empty and binds it.\<close>

fun match_path :: "segment list \<Rightarrow> string list \<Rightarrow> (string \<times> string) list option" where
  "match_path [] [] = Some []"
| "match_path (Lit l # ps) (s # ss) = (if s = l then match_path ps ss else None)"
| "match_path (Wild x # ps) (s # ss) = (if s = [] then None
     else case match_path ps ss of None \<Rightarrow> None | Some b \<Rightarrow> Some ((x, s) # b))"
| "match_path _ _ = None"

text \<open>Of two patterns that match a path, the one with a literal where they first differ wins.\<close>

fun more_specific :: "segment list \<Rightarrow> segment list \<Rightarrow> bool" where
  "more_specific (Lit l # ps) (Wild x # qs) = True"
| "more_specific (Wild x # ps) (Lit l # qs) = False"
| "more_specific (p # ps) (q # qs) = more_specific ps qs"
| "more_specific _ _ = True"

definition method_matches :: "string \<Rightarrow> string \<Rightarrow> bool" where
  "method_matches pattern_method m \<longleftrightarrow> m = pattern_method \<or> (pattern_method = ''GET'' \<and> m = ''HEAD'')"

definition route_matches :: "Request \<Rightarrow> Route \<Rightarrow> bool" where
  "route_matches r rt \<longleftrightarrow> method_matches (rt_Method rt) (rq_Method r) \<and> match_path (rt_Pattern rt) (rq_Path r) \<noteq> None"

definition find_route :: "Route list \<Rightarrow> Request \<Rightarrow> Route option" where
  "find_route routes r = (case order_by (\<lambda>a b. more_specific (rt_Pattern a) (rt_Pattern b))
       (filter (route_matches r) routes) of [] \<Rightarrow> None | rt # _ \<Rightarrow> Some rt)"

definition bind_path :: "Route \<Rightarrow> Request \<Rightarrow> Request" where
  "bind_path rt r = r\<lparr>rq_PathValue := (\<lambda>x. case match_path (rt_Pattern rt) (rq_Path r) of
     None \<Rightarrow> [] | Some b \<Rightarrow> (case map_of b x of None \<Rightarrow> [] | Some s \<Rightarrow> s))\<rparr>"

section \<open>The routes\<close>

definition route :: "Chain \<Rightarrow> string \<Rightarrow> segment list \<Rightarrow> http_handler \<Rightarrow> Route" where
  "route chain m p h = \<lparr>rt_Method = m, rt_Pattern = p, rt_Handler = Chain_Then chain h\<rparr>"

definition guarded :: "RouterDeps \<Rightarrow> string \<Rightarrow> Chain" where
  "guarded d perm = Chain_Extend (userStack (rd_jwt d) (rd_cfg d)) (Permission_mw perm)"

definition agent_routes :: "RouterDeps \<Rightarrow> Route list" where
  "agent_routes d = (let agents = agentStack (rd_bcrypt d) (rd_uuid_Parse d) in [
     route agents ''POST'' [Lit ''agent'', Lit ''logs''] (LogHandler_Store d),
     route agents ''GET'' [Lit ''agent'', Lit ''jobs''] (JobHandler_Pending d),
     route agents ''POST'' [Lit ''agent'', Lit ''jobs'', Wild ''id'', Lit ''start''] (JobHandler_Start d),
     route agents ''POST'' [Lit ''agent'', Lit ''jobs'', Wild ''id'', Lit ''finish''] (JobHandler_Finish d),
     route agents ''POST'' [Lit ''agent'', Lit ''metrics''] (MetricsHandler_route d Metrics_Ingest),
     route agents ''POST'' [Lit ''agent'', Lit ''applications'', Lit ''health''] (ApplicationHandler_ReportHealth d),
     route agents ''POST'' [Lit ''agent'', Lit ''deployments'', Wild ''id'', Lit ''commit-info'']
       (DeploymentHandler_UpdateCommitInfo d)])"

definition user_routes :: "RouterDeps \<Rightarrow> Route list" where
  "user_routes d = (let users = userStack (rd_jwt d) (rd_cfg d) in [
     route users ''GET'' [Lit ''auth'', Lit ''user''] (AuthHandler_User d),
     route users ''POST'' [Lit ''auth'', Lit ''logout''] (AuthHandler_Logout d),
     route users ''GET'' [Lit ''logs''] (LogHandler_Index d),
     route users ''GET'' [Lit ''jobs''] (JobHandler_Index d),
     route users ''GET'' [Lit ''jobs'', Wild ''id''] (JobHandler_Show d),
     route users ''GET'' [Lit ''jobs'', Lit ''summary''] (JobHandler_Summary d),
     route users ''POST'' [Lit ''jobs'', Wild ''id'', Lit ''retry''] (JobHandler_Retry d),
     route users ''POST'' [Lit ''account'', Lit ''profile''] (AccountHandler_Profile d),
     route users ''POST'' [Lit ''account'', Lit ''password''] (AccountHandler_Password d),
     route users ''GET'' [Lit ''audit-logs''] (AuditLogHandler_Index d),
     route users ''GET'' [Lit ''settings'', Lit ''webhook''] (SettingsHandler_GetWebhook d),
     route users ''PUT'' [Lit ''settings'', Lit ''webhook''] (SettingsHandler_UpdateWebhook d),
     route users ''POST'' [Lit ''settings'', Lit ''webhook'', Lit ''test''] (SettingsHandler_TestWebhook d)])"

definition read_routes :: "RouterDeps \<Rightarrow> Route list" where
  "read_routes d = (let reads = guarded d PermAppRead; metrics = guarded d PermMetricsRead;
     app = [Lit ''applications'', Wild ''id'']; server_metrics = [Lit ''servers'', Wild ''id'', Lit ''metrics''] in [
     route (guarded d PermServerRead) ''GET'' [Lit ''servers''] (ServerHandler_Index d),
     route metrics ''GET'' (server_metrics @ [Lit ''latest'']) (MetricsHandler_route d Metrics_Latest),
     route metrics ''GET'' (server_metrics @ [Lit ''cpu-usage-history'']) (MetricsHandler_route d Metrics_CPUUsageHistory),
     route metrics ''GET'' (server_metrics @ [Lit ''net-speed-history'']) (MetricsHandler_route d Metrics_NetSpeedHistory),
     route (guarded d PermMemberRead) ''GET'' [Lit ''users''] (UserHandler_Index d),
     route reads ''GET'' [Lit ''applications''] (ApplicationHandler_Index d),
     route reads ''GET'' app (ApplicationHandler_Show d),
     route reads ''GET'' (app @ [Lit ''deployments'']) (DeploymentHandler_Index d),
     route reads ''GET'' (app @ [Lit ''deployments'', Wild ''deployment_id'']) (DeploymentHandler_Show d),
     route reads ''GET'' (app @ [Lit ''deployments'', Wild ''deployment_id'', Lit ''diff''])
       (DeploymentHandler_Diff d)])"

definition write_routes :: "RouterDeps \<Rightarrow> Route list" where
  "write_routes d = (let servers = guarded d PermServerWrite; members = guarded d PermMemberWrite;
     writes = guarded d PermAppWrite; server = [Lit ''servers'', Wild ''id'']; member = [Lit ''users'', Wild ''id''];
     app = [Lit ''applications'', Wild ''id''] in [
     route servers ''POST'' [Lit ''servers''] (ServerHandler_Store d),
     route servers ''PUT'' server (ServerHandler_Update d),
     route servers ''DELETE'' server (ServerHandler_Destroy d),
     route servers ''POST'' (server @ [Lit ''rotate-secret'']) (ServerHandler_RotateSecret d),
     route members ''POST'' [Lit ''users''] (UserHandler_Store d),
     route members ''PUT'' member (UserHandler_Update d),
     route members ''DELETE'' member (UserHandler_Destroy d),
     route members ''POST'' (member @ [Lit ''revoke-sessions'']) (UserHandler_RevokeSessions d),
     route writes ''POST'' [Lit ''applications''] (ApplicationHandler_Store d),
     route writes ''PUT'' app (ApplicationHandler_Update d),
     route writes ''DELETE'' app (ApplicationHandler_Destroy d),
     route writes ''POST'' (app @ [Lit ''deploy'']) (ApplicationHandler_Deploy d),
     route writes ''POST'' (app @ [Lit ''rollback'']) (ApplicationHandler_Rollback d),
     route writes ''POST'' (app @ [Lit ''start'']) (ApplicationHandler_Start d),
     route writes ''POST'' (app @ [Lit ''stop'']) (ApplicationHandler_Stop d),
     route writes ''POST'' (app @ [Lit ''restart'']) (ApplicationHandler_Restart d),
     route writes ''POST'' (app @ [Lit ''env'']) (ApplicationHandler_AddEnvVar d),
     route writes ''PUT'' (app @ [Lit ''env'', Wild ''key'']) (ApplicationHandler_UpdateEnvVar d),
     route writes ''DELETE'' (app @ [Lit ''env'', Wild ''key'']) (ApplicationHandler_DeleteEnvVar d)])"

definition login_route :: "RouterDeps \<Rightarrow> Route" where
  "login_route d = route (loginStack (rd_cfg d)) ''POST'' [Lit ''auth'', Lit ''login''] (AuthHandler_Login d)"

text \<open>The routes without a stack; the registry of the counters is always there.\<close>

definition public_routes :: "RouterDeps \<Rightarrow> Route list" where
  "public_routes d = [
     route Chain_New ''GET'' [Lit ''health''] health_page,
     route Chain_New ''GET'' [Lit ''metrics''] (scrape_page d),
     route Chain_New ''GET'' [Lit ''ws'', Lit ''user''] (userws_Serve d),
     route Chain_New ''GET'' [Lit ''ws'', Lit ''agent''] (agentws_route d)]"

definition routes :: "RouterDeps \<Rightarrow> Route list" where
  "routes d = public_routes d @ login_route d # agent_routes d @ user_routes d @ read_routes d @ write_routes d"

text \<open>
  A request through the router's own middleware; \<open>None\<close> when no route matches it, and \<open>ServeMux\<close>
  itself answers 404, 405 or a redirect to the cleaned path. The request log and the request
  counters only observe. CORS answers an \<open>OPTIONS\<close> request before the routes are looked at.
\<close>

definition NewRouter :: "RouterDeps \<Rightarrow> Request \<Rightarrow> world \<Rightarrow> (Reply \<times> world) option" where
  "NewRouter d r w =
    (if rq_Method r = ''OPTIONS'' then Some (CORS (rd_cfg d) (\<lambda>_ w. (aborted, w)) r w)
     else map_option (\<lambda>rt. CORS (rd_cfg d) (\<lambda>r. rt_Handler rt (bind_path rt r)) r w)
       (find_route (routes d) r))"

section \<open>What a route lets through\<close>

lemma find_route_mem:
  assumes "find_route rts r = Some rt"
  shows "rt \<in> set rts \<and> route_matches r rt"
proof -
  let ?sorted = "order_by (\<lambda>a b. more_specific (rt_Pattern a) (rt_Pattern b)) (filter (route_matches r) rts)"
  from assms have "rt \<in> set ?sorted" by (cases ?sorted) (simp_all add: find_route_def)
  then show ?thesis by simp
qed

text \<open>The table is asked, or the request is a preflight.\<close>

lemma NewRouter_cases:
  assumes "NewRouter d r w = Some (rep, w')"
  obtains "rq_Method r = ''OPTIONS''" "w' = w"
  | rt where "rt \<in> set (routes d)" "route_matches r rt" "w' = snd (rt_Handler rt (bind_path rt r) w)"
      "re_Status rep = re_Status (fst (rt_Handler rt (bind_path rt r) w))"
proof (cases "rq_Method r = ''OPTIONS''")
  case True
  with assms that(1) show thesis by (simp add: NewRouter_def CORS_def Let_def)
next
  case False
  with assms obtain rt where rt: "find_route (routes d) r = Some rt"
    and run: "CORS (rd_cfg d) (\<lambda>r. rt_Handler rt (bind_path rt r)) r w = (rep, w')"
    by (auto simp: NewRouter_def)
  from run False have "w' = snd (rt_Handler rt (bind_path rt r) w)"
      "re_Status rep = re_Status (fst (rt_Handler rt (bind_path rt r) w))"
    by (auto simp: CORS_def add_headers_def Let_def)
  with find_route_mem [OF rt] that(2) show thesis by blast
qed

text \<open>The credentials an agent's request carries.\<close>

definition agent_of :: "RouterDeps \<Rightarrow> Request \<Rightarrow> (uuid \<times> string) option" where
  "agent_of d r = (case split2 (CHR '' '') (rq_Header r ''Authorization'') of
     (scheme, Some token) \<Rightarrow> if scheme \<noteq> ''Bearer'' then None
       else (case ValidateAgentCredentials (rd_uuid_Parse d) token of Inl _ \<Rightarrow> None | Inr c \<Rightarrow> Some c)
   | _ \<Rightarrow> None)"

text \<open>A live server with that id and a secret that matches its stored hash.\<close>

definition agent_authenticated :: "RouterDeps \<Rightarrow> Request \<Rightarrow> world \<Rightarrow> bool" where
  "agent_authenticated d r w \<longleftrightarrow> (\<exists>i secret s. agent_of d r = Some (i, secret) \<and> s \<in> set (w_servers w) \<and>
     live_server s \<and> s_ID s = i \<and> CompareHashAndPassword (rd_bcrypt d) (s_APIToken s) secret)"

lemma AuthorizeAgent_cases:
  obtains e c where "ServerService_AuthorizeAgent bc i secret w = (Inl e, w\<lparr>w_calls := c\<rparr>)"
  | srv s c where "ServerService_AuthorizeAgent bc i secret w = (Inr srv, w\<lparr>w_calls := c\<rparr>)" "s \<in> set (w_servers w)"
    "live_server s" "s_ID s = i" "CompareHashAndPassword bc (s_APIToken s) secret"
proof (cases "w_fault w (w_calls w)")
  case True
  then show thesis
    by (intro that(1) [of ErrInvalidCredentials "Suc (w_calls w)"])
      (simp add: ServerService_AuthorizeAgent_def ServerRepo_GetByID_def db_exec_def bindE_def catchE_def failE_def)
next
  case ok: False
  show thesis
  proof (cases "find (\<lambda>s. s_ID s = i \<and> live_server s) (w_servers w)")
    case None
    with ok show thesis
      by (intro that(1) [of ErrInvalidCredentials "Suc (w_calls w)"])
        (simp add: ServerService_AuthorizeAgent_def ServerRepo_GetByID_def db_exec_def bindE_def catchE_def failE_def)
  next
    case (Some s)
    have run: "ServerService_AuthorizeAgent bc i secret w = (if CompareHashAndPassword bc (s_APIToken s) secret
        then (Inr ((server_of_row s)\<lparr>s_ApplicationCount := 0\<rparr>), w\<lparr>w_calls := Suc (w_calls w)\<rparr>)
        else (Inl ErrInvalidCredentials, w\<lparr>w_calls := Suc (w_calls w)\<rparr>))"
      using ok Some by (simp add: ServerService_AuthorizeAgent_def ServerRepo_GetByID_def db_exec_def
          bindE_def catchE_def failE_def returnE_def server_of_row_def Server.truncate_def)
    show thesis
    proof (cases "CompareHashAndPassword bc (s_APIToken s) secret")
      case True
      with run find_Some_set [OF Some] show thesis by (intro that(2) [of _ "Suc (w_calls w)" s]) simp_all
    next
      case False
      with run show thesis by (intro that(1) [of ErrInvalidCredentials "Suc (w_calls w)"]) simp
    qed
  qed
qed

lemma Agent_gate:
  "let_through (\<lambda>r1. agent_authenticated d r w) next w (Agent (rd_bcrypt d) (rd_uuid_Parse d) next r w)"
proof (cases "agent_of d r")
  case None
  then show ?thesis
    by (auto simp: Agent_def agent_of_def http_Error_def Let_def aside_refl intro!: refused
        split: prod.splits option.splits sum.splits if_splits)
next
  case (Some c)
  obtain i secret where c: "c = (i, secret)" by force
  from Some c obtain token where t: "split2 (CHR '' '') (rq_Header r ''Authorization'') = (''Bearer'', Some token)"
      "ValidateAgentCredentials (rd_uuid_Parse d) token = Inr (i, secret)"
    by (auto simp: agent_of_def split: prod.splits option.splits if_splits sum.splits)
  then have ne: "rq_Header r ''Authorization'' \<noteq> []" by auto
  show ?thesis
  proof (rule AuthorizeAgent_cases [of "rd_bcrypt d" i secret w])
    fix e n
    assume "ServerService_AuthorizeAgent (rd_bcrypt d) i secret w = (Inl e, w\<lparr>w_calls := n\<rparr>)"
    with ne t show ?thesis by (simp add: Agent_def http_Error_def refused aside_calls aside_refl)
  next
    fix srv s n
    assume a: "ServerService_AuthorizeAgent (rd_bcrypt d) i secret w = (Inr srv, w\<lparr>w_calls := n\<rparr>)"
      and s: "s \<in> set (w_servers w)" "live_server s" "s_ID s = i" "CompareHashAndPassword (rd_bcrypt d) (s_APIToken s) secret"
    then have "agent_authenticated d r w" using Some c by (auto simp: agent_authenticated_def)
    with ne t a show ?thesis by (simp add: Agent_def handed_on aside_calls aside_refl)
  qed
qed

section \<open>Strangers\<close>

text \<open>All of the state but Redis, the limiter's table and the sources of randomness.\<close>

definition tables :: "world \<Rightarrow> world" where
  "tables w = w\<lparr>w_calls := 0, w_uuids := 0, w_rands := 0, w_redis := w_redis empty_world, w_login_hits := (\<lambda>_. [])\<rparr>"

definition same_tables :: "world \<Rightarrow> world \<Rightarrow> bool" where
  "same_tables w w' \<longleftrightarrow> tables w' = tables w"

interpretation st: db_guarantee same_tables
  by unfold_locales (simp_all add: same_tables_def tables_def)

lemma aside_same_tables: "aside w w' \<Longrightarrow> same_tables w w'"
  by (auto simp: aside_def same_tables_def tables_def)

lemma Login_same_tables: "guarantees same_tables (AuthService_Login s ip agent req)"
proof -
  have "guarantees same_tables (user_joined p)" for p
    unfolding user_joined_def by (intro st.db_rules guaranteesI) (simp add: same_tables_def Let_def split: option.split)
  moreover have "guarantees same_tables (SessionStore_Create sess)" for sess
    unfolding SessionStore_Create_def redis_update_def
    by (intro st.db_rules guaranteesI) (simp add: same_tables_def tables_def)
  ultimately show ?thesis
    unfolding AuthService_Login_def UserRepo_GetByEmail_def uuid_NewString_def
    by (intro st.db_rules)
qed

lemma AuthHandler_Login_same: "same_tables w (snd (AuthHandler_Login d r w))"
  unfolding AuthHandler_Login_def
  by (auto simp: decoded_def validated_def Let_def st.refl split: sum.split
      intro!: st.g_after Login_same_tables)

lemma login_same: "same_tables w (snd (rt_Handler (login_route d) r w))"
proof -
  have "same_tables w (w\<lparr>w_login_hits := h\<rparr>)" for h by (simp add: same_tables_def tables_def)
  then show ?thesis
    using st.trans [OF _ AuthHandler_Login_same]
    by (auto simp: login_route_def route_def loginStack_def Chain_Then_Use Chain_Then_New
        Limiter_Middleware_def split: prod.split bool.split)
qed

lemma authenticated_bind_path [simp]: "authenticated jwt cfg (bind_path rt r) w u = authenticated jwt cfg r w u"
  by (simp add: authenticated_def bind_path_def)

lemma agent_authenticated_bind_path [simp]: "agent_authenticated d (bind_path rt r) w = agent_authenticated d r w"
  by (simp add: agent_authenticated_def agent_of_def bind_path_def)

definition refuses :: "http_handler \<Rightarrow> Request \<Rightarrow> world \<Rightarrow> bool" where
  "refuses h r w \<longleftrightarrow> re_Status (fst (h r w)) \<in> {401, 403} \<and> aside w (snd (h r w))"

lemma refuses_unless: "let_through P next w (h r w) \<Longrightarrow> (\<And>r1. \<not> P r1) \<Longrightarrow> refuses h r w"
  by (simp add: let_through_def refuses_def)

lemma users_refuse:
  "(\<And>u. \<not> authenticated jwt cfg r w u) \<Longrightarrow> refuses (Chain_Then (userStack jwt cfg) h) r w"
  by (rule refuses_unless [OF userStack_gate]) blast

lemma guarded_refuses:
  "(\<And>u. \<not> authenticated (rd_jwt d) (rd_cfg d) r w u) \<Longrightarrow> refuses (Chain_Then (guarded d p) h) r w"
  unfolding guarded_def Chain_Then_Extend by (rule users_refuse)

lemma agents_refuse:
  "\<not> agent_authenticated d r w \<Longrightarrow> refuses (Chain_Then (agentStack (rd_bcrypt d) (rd_uuid_Parse d)) h) r w"
  unfolding agentStack_def Chain_Then_Use Chain_Then_New by (rule refuses_unless [OF Agent_gate])

lemma route_handler [simp]: "rt_Handler (route c m p h) = Chain_Then c h"
  by (simp add: route_def)

lemma other_routes_refuse:
  assumes "\<And>u. \<not> authenticated (rd_jwt d) (rd_cfg d) r w u" and "\<not> agent_authenticated d r w"
    and "rt \<in> set (agent_routes d @ user_routes d @ read_routes d @ write_routes d)"
  shows "refuses (rt_Handler rt) r w"
proof -
  have "refuses (Chain_Then (userStack (rd_jwt d) (rd_cfg d)) h) r w" for h
    by (rule users_refuse) (rule assms(1))
  moreover have "refuses (Chain_Then (guarded d p) h) r w" for p h
    by (rule guarded_refuses) (rule assms(1))
  moreover have "refuses (Chain_Then (agentStack (rd_bcrypt d) (rd_uuid_Parse d)) h) r w" for h
    by (rule agents_refuse) (rule assms(2))
  ultimately show ?thesis
    using assms(3) unfolding agent_routes_def user_routes_def read_routes_def write_routes_def Let_def by auto
qed

lemma login_path: "route_matches r (login_route d) \<Longrightarrow> rq_Path r = [''auth'', ''login'']"
proof -
  assume "route_matches r (login_route d)"
  then have "match_path [Lit ''auth'', Lit ''login''] (rq_Path r) \<noteq> None"
    by (simp add: route_matches_def login_route_def route_def)
  then show ?thesis
    by (cases "rq_Path r" rule: list.exhaust; cases "tl (rq_Path r)" rule: list.exhaust;
        cases "tl (tl (rq_Path r))" rule: list.exhaust) (auto split: if_splits)
qed

text \<open>The public routes, to a stranger.\<close>

lemma agent_credentials_of: "agent_credentials (rd_uuid_Parse d) r = Inr c \<Longrightarrow> agent_of d r = Some c"
  by (auto simp: agent_credentials_def agent_of_def Let_def split: prod.splits option.splits sum.splits if_splits)

lemma agent_credentials_refusal: "agent_credentials up r = Inl rep \<Longrightarrow> re_Status rep = 401"
  by (auto simp: agent_credentials_def http_Error_def Let_def split: prod.splits option.splits sum.splits if_splits)

lemma agentws_refuses:
  assumes "\<not> agent_authenticated d r w"
  shows "refuses (agentws_route d) r w"
proof (cases "agent_credentials (rd_uuid_Parse d) r")
  case (Inl rep)
  then show ?thesis by (simp add: refuses_def agentws_route_def agent_credentials_refusal aside_refl)
next
  case (Inr c)
  obtain i secret where c: "c = (i, secret)" by force
  show ?thesis
  proof (rule AuthorizeAgent_cases [of "rd_bcrypt d" i secret w])
    fix e n
    assume "ServerService_AuthorizeAgent (rd_bcrypt d) i secret w = (Inl e, w\<lparr>w_calls := n\<rparr>)"
    with Inr c show ?thesis by (simp add: refuses_def agentws_route_def http_Error_def aside_step)
  next
    fix srv s n
    assume "s \<in> set (w_servers w)" "live_server s" "s_ID s = i" "CompareHashAndPassword (rd_bcrypt d) (s_APIToken s) secret"
    with agent_credentials_of [OF Inr] c have "agent_authenticated d r w" by (auto simp: agent_authenticated_def)
    with assms show ?thesis by simp
  qed
qed

lemma scrape_aside: "aside w (snd (scrape_page d r w))"
proof -
  have "guarantees aside JobRepo_CountsByStatus" "guarantees aside ServerRepo_CountOnline"
    unfolding JobRepo_CountsByStatus_def ServerRepo_CountOnline_def by (intro ag.db_rules)+
  from guaranteesD [OF this(1)] guaranteesD [OF this(2)] aside_trans show ?thesis
    by (auto simp: scrape_page_def Let_def split: prod.split) blast
qed

lemma userws_aside: "aside w (snd (userws_Serve d r w))"
  by (auto simp: userws_Serve_def userws_client_def ValidateToken_result Let_def aside_refl split: option.split sum.split)

definition public_paths :: "string list list" where
  "public_paths = [[''health''], [''metrics''], [''ws'', ''user'']]"

lemma match_lits: "match_path (map Lit ls) path \<noteq> None \<longleftrightarrow> path = ls"
  by (induction ls arbitrary: path) (simp_all add: neq_Nil_conv split: list.split, (case_tac path; simp split: if_splits)+)

lemma public_route_to_stranger:
  assumes "rt \<in> set (public_routes d)" and "route_matches r rt" and "\<not> agent_authenticated d r w"
  shows "refuses (rt_Handler rt) (bind_path rt r) w \<or>
    (rq_Path r \<in> set public_paths \<and> aside w (snd (rt_Handler rt (bind_path rt r) w)))"
proof -
  have path: "rq_Path r = ls" if "rt = route c m (map Lit ls) h" for c m ls h
    using assms(2) that match_lits [of ls "rq_Path r"] by (simp add: route_matches_def route_def)
  have "refuses (agentws_route d) (bind_path rt r) w" by (rule agentws_refuses) (simp add: assms(3))
  moreover have "aside w (snd (health_page r' w))" for r' by (simp add: health_page_def aside_refl)
  ultimately show ?thesis
    using assms(1) path [of Chain_New "''GET''" "[''health'']" health_page]
      path [of Chain_New "''GET''" "[''metrics'']" "scrape_page d"] path [of Chain_New "''GET''" "[''ws'', ''user'']" "userws_Serve d"]
    by (auto simp: public_routes_def public_paths_def Chain_Then_New scrape_aside userws_aside)
qed


definition stranger :: Request where
  "stranger = \<lparr>rq_Method = ''DELETE'', rq_Path = [''applications'', ''1''], rq_PathValue = (\<lambda>_. []),
     rq_Query = (\<lambda>_. []), rq_Header = (\<lambda>_. []), rq_Cookie = (\<lambda>_. None), rq_Body = None,
     rq_RemoteAddr = [], rq_User = None, rq_ServerID = None\<rparr>"

lemma find_route_Some: "rt \<in> set rts \<Longrightarrow> route_matches r rt \<Longrightarrow> find_route rts r \<noteq> None"
proof -
  assume a: "rt \<in> set rts" "route_matches r rt"
  let ?sorted = "order_by (\<lambda>a b. more_specific (rt_Pattern a) (rt_Pattern b)) (filter (route_matches r) rts)"
  from a have "rt \<in> set ?sorted" by simp
  then show ?thesis by (cases ?sorted) (simp_all add: find_route_def)
qed

lemma stranger_has_route: "find_route (routes d) stranger \<noteq> None"
proof (rule find_route_Some)
  show "route (guarded d PermAppWrite) ''DELETE'' [Lit ''applications'', Wild ''id''] (ApplicationHandler_Destroy d)
      \<in> set (routes d)"
    by (simp add: routes_def write_routes_def Let_def)
qed (simp add: route_matches_def route_def method_matches_def stranger_def)


end
