(* ===== verification/Access.thy ===== *)
theory Access
  imports Router
begin

text \<open>
  What a request may change, by its method and by the role of its user: the routes that read
  change nothing, and a user who is not an administrator cannot change servers, users or
  applications.
\<close>

section \<open>Operations that only read\<close>

lemma aside_ignored:
  "(\<And>w. snd (m w) = w) \<Longrightarrow> guarantees aside m"
  by (rule guaranteesI) (simp add: aside_refl)

lemma aside_handled:
  assumes "guarantees aside m"
  shows "guarantees aside (\<lambda>w. case m w of (Inl e, w') \<Rightarrow> (f e, w') | (Inr x, w') \<Rightarrow> (g x, w'))"
  by (rule guaranteesI) (auto split: prod.split sum.split dest: guaranteesD [OF assms])

lemma reads_jobs:
  "guarantees aside (JobService_List jo)" "guarantees aside (JobService_GetPending s)"
  "guarantees aside (JobRepo_GetByID i)" "guarantees aside JobService_Summary"
  unfolding JobService_List_def JobRepo_List_def JobService_GetPending_def JobRepo_GetPending_def
    JobRepo_GetByID_def JobService_Summary_def JobRepo_CountsByStatus_def Let_def
  by (intro ag.db_rules ag.g_paged aside_ignored; simp split: option.split)+

lemma reads_logs: "guarantees aside (LogService_List lo)"
  unfolding LogService_List_def LogRepo_List_def Let_def
  by (intro ag.db_rules ag.g_paged aside_ignored) (auto intro: ag.db_rules)

lemma reads_job: "guarantees aside (JobService_GetByID i)"
  unfolding JobService_GetByID_def by (intro ag.db_rules reads_jobs reads_logs)

lemma reads_deployments:
  "guarantees aside (DeploymentService_List dlo)" "guarantees aside (DeploymentRepo_GetByID i)"
  unfolding DeploymentService_List_def DeploymentRepo_List_def DeploymentRepo_GetByID_def Let_def
  by (intro ag.db_rules ag.g_paged aside_ignored; simp split: option.split)+

lemma reads_deployment: "guarantees aside (DeploymentService_GetByID i)"
  unfolding DeploymentService_GetByID_def by (intro ag.db_rules reads_deployments reads_logs)

lemma reads_diff: "guarantees aside (DeploymentService_Diff i)"
proof -
  show ?thesis
    unfolding DeploymentService_Diff_def Let_def by (intro ag.db_rules reads_deployments aside_handled)
qed

lemma reads_apps:
  "guarantees aside (AppService_List alo)" "guarantees aside (AppService_GetByID i)"
  "guarantees aside (AppService_ListEnvVars repo i)"
proof -
  show "guarantees aside (AppService_List alo)" "guarantees aside (AppService_GetByID i)"
    unfolding AppService_List_def AppRepo_List_def AppService_GetByID_def AppRepo_GetByID_def Let_def
    by (intro ag.db_rules ag.g_paged aside_ignored; simp split: option.split)+
  moreover have "guarantees aside (case x of Inl e \<Rightarrow> failE e | Inr y \<Rightarrow> returnE y)" for x :: "error + 'a"
    by (cases x) (simp_all add: ag.g_fail ag.g_return)
  ultimately show "guarantees aside (AppService_ListEnvVars repo i)"
    unfolding AppService_ListEnvVars_def AppRepo_ListEnvVars_def AppService_GetByID_def
    by (intro ag.db_rules)
qed

lemma reads_servers: "guarantees aside (ServerService_List so)"
  unfolding ServerService_List_def ServerRepo_List_def Let_def
  by (intro ag.db_rules ag.g_paged)

lemma reads_users: "guarantees aside (UserService_List uo)" "guarantees aside (AuthService_GetUser u)"
proof -
  show "guarantees aside (UserService_List uo)"
    unfolding UserService_List_def UserRepo_List_def Let_def
    by (intro ag.db_rules aside_ignored) (simp split: option.split)
  have "guarantees aside (user_joined p)" for p
    unfolding user_joined_def by (intro ag.db_rules aside_ignored) (simp split: option.split)
  then show "guarantees aside (AuthService_GetUser u)"
    unfolding AuthService_GetUser_def UserRepo_GetByID_def by (intro ag.db_rules)
qed

lemma reads_audit: "guarantees aside (AuditLogService_List ao)"
proof -
  have "guarantees aside (AuditLogRepo_List ao')" for ao'
    unfolding AuditLogRepo_List_def by (intro ag.db_rules aside_ignored) (simp split: option.split)
  then show ?thesis
    unfolding AuditLogService_List_def Let_def by (intro ag.g_bind) (auto intro: ag.g_return)
qed

lemma reads_webhook: "guarantees aside loadWebhook"
proof -
  have "guarantees aside (SettingsRepo_Get k)" for k
    unfolding SettingsRepo_Get_def by (intro ag.db_rules aside_ignored) (simp split: option.split)
  from guaranteesD [OF this] show ?thesis
    by (intro guaranteesI) (auto simp: loadWebhook_def split: prod.split sum.split)
qed

section \<open>Routes that read\<close>

definition quiet :: "http_handler \<Rightarrow> bool" where
  "quiet h \<longleftrightarrow> (\<forall>r w. aside w (snd (h r w)))"

lemma quietI: "(\<And>r w. aside w (snd (h r w))) \<Longrightarrow> quiet h"
  by (simp add: quiet_def)

lemma let_through_quiet: "let_through P next w p \<Longrightarrow> quiet next \<Longrightarrow> aside w (snd p)"
  unfolding let_through_def quiet_def by (metis aside_trans)

lemma Permission_quiet: "quiet h \<Longrightarrow> quiet (Permission_mw p h)"
  by (rule quietI) (rule let_through_quiet [OF Permission_gate])

lemma chain_quiet:
  assumes "quiet h"
  shows "quiet (Chain_Then (userStack jwt cfg) h)" and "quiet (Chain_Then (guarded d p) h)"
    and "quiet (Chain_Then (agentStack (rd_bcrypt d) (rd_uuid_Parse d)) h)"
proof -
  have users: "quiet (Chain_Then (userStack jwt cfg) h)" if "quiet h" for h jwt cfg
    by (rule quietI, rule let_through_quiet [OF userStack_gate that])
  from assms show "quiet (Chain_Then (userStack jwt cfg) h)" by (rule users)
  from assms show "quiet (Chain_Then (guarded d p) h)"
    unfolding guarded_def Chain_Then_Extend by (intro users Permission_quiet)
  from assms show "quiet (Chain_Then (agentStack (rd_bcrypt d) (rd_uuid_Parse d)) h)"
    unfolding agentStack_def Chain_Then_Use Chain_Then_New
    by (intro quietI) (rule let_through_quiet [OF Agent_gate])
qed

lemma with_id_quiet: "(\<And>i w. aside w (snd (k i w))) \<Longrightarrow> aside w (snd (with_id r n bad k w))"
  by (simp add: with_id_def aside_refl split: option.split)

lemma readers_quiet:
  "quiet (JobHandler_Pending d)" "quiet (AuthHandler_User d)" "quiet (LogHandler_Index d)"
  "quiet (JobHandler_Index d)" "quiet (JobHandler_Show d)" "quiet (JobHandler_Summary d)"
  "quiet (AuditLogHandler_Index d)" "quiet (SettingsHandler_GetWebhook d)" "quiet (ServerHandler_Index d)"
  "quiet (UserHandler_Index d)" "quiet (ApplicationHandler_Index d)" "quiet (ApplicationHandler_Show d)"
  "quiet (DeploymentHandler_Index d)" "quiet (DeploymentHandler_Show d)" "quiet (DeploymentHandler_Diff d)"
  unfolding JobHandler_Pending_def AuthHandler_User_def LogHandler_Index_def JobHandler_Index_def
    JobHandler_Show_def JobHandler_Summary_def AuditLogHandler_Index_def SettingsHandler_GetWebhook_def
    ServerHandler_Index_def UserHandler_Index_def ApplicationHandler_Index_def ApplicationHandler_Show_def
    DeploymentHandler_Index_def DeploymentHandler_Show_def DeploymentHandler_Diff_def with_server_def Let_def
  by (intro quietI with_id_quiet ag.g_after ag.g_answer; simp add: aside_refl ag.g_after ag.g_answer
      reads_jobs reads_logs reads_job reads_deployments reads_deployment
      reads_diff reads_apps reads_servers reads_users reads_audit reads_webhook split: option.split)+

lemma public_quiet:
  "quiet (MetricsHandler_route d m)" "quiet health_page" "quiet (scrape_page d)" "quiet (userws_Serve d)"
  by (simp_all add: quiet_def MetricsHandler_route_def health_page_def scrape_aside userws_aside aside_refl aside_step
      split: prod.split)

lemma get_route_quiet:
  assumes "rt \<in> set (routes d)" and "rt_Method rt = ''GET''" and "rt_Pattern rt \<noteq> [Lit ''ws'', Lit ''agent'']"
  shows "quiet (rt_Handler rt)"
  using assms unfolding routes_def public_routes_def login_route_def agent_routes_def user_routes_def read_routes_def write_routes_def Let_def
  by (auto simp: route_def Chain_Then_New public_quiet intro!: chain_quiet readers_quiet public_quiet)

lemma safe_route_is_get:
  assumes "rt \<in> set (routes d)" and "route_matches r rt" and "rq_Method r \<in> {''GET'', ''HEAD''}"
  shows "rt_Method rt = ''GET''"
  using assms unfolding routes_def public_routes_def login_route_def agent_routes_def user_routes_def read_routes_def
    write_routes_def Let_def
  by (auto simp: route_def route_matches_def method_matches_def)

text \<open>
  Safe methods are safe: but for the handshake of an agent, which puts its server online, a GET or HEAD
  request changes nothing of the state, whoever sends it and whatever the database does.
\<close>

theorem reads_change_nothing:
  assumes run: "NewRouter d r w = Some (rep, w')" and safe: "rq_Method r \<in> {''GET'', ''HEAD''}"
    and no_agent: "rq_Path r \<noteq> [''ws'', ''agent'']"
  shows "aside w w'"
proof (rule NewRouter_cases [OF run])
  assume "w' = w"
  then show ?thesis by (simp add: aside_refl)
next
  fix rt
  assume rt: "rt \<in> set (routes d)" "route_matches r rt" and w': "w' = snd (rt_Handler rt (bind_path rt r) w)"
  have "rt_Pattern rt \<noteq> [Lit ''ws'', Lit ''agent'']"
    using rt(2) no_agent match_lits [of "[''ws'', ''agent'']" "rq_Path r"] by (auto simp: route_matches_def)
  with get_route_quiet [OF rt(1) safe_route_is_get [OF rt safe]] w' show ?thesis by (simp add: quiet_def)
qed

definition reader :: Request where
  "reader = stranger\<lparr>rq_Method := ''GET''\<rparr>"

lemma reader_has_route: "find_route (routes d) reader \<noteq> None"
proof (rule find_route_Some)
  show "route (guarded d PermAppRead) ''GET'' [Lit ''applications'', Wild ''id''] (ApplicationHandler_Show d)
      \<in> set (routes d)"
    by (simp add: routes_def read_routes_def Let_def)
qed (simp add: route_matches_def route_def method_matches_def stranger_def reader_def)

theorem reads_change_nothing_witness:
  "\<forall>d w. \<exists>rep w'. NewRouter d reader w = Some (rep, w') \<and> aside w w'"
proof (intro allI)
  fix d w
  obtain rt where "find_route (routes d) reader = Some rt" using reader_has_route [of d] by blast
  then obtain rep w' where run: "NewRouter d reader w = Some (rep, w')"
    by (auto simp: NewRouter_def stranger_def reader_def) (metis surj_pair)
  have "rq_Method reader \<in> {''GET'', ''HEAD''}" "rq_Path reader \<noteq> [''ws'', ''agent'']" by (simp_all add: reader_def stranger_def)
  with reads_change_nothing [OF run] run show "\<exists>rep w'. NewRouter d reader w = Some (rep, w') \<and> aside w w'" by blast
qed

section \<open>Routes that write\<close>

lemma write_permissions_are_admin:
  "HasPermission (Some u) p = Inr () \<Longrightarrow> p \<in> {PermServerWrite, PermMemberWrite, PermAppWrite} \<Longrightarrow> uc_Role u = RoleAdmin"
  by (auto simp: HasPermission_def roleHasPermissions_def perm_defs split: option.splits if_splits)

lemma write_chain_refuses:
  assumes "\<And>u. authenticated (rd_jwt d) (rd_cfg d) r w u \<Longrightarrow> uc_Role u \<noteq> RoleAdmin"
    and "p \<in> {PermServerWrite, PermMemberWrite, PermAppWrite}"
  shows "refuses (Chain_Then (guarded d p) h) r w"
  unfolding guarded_def by (rule refuses_unless [OF guarded_gate]) (use assms write_permissions_are_admin in blast)

lemma write_route_refuses:
  assumes "\<And>u. authenticated (rd_jwt d) (rd_cfg d) r w u \<Longrightarrow> uc_Role u \<noteq> RoleAdmin" and "rt \<in> set (write_routes d)"
  shows "refuses (rt_Handler rt) r w"
proof -
  have "refuses (Chain_Then (guarded d PermServerWrite) h) r w" "refuses (Chain_Then (guarded d PermMemberWrite) h) r w"
    "refuses (Chain_Then (guarded d PermAppWrite) h) r w" for h
    by (rule write_chain_refuses, erule assms(1), simp)+
  with assms(2) show ?thesis unfolding write_routes_def Let_def by auto
qed

lemma match_path_head: "match_path (Lit l # ps) path \<noteq> None \<Longrightarrow> path = x # xs \<Longrightarrow> x = l"
  by (auto split: if_splits)

lemma is_write_route:
  assumes "rt \<in> set (routes d)" and "route_matches r rt" and "rq_Path r = x # xs"
    and "x \<in> {''servers'', ''users'', ''applications''}" and "rq_Method r \<notin> {''GET'', ''HEAD'', ''OPTIONS''}"
  shows "rt \<in> set (write_routes d)"
proof (rule ccontr)
  assume "rt \<notin> set (write_routes d)"
  with assms(1) have "rt \<in> set (public_routes d @ login_route d # agent_routes d @ user_routes d @ read_routes d)"
    by (simp add: routes_def)
  with assms(2-) show False
    unfolding public_routes_def login_route_def agent_routes_def user_routes_def read_routes_def Let_def
    by (auto simp: route_def route_matches_def method_matches_def split: if_splits)
qed


text \<open>A viewer with a valid token, the CSRF token and a live session.\<close>

definition viewer :: Request where
  "viewer = stranger\<lparr>rq_Cookie := (\<lambda>_. Some ''t''), rq_Header := (\<lambda>_. ''t'')\<rparr>"

definition viewer_deps :: "RouterDeps \<Rightarrow> RouterDeps" where
  "viewer_deps d = d\<lparr>rd_jwt := \<lparr>SignedString = (\<lambda>_ _. None), ParseWithClaims = (\<lambda>_ _ _. Some
     \<lparr>ac_UserID = 7, ac_Role = RoleViewer, ac_SessionID = [], ac_ExpiresAt = 0, ac_IssuedAt = 0, ac_Subject = []\<rparr>)\<rparr>\<rparr>"


section \<open>Logging out\<close>

text \<open>
  C17. A logout that succeeds kills the session's token: from then on, at any time and whatever
  fails, until the session store changes, the middleware answers 401 to every request whose token
  names the session and does not run the handler, even though the token has not expired. The
  other sessions stay.
\<close>

theorem logout_kills_token:
  assumes ok: "sessions_indexed w" and run: "AuthService_Logout (Some u) w = (Inr x, w')"
    and session: "uc_SessionID u \<noteq> []" and later: "w_redis w2 = w_redis w'"
    and token: "\<And>cookie now claims. rq_Cookie r ''horizonx_access_token'' = Some cookie \<Longrightarrow>
      ParseWithClaims jwt (cf_JWTSecret cfg) cookie now = Some claims \<Longrightarrow> ac_SessionID claims = uc_SessionID u"
  shows "(\<exists>msg c. \<forall>next. JWT_mw jwt cfg next r w2 = (http_Error msg 401, w2\<lparr>w_calls := c\<rparr>)) \<and>
    live_session w' = (live_session w)(uc_SessionID u := None)"
proof -
  from run session have "SessionStore_Delete (uc_SessionID u) w = (Inr x, w')" by (simp add: AuthService_Logout_def)
  then have gone: "rd_sess (w_redis w') (uc_SessionID u) = None"
    and live: "live_session w' = (live_session w)(uc_SessionID u := None)"
    using SessionStore_Delete_cases [of "uc_SessionID u" w] redis_sessions.delete_live [OF ok] by auto
  have none: "live_session w2 (uc_SessionID u) = None" using gone by (simp add: live_session_def later)
  show ?thesis
  proof (rule conjI [OF _ live])
    consider "rq_Cookie r ''horizonx_access_token'' = None"
      | c where "rq_Cookie r ''horizonx_access_token'' = Some c" "ParseWithClaims jwt (cf_JWTSecret cfg) c (w_now w2) = None"
      | c claims where "rq_Cookie r ''horizonx_access_token'' = Some c"
          "ParseWithClaims jwt (cf_JWTSecret cfg) c (w_now w2) = Some claims" "ac_SessionID claims = uc_SessionID u"
      using token by (metis option.exhaust)
    then show "\<exists>msg c. \<forall>next. JWT_mw jwt cfg next r w2 = (http_Error msg 401, w2\<lparr>w_calls := c\<rparr>)"
    proof cases
      case 1
      then show ?thesis by (intro exI [of _ "''Unauthorized: No token found''"] exI [of _ "w_calls w2"]) (simp add: JWT_mw_def)
    next
      case 2
      then show ?thesis
        by (intro exI [of _ "''Unauthorized: Invalid token''"] exI [of _ "w_calls w2"]) (simp add: JWT_mw_def ValidateToken_result)
    next
      case 3
      then show ?thesis
        using SessionStore_Get_result [of "uc_SessionID u" w2] none session
        by (intro exI [of _ "''Unauthorized: Session revoked''"] exI [of _ "Suc (w_calls w2)"])
          (auto simp: JWT_mw_def ValidateToken_result)
    qed
  qed
qed

text \<open>Before the logout the same request is let through.\<close>

definition s7_jwt :: JWT where
  "s7_jwt = \<lparr>SignedString = (\<lambda>_ _. None), ParseWithClaims = (\<lambda>_ _ _. Some \<lparr>ac_UserID = 7, ac_Role = ''admin'',
     ac_SessionID = ''s7'', ac_ExpiresAt = 90, ac_IssuedAt = 0, ac_Subject = []\<rparr>)\<rparr>"

theorem logout_kills_token_witness:
  "\<forall>cfg :: Config. \<exists>w'. AuthService_Logout (Some example_user) logged_in_world = (Inr (), w') \<and>
    (\<exists>msg c. \<forall>next. JWT_mw s7_jwt cfg next viewer w' = (http_Error msg 401, w'\<lparr>w_calls := c\<rparr>)) \<and>
    JWT_mw s7_jwt cfg (\<lambda>_ w. (say 200 [], w)) viewer logged_in_world = (say 200 [], logged_in_world\<lparr>w_calls := 1\<rparr>)"
proof
  fix cfg :: Config
  let ?run = "AuthService_Logout (Some example_user) logged_in_world"
  have ok: "sessions_indexed logged_in_world"
    by (simp add: sessions_indexed_def logged_in_world_def session_of_def)
  have "fst ?run = Inr ()"
    by (simp add: AuthService_Logout_def example_user_def SessionStore_Delete_def SessionStore_Get_def redis_exec_def
        redis_update_def bindE_def logged_in_world_def empty_world_def getsE_def modifyE_def Let_def)
  then have run: "?run = (Inr (), snd ?run)" by (metis prod.collapse)
  have sid: "uc_SessionID example_user \<noteq> []" by (simp add: example_user_def)
  have parse: "ParseWithClaims s7_jwt (cf_JWTSecret cfg) cookie now = Some claims \<Longrightarrow> ac_SessionID claims = uc_SessionID example_user"
    for cookie now claims by (auto simp: s7_jwt_def example_user_def)
  have "JWT_mw s7_jwt cfg (\<lambda>_ w. (say 200 [], w)) viewer logged_in_world = (say 200 [], logged_in_world\<lparr>w_calls := 1\<rparr>)"
    by (simp add: JWT_mw_def viewer_def ValidateToken_result s7_jwt_def SessionStore_Get_def redis_exec_def
        logged_in_world_def empty_world_def session_of_def live_session_def getsE_def Let_def)
  moreover have "\<exists>msg c. \<forall>next. JWT_mw s7_jwt cfg next viewer (snd ?run) = (http_Error msg 401, (snd ?run)\<lparr>w_calls := c\<rparr>)"
    by (rule conjunct1 [OF logout_kills_token [OF ok run sid refl]]) (rule parse)
  ultimately show "\<exists>w'. ?run = (Inr (), w') \<and>
    (\<exists>msg c. \<forall>next. JWT_mw s7_jwt cfg next viewer w' = (http_Error msg 401, w'\<lparr>w_calls := c\<rparr>)) \<and>
    JWT_mw s7_jwt cfg (\<lambda>_ w. (say 200 [], w)) viewer logged_in_world = (say 200 [], logged_in_world\<lparr>w_calls := 1\<rparr>)"
    using run by blast
qed

end
