(* ===== verification/BusGuarantees.thy ===== *)
theory BusGuarantees
  imports ControlPlane
begin

text \<open>
  What the handlers on the server's bus may touch: applications, deployments, the audit log and
  the two queues. A relation that ignores these tables is kept by every publication, so an
  operation's effect on the other tables is the effect of its own statements.
\<close>

locale listener_guarantee = db_guarantee R for R :: "world \<Rightarrow> world \<Rightarrow> bool" +
  assumes R_apps: "R w (w\<lparr>w_apps := a\<rparr>)"
    and R_deployments: "R w (w\<lparr>w_deployments := ds\<rparr>)"
    and R_audit: "R w (w\<lparr>w_audit := l\<rparr>)"
    and R_audit_seq: "R w (w\<lparr>w_audit_seq := i\<rparr>)"
    and R_ws: "R w (w\<lparr>w_ws := q\<rparr>)"
    and R_webhook: "R w (w\<lparr>w_webhook := p\<rparr>)"
begin

lemma run: "guarantees R m \<Longrightarrow> R w (snd (m w))"
  by (simp add: guarantees_def)

lemma g_same: "(\<And>w. snd (q w) = w) \<Longrightarrow> guarantees R q"
  by (rule guaranteesI) (simp add: refl)

lemma of_only_ws: "only_ws w w' \<Longrightarrow> R w w'"
  by (auto simp: only_ws_def R_ws)

lemma g_audit: "guarantees R (AuditLogRepo_Create l)"
proof -
  have "R w (w\<lparr>w_audit_seq := i, w_audit := x\<rparr>)" for w i x
    by (rule trans [OF R_audit_seq R_audit])
  then show ?thesis
    unfolding AuditLogRepo_Create_def
    by (intro db_rules guaranteesI) (simp add: Let_def R_audit_seq)
qed

lemma audit_handlers:
  "R w (OnDeploymentCreated ev w)" "R w (OnDeploymentStatusChanged ev w)"
  "R w (OnApplicationCreated ev w)" "R w (OnServerStatusChanged ev w)"
  unfolding OnDeploymentCreated_def OnDeploymentStatusChanged_def OnApplicationCreated_def
    OnServerStatusChanged_def AuditLogService_Create_def
  by (cases ev; simp add: refl run g_audit)+

lemma g_AppRepo_GetByID: "guarantees R (AppRepo_GetByID i)"
  unfolding AppRepo_GetByID_def by (intro db_rules g_same) (simp split: option.split)

lemma Notifier_Handle: "R w (Notifier_Handle url ev w)"
proof -
  obtain ws w1 where s: "webhook_settings url w = (ws, w1)" by (cases "webhook_settings url w")
  have "guarantees R (SettingsRepo_Get k)" for k
    unfolding SettingsRepo_Get_def by (intro db_rules g_same) (simp split: option.split)
  from run [OF this, of w "''webhook''"] s have 1: "R w w1"
    by (auto simp: webhook_settings_def Let_def split: prod.splits sum.splits)
  have app: "R v (snd (notifier_appName i v))" for i v
    using run [OF g_AppRepo_GetByID, of v i] by (auto simp: notifier_appName_def split: prod.split sum.split)
  have "R w1 (case ev of DeploymentStatusChangedEv evt \<Rightarrow>
         if edx_Status evt = DeploymentSuccess \<or> edx_Status evt = DeploymentFailed
         then (case notifier_appName (edx_ApplicationID evt) w1 of (appName, w2) \<Rightarrow>
           w2\<lparr>w_webhook := webhook_enqueue
             (notification appName (edx_DeploymentID evt) (edx_Status evt)) (w_webhook w2)\<rparr>)
         else w1 | _ \<Rightarrow> w1)"
  proof (cases ev)
    case (DeploymentStatusChangedEv evt)
    obtain n w2 where n: "notifier_appName (edx_ApplicationID evt) w1 = (n, w2)"
      by (cases "notifier_appName (edx_ApplicationID evt) w1")
    then have "R w1 w2" using app [of w1 "edx_ApplicationID evt"] by simp
    from trans [OF this R_webhook] show ?thesis by (simp add: DeploymentStatusChangedEv n refl)
  qed (simp_all add: refl)
  with 1 s show ?thesis by (auto simp: Notifier_Handle_def intro: trans)
qed

lemma g_leaf_bus: "handlers_keep R (leaf_bus url)"
  unfolding leaf_bus_def subscribers_Register_def ws_subscriptions_def audit_Register_def
  by (simp add: Notifier_Handle audit_handlers of_only_ws only_ws_handlers only_ws_log)

lemma g_app_update: "guarantees R (app_update msg i f)"
  unfolding app_update_def by (intro db_rules guaranteesI) (simp add: Let_def R_apps)

lemma g_deployment_update: "guarantees R (deployment_update i f)"
  by (rule guaranteesI) (simp add: deployment_update_def refl R_deployments split: option.split)

lemma g_apps:
  assumes bus: "handlers_keep R bus"
  shows "guarantees R (AppService_UpdateStatus bus i st)" and "guarantees R (AppService_UpdateLastDeployment i)"
  unfolding AppService_UpdateStatus_def AppService_UpdateLastDeployment_def AppRepo_UpdateStatus_def
    AppRepo_UpdateLastDeployment_def
  by (intro db_rules g_app_update g_publish_all [OF bus])+

lemma g_deployments:
  assumes bus: "handlers_keep R bus"
  shows "guarantees R (DeploymentService_UpdateStatus bus i st)" and "guarantees R (DeploymentService_Start bus i)"
    and "guarantees R (DeploymentService_Finish bus i)"
  unfolding DeploymentService_UpdateStatus_def DeploymentService_Start_def DeploymentService_Finish_def
    DeploymentRepo_UpdateStatus_def DeploymentRepo_Start_def DeploymentRepo_Finish_def deployment_not_found_def
  by (intro db_rules g_deployment_update g_publish_all [OF bus])+

lemma listeners:
  assumes bus: "handlers_keep R bus"
  shows "R w (AppListener_handleJobStarted bus ev w)" and "R w (AppListener_handleJobFinished bus ev w)"
    and "R w (DeploymentListener_handleJobCreated bus ev w)" and "R w (DeploymentListener_handleJobStarted bus ev w)"
    and "R w (DeploymentListener_handleJobFinished bus ev w)"
  unfolding AppListener_handleJobStarted_def AppListener_handleJobFinished_def
    DeploymentListener_handleJobCreated_def DeploymentListener_handleJobStarted_def
    DeploymentListener_handleJobFinished_def Let_def
  by (cases ev; simp add: refl run g_bind g_ignore g_apps [OF bus] g_deployments [OF bus] split: option.split)+

lemma g_server_bus: "handlers_keep R (server_bus url)"
  unfolding server_bus_def subscribers_Register_def ws_subscriptions_def audit_Register_def
    DeploymentListener_Register_def AppListener_Register_def
  by (simp add: Notifier_Handle audit_handlers of_only_ws only_ws_handlers only_ws_log listeners g_leaf_bus)

lemma g_server_publish: "guarantees R (Publish (server_bus url) n ev)"
  by (rule g_publish_all [OF g_server_bus])

text \<open>
  \<open>Finish\<close> is its statement on the job, then publications. The relation holds of it as soon as
  it holds of the statement.
\<close>

lemma g_Finish:
  assumes "guarantees R (JobRepo_MarkFinished i st)"
  shows "guarantees R (JobService_Finish (server_bus url) i st)"
  unfolding JobService_Finish_def by (intro db_rules g_server_publish assms)

lemma g_Retry:
  assumes "guarantees R (JobRepo_Retry i j)"
  shows "guarantees R (JobService_Retry (server_bus url) i j)"
  unfolding JobService_Retry_def by (intro db_rules g_server_publish assms)

lemma g_Create:
  assumes "guarantees R (JobRepo_Create j)"
  shows "guarantees R (JobService_Create (server_bus url) j)"
  unfolding JobService_Create_def by (intro db_rules g_server_publish assms)

end

end
