(* ===== verification/Workers.thy ===== *)
theory Workers
  imports BusGuarantees Pipeline
begin

text \<open>
  The background workers of \<open>internal/workers\<close>: the reaper of stuck jobs, the two workers that keep
  a health-check job and a metrics job queued for each server, and the daily schedule. One
  definition is one run; the scheduler repeats runs until the process ends.
\<close>

section \<open>The reaper\<close>

definition reapAfter :: int where
  "reapAfter = 30 * 60 * 1000000000"

definition running_jobs :: JobListOptions where
  "running_jobs = \<lparr>jl_opts = \<lparr>lo_Page = 0, lo_Limit = 100, lo_Search = [], lo_IsPaginate = False\<rparr>,
     jl_TraceID = None, jl_ServerID = None, jl_ApplicationID = None, jl_DeploymentID = None, jl_Type = [],
     jl_Statuses = [JobRunning]\<rparr>"

text \<open>The body of the loop; a job that cannot be finished is logged and passed over.\<close>

definition reap :: "world Bus \<Rightarrow> Job \<Rightarrow> (world, unit) op" where
  "reap bus job = (case j_StartedAt job of
     None \<Rightarrow> returnE ()
   | Some t \<Rightarrow> bindE time_Now (\<lambda>now.
       if now - t \<le> reapAfter then returnE ()
       else ignoreE (JobService_Finish bus (j_ID job) JobFailed)))"

definition JobReaperWorker_Run :: "world Bus \<Rightarrow> (world, unit) op" where
  "JobReaperWorker_Run bus =
     bindE (wrapE ''failed to list running jobs'' (JobService_List running_jobs)) (\<lambda>result.
     forE (Data result) (reap bus))"

section \<open>Recurring jobs\<close>

text \<open>
  One job of a type per server: it is created when there is none, else queued again unless it
  is queued already. Errors are logged.
\<close>

definition first_job :: "uuid \<Rightarrow> string \<Rightarrow> JobListOptions" where
  "first_job serverID jobType = \<lparr>jl_opts = \<lparr>lo_Page = 0, lo_Limit = 1, lo_Search = [], lo_IsPaginate = False\<rparr>,
     jl_TraceID = None, jl_ServerID = Some serverID, jl_ApplicationID = None, jl_DeploymentID = None,
     jl_Type = jobType, jl_Statuses = []\<rparr>"

definition queue_job :: "world Bus \<Rightarrow> uuid \<Rightarrow> string \<Rightarrow> json option \<Rightarrow> (world, unit) op" where
  "queue_job bus serverID jobType payload w = (case JobService_List (first_job serverID jobType) w of
     (Inl e, w1) \<Rightarrow> (Inr (), w1)
   | (Inr jobs, w1) \<Rightarrow> (case Data jobs of
       [] \<Rightarrow> bindE uuid_New (\<lambda>trace. ignoreE (JobService_Create bus (Job0\<lparr>j_TraceID := trace,
           j_ServerID := serverID, j_Type := jobType, j_Payload := payload\<rparr>))) w1
     | job # _ \<Rightarrow> if j_Status job = JobQueued then (Inr (), w1)
         else ignoreE (JobService_Retry bus (j_ID job) (Job0\<lparr>j_Payload := payload, j_Status := JobQueued,
           j_QueuedAt := Some (w_now w1)\<rparr>)) w1))"

text \<open>The applications by server, each listed once. Go visits the servers in some order.\<close>

definition add_application :: "AppHealthCheckPayload list \<Rightarrow> Application \<Rightarrow> AppHealthCheckPayload list" where
  "add_application ps app =
    (let info = \<lparr>ai_ApplicationID = a_ID app, ai_AppKey = GetAppKey app\<rparr> in
     if a_ServerID app \<in> ph_ServerID ` set ps
     then map (\<lambda>p. if ph_ServerID p = a_ServerID app \<and> a_ID app \<notin> ai_ApplicationID ` set (ph_Applications p)
       then p\<lparr>ph_Applications := ph_Applications p @ [info]\<rparr> else p) ps
     else ps @ [\<lparr>ph_ServerID = a_ServerID app, ph_Applications = [info]\<rparr>])"

definition ApplicationHealthCheckWorker_Run :: "world Bus \<Rightarrow> (world, unit) op" where
  "ApplicationHealthCheckWorker_Run bus =
     bindE (wrapE ''failed to list applications'' (AppService_List
       \<lparr>al_opts = \<lparr>lo_Page = 0, lo_Limit = 0, lo_Search = [], lo_IsPaginate = False\<rparr>, al_ServerID = None\<rparr>)) (\<lambda>applications.
     forE (foldl add_application [] (Data applications)) (\<lambda>p w.
       queue_job bus (ph_ServerID p) JobTypeAppHealthCheck
         (Some (enc_AppHealthCheckPayload (w_uuid_string w) p)) w))"

definition MetricsCollectWorker_Run :: "world Bus \<Rightarrow> (world, unit) op" where
  "MetricsCollectWorker_Run bus =
     bindE (wrapE ''failed to list online servers'' (ServerService_List
       \<lparr>sl_opts = \<lparr>lo_Page = 0, lo_Limit = 0, lo_Search = [], lo_IsPaginate = False\<rparr>, sl_IsOnline = Some True\<rparr>)) (\<lambda>servers.
     forE (Data servers) (\<lambda>srv. queue_job bus (s_ID srv) JobTypeMetricsCollect None))"

section \<open>The daily schedule\<close>

text \<open>
  The next run at an hour and minute of the configured time zone, which is taken to be at a
  fixed offset from UTC.
\<close>

definition day :: int where
  "day = 24 * 3600 * 1000000000"

definition RunDaily_next :: "int \<Rightarrow> int \<Rightarrow> int \<Rightarrow> gotime \<Rightarrow> gotime" where
  "RunDaily_next offset hour minute now =
    (let midnight = (now + offset) div day * day - offset;
         nxt = midnight + (hour * 3600 + minute * 60) * 1000000000
     in if \<not> now < nxt then nxt + day else nxt)"

lemma RunDaily_next_soon:
  assumes "0 \<le> h" "h < 24" "0 \<le> m" "m < 60"
  shows "now < RunDaily_next off h m now \<and> RunDaily_next off h m now \<le> now + day"
proof -
  define r where "r = (now + off) mod day"
  define t where "t = (h * 3600 + m * 60) * 1000000000"
  have r: "0 \<le> r" "r < day" by (simp_all add: r_def day_def)
  have q: "(now + off) div day * day = now + off - r" by (simp add: r_def minus_mod_eq_div_mult)
  have t: "0 \<le> t" "t < day" using assms by (simp_all add: t_def day_def)
  show ?thesis
    unfolding RunDaily_next_def Let_def t_def [symmetric] q using r t by (cases "now < now + off - r - off + t") simp_all
qed

section \<open>What the reaper does\<close>

definition stuck :: "gotime \<Rightarrow> Job \<Rightarrow> bool" where
  "stuck now j \<longleftrightarrow> j_Status j = JobRunning \<and> (\<exists>t. j_StartedAt j = Some t \<and> reapAfter < now - t)"

definition reaped :: "gotime \<Rightarrow> Job \<Rightarrow> Job" where
  "reaped now j = j\<lparr>j_Status := JobFailed, j_FinishedAt := Some now\<rparr>"

lemma reaped_fun: "reaped now = (\<lambda>j. j\<lparr>j_Status := JobFailed, j_FinishedAt := Some now\<rparr>)"
  by (simp add: reaped_def fun_eq_iff)

lemma not_stuck_reaped: "\<not> stuck t (reaped now j)"
  by (simp add: stuck_def reaped_def)

lemma k_jobs_spec_finish:
  "k_jobs (spec_finish now i st k) = (case find (\<lambda>j. j_ID j = i) (k_jobs k) of
     None \<Rightarrow> k_jobs k
   | Some j \<Rightarrow> if j_Status j = JobRunning
       then update_where (\<lambda>j. j_ID j = i) (\<lambda>j. j\<lparr>j_Status := st, j_FinishedAt := Some now\<rparr>) (k_jobs k) else k_jobs k)"
proof -
  have "k_jobs (deployment_finished now j st k) = k_jobs k" for j k
    by (simp add: deployment_finished_def set_deployment_def split: option.split)
  moreover have "k_jobs (app_finished now j st k) = k_jobs k" for j k
    by (simp add: app_finished_def app_status_def set_app_def split: option.split)
  ultimately show ?thesis
    unfolding spec_finish_def by (simp add: set_job_def split: option.split)
qed

lemma reap_step:
  assumes nf: "no_faults v" and ids: "distinct (map j_ID (w_jobs v))" and j: "j \<in> set (w_jobs v)" "j_Status j = JobRunning"
  obtains v' where "reap (server_bus url) j v = (Inr (), v')" "no_faults v'" "w_now v' = w_now v"
    "w_jobs v' = (if stuck (w_now v) j then update_where (\<lambda>x. j_ID x = j_ID j) (reaped (w_now v)) (w_jobs v) else w_jobs v)"
proof (cases "stuck (w_now v) j")
  case True
  then obtain t where t: "j_StartedAt j = Some t" "\<not> w_now v - t \<le> reapAfter" by (auto simp: stuck_def)
  let ?v = "snd (JobService_Finish (server_bus url) (j_ID j) JobFailed v)"
  have "follows v (spec_finish (w_now v) (j_ID j) JobFailed (abs_world v)) ?v" by (rule finish_follows [OF nf])
  moreover have "find (\<lambda>x. j_ID x = j_ID j) (w_jobs v) = Some j" by (rule find_distinct_key [OF ids j(1)])
  ultimately have "no_faults ?v" "w_now ?v = w_now v"
    "w_jobs ?v = update_where (\<lambda>x. j_ID x = j_ID j) (reaped (w_now v)) (w_jobs v)"
    using k_jobs_spec_finish [of "w_now v" "j_ID j" JobFailed "abs_world v"] j(2)
    by (auto simp: follows_def abs_jobs [symmetric] reaped_fun)
  with that [of ?v] t True show thesis by (simp add: reap_def bindE_def time_Now_def getsE_def ignoreE_def)
next
  case False
  with j(2) have "reap (server_bus url) j v = (Inr (), v)"
    by (auto simp: reap_def stuck_def bindE_def time_Now_def getsE_def returnE_def split: option.split)
  with False nf that [of v] show thesis by simp
qed

lemma reap_all:
  assumes "no_faults v" and "distinct (map j_ID (w_jobs v))" and "set L \<subseteq> set (w_jobs v)" and "distinct (map j_ID L)"
    and "\<forall>j\<in>set L. j_Status j = JobRunning"
  shows "\<exists>v'. forE L (reap (server_bus url)) v = (Inr (), v') \<and>
    w_jobs v' = map (\<lambda>x. if x \<in> set L \<and> stuck (w_now v) x then reaped (w_now v) x else x) (w_jobs v)"
  using assms
proof (induction L arbitrary: v)
  case Nil
  then show ?case by (simp add: returnE_def)
next
  case (Cons j L)
  let ?now = "w_now v" and ?mark = "\<lambda>M x. if x \<in> set M \<and> stuck (w_now v) x then reaped (w_now v) x else x"
  obtain u where u: "reap (server_bus url) j v = (Inr (), u)" "no_faults u" "w_now u = ?now"
    "w_jobs u = (if stuck ?now j then update_where (\<lambda>x. j_ID x = j_ID j) (reaped ?now) (w_jobs v) else w_jobs v)"
    using reap_step [of v j url] Cons.prems by auto
  have key: "j_ID x = j_ID j \<longleftrightarrow> x = j" if "x \<in> set (w_jobs v)" for x
    using Cons.prems(2,3) that by (auto dest: inj_onD simp: distinct_map)
  have jobs: "w_jobs u = map (?mark [j]) (w_jobs v)"
    using key by (auto simp: u(4) update_where_def intro!: map_idI [symmetric])
  have ids: "map j_ID (w_jobs u) = map j_ID (w_jobs v)" by (simp add: jobs reaped_def)
  have notin: "x \<noteq> j" if "x \<in> set L" for x using Cons.prems(4) that by auto
  have sub: "set L \<subseteq> set (w_jobs u)"
  proof
    fix x assume "x \<in> set L"
    with Cons.prems(3) notin have x: "x \<in> set (w_jobs v)" and same: "?mark [j] x = x" by auto
    show "x \<in> set (w_jobs u)" unfolding jobs set_map by (rule image_eqI [of _ "?mark [j]", OF same [symmetric] x])
  qed
  from Cons.IH [of u] obtain v' where v': "forE L (reap (server_bus url)) u = (Inr (), v')"
    "w_jobs v' = map (?mark L) (w_jobs u)"
    using u(2,3) ids sub Cons.prems by auto
  have "?mark L (?mark [j] x) = ?mark (j # L) x" for x
    using notin by (cases "x = j") (auto simp: not_stuck_reaped)
  then have "w_jobs v' = map (?mark (j # L)) (w_jobs v)"
    unfolding v'(2) jobs map_map comp_def by (rule map_cong [OF HOL.refl])
  moreover have "forE (j # L) (reap (server_bus url)) v = (Inr (), v')"
    using v'(1) u(1) by (simp add: bindE_def)
  ultimately show ?case by blast
qed

lemma list_running:
  assumes nf: "no_faults w" and few: "length (filter (\<lambda>j. j_Status j = JobRunning) (w_jobs w)) \<le> 100"
  shows "JobService_List running_jobs w =
    (Inr \<lparr>Data = order_by queued_desc (filter (\<lambda>j. j_Status j = JobRunning) (w_jobs w)), ResMeta = None\<rparr>,
     w\<lparr>w_calls := Suc (w_calls w)\<rparr>)"
proof -
  let ?R = "filter (\<lambda>j. j_Status j = JobRunning)"
  have m: "job_matches (running_jobs\<lparr>jl_opts := l\<rparr>) = (\<lambda>j. j_Status j = JobRunning)" for l
    by (simp add: job_matches_def running_jobs_def opt_eq_def fun_eq_iff)
  have o: "list_defaults 1000 (jl_opts running_jobs) = jl_opts running_jobs" "\<not> lo_IsPaginate (jl_opts running_jobs)"
    by (simp_all add: running_jobs_def list_defaults_def)
  have p: "page_rows (jl_opts running_jobs) rows = Some (take 100 rows)" for rows :: "Job list"
    by (simp add: running_jobs_def page_rows_def)
  have "JobRepo_List (running_jobs\<lparr>jl_opts := jl_opts running_jobs\<rparr>) w =
    (Inr (order_by queued_desc (?R (w_jobs w)), 0), w\<lparr>w_calls := Suc (w_calls w)\<rparr>)"
    unfolding JobRepo_List_def m
    by (subst paged_ok [OF nf, where r = "order_by queued_desc (?R (w_jobs w))"]) (use few in \<open>simp_all add: o p\<close>)
  then show ?thesis
    by (simp add: JobService_List_def o bindE_def returnE_def list_result_def)
qed

text \<open>
  C18. The reaper fails exactly the stuck jobs: when the database works and at most a hundred jobs
  are running, a run marks every job that has been running for more than thirty minutes as
  failed, now, and leaves every other job as it was.
\<close>

theorem reaper_fails_stuck_jobs:
  assumes "no_faults w" and "distinct (map j_ID (w_jobs w))"
    and "length (filter (\<lambda>j. j_Status j = JobRunning) (w_jobs w)) \<le> 100"
  shows "\<exists>w'. JobReaperWorker_Run (server_bus url) w = (Inr (), w') \<and>
    w_jobs w' = map (\<lambda>j. if stuck (w_now w) j then reaped (w_now w) j else j) (w_jobs w)"
proof -
  let ?L = "order_by queued_desc (filter (\<lambda>j. j_Status j = JobRunning) (w_jobs w))"
  let ?w = "w\<lparr>w_calls := Suc (w_calls w)\<rparr>"
  have "distinct (map j_ID ?L)" using assms(2)
    by (simp add: distinct_map inj_on_def)
  with assms(1,2) have "\<exists>v'. forE ?L (reap (server_bus url)) ?w = (Inr (), v') \<and>
    w_jobs v' = map (\<lambda>x. if x \<in> set ?L \<and> stuck (w_now ?w) x then reaped (w_now ?w) x else x) (w_jobs ?w)"
    by (intro reap_all) auto
  then obtain v' where v': "forE ?L (reap (server_bus url)) ?w = (Inr (), v')"
    "w_jobs v' = map (\<lambda>x. if x \<in> set ?L \<and> stuck (w_now w) x then reaped (w_now w) x else x) (w_jobs w)" by auto
  have "w_jobs v' = map (\<lambda>j. if stuck (w_now w) j then reaped (w_now w) j else j) (w_jobs w)"
    unfolding v'(2) by (rule map_cong) (auto simp: stuck_def)
  with v'(1) show ?thesis
    by (simp add: JobReaperWorker_Run_def bindE_def wrapE_def catchE_def list_running [OF assms(1,3)])
qed

definition reaper_world :: world where
  "reaper_world = empty_world\<lparr>w_now := 31 * 60 * 1000000000, w_jobs := [
     Job0\<lparr>j_ID := 1, j_Status := JobRunning, j_StartedAt := Some 0\<rparr>,
     Job0\<lparr>j_ID := 2, j_Status := JobRunning, j_StartedAt := Some (20 * 60 * 1000000000)\<rparr>]\<rparr>"

theorem reaper_fails_stuck_jobs_witness:
  "\<exists>w'. JobReaperWorker_Run (server_bus []) reaper_world = (Inr (), w') \<and>
    map j_Status (w_jobs w') = [JobFailed, JobRunning]"
proof -
  have "no_faults reaper_world" by (simp add: no_faults_def reaper_world_def empty_world_def)
  moreover have "distinct (map j_ID (w_jobs reaper_world))"
    "length (filter (\<lambda>j. j_Status j = JobRunning) (w_jobs reaper_world)) \<le> 100"
    by (simp_all add: reaper_world_def Job0_def)
  ultimately obtain w' where "JobReaperWorker_Run (server_bus []) reaper_world = (Inr (), w')"
    "w_jobs w' = map (\<lambda>j. if stuck (w_now reaper_world) j then reaped (w_now reaper_world) j else j) (w_jobs reaper_world)"
    using reaper_fails_stuck_jobs [of reaper_world "[]"] by blast
  then show ?thesis by (simp add: reaper_world_def Job0_def stuck_def reaped_def reapAfter_def)
qed

section \<open>One recurring job per server\<close>

definition jobs_of :: "string \<Rightarrow> uuid \<Rightarrow> Job list \<Rightarrow> Job list" where
  "jobs_of t s js = filter (\<lambda>j. j_ServerID j = s \<and> j_Type j = t) js"

definition one_job_each :: "string \<Rightarrow> world \<Rightarrow> bool" where
  "one_job_each t w \<longleftrightarrow> (\<forall>s. length (jobs_of t s (w_jobs w)) \<le> 1)"

definition same_jobs :: "world \<Rightarrow> world \<Rightarrow> bool" where
  "same_jobs w w' \<longleftrightarrow> w_jobs w' = w_jobs w"

interpretation sj: listener_guarantee same_jobs
  by unfold_locales (simp_all add: same_jobs_def)

interpretation oj: listener_guarantee "keeps (one_job_each t)" for t
  by unfold_locales (simp_all add: keeps_def one_job_each_def)

lemma length_jobs_of_update:
  assumes "\<And>j. j_ServerID (f j) = j_ServerID j \<and> j_Type (f j) = j_Type j"
  shows "length (jobs_of t s (update_where p f js)) = length (jobs_of t s js)"
  by (induction js) (simp_all add: jobs_of_def update_where_def assms)

lemma Retry_keeps_one: "guarantees (keeps (one_job_each t)) (JobService_Retry (server_bus url) i j)"
proof (rule oj.g_Retry)
  have "guarantees (keeps (one_job_each t)) (job_update i p f)"
    if "\<And>w j. j_ServerID (f w j) = j_ServerID j \<and> j_Type (f w j) = j_Type j" for p f
    using that by (intro guaranteesI) (simp add: job_update_def keeps_def one_job_each_def
        length_jobs_of_update split: option.split)
  then show "guarantees (keeps (one_job_each t)) (JobRepo_Retry i j)"
    unfolding JobRepo_Retry_def by (intro oj.db_rules) simp_all
qed

lemma List_first_job:
  assumes "JobService_List (first_job s t) w = (Inr jobs, w1)" and "t \<noteq> []"
  shows "w_jobs w1 = w_jobs w" and "Data jobs = [] \<longleftrightarrow> jobs_of t s (w_jobs w) = []"
proof -
  have "guarantees same_jobs (JobService_List jo)" for jo
    unfolding JobService_List_def JobRepo_List_def Let_def by (intro sj.db_rules sj.g_paged)
  from guaranteesD [OF this assms(1)] show "w_jobs w1 = w_jobs w" by (simp add: same_jobs_def)
  let ?o = "\<lparr>lo_Page = 0, lo_Limit = 1, lo_Search = [], lo_IsPaginate = False\<rparr>"
  have o: "list_defaults 1000 (jl_opts (first_job s t)) = ?o" by (simp add: first_job_def list_defaults_def)
  have m: "filter (job_matches (first_job s t\<lparr>jl_opts := ?o\<rparr>)) xs = jobs_of t s xs" for xs
    using assms(2) by (auto simp: jobs_of_def job_matches_def first_job_def opt_eq_def intro!: filter_cong)
  have "JobRepo_List (first_job s t\<lparr>jl_opts := ?o\<rparr>) w = (Inr (take 1 (order_by queued_desc (jobs_of t s (w_jobs w))), 0), w1) \<and>
      Data jobs = take 1 (order_by queued_desc (jobs_of t s (w_jobs w)))"
    using assms(1) unfolding JobService_List_def JobRepo_List_def o
    by (auto simp: m bindE_def paged_def wrapE_def catchE_def db_exec_def page_rows_def returnE_def failE_def
        list_result_def Let_def split: if_splits)
  then show "Data jobs = [] \<longleftrightarrow> jobs_of t s (w_jobs w) = []" by (simp add: take_Suc_conv_app_nth)
qed

lemma Create_jobs:
  "w_jobs (snd (JobService_Create (server_bus url) j w)) = w_jobs w \<or>
   (\<exists>row. w_jobs (snd (JobService_Create (server_bus url) j w)) = w_jobs w @ [row] \<and>
      j_ServerID row = j_ServerID j \<and> j_Type row = j_Type j)"
proof -
  let ?c = "JobRepo_Create j w"
  have "w_jobs (snd (JobService_Create (server_bus url) j w)) = w_jobs (snd ?c)"
  proof (cases ?c)
    case (Pair v w1)
    have "guarantees same_jobs (bindE (Publish (server_bus url) n ev) (\<lambda>_. bindE (Publish (server_bus url) n' ev') (\<lambda>_. returnE x)))"
      for n ev n' ev' and x :: Job by (intro sj.db_rules sj.g_server_publish)
    from sj.run [OF this] Pair show ?thesis
      by (cases v) (simp_all add: JobService_Create_def bindE_def [of "JobRepo_Create j"] same_jobs_def)
  qed
  moreover have "w_jobs (snd ?c) = w_jobs w \<or> (\<exists>row. w_jobs (snd ?c) = w_jobs w @ [row] \<and>
      j_ServerID row = j_ServerID j \<and> j_Type row = j_Type j)"
    by (auto simp: JobRepo_Create_def wrapE_def catchE_def failE_def db_exec_def Let_def split: prod.split sum.split)
  ultimately show ?thesis by simp
qed

lemma queue_job_keeps_one:
  assumes "t \<noteq> []"
  shows "guarantees (keeps (one_job_each t)) (queue_job (server_bus url) s t payload)"
proof (rule guaranteesI, unfold keeps_def, rule impI)
  fix w
  assume one: "one_job_each t w"
  obtain v w1 where l: "JobService_List (first_job s t) w = (v, w1)" by force
  have "guarantees same_jobs (JobService_List jo)" for jo
    unfolding JobService_List_def JobRepo_List_def Let_def by (intro sj.db_rules sj.g_paged)
  from guaranteesD [OF this l] one have one1: "one_job_each t w1" by (simp add: same_jobs_def one_job_each_def)
  show "one_job_each t (snd (queue_job (server_bus url) s t payload w))"
  proof (cases v)
    case (Inl e)
    with l one1 show ?thesis by (simp add: queue_job_def)
  next
    case (Inr jobs)
    show ?thesis
    proof (cases "Data jobs")
      case Nil
      with List_first_job [OF l [unfolded Inr] assms] have none: "jobs_of t s (w_jobs w1) = []" by simp
      let ?j = "Job0\<lparr>j_TraceID := w_uuid w1 (w_uuids w1), j_ServerID := s, j_Type := t, j_Payload := payload\<rparr>"
      let ?w2 = "w1\<lparr>w_uuids := Suc (w_uuids w1)\<rparr>"
      have "snd (queue_job (server_bus url) s t payload w) = snd (JobService_Create (server_bus url) ?j ?w2)"
        using l Inr Nil by (simp add: queue_job_def bindE_def uuid_New_def ignoreE_def)
      with Create_jobs [of url ?j ?w2] one1 none show ?thesis
        by (auto simp: one_job_each_def jobs_of_def)
    next
      case (Cons job js)
      have "guarantees (keeps (one_job_each t)) (ignoreE (JobService_Retry (server_bus url) i j))" for i j
        by (intro oj.db_rules Retry_keeps_one)
      from oj.run [OF this, unfolded keeps_def] one1 l Inr Cons show ?thesis
        by (cases "j_Status job = JobQueued") (simp_all add: queue_job_def)
    qed
  qed
qed

text \<open>
  C19. A run of the metrics worker or of the health-check worker never queues a second job of its
  kind for a server, whatever the database does.
\<close>

theorem workers_keep_one_job:
  "(one_job_each JobTypeMetricsCollect w \<longrightarrow>
      one_job_each JobTypeMetricsCollect (snd (MetricsCollectWorker_Run (server_bus url) w))) \<and>
   (one_job_each JobTypeAppHealthCheck w \<longrightarrow>
      one_job_each JobTypeAppHealthCheck (snd (ApplicationHealthCheckWorker_Run (server_bus url) w)))"
proof -
  have t: "JobTypeMetricsCollect \<noteq> []" "JobTypeAppHealthCheck \<noteq> []" by (simp_all add: job_type_defs)
  have lists: "guarantees (keeps (one_job_each t)) (ServerService_List so)"
    "guarantees (keeps (one_job_each t)) (AppService_List ao)" for t so ao
    unfolding ServerService_List_def ServerRepo_List_def AppService_List_def AppRepo_List_def Let_def
    by (intro oj.db_rules oj.g_paged)+
  have "guarantees (keeps (one_job_each JobTypeAppHealthCheck)) (\<lambda>w. queue_job (server_bus url) (ph_ServerID p)
      JobTypeAppHealthCheck (Some (enc_AppHealthCheckPayload (w_uuid_string w) p)) w)" for p
    using queue_job_keeps_one [OF t(2)] by (simp add: guarantees_def)
  then have "guarantees (keeps (one_job_each JobTypeAppHealthCheck)) (ApplicationHealthCheckWorker_Run (server_bus url))"
    unfolding ApplicationHealthCheckWorker_Run_def by (intro keep.g_bind keep.g_wrap keep.g_for lists)
  moreover have "guarantees (keeps (one_job_each JobTypeMetricsCollect)) (MetricsCollectWorker_Run (server_bus url))"
    unfolding MetricsCollectWorker_Run_def by (intro keep.g_bind keep.g_wrap keep.g_for lists queue_job_keeps_one t)
  ultimately show ?thesis by (simp add: guarantees_def keeps_def)
qed

text \<open>A server that is online and has no job yet.\<close>

definition collect_world :: world where
  "collect_world = empty_world\<lparr>w_servers := [Server.extend (Server0\<lparr>s_ID := 4, s_IsOnline := True\<rparr>) \<lparr>s_DeletedAt = None\<rparr>]\<rparr>"

theorem workers_keep_one_job_witness:
  "let w1 = snd (MetricsCollectWorker_Run (server_bus []) collect_world);
       w2 = snd (MetricsCollectWorker_Run (server_bus []) w1)
   in length (jobs_of JobTypeMetricsCollect 4 (w_jobs w2)) \<le> 1"
proof -
  have 0: "one_job_each JobTypeMetricsCollect collect_world"
    by (simp add: one_job_each_def jobs_of_def collect_world_def empty_world_def)
  note step = workers_keep_one_job [of _ "[]", THEN conjunct1, rule_format]
  from step [OF step [OF 0]] show ?thesis by (simp add: one_job_each_def Let_def)
qed

end
