(* ===== verification/Host.thy ===== *)
theory Host
  imports GoStrings Payloads
begin

text \<open>
  The machine an agent runs on, as far as the agent touches it: files and directories, a clock
  that never runs backwards, and commands that are run
  (\<open>internal/agent/command/run.go\<close>, \<open>internal/agent/docker/manager.go\<close>,
  \<open>internal/agent/git/manager.go\<close>). What docker and git do is a parameter \<open>progs\<close>: for a
  command and the machine, the lines it prints with the time between them, its failure if it
  fails, and the files and the rest of the machine (\<open>ho_Rest\<close>: images, containers, the
  remote repository) it leaves. \<open>ho_Out\<close> is what the callbacks of the agent work on.
  \<open>ho_Fails n\<close> says that the \<open>n\<close>-th system call on files fails.
\<close>

section \<open>Machine\<close>

record Command =
  cm_workDir :: string
  cm_name :: string
  cm_args :: "string list"

text \<open>\<open>ho_Log\<close> is the history of the commands that ended, newest last, with their success.\<close>

record ('d, 'o) Host =
  ho_Now :: gotime
  ho_Files :: "string \<Rightarrow> string option"
  ho_Dirs :: "string \<Rightarrow> bool"
  ho_Calls :: nat
  ho_Fails :: "nat \<Rightarrow> bool"
  ho_Log :: "(Command \<times> bool) list"
  ho_Rest :: 'd
  ho_Out :: 'o

text \<open>
  A \<open>context.Context\<close>: when it is done, if ever, and whether a \<open>select\<close> that finds both the
  context and its other channel ready at a time takes the context.
\<close>

record Ctx =
  cx_Done :: "gotime option"
  cx_Pick :: "gotime \<Rightarrow> bool"

record 'd Outcome =
  oc_Start :: "error option"
  oc_Lines :: "(nat \<times> string \<times> string) list"
  oc_Took :: nat
  oc_StreamErrs :: "string list"
  oc_Exit :: "error option"
  oc_Files :: "string \<Rightarrow> string option"
  oc_Dirs :: "string \<Rightarrow> bool"
  oc_Rest :: 'd

type_synonym ('d, 'o) Programs = "Ctx \<Rightarrow> Command \<Rightarrow> ('d, 'o) Host \<Rightarrow> 'd Outcome"

section \<open>Log lines\<close>

definition LogDebug :: string where "LogDebug = ''debug''"
definition LogInfo :: string where "LogInfo = ''info''"
definition LogWarn :: string where "LogWarn = ''warn''"
definition LogError :: string where "LogError = ''error''"
definition LogFatal :: string where "LogFatal = ''fatal''"
definition StreamStdout :: string where "StreamStdout = ''stdout''"
definition StreamStderr :: string where "StreamStderr = ''stderr''"

definition normalizeAndSplitLines :: "string \<Rightarrow> string list" where
  "normalizeAndSplitLines text = split_on LF (replace_char CR [LF] (replace_crlf text))"

definition classifyLine :: "string \<Rightarrow> string" where
  "classifyLine line = (let l = to_lower line in
     if contains l ''panic'' \<or> contains l ''fatal'' then LogFatal
     else if contains l ''error'' \<or> contains l ''failed'' \<or> contains l ''exception'' then LogError
     else if contains l ''warn'' \<or> contains l ''deprecated'' then LogWarn
     else if contains l ''debug'' \<or> contains l ''trace'' then LogDebug
     else LogInfo)"

section \<open>Running a command\<close>

text \<open>
  A stream handler gets the line, its stream and its level. Standard output and error are read
  by two goroutines; \<open>oc_Lines\<close> is the order in which they call the handler.
\<close>

type_synonym 's StreamHandler = "string \<Rightarrow> string \<Rightarrow> string \<Rightarrow> 's \<Rightarrow> 's"

definition streamOutput :: "'s StreamHandler \<Rightarrow> string \<Rightarrow> string \<Rightarrow> 's \<Rightarrow> 's" where
  "streamOutput handler stream text s = foldl (\<lambda>s raw.
     let line = trim_space raw in if line = [] then s else handler line stream (classifyLine line) s)
     s (normalizeAndSplitLines text)"

text \<open>\<open>Command.execute\<close> works on the machine and the buffer its caller's closure writes.\<close>

definition Command_execute :: "('d, 'o) Programs \<Rightarrow> Ctx \<Rightarrow> Command
    \<Rightarrow> (string \<times> ('d, 'o) Host) StreamHandler
    \<Rightarrow> string \<times> ('d, 'o) Host \<Rightarrow> error option \<times> string \<times> ('d, 'o) Host" where
  "Command_execute progs ctx c handler s =
    (let oc = progs ctx c (snd s) in
     case oc_Start oc of
       Some e \<Rightarrow> (Some (Wrapped ''failed to start command'' e),
         fst s, (snd s)\<lparr>ho_Log := ho_Log (snd s) @ [(c, False)]\<rparr>)
     | None \<Rightarrow>
        (let (buf, h) = foldl (\<lambda>(b, h) (d, stream, text).
               streamOutput handler stream text (b, h\<lparr>ho_Now := ho_Now h + int d\<rparr>)) s (oc_Lines oc);
             h' = h\<lparr>ho_Now := ho_Now h + int (oc_Took oc), ho_Files := oc_Files oc,
                    ho_Dirs := oc_Dirs oc, ho_Rest := oc_Rest oc,
                    ho_Log := ho_Log h @ [(c, oc_Exit oc = None \<and> oc_StreamErrs oc = [])]\<rparr>
         in case oc_Exit oc of
              Some e \<Rightarrow> (Some (Wrapped ''command failed'' e), buf, h')
            | None \<Rightarrow> if oc_StreamErrs oc \<noteq> []
                then (Some (ErrMsg ''stream errors occurred''), buf, h') else (None, buf, h')))"

text \<open>
  \<open>Command.Run\<close>: the lines of both streams are collected and passed on to the handlers. The
  result is Go's pair: the output also when there is an error.
\<close>

type_synonym ('d, 'o) run = "('d, 'o) Host \<Rightarrow> (string \<times> error option) \<times> ('d, 'o) Host"

definition Command_Run :: "('d, 'o) Programs \<Rightarrow> Ctx \<Rightarrow> Command \<Rightarrow> ('d, 'o) Host StreamHandler list
    \<Rightarrow> ('d, 'o) run" where
  "Command_Run progs ctx c handlers h =
    (case Command_execute progs ctx c (\<lambda>line stream level (buf, h).
        (buf @ line @ [LF], foldl (\<lambda>h f. f line stream level h) h handlers)) ([], h)
     of (err, buf, h') \<Rightarrow> ((buf, err), h'))"

text \<open>\<open>out, err := f(); if err != nil { return err }\<close>.\<close>

definition checked :: "('d, 'o) run \<Rightarrow> (('d, 'o) Host, string) op" where
  "checked m = (\<lambda>h. case m h of ((out, None), h') \<Rightarrow> (Inr out, h') | ((out, Some e), h') \<Rightarrow> (Inl e, h'))"

section \<open>Files\<close>

text \<open>\<open>filepath.Clean\<close> and \<open>filepath.Join\<close> on slash-separated paths.\<close>

definition slash :: char where "slash = CHR ''/''"

fun clean_elems :: "bool \<Rightarrow> string list \<Rightarrow> string list \<Rightarrow> string list" where
  "clean_elems rooted out [] = rev out"
| "clean_elems rooted out (e # es) =
    (if e = [] \<or> e = ''.'' then clean_elems rooted out es
     else if e = ''..'' then
       (case out of
          [] \<Rightarrow> if rooted then clean_elems rooted [] es else clean_elems rooted [e] es
        | o1 # os \<Rightarrow> if o1 = ''..'' then clean_elems rooted (e # out) es else clean_elems rooted os es)
     else clean_elems rooted (e # out) es)"

definition path_Clean :: "string \<Rightarrow> string" where
  "path_Clean p =
    (if p = [] then ''.''
     else let rooted = (hd p = slash); es = clean_elems rooted [] (split_on slash p)
       in if rooted then slash # join_with slash es
          else if es = [] then ''.'' else join_with slash es)"

definition path_Join :: "string \<Rightarrow> string \<Rightarrow> string" where
  "path_Join a b = (if a = [] \<and> b = [] then [] else if a = [] then path_Clean b
     else if b = [] then path_Clean a else path_Clean (a @ slash # b))"

definition parent_dir :: "string \<Rightarrow> string" where
  "parent_dir p = rev (drop 1 (dropWhile (\<lambda>c. c \<noteq> slash) (rev p)))"

definition path_prefixes :: "string \<Rightarrow> string list" where
  "path_prefixes p = map (\<lambda>i. take i p)
     (filter (\<lambda>i. 0 < i \<and> (i = length p \<or> p ! i = slash)) [0..<Suc (length p)])"

text \<open>A system call counts itself and may fail.\<close>

definition syscall :: "(('d, 'o) Host, 'a) op \<Rightarrow> (('d, 'o) Host, 'a) op" where
  "syscall m = (\<lambda>h. let h' = h\<lparr>ho_Calls := Suc (ho_Calls h)\<rparr> in
     if ho_Fails h (ho_Calls h) then (Inl (ErrMsg ''input/output error''), h') else m h')"

definition os_MkdirAll :: "string \<Rightarrow> (('d, 'o) Host, unit) op" where
  "os_MkdirAll p = syscall (\<lambda>h.
     if \<exists>q\<in>set (path_prefixes p). ho_Files h q \<noteq> None then (Inl (ErrMsg ''not a directory''), h)
     else (Inr (), h\<lparr>ho_Dirs := (\<lambda>q. ho_Dirs h q \<or> q \<in> set (path_prefixes p))\<rparr>))"

definition os_Stat :: "string \<Rightarrow> (('d, 'o) Host, unit) op" where
  "os_Stat p = syscall (\<lambda>h. if ho_Files h p \<noteq> None \<or> ho_Dirs h p then (Inr (), h)
     else (Inl (ErrMsg ''no such file or directory''), h))"

definition os_WriteFile :: "string \<Rightarrow> string \<Rightarrow> (('d, 'o) Host, unit) op" where
  "os_WriteFile p data = syscall (\<lambda>h. if \<not> ho_Dirs h p \<and> ho_Dirs h (parent_dir p)
     then (Inr (), h\<lparr>ho_Files := (ho_Files h)(p := Some data)\<rparr>)
     else (Inl (ErrMsg ''cannot open file''), h))"

section \<open>Docker\<close>

record Container =
  co_ID :: string
  co_Name :: string
  co_Ports :: string
  co_Project :: string
  co_State :: string
  co_Health :: string
  co_ExitCode :: int

definition docker_Cmd :: "('d, 'o) Programs \<Rightarrow> Ctx \<Rightarrow> string \<Rightarrow> string list
    \<Rightarrow> ('d, 'o) Host StreamHandler list \<Rightarrow> ('d, 'o) run" where
  "docker_Cmd progs ctx workDir args =
     Command_Run progs ctx \<lparr>cm_workDir = workDir, cm_name = ''docker'', cm_args = args\<rparr>"

text \<open>The first of the files that exists.\<close>

fun first_file :: "string \<Rightarrow> error \<Rightarrow> string list \<Rightarrow> (('d, 'o) Host, string) op" where
  "first_file workDir err [] = failE err"
| "first_file workDir err (f # fs) = (\<lambda>h. let path = path_Join workDir f in
     case os_Stat path h of (Inr _, h') \<Rightarrow> (Inr path, h') | (Inl _, h') \<Rightarrow> first_file workDir err fs h')"

definition compose_files :: "string list" where
  "compose_files = [''docker-compose.prod.yml'', ''docker-compose.prod.yaml'', ''compose.prod.yml'',
     ''compose.prod.yaml'', ''docker-compose.yml'', ''docker-compose.yaml'', ''compose.yml'', ''compose.yaml'']"

definition GetDockerComposeFile :: "string \<Rightarrow> (('d, 'o) Host, string) op" where
  "GetDockerComposeFile workDir = first_file workDir (ErrMsg ''docker compose file not found'') compose_files"

definition GetDockerfile :: "string \<Rightarrow> (('d, 'o) Host, string) op" where
  "GetDockerfile workDir = first_file workDir (ErrMsg ''Dockerfile not found'')
     [''docker/Dockerfile.prod'', ''Dockerfile.prod'', ''docker/Dockerfile'', ''Dockerfile'']"

definition env_line :: "string \<times> string \<Rightarrow> string" where
  "env_line kv = fst kv @ ''='' @ [CHR 0x22] @ replace_char LF (CHR 0x5C # ''n'') (snd kv) @ [CHR 0x22, LF]"

definition env_file :: "envmap \<Rightarrow> string" where
  "env_file envVars = concat (map env_line (sort_keys envVars))"

definition WriteEnvFile :: "string \<Rightarrow> envmap \<Rightarrow> (('d, 'o) Host, unit) op" where
  "WriteEnvFile workDir envVars = os_WriteFile (path_Join workDir ''.env'') (env_file envVars)"

section \<open>Git\<close>

definition git_Command :: "string \<Rightarrow> string list \<Rightarrow> Command" where
  "git_Command workDir args = \<lparr>cm_workDir = workDir, cm_name = ''git'', cm_args = args\<rparr>"

definition git_IsGitRepo :: "string \<Rightarrow> ('d, 'o) Host \<Rightarrow> bool \<times> ('d, 'o) Host" where
  "git_IsGitRepo dir h = (case os_Stat (path_Join dir ''.git'') h of
     (Inr _, h') \<Rightarrow> (True, h') | (Inl _, h') \<Rightarrow> (False, h'))"

definition git_Clone :: "('d, 'o) Programs \<Rightarrow> Ctx \<Rightarrow> string \<Rightarrow> string \<Rightarrow> string
    \<Rightarrow> ('d, 'o) Host StreamHandler list \<Rightarrow> ('d, 'o) run" where
  "git_Clone progs ctx workDir remoteURL branch =
     Command_Run progs ctx (git_Command workDir
       [''clone'', ''--branch'', branch, ''--depth'', ''1'', remoteURL, workDir])"

definition git_Pull :: "('d, 'o) Programs \<Rightarrow> Ctx \<Rightarrow> string \<Rightarrow> string
    \<Rightarrow> ('d, 'o) Host StreamHandler list \<Rightarrow> ('d, 'o) run" where
  "git_Pull progs ctx workDir branch handlers h =
    (case Command_Run progs ctx (git_Command workDir [''checkout'', ''-f'', branch]) handlers h of
       ((output, Some e), h1) \<Rightarrow> ((output, Some e), h1)
     | ((_, None), h1) \<Rightarrow>
        (case Command_Run progs ctx (git_Command workDir [''fetch'', ''origin'', branch, ''--depth'', ''1'']) handlers h1 of
           ((output, Some e), h2) \<Rightarrow> ((output, Some e), h2)
         | ((_, None), h2) \<Rightarrow>
            Command_Run progs ctx (git_Command workDir [''reset'', ''--hard'', ''origin/'' @ branch]) handlers h2))"

definition git_CloneOrPull :: "('d, 'o) Programs \<Rightarrow> Ctx \<Rightarrow> string \<Rightarrow> string \<Rightarrow> string
    \<Rightarrow> ('d, 'o) Host StreamHandler list \<Rightarrow> ('d, 'o) run" where
  "git_CloneOrPull progs ctx workDir remoteURL branch handlers h =
    (case git_IsGitRepo workDir h of
       (True, h1) \<Rightarrow> git_Pull progs ctx workDir branch handlers h1
     | (False, h1) \<Rightarrow> git_Clone progs ctx workDir remoteURL branch handlers h1)"

definition git_GetCurrentCommit :: "('d, 'o) Programs \<Rightarrow> Ctx \<Rightarrow> string \<Rightarrow> (('d, 'o) Host, string) op" where
  "git_GetCurrentCommit progs ctx workDir =
     bindE (checked (Command_Run progs ctx (git_Command workDir [''rev-parse'', ''HEAD'']) [])) (\<lambda>out.
     returnE (trim_space out))"

definition git_GetCommitMessage :: "('d, 'o) Programs \<Rightarrow> Ctx \<Rightarrow> string \<Rightarrow> ('d, 'o) run" where
  "git_GetCommitMessage progs ctx workDir =
     Command_Run progs ctx (git_Command workDir [''log'', ''-1'', ''--pretty=%B'']) []"

section \<open>Guarantees of the machine\<close>

text \<open>
  A relation between machines that time, files and the commands of a class \<open>ok\<close> respect is
  respected by everything the agent does with such commands and with callbacks that respect it.
\<close>

definition handler_ok :: "('s \<Rightarrow> 's \<Rightarrow> bool) \<Rightarrow> 's StreamHandler \<Rightarrow> bool" where
  "handler_ok R f \<longleftrightarrow> (\<forall>line stream level h. R h (f line stream level h))"

locale command_guarantee = guarantee R for R :: "('d, 'o) Host \<Rightarrow> ('d, 'o) Host \<Rightarrow> bool" +
  fixes progs :: "('d, 'o) Programs"
    and ok :: "Command \<Rightarrow> bool"
  assumes calls: "R h (h\<lparr>ho_Calls := n\<rparr>)"
    and dirs: "R h (h\<lparr>ho_Dirs := ds\<rparr>)"
    and time: "0 \<le> d \<Longrightarrow> R h (h\<lparr>ho_Now := ho_Now h + d\<rparr>)"
    and unstarted: "ok c \<Longrightarrow> R h (h\<lparr>ho_Log := ho_Log h @ [(c, False)]\<rparr>)"
    and ended: "ok c \<Longrightarrow> 0 \<le> d \<Longrightarrow> R h0 h \<Longrightarrow> R h0 (h\<lparr>ho_Now := ho_Now h + d,
      ho_Files := oc_Files (progs ctx c h0), ho_Dirs := ds, ho_Rest := r, ho_Log := ho_Log h @ [(c, b)]\<rparr>)"
begin

lemma g_syscall: "guarantees R m \<Longrightarrow> guarantees R (syscall m)"
  unfolding guarantees_def syscall_def Let_def
  by (auto intro: calls trans [OF calls])

lemma g_Stat: "guarantees R (os_Stat p)"
  unfolding os_Stat_def by (intro g_syscall guaranteesI) (auto intro: refl)

lemma g_MkdirAll: "guarantees R (os_MkdirAll p)"
  unfolding os_MkdirAll_def by (intro g_syscall guaranteesI) (auto intro: refl dirs)

lemma g_first_file: "guarantees R (first_file workDir err fs)"
proof (induction fs)
  case Nil
  show ?case unfolding first_file.simps by (rule g_fail)
next
  case (Cons f fs)
  show ?case
  proof (rule guaranteesI)
    fix h :: "('d, 'o) Host"
    obtain r h' where s: "os_Stat (path_Join workDir f) h = (r, h')" by force
    then have "R h h'" by (rule guaranteesD [OF g_Stat])
    with s Cons show "R h (snd (first_file workDir err (f # fs) h))"
      by (cases r) (auto simp: guarantees_def intro: trans)
  qed
qed

lemma r_streamOutput:
  assumes "\<And>line level b h. R h (snd (handler line stream level (b, h)))"
  shows "R (snd s) (snd (streamOutput handler stream text s))"
proof -
  have "R (snd s) (snd (foldl (\<lambda>s raw. let line = trim_space raw in
      if line = [] then s else handler line stream (classifyLine line) s) s ls))" for ls
  proof (induction ls arbitrary: s)
    case (Cons l ls)
    have "R (snd s) (snd (if trim_space l = [] then s
        else handler (trim_space l) stream (classifyLine (trim_space l)) s))"
      using assms [where b = "fst s" and h = "snd s"] by (simp add: refl)
    from trans [OF this Cons] show ?case by (simp add: Let_def)
  qed (simp add: refl)
  then show ?thesis by (simp add: streamOutput_def)
qed

lemma r_lines:
  assumes "\<And>line stream level b h. R h (snd (handler line stream level (b, h)))"
  shows "R (snd s) (snd (foldl (\<lambda>(b, h) (d, stream, text).
     streamOutput handler stream text (b, h\<lparr>ho_Now := ho_Now h + int d\<rparr>)) s ls))"
proof (induction ls arbitrary: s)
  case (Cons l ls)
  obtain b h d stream tx where [simp]: "s = (b, h)" "l = (d, stream, tx)" by (cases s, cases l)
  have "R h (h\<lparr>ho_Now := ho_Now h + int d\<rparr>)" by (rule time) simp
  moreover have "R (h\<lparr>ho_Now := ho_Now h + int d\<rparr>)
      (snd (streamOutput handler stream tx (b, h\<lparr>ho_Now := ho_Now h + int d\<rparr>)))"
    using r_streamOutput [of handler stream "(b, h\<lparr>ho_Now := ho_Now h + int d\<rparr>)"] assms by simp
  ultimately show ?case
    using Cons [of "streamOutput handler stream tx (b, h\<lparr>ho_Now := ho_Now h + int d\<rparr>)"]
    by (auto intro: trans)
qed (simp add: refl)

lemma r_execute:
  assumes "\<And>line stream level b h. R h (snd (handler line stream level (b, h)))" and "ok c"
  shows "R (snd s) (snd (snd (Command_execute progs ctx c handler s)))"
proof -
  let ?oc = "progs ctx c (snd s)"
  obtain b h where f: "foldl (\<lambda>(b, h) (d, stream, text).
     streamOutput handler stream text (b, h\<lparr>ho_Now := ho_Now h + int d\<rparr>)) s (oc_Lines ?oc) = (b, h)" by force
  with r_lines [where handler = handler and s = s and ls = "oc_Lines ?oc", OF assms(1)] have "R (snd s) h" by simp
  then have "R (snd s) (h\<lparr>ho_Now := ho_Now h + int (oc_Took ?oc), ho_Files := oc_Files ?oc,
      ho_Dirs := oc_Dirs ?oc, ho_Rest := oc_Rest ?oc, ho_Log := ho_Log h @ [(c, b')]\<rparr>)" for b'
    by (rule ended [rotated 2]) (simp_all add: assms(2))
  then show ?thesis
    by (auto simp: Command_execute_def Let_def f unstarted assms(2) split: option.splits)
qed

lemma r_Run:
  assumes "\<And>f. f \<in> set hs \<Longrightarrow> handler_ok R f" and "ok c"
  shows "R h (snd (Command_Run progs ctx c hs h))"
proof -
  have all: "R h (foldl (\<lambda>h f. f line stream level h) h hs)" for line stream level h
    by (rule g_foldl) (use assms(1) in \<open>auto simp: handler_ok_def\<close>)
  have "R (snd ([] :: string, h)) (snd (snd (Command_execute progs ctx c (\<lambda>line stream level (buf, h).
        (buf @ line @ [LF], foldl (\<lambda>h f. f line stream level h) h hs)) ([], h))))"
    by (rule r_execute) (auto intro: all assms(2))
  then show ?thesis by (auto simp: Command_Run_def split: prod.splits)
qed

lemma g_checked: "(\<And>h. R h (snd (m h))) \<Longrightarrow> guarantees R (checked m)"
  by (auto simp: guarantees_def checked_def split: prod.splits option.splits) (metis snd_conv)+

lemma g_Run: "(\<And>f. f \<in> set hs \<Longrightarrow> handler_ok R f) \<Longrightarrow> ok c \<Longrightarrow> guarantees R (checked (Command_Run progs ctx c hs))"
  by (rule g_checked) (rule r_Run)

lemma r_CloneOrPull:
  assumes hs: "\<And>f. f \<in> set hs \<Longrightarrow> handler_ok R f" and c: "\<And>args. ok (git_Command workDir args)"
  shows "R h (snd (git_CloneOrPull progs ctx workDir remoteURL branch hs h))"
proof -
  note run = r_Run [OF hs c]
  have "R h (snd (git_Pull progs ctx workDir branch hs h))" for h
  proof -
    obtain o1 e1 h1 where 1: "Command_Run progs ctx (git_Command workDir [''checkout'', ''-f'', branch]) hs h
      = ((o1, e1), h1)" by (metis prod.collapse)
    obtain o2 e2 h2 where 2: "Command_Run progs ctx (git_Command workDir [''fetch'', ''origin'', branch, ''--depth'', ''1'']) hs h1
      = ((o2, e2), h2)" by (metis prod.collapse)
    have "R h h1" and "R h1 h2" using run [where ctx = ctx] 1 2 by (metis snd_conv)+
    moreover have "R h2 (snd (Command_Run progs ctx (git_Command workDir [''reset'', ''--hard'', ''origin/'' @ branch]) hs h2))"
      by (rule run)
    ultimately show ?thesis
      by (auto simp: git_Pull_def 1 2 split: option.splits intro: trans)
  qed
  moreover obtain b h1 where g: "git_IsGitRepo workDir h = (b, h1)" by force
  moreover have "R h h1"
    using g guaranteesD [OF g_Stat] by (auto simp: git_IsGitRepo_def split: prod.splits sum.splits)
  moreover have "R h1 (snd (git_Clone progs ctx workDir remoteURL branch hs h1))"
    unfolding git_Clone_def by (rule run)
  ultimately show ?thesis
    by (cases b) (auto simp: git_CloneOrPull_def intro: trans)
qed

lemma g_CloneOrPull:
  assumes "\<And>f. f \<in> set hs \<Longrightarrow> handler_ok R f" and "\<And>args. ok (git_Command workDir args)"
  shows "guarantees R (checked (git_CloneOrPull progs ctx workDir remoteURL branch hs))"
  by (rule g_checked) (rule r_CloneOrPull [OF assms])

lemmas command_rules = g_rules g_MkdirAll g_first_file g_Run g_CloneOrPull

end

text \<open>A relation that does not look at the files.\<close>

locale host_guarantee = command_guarantee +
  assumes files: "R h (h\<lparr>ho_Files := fs\<rparr>)"
begin

lemma g_WriteFile: "guarantees R (os_WriteFile p data)"
  unfolding os_WriteFile_def by (intro g_syscall guaranteesI) (auto intro: refl files)

lemma g_WriteEnvFile: "guarantees R (WriteEnvFile workDir envVars)"
  unfolding WriteEnvFile_def by (rule g_WriteFile)

lemmas host_rules = command_rules g_WriteEnvFile

end

text \<open>The clock does not run backwards.\<close>

definition later :: "('d, 'o) Host \<Rightarrow> ('d, 'o) Host \<Rightarrow> bool" where
  "later h h' \<longleftrightarrow> ho_Now h \<le> ho_Now h'"

interpretation tm: host_guarantee later progs "\<lambda>_. True" for progs
  by unfold_locales (auto simp: later_def)

text \<open>The history grows by commands of a class only.\<close>

definition ran :: "(Command \<Rightarrow> bool) \<Rightarrow> ('d, 'o) Host \<Rightarrow> ('d, 'o) Host \<Rightarrow> bool" where
  "ran ok h h' \<longleftrightarrow> (\<exists>new. ho_Log h' = ho_Log h @ new \<and> (\<forall>(c, b)\<in>set new. ok c))"

interpretation rn: host_guarantee "ran ok" progs ok for progs ok
proof
  fix a b c :: "('x, 'y) Host"
  assume "ran ok a b" and "ran ok b c"
  then show "ran ok a c"
    unfolding ran_def by (metis (no_types, lifting) Un_iff append.assoc set_append)
next
  fix c d h0 h fs ds r b
  assume "ok c" and "ran ok h0 h"
  then show "ran ok h0 (h\<lparr>ho_Now := ho_Now h + d, ho_Files := fs, ho_Dirs := ds, ho_Rest := r,
      ho_Log := ho_Log h @ [(c, b)]\<rparr>)"
    by (auto simp: ran_def)
qed (auto simp: ran_def)

lemma ran_none: "ran (\<lambda>_. False) h h' \<longleftrightarrow> ho_Log h' = ho_Log h"
proof
  assume "ran (\<lambda>_. False) h h'"
  then obtain new where n: "ho_Log h' = ho_Log h @ new" "\<forall>(c :: Command, b :: bool)\<in>set new. False"
    by (auto simp: ran_def)
  then have "new = []" by (cases new) auto
  with n show "ho_Log h' = ho_Log h" by simp
qed (auto simp: ran_def)

text \<open>One file stays as it is, when the commands leave it alone.\<close>

definition same_file :: "string \<Rightarrow> ('d, 'o) Host \<Rightarrow> ('d, 'o) Host \<Rightarrow> bool" where
  "same_file p h h' \<longleftrightarrow> ho_Files h' p = ho_Files h p"

interpretation sf: command_guarantee "same_file p" progs "\<lambda>c. \<forall>ctx h. oc_Files (progs ctx c h) p = ho_Files h p"
  for p progs
  by unfold_locales (auto simp: same_file_def)

end
