(* ===== verification/Executor.thy ===== *)
theory Executor
  imports Host Requests
begin

text \<open>
  The agent's executor (\<open>internal/agent/executor/executor.go\<close>): one function per job type, the
  health of an application from the output of \<open>docker compose ps\<close>, and the gate a deployment
  has to pass. \<open>emit\<close> is the callback \<open>Execute\<close> is given; \<open>'m\<close> is the type of metrics samples.
  The reader of JSON documents and the UUID parser are parameters.
\<close>

section \<open>Events\<close>

record EventLogEmitted =
  ev_Timestamp :: gotime
  ev_Level :: string
  ev_Source :: string
  ev_Action :: string
  ev_Message :: string
  ev_Context :: "LogContext option"

record EventCommitInfoEmitted =
  ec_DeploymentID :: int
  ec_Hash :: string
  ec_Message :: string

datatype 'm Emitted =
    EmitMetrics 'm
  | EmitHealths "ApplicationHealth list"
  | EmitLog EventLogEmitted
  | EmitCommit EventCommitInfoEmitted

type_synonym ('d, 'o, 'm) emitter = "'m Emitted \<Rightarrow> ('d, 'o) Host \<Rightarrow> ('d, 'o) Host"

definition LogAgent :: string where "LogAgent = ''agent''"
definition ActionAppDeploy :: string where "ActionAppDeploy = ''app_deploy''"
definition ActionAppStart :: string where "ActionAppStart = ''app_start''"
definition ActionAppStop :: string where "ActionAppStop = ''app_stop''"
definition ActionAppRestart :: string where "ActionAppRestart = ''app_restart''"
definition ActionAppDestroy :: string where "ActionAppDestroy = ''app_destroy''"
definition ActionAppHealthCheck :: string where "ActionAppHealthCheck = ''app_health_check''"
definition StepGitClone :: string where "StepGitClone = ''git_clone''"
definition StepBuildPrepare :: string where "StepBuildPrepare = ''build_prepare''"
definition StepDockerBuild :: string where "StepDockerBuild = ''docker_build''"
definition StepDockerStart :: string where "StepDockerStart = ''docker_start''"
definition StepDockerStop :: string where "StepDockerStop = ''docker_stop''"
definition StepDockerRestart :: string where "StepDockerRestart = ''docker_restart''"
definition StepDockerHealthCheck :: string where "StepDockerHealthCheck = ''docker_health_check''"
definition StepDockerCommit :: string where "StepDockerCommit = ''docker_commit''"
definition StepDockerRemove :: string where "StepDockerRemove = ''docker_remove''"

definition line_context :: "string \<Rightarrow> string \<Rightarrow> string \<Rightarrow> LogContext" where
  "line_context step stream line = \<lparr>lc_Step = step, lc_Stream = stream, lc_Line = line,
     lc_ExitCode = None, lc_Latency = None, lc_Status = []\<rparr>"

definition logStreamHandler :: "('d, 'o, 'm) emitter \<Rightarrow> string \<Rightarrow> string \<Rightarrow> ('d, 'o) Host StreamHandler" where
  "logStreamHandler emit action step line stream level h = emit (EmitLog
     \<lparr>ev_Timestamp = ho_Now h, ev_Level = level, ev_Source = LogAgent, ev_Action = action,
      ev_Message = line, ev_Context = Some (line_context step stream line)\<rparr>) h"

definition logFatalHandler :: "string \<Rightarrow> ('d, 'o, 'm) emitter \<Rightarrow> string \<Rightarrow> string \<Rightarrow> (('d, 'o) Host, unit) op" where
  "logFatalHandler message emit action step = modifyE (\<lambda>h. emit (EmitLog
     \<lparr>ev_Timestamp = ho_Now h, ev_Level = LogFatal, ev_Source = LogAgent, ev_Action = action,
      ev_Message = message, ev_Context = Some (line_context step StreamStderr message)\<rparr>) h)"

text \<open>\<open>if err != nil { logFatalHandler(prefix + err.Error(), ...); return err }\<close>.\<close>

definition or_fatal :: "string \<Rightarrow> ('d, 'o, 'm) emitter \<Rightarrow> string \<Rightarrow> string
    \<Rightarrow> (('d, 'o) Host, 'a) op \<Rightarrow> (('d, 'o) Host, 'a) op" where
  "or_fatal message emit action step m =
     catchE m (\<lambda>e. bindE (logFatalHandler (message @ '', '' @ error_text e) emit action step) (\<lambda>_. failE e))"

section \<open>Health of an application\<close>

definition dec_Container :: "json \<Rightarrow> error + Container" where
  "dec_Container j = (case j of
     JObj kvs \<Rightarrow>
       andThen (str_member ''ID'' kvs) (\<lambda>i.
       andThen (str_member ''Name'' kvs) (\<lambda>n.
       andThen (str_member ''Ports'' kvs) (\<lambda>p.
       andThen (str_member ''Project'' kvs) (\<lambda>pr.
       andThen (str_member ''State'' kvs) (\<lambda>st.
       andThen (str_member ''Health'' kvs) (\<lambda>he.
       andThen (int_member ''ExitCode'' kvs) (\<lambda>x.
       Inr \<lparr>co_ID = i, co_Name = n, co_Ports = p, co_Project = pr, co_State = st, co_Health = he,
         co_ExitCode = x\<rparr>)))))))
   | JNull \<Rightarrow> Inr \<lparr>co_ID = [], co_Name = [], co_Ports = [], co_Project = [], co_State = [],
       co_Health = [], co_ExitCode = 0\<rparr>
   | _ \<Rightarrow> Inl bad_json)"

definition unmarshal_text :: "(string \<Rightarrow> json option) \<Rightarrow> (json \<Rightarrow> error + 'a) \<Rightarrow> string \<Rightarrow> error + 'a" where
  "unmarshal_text json_Parse dec s = (case json_Parse s of None \<Rightarrow> Inl bad_json | Some j \<Rightarrow> dec j)"

fun parse_lines :: "(string \<Rightarrow> json option) \<Rightarrow> string list \<Rightarrow> error + Container list" where
  "parse_lines json_Parse [] = Inr []"
| "parse_lines json_Parse (l # ls) =
    (if trim_space l = [] then parse_lines json_Parse ls
     else andThen (unmarshal_text json_Parse dec_Container (trim_space l)) (\<lambda>c.
          andThen (parse_lines json_Parse ls) (\<lambda>cs. Inr (c # cs))))"

definition parseComposePs :: "(string \<Rightarrow> json option) \<Rightarrow> string \<Rightarrow> error + Container list" where
  "parseComposePs json_Parse output =
    (let trimmed = trim_space output in
     if trimmed = [] then Inl (ErrMsg ''empty compose ps output'')
     else case unmarshal_text json_Parse dec_Container trimmed of
       Inr one \<Rightarrow> Inr [one]
     | Inl _ \<Rightarrow> (case unmarshal_text json_Parse (dec_slice dec_Container) trimmed of
         Inr many \<Rightarrow> Inr many
       | Inl _ \<Rightarrow> (case parse_lines json_Parse (split_on LF trimmed) of
           Inl e \<Rightarrow> Inl e
         | Inr containers \<Rightarrow> if containers = []
             then Inl (ErrMsg ''no containers parsed from compose ps output'') else Inr containers)))"

fun aggregate_go :: "bool \<Rightarrow> Container list \<Rightarrow> string" where
  "aggregate_go hasStarting [] = (if hasStarting then AppStatusStarting else AppStatusRunning)"
| "aggregate_go hasStarting (c # cs) =
    (if co_State c = ''running'' then
       (if co_Health c = ''unhealthy'' then AppStatusFailed
        else if co_Health c = ''starting'' then aggregate_go True cs
        else aggregate_go hasStarting cs)
     else if co_State c = ''restarting'' then aggregate_go True cs
     else if co_State c = ''exited'' then
       (if co_ExitCode c \<noteq> 0 then AppStatusFailed else aggregate_go hasStarting cs)
     else if co_State c = ''dead'' then AppStatusFailed
     else if co_State c = ''paused'' then AppStatusUnknown
     else aggregate_go True cs)"

definition aggregateContainerHealth :: "Container list \<Rightarrow> string" where
  "aggregateContainerHealth containers =
     (if containers = [] then AppStatusUnknown else aggregate_go False containers)"

section \<open>The executor\<close>

record ('d, 'o, 'm) Executor =
  ex_workDir :: string
  ex_metrics :: "('d, 'o) Host \<Rightarrow> 'm"
  ex_progs :: "('d, 'o) Programs"
  ex_json :: "string \<Rightarrow> json option"
  ex_uuid_Parse :: "string \<Rightarrow> uuid option"
  ex_uuid_String :: "uuid \<Rightarrow> string"

definition getAppWorkDir :: "('d, 'o, 'm) Executor \<Rightarrow> string \<Rightarrow> string" where
  "getAppWorkDir e dirName = path_Join (ex_workDir e) dirName"

definition composeCmd :: "('d, 'o, 'm) Executor \<Rightarrow> Ctx \<Rightarrow> string \<Rightarrow> string list
    \<Rightarrow> ('d, 'o) Host StreamHandler list \<Rightarrow> (('d, 'o) Host, string) op" where
  "composeCmd e ctx workDir args hs =
     bindE (GetDockerComposeFile workDir) (\<lambda>composeFile.
     checked (docker_Cmd (ex_progs e) ctx workDir ([''compose'', ''-f'', composeFile] @ args) hs))"

definition ps_args :: "string list" where
  "ps_args = [''ps'', ''--format'', ''json'']"

definition up_args :: "string list" where
  "up_args = [''up'', ''-d'', ''--force-recreate'']"

definition app_health :: "('d, 'o, 'm) Executor \<Rightarrow> Ctx \<Rightarrow> ('d, 'o, 'm) emitter \<Rightarrow> uuid \<Rightarrow> AppInfo
    \<Rightarrow> ('d, 'o) Host \<Rightarrow> ApplicationHealth \<times> ('d, 'o) Host" where
  "app_health e ctx emit serverID app h =
    (let report = (\<lambda>status. \<lparr>h_ApplicationID = ai_ApplicationID app, h_Status = status\<rparr>) in
     case composeCmd e ctx (getAppWorkDir e (ai_AppKey app)) ps_args [] h of
       (Inl _, h1) \<Rightarrow> (report AppStatusFailed, h1)
     | (Inr output, h1) \<Rightarrow>
         if output = [] then (report AppStatusUnknown, h1)
         else (case parseComposePs (ex_json e) output of
           Inl err \<Rightarrow> (report AppStatusFailed, snd (logFatalHandler
             (''failed to parse compose ps output server_id='' @ ex_uuid_String e serverID @ '' app_id='' @
              show_int (ai_ApplicationID app) @ '' err='' @ error_text err)
             emit ActionAppHealthCheck StepDockerHealthCheck h1))
         | Inr containers \<Rightarrow> (report (aggregateContainerHealth containers), h1)))"

fun app_healths :: "('d, 'o, 'm) Executor \<Rightarrow> Ctx \<Rightarrow> ('d, 'o, 'm) emitter \<Rightarrow> uuid \<Rightarrow> AppInfo list
    \<Rightarrow> ('d, 'o) Host \<Rightarrow> ApplicationHealth list \<times> ('d, 'o) Host" where
  "app_healths e ctx emit serverID [] h = ([], h)"
| "app_healths e ctx emit serverID (a # as) h =
    (let (r, h1) = app_health e ctx emit serverID a h; (rs, h2) = app_healths e ctx emit serverID as h1
     in (r # rs, h2))"

definition checkAppHealths :: "('d, 'o, 'm) Executor \<Rightarrow> Ctx \<Rightarrow> Job \<Rightarrow> ('d, 'o, 'm) emitter
    \<Rightarrow> (('d, 'o) Host, unit) op" where
  "checkAppHealths e ctx job emit h = (case unmarshal (dec_AppHealthCheckPayload (ex_uuid_Parse e)) (j_Payload job) of
     Inl err \<Rightarrow> (Inl err, h)
   | Inr payload \<Rightarrow>
       (let (reports, h1) = app_healths e ctx emit (j_ServerID job) (ph_Applications payload) h
        in (Inr (), emit (EmitHealths reports) h1)))"

section \<open>The health gate\<close>

definition second :: int where "second = 1000000000"

definition healthGateTimeout :: int where "healthGateTimeout = 60 * second"

text \<open>What an output of \<open>compose ps\<close> says, if it says anything.\<close>

definition gate_status :: "(string \<Rightarrow> json option) \<Rightarrow> string \<Rightarrow> string option" where
  "gate_status json_Parse output = (if output = [] then None
     else case parseComposePs json_Parse output of
       Inl _ \<Rightarrow> None | Inr containers \<Rightarrow> Some (aggregateContainerHealth containers))"

text \<open>
  A ticker of three seconds that started at \<open>t0\<close> keeps one tick: after a receive at \<open>rcv\<close> the next
  one is due at the first tick later than \<open>rcv\<close>.
\<close>

definition next_tick :: "gotime \<Rightarrow> gotime \<Rightarrow> gotime" where
  "next_tick t0 rcv = t0 + ((rcv - t0) div (3 * second) + 1) * (3 * second)"

definition ctx_Err :: error where "ctx_Err = ErrMsg ''context deadline exceeded''"

text \<open>The \<open>select\<close> of the loop: the time at which the context ends the wait, if it does.\<close>

definition ctx_wins :: "Ctx \<Rightarrow> gotime \<Rightarrow> gotime \<Rightarrow> gotime option" where
  "ctx_wins ctx now tick = (case cx_Done ctx of
     None \<Rightarrow> None
   | Some d \<Rightarrow> if max now d < max now tick \<or> (max now d = max now tick \<and> cx_Pick ctx (max now d))
       then Some (max now d) else None)"

definition gate_failed :: "('d, 'o, 'm) emitter \<Rightarrow> string \<Rightarrow> string \<Rightarrow> string \<Rightarrow> error
    \<Rightarrow> (('d, 'o) Host, unit) op" where
  "gate_failed emit action step message err =
     bindE (logFatalHandler message emit action step) (\<lambda>_. failE err)"

text \<open>
  The time between two readings of the clock does not go back, so every round of the loop
  brings the clock or the ticker nearer to the deadline.
\<close>

lemma later_composeCmd:
  assumes "composeCmd e ctx workDir args [] h = (r, h')"
  shows "ho_Now h \<le> ho_Now h'"
proof -
  have "guarantees later (composeCmd e ctx workDir args [] :: (('a, 'b) Host, string) op)"
    unfolding composeCmd_def docker_Cmd_def GetDockerComposeFile_def
    by (intro tm.host_rules; simp)
  from guaranteesD [OF this assms] show ?thesis by (simp add: later_def)
qed

lemma next_tick_after: "rcv < next_tick t0 rcv"
proof -
  have "rcv - t0 < ((rcv - t0) div (3 * second) + 1) * (3 * second)"
    by (simp add: second_def)
  then show ?thesis by (simp add: next_tick_def)
qed

function waitLoop :: "('d, 'o, 'm) Executor \<Rightarrow> Ctx \<Rightarrow> string \<Rightarrow> string \<Rightarrow> ('d, 'o, 'm) emitter \<Rightarrow> string
    \<Rightarrow> string \<Rightarrow> string \<Rightarrow> gotime \<Rightarrow> gotime \<Rightarrow> gotime \<Rightarrow> ('d, 'o) Host \<Rightarrow> (error + unit) \<times> ('d, 'o) Host" where
  "waitLoop e ctx workDir appKey emit action step timeout deadline t0 rcv h =
    (case composeCmd e ctx workDir ps_args [] h of
       (Inl err, h1) \<Rightarrow>
         if deadline < ho_Now h1 then
           gate_failed emit action step
             (''app '' @ appKey @ '' did not become ready: compose ps failed: '' @ error_text err)
             (Wrapped (''app '' @ appKey @ '' did not become ready'') err) h1
         else waitLoop e ctx workDir appKey emit action step timeout deadline t0 rcv
                (h1\<lparr>ho_Now := ho_Now h1 + second div 2\<rparr>)
     | (Inr output, h1) \<Rightarrow>
         if gate_status (ex_json e) output = Some AppStatusRunning then (Inr (), h1)
         else if gate_status (ex_json e) output = Some AppStatusFailed then
           (let msg = ''app '' @ appKey @ '' crashed on boot (health gate failed)''
            in gate_failed emit action step msg (ErrMsg msg) h1)
         else if deadline < ho_Now h1 then
           (let msg = ''app '' @ appKey @ '' did not become ready within '' @ timeout
            in gate_failed emit action step (msg @ '' (health gate timeout)'') (ErrMsg msg) h1)
         else (case ctx_wins ctx (ho_Now h1) (next_tick t0 rcv) of
             Some t \<Rightarrow> (Inl ctx_Err, h1\<lparr>ho_Now := t\<rparr>)
           | None \<Rightarrow> (let t = max (ho_Now h1) (next_tick t0 rcv)
               in waitLoop e ctx workDir appKey emit action step timeout deadline t0 t (h1\<lparr>ho_Now := t\<rparr>))))"
  by pat_completeness auto

termination
proof (relation "measure (\<lambda>(e, ctx, workDir, appKey, emit, action, step, timeout, deadline, t0, rcv, h).
    nat (deadline + 1 - ho_Now h) + nat (deadline + 1 - rcv))", goal_cases)
  case 1
  show ?case by simp
next
  case (2 e ctx workDir appKey emit action step timeout deadline t0 rcv h x y a)
  have "ho_Now h \<le> ho_Now y" by (rule later_composeCmd [OF 2(1) [symmetric]])
  with 2 show ?case by (auto simp: second_def)
next
  case (3 e ctx workDir appKey emit action step timeout deadline t0 rcv h x y b t)
  have "ho_Now h \<le> ho_Now y" by (rule later_composeCmd [OF 3(1) [symmetric]])
  with 3 next_tick_after [of rcv t0] show ?case by auto
qed

declare waitLoop.simps [simp del]

definition waitForAppRunning :: "('d, 'o, 'm) Executor \<Rightarrow> Ctx \<Rightarrow> string \<Rightarrow> string \<Rightarrow> ('d, 'o, 'm) emitter
    \<Rightarrow> string \<Rightarrow> string \<Rightarrow> string \<Rightarrow> int \<Rightarrow> (('d, 'o) Host, unit) op" where
  "waitForAppRunning e ctx workDir appKey emit action step duration_String timeout = (\<lambda>h.
     waitLoop e ctx workDir appKey emit action step duration_String (ho_Now h + timeout) (ho_Now h) (ho_Now h) h)"

section \<open>The jobs\<close>

definition gate :: "('d, 'o, 'm) Executor \<Rightarrow> Ctx \<Rightarrow> string \<Rightarrow> string \<Rightarrow> ('d, 'o, 'm) emitter
    \<Rightarrow> (('d, 'o) Host, unit) op" where
  "gate e ctx workDir appKey emit =
     waitForAppRunning e ctx workDir appKey emit ActionAppDeploy StepDockerHealthCheck ''1m0s'' healthGateTimeout"

text \<open>The variables a deployment or a rollback writes: those of the payload and the image to run.\<close>

definition build_env :: "envmap \<Rightarrow> string \<Rightarrow> string \<Rightarrow> envmap" where
  "build_env envVars appImage appKey =
     env_set ''APP_CONTAINER_NAME'' appKey (env_set ''APP_IMAGE'' appImage envVars)"

definition commit_info :: "int option \<Rightarrow> string \<Rightarrow> string \<Rightarrow> ('d, 'o, 'm) emitter \<Rightarrow> (('d, 'o) Host, unit) op" where
  "commit_info deploymentID commitHash message emit = (case deploymentID of
     None \<Rightarrow> failE (GoPanic ''nil pointer dereference'')
   | Some d \<Rightarrow> if length commitHash < 8 then failE (GoPanic ''slice bounds out of range'')
       else modifyE (emit (EmitCommit \<lparr>ec_DeploymentID = d, ec_Hash = take 8 commitHash, ec_Message = message\<rparr>)))"

definition prepare :: "('d, 'o, 'm) Executor \<Rightarrow> Ctx \<Rightarrow> Job \<Rightarrow> AppDeployPayload \<Rightarrow> ('d, 'o, 'm) emitter
    \<Rightarrow> (('d, 'o) Host, string) op" where
  "prepare e ctx job payload emit =
    (let workDir = getAppWorkDir e (pd_AppKey payload); action = ActionAppDeploy in
     bindE (os_MkdirAll workDir) (\<lambda>_.
     bindE (or_fatal ''failed to clone or pull repository'' emit action StepGitClone
       (checked (git_CloneOrPull (ex_progs e) ctx workDir (pd_RepoURL payload) (pd_Branch payload)
          [logStreamHandler emit action StepGitClone]))) (\<lambda>_.
     bindE (or_fatal ''failed to get commit hash'' emit action StepBuildPrepare
       (git_GetCurrentCommit (ex_progs e) ctx workDir)) (\<lambda>commitHash.
     bindE (or_fatal ''failed to get commit message'' emit action StepBuildPrepare
       (checked (git_GetCommitMessage (ex_progs e) ctx workDir))) (\<lambda>commitMessage.
     bindE (commit_info (j_DeploymentID job) commitHash commitMessage emit) (\<lambda>_.
     bindE (or_fatal ''failed to get docker compose file'' emit action StepBuildPrepare
       (GetDockerComposeFile workDir)) (\<lambda>_.
     bindE (if pd_EnvVars payload = [] then returnE ()
       else or_fatal ''failed to write user env'' emit action StepBuildPrepare
         (WriteEnvFile workDir (pd_EnvVars payload))) (\<lambda>_.
     let appImage = pd_AppKey payload @ '':'' @ commitHash in
     bindE (or_fatal ''failed to write user and build env'' emit action StepDockerBuild
       (WriteEnvFile workDir (build_env (pd_EnvVars payload) appImage (pd_AppKey payload)))) (\<lambda>_.
     returnE appImage)))))))))"

definition release :: "('d, 'o, 'm) Executor \<Rightarrow> Ctx \<Rightarrow> string \<Rightarrow> string \<Rightarrow> string \<Rightarrow> ('d, 'o, 'm) emitter
    \<Rightarrow> (('d, 'o) Host, unit) op" where
  "release e ctx workDir appKey message emit =
     bindE (or_fatal message emit ActionAppDeploy StepDockerStart
       (composeCmd e ctx workDir up_args [logStreamHandler emit ActionAppDeploy StepDockerStart])) (\<lambda>_.
     gate e ctx workDir appKey emit)"

definition deployApp :: "('d, 'o, 'm) Executor \<Rightarrow> Ctx \<Rightarrow> Job \<Rightarrow> ('d, 'o, 'm) emitter \<Rightarrow> (('d, 'o) Host, unit) op" where
  "deployApp e ctx job emit = (case unmarshal dec_AppDeployPayload (j_Payload job) of
     Inl err \<Rightarrow> failE err
   | Inr payload \<Rightarrow>
      (let workDir = getAppWorkDir e (pd_AppKey payload) in
       bindE (prepare e ctx job payload emit) (\<lambda>_.
       bindE (composeCmd e ctx workDir [''build''] [logStreamHandler emit ActionAppDeploy StepDockerBuild]) (\<lambda>_.
       release e ctx workDir (pd_AppKey payload) ''failed to run docker compose up'' emit))))"

definition compose_job :: "('d, 'o, 'm) Executor \<Rightarrow> Ctx \<Rightarrow> Job \<Rightarrow> ('d, 'o, 'm) emitter \<Rightarrow> string list
    \<Rightarrow> string \<Rightarrow> string \<Rightarrow> string \<Rightarrow> (('d, 'o) Host, unit) op" where
  "compose_job e ctx job emit args action step message = (case unmarshal dec_AppInfo (j_Payload job) of
     Inl err \<Rightarrow> failE err
   | Inr payload \<Rightarrow>
       bindE (or_fatal message emit action step (composeCmd e ctx (getAppWorkDir e (ai_AppKey payload)) args
         [logStreamHandler emit action step])) (\<lambda>_. returnE ()))"

definition startApp :: "('d, 'o, 'm) Executor \<Rightarrow> Ctx \<Rightarrow> Job \<Rightarrow> ('d, 'o, 'm) emitter \<Rightarrow> (('d, 'o) Host, unit) op" where
  "startApp e ctx job emit = compose_job e ctx job emit [''start''] ActionAppStart StepDockerStart
     ''failed to run docker compose start''"

definition stopApp :: "('d, 'o, 'm) Executor \<Rightarrow> Ctx \<Rightarrow> Job \<Rightarrow> ('d, 'o, 'm) emitter \<Rightarrow> (('d, 'o) Host, unit) op" where
  "stopApp e ctx job emit = compose_job e ctx job emit [''stop''] ActionAppStop StepDockerStop
     ''failed to run docker compose stop''"

definition restartApp :: "('d, 'o, 'm) Executor \<Rightarrow> Ctx \<Rightarrow> Job \<Rightarrow> ('d, 'o, 'm) emitter \<Rightarrow> (('d, 'o) Host, unit) op" where
  "restartApp e ctx job emit = compose_job e ctx job emit up_args ActionAppRestart StepDockerRestart
     ''failed to run docker compose up''"

definition rollbackApp :: "('d, 'o, 'm) Executor \<Rightarrow> Ctx \<Rightarrow> Job \<Rightarrow> ('d, 'o, 'm) emitter \<Rightarrow> (('d, 'o) Host, unit) op" where
  "rollbackApp e ctx job emit = (case unmarshal dec_AppRollbackPayload (j_Payload job) of
     Inl err \<Rightarrow> failE err
   | Inr payload \<Rightarrow>
      (let workDir = getAppWorkDir e (pr_AppKey payload); msg = ''rollback image tag is empty'' in
       if pr_ImageTag payload = [] then
         bindE (logFatalHandler msg emit ActionAppDeploy StepDockerStart) (\<lambda>_. failE (ErrMsg msg))
       else
         bindE (or_fatal ''failed to write rollback env'' emit ActionAppDeploy StepDockerStart
           (WriteEnvFile workDir (build_env (pr_EnvVars payload) (pr_ImageTag payload) (pr_AppKey payload)))) (\<lambda>_.
         release e ctx workDir (pr_AppKey payload) ''failed to run docker compose up for rollback'' emit)))"

definition destroyApp :: "('d, 'o, 'm) Executor \<Rightarrow> Ctx \<Rightarrow> Job \<Rightarrow> ('d, 'o, 'm) emitter \<Rightarrow> (('d, 'o) Host, unit) op" where
  "destroyApp e ctx job emit = (case unmarshal dec_AppInfo (j_Payload job) of
     Inl err \<Rightarrow> failE err
   | Inr payload \<Rightarrow>
      (let workDir = getAppWorkDir e (ai_AppKey payload); imageName = ai_AppKey payload;
           action = ActionAppDestroy;
           docker = (\<lambda>args step. checked (docker_Cmd (ex_progs e) ctx workDir args [logStreamHandler emit action step])) in
       bindE (or_fatal ''failed to stopping container'' emit action StepDockerStop
         (docker [''stop'', imageName] StepDockerStop)) (\<lambda>_.
       bindE (or_fatal ''failed to commiting backup'' emit action StepDockerCommit
         (docker [''commit'', imageName, imageName @ '':backup''] StepDockerCommit)) (\<lambda>_.
       bindE (or_fatal ''failed to removing container'' emit action StepDockerRemove
         (docker [''rm'', imageName] StepDockerRemove)) (\<lambda>_.
       returnE ())))))"

definition Execute :: "('d, 'o, 'm) Executor \<Rightarrow> Ctx \<Rightarrow> Job \<Rightarrow> ('d, 'o, 'm) emitter \<Rightarrow> (('d, 'o) Host, unit) op" where
  "Execute e ctx job emit =
    (if j_Type job = JobTypeMetricsCollect then modifyE (\<lambda>h. emit (EmitMetrics (ex_metrics e h)) h)
     else if j_Type job = JobTypeAppHealthCheck then checkAppHealths e ctx job emit
     else if j_Type job = JobTypeAppDeploy then deployApp e ctx job emit
     else if j_Type job = JobTypeAppStart then startApp e ctx job emit
     else if j_Type job = JobTypeAppStop then stopApp e ctx job emit
     else if j_Type job = JobTypeAppRestart then restartApp e ctx job emit
     else if j_Type job = JobTypeAppRollback then rollbackApp e ctx job emit
     else if j_Type job = JobTypeAppDestroy then destroyApp e ctx job emit
     else failE (ErrMsg (''unknown job type: '' @ j_Type job)))"

end
