(* ===== verification/HealthGate.thy ===== *)
theory HealthGate
  imports Executor
begin

text \<open>
  What the executor promises: what the health of an application says about its containers, that
  a deployment touches the running stack only after its image is built, that it succeeds only
  when the containers are up and the image's tag is written, that the wait for them is bounded,
  and that the environment file has one line per variable.
\<close>

section \<open>Health\<close>

definition container_up :: "Container \<Rightarrow> bool" where
  "container_up c \<longleftrightarrow> co_State c = ''running'' \<and> co_Health c \<notin> {''unhealthy'', ''starting''} \<or>
     co_State c = ''exited'' \<and> co_ExitCode c = 0"

definition container_down :: "Container \<Rightarrow> bool" where
  "container_down c \<longleftrightarrow> co_State c = ''running'' \<and> co_Health c = ''unhealthy'' \<or>
     co_State c = ''exited'' \<and> co_ExitCode c \<noteq> 0 \<or> co_State c = ''dead''"

lemma aggregate_go_running:
  "aggregate_go b cs = AppStatusRunning \<longleftrightarrow> \<not> b \<and> (\<forall>c\<in>set cs. container_up c)"
  by (induction cs arbitrary: b) (auto simp: container_up_def app_status_defs)

definition fails_first :: "Container list \<Rightarrow> bool" where
  "fails_first cs \<longleftrightarrow> (\<exists>pre c post. cs = pre @ c # post \<and> container_down c \<and>
     list_all (\<lambda>d. co_State d \<noteq> ''paused'') pre)"

lemma fails_first_Nil: "\<not> fails_first []"
  by (simp add: fails_first_def)

lemma fails_first_Cons:
  "fails_first (c # cs) \<longleftrightarrow> container_down c \<or> co_State c \<noteq> ''paused'' \<and> fails_first cs"
proof
  assume "fails_first (c # cs)"
  then show "container_down c \<or> co_State c \<noteq> ''paused'' \<and> fails_first cs"
    unfolding fails_first_def Cons_eq_append_conv by fastforce
next
  assume "container_down c \<or> co_State c \<noteq> ''paused'' \<and> fails_first cs"
  then consider "container_down c" | pre d post where "co_State c \<noteq> ''paused''" "cs = pre @ d # post"
      "container_down d" "list_all (\<lambda>d. co_State d \<noteq> ''paused'') pre"
    by (auto simp: fails_first_def)
  then show "fails_first (c # cs)"
  proof cases
    case 1
    then have "c # cs = [] @ c # cs \<and> container_down c \<and> list_all (\<lambda>d. co_State d \<noteq> ''paused'') []" by simp
    then show ?thesis unfolding fails_first_def by blast
  next
    case 2
    then have "c # cs = (c # pre) @ d # post \<and> container_down d \<and>
      list_all (\<lambda>d. co_State d \<noteq> ''paused'') (c # pre)" by simp
    then show ?thesis unfolding fails_first_def by blast
  qed
qed

lemma aggregate_go_failed: "aggregate_go b cs = AppStatusFailed \<longleftrightarrow> fails_first cs"
  by (induction cs arbitrary: b)
    (auto simp: fails_first_Nil fails_first_Cons container_down_def app_status_defs)

text \<open>
  The health of an application: it is running exactly when it has containers and each of
  them runs and is neither unhealthy nor starting, or has exited with code 0; it is failed
  exactly when a container that is unhealthy, dead or exited with another code comes before
  every paused one.
\<close>

theorem health_verdict:
  "(aggregateContainerHealth cs = AppStatusRunning \<longleftrightarrow> cs \<noteq> [] \<and> list_all container_up cs) \<and>
   (aggregateContainerHealth cs = AppStatusFailed \<longleftrightarrow>
     (\<exists>pre c post. cs = pre @ c # post \<and> container_down c \<and> list_all (\<lambda>d. co_State d \<noteq> ''paused'') pre))"
  unfolding fails_first_def [symmetric]
  by (simp add: aggregateContainerHealth_def aggregate_go_running aggregate_go_failed list_all_iff
      fails_first_Nil)
    (simp add: app_status_defs)

section \<open>The environment file\<close>

definition env_text :: "string \<times> string \<Rightarrow> string" where
  "env_text kv = fst kv @ ''='' @ [CHR 0x22] @ replace_char LF (CHR 0x5C # ''n'') (snd kv) @ [CHR 0x22]"

lemma split_on_line: "LF \<notin> set l \<Longrightarrow> split_on LF (l @ LF # rest) = l # split_on LF rest"
  by (induction l) auto

lemma env_text_one_line: "LF \<notin> set (fst kv) \<Longrightarrow> LF \<notin> set (env_text kv)"
  using replace_char_absent [of LF "CHR 0x5C # ''n''" "snd kv"] by (auto simp: env_text_def LF_def)

text \<open>
  C24. The environment file of a deployment whose keys have no line feed has one line per variable, in
  the order of their names, whatever the values are: a line break in a value does not start another
  line, so a value cannot define a variable. The control plane does not check the keys: one with
  a line feed makes two lines.
\<close>

theorem env_file_lines:
  assumes "\<forall>kv\<in>set envVars. LF \<notin> set (fst kv)"
  shows "split_on LF (env_file envVars) = map env_text (sort_keys envVars) @ [[]]"
proof -
  have "split_on LF (concat (map env_line kvs)) = map env_text kvs @ [[]]"
    if "\<forall>kv\<in>set kvs. LF \<notin> set (fst kv)" for kvs
    using that
  proof (induction kvs)
    case (Cons kv kvs)
    have "env_line kv = env_text kv @ [LF]" by (simp add: env_line_def env_text_def)
    with Cons show ?case by (simp add: split_on_line env_text_one_line)
  qed simp
  with assms show ?thesis by (simp add: env_file_def)
qed

lemma key_with_line_feed:
  "split_on LF (env_file [(''A'' @ [LF] @ ''B'', ''x'')]) = [''A'', env_text (''B'', ''x''), []]"
  by (simp add: env_file_def env_line_def env_text_def sort_keys_def order_by_def LF_def replace_char_def)

theorem env_file_lines_witness:
  "split_on LF (env_file [(''B'', ''x'' @ [LF] @ ''A=y''), (''A'', [])]) =
    [''A='' @ [CHR 0x22, CHR 0x22], ''B='' @ [CHR 0x22] @ ''x'' @ [CHR 0x5C] @ ''nA=y'' @ [CHR 0x22], []]"
  by (subst env_file_lines)
    (auto simp: LF_def sort_keys_def order_by_def env_key_le_def string_le_def env_text_def replace_char_def)

section \<open>The order of a deployment\<close>

text \<open>
  A callback that runs no command and leaves the files alone; the callbacks of the agent's
  worker only queue events and send requests.
\<close>

definition quiet :: "('d, 'o, 'm) emitter \<Rightarrow> bool" where
  "quiet emit \<longleftrightarrow> (\<forall>ev h. ho_Log (emit ev h) = ho_Log h \<and> ho_Files (emit ev h) = ho_Files h
     \<and> ho_Now (emit ev h) = ho_Now h)"

lemma quiet_handler:
  assumes "quiet emit"
  shows "handler_ok (ran ok) (logStreamHandler emit action step)"
    and "handler_ok (same_file p) (logStreamHandler emit action step)"
  using assms by (auto simp: handler_ok_def logStreamHandler_def quiet_def ran_def same_file_def)

lemma quiet_fatal:
  assumes "quiet emit"
  shows "guarantees (ran ok) (logFatalHandler message emit action step)"
    and "guarantees (same_file p) (logFatalHandler message emit action step)"
  using assms by (auto simp: guarantees_def logFatalHandler_def quiet_def ran_def same_file_def)

lemma quiet_or_fatal:
  assumes "quiet emit"
  shows "guarantees (ran ok) m \<Longrightarrow> guarantees (ran ok) (or_fatal message emit action step m)"
  unfolding or_fatal_def
  by (intro rn.g_catch rn.g_bind rn.g_fail quiet_fatal assms)

lemma quiet_commit_info: "quiet emit \<Longrightarrow> guarantees (ran ok) (commit_info d hash message emit)"
  by (auto simp: guarantees_def commit_info_def quiet_def ran_def split: option.splits)

lemma ran_prepare:
  assumes "quiet emit"
  shows "guarantees (ran (\<lambda>c. cm_name c = ''git'')) (prepare e ctx job payload emit)"
  unfolding prepare_def Let_def git_GetCurrentCommit_def git_GetCommitMessage_def GetDockerComposeFile_def
  by (intro rn.host_rules quiet_or_fatal quiet_commit_info assms)
    (auto simp: quiet_handler assms git_Command_def)

text \<open>What a command that is run leaves in the history.\<close>

lemma Run_logged:
  assumes "\<And>f. f \<in> set hs \<Longrightarrow> handler_ok (ran (\<lambda>_. False)) f"
  shows "ho_Log (snd (Command_Run progs ctx c hs h)) =
    ho_Log h @ [(c, snd (fst (Command_Run progs ctx c hs h)) = None)]"
proof -
  have all: "ran (\<lambda>_. False) h (foldl (\<lambda>h f. f line stream level h) h hs)" for line stream level and h :: "('a, 'b) Host"
    by (rule rn.g_foldl) (use assms in \<open>auto simp: handler_ok_def\<close>)
  let ?h = "\<lambda>line stream level (buf, h). (buf @ line @ [LF], foldl (\<lambda>h f. f line stream level h) h hs)"
  obtain buf h' where f: "foldl (\<lambda>(b, h) (d, stream, tx).
     streamOutput ?h stream tx (b, h\<lparr>ho_Now := ho_Now h + int d\<rparr>)) ([], h) (oc_Lines (progs ctx c h)) = (buf, h')"
    by force
  have "ran (\<lambda>_. False) (snd ([] :: string, h)) (snd (foldl (\<lambda>(b, h) (d, stream, tx).
     streamOutput ?h stream tx (b, h\<lparr>ho_Now := ho_Now h + int d\<rparr>)) ([], h) (oc_Lines (progs ctx c h))))"
    by (rule rn.r_lines [where ok = "\<lambda>_. False"]) (simp add: all)
  then have "ho_Log h' = ho_Log h" by (simp add: f ran_none)
  then show ?thesis
    by (simp add: Command_Run_def Command_execute_def f Let_def split: option.split)
qed

lemma checked_Inr: "checked m h = (Inr out, h') \<longleftrightarrow> m h = ((out, None), h')"
  by (auto simp: checked_def split: prod.splits option.splits)

text \<open>The build step: a command of docker whose last argument is \<open>build\<close>.\<close>

definition builds :: "Command \<Rightarrow> bool" where
  "builds c \<longleftrightarrow> cm_name c = ''docker'' \<and> last (cm_args c) = ''build''"

lemma ran_composeCmd:
  assumes "\<And>f. f \<in> set hs \<Longrightarrow> handler_ok (ran ok) f"
    and "\<And>file. ok \<lparr>cm_workDir = workDir, cm_name = ''docker'', cm_args = [''compose'', ''-f'', file] @ args\<rparr>"
  shows "guarantees (ran ok) (composeCmd e ctx workDir args hs)"
  unfolding composeCmd_def docker_Cmd_def GetDockerComposeFile_def
  by (intro rn.host_rules) (use assms in auto)

lemma composeCmd_logged:
  assumes "composeCmd e ctx workDir args hs h = (Inr out, h')"
    and "\<And>f. f \<in> set hs \<Longrightarrow> handler_ok (ran (\<lambda>_. False)) f"
  shows "\<exists>file. ho_Log h' = ho_Log h @
    [(\<lparr>cm_workDir = workDir, cm_name = ''docker'', cm_args = [''compose'', ''-f'', file] @ args\<rparr>, True)]"
proof -
  from assms(1) obtain fl h1 where
    1: "GetDockerComposeFile workDir h = (Inr fl, h1)" and
    2: "Command_Run (ex_progs e) ctx \<lparr>cm_workDir = workDir, cm_name = ''docker'',
      cm_args = [''compose'', ''-f'', fl] @ args\<rparr> hs h1 = ((out, None), h')"
    by (auto simp: composeCmd_def bindE_Inr_iff checked_Inr docker_Cmd_def)
  have "guarantees (ran (\<lambda>_. False)) (GetDockerComposeFile workDir :: (('a, 'b) Host, string) op)"
    unfolding GetDockerComposeFile_def by (intro rn.host_rules)
  from guaranteesD [OF this 1] have "ho_Log h1 = ho_Log h" by (simp add: ran_none)
  moreover have "ho_Log h' = ho_Log h1 @ [(\<lparr>cm_workDir = workDir, cm_name = ''docker'',
      cm_args = [''compose'', ''-f'', fl] @ args\<rparr>, True)]"
    using Run_logged [where progs = "ex_progs e" and ctx = ctx and h = h1 and hs = hs
      and c = "\<lparr>cm_workDir = workDir, cm_name = ''docker'', cm_args = [''compose'', ''-f'', fl] @ args\<rparr>",
      OF assms(2)] unfolding 2 by simp
  ultimately show ?thesis by (intro exI [of _ fl]) simp
qed

text \<open>
  A property of the result of the wait from a property of its rounds: \<open>P\<close> holds at the start of
  every round, \<open>Q\<close> of every way to leave the loop.
\<close>

lemma waitLoop_rule:
  assumes start: "P rcv h"
    and gone: "\<And>rcv h err h1 msg err'. P rcv h \<Longrightarrow> composeCmd e ctx workDir ps_args [] h = (Inl err, h1) \<Longrightarrow>
      deadline < ho_Now h1 \<Longrightarrow> Q (gate_failed emit action step msg err' h1)"
    and again: "\<And>rcv h err h1. P rcv h \<Longrightarrow> composeCmd e ctx workDir ps_args [] h = (Inl err, h1) \<Longrightarrow>
      ho_Now h1 \<le> deadline \<Longrightarrow> P rcv (h1\<lparr>ho_Now := ho_Now h1 + second div 2\<rparr>)"
    and running: "\<And>rcv h out h1. P rcv h \<Longrightarrow> composeCmd e ctx workDir ps_args [] h = (Inr out, h1) \<Longrightarrow>
      gate_status (ex_json e) out = Some AppStatusRunning \<Longrightarrow> Q (Inr (), h1)"
    and failed: "\<And>rcv h out h1 msg err'. P rcv h \<Longrightarrow> composeCmd e ctx workDir ps_args [] h = (Inr out, h1) \<Longrightarrow>
      Q (gate_failed emit action step msg err' h1)"
    and cancelled: "\<And>rcv h out h1 t. P rcv h \<Longrightarrow> composeCmd e ctx workDir ps_args [] h = (Inr out, h1) \<Longrightarrow>
      ho_Now h1 \<le> deadline \<Longrightarrow> ctx_wins ctx (ho_Now h1) (next_tick t0 rcv) = Some t \<Longrightarrow>
      Q (Inl ctx_Err, h1\<lparr>ho_Now := t\<rparr>)"
    and tick: "\<And>rcv h out h1 t. P rcv h \<Longrightarrow> composeCmd e ctx workDir ps_args [] h = (Inr out, h1) \<Longrightarrow>
      ho_Now h1 \<le> deadline \<Longrightarrow> t = max (ho_Now h1) (next_tick t0 rcv) \<Longrightarrow> P t (h1\<lparr>ho_Now := t\<rparr>)"
  shows "Q (waitLoop e ctx workDir appKey emit action step timeout deadline t0 rcv h)"
  using start
proof (induction "nat (deadline + 1 - ho_Now h) + nat (deadline + 1 - rcv)" arbitrary: rcv h rule: less_induct)
  case less
  obtain r h1 where c: "composeCmd e ctx workDir ps_args [] h = (r, h1)" by force
  note t = later_composeCmd [OF c]
  show ?case
  proof (cases r)
    case (Inl err)
    show ?thesis
    proof (cases "deadline < ho_Now h1")
      case True
      with gone [OF less.prems] c Inl show ?thesis by (simp add: waitLoop.simps [of e])
    next
      case False
      let ?h = "h1\<lparr>ho_Now := ho_Now h1 + second div 2\<rparr>"
      have "P rcv ?h" using again [OF less.prems] c Inl False by simp
      then have "Q (waitLoop e ctx workDir appKey emit action step timeout deadline t0 rcv ?h)"
        by (rule less.hyps [rotated]) (use t False in \<open>simp add: second_def\<close>)
      with c Inl False show ?thesis by (simp add: waitLoop.simps [of e _ _ _ _ _ _ _ _ _ _ h])
    qed
  next
    case (Inr out)
    note c' = c [unfolded Inr]
    show ?thesis
    proof (cases "gate_status (ex_json e) out \<noteq> Some AppStatusRunning \<and>
        gate_status (ex_json e) out \<noteq> Some AppStatusFailed \<and> ho_Now h1 \<le> deadline")
      case True
      show ?thesis
      proof (cases "ctx_wins ctx (ho_Now h1) (next_tick t0 rcv)")
        case (Some t)
        with cancelled [OF less.prems c'] True c' show ?thesis by (simp add: waitLoop.simps [of e])
      next
        case None
        let ?t = "max (ho_Now h1) (next_tick t0 rcv)"
        have "P ?t (h1\<lparr>ho_Now := ?t\<rparr>)" by (rule tick [OF less.prems c']) (use True in auto)
        then have "Q (waitLoop e ctx workDir appKey emit action step timeout deadline t0 ?t (h1\<lparr>ho_Now := ?t\<rparr>))"
          by (rule less.hyps [rotated]) (use t True next_tick_after [of rcv t0] in auto)
        with c' True None show ?thesis
          by (simp add: waitLoop.simps [of e _ _ _ _ _ _ _ _ _ _ h] Let_def)
      qed
    next
      case False
      with running [OF less.prems c'] failed [OF less.prems c'] c' show ?thesis
        by (auto simp: waitLoop.simps [of e] Let_def not_le)
    qed
  qed
qed

lemma ran_gate_failed: "quiet emit \<Longrightarrow> ran ok h (snd (gate_failed emit action step msg err h))"
  by (auto simp: gate_failed_def logFatalHandler_def bindE_def ran_def quiet_def)

lemma ran_now [simp]: "ran ok h (h1\<lparr>ho_Now := t\<rparr>) = ran ok h h1"
  by (simp add: ran_def)

lemma ran_ps:
  assumes "composeCmd e ctx workDir ps_args [] h1 = (r, h2)" and "ran (\<lambda>_. True) h h1"
  shows "ran (\<lambda>_. True) h h2"
proof -
  have "guarantees (ran (\<lambda>_. True)) (composeCmd e ctx workDir ps_args [] :: (('a, 'b) Host, string) op)"
    by (rule ran_composeCmd) auto
  from assms(2) guaranteesD [OF this assms(1)] show ?thesis by (rule rn.trans)
qed

lemma ran_waitLoop:
  assumes "quiet emit"
  shows "ran (\<lambda>_. True) h (snd (waitLoop e ctx workDir appKey emit action step timeout deadline t0 rcv h))"
  by (rule waitLoop_rule [where P = "\<lambda>_. ran (\<lambda>_. True) h"])
    (auto intro: rn.refl rn.trans [OF ran_ps ran_gate_failed] ran_ps assms)

lemma ran_release:
  assumes "quiet emit"
  shows "guarantees (ran (\<lambda>_. True)) (release e ctx workDir appKey message emit)"
  unfolding release_def gate_def waitForAppRunning_def
  by (intro rn.host_rules quiet_or_fatal assms ran_composeCmd)
    (auto simp: quiet_handler assms guarantees_def ran_waitLoop)

definition touches_after_build :: "(Command \<times> bool) list \<Rightarrow> bool" where
  "touches_after_build new \<longleftrightarrow> (\<forall>pre c b post. new = pre @ (c, b) # post \<longrightarrow> cm_name c = ''docker'' \<longrightarrow>
     builds c \<or> (\<exists>c'. builds c' \<and> (c', True) \<in> set pre))"

lemma touches_prefix:
  assumes "\<forall>(c, b)\<in>set gits. cm_name c \<noteq> ''docker'' \<or> builds c"
  shows "touches_after_build gits"
  using assms by (fastforce simp: touches_after_build_def)

lemma touches_built:
  assumes "\<forall>(c, b)\<in>set gits. cm_name c \<noteq> ''docker'' \<or> builds c" and "builds c'"
  shows "touches_after_build (gits @ (c', True) # rest)"
proof -
  have "builds c \<or> cm_name c \<noteq> ''docker'' \<or> (c', True) \<in> set pre"
    if "gits @ (c', True) # rest = pre @ (c, b) # post" for pre c b post
  proof -
    from that obtain us where "gits = pre @ us \<and> us @ (c', True) # rest = (c, b) # post \<or>
        gits @ us = pre \<and> (c', True) # rest = us @ (c, b) # post"
      by (auto simp: append_eq_append_conv2)
    with assms show ?thesis by (cases us) fastforce+
  qed
  with assms(2) show ?thesis unfolding touches_after_build_def by blast
qed

text \<open>
  C21. A deployment touches the running application only after its img is built: in whatever way
  it ends, each docker command it has run is a build or comes after a build that succeeded. A
  failed clone, pull or build leaves the running stack alone.
\<close>

theorem deploy_builds_first:
  assumes "quiet emit"
  shows "\<exists>new. ho_Log (snd (deployApp e ctx job emit h)) = ho_Log h @ new \<and> touches_after_build new"
proof (cases "unmarshal dec_AppDeployPayload (j_Payload job)")
  case (Inl err)
  then show ?thesis by (intro exI [of _ "[]"]) (simp add: deployApp_def touches_after_build_def)
next
  case (Inr payload)
  let ?dir = "getAppWorkDir e (pd_AppKey payload)"
  let ?build = "composeCmd e ctx ?dir [''build''] [logStreamHandler emit ActionAppDeploy StepDockerBuild]"
  obtain r h1 where 1: "prepare e ctx job payload emit h = (r, h1)" by force
  from guaranteesD [OF ran_prepare [OF assms] 1] obtain gits where
    git: "ho_Log h1 = ho_Log h @ gits" "\<forall>(c, b)\<in>set gits. cm_name c = ''git''"
    unfolding ran_def by blast
  then have g: "ho_Log h1 = ho_Log h @ gits" "\<forall>(c, b)\<in>set gits. cm_name c \<noteq> ''docker'' \<or> builds c"
    by auto
  show ?thesis
  proof (cases r)
    case (Inl err)
    with 1 g touches_prefix [OF g(2)] Inr show ?thesis
      by (intro exI [of _ gits]) (simp add: deployApp_def Let_def bindE_def)
  next
    case r: (Inr img)
    obtain b h2 where 2: "?build h1 = (b, h2)" by force
    have "guarantees (ran builds) ?build"
      by (rule ran_composeCmd) (auto simp: quiet_handler assms builds_def)
    from guaranteesD [OF this 2] obtain bs where
      b: "ho_Log h2 = ho_Log h1 @ bs" "\<forall>(c, b)\<in>set bs. builds c" by (auto simp: ran_def)
    show ?thesis
    proof (cases b)
      case (Inl err)
      have "touches_after_build (gits @ bs)" by (rule touches_prefix) (use g b in auto)
      with 1 2 g b Inl r Inr show ?thesis
        by (intro exI [of _ "gits @ bs"]) (simp add: deployApp_def Let_def bindE_def)
    next
      case built: (Inr out)
      obtain r3 h3 where 3: "release e ctx ?dir (pd_AppKey payload) ''failed to run docker compose up'' emit h2 = (r3, h3)"
        by force
      from guaranteesD [OF ran_release [OF assms] 3] obtain ups where
        u: "ho_Log h3 = ho_Log h2 @ ups" by (auto simp: ran_def)
      from composeCmd_logged [OF 2 [unfolded built]] obtain c where
        c: "ho_Log h2 = ho_Log h1 @ [(c, True)]" "builds c"
        by (auto simp: quiet_handler assms builds_def)
      from 1 2 3 r built Inr have "deployApp e ctx job emit h = (r3, h3)"
        by (simp add: deployApp_def Let_def bindE_def)
      with g(1) c(1) u touches_built [OF g(2) c(2), of ups] show ?thesis
        by (intro exI [of _ "gits @ (c, True) # ups"]) simp
    qed
  qed
qed

section \<open>Success\<close>

definition keeps_env :: "('d, 'o) Programs \<Rightarrow> string \<Rightarrow> bool" where
  "keeps_env progs p \<longleftrightarrow> (\<forall>ctx c h. cm_name c = ''docker'' \<longrightarrow> oc_Files (progs ctx c h) p = ho_Files h p)"

lemma same_file_composeCmd:
  assumes "keeps_env (ex_progs e) p" and "\<And>f. f \<in> set hs \<Longrightarrow> handler_ok (same_file p) f"
  shows "guarantees (same_file p) (composeCmd e ctx workDir args hs)"
  unfolding composeCmd_def docker_Cmd_def GetDockerComposeFile_def
  by (intro sf.g_bind sf.g_first_file sf.g_Run) (use assms in \<open>auto simp: keeps_env_def\<close>)

lemma same_file_gate_failed: "quiet emit \<Longrightarrow> same_file p h (snd (gate_failed emit action step msg err h))"
  by (simp add: gate_failed_def logFatalHandler_def bindE_def same_file_def quiet_def)

lemma gate_failed_result: "fst (gate_failed emit action step msg err h) = Inl err"
  by (simp add: gate_failed_def logFatalHandler_def bindE_def)

text \<open>The gate opens only on an answer of \<open>compose ps\<close> that says the application is running.\<close>

definition observed_running :: "('d, 'o, 'm) Executor \<Rightarrow> Ctx \<Rightarrow> string \<Rightarrow> ('d, 'o) Host \<Rightarrow> bool" where
  "observed_running e ctx workDir h' \<longleftrightarrow> (\<exists>h output. composeCmd e ctx workDir ps_args [] h = (Inr output, h') \<and>
     gate_status (ex_json e) output = Some AppStatusRunning)"

lemma gate_opens:
  assumes "quiet emit" and "keeps_env (ex_progs e) p" and "gate e ctx workDir appKey emit h = (Inr (), h')"
  shows "observed_running e ctx workDir h' \<and> same_file p h h'"
proof -
  have ps: "same_file p h h2" if "same_file p h h1" "composeCmd e ctx workDir ps_args [] h1 = (r, h2)" for r h1 h2
    using that(1) guaranteesD [OF same_file_composeCmd [OF assms(2)] that(2)] by (auto simp: same_file_def)
  have loop: "(\<lambda>(r, h'). r = Inr () \<longrightarrow> observed_running e ctx workDir h' \<and> same_file p h h')
      (waitLoop e ctx workDir appKey emit action step timeout deadline tb rcv h)"
    for action step timeout deadline tb rcv
  proof (rule waitLoop_rule [where P = "\<lambda>_. same_file p h"], goal_cases)
    case 1 then show ?case by (simp add: same_file_def)
  next
    case 2 then show ?case by (simp add: case_prod_unfold gate_failed_result)
  next
    case (3 rcv' u err u1)
    from ps [OF 3(1,2)] show ?case by (simp add: same_file_def)
  next
    case (4 rcv' u out u1)
    from ps [OF 4(1,2)] 4(2,3) show ?case by (auto simp: observed_running_def)
  next
    case 5 then show ?case by (simp add: case_prod_unfold gate_failed_result)
  next
    case 6 then show ?case by simp
  next
    case (7 rcv' u out u1 t)
    from ps [OF 7(1,2)] show ?case by (simp add: same_file_def)
  qed
  from assms(3) loop [where action = ActionAppDeploy and step = StepDockerHealthCheck and timeout = "''1m0s''"
      and deadline = "ho_Now h + healthGateTimeout" and tb = "ho_Now h" and rcv = "ho_Now h"]
  show ?thesis by (simp add: gate_def waitForAppRunning_def)
qed

lemma release_succeeds:
  assumes "quiet emit" and "keeps_env (ex_progs e) p"
    and "release e ctx workDir appKey message emit h = (Inr (), h')"
  shows "observed_running e ctx workDir h' \<and> same_file p h h'"
proof -
  from assms(3) obtain out h1 where
    up: "composeCmd e ctx workDir up_args [logStreamHandler emit ActionAppDeploy StepDockerStart] h = (Inr out, h1)" and
    g: "gate e ctx workDir appKey emit h1 = (Inr (), h')"
    by (auto simp: release_def or_fatal_def bindE_def catchE_def split: prod.splits sum.splits)
  have "same_file p h h1"
    by (rule guaranteesD [OF same_file_composeCmd [OF assms(2)] up]) (simp add: quiet_handler assms)
  with gate_opens [OF assms(1,2) g] show ?thesis by (auto simp: same_file_def)
qed

lemma WriteEnvFile_written: "WriteEnvFile workDir envVars h = (Inr (), h') \<Longrightarrow>
    ho_Files h' (path_Join workDir ''.env'') = Some (env_file envVars)"
  by (auto simp: WriteEnvFile_def os_WriteFile_def syscall_def Let_def split: if_splits)

lemma or_fatal_Inr: "or_fatal message emit action step m h = (Inr x, h') \<longleftrightarrow> m h = (Inr x, h')"
  by (auto simp: or_fatal_def catchE_def bindE_def logFatalHandler_def split: prod.splits sum.splits)

lemma commit_info_Inr: "commit_info d hash message emit h = (Inr (), h') \<Longrightarrow> 8 \<le> length hash \<and> d \<noteq> None"
  by (auto simp: commit_info_def split: option.splits if_splits)

text \<open>
  The machine right after the run has cloned the repository of the payload or pulled its branch; and
  what \<open>git rev-parse HEAD\<close> prints in the directory on a machine.
\<close>

definition checked_out :: "('d, 'o, 'm) Executor \<Rightarrow> Ctx \<Rightarrow> AppDeployPayload \<Rightarrow> ('d, 'o, 'm) emitter
    \<Rightarrow> ('d, 'o) Host \<Rightarrow> ('d, 'o) Host \<Rightarrow> bool" where
  "checked_out e ctx payload emit h g \<longleftrightarrow> (let dir = getAppWorkDir e (pd_AppKey payload) in
     \<exists>out h0. os_MkdirAll dir h = (Inr (), h0) \<and>
       git_CloneOrPull (ex_progs e) ctx dir (pd_RepoURL payload) (pd_Branch payload)
         [logStreamHandler emit ActionAppDeploy StepGitClone] h0 = ((out, None), g))"

definition head_commit :: "('d, 'o, 'm) Executor \<Rightarrow> Ctx \<Rightarrow> string \<Rightarrow> ('d, 'o) Host \<Rightarrow> string \<Rightarrow> bool" where
  "head_commit e ctx dir g hash \<longleftrightarrow> (\<exists>out. hash = trim_space out \<and>
     fst (Command_Run (ex_progs e) ctx \<lparr>cm_workDir = dir, cm_name = ''git'', cm_args = [''rev-parse'', ''HEAD'']\<rparr> [] g) =
       (out, None))"

lemma git_GetCurrentCommit_head:
  "git_GetCurrentCommit (ex_progs e) ctx dir g = (Inr hash, g') \<Longrightarrow> head_commit e ctx dir g hash"
  by (auto simp: git_GetCurrentCommit_def head_commit_def bindE_Inr_iff checked_Inr git_Command_def returnE_def)

lemma prepare_succeeds:
  assumes "prepare e ctx job payload emit h = (Inr img, h')"
  shows "\<exists>g hash. checked_out e ctx payload emit h g \<and> 8 \<le> length hash \<and>
    head_commit e ctx (getAppWorkDir e (pd_AppKey payload)) g hash \<and> img = pd_AppKey payload @ '':'' @ hash \<and>
    ho_Files h' (path_Join (getAppWorkDir e (pd_AppKey payload)) ''.env'') =
      Some (env_file (build_env (pd_EnvVars payload) img (pd_AppKey payload)))"
proof -
  let ?dir = "getAppWorkDir e (pd_AppKey payload)"
  from assms obtain h0 out g hash g1 where
    1: "os_MkdirAll ?dir h = (Inr (), h0)" and
    2: "git_CloneOrPull (ex_progs e) ctx ?dir (pd_RepoURL payload) (pd_Branch payload)
         [logStreamHandler emit ActionAppDeploy StepGitClone] h0 = ((out, None), g)" and
    3: "git_GetCurrentCommit (ex_progs e) ctx ?dir g = (Inr hash, g1)" and
    4: "8 \<le> length hash" "img = pd_AppKey payload @ '':'' @ hash"
       "ho_Files h' (path_Join ?dir ''.env'') = Some (env_file (build_env (pd_EnvVars payload) img (pd_AppKey payload)))"
    unfolding prepare_def Let_def
    by (auto simp: bindE_Inr_iff or_fatal_Inr checked_Inr dest!: commit_info_Inr WriteEnvFile_written)
  from 1 2 have "checked_out e ctx payload emit h g" by (auto simp: checked_out_def Let_def)
  with git_GetCurrentCommit_head [OF 3] 4 show ?thesis by blast
qed

text \<open>
  C22. A deployment that succeeds has released what it built: the commit is what \<open>git rev-parse HEAD\<close>
  printed, without surrounding space, in the directory of the application right after this run
  cloned or pulled the branch, and has at least eight characters; at the end the environment file
  has the variables of the payload and names the image tagged with that commit; and the last thing
  the agent saw was an answer of \<open>docker compose ps\<close> by which the application is running. Docker must
  leave the environment file alone, and the callback must run no command and write no file.
\<close>

theorem deploy_success:
  assumes "quiet emit" and "deployApp e ctx job emit h = (Inr (), h')"
    and "\<forall>key. keeps_env (ex_progs e) (path_Join (getAppWorkDir e key) ''.env'')"
  shows "\<exists>payload g hash. unmarshal dec_AppDeployPayload (j_Payload job) = Inr payload \<and>
    checked_out e ctx payload emit h g \<and>
    head_commit e ctx (getAppWorkDir e (pd_AppKey payload)) g hash \<and> 8 \<le> length hash \<and>
    ho_Files h' (path_Join (getAppWorkDir e (pd_AppKey payload)) ''.env'') = Some (env_file
      (build_env (pd_EnvVars payload) (pd_AppKey payload @ '':'' @ hash) (pd_AppKey payload))) \<and>
    observed_running e ctx (getAppWorkDir e (pd_AppKey payload)) h'"
proof -
  from assms(2) obtain payload where p: "unmarshal dec_AppDeployPayload (j_Payload job) = Inr payload"
    by (auto simp: deployApp_def split: sum.splits)
  let ?dir = "getAppWorkDir e (pd_AppKey payload)"
  let ?env = "path_Join ?dir ''.env''"
  from assms(2) p obtain img h1 out h2 where
    1: "prepare e ctx job payload emit h = (Inr img, h1)" and
    2: "composeCmd e ctx ?dir [''build''] [logStreamHandler emit ActionAppDeploy StepDockerBuild] h1 = (Inr out, h2)" and
    3: "release e ctx ?dir (pd_AppKey payload) ''failed to run docker compose up'' emit h2 = (Inr (), h')"
    by (auto simp: deployApp_def Let_def bindE_Inr_iff)
  note env = assms(3) [rule_format, of "pd_AppKey payload"]
  have "same_file ?env h1 h2"
    by (rule guaranteesD [OF same_file_composeCmd [OF env] 2]) (simp add: quiet_handler assms)
  with release_succeeds [OF assms(1) env 3] prepare_succeeds [OF 1] p show ?thesis
    unfolding same_file_def by (metis append.assoc)
qed

section \<open>Time\<close>

definition takes_at_most :: "int \<Rightarrow> ('d, 'o) Programs \<Rightarrow> bool" where
  "takes_at_most D progs \<longleftrightarrow> (\<forall>ctx c h. int (sum_list (map fst (oc_Lines (progs ctx c h)))) +
     int (oc_Took (progs ctx c h)) \<le> D)"

lemma takes_at_mostD: "takes_at_most D progs \<Longrightarrow>
    int (sum_list (map fst (oc_Lines (progs ctx c h)))) + int (oc_Took (progs ctx c h)) \<le> D"
  unfolding takes_at_most_def by blast

lemma takes_at_most_nonneg: "takes_at_most D progs \<Longrightarrow> 0 \<le> D"
  using takes_at_mostD [of D progs undefined undefined undefined] by linarith

lemma streamOutput_now:
  assumes "\<And>line level b h. ho_Now (snd (handler line stream level (b, h))) = ho_Now h"
  shows "ho_Now (snd (streamOutput handler stream tx s)) = ho_Now (snd s)"
proof -
  have "ho_Now (snd (foldl (\<lambda>s raw. let line = trim_space raw in
      if line = [] then s else handler line stream (classifyLine line) s) s ls)) = ho_Now (snd s)" for ls
  proof (induction ls arbitrary: s)
    case (Cons l ls)
    then show ?case using assms [where b = "fst s" and h = "snd s"] by (simp add: Let_def)
  qed simp
  then show ?thesis by (simp add: streamOutput_def)
qed

lemma lines_now:
  assumes "\<And>line stream level b h. ho_Now (snd (handler line stream level (b, h))) = ho_Now h"
  shows "ho_Now (snd (foldl (\<lambda>(b, h) (d, stream, tx).
     streamOutput handler stream tx (b, h\<lparr>ho_Now := ho_Now h + int d\<rparr>)) s ls)) =
    ho_Now (snd s) + int (sum_list (map fst ls))"
proof (induction ls arbitrary: s)
  case (Cons l ls)
  obtain b h d stream tx where [simp]: "s = (b, h)" "l = (d, stream, tx)" by (cases s, cases l)
  have "ho_Now (snd (streamOutput handler stream tx (b, h\<lparr>ho_Now := ho_Now h + int d\<rparr>))) = ho_Now h + int d"
    by (simp add: streamOutput_now assms)
  with Cons [of "streamOutput handler stream tx (b, h\<lparr>ho_Now := ho_Now h + int d\<rparr>)"] show ?case by simp
qed simp

lemma Run_now:
  assumes "takes_at_most D progs"
  shows "ho_Now (snd (Command_Run progs ctx c [] h)) \<le> ho_Now h + D"
proof -
  let ?h = "\<lambda>line stream level (buf, h). (buf @ line @ [LF], h)"
  let ?oc = "progs ctx c h"
  obtain buf h' where f: "foldl (\<lambda>(b, h) (d, stream, tx).
     streamOutput ?h stream tx (b, h\<lparr>ho_Now := ho_Now h + int d\<rparr>)) ([], h) (oc_Lines ?oc) = (buf, h')"
    by force
  with lines_now [where handler = ?h and s = "([], h)" and ls = "oc_Lines ?oc"]
  have "ho_Now h' = ho_Now h + int (sum_list (map fst (oc_Lines ?oc)))" by simp
  moreover note takes_at_mostD [OF assms, of ctx c h] takes_at_most_nonneg [OF assms]
  ultimately show ?thesis
    by (simp add: Command_Run_def Command_execute_def f Let_def split: option.split)
qed

lemma first_file_now: "ho_Now (snd (first_file workDir err fs h)) = ho_Now h"
proof (induction fs arbitrary: h)
  case (Cons f fs)
  then show ?case
    by (auto simp: os_Stat_def syscall_def Let_def split: prod.splits sum.splits if_splits)
qed simp

lemma composeCmd_now:
  assumes "takes_at_most D (ex_progs e)" and "composeCmd e ctx workDir args [] h = (r, h')"
  shows "ho_Now h' \<le> ho_Now h + D"
proof -
  note D = takes_at_most_nonneg [OF assms(1)]
  obtain fl h1 where f: "GetDockerComposeFile workDir h = (fl, h1)" by force
  then have n: "ho_Now h1 = ho_Now h"
    using first_file_now [of workDir _ compose_files h] by (metis GetDockerComposeFile_def snd_conv)
  show ?thesis
  proof (cases fl)
    case (Inl err)
    with assms(2) f n D show ?thesis by (auto simp: composeCmd_def bindE_def)
  next
    case (Inr p)
    obtain out err h2 where 2: "Command_Run (ex_progs e) ctx \<lparr>cm_workDir = workDir, cm_name = ''docker'',
      cm_args = [''compose'', ''-f'', p] @ args\<rparr> [] h1 = ((out, err), h2)" by (metis prod.collapse)
    with assms(2) f Inr have "h' = h2"
      by (auto simp: composeCmd_def bindE_def docker_Cmd_def checked_def split: option.splits)
    with Run_now [OF assms(1), of ctx _ h1] 2 n show ?thesis by (metis snd_conv)
  qed
qed

text \<open>
  C23. The wait for an application ends: when no command takes longer than \<open>D\<close>, it is over within the
  timeout, three seconds for the last tick and \<open>D\<close> for the last command.
\<close>

theorem gate_bounded:
  assumes "quiet emit" and "takes_at_most D (ex_progs e)" and "0 \<le> timeout"
  shows "ho_Now (snd (waitForAppRunning e ctx workDir appKey emit action step shown timeout h)) \<le>
    ho_Now h + timeout + 3 * second + D"
proof -
  note D = takes_at_most_nonneg [OF assms(2)]
  have sec: "0 < second" by (simp add: second_def)
  have fail: "ho_Now (snd (gate_failed emit action step msg err u)) = ho_Now u" for msg err u
    using assms(1) by (simp add: gate_failed_def logFatalHandler_def bindE_def quiet_def)
  have nt: "next_tick tb rcv \<le> rcv + 3 * second" for tb rcv
  proof -
    have "((rcv - tb) div (3 * second)) * (3 * second) \<le> rcv - tb"
      using div_mult_mod_eq [of "rcv - tb" "3 * second"] pos_mod_sign [of "3 * second" "rcv - tb"] sec
      by linarith
    then show ?thesis by (simp add: next_tick_def algebra_simps)
  qed
  let ?dl = "ho_Now h + timeout"
  note now = composeCmd_now [OF assms(2)] and late = later_composeCmd
  have "(\<lambda>x. ho_Now (snd x) \<le> ?dl + 3 * second + D)
      (waitLoop e ctx workDir appKey emit action step shown ?dl (ho_Now h) (ho_Now h) h)"
  proof (rule waitLoop_rule [where P = "\<lambda>rcv u. rcv \<le> ho_Now u \<and> ho_Now u \<le> ?dl + 3 * second"], goal_cases)
    case 1 then show ?case using assms(3) sec by simp
  next
    case 2 from now [OF 2(2)] 2(1) show ?case by (simp add: fail)
  next
    case 3 from late [OF 3(2)] 3(1,3) show ?case by (simp add: second_def)
  next
    case 4 from now [OF 4(2)] 4(1) show ?case by simp
  next
    case 5 from now [OF 5(2)] 5(1) show ?case by (simp add: fail)
  next
    case (6 rcv u out u1 t)
    from nt [of "ho_Now h" rcv] late [OF 6(2)] 6(1,3,4) D sec show ?case
      by (auto simp: ctx_wins_def split: option.splits if_splits)
  next
    case (7 rcv u out u1 t)
    from nt [of "ho_Now h" rcv] late [OF 7(2)] 7(1,3,4) sec show ?case by auto
  qed
  then show ?thesis by (simp add: waitForAppRunning_def)
qed

section \<open>A machine\<close>

text \<open>On it every command succeeds at once; \<open>compose ps\<close> prints a line the reader takes for a running container.\<close>

definition demo_progs :: "(unit, unit) Programs" where
  "demo_progs ctx c h = \<lparr>oc_Start = None,
     oc_Lines = (if cm_args c = [''rev-parse'', ''HEAD''] then [(0, StreamStdout, ''0123456789'')]
                 else if last (cm_args c) = ''json'' then [(0, StreamStdout, ''up'')] else []),
     oc_Took = 0, oc_StreamErrs = [], oc_Exit = None, oc_Files = ho_Files h, oc_Dirs = ho_Dirs h, oc_Rest = ()\<rparr>"

definition demo_executor :: "(unit, unit, unit) Executor" where
  "demo_executor = \<lparr>ex_workDir = ''/apps'', ex_metrics = (\<lambda>_. ()), ex_progs = demo_progs,
     ex_json = (\<lambda>s. if s = ''up'' then Some (JObj [(''State'', JStr ''running'')]) else None),
     ex_uuid_Parse = (\<lambda>_. None), ex_uuid_String = (\<lambda>_. [])\<rparr>"

definition demo_host :: "(unit, unit) Host" where
  "demo_host = \<lparr>ho_Now = 0, ho_Files = (\<lambda>_. None), ho_Dirs = (\<lambda>p. p \<noteq> ''/apps/web/.env''), ho_Calls = 0,
     ho_Fails = (\<lambda>_. False), ho_Log = [], ho_Rest = (), ho_Out = ()\<rparr>"

definition demo_ctx :: Ctx where
  "demo_ctx = \<lparr>cx_Done = None, cx_Pick = (\<lambda>_. True)\<rparr>"

definition demo_job :: Job where
  "demo_job = Job0\<lparr>j_DeploymentID := Some 1, j_Payload := Some (JObj [(''app_dir'', JStr ''web'')])\<rparr>"

definition silent :: "(unit, unit, unit) emitter" where
  "silent ev h = h"

lemma quiet_silent: "quiet silent"
  by (simp add: quiet_def silent_def)

lemma demo_deploys: "fst (deployApp demo_executor demo_ctx demo_job silent demo_host) = Inr ()"
  by code_simp

lemma demo_keeps_env: "keeps_env (ex_progs demo_executor) p"
  by (simp add: keeps_env_def demo_executor_def demo_progs_def)

lemma demo_takes: "takes_at_most 0 (ex_progs demo_executor)"
  by (simp add: takes_at_most_def demo_executor_def demo_progs_def)

theorem deploy_builds_first_witness:
  "\<exists>new. ho_Log (snd (deployApp demo_executor demo_ctx demo_job silent demo_host)) = new \<and> touches_after_build new"
  using deploy_builds_first [OF quiet_silent, of demo_executor demo_ctx demo_job demo_host]
  by (simp add: demo_host_def)

theorem deploy_success_witness:
  "\<exists>h' g (payload :: AppDeployPayload) hash. deployApp demo_executor demo_ctx demo_job silent demo_host = (Inr (), h') \<and>
     head_commit demo_executor demo_ctx (getAppWorkDir demo_executor (pd_AppKey payload)) g hash \<and>
     observed_running demo_executor demo_ctx (getAppWorkDir demo_executor (pd_AppKey payload)) h'"
proof -
  obtain h' where d: "deployApp demo_executor demo_ctx demo_job silent demo_host = (Inr (), h')"
    using demo_deploys by (metis prod.collapse)
  have "\<forall>key. keeps_env (ex_progs demo_executor) (path_Join (getAppWorkDir demo_executor key) ''.env'')"
    by (simp add: demo_keeps_env)
  from deploy_success [OF quiet_silent d this] obtain payload :: AppDeployPayload and g hash where
    "head_commit demo_executor demo_ctx (getAppWorkDir demo_executor (pd_AppKey payload)) g hash"
    "observed_running demo_executor demo_ctx (getAppWorkDir demo_executor (pd_AppKey payload)) h'" by blast
  with d show ?thesis by blast
qed

theorem gate_bounded_witness:
  "ho_Now (snd (waitForAppRunning demo_executor demo_ctx ''/apps/web'' ''web'' silent ActionAppDeploy
     StepDockerHealthCheck ''1m0s'' healthGateTimeout demo_host)) \<le> 63 * second"
  using gate_bounded [OF quiet_silent demo_takes, of healthGateTimeout demo_ctx "''/apps/web''" "''web''"
    ActionAppDeploy StepDockerHealthCheck "''1m0s''" demo_host]
  by (simp add: healthGateTimeout_def demo_host_def second_def)

end
