(* ===== verification/RunGuarantees.thy ===== *)
theory RunGuarantees
  imports HealthGate
begin

text \<open>
  What the run of a job keeps, for every relation between machines that its callback, time, files
  and commands keep: \<open>g_Execute\<close>. The lemmas on what an agent sends and what it leaves alone rest
  on it.
\<close>

section \<open>What a run of a job guarantees\<close>

text \<open>
  A relation between machines that the callback, time, files and all commands respect is respected
  by the run of a job.
\<close>

context host_guarantee
begin

lemma handler_respects: "(\<And>ev h. R h (emit ev h)) \<Longrightarrow> handler_ok R (logStreamHandler emit action step)"
  by (simp add: handler_ok_def logStreamHandler_def)

lemma g_fatal: "(\<And>ev h. R h (emit ev h)) \<Longrightarrow> guarantees R (logFatalHandler message emit action step)"
  by (simp add: guarantees_def logFatalHandler_def)

lemma g_or_fatal:
  "(\<And>ev h. R h (emit ev h)) \<Longrightarrow> guarantees R m \<Longrightarrow> guarantees R (or_fatal message emit action step m)"
  unfolding or_fatal_def by (intro g_catch g_bind g_fail g_fatal)

lemma g_commit_info: "(\<And>ev h. R h (emit ev h)) \<Longrightarrow> guarantees R (commit_info d hash message emit)"
  by (auto simp: commit_info_def guarantees_def refl split: option.split)

lemma g_composeCmd:
  assumes "\<And>f. f \<in> set hs \<Longrightarrow> handler_ok R f" and "\<And>c. ok c" and "ex_progs e = progs"
  shows "guarantees R (composeCmd e ctx workDir args hs)"
  unfolding composeCmd_def docker_Cmd_def GetDockerComposeFile_def assms(3)
  by (intro host_rules assms)

lemma r_gate_failed: "(\<And>ev h. R h (emit ev h)) \<Longrightarrow> R h (snd (gate_failed emit action step msg err h))"
  by (simp add: gate_failed_def logFatalHandler_def bindE_def)

lemma r_clock: "ho_Now h \<le> t \<Longrightarrow> R h (h\<lparr>ho_Now := t\<rparr>)"
  using time [of "t - ho_Now h" h] by simp

lemma r_waitLoop:
  assumes emit: "\<And>ev h. R h (emit ev h)" and ok: "\<And>c. ok c" and e: "ex_progs e = progs"
  shows "R h (snd (waitLoop e ctx workDir appKey emit action step timeout deadline t0 rcv h))"
proof -
  have ps: "R h u1" if "R h u" "composeCmd e ctx workDir ps_args [] u = (r, u1)" for u r u1
    by (rule trans [OF that(1) guaranteesD [OF g_composeCmd that(2)]]) (simp_all add: ok e)
  have tick: "R h (u1\<lparr>ho_Now := t\<rparr>)" if "R h u" "composeCmd e ctx workDir ps_args [] u = (r, u1)" "ho_Now u1 \<le> t"
    for u r u1 t by (rule trans [OF ps [OF that(1,2)] r_clock [OF that(3)]])
  show ?thesis
  proof (rule waitLoop_rule [where P = "\<lambda>_. R h"], goal_cases)
    case 1 show ?case by (rule refl)
  next
    case 2 then show ?case by (blast intro: trans ps r_gate_failed emit)
  next
    case 3 then show ?case by (auto intro!: tick simp: second_def)
  next
    case 4 then show ?case by (auto intro: ps)
  next
    case 5 then show ?case by (blast intro: trans ps r_gate_failed emit)
  next
    case (6 rcv u out u1 t)
    then have "ho_Now u1 \<le> t" by (auto simp: ctx_wins_def split: option.splits if_splits)
    with 6 show ?case by (auto intro: tick)
  next
    case 7 then show ?case by (auto intro!: tick)
  qed
qed

lemma g_release:
  assumes "\<And>ev h. R h (emit ev h)" and "\<And>c. ok c" and "ex_progs e = progs"
  shows "guarantees R (release e ctx workDir appKey message emit)"
proof -
  have "guarantees R (gate e ctx workDir appKey emit)"
    unfolding gate_def waitForAppRunning_def by (rule guaranteesI) (rule r_waitLoop [OF assms])
  then show ?thesis
    unfolding release_def by (intro g_bind g_or_fatal g_composeCmd assms) (simp_all add: handler_respects assms)
qed

lemma g_prepare:
  assumes "\<And>ev h. R h (emit ev h)" and "\<And>c. ok c" and "ex_progs e = progs"
  shows "guarantees R (prepare e ctx job payload emit)"
  unfolding prepare_def Let_def git_GetCurrentCommit_def git_GetCommitMessage_def GetDockerComposeFile_def assms(3)
  by (intro host_rules g_or_fatal g_commit_info) (simp_all add: handler_respects assms)

lemma g_compose_job:
  assumes "\<And>ev h. R h (emit ev h)" and "\<And>c. ok c" and "ex_progs e = progs"
  shows "guarantees R (compose_job e ctx job emit args action step message)"
proof (cases "unmarshal dec_AppInfo (j_Payload job)")
  case (Inr payload)
  show ?thesis
    unfolding compose_job_def Inr sum.case
    by (intro g_bind g_return g_or_fatal g_composeCmd assms) (simp_all add: handler_respects assms)
qed (simp add: compose_job_def g_fail)

lemma r_app_healths:
  assumes "\<And>ev h. R h (emit ev h)" and "\<And>c. ok c" and "ex_progs e = progs"
  shows "R h (snd (app_healths e ctx emit serverID apps h))"
proof (induction apps arbitrary: h)
  case (Cons a apps)
  obtain r u where c: "composeCmd e ctx (getAppWorkDir e (ai_AppKey a)) ps_args [] h = (r, u)" by force
  have u: "R h u" by (rule guaranteesD [OF g_composeCmd c]) (simp_all add: assms)
  obtain q v where a: "app_health e ctx emit serverID a h = (q, v)" by force
  then have "R h v"
    using u trans [OF u assms(1)]
    by (auto simp: app_health_def Let_def c logFatalHandler_def split: sum.splits if_splits)
  from trans [OF this Cons [of v]] show ?case by (simp add: a case_prod_unfold Let_def)
qed (simp add: refl)

lemma g_Execute:
  assumes "\<And>ev h. R h (emit ev h)" and "\<And>c. ok c" and "ex_progs e = progs"
  shows "guarantees R (Execute e ctx job emit)"
proof -
  have health: "guarantees R (checkAppHealths e ctx job emit)"
  proof (rule guaranteesI)
    fix h
    have "R h (emit ev (snd (app_healths e ctx emit s apps h)))" for ev s apps
      by (rule trans [OF r_app_healths [OF assms] assms(1)])
    then show "R h (snd (checkAppHealths e ctx job emit h))"
      by (simp add: checkAppHealths_def refl case_prod_unfold Let_def split: sum.split)
  qed
  have deploy: "guarantees R (deployApp e ctx job emit)"
  proof (cases "unmarshal dec_AppDeployPayload (j_Payload job)")
    case (Inr payload)
    show ?thesis
      unfolding deployApp_def Inr sum.case Let_def
      by (intro g_bind g_prepare g_release g_composeCmd assms) (simp_all add: handler_respects assms)
  qed (simp add: deployApp_def g_fail)
  have rollback: "guarantees R (rollbackApp e ctx job emit)"
  proof (cases "unmarshal dec_AppRollbackPayload (j_Payload job)")
    case (Inr payload)
    show ?thesis
      unfolding rollbackApp_def Inr sum.case Let_def
      by (intro g_if g_bind g_fail g_fatal g_or_fatal g_WriteEnvFile g_release assms)
  qed (simp add: rollbackApp_def g_fail)
  have destroy: "guarantees R (destroyApp e ctx job emit)"
  proof (cases "unmarshal dec_AppInfo (j_Payload job)")
    case (Inr payload)
    show ?thesis
      unfolding destroyApp_def Inr sum.case Let_def docker_Cmd_def assms(3)
      by (intro g_bind g_return g_or_fatal g_Run assms) (simp_all add: handler_respects assms)
  qed (simp add: destroyApp_def g_fail)
  have metrics: "guarantees R (modifyE (\<lambda>h. emit (EmitMetrics (ex_metrics e h)) h))"
    by (simp add: guarantees_def assms(1))
  show ?thesis
    unfolding Execute_def startApp_def stopApp_def restartApp_def
    by (intro g_if g_fail health deploy rollback destroy metrics g_compose_job assms)
qed

end

end
