(* ===== verification/JobWorker.thy ===== *)
theory JobWorker
  imports RunGuarantees Workers
begin

text \<open>
  The agent's side of a job: the requests of \<open>internal/agent/http_client.go\<close> and the processing
  of \<open>internal/agent/job_worker.go\<close>. \<open>hc_Do\<close> is the network with the control plane behind it: for
  the time that is left and a request, an error or a reply, and what it leaves of the world. A
  network that has not answered when the time is up gives an error; what the control plane did until
  then stays done. The agent's clock does not advance while it waits for an answer.
\<close>

section \<open>Requests\<close>

record 'w HttpClient =
  hc_AgentServerID :: uuid
  hc_AgentServerAPIToken :: string
  hc_uuid_String :: "uuid \<Rightarrow> string"
  hc_time_Format :: "gotime \<Rightarrow> string"
  hc_Version :: string
  hc_Do :: "int \<Rightarrow> Request \<Rightarrow> 'w \<Rightarrow> (error + Reply) \<times> 'w"

definition auth_headers :: "'w HttpClient \<Rightarrow> string \<Rightarrow> string" where
  "auth_headers c k =
    (if k = ''Authorization'' then ''Bearer '' @ hc_uuid_String c (hc_AgentServerID c) @ ''.'' @ hc_AgentServerAPIToken c
     else if k = ''X-Agent-Version'' then hc_Version c else [])"

definition agent_request :: "'w HttpClient \<Rightarrow> string \<Rightarrow> string list \<Rightarrow> json option \<Rightarrow> Request" where
  "agent_request c m path content = \<lparr>rq_Method = m, rq_Path = ''agent'' # path, rq_PathValue = (\<lambda>_. []),
     rq_Query = (\<lambda>_. []),
     rq_Header = (\<lambda>k. if k = ''Content-Type'' \<and> content \<noteq> None then ''application/json'' else auth_headers c k),
     rq_Cookie = (\<lambda>_. None), rq_Body = content, rq_RemoteAddr = [], rq_User = None, rq_ServerID = None\<rparr>"

text \<open>A context that is done before the request is sent; the time a request is given.\<close>

definition ctx_done :: "Ctx \<Rightarrow> gotime \<Rightarrow> bool" where
  "ctx_done ctx now \<longleftrightarrow> (case cx_Done ctx of None \<Rightarrow> False | Some d \<Rightarrow> d \<le> now)"

definition http_Timeout :: int where "http_Timeout = 5 * 60 * second"

definition time_left :: "Ctx \<Rightarrow> gotime \<Rightarrow> int" where
  "time_left ctx now = (case cx_Done ctx of None \<Rightarrow> http_Timeout | Some d \<Rightarrow> min http_Timeout (d - now))"

text \<open>\<open>c.http.Do\<close> of a request made with \<open>NewRequestWithContext\<close>.\<close>

definition http_Do :: "'w HttpClient \<Rightarrow> Ctx \<Rightarrow> gotime \<Rightarrow> Request \<Rightarrow> ('w, Reply) op" where
  "http_Do c ctx now r w = (if ctx_done ctx now then (Inl ctx_Err, w) else hc_Do c (time_left ctx now) r w)"

text \<open>A request whose only good answer has the status \<open>code\<close>.\<close>

definition do_request :: "'w HttpClient \<Rightarrow> Ctx \<Rightarrow> gotime \<Rightarrow> string \<Rightarrow> string list \<Rightarrow> json option \<Rightarrow> int \<Rightarrow> string
    \<Rightarrow> ('w, unit) op" where
  "do_request c ctx now m path content code what w = (case http_Do c ctx now (agent_request c m path content) w of
     (Inl e, w') \<Rightarrow> (Inl e, w')
   | (Inr rep, w') \<Rightarrow>
       (if re_Status rep = code then Inr ()
        else Inl (ErrMsg (''failed to '' @ what @ '', status: '' @ show_int (re_Status rep))), w'))"

definition StartJob :: "'w HttpClient \<Rightarrow> Ctx \<Rightarrow> gotime \<Rightarrow> int \<Rightarrow> ('w, unit) op" where
  "StartJob c ctx now jobID = do_request c ctx now ''POST'' [''jobs'', show_int jobID, ''start''] None 200 ''start job''"

definition FinishJob :: "'w HttpClient \<Rightarrow> Ctx \<Rightarrow> gotime \<Rightarrow> int \<Rightarrow> string \<Rightarrow> ('w, unit) op" where
  "FinishJob c ctx now jobID status = do_request c ctx now ''POST'' [''jobs'', show_int jobID, ''finish'']
     (Some (JObj [(''status'', JStr status)])) 200 ''mark job finished''"

definition enc_ApplicationHealth :: "ApplicationHealth \<Rightarrow> json" where
  "enc_ApplicationHealth r = JObj [(''application_id'', JNum (h_ApplicationID r)), (''status'', JStr (h_Status r))]"

definition SendAppHealthReports :: "'w HttpClient \<Rightarrow> Ctx \<Rightarrow> gotime \<Rightarrow> ApplicationHealth list \<Rightarrow> ('w, unit) op" where
  "SendAppHealthReports c ctx now reports = do_request c ctx now ''POST'' [''applications'', ''health'']
     (Some (JArr (map enc_ApplicationHealth reports))) 200 ''send application health reports''"

definition SendMetrics :: "'w HttpClient \<Rightarrow> Ctx \<Rightarrow> gotime \<Rightarrow> json \<Rightarrow> ('w, unit) op" where
  "SendMetrics c ctx now metrics = do_request c ctx now ''POST'' [''metrics''] (Some metrics) 201 ''send metrics''"

definition enc_ptr :: "('a \<Rightarrow> json) \<Rightarrow> 'a option \<Rightarrow> json" where
  "enc_ptr enc x = (case x of None \<Rightarrow> JNull | Some y \<Rightarrow> enc y)"

definition omit_empty :: "string \<Rightarrow> string \<Rightarrow> (string \<times> json) list" where
  "omit_empty k s = (if s = [] then [] else [(k, JStr s)])"

definition omit_nil :: "string \<Rightarrow> int option \<Rightarrow> (string \<times> json) list" where
  "omit_nil k x = (case x of None \<Rightarrow> [] | Some n \<Rightarrow> [(k, JNum n)])"

definition enc_LogContext :: "LogContext \<Rightarrow> json" where
  "enc_LogContext x = JObj (omit_empty ''step'' (lc_Step x) @ omit_empty ''stream'' (lc_Stream x) @
     omit_empty ''line'' (lc_Line x) @ omit_nil ''exit_code'' (lc_ExitCode x) @
     omit_nil ''latency_ms'' (lc_Latency x) @ omit_empty ''status'' (lc_Status x))"

definition enc_LogEmitRequest :: "'w HttpClient \<Rightarrow> Job \<Rightarrow> EventLogEmitted \<Rightarrow> json" where
  "enc_LogEmitRequest c job evt = JObj [
     (''timestamp'', JStr (hc_time_Format c (ev_Timestamp evt))), (''level'', JStr (ev_Level evt)),
     (''source'', JStr (ev_Source evt)), (''action'', JStr (ev_Action evt)),
     (''trace_id'', JStr (hc_uuid_String c (j_TraceID job))), (''job_id'', JNum (j_ID job)),
     (''server_id'', JStr (hc_uuid_String c (j_ServerID job))),
     (''application_id'', enc_ptr JNum (j_ApplicationID job)),
     (''deployment_id'', enc_ptr JNum (j_DeploymentID job)), (''message'', JStr (ev_Message evt)),
     (''context'', enc_ptr enc_LogContext (ev_Context evt))]"

definition SendLog :: "'w HttpClient \<Rightarrow> Ctx \<Rightarrow> gotime \<Rightarrow> Job \<Rightarrow> EventLogEmitted \<Rightarrow> ('w, unit) op" where
  "SendLog c ctx now job evt = do_request c ctx now ''POST'' [''logs''] (Some (enc_LogEmitRequest c job evt)) 201 ''send log''"

definition SendCommitInfo :: "'w HttpClient \<Rightarrow> Ctx \<Rightarrow> gotime \<Rightarrow> EventCommitInfoEmitted \<Rightarrow> ('w, unit) op" where
  "SendCommitInfo c ctx now evt = do_request c ctx now ''POST'' [''deployments'', show_int (ec_DeploymentID evt), ''commit-info'']
     (Some (JObj [(''commit_hash'', JStr (ec_Hash evt)), (''commit_message'', JStr (ec_Message evt))])) 200
     ''send deployment commit info''"

section \<open>Running a job\<close>

text \<open>
  What the callbacks of a run work on: the network, the two channels and the scheduler: before
  an event is emitted the two sending goroutines have taken so many more events out of the
  channels. \<open>ob_emitted\<close> remembers the events the run has emitted.
\<close>

record 'w Outbox =
  ob_net :: 'w
  ob_logCh :: "EventLogEmitted list"
  ob_commitCh :: "EventCommitInfoEmitted list"
  ob_emitted :: "json Emitted list"
  ob_sched :: "nat \<Rightarrow> nat \<times> nat"

definition logCh_size :: nat where "logCh_size = 500"
definition commitCh_size :: nat where "commitCh_size = 1"

text \<open>\<open>context.WithoutCancel\<close>: the context the events are sent with is never done.\<close>

definition WithoutCancel :: "Ctx \<Rightarrow> Ctx" where
  "WithoutCancel ctx = ctx\<lparr>cx_Done := None\<rparr>"

text \<open>The goroutines send events in the order of their channel; a failure is logged only.\<close>

definition send_all :: "('a \<Rightarrow> ('w, unit) op) \<Rightarrow> 'a list \<Rightarrow> 'w \<Rightarrow> 'w" where
  "send_all send evts w = foldl (\<lambda>w e. snd (send e w)) w evts"

definition drain :: "'w HttpClient \<Rightarrow> Ctx \<Rightarrow> gotime \<Rightarrow> Job \<Rightarrow> nat \<Rightarrow> nat \<Rightarrow> 'w Outbox \<Rightarrow> 'w Outbox" where
  "drain c ctx now job k j ob = (let sendCtx = WithoutCancel ctx in ob\<lparr>
     ob_net := send_all (SendCommitInfo c sendCtx now) (take j (ob_commitCh ob))
       (send_all (SendLog c sendCtx now job) (take k (ob_logCh ob)) (ob_net ob)),
     ob_logCh := drop k (ob_logCh ob), ob_commitCh := drop j (ob_commitCh ob)\<rparr>)"

definition onEmit :: "'w HttpClient \<Rightarrow> Ctx \<Rightarrow> gotime \<Rightarrow> Job \<Rightarrow> json Emitted \<Rightarrow> 'w Outbox \<Rightarrow> 'w Outbox" where
  "onEmit c ctx now job event ob =
    (let (k, j) = ob_sched ob (length (ob_emitted ob));
         ob = (drain c ctx now job k j ob)\<lparr>ob_emitted := ob_emitted ob @ [event]\<rparr>
     in case event of
          EmitMetrics m \<Rightarrow> ob\<lparr>ob_net := snd (SendMetrics c ctx now m (ob_net ob))\<rparr>
        | EmitHealths reports \<Rightarrow> ob\<lparr>ob_net := snd (SendAppHealthReports c ctx now reports (ob_net ob))\<rparr>
        | EmitLog evt \<Rightarrow> if length (ob_logCh ob) < logCh_size then ob\<lparr>ob_logCh := ob_logCh ob @ [evt]\<rparr> else ob
        | EmitCommit evt \<Rightarrow> if length (ob_commitCh ob) < commitCh_size
            then ob\<lparr>ob_commitCh := ob_commitCh ob @ [evt]\<rparr> else ob)"

definition jobTimeouts :: "(string \<times> int) list" where
  "jobTimeouts = [(JobTypeAppDeploy, 15 * 60 * second), (JobTypeAppRollback, 10 * 60 * second),
     (JobTypeAppStart, 2 * 60 * second), (JobTypeAppStop, 2 * 60 * second),
     (JobTypeAppRestart, 2 * 60 * second), (JobTypeAppHealthCheck, 60 * second),
     (JobTypeAppDestroy, 5 * 60 * second), (JobTypeMetricsCollect, 60 * second)]"

definition defaultJobTimeout :: int where "defaultJobTimeout = 5 * 60 * second"

definition jobTimeout :: "string \<Rightarrow> int" where
  "jobTimeout t = (case map_of jobTimeouts t of Some d \<Rightarrow> d | None \<Rightarrow> defaultJobTimeout)"

text \<open>\<open>context.WithTimeout\<close>.\<close>

definition with_timeout :: "Ctx \<Rightarrow> gotime \<Rightarrow> Ctx" where
  "with_timeout ctx deadline = ctx\<lparr>cx_Done := (case cx_Done ctx of
     None \<Rightarrow> Some deadline | Some d \<Rightarrow> Some (min d deadline))\<rparr>"

type_synonym ('d, 'w) agent = "('d, 'w Outbox) Host"

definition emit_to :: "'w HttpClient \<Rightarrow> Ctx \<Rightarrow> Job \<Rightarrow> ('d, 'w Outbox, json) emitter" where
  "emit_to c ctx job event h = h\<lparr>ho_Out := onEmit c ctx (ho_Now h) job event (ho_Out h)\<rparr>"

text \<open>
  \<open>JobWorker.execute\<close>: new channels, the run, and the channels are closed and emptied. A panic in a
  worker goroutine ends the agent's process: what is in the channels is lost.
\<close>

definition worker_execute :: "('d, 'w Outbox, json) Executor \<Rightarrow> 'w HttpClient \<Rightarrow> Ctx \<Rightarrow> Job \<Rightarrow> (('d, 'w) agent, unit) op" where
  "worker_execute e c ctx job h =
    (let h0 = h\<lparr>ho_Out := (ho_Out h)\<lparr>ob_logCh := [], ob_commitCh := [], ob_emitted := []\<rparr>\<rparr>;
         ctx = with_timeout ctx (ho_Now h + jobTimeout (j_Type job));
         (err, h1) = Execute e ctx job (emit_to c ctx job) h0;
         ob = ho_Out h1;
         h2 = h1\<lparr>ho_Out := drain c ctx (ho_Now h1) job (length (ob_logCh ob)) (length (ob_commitCh ob)) ob\<rparr>
     in case err of Inl e \<Rightarrow> (err, if is_panic e then h1 else h2) | Inr _ \<Rightarrow> (err, h2))"

text \<open>A request of the worker itself, at the agent's time.\<close>

definition via_net :: "(gotime \<Rightarrow> ('w, 'a) op) \<Rightarrow> (('d, 'w) agent, 'a) op" where
  "via_net m h = (case m (ho_Now h) (ob_net (ho_Out h)) of (r, w) \<Rightarrow> (r, h\<lparr>ho_Out := (ho_Out h)\<lparr>ob_net := w\<rparr>\<rparr>))"

text \<open>\<open>JobWorker.processJob\<close> between taking and releasing the lock of the application.\<close>

definition processJob :: "('d, 'w Outbox, json) Executor \<Rightarrow> 'w HttpClient \<Rightarrow> Ctx \<Rightarrow> Job \<Rightarrow> (('d, 'w) agent, unit) op" where
  "processJob e c ctx job =
     bindE (via_net (\<lambda>now. StartJob c ctx now (j_ID job))) (\<lambda>_ h.
       let (execErr, h1) = worker_execute e c ctx job h;
           status = (case execErr of Inl _ \<Rightarrow> JobFailed | Inr _ \<Rightarrow> JobSuccess)
       in case execErr of
            Inl err \<Rightarrow> if is_panic err then (execErr, h1)
              else bindE (via_net (\<lambda>now. FinishJob c ctx now (j_ID job) status)) (\<lambda>_ h. (execErr, h)) h1
          | Inr _ \<Rightarrow> bindE (via_net (\<lambda>now. FinishJob c ctx now (j_ID job) status)) (\<lambda>_ h. (execErr, h)) h1)"

section \<open>Delivery of logs\<close>

definition logs_of :: "'m Emitted list \<Rightarrow> EventLogEmitted list" where
  "logs_of evs = List.map_filter (\<lambda>ev. case ev of EmitLog e \<Rightarrow> Some e | _ \<Rightarrow> None) evs"

lemma logs_of_snoc: "logs_of (evs @ [ev]) = logs_of evs @ (case ev of EmitLog e \<Rightarrow> [e] | _ \<Rightarrow> [])"
  by (simp add: logs_of_def map_filter_def split: Emitted.split)

text \<open>A network that records the requests it is given, whatever it answers.\<close>

definition records :: "Request list HttpClient \<Rightarrow> bool" where
  "records c \<longleftrightarrow> (\<forall>b r w. snd (hc_Do c b r w) = w @ [r])"

definition log_request :: "'w HttpClient \<Rightarrow> Job \<Rightarrow> EventLogEmitted \<Rightarrow> Request" where
  "log_request c job evt = agent_request c ''POST'' [''logs''] (Some (enc_LogEmitRequest c job evt))"

definition is_log :: "Request \<Rightarrow> bool" where
  "is_log r \<longleftrightarrow> rq_Path r = [''agent'', ''logs'']"

lemma records_do:
  assumes "records c"
  shows "snd (do_request c ctx now m path content code what w) =
    w @ (if ctx_done ctx now then [] else [agent_request c m path content])"
proof -
  obtain x w' where "hc_Do c (time_left ctx now) (agent_request c m path content) w = (x, w')" by force
  moreover from this assms have "w' = w @ [agent_request c m path content]" unfolding records_def by (metis snd_conv)
  ultimately show ?thesis by (auto simp: do_request_def http_Do_def split: sum.split)
qed

lemma never_done [simp]: "\<not> ctx_done (WithoutCancel ctx) now"
  by (simp add: ctx_done_def WithoutCancel_def)

lemma is_log_request [simp]: "is_log (agent_request c m path content) \<longleftrightarrow> path = [''logs'']"
  by (simp add: is_log_def agent_request_def)

lemma send_logs:
  assumes "records c"
  shows "send_all (SendLog c (WithoutCancel ctx) now job) evts w = w @ map (log_request c job) evts"
  unfolding send_all_def
  by (induction evts arbitrary: w) (simp_all add: SendLog_def records_do [OF assms] log_request_def)

lemma send_commits:
  assumes "records c"
  shows "filter is_log (send_all (SendCommitInfo c (WithoutCancel ctx) now) evts w) = filter is_log w"
  unfolding send_all_def
  by (induction evts arbitrary: w) (simp_all add: SendCommitInfo_def records_do [OF assms])

lemma other_request_logs:
  assumes "records c" and "path \<noteq> [''logs'']"
  shows "filter is_log (snd (do_request c ctx now m path content code what w)) = filter is_log w"
  by (simp add: records_do [OF assms(1)] assms(2))

text \<open>
  The log lines sent so far and those in the channel are the emitted ones but for dropped ones, and
  none is dropped before the channel's size is reached.
\<close>

definition outbox_ok :: "Request list HttpClient \<Rightarrow> Job \<Rightarrow> Request list \<Rightarrow> Request list Outbox \<Rightarrow> bool" where
  "outbox_ok c job before ob \<longleftrightarrow> (\<exists>kept. filter is_log (ob_net ob) @ map (log_request c job) (ob_logCh ob) =
     before @ map (log_request c job) kept \<and> length (ob_logCh ob) \<le> length kept \<and>
     subseq kept (logs_of (ob_emitted ob)) \<and>
     (length (logs_of (ob_emitted ob)) \<le> logCh_size \<longrightarrow> kept = logs_of (ob_emitted ob)))"

lemma outbox_okI:
  assumes "filter is_log (ob_net ob) @ map (log_request c job) (ob_logCh ob) = before @ map (log_request c job) kept"
    and "length (ob_logCh ob) \<le> length kept" and "subseq kept (logs_of (ob_emitted ob))"
    and "length (logs_of (ob_emitted ob)) \<le> logCh_size \<Longrightarrow> kept = logs_of (ob_emitted ob)"
  shows "outbox_ok c job before ob"
  using assms unfolding outbox_ok_def by blast

lemma drain_ok:
  assumes "records c" and "outbox_ok c job before ob"
  shows "outbox_ok c job before (drain c ctx now job k j ob)"
proof -
  have "filter is_log (map (log_request c job) es) = map (log_request c job) es" for es
    by (induction es) (simp_all add: log_request_def)
  with assms show ?thesis
    by (auto simp: outbox_ok_def drain_def Let_def send_logs send_commits simp flip: map_append)
qed

lemma onEmit_ok:
  assumes "records c" and "outbox_ok c job before ob"
  shows "outbox_ok c job before (onEmit c ctx now job ev ob)"
proof -
  obtain k j where kj: "ob_sched ob (length (ob_emitted ob)) = (k, j)" by force
  let ?d = "drain c ctx now job k j ob"
  have em: "ob_emitted ?d = ob_emitted ob" by (simp add: drain_def Let_def)
  from drain_ok [OF assms, of ctx now k j, unfolded outbox_ok_def em] obtain kept where kept: "filter is_log (ob_net ?d) @ map (log_request c job) (ob_logCh ?d) =
      before @ map (log_request c job) kept" "length (ob_logCh ?d) \<le> length kept" "subseq kept (logs_of (ob_emitted ob))"
      "length (logs_of (ob_emitted ob)) \<le> logCh_size \<Longrightarrow> kept = logs_of (ob_emitted ob)"
    by blast
  note step = onEmit_def kj Let_def
  show ?thesis
  proof (cases ev)
    case (EmitLog evt)
    show ?thesis
    proof (cases "length (ob_logCh ?d) < logCh_size")
      case True
      have "subseq (kept @ [evt]) (logs_of (ob_emitted ob) @ [evt])" using kept(3) by (simp add: list_emb_append_mono)
      with True kept EmitLog show ?thesis
        by (intro outbox_okI [where kept = "kept @ [evt]"])
          (simp_all add: step em logs_of_snoc flip: append_assoc)
    next
      case False
      have "subseq kept (logs_of (ob_emitted ob) @ [evt])" using kept(3) by (simp add: subseq_rev_drop_many)
      moreover have "logCh_size \<le> length (logs_of (ob_emitted ob))"
        using False kept(2) list_emb_length [OF kept(3)] by simp
      ultimately show ?thesis
        using False kept(1,2) EmitLog
        by (intro outbox_okI [where kept = kept]) (simp_all add: step em logs_of_snoc)
    qed
  next
    case (EmitMetrics m)
    with kept show ?thesis
      by (intro outbox_okI [where kept = kept])
        (simp_all add: step em logs_of_snoc SendMetrics_def other_request_logs [OF assms(1)])
  next
    case (EmitHealths m)
    with kept show ?thesis
      by (intro outbox_okI [where kept = kept])
        (simp_all add: step em logs_of_snoc SendAppHealthReports_def other_request_logs [OF assms(1)])
  next
    case (EmitCommit m)
    with kept show ?thesis
      by (cases "length (ob_commitCh ?d) < commitCh_size"; intro outbox_okI [where kept = kept])
        (simp_all add: step em logs_of_snoc)
  qed
qed

text \<open>A run keeps it, whatever the commands do.\<close>

definition logs_kept :: "Request list HttpClient \<Rightarrow> Job \<Rightarrow> Request list
    \<Rightarrow> ('d, Request list Outbox) Host \<Rightarrow> ('d, Request list Outbox) Host \<Rightarrow> bool" where
  "logs_kept c job before h h' \<longleftrightarrow> (outbox_ok c job before (ho_Out h) \<longrightarrow> outbox_ok c job before (ho_Out h'))"

interpretation lk: host_guarantee "logs_kept c job before" progs "\<lambda>_. True" for c job before progs
  by unfold_locales (auto simp: logs_kept_def)

text \<open>
  C25. The log lines of a run are sent in the order the run emitted them, whenever the sending
  goroutine gets to run and whatever the control plane answers, none twice; when there are at most
  500 of them all have been sent when \<open>execute\<close> returns. A run that panics is the exception.
\<close>

theorem logs_in_order:
  assumes rec: "records c" and run: "worker_execute e c ctx job h = (r, h')"
    and no_panic: "\<not> (\<exists>err. r = Inl err \<and> is_panic err)"
  shows "\<exists>kept. filter is_log (ob_net (ho_Out h')) = filter is_log (ob_net (ho_Out h)) @ map (log_request c job) kept \<and>
    subseq kept (logs_of (ob_emitted (ho_Out h'))) \<and>
    (length (logs_of (ob_emitted (ho_Out h'))) \<le> 500 \<longrightarrow> kept = logs_of (ob_emitted (ho_Out h')))"
proof -
  let ?h0 = "h\<lparr>ho_Out := (ho_Out h)\<lparr>ob_logCh := [], ob_commitCh := [], ob_emitted := []\<rparr>\<rparr>"
  let ?ctx = "with_timeout ctx (ho_Now h + jobTimeout (j_Type job))"
  let ?before = "filter is_log (ob_net (ho_Out h))"
  obtain err h1 where ex: "Execute e ?ctx job (emit_to c ?ctx job) ?h0 = (err, h1)" by force
  have "logs_kept c job ?before u (emit_to c ?ctx job ev u)" for ev u
    by (simp add: logs_kept_def emit_to_def onEmit_ok [OF rec])
  then have "guarantees (logs_kept c job ?before) (Execute e ?ctx job (emit_to c ?ctx job))"
    by (rule lk.g_Execute) simp_all
  from guaranteesD [OF this ex] have "outbox_ok c job ?before (ho_Out h1)"
    by (simp add: logs_kept_def outbox_ok_def logs_of_def)
  from drain_ok [OF rec this, of ?ctx "ho_Now h1" "length (ob_logCh (ho_Out h1))" "length (ob_commitCh (ho_Out h1))"]
  have "outbox_ok c job ?before (ho_Out h') \<and> ob_logCh (ho_Out h') = []"
    using run no_panic by (auto simp: worker_execute_def ex Let_def drain_def split: sum.splits if_splits)
  then show ?thesis by (auto simp: outbox_ok_def logCh_size_def)
qed

text \<open>
  No healthy agent is reaped: whatever its type, the time a job is given by the agent is at most
  half of what the control plane's reaper waits for.
\<close>

theorem timeout_before_reaper:
  "0 < jobTimeout t \<and> 2 * jobTimeout t \<le> reapAfter"
proof -
  have "0 < d \<and> 2 * d \<le> reapAfter" if "map_of jobTimeouts t = Some d" for d
  proof -
    from that have "(t, d) \<in> set jobTimeouts" by (rule map_of_SomeD)
    then show ?thesis by (auto simp: jobTimeouts_def reapAfter_def second_def)
  qed
  then show ?thesis
    by (auto simp: jobTimeout_def defaultJobTimeout_def reapAfter_def second_def split: option.split)
qed

definition silent_client :: "Request list HttpClient" where
  "silent_client = \<lparr>hc_AgentServerID = 0, hc_AgentServerAPIToken = ''t'', hc_uuid_String = (\<lambda>_. ''u''),
     hc_time_Format = (\<lambda>_. ''t''), hc_Version = ''dev'', hc_Do = (\<lambda>_ r w. (Inl ErrDB, w @ [r]))\<rparr>"

text \<open>A job of an unknown type says so in one line.\<close>

definition logging_host :: "(unit, Request list) agent" where
  "logging_host = \<lparr>ho_Now = 0, ho_Files = (\<lambda>_. None), ho_Dirs = (\<lambda>_. True), ho_Calls = 0, ho_Fails = (\<lambda>_. False),
     ho_Log = [], ho_Rest = (), ho_Out = \<lparr>ob_net = [], ob_logCh = [], ob_commitCh = [], ob_emitted = [],
       ob_sched = (\<lambda>_. (0, 0))\<rparr>\<rparr>"

definition logging_executor :: "(unit, Request list Outbox, json) Executor" where
  "logging_executor = \<lparr>ex_workDir = ''/apps'', ex_metrics = (\<lambda>_. JNull),
     ex_progs = (\<lambda>_ _ h. \<lparr>oc_Start = None, oc_Lines = [], oc_Took = 0, oc_StreamErrs = [], oc_Exit = None,
       oc_Files = ho_Files h, oc_Dirs = ho_Dirs h, oc_Rest = ()\<rparr>),
     ex_json = (\<lambda>_. None), ex_uuid_Parse = (\<lambda>_. None), ex_uuid_String = (\<lambda>_. [])\<rparr>"

text \<open>A rollback without an image says so in one line, which the closing of the channel delivers.\<close>

definition rollback_job :: Job where
  "rollback_job = Job0\<lparr>j_Type := JobTypeAppRollback, j_Payload := Some JNull\<rparr>"

theorem logs_in_order_witness:
  "\<exists>r h'. worker_execute logging_executor silent_client demo_ctx rollback_job logging_host = (r, h') \<and>
     length (logs_of (ob_emitted (ho_Out h'))) = 1 \<and>
     filter is_log (ob_net (ho_Out h')) = map (log_request silent_client rollback_job) (logs_of (ob_emitted (ho_Out h')))"
proof -
  obtain r h' where run: "worker_execute logging_executor silent_client demo_ctx rollback_job logging_host = (r, h')" by force
  have "(\<exists>msg. r = Inl (ErrMsg msg)) \<and> length (logs_of (ob_emitted (ho_Out h'))) = 1"
    using run
    by (auto simp: worker_execute_def Execute_def rollback_job_def rollbackApp_def unmarshal_def Job0_def
        logFatalHandler_def bindE_def modifyE_def failE_def emit_to_def onEmit_def drain_def logging_host_def Let_def
        logs_of_def map_filter_def)
  moreover have "records silent_client" by (simp add: records_def silent_client_def)
  ultimately show ?thesis
    using logs_in_order [OF _ run] run by (auto simp: logging_host_def)
qed

end
