(* ===== verification/Fleet.thy ===== *)
theory Fleet
  imports JobWorker Access
begin

text \<open>
  The agent and the control plane together: the agent's requests go through the router of the
  control plane, and a job the agent takes ends in the job table.
\<close>

section \<open>What the agent's reports leave alone\<close>

definition jobs_and_servers :: "world \<Rightarrow> world \<Rightarrow> bool" where
  "jobs_and_servers w w' \<longleftrightarrow> w_jobs w' = w_jobs w \<and> w_servers w' = w_servers w \<and> (no_faults w \<longrightarrow> no_faults w')"

interpretation js: listener_guarantee jobs_and_servers
  by unfold_locales (auto simp: jobs_and_servers_def no_faults_def)

lemma js_LogService_Create: "guarantees jobs_and_servers (LogService_Create (server_bus url) l)"
proof -
  have "guarantees jobs_and_servers (LogRepo_Create l)"
    unfolding LogRepo_Create_def
    by (intro js.db_rules guaranteesI) (auto simp: jobs_and_servers_def Let_def)
  then show ?thesis unfolding LogService_Create_def by (intro js.db_rules js.g_server_publish)
qed

lemma js_UpdateCommitInfo: "guarantees jobs_and_servers (DeploymentService_UpdateCommitInfo (server_bus url) i h m)"
proof -
  have u: "guarantees jobs_and_servers (DeploymentRepo_UpdateCommitInfo i h m)"
    unfolding DeploymentRepo_UpdateCommitInfo_def deployment_not_found_def
    by (intro js.db_rules js.g_deployment_update)
  have "guarantees jobs_and_servers (case (d_CommitHash d, d_CommitMessage d) of
      (Some h, Some m) \<Rightarrow> Publish (server_bus url) ''deployment_commit_info_received'' (DeploymentCommitInfoReceivedEv
          \<lparr>edi_DeploymentID = d_ID d, edi_ApplicationID = d_ApplicationID d, edi_CommitHash = h, edi_CommitMessage = m\<rparr>)
     | _ \<Rightarrow> failE (GoPanic ''nil pointer dereference''))" for d
    by (auto split: option.split intro: js.g_server_publish js.g_fail)
  with u show ?thesis unfolding DeploymentService_UpdateCommitInfo_def by (intro js.g_bind)
qed

lemma js_UpdateHealth: "guarantees jobs_and_servers (AppService_UpdateHealth s reports)"
  unfolding AppService_UpdateHealth_def AppRepo_UpdateHealth_def
  by (intro js.db_rules guaranteesI) (auto simp: jobs_and_servers_def Let_def split: option.splits)

lemma js_Agent:
  assumes "\<And>r w. jobs_and_servers w (snd (next r w))"
  shows "jobs_and_servers w (snd (Agent bc uuid_Parse next r w))"
proof -
  have "guarantees jobs_and_servers (ServerService_AuthorizeAgent bc i secret)" for i secret
    unfolding ServerService_AuthorizeAgent_def ServerRepo_GetByID_def
    by (intro js.db_rules js.g_same) (simp_all split: option.split)
  note auth = guaranteesD [OF this]
  show ?thesis
    using js.trans [OF auth assms] auth
    by (auto simp: Agent_def Let_def js.refl split: prod.splits option.splits sum.splits)
qed

section \<open>The network\<close>

text \<open>
  The control plane behind a network that works: it answers at once, so the time that is left does
  not matter. A request no route takes is answered 404; a handler that panics closes the connection.
\<close>

definition router_net :: "RouterDeps \<Rightarrow> int \<Rightarrow> Request \<Rightarrow> world \<Rightarrow> (error + Reply) \<times> world" where
  "router_net d budget r w = (case NewRouter d r w of
     None \<Rightarrow> (Inr (http_Error ''404 page not found'' 404), w)
   | Some (rep, w') \<Rightarrow> (if re_Status rep = 0 then Inl (ErrMsg ''EOF'') else Inr rep, w'))"

lemma agent_prefix:
  assumes "rt \<in> set (routes d)" and "route_matches r rt" and "rq_Path r = ''agent'' # rest"
  shows "rt \<in> set (agent_routes d)"
  using assms
  by (auto simp: routes_def public_routes_def login_route_def user_routes_def read_routes_def write_routes_def Let_def
      route_matches_def route_def)

lemma js_calls: "jobs_and_servers w (w\<lparr>w_calls := w_calls w + n\<rparr>)"
  by (simp add: jobs_and_servers_def no_faults_def)

lemma js_reports:
  assumes bus: "rd_bus d = server_bus url"
  shows "jobs_and_servers w (snd (LogHandler_Store d r w))"
    and "jobs_and_servers w (snd (ApplicationHandler_ReportHealth d r w))"
    and "jobs_and_servers w (snd (DeploymentHandler_UpdateCommitInfo d r w))"
    and "jobs_and_servers w (snd (MetricsHandler_route d meth r w))"
  unfolding MetricsHandler_route_def LogHandler_Store_def ApplicationHandler_ReportHealth_def DeploymentHandler_UpdateCommitInfo_def
    decoded_def validated_def with_server_def with_id_def Let_def bus
  by (simp_all add: js.refl js_calls js.g_answer js_LogService_Create js_UpdateCommitInfo js_UpdateHealth
      split: sum.split option.split prod.split)

lemma agent_reports:
  assumes "rt \<in> set (agent_routes d)" and "route_matches r rt"
    and path: "rq_Path r \<in> {[''agent'', ''logs''], [''agent'', ''applications'', ''health''],
      [''agent'', ''deployments'', i, ''commit-info''], [''agent'', ''metrics'']}"
    and bus: "rd_bus d = server_bus url"
  shows "jobs_and_servers w (snd (rt_Handler rt r' w))"
proof -
  let ?agents = "agentStack (rd_bcrypt d) (rd_uuid_Parse d)"
  have chain: "jobs_and_servers w (snd (Chain_Then ?agents h r' w))"
    if "\<And>r w. jobs_and_servers w (snd (h r w))" for h
    unfolding agentStack_def Chain_Then_Use Chain_Then_New using that by (rule js_Agent)
  note reports = chain [OF js_reports(1) [OF bus]] chain [OF js_reports(2) [OF bus]] chain [OF js_reports(3) [OF bus]]
    chain [OF js_reports(4) [OF bus]]
  from path consider "rq_Path r = [''agent'', ''logs'']" | "rq_Path r = [''agent'', ''applications'', ''health'']"
    | "rq_Path r = [''agent'', ''deployments'', i, ''commit-info'']" | "rq_Path r = [''agent'', ''metrics'']" by blast
  then have "rt_Handler rt \<in> {Chain_Then ?agents (LogHandler_Store d),
      Chain_Then ?agents (ApplicationHandler_ReportHealth d), Chain_Then ?agents (DeploymentHandler_UpdateCommitInfo d),
      Chain_Then ?agents (MetricsHandler_route d Metrics_Ingest)}"
    using assms(1,2) unfolding agent_routes_def Let_def
    by cases (auto simp: route_matches_def route_def)
  with reports show ?thesis by auto
qed

lemma report_net:
  assumes "rq_Path r \<in> {[''agent'', ''logs''], [''agent'', ''applications'', ''health''],
      [''agent'', ''deployments'', i, ''commit-info''], [''agent'', ''metrics'']}"
    and bus: "rd_bus d = server_bus url"
  shows "jobs_and_servers w (snd (router_net d budget r w))"
proof (cases "NewRouter d r w")
  case None
  then show ?thesis by (simp add: router_net_def js.refl)
next
  case (Some p)
  obtain rep w' where p: "p = (rep, w')" by force
  from Some p have "NewRouter d r w = Some (rep, w')" by simp
  then show ?thesis
  proof (cases rule: NewRouter_cases)
    case 1
    with Some p show ?thesis by (simp add: router_net_def js.refl)
  next
    case (2 rt)
    obtain rest where rest: "rq_Path r = ''agent'' # rest" using assms(1) by auto
    from agent_prefix [OF 2(1,2) rest] have rt: "rt \<in> set (agent_routes d)" .
    from agent_reports [OF rt 2(2) assms(1) bus] 2(3) Some p show ?thesis by (simp add: router_net_def)
  qed
qed

section \<open>Taking and ending a job\<close>

text \<open>
  The agent's id and token are those of a live server, and the UUID parser of the control plane
  reads what the agent's formatter writes.
\<close>

definition enrolled :: "RouterDeps \<Rightarrow> world HttpClient \<Rightarrow> world \<Rightarrow> bool" where
  "enrolled d c w \<longleftrightarrow>
     (case find (\<lambda>s. s_ID s = hc_AgentServerID c \<and> live_server s) (w_servers w) of
        None \<Rightarrow> False
      | Some s \<Rightarrow> CompareHashAndPassword (rd_bcrypt d) (s_APIToken s) (hc_AgentServerAPIToken c)) \<and>
     hc_AgentServerAPIToken c \<noteq> [] \<and> CHR ''.'' \<notin> set (hc_uuid_String c (hc_AgentServerID c)) \<and>
     rd_uuid_Parse d (hc_uuid_String c (hc_AgentServerID c)) = Some (hc_AgentServerID c)"

lemma Agent_accepts:
  assumes "enrolled d c w" and "no_faults w" and "rq_Header r = rq_Header (agent_request c m path content)"
  shows "\<exists>s. Agent (rd_bcrypt d) (rd_uuid_Parse d) next r w = next (r\<lparr>rq_ServerID := s\<rparr>) (w\<lparr>w_calls := Suc (w_calls w)\<rparr>)"
proof -
  from assms(1) obtain s where s: "find (\<lambda>s. s_ID s = hc_AgentServerID c \<and> live_server s) (w_servers w) = Some s"
      "CompareHashAndPassword (rd_bcrypt d) (s_APIToken s) (hc_AgentServerAPIToken c)"
    by (auto simp: enrolled_def split: option.splits)
  have auth: "rq_Header r ''Authorization'' = ''Bearer'' @ CHR '' '' # hc_uuid_String c (hc_AgentServerID c) @
      CHR ''.'' # hc_AgentServerAPIToken c"
    unfolding assms(3) by (simp add: agent_request_def auth_headers_def)
  have sp: "split2 (CHR '' '') (''Bearer'' @ CHR '' '' # t) = (''Bearer'', Some t)" for t
    by (rule split2_found) simp
  have cr: "ValidateAgentCredentials (rd_uuid_Parse d) (hc_uuid_String c (hc_AgentServerID c) @
      CHR ''.'' # hc_AgentServerAPIToken c) = Inr (hc_AgentServerID c, hc_AgentServerAPIToken c)"
    using assms(1) unfolding ValidateAgentCredentials_def enrolled_def by (simp add: split2_found)
  have "ServerService_AuthorizeAgent (rd_bcrypt d) (hc_AgentServerID c) (hc_AgentServerAPIToken c) w =
      (Inr ((server_of_row s)\<lparr>s_ApplicationCount := 0\<rparr>), w\<lparr>w_calls := Suc (w_calls w)\<rparr>)"
    using s assms(2) by (simp add: ServerService_AuthorizeAgent_def ServerRepo_GetByID_def db_exec_ok
        bindE_def catchE_def failE_def returnE_def server_of_row_def Server.truncate_def)
  then show ?thesis
    unfolding Agent_def Let_def auth sp by (auto simp: cr)
qed

text \<open>What is left of the job table when a job is started, on a healthy database.\<close>

lemma k_jobs_spec_start:
  "k_jobs (spec_start now i k) = (case find (\<lambda>j. j_ID j = i) (k_jobs k) of
     None \<Rightarrow> k_jobs k
   | Some j \<Rightarrow> if j_Status j = JobQueued
       then update_where (\<lambda>j. j_ID j = i) (\<lambda>j. j\<lparr>j_Status := JobRunning, j_StartedAt := Some now\<rparr>) (k_jobs k) else k_jobs k)"
proof -
  have "k_jobs (deployment_started now j k) = k_jobs k" for j k
    by (simp add: deployment_started_def set_deployment_def split: option.split)
  moreover have "k_jobs (app_started now j k) = k_jobs k" for j k
    by (simp add: app_started_def app_status_def set_app_def split: option.split)
  ultimately show ?thesis
    unfolding spec_start_def by (simp add: set_job_def split: option.split)
qed

definition same_servers :: "world \<Rightarrow> world \<Rightarrow> bool" where
  "same_servers w w' \<longleftrightarrow> w_servers w' = w_servers w"

interpretation ss: listener_guarantee same_servers
  by unfold_locales (simp_all add: same_servers_def)

lemma ss_job_update: "guarantees same_servers (job_update i p f)"
  by (rule guaranteesI) (simp add: job_update_def same_servers_def split: option.split)

lemma ss_transitions:
  "guarantees same_servers (JobService_Start (server_bus url) i)"
  "guarantees same_servers (JobService_Finish (server_bus url) i st)"
proof -
  have get: "guarantees same_servers (JobRepo_GetByID i)"
    unfolding JobRepo_GetByID_def by (intro ss.db_rules ss.g_same) (simp_all split: option.split)
  have start: "guarantees same_servers (JobRepo_MarkRunning i)"
    unfolding JobRepo_MarkRunning_def by (intro ss.db_rules get ss_job_update)
  have finish: "guarantees same_servers (JobRepo_MarkFinished i st)"
    unfolding JobRepo_MarkFinished_def by (intro ss.db_rules get ss_job_update)
  show "guarantees same_servers (JobService_Start (server_bus url) i)"
    unfolding JobService_Start_def by (intro ss.db_rules ss.g_server_publish start)
  show "guarantees same_servers (JobService_Finish (server_bus url) i st)"
    by (rule ss.g_Finish [OF finish])
qed

lemma started:
  assumes "no_faults w" and "find (\<lambda>j. j_ID j = i) (w_jobs w) = Some j" and "j_Status j = JobQueued"
  shows "\<exists>j' w'. JobService_Start (server_bus url) i w = (Inr j', w') \<and> no_faults w' \<and> w_servers w' = w_servers w \<and>
    w_now w' = w_now w \<and>
    w_jobs w' = update_where (\<lambda>j. j_ID j = i) (\<lambda>j. j\<lparr>j_Status := JobRunning, j_StartedAt := Some (w_now w)\<rparr>) (w_jobs w)"
proof -
  obtain r w' where run: "JobService_Start (server_bus url) i w = (r, w')" by force
  from mark_running.fires [OF assms] obtain j' u where "JobRepo_MarkRunning i w = (Inr j', u)" by blast
  then have "\<exists>j'. r = Inr j'"
    using run by (auto simp: JobService_Start_def bindE_def Publish_def)
  moreover have "follows w (spec_start (w_now w) i (abs_world w)) w'"
    using start_follows [OF assms(1), of i url] run by simp
  then have "no_faults w' \<and> w_now w' = w_now w \<and> w_jobs w' = k_jobs (spec_start (w_now w) i (abs_world w))"
    by (auto simp: follows_def abs_jobs [symmetric])
  moreover have "w_servers w' = w_servers w"
    using guaranteesD [OF ss_transitions(1) run] by (simp add: same_servers_def)
  ultimately show ?thesis
    using run assms(2,3) by (auto simp: k_jobs_spec_start abs_jobs)
qed

lemma finished:
  assumes "no_faults w" and "find (\<lambda>j. j_ID j = i) (w_jobs w) = Some j" and "j_Status j = JobRunning"
  shows "\<exists>j' w'. JobService_Finish (server_bus url) i st w = (Inr j', w') \<and>
    w_jobs w' = update_where (\<lambda>j. j_ID j = i) (\<lambda>j. j\<lparr>j_Status := st, j_FinishedAt := Some (w_now w)\<rparr>) (w_jobs w)"
proof -
  obtain r w' where run: "JobService_Finish (server_bus url) i st w = (r, w')" by force
  from mark_finished.fires [OF assms] obtain j' u where "JobRepo_MarkFinished i st w = (Inr j', u)" by blast
  then have "\<exists>j'. r = Inr j'"
    using run by (auto simp: JobService_Finish_def bindE_def Publish_def)
  moreover have "follows w (spec_finish (w_now w) i st (abs_world w)) w'"
    using finish_follows [OF assms(1), of i st url] run by simp
  then have "w_jobs w' = k_jobs (spec_finish (w_now w) i st (abs_world w))"
    by (auto simp: follows_def abs_jobs [symmetric])
  ultimately show ?thesis
    using run assms(2,3) by (auto simp: k_jobs_spec_finish abs_jobs)
qed

text \<open>The routes of the two requests.\<close>

lemma agent_route_taken:
  assumes "route (agentStack (rd_bcrypt d) (rd_uuid_Parse d)) ''POST'' p h \<in> set (agent_routes d)"
    and "rq_Method r = ''POST''" and "rq_Path r = ''agent'' # rest" and "match_path p (rq_Path r) \<noteq> None"
    and only: "\<And>rt. rt \<in> set (agent_routes d) \<Longrightarrow> route_matches r rt \<Longrightarrow>
      rt = route (agentStack (rd_bcrypt d) (rd_uuid_Parse d)) ''POST'' p h"
  shows "\<exists>rep. NewRouter d r w = Some (rep, snd (Agent (rd_bcrypt d) (rd_uuid_Parse d) h (bind_path (route
      (agentStack (rd_bcrypt d) (rd_uuid_Parse d)) ''POST'' p h) r) w)) \<and>
    re_Status rep = re_Status (fst (Agent (rd_bcrypt d) (rd_uuid_Parse d) h (bind_path (route
      (agentStack (rd_bcrypt d) (rd_uuid_Parse d)) ''POST'' p h) r) w))"
proof -
  let ?rt = "route (agentStack (rd_bcrypt d) (rd_uuid_Parse d)) ''POST'' p h"
  have "?rt \<in> set (routes d)" using assms(1) by (simp add: routes_def)
  moreover have "route_matches r ?rt" using assms(2,4) by (simp add: route_matches_def route_def method_matches_def)
  ultimately obtain rt where "find_route (routes d) r = Some rt" using find_route_Some by fastforce
  moreover from find_route_mem [OF this] agent_prefix [OF _ _ assms(3)] only have "rt = ?rt" by blast
  ultimately have "NewRouter d r w = Some (CORS (rd_cfg d) (\<lambda>r. rt_Handler ?rt (bind_path ?rt r)) r w)"
    using assms(2) by (simp add: NewRouter_def)
  moreover have "rt_Handler ?rt = Agent (rd_bcrypt d) (rd_uuid_Parse d) h"
    by (simp add: agentStack_def Chain_Then_Use Chain_Then_New)
  ultimately show ?thesis
    using assms(2) by (auto simp: CORS_def add_headers_def Let_def)
qed

lemma ParseInt_show: "- (2 ^ 63) \<le> i \<Longrightarrow> i < 2 ^ 63 \<Longrightarrow> ParseInt (show_int i) = Some i"
proof -
  assume r: "- (2 ^ 63) \<le> i" "i < 2 ^ 63"
  have "is_digit x" if "x \<in> set (show_nat n)" for x n
    using show_nat_digits [OF that] by (auto simp: is_digit_def of_char_digit)
  then have digits: "list_all is_digit (show_nat n)" for n by (simp add: list_all_iff)
  obtain x xs where n: "show_nat (nat i) = x # xs" by (cases "show_nat (nat i)") auto
  have x: "x \<noteq> CHR ''-'' \<and> x \<noteq> CHR ''+''"
  proof -
    from show_nat_digits [of x "nat i"] n obtain k where "k < 10" "x = digit k" by auto
    then show ?thesis using digit_neq [of k "CHR ''-''"] digit_neq [of k "CHR ''+''"] by simp
  qed
  show ?thesis
  proof (cases "i < 0")
    case True
    with r digits [of "nat (- i)"] show ?thesis by (simp add: ParseInt_def show_int_def read_show_nat Let_def)
  next
    case False
    have "read_nat (x # xs) = nat i" using read_show_nat [of "nat i"] n by simp
    with r False x digits [of "nat i"] n show ?thesis by (simp add: ParseInt_def show_int_def Let_def)
  qed
qed

lemma show_int_nonempty [simp]: "show_int i \<noteq> []"
  by (simp add: show_int_def)

lemma start_net:
  assumes bus: "rd_bus d = server_bus url" and net: "hc_Do c = router_net d"
    and ok: "enrolled d c w" "no_faults w" and i: "- (2 ^ 63) \<le> i" "i < 2 ^ 63"
    and j: "find (\<lambda>j. j_ID j = i) (w_jobs w) = Some j" "j_Status j = JobQueued"
  and live: "\<not> ctx_done ctx now"
  shows "\<exists>w'. StartJob c ctx now i w = (Inr (), w') \<and> no_faults w' \<and> w_servers w' = w_servers w \<and>
    w_jobs w' = update_where (\<lambda>j. j_ID j = i) (\<lambda>j. j\<lparr>j_Status := JobRunning, j_StartedAt := Some (w_now w)\<rparr>) (w_jobs w)"
proof -
  let ?r = "agent_request c ''POST'' [''jobs'', show_int i, ''start''] None"
  let ?p = "[Lit ''agent'', Lit ''jobs'', Wild ''id'', Lit ''start'']"
  let ?rt = "route (agentStack (rd_bcrypt d) (rd_uuid_Parse d)) ''POST'' ?p (JobHandler_Start d)"
  have "\<exists>rep. NewRouter d ?r w = Some (rep, snd (Agent (rd_bcrypt d) (rd_uuid_Parse d) (JobHandler_Start d) (bind_path ?rt ?r) w)) \<and>
      re_Status rep = re_Status (fst (Agent (rd_bcrypt d) (rd_uuid_Parse d) (JobHandler_Start d) (bind_path ?rt ?r) w))"
    by (rule agent_route_taken [where rest = "[''jobs'', show_int i, ''start'']"])
      (auto simp: agent_routes_def Let_def agent_request_def route_matches_def route_def)
  then obtain rep where rep: "NewRouter d ?r w = Some (rep, snd (Agent (rd_bcrypt d) (rd_uuid_Parse d) (JobHandler_Start d) (bind_path ?rt ?r) w))"
      "re_Status rep = re_Status (fst (Agent (rd_bcrypt d) (rd_uuid_Parse d) (JobHandler_Start d) (bind_path ?rt ?r) w))" by blast
  have hd: "rq_Header (bind_path ?rt ?r) = rq_Header ?r" by (simp add: bind_path_def)
  have pv: "rq_PathValue (bind_path ?rt ?r) ''id'' = show_int i"
    by (simp add: bind_path_def agent_request_def route_def)
  from Agent_accepts [OF ok hd] obtain s where
    a: "Agent (rd_bcrypt d) (rd_uuid_Parse d) (JobHandler_Start d) (bind_path ?rt ?r) w =
      JobHandler_Start d ((bind_path ?rt ?r)\<lparr>rq_ServerID := s\<rparr>) (w\<lparr>w_calls := Suc (w_calls w)\<rparr>)" by blast
  from started [of "w\<lparr>w_calls := Suc (w_calls w)\<rparr>" i j url] ok j obtain j' w' where
    st: "JobService_Start (server_bus url) i (w\<lparr>w_calls := Suc (w_calls w)\<rparr>) = (Inr j', w')" "no_faults w'"
      "w_servers w' = w_servers w"
      "w_jobs w' = update_where (\<lambda>j. j_ID j = i) (\<lambda>j. j\<lparr>j_Status := JobRunning, j_StartedAt := Some (w_now w)\<rparr>) (w_jobs w)"
    by auto
  have "JobHandler_Start d ((bind_path ?rt ?r)\<lparr>rq_ServerID := s\<rparr>) (w\<lparr>w_calls := Suc (w_calls w)\<rparr>) = (give 200 [] (DJob j'), w')"
    using st(1) by (simp add: JobHandler_Start_def with_id_def pv ParseInt_show [OF i] answer_def after_def bus)
  with rep a have "StartJob c ctx now i w = (Inr (), w')"
    by (simp add: StartJob_def do_request_def http_Do_def live net router_net_def give_def JSONWriter_Write_def)
  with st show ?thesis by blast
qed

lemma finish_net:
  assumes bus: "rd_bus d = server_bus url" and net: "hc_Do c = router_net d"
    and ok: "enrolled d c w" "no_faults w" and i: "- (2 ^ 63) \<le> i" "i < 2 ^ 63"
    and j: "find (\<lambda>j. j_ID j = i) (w_jobs w) = Some j" "j_Status j = JobRunning"
  and live: "\<not> ctx_done ctx now"
  shows "\<exists>w'. FinishJob c ctx now i st w = (Inr (), w') \<and>
    w_jobs w' = update_where (\<lambda>j. j_ID j = i) (\<lambda>j. j\<lparr>j_Status := st, j_FinishedAt := Some (w_now w)\<rparr>) (w_jobs w)"
proof -
  let ?r = "agent_request c ''POST'' [''jobs'', show_int i, ''finish''] (Some (JObj [(''status'', JStr st)]))"
  let ?p = "[Lit ''agent'', Lit ''jobs'', Wild ''id'', Lit ''finish'']"
  let ?rt = "route (agentStack (rd_bcrypt d) (rd_uuid_Parse d)) ''POST'' ?p (JobHandler_Finish d)"
  have "\<exists>rep. NewRouter d ?r w = Some (rep, snd (Agent (rd_bcrypt d) (rd_uuid_Parse d) (JobHandler_Finish d) (bind_path ?rt ?r) w)) \<and>
      re_Status rep = re_Status (fst (Agent (rd_bcrypt d) (rd_uuid_Parse d) (JobHandler_Finish d) (bind_path ?rt ?r) w))"
    by (rule agent_route_taken [where rest = "[''jobs'', show_int i, ''finish'']"])
      (auto simp: agent_routes_def Let_def agent_request_def route_matches_def route_def)
  then obtain rep where rep: "NewRouter d ?r w = Some (rep, snd (Agent (rd_bcrypt d) (rd_uuid_Parse d) (JobHandler_Finish d) (bind_path ?rt ?r) w))"
      "re_Status rep = re_Status (fst (Agent (rd_bcrypt d) (rd_uuid_Parse d) (JobHandler_Finish d) (bind_path ?rt ?r) w))" by blast
  have hd: "rq_Header (bind_path ?rt ?r) = rq_Header ?r" by (simp add: bind_path_def)
  have pv: "rq_PathValue (bind_path ?rt ?r) ''id'' = show_int i" "rq_Body (bind_path ?rt ?r) = Some (JObj [(''status'', JStr st)])"
    by (simp_all add: bind_path_def agent_request_def route_def)
  from Agent_accepts [OF ok hd] obtain s where
    a: "Agent (rd_bcrypt d) (rd_uuid_Parse d) (JobHandler_Finish d) (bind_path ?rt ?r) w =
      JobHandler_Finish d ((bind_path ?rt ?r)\<lparr>rq_ServerID := s\<rparr>) (w\<lparr>w_calls := Suc (w_calls w)\<rparr>)" by blast
  from finished [of "w\<lparr>w_calls := Suc (w_calls w)\<rparr>" i j url st] ok j obtain j' w' where
    st: "JobService_Finish (server_bus url) i st (w\<lparr>w_calls := Suc (w_calls w)\<rparr>) = (Inr j', w')"
      "w_jobs w' = update_where (\<lambda>j. j_ID j = i) (\<lambda>j. j\<lparr>j_Status := st, j_FinishedAt := Some (w_now w)\<rparr>) (w_jobs w)"
    by auto
  have dec: "dec_JobFinishRequest (JObj [(''status'', JStr st)]) = Inr st"
    by (simp add: dec_JobFinishRequest_def dec_struct_def object_members_def resolve_field_def andThen_def
        str_member_def json_get_def)
  have "JobHandler_Finish d ((bind_path ?rt ?r)\<lparr>rq_ServerID := s\<rparr>) (w\<lparr>w_calls := Suc (w_calls w)\<rparr>) = (give 200 [] (DJob j'), w')"
    using st(1) by (simp add: JobHandler_Finish_def with_id_def pv ParseInt_show [OF i] answer_def after_def bus
        decoded_def Decode_def dec validated_def Validate_def)
  with rep a have "FinishJob c ctx now i st w = (Inr (), w')"
    by (simp add: FinishJob_def do_request_def http_Do_def live net router_net_def give_def JSONWriter_Write_def)
  with st show ?thesis by blast
qed


text \<open>What the callbacks of a run do to the control plane.\<close>

lemma js_send:
  assumes "rd_bus d = server_bus url" and "hc_Do c = router_net d"
    and "path \<in> {[''logs''], [''applications'', ''health''], [''deployments'', i, ''commit-info''], [''metrics'']}"
  shows "jobs_and_servers w (snd (do_request c ctx now m path content code what w))"
proof -
  have "jobs_and_servers w (snd (router_net d (time_left ctx now) (agent_request c m path content) w))"
    by (rule report_net [where i = i, OF _ assms(1)]) (use assms(3) in \<open>auto simp: agent_request_def\<close>)
  then show ?thesis by (auto simp: do_request_def http_Do_def assms(2) js.refl split: prod.split sum.split)
qed

lemma js_send_all: "(\<And>e w. jobs_and_servers w (snd (send e w))) \<Longrightarrow> jobs_and_servers w (send_all send evts w)"
  unfolding send_all_def by (rule js.g_foldl) simp

lemma js_drain:
  assumes "rd_bus d = server_bus url" and "hc_Do c = router_net d"
  shows "jobs_and_servers (ob_net ob) (ob_net (drain c ctx now job k j ob))"
proof -
  have send: "jobs_and_servers w (snd (SendLog c (WithoutCancel ctx) now job e w))"
    "jobs_and_servers w (snd (SendCommitInfo c (WithoutCancel ctx) now ev w))" for e ev w
    unfolding SendLog_def SendCommitInfo_def by (rule js_send [OF assms]; auto)+
  show ?thesis
    using js.trans [OF js_send_all [of "SendLog c (WithoutCancel ctx) now job", OF send(1)]
        js_send_all [of "SendCommitInfo c (WithoutCancel ctx) now", OF send(2)]]
    by (simp add: drain_def Let_def)
qed

lemma js_onEmit:
  assumes "rd_bus d = server_bus url" and "hc_Do c = router_net d"
  shows "jobs_and_servers (ob_net ob) (ob_net (onEmit c ctx now job ev ob))"
proof -
  have "jobs_and_servers w (snd (SendMetrics c ctx now m w))" "jobs_and_servers w (snd (SendAppHealthReports c ctx now reps w))" for m reps w
    unfolding SendMetrics_def SendAppHealthReports_def by (rule js_send [OF assms]; auto)+
  note sends = js.trans [OF js_drain [OF assms] this(1)] js.trans [OF js_drain [OF assms] this(2)] js_drain [OF assms]
  show ?thesis
    by (cases ev) (simp_all add: onEmit_def Let_def case_prod_unfold sends)
qed

definition net_kept :: "('d, world Outbox) Host \<Rightarrow> ('d, world Outbox) Host \<Rightarrow> bool" where
  "net_kept h h' \<longleftrightarrow> jobs_and_servers (ob_net (ho_Out h)) (ob_net (ho_Out h'))"

interpretation nk: host_guarantee net_kept progs "\<lambda>_. True" for progs
  by unfold_locales (auto simp: net_kept_def js.refl intro: js.trans)

lemma execute_kept:
  assumes "rd_bus d = server_bus url" and "hc_Do c = router_net d"
  shows "net_kept h (snd (worker_execute e c ctx job h))"
proof -
  let ?h0 = "h\<lparr>ho_Out := (ho_Out h)\<lparr>ob_logCh := [], ob_commitCh := [], ob_emitted := []\<rparr>\<rparr>"
  let ?ctx = "with_timeout ctx (ho_Now h + jobTimeout (j_Type job))"
  obtain err h1 where run: "Execute e ?ctx job (emit_to c ?ctx job) ?h0 = (err, h1)" by force
  have emit: "net_kept u (emit_to c ?ctx job ev u)" for ev u
    unfolding net_kept_def emit_to_def by (simp add: js_onEmit [OF assms])
  have "guarantees net_kept (Execute e ?ctx job (emit_to c ?ctx job))"
    by (rule nk.g_Execute [OF emit _ HOL.refl]) simp
  from guaranteesD [OF this run] have "net_kept h h1" by (simp add: net_kept_def)
  with js_drain [OF assms] show ?thesis
    by (auto simp: worker_execute_def run Let_def net_kept_def split: sum.split intro: js.trans)
qed

text \<open>
  C20. A job an agent takes comes to an end: an enrolled agent that processes one of its queued jobs
  against a control plane that answers and whose database does not fail, with a worker's context that
  is not done before the run has returned, leaves it finished, successful if the run returned without
  an error and failed if it returned one; the other jobs are as they were. A run that panics is
  the exception.
\<close>

theorem agent_ends_job:
  assumes "rd_bus d = server_bus url" and "hc_Do c = router_net d"
    and "w = ob_net (ho_Out h)" and "enrolled d c w" and "no_faults w"
    and "find (\<lambda>j. j_ID j = j_ID job) (w_jobs w) = Some j" and "j_Status j = JobQueued"
    and "- (2 ^ 63) \<le> j_ID job" and "j_ID job < 2 ^ 63"
    and "processJob e c ctx job h = (r, h')" and "\<not> (\<exists>err. r = Inl err \<and> is_panic err)"
    and "\<not> ctx_done ctx (ho_Now h)" and "\<not> ctx_done ctx (ho_Now h')"
  shows "\<exists>j' now. j_Status j' = (case r of Inl _ \<Rightarrow> JobFailed | Inr _ \<Rightarrow> JobSuccess) \<and> j_FinishedAt j' = Some now \<and>
    find (\<lambda>j. j_ID j = j_ID job) (w_jobs (ob_net (ho_Out h'))) = Some j' \<and>
    filter (\<lambda>j. j_ID j \<noteq> j_ID job) (w_jobs (ob_net (ho_Out h'))) = filter (\<lambda>j. j_ID j \<noteq> j_ID job) (w_jobs w)"
proof -
  let ?i = "j_ID job"
  have key: "find (\<lambda>j. j_ID j = ?i) (update_where (\<lambda>j. j_ID j = ?i) f js) = map_option f (find (\<lambda>j. j_ID j = ?i) js)"
    if "\<And>j. j_ID (f j) = j_ID j" for f js
    by (induction js) (simp_all add: update_where_def that)
  have others: "filter (\<lambda>j. j_ID j \<noteq> ?i) (update_where (\<lambda>j. j_ID j = ?i) f js) = filter (\<lambda>j. j_ID j \<noteq> ?i) js"
    if "\<And>j. j_ID (f j) = j_ID j" for f js
    by (induction js) (simp_all add: update_where_def that)
  from start_net [OF assms(1,2,4,5,8,9,6,7,12)] obtain w1 where
    1: "StartJob c ctx (ho_Now h) ?i w = (Inr (), w1)" "no_faults w1" "w_servers w1 = w_servers w"
      "w_jobs w1 = update_where (\<lambda>j. j_ID j = ?i) (\<lambda>j. j\<lparr>j_Status := JobRunning, j_StartedAt := Some (w_now w)\<rparr>) (w_jobs w)"
    by blast
  let ?h1 = "h\<lparr>ho_Out := (ho_Out h)\<lparr>ob_net := w1\<rparr>\<rparr>"
  obtain err h2 where 2: "worker_execute e c ctx job ?h1 = (err, h2)" by force
  let ?w2 = "ob_net (ho_Out h2)"
  from execute_kept [OF assms(1,2), of ?h1 e ctx job] 2 1(2)
  have k: "w_jobs ?w2 = w_jobs w1" "w_servers ?w2 = w_servers w" "no_faults ?w2"
    using 1(3) by (simp_all add: net_kept_def jobs_and_servers_def)
  let ?st = "case err of Inl _ \<Rightarrow> JobFailed | Inr _ \<Rightarrow> JobSuccess"
  have "enrolled d c ?w2" using assms(4) k(2) by (simp add: enrolled_def)
  moreover have "find (\<lambda>j. j_ID j = ?i) (w_jobs ?w2) = Some (j\<lparr>j_Status := JobRunning, j_StartedAt := Some (w_now w)\<rparr>)"
    by (simp add: k(1) 1(4) key assms(6))
  ultimately have fin: "\<exists>w3. FinishJob c ctx now ?i ?st ?w2 = (Inr (), w3) \<and>
      w_jobs w3 = update_where (\<lambda>j. j_ID j = ?i) (\<lambda>j. j\<lparr>j_Status := ?st, j_FinishedAt := Some (w_now ?w2)\<rparr>) (w_jobs ?w2)"
    if "\<not> ctx_done ctx now" for now
    using finish_net [OF assms(1,2) _ k(3) assms(8,9) _ _ that, of _ ?st] by fastforce
  have after: "ho_Now h' = ho_Now h2" "r = err \<or> (\<exists>e. r = Inl e \<and> (\<exists>w4. FinishJob c ctx (ho_Now h2) ?i ?st ?w2 = (Inl e, w4)))"
    using assms(10,11) 1(1) 2 unfolding assms(3)
    by (auto simp: processJob_def bindE_def via_net_def split: sum.splits if_splits prod.splits)
  with fin [of "ho_Now h2"] assms(13) obtain w3 where 3: "FinishJob c ctx (ho_Now h2) ?i ?st ?w2 = (Inr (), w3)"
      "w_jobs w3 = update_where (\<lambda>j. j_ID j = ?i) (\<lambda>j. j\<lparr>j_Status := ?st, j_FinishedAt := Some (w_now ?w2)\<rparr>) (w_jobs ?w2)"
    by auto
  have "r = err \<and> ob_net (ho_Out h') = w3"
    using assms(10,11) 1(1) 2 3(1) unfolding assms(3)
    by (auto simp: processJob_def bindE_def via_net_def split: sum.splits if_splits)
  then show ?thesis
    by (intro exI [of _ "j\<lparr>j_Status := ?st, j_StartedAt := Some (w_now w), j_FinishedAt := Some (w_now ?w2)\<rparr>"]
        exI [of _ "w_now ?w2"]) (simp add: 3(2) k(1) 1(4) key others assms(6))
qed

text \<open>An agent of server 4 with a queued metrics job, for any other dependencies of the control plane.\<close>

definition fleet_deps :: "RouterDeps \<Rightarrow> RouterDeps" where
  "fleet_deps d = d\<lparr>rd_bus := server_bus [],
     rd_bcrypt := \<lparr>GenerateFromPassword = (\<lambda>_ _. None), CompareHashAndPassword = (\<lambda>hash pw. hash = pw)\<rparr>,
     rd_uuid_Parse := (\<lambda>s. if s = ''u'' then Some 4 else None)\<rparr>"

definition fleet_client :: "RouterDeps \<Rightarrow> world HttpClient" where
  "fleet_client d = \<lparr>hc_AgentServerID = 4, hc_AgentServerAPIToken = ''t'', hc_uuid_String = (\<lambda>_. ''u''),
     hc_time_Format = (\<lambda>_. ''t''), hc_Version = ''dev'', hc_Do = router_net (fleet_deps d)\<rparr>"

definition fleet_world :: world where
  "fleet_world = empty_world\<lparr>
     w_servers := [Server.extend (Server0\<lparr>s_ID := 4, s_APIToken := ''t''\<rparr>) \<lparr>s_DeletedAt = None\<rparr>],
     w_jobs := [Job0\<lparr>j_ID := 9, j_Status := JobQueued, j_Type := JobTypeMetricsCollect\<rparr>]\<rparr>"

definition fleet_host :: "(unit, world) agent" where
  "fleet_host = \<lparr>ho_Now = 0, ho_Files = (\<lambda>_. None), ho_Dirs = (\<lambda>_. True), ho_Calls = 0, ho_Fails = (\<lambda>_. False),
     ho_Log = [], ho_Rest = (), ho_Out = \<lparr>ob_net = fleet_world, ob_logCh = [], ob_commitCh = [], ob_emitted = [],
       ob_sched = (\<lambda>_. (0, 0))\<rparr>\<rparr>"

definition fleet_executor :: "(unit, world Outbox, json) Executor" where
  "fleet_executor = \<lparr>ex_workDir = ''/apps'', ex_metrics = (\<lambda>_. JNull),
     ex_progs = (\<lambda>_ _ h. \<lparr>oc_Start = None, oc_Lines = [], oc_Took = 0, oc_StreamErrs = [], oc_Exit = None,
       oc_Files = ho_Files h, oc_Dirs = ho_Dirs h, oc_Rest = ()\<rparr>),
     ex_json = (\<lambda>_. None), ex_uuid_Parse = (\<lambda>_. None), ex_uuid_String = (\<lambda>_. [])\<rparr>"

definition fleet_job :: Job where
  "fleet_job = Job0\<lparr>j_ID := 9, j_Type := JobTypeMetricsCollect\<rparr>"

lemma request_no_panic: "hc_Do c = router_net d \<Longrightarrow> fst (do_request c ctx now m path content code what w) = Inl err \<Longrightarrow> \<not> is_panic err"
  by (auto simp: do_request_def http_Do_def ctx_Err_def router_net_def split: prod.splits sum.splits option.splits if_splits)

lemma fleet_no_panic:
  assumes "processJob fleet_executor (fleet_client d) demo_ctx fleet_job h = (Inl err, h')"
  shows "\<not> is_panic err"
proof -
  have net: "hc_Do (fleet_client d) = router_net (fleet_deps d)" by (simp add: fleet_client_def)
  have "fst (worker_execute fleet_executor (fleet_client d) demo_ctx fleet_job u) = Inr ()" for u
    by (simp add: worker_execute_def Execute_def fleet_job_def Let_def)
  then show ?thesis
    using assms request_no_panic [OF net]
    by (auto simp: processJob_def bindE_def via_net_def StartJob_def FinishJob_def Let_def case_prod_unfold
        split: sum.splits if_splits)
qed

theorem agent_ends_job_witness:
  "\<forall>d. \<exists>r h' j'. processJob fleet_executor (fleet_client d) demo_ctx fleet_job fleet_host = (r, h') \<and>
     find (\<lambda>j. j_ID j = 9) (w_jobs (ob_net (ho_Out h'))) = Some j' \<and> j_Status j' \<in> {JobSuccess, JobFailed}"
proof
  fix d
  obtain r h' where run: "processJob fleet_executor (fleet_client d) demo_ctx fleet_job fleet_host = (r, h')" by force
  have "\<not> (\<exists>err. r = Inl err \<and> is_panic err)" using fleet_no_panic run by blast
  moreover have "enrolled (fleet_deps d) (fleet_client d) fleet_world"
    by (simp add: enrolled_def fleet_deps_def fleet_client_def fleet_world_def live_server_def Server.extend_def Server0_def)
  moreover have "no_faults fleet_world" by (simp add: fleet_world_def empty_world_def no_faults_def)
  moreover have "rd_bus (fleet_deps d) = server_bus []" "hc_Do (fleet_client d) = router_net (fleet_deps d)"
    by (simp_all add: fleet_deps_def fleet_client_def)
  moreover have "fleet_world = ob_net (ho_Out fleet_host)" by (simp add: fleet_host_def)
  moreover have "find (\<lambda>j. j_ID j = j_ID fleet_job) (w_jobs fleet_world) =
      Some (Job0\<lparr>j_ID := 9, j_Status := JobQueued, j_Type := JobTypeMetricsCollect\<rparr>)"
    by (simp add: fleet_world_def fleet_job_def)
  moreover have "j_ID fleet_job = 9" by (simp add: fleet_job_def)
  moreover have "\<not> ctx_done demo_ctx now" for now by (simp add: ctx_done_def demo_ctx_def)
  ultimately obtain j' where "j_Status j' = (case r of Inl _ \<Rightarrow> JobFailed | Inr _ \<Rightarrow> JobSuccess)"
      "find (\<lambda>j. j_ID j = 9) (w_jobs (ob_net (ho_Out h'))) = Some j'"
    using agent_ends_job [of "fleet_deps d" "[]" "fleet_client d" fleet_world fleet_host fleet_job
      "Job0\<lparr>j_ID := 9, j_Status := JobQueued, j_Type := JobTypeMetricsCollect\<rparr>" fleet_executor demo_ctx r h', OF _ _ _ _ _ _ _ _ _ run]
    by auto
  then show "\<exists>r h' j'. processJob fleet_executor (fleet_client d) demo_ctx fleet_job fleet_host = (r, h') \<and>
     find (\<lambda>j. j_ID j = 9) (w_jobs (ob_net (ho_Out h'))) = Some j' \<and> j_Status j' \<in> {JobSuccess, JobFailed}"
    using run by (auto split: sum.splits)
qed

end
