(* ===== verification/KeyedMutex.thy ===== *)
theory KeyedMutex
  imports Main
begin

text \<open>
  The keyed mutex of \<open>internal/agent/keyed_mutex.go\<close>, by which the agent's workers keep jobs of one
  application apart, as a step relation on the threads' positions in \<open>Lock\<close> and in the function
  it returns. What runs under \<open>k.mu\<close> is one step: no other thread can enter such a section, and a
  mutex taken by \<open>TryLock\<close> is given back before the section ends.
\<close>

section \<open>States and steps\<close>

text \<open>
  A thread is outside, has read the entry of its key and is about to lock that mutex, holds it, or
  has unlocked it and has still to clean up. Mutex objects are numbered as they are made.
\<close>

datatype position = Outside | Waiting string nat | Holding string nat | Leaving string nat

record KMutex =
  km_locks :: "string \<Rightarrow> nat option"
  km_made :: nat
  km_locked :: "nat \<Rightarrow> bool"
  km_at :: "nat \<Rightarrow> position"

definition newKeyedMutex :: KMutex where
  "newKeyedMutex = \<lparr>km_locks = (\<lambda>_. None), km_made = 0, km_locked = (\<lambda>_. False), km_at = (\<lambda>_. Outside)\<rparr>"

datatype action = ReadEntry nat string | Acquire nat | Unlock nat | CleanUp nat

inductive kstep :: "KMutex \<Rightarrow> action \<Rightarrow> KMutex \<Rightarrow> bool" where
  found: "km_at s t = Outside \<Longrightarrow> km_locks s k = Some m \<Longrightarrow>
    kstep s (ReadEntry t k) (s\<lparr>km_at := (km_at s)(t := Waiting k m)\<rparr>)"
| created: "km_at s t = Outside \<Longrightarrow> km_locks s k = None \<Longrightarrow>
    kstep s (ReadEntry t k) (s\<lparr>km_at := (km_at s)(t := Waiting k (km_made s)),
      km_locks := (km_locks s)(k \<mapsto> km_made s), km_made := Suc (km_made s)\<rparr>)"
| acquire: "km_at s t = Waiting k m \<Longrightarrow> \<not> km_locked s m \<Longrightarrow>
    kstep s (Acquire t) (s\<lparr>km_at := (km_at s)(t := Holding k m), km_locked := (km_locked s)(m := True)\<rparr>)"
| unlock: "km_at s t = Holding k m \<Longrightarrow>
    kstep s (Unlock t) (s\<lparr>km_at := (km_at s)(t := Leaving k m), km_locked := (km_locked s)(m := False)\<rparr>)"
| dropped: "km_at s t = Leaving k m \<Longrightarrow> \<not> km_locked s m \<Longrightarrow>
    kstep s (CleanUp t) (s\<lparr>km_at := (km_at s)(t := Outside), km_locks := (km_locks s)(k := None)\<rparr>)"
| kept: "km_at s t = Leaving k m \<Longrightarrow> km_locked s m \<Longrightarrow>
    kstep s (CleanUp t) (s\<lparr>km_at := (km_at s)(t := Outside)\<rparr>)"

inductive_cases kstepE: "kstep s a s'"

text \<open>The states runs reach whose steps all satisfy \<open>fair\<close>.\<close>

inductive reached :: "(KMutex \<Rightarrow> action \<Rightarrow> bool) \<Rightarrow> KMutex \<Rightarrow> bool" for fair where
  start: "reached fair newKeyedMutex"
| step: "reached fair s \<Longrightarrow> fair s a \<Longrightarrow> kstep s a s' \<Longrightarrow> reached fair s'"

section \<open>A mutex has one holder\<close>

definition holds :: "position \<Rightarrow> nat \<Rightarrow> bool" where
  "holds p m \<longleftrightarrow> (\<exists>k. p = Holding k m)"

definition mutex_ok :: "KMutex \<Rightarrow> bool" where
  "mutex_ok s \<longleftrightarrow> (\<forall>t m. holds (km_at s t) m \<longrightarrow> km_locked s m) \<and>
     (\<forall>t u m. holds (km_at s t) m \<longrightarrow> holds (km_at s u) m \<longrightarrow> t = u)"

lemma holds_simps [simp]:
  "\<not> holds Outside m" "\<not> holds (Waiting k n) m" "\<not> holds (Leaving k n) m" "holds (Holding k n) m \<longleftrightarrow> n = m"
  by (auto simp: holds_def)

lemma mutex_ok_step: "kstep s a s' \<Longrightarrow> mutex_ok s \<Longrightarrow> mutex_ok s'"
  by (induction rule: kstep.induct) (auto simp: mutex_ok_def split: if_splits)

lemma mutex_ok_reached: "reached fair s \<Longrightarrow> mutex_ok s"
proof (induction rule: reached.induct)
  case start
  show ?case by (simp add: mutex_ok_def newKeyedMutex_def)
next
  case (step s a s')
  then show ?case by (blast intro: mutex_ok_step)
qed

section \<open>When a key has one holder\<close>

text \<open>
  The clean-up is harmless when the entry it drops is the mutex it has just locked and no thread
  has read that entry without having locked it yet.
\<close>

fun harmless :: "KMutex \<Rightarrow> action \<Rightarrow> bool" where
  "harmless s (CleanUp t) = (\<forall>k m. km_at s t = Leaving k m \<longrightarrow> \<not> km_locked s m \<longrightarrow>
     km_locks s k = Some m \<and> (\<forall>u k'. km_at s u \<noteq> Waiting k' m))"
| "harmless s a = True"

definition entries_ok :: "KMutex \<Rightarrow> bool" where
  "entries_ok s \<longleftrightarrow> (\<forall>t k m. km_at s t = Waiting k m \<or> km_at s t = Holding k m \<longrightarrow> km_locks s k = Some m)"

lemma entries_ok_step: "kstep s a s' \<Longrightarrow> harmless s a \<Longrightarrow> mutex_ok s \<Longrightarrow> entries_ok s \<Longrightarrow> entries_ok s'"
proof (induction rule: kstep.induct)
  case (dropped s t k m)
  then have entry: "km_locks s k = Some m" "\<And>u k'. km_at s u \<noteq> Waiting k' m" by auto
  have "km_at s u \<noteq> Holding k' m" for u k'
    using dropped.hyps(2) dropped.prems(2) by (auto simp: mutex_ok_def holds_def)
  with entry dropped.prems(3) show ?case
    by (auto simp: entries_ok_def split: if_splits)
qed (auto simp: entries_ok_def split: if_splits)

lemma entries_ok_reached: "reached harmless s \<Longrightarrow> entries_ok s"
proof (induction rule: reached.induct)
  case start
  show ?case by (simp add: entries_ok_def newKeyedMutex_def)
next
  case (step s a s')
  then show ?case by (blast intro: entries_ok_step mutex_ok_reached)
qed

text \<open>
  In every run in which a clean-up drops only the entry it locked, and only when no thread has read
  that entry without having locked it, a key has at most one holder.
\<close>

theorem key_has_one_holder:
  assumes "reached harmless s" and "km_at s t = Holding k m" and "km_at s u = Holding k n"
  shows "t = u"
proof -
  from entries_ok_reached [OF assms(1)] assms(2,3) have "m = n"
    by (auto simp: entries_ok_def) (metis option.inject)
  with mutex_ok_reached [OF assms(1)] assms(2,3) show ?thesis by (auto simp: mutex_ok_def holds_def)
qed

section \<open>When it has two\<close>

text \<open>
  Nothing in the code keeps a clean-up from dropping an entry that another thread has read. To run a
  list of actions, as far as each is enabled:
\<close>

fun after_actions :: "KMutex \<Rightarrow> action list \<Rightarrow> KMutex option" where
  "after_actions s [] = Some s"
| "after_actions s (ReadEntry t k # as) = (if km_at s t \<noteq> Outside then None
     else case km_locks s k of
       Some m \<Rightarrow> after_actions (s\<lparr>km_at := (km_at s)(t := Waiting k m)\<rparr>) as
     | None \<Rightarrow> after_actions (s\<lparr>km_at := (km_at s)(t := Waiting k (km_made s)),
         km_locks := (km_locks s)(k \<mapsto> km_made s), km_made := Suc (km_made s)\<rparr>) as)"
| "after_actions s (Acquire t # as) = (case km_at s t of
     Waiting k m \<Rightarrow> if km_locked s m then None
       else after_actions (s\<lparr>km_at := (km_at s)(t := Holding k m), km_locked := (km_locked s)(m := True)\<rparr>) as
   | _ \<Rightarrow> None)"
| "after_actions s (Unlock t # as) = (case km_at s t of
     Holding k m \<Rightarrow> after_actions (s\<lparr>km_at := (km_at s)(t := Leaving k m), km_locked := (km_locked s)(m := False)\<rparr>) as
   | _ \<Rightarrow> None)"
| "after_actions s (CleanUp t # as) = (case km_at s t of
     Leaving k m \<Rightarrow> if km_locked s m then after_actions (s\<lparr>km_at := (km_at s)(t := Outside)\<rparr>) as
       else after_actions (s\<lparr>km_at := (km_at s)(t := Outside), km_locks := (km_locks s)(k := None)\<rparr>) as
   | _ \<Rightarrow> None)"

lemma after_actions_reached:
  "after_actions s as = Some s' \<Longrightarrow> reached (\<lambda>_ _. True) s \<Longrightarrow> reached (\<lambda>_ _. True) s'"
  by (induction s as rule: after_actions.induct)
    (auto split: if_splits option.splits position.splits intro: reached.step kstep.intros)


theorem key_has_one_holder_witness:
  "\<exists>s. reached harmless s \<and> km_at s 5 = Holding ''app-1'' 0 \<and> (\<forall>u n. km_at s u = Holding ''app-1'' n \<longrightarrow> u = 5)"
proof -
  let ?s1 = "newKeyedMutex\<lparr>km_at := (\<lambda>_. Outside)(5 := Waiting ''app-1'' 0),
    km_locks := (\<lambda>_. None)(''app-1'' \<mapsto> 0), km_made := 1\<rparr>"
  let ?s2 = "?s1\<lparr>km_at := (\<lambda>_. Outside)(5 := Holding ''app-1'' 0), km_locked := (\<lambda>_. False)(0 := True)\<rparr>"
  have "kstep newKeyedMutex (ReadEntry 5 ''app-1'') ?s1"
    using kstep.created [of newKeyedMutex 5 "''app-1''"] by (simp add: newKeyedMutex_def)
  then have 1: "reached harmless ?s1" by (rule reached.step [OF reached.start, rotated]) simp
  have "kstep ?s1 (Acquire 5) ?s2"
    using kstep.acquire [of ?s1 5 "''app-1''" 0] by (simp add: newKeyedMutex_def)
  then have 2: "reached harmless ?s2" by (rule reached.step [OF 1, rotated]) simp
  have at: "km_at ?s2 5 = Holding ''app-1'' 0" by simp
  have "u = 5" if "km_at ?s2 u = Holding ''app-1'' n" for u n
    using key_has_one_holder [OF 2 that at] .
  with 2 at show ?thesis by blast
qed

end
