(* ===== verification/Metrics.thy ===== *)
theory Metrics
  imports Workers Http
begin

text \<open>
  Metrics of the servers: the records of \<open>internal/domain/metrics.go\<close>, the Redis streams of
  \<open>internal/adapters/redis/registry.go\<close> and \<open>message.go\<close>, the table of
  \<open>internal/adapters/postgres/metrics_repo.go\<close>, the service of
  \<open>internal/application/metrics/service.go\<close> with its buffer and histories, the worker that deletes
  old rows and the handlers of \<open>internal/adapters/http/metrics_handler.go\<close>.

  The numbers are only carried around, so the type of Go's \<open>float64\<close> is a type variable. Writing
  a record as a JSON text and reading it back is a parameter: \<open>json.Marshal\<close> refuses numbers that are
  not finite.
\<close>

section \<open>The records\<close>

record 'f Signal =
  sg_Raw :: 'f
  sg_EMA :: 'f

record OSInfo =
  os_Hostname :: string
  os_Name :: string
  os_KernelVersion :: string
  os_Arch :: string

record 'f CPUMetric =
  cm_Usage :: "'f Signal"
  cm_PerCore :: "'f Signal list"
  cm_Temperature :: "'f Signal"
  cm_Frequency :: "'f Signal"
  cm_PowerWatt :: "'f Signal"

record 'f GPUMetric =
  gm_Card :: string
  gm_Vendor :: string
  gm_Temperature :: "'f Signal"
  gm_CoreUsagePercent :: "'f Signal"
  gm_FrequencyMhz :: "'f Signal"
  gm_PowerWatt :: "'f Signal"
  gm_VRAMTotalGB :: 'f
  gm_VRAMUsedGB :: 'f
  gm_VRAMPercent :: 'f

record 'f MemoryMetric =
  mm_TotalGB :: 'f
  mm_UsedGB :: 'f
  mm_UsagePercent :: 'f
  mm_AvailableGB :: 'f
  mm_SwapTotalGB :: 'f
  mm_SwapFreeGB :: 'f
  mm_SwapUsedGB :: 'f

record 'f FilesystemUsage =
  fu_Device :: string
  fu_Mountpoint :: string
  fu_TotalGB :: 'f
  fu_UsedGB :: 'f
  fu_FreeGB :: 'f
  fu_Percent :: 'f

record 'f DiskMetric =
  dm_Name :: string
  dm_RawSizeGB :: 'f
  dm_Temperature :: "'f Signal"
  dm_ReadMBps :: "'f Signal"
  dm_WriteMBps :: "'f Signal"
  dm_UtilPct :: "'f Signal"
  dm_Filesystems :: "'f FilesystemUsage list"

record 'f NetworkMetric =
  nm_RXBytes :: "64 word"
  nm_TXBytes :: "64 word"
  nm_RXSpeedMBs :: "'f Signal"
  nm_TXSpeedMBs :: "'f Signal"

record 'f Metrics =
  mt_ServerID :: uuid
  mt_CPU :: "'f CPUMetric"
  mt_GPU :: "'f GPUMetric list"
  mt_Memory :: "'f MemoryMetric"
  mt_Disk :: "'f DiskMetric list"
  mt_Network :: "'f NetworkMetric"
  mt_UptimeSeconds :: 'f
  mt_RecordedAt :: gotime

record 'f CPUUsageSample =
  cs_UsagePercent :: 'f
  cs_At :: gotime

record 'f NetworkSpeedSample =
  ns_RXMBs :: 'f
  ns_TXMBs :: 'f
  ns_At :: gotime

text \<open>A row of \<open>server_metrics\<close>.\<close>

record 'f ServerMetrics =
  sm_ID :: int
  sm_ServerID :: uuid
  sm_CPUUsagePercent :: 'f
  sm_MemoryUsagePercent :: 'f
  sm_Data :: "'f Metrics"
  sm_RecordedAt :: gotime

section \<open>The state\<close>

text \<open>An entry of a Redis stream: its id and its fields.\<close>

record XMessage =
  xm_ID :: string
  xm_Values :: "(string \<times> string) list"

text \<open>
  The control plane's state with what the metrics service adds: the streams, the oldest entry
  first, and the number of entries ever added; the table and its sequence; the service's buffer,
  the batch \<open>flush\<close> has taken and not yet written, the flushes that were started and have not begun,
  latest values and histories; and the metrics events waiting in the hub's queue, which they share
  with the other events.
\<close>

record 'f Telemetry =
  te_db :: world
  te_streams :: "string \<Rightarrow> XMessage list"
  te_entries :: nat
  te_rows :: "'f ServerMetrics list"
  te_row_seq :: int
  te_buffer :: "'f Metrics list"
  te_batch :: "'f Metrics list option"
  te_flushes :: nat
  te_latest :: "(uuid \<times> 'f Metrics) list"
  te_cpu :: "uuid \<Rightarrow> 'f CPUUsageSample list option"
  te_net :: "uuid \<Rightarrow> 'f NetworkSpeedSample list option"
  te_ws :: "(string \<times> 'f Metrics) list"

type_synonym 'a codec = "('a \<Rightarrow> error + string) \<times> (string \<Rightarrow> error + 'a)"

record 'f MetricsJSON =
  mj_Metrics :: "'f Metrics codec"
  mj_CPU :: "'f CPUUsageSample codec"
  mj_Net :: "'f NetworkSpeedSample codec"

definition via_db :: "(world, 'a) op \<Rightarrow> ('f Telemetry, 'a) op" where
  "via_db m = (\<lambda>t. let (r, w) = m (te_db t) in (r, t\<lparr>te_db := w\<rparr>))"

text \<open>A statement or a command, which fails when the oracle of the state says so.\<close>

definition te_sql :: "('f Telemetry, 'a) op \<Rightarrow> ('f Telemetry, 'a) op" where
  "te_sql q = bindE (via_db (db_exec (returnE ()))) (\<lambda>_. q)"

definition te_redis :: "('f Telemetry, 'a) op \<Rightarrow> ('f Telemetry, 'a) op" where
  "te_redis q = bindE (via_db (redis_exec (returnE ()))) (\<lambda>_. q)"

section \<open>Streams\<close>

text \<open>\<open>XADD\<close> with \<open>MAXLEN\<close> n keeps the last n entries.\<close>

definition XAdd :: "string \<Rightarrow> (string \<times> string) list \<Rightarrow> nat \<Rightarrow> ('f Telemetry, string) op" where
  "XAdd stream values maxLen = te_redis (\<lambda>t.
    (let i = show_nat (te_entries t); ms = te_streams t stream @ [\<lparr>xm_ID = i, xm_Values = values\<rparr>]
     in (Inr i, t\<lparr>te_entries := Suc (te_entries t),
          te_streams := (te_streams t)(stream := drop (length ms - maxLen) ms)\<rparr>)))"

definition Registry_Append :: "('a \<Rightarrow> error + string) \<Rightarrow> string \<Rightarrow> 'a \<Rightarrow> nat \<Rightarrow> ('f Telemetry, string) op" where
  "Registry_Append marshal stream payload maxLen = (case marshal payload of
     Inl e \<Rightarrow> failE (Wrapped ''registry marshal failed'' e)
   | Inr json \<Rightarrow> wrapE ''registry xadd failed'' (XAdd stream [(''data'', json)] maxLen))"

definition Registry_GetRangeAsc :: "string \<Rightarrow> nat \<Rightarrow> ('f Telemetry, XMessage list) op" where
  "Registry_GetRangeAsc stream limit =
     wrapE ''registry xrange failed'' (te_redis (getsE (\<lambda>t. take limit (te_streams t stream))))"

definition Registry_GetRangeDesc :: "string \<Rightarrow> nat \<Rightarrow> ('f Telemetry, XMessage list) op" where
  "Registry_GetRangeDesc stream limit =
     wrapE ''registry xrevrange failed'' (te_redis (getsE (\<lambda>t. take limit (rev (te_streams t stream)))))"

definition Registry_GetLatest :: "string \<Rightarrow> ('f Telemetry, XMessage list) op" where
  "Registry_GetLatest stream =
     wrapE ''registry xrevrange failed'' (te_redis (getsE (\<lambda>t. take 1 (rev (te_streams t stream)))))"

definition Registry_Ack :: "string \<Rightarrow> string list \<Rightarrow> ('f Telemetry, unit) op" where
  "Registry_Ack stream ids = (if ids = [] then returnE ()
     else wrapE ''registry xdel failed'' (te_redis (modifyE (\<lambda>t. t\<lparr>te_streams :=
       (te_streams t)(stream := filter (\<lambda>m. xm_ID m \<notin> set ids) (te_streams t stream))\<rparr>))))"

text \<open>The client delivers field values as strings.\<close>

fun ParseStreamMessages :: "(string \<Rightarrow> error + 'a) \<Rightarrow> XMessage list \<Rightarrow> error + ('a list \<times> string list)" where
  "ParseStreamMessages dec [] = Inr ([], [])"
| "ParseStreamMessages dec (msg # msgs) = (case map_of (xm_Values msg) ''data'' of
     None \<Rightarrow> Inl (ErrMsg (''missing data field in stream message '' @ xm_ID msg))
   | Some raw \<Rightarrow> (case dec raw of
       Inl e \<Rightarrow> Inl (Wrapped (''failed to unmarshal stream message '' @ xm_ID msg) e)
     | Inr item \<Rightarrow> (case ParseStreamMessages dec msgs of
         Inl e \<Rightarrow> Inl e
       | Inr (items, ids) \<Rightarrow> Inr (item # items, xm_ID msg # ids))))"

section \<open>The table\<close>

text \<open>
  \<open>CopyFrom\<close> writes all rows or none; a row whose server is unknown, or whose document cannot be
  written as JSON, refuses them all.
\<close>

definition metrics_row :: "int \<Rightarrow> 'f Metrics \<Rightarrow> 'f ServerMetrics" where
  "metrics_row i m = \<lparr>sm_ID = i, sm_ServerID = mt_ServerID m, sm_CPUUsagePercent = sg_EMA (cm_Usage (mt_CPU m)),
     sm_MemoryUsagePercent = mm_UsagePercent (mt_Memory m), sm_Data = m, sm_RecordedAt = mt_RecordedAt m\<rparr>"

definition insertable :: "'f MetricsJSON \<Rightarrow> 'f Telemetry \<Rightarrow> 'f Metrics \<Rightarrow> bool" where
  "insertable mj t m \<longleftrightarrow> mt_ServerID m \<in> s_ID ` set (w_servers (te_db t)) \<and>
     (case fst (mj_Metrics mj) m of Inl _ \<Rightarrow> False | Inr _ \<Rightarrow> True)"

definition MetricsRepo_BulkInsert :: "'f MetricsJSON \<Rightarrow> 'f Metrics list \<Rightarrow> ('f Telemetry, unit) op" where
  "MetricsRepo_BulkInsert mj ms = (if ms = [] then returnE () else te_sql (\<lambda>t.
     if list_all (insertable mj t) ms
     then (Inr (), t\<lparr>te_rows := te_rows t @ map (\<lambda>(i, m). metrics_row (te_row_seq t + int i) m) (enumerate 0 ms),
       te_row_seq := te_row_seq t + int (length ms)\<rparr>)
     else (Inl ErrDB, t)))"

definition MetricsRepo_Cleanup :: "uuid \<Rightarrow> gotime \<Rightarrow> ('f Telemetry, unit) op" where
  "MetricsRepo_Cleanup serverID cutoff = wrapE ''failed to cleanup server metrics'' (te_sql (modifyE (\<lambda>t.
     t\<lparr>te_rows := filter (\<lambda>r. \<not> (sm_ServerID r = serverID \<and> sm_RecordedAt r \<le> cutoff)) (te_rows t)\<rparr>)))"

section \<open>The service\<close>

definition retention :: int where
  "retention = 15 * 60 * 1000000000"

definition batchSize :: nat where
  "batchSize = 10"

definition maxHistory :: nat where
  "maxHistory = 900"

text \<open>\<open>NewService\<close>, on a database and Redis as they are.\<close>

definition NewService :: "world \<Rightarrow> (string \<Rightarrow> XMessage list) \<Rightarrow> nat \<Rightarrow> 'f ServerMetrics list \<Rightarrow> int \<Rightarrow> 'f Telemetry" where
  "NewService db streams entries rows row_seq = \<lparr>te_db = db, te_streams = streams, te_entries = entries,
     te_rows = rows, te_row_seq = row_seq, te_buffer = [], te_batch = None, te_flushes = 0, te_latest = [],
     te_cpu = (\<lambda>_. None), te_net = (\<lambda>_. None), te_ws = []\<rparr>"

definition stream_key :: "'f Telemetry \<Rightarrow> uuid \<Rightarrow> string \<Rightarrow> string" where
  "stream_key t serverID what = ''metrics:server:'' @ w_uuid_string (te_db t) serverID @ what"

definition recordLatest :: "'f MetricsJSON \<Rightarrow> 'f Metrics \<Rightarrow> ('f Telemetry, unit) op" where
  "recordLatest mj m = bindE (modifyE (\<lambda>t. t\<lparr>te_latest := AList.update (mt_ServerID m) m (te_latest t)\<rparr>)) (\<lambda>_ t.
     ignoreE (Registry_Append (fst (mj_Metrics mj)) (stream_key t (mt_ServerID m) '':latest'') m 1) t)"

text \<open>The loop drops the samples before the first one that is younger than the cutoff.\<close>

definition prune :: "('s \<Rightarrow> gotime) \<Rightarrow> gotime \<Rightarrow> 's list \<Rightarrow> 's list" where
  "prune at cutoff points = dropWhile (\<lambda>p. \<not> cutoff < at p) points"

definition history :: "'s list option \<Rightarrow> 's list" where
  "history h = (case h of None \<Rightarrow> [] | Some points \<Rightarrow> points)"

definition recordCPUUsage :: "'f MetricsJSON \<Rightarrow> uuid \<Rightarrow> 'f \<Rightarrow> gotime \<Rightarrow> ('f Telemetry, unit) op" where
  "recordCPUUsage mj serverID usage at =
    (let sample = \<lparr>cs_UsagePercent = usage, cs_At = at\<rparr> in
     bindE (modifyE (\<lambda>t. t\<lparr>te_cpu := (te_cpu t)(serverID \<mapsto>
       prune cs_At (at - retention) (history (te_cpu t serverID) @ [sample]))\<rparr>)) (\<lambda>_ t.
     ignoreE (Registry_Append (fst (mj_CPU mj)) (stream_key t serverID '':cpu_usage'') sample maxHistory) t))"

definition recordNetSpeed :: "'f MetricsJSON \<Rightarrow> uuid \<Rightarrow> 'f \<Rightarrow> 'f \<Rightarrow> gotime \<Rightarrow> ('f Telemetry, unit) op" where
  "recordNetSpeed mj serverID rxMBs txMBs at =
    (let sample = \<lparr>ns_RXMBs = rxMBs, ns_TXMBs = txMBs, ns_At = at\<rparr> in
     bindE (modifyE (\<lambda>t. t\<lparr>te_net := (te_net t)(serverID \<mapsto>
       prune ns_At (at - retention) (history (te_net t serverID) @ [sample]))\<rparr>)) (\<lambda>_ t.
     ignoreE (Registry_Append (fst (mj_Net mj)) (stream_key t serverID '':net_speed'') sample maxHistory) t))"

text \<open>A full buffer starts a flush in a goroutine of its own.\<close>

definition buffer_metrics :: "'f Metrics \<Rightarrow> 'f Telemetry \<Rightarrow> 'f Telemetry" where
  "buffer_metrics m t = (let buffer = te_buffer t @ [m] in
     t\<lparr>te_buffer := buffer,
       te_flushes := (if batchSize \<le> length buffer then Suc (te_flushes t) else te_flushes t)\<rparr>)"

definition MetricsService_Ingest :: "'f MetricsJSON \<Rightarrow> 'f Metrics \<Rightarrow> ('f Telemetry, unit) op" where
  "MetricsService_Ingest mj m =
    (let sid = mt_ServerID m; at = mt_RecordedAt m; net = mt_Network m in
     bindE (recordLatest mj m) (\<lambda>_.
     bindE (recordCPUUsage mj sid (sg_EMA (cm_Usage (mt_CPU m))) at) (\<lambda>_.
     bindE (recordNetSpeed mj sid (sg_EMA (nm_RXSpeedMBs net)) (sg_EMA (nm_TXSpeedMBs net)) at) (\<lambda>_.
     modifyE (buffer_metrics m)))))"

text \<open>
  \<open>safeFlush\<close> in two steps, since samples may arrive while the batch is written: it begins by
  taking the buffer, unless another flush is under way or there is nothing to write, and ends
  when the insertion has returned. A batch that could not be written is dropped.
\<close>

definition flush_begin :: "'f Telemetry \<Rightarrow> 'f Telemetry" where
  "flush_begin t = (if te_flushes t = 0 then t
     else let t1 = t\<lparr>te_flushes := te_flushes t - 1\<rparr> in
       if te_batch t \<noteq> None \<or> te_buffer t = [] then t1
       else t1\<lparr>te_batch := Some (te_buffer t), te_buffer := []\<rparr>)"

definition flush_end :: "'f MetricsJSON \<Rightarrow> 'f Telemetry \<Rightarrow> 'f Telemetry" where
  "flush_end mj t = (case te_batch t of None \<Rightarrow> t
     | Some batch \<Rightarrow> (snd (MetricsRepo_BulkInsert mj batch t))\<lparr>te_batch := None\<rparr>)"

text \<open>A tick of \<open>backgroundFlusher\<close>.\<close>

definition flusher_tick :: "'f Telemetry \<Rightarrow> 'f Telemetry" where
  "flusher_tick t = t\<lparr>te_flushes := Suc (te_flushes t)\<rparr>"

definition MetricsService_Latest :: "'f MetricsJSON \<Rightarrow> uuid \<Rightarrow> ('f Telemetry, 'f Metrics) op" where
  "MetricsService_Latest mj serverID t = (case map_of (te_latest t) serverID of
     Some m \<Rightarrow> (Inr m, t)
   | None \<Rightarrow> (case Registry_GetLatest (stream_key t serverID '':latest'') t of
       (Inl e, t1) \<Rightarrow> (Inl ErrMetricsNotFound, t1)
     | (Inr msg, t1) \<Rightarrow> (case ParseStreamMessages (snd (mj_Metrics mj)) msg of
           Inr ([m], ids) \<Rightarrow> (Inr m, t1)
         | _ \<Rightarrow> (Inl ErrMetricsNotFound, t1))))"

text \<open>
  A history that is not in memory is read from its stream, newest sample first, and kept.
\<close>

definition restored :: "string \<Rightarrow> string \<Rightarrow> (string \<Rightarrow> error + 's) \<Rightarrow> string \<Rightarrow> ('f Telemetry, 's list) op" where
  "restored failed_get failed_parse dec key =
     bindE (wrapE failed_get (Registry_GetRangeDesc key maxHistory)) (\<lambda>msg.
     case ParseStreamMessages dec msg of
       Inl e \<Rightarrow> failE (Wrapped failed_parse e)
     | Inr (samples, ids) \<Rightarrow> if samples = [] then failE ErrMetricsNotFound else returnE samples)"

definition MetricsService_CPUUsageHistory :: "'f MetricsJSON \<Rightarrow> uuid \<Rightarrow> ('f Telemetry, 'f CPUUsageSample list) op" where
  "MetricsService_CPUUsageHistory mj serverID t = (case te_cpu t serverID of
     Some usages \<Rightarrow> (Inr usages, t)
   | None \<Rightarrow> bindE (restored ''failed to get CPU usage from registry'' ''failed to parse CPU usage messages''
         (snd (mj_CPU mj)) (stream_key t serverID '':cpu_usage'')) (\<lambda>usages.
       bindE (modifyE (\<lambda>t. t\<lparr>te_cpu := (te_cpu t)(serverID \<mapsto> usages)\<rparr>)) (\<lambda>_. returnE usages)) t)"

definition MetricsService_NetSpeedHistory :: "'f MetricsJSON \<Rightarrow> uuid \<Rightarrow> ('f Telemetry, 'f NetworkSpeedSample list) op" where
  "MetricsService_NetSpeedHistory mj serverID t = (case te_net t serverID of
     Some speeds \<Rightarrow> (Inr speeds, t)
   | None \<Rightarrow> bindE (restored ''failed to get net speed from registry'' ''failed to parse net speed messages''
         (snd (mj_Net mj)) (stream_key t serverID '':net_speed'')) (\<lambda>speeds.
       bindE (modifyE (\<lambda>t. t\<lparr>te_net := (te_net t)(serverID \<mapsto> speeds)\<rparr>)) (\<lambda>_. returnE speeds)) t)"

text \<open>The subscriber sends each latest value to its server's channel, if the hub's queue has room.\<close>

definition ServerMetricsReceived_Handle :: "'f Metrics \<Rightarrow> 'f Telemetry \<Rightarrow> 'f Telemetry" where
  "ServerMetricsReceived_Handle m t = (if length (w_ws (te_db t)) + length (te_ws t) < 256
     then t\<lparr>te_ws := te_ws t @ [(''server_metrics:'' @ w_uuid_string (te_db t) (mt_ServerID m), m)]\<rparr> else t)"

definition broadcastLatest :: "'f Telemetry \<Rightarrow> 'f Telemetry" where
  "broadcastLatest t = fold (\<lambda>(_, m). ServerMetricsReceived_Handle m) (te_latest t) t"

definition MetricsService_Cleanup :: "uuid \<Rightarrow> gotime \<Rightarrow> ('f Telemetry, unit) op" where
  "MetricsService_Cleanup serverID cutoff = MetricsRepo_Cleanup serverID cutoff"

section \<open>The clean-up worker\<close>

text \<open>Times count nanoseconds from midnight UTC of some day; the cutoff is 2:00 UTC seven days ago.\<close>

definition hour :: int where
  "hour = 3600 * 1000000000"

definition cutoffTime :: "gotime \<Rightarrow> gotime" where
  "cutoffTime now = now div (24 * hour) * (24 * hour) + 2 * hour - 7 * (24 * hour)"

definition MetricsCleanupWorker_Run :: "('f Telemetry, unit) op" where
  "MetricsCleanupWorker_Run =
     bindE (wrapE ''failed to list servers'' (via_db (ServerService_List
       \<lparr>sl_opts = \<lparr>lo_Page = 0, lo_Limit = 0, lo_Search = [], lo_IsPaginate = False\<rparr>, sl_IsOnline = None\<rparr>))) (\<lambda>servers.
     bindE (via_db time_Now) (\<lambda>now.
     forE (Data servers) (\<lambda>srv. ignoreE (MetricsService_Cleanup (s_ID srv) (cutoffTime now)))))"

section \<open>The handlers\<close>

text \<open>
  An answer: the status, the message and the data. The body of a report is read by the decoder of
  requests; it is \<open>None\<close> when that fails.
\<close>

type_synonym 'a answer = "int \<times> string \<times> 'a option"

definition MetricsHandler_Ingest :: "'f MetricsJSON \<Rightarrow> 'f Metrics option \<Rightarrow> 'f Telemetry \<Rightarrow> 'f Metrics answer \<times> 'f Telemetry" where
  "MetricsHandler_Ingest mj body t = (case body of
     None \<Rightarrow> ((400, error_text ErrInvalidBody, None), t)
   | Some metrics \<Rightarrow> (case MetricsService_Ingest mj metrics t of
       (Inl e, t1) \<Rightarrow> ((500, ''failed to process metrics'', None), t1)
     | (Inr _, t1) \<Rightarrow> ((201, ''metrics received'', Some metrics), t1)))"

definition show_metrics :: "(string \<Rightarrow> uuid option) \<Rightarrow> string \<Rightarrow> string \<Rightarrow> string
    \<Rightarrow> (uuid \<Rightarrow> ('f Telemetry, 'a) op) \<Rightarrow> 'f Telemetry \<Rightarrow> 'a answer \<times> 'f Telemetry" where
  "show_metrics uuid_Parse path_id none failed get t = (case uuid_Parse path_id of
     None \<Rightarrow> ((404, ''server not found'', None), t)
   | Some serverID \<Rightarrow> (case get serverID t of
       (Inl e, t1) \<Rightarrow> if errors_Is e ErrMetricsNotFound then ((404, none, None), t1) else ((500, failed, None), t1)
     | (Inr x, t1) \<Rightarrow> ((200, [], Some x), t1)))"

definition MetricsHandler_Latest where
  "MetricsHandler_Latest mj uuid_Parse path_id = show_metrics uuid_Parse path_id
     ''metrics not found'' ''failed to get latest metrics'' (MetricsService_Latest mj)"

definition MetricsHandler_CPUUsageHistory where
  "MetricsHandler_CPUUsageHistory mj uuid_Parse path_id = show_metrics uuid_Parse path_id
     ''cpu usage history not found'' ''failed to get cpu usage history'' (MetricsService_CPUUsageHistory mj)"

definition MetricsHandler_NetSpeedHistory where
  "MetricsHandler_NetSpeedHistory mj uuid_Parse path_id = show_metrics uuid_Parse path_id
     ''net speed history not found'' ''failed to get net speed history'' (MetricsService_NetSpeedHistory mj)"

end
