(* ===== verification/MetricsDelivery.thy ===== *)
theory MetricsDelivery
  imports Metrics "HOL-Library.Sublist"
begin

text \<open>
  What becomes of the metrics: whatever the order of reports, flushes, clean-ups and the rest of
  the control plane, a sample is written at most once and in order, and none is lost while the
  database works; and the histories are the samples of the last fifteen minutes.
\<close>

section \<open>Runs\<close>

text \<open>
  What happens, one step at a time. \<open>Elsewhere\<close> stands for whatever other parts of the program
  do to the tables, the clock and the oracle.
\<close>

datatype 'f activity =
    Reported "'f Metrics"
  | Tick
  | FlushBegins
  | FlushEnds
  | BroadcastTick
  | CleanUpRuns
  | AskedLatest uuid
  | AskedHistory uuid
  | Elsewhere world

fun perform :: "'f MetricsJSON \<Rightarrow> 'f Telemetry \<Rightarrow> 'f activity \<Rightarrow> 'f Telemetry" where
  "perform mj t (Reported m) = snd (MetricsService_Ingest mj m t)"
| "perform mj t Tick = flusher_tick t"
| "perform mj t FlushBegins = flush_begin t"
| "perform mj t FlushEnds = flush_end mj t"
| "perform mj t BroadcastTick = broadcastLatest t"
| "perform mj t CleanUpRuns = snd (MetricsCleanupWorker_Run t)"
| "perform mj t (AskedLatest s) = snd (MetricsService_Latest mj s t)"
| "perform mj t (AskedHistory s) = snd (MetricsService_NetSpeedHistory mj s (snd (MetricsService_CPUUsageHistory mj s t)))"
| "perform mj t (Elsewhere w) = t\<lparr>te_db := w\<rparr>"

definition run_metrics :: "'f MetricsJSON \<Rightarrow> 'f activity list \<Rightarrow> 'f Telemetry \<Rightarrow> 'f Telemetry" where
  "run_metrics mj as t = foldl (perform mj) t as"

fun reported :: "'f activity list \<Rightarrow> 'f Metrics list" where
  "reported [] = []"
| "reported (Reported m # as) = m # reported as"
| "reported (_ # as) = reported as"

text \<open>What the service holds or has written, oldest first.\<close>

definition in_flight :: "'f Telemetry \<Rightarrow> 'f Metrics list" where
  "in_flight t = (case te_batch t of None \<Rightarrow> [] | Some batch \<Rightarrow> batch) @ te_buffer t"

definition accounted :: "'f Telemetry \<Rightarrow> 'f Metrics list" where
  "accounted t = map sm_Data (te_rows t) @ in_flight t"

section \<open>What the other steps leave alone\<close>

text \<open>A database that knows the servers \<open>S\<close> and does not fail.\<close>

definition good_db :: "uuid set \<Rightarrow> world \<Rightarrow> bool" where
  "good_db S w \<longleftrightarrow> no_faults w \<and> S \<subseteq> s_ID ` set (w_servers w)"

lemma good_db_call [simp]: "good_db S w \<Longrightarrow> good_db S (w\<lparr>w_calls := Suc (w_calls w)\<rparr>)"
  by (simp add: good_db_def)

text \<open>The pipeline from the reports to the table stays: its rows, batch and buffer, on a good database.\<close>

definition same_pipe :: "'f Telemetry \<Rightarrow> 'f Telemetry \<Rightarrow> bool" where
  "same_pipe t t' \<longleftrightarrow> te_rows t' = te_rows t \<and> te_batch t' = te_batch t \<and> te_buffer t' = te_buffer t \<and>
     (\<forall>S. good_db S (te_db t) \<longrightarrow> good_db S (te_db t'))"

interpretation sp: guarantee same_pipe
  by unfold_locales (auto simp: same_pipe_def)

lemma g_via_redis: "guarantees same_pipe (via_db (redis_exec (returnE ())))"
  by (simp add: guarantees_def via_db_def same_pipe_def redis_exec_def Let_def)

lemma g_te_redis: "guarantees same_pipe q \<Longrightarrow> guarantees same_pipe (te_redis q)"
  unfolding te_redis_def by (intro sp.g_bind g_via_redis)

lemma g_same_pipe_modify: "(\<And>t. same_pipe t (f t)) \<Longrightarrow> guarantees same_pipe (modifyE f)"
  by (simp add: guarantees_def)

lemma g_Append: "guarantees same_pipe (Registry_Append marshal key payload n)"
proof -
  have "guarantees same_pipe (XAdd key vs n)" for vs
    unfolding XAdd_def by (intro g_te_redis) (simp add: guarantees_def same_pipe_def Let_def)
  then show ?thesis
    unfolding Registry_Append_def by (auto split: sum.split intro: sp.g_rules)
qed

lemma g_append_at: "guarantees same_pipe (\<lambda>t. ignoreE (Registry_Append marshal (key t) payload n) t)"
  by (rule guaranteesI) (rule sp.g_ignore [OF g_Append, unfolded guarantees_def, rule_format])

lemma same_pipe_records:
  "guarantees same_pipe (recordLatest mj m)"
  "guarantees same_pipe (recordCPUUsage mj s x at)"
  "guarantees same_pipe (recordNetSpeed mj s x y at)"
  unfolding recordLatest_def recordCPUUsage_def recordNetSpeed_def Let_def
  by (intro sp.g_bind g_append_at g_same_pipe_modify; simp add: same_pipe_def)+

lemma g_restored: "guarantees same_pipe (restored a b dec key)"
proof -
  have "guarantees same_pipe (Registry_GetRangeDesc key n)" for n
    unfolding Registry_GetRangeDesc_def by (intro sp.g_rules g_te_redis)
  then show ?thesis
    unfolding restored_def by (intro sp.g_bind sp.g_wrap) (auto split: sum.split intro: sp.g_rules)
qed

lemma same_pipe_restore:
  assumes "\<And>x t. same_pipe t (f x t)"
  shows "same_pipe t (snd (bindE (restored a b dec key) (\<lambda>x. bindE (modifyE (f x)) (\<lambda>_. returnE x)) t))"
proof -
  have "guarantees same_pipe (bindE (restored a b dec key) (\<lambda>x. bindE (modifyE (f x)) (\<lambda>_. returnE x)))"
    by (intro sp.g_rules g_restored g_same_pipe_modify assms)
  then show ?thesis by (simp add: guarantees_def)
qed

lemma same_pipe_reads:
  "same_pipe t (snd (MetricsService_Latest mj s t))"
  "same_pipe t (snd (MetricsService_CPUUsageHistory mj s t))"
  "same_pipe t (snd (MetricsService_NetSpeedHistory mj s t))"
proof -
  have get: "guarantees same_pipe (Registry_GetLatest key)" for key
    unfolding Registry_GetLatest_def by (intro sp.g_rules g_te_redis)
  obtain r u where g: "Registry_GetLatest (stream_key t s '':latest'') t = (r, u)" by force
  have "snd (MetricsService_Latest mj s t) \<in> {t, u}"
    by (simp add: MetricsService_Latest_def g split: option.split sum.split prod.split list.split)
  then show "same_pipe t (snd (MetricsService_Latest mj s t))"
    using guaranteesD [OF get g] sp.refl by auto
  show "same_pipe t (snd (MetricsService_CPUUsageHistory mj s t))"
    by (cases "te_cpu t s"; simp add: MetricsService_CPUUsageHistory_def sp.refl)
      (rule same_pipe_restore, simp add: same_pipe_def)
  show "same_pipe t (snd (MetricsService_NetSpeedHistory mj s t))"
    by (cases "te_net t s"; simp add: MetricsService_NetSpeedHistory_def sp.refl)
      (rule same_pipe_restore, simp add: same_pipe_def)
qed

lemma same_pipe_broadcast: "same_pipe t (broadcastLatest t)"
proof -
  have "same_pipe t (fold (\<lambda>(_, m). ServerMetricsReceived_Handle m) ms t)" for ms
    by (induction ms arbitrary: t)
      (auto simp: sp.refl ServerMetricsReceived_Handle_def same_pipe_def split: prod.split)
  then show ?thesis by (simp add: broadcastLatest_def)
qed

text \<open>A report adds its sample to the buffer.\<close>

lemma Ingest_pipe:
  assumes "MetricsService_Ingest mj m t = (r, t')"
  shows "te_rows t' = te_rows t" "te_batch t' = te_batch t" "te_buffer t' = te_buffer t @ [m]"
    "good_db S (te_db t) \<Longrightarrow> good_db S (te_db t')"
proof -
  obtain r1 t1 where 1: "recordLatest mj m t = (r1, t1)" by force
  obtain r2 t2 where 2: "recordCPUUsage mj (mt_ServerID m) (sg_EMA (cm_Usage (mt_CPU m))) (mt_RecordedAt m) t1 = (r2, t2)"
    by force
  obtain r3 t3 where 3: "recordNetSpeed mj (mt_ServerID m) (sg_EMA (nm_RXSpeedMBs (mt_Network m)))
      (sg_EMA (nm_TXSpeedMBs (mt_Network m))) (mt_RecordedAt m) t2 = (r3, t3)" by force
  have never: "\<exists>x. r1 = Inr x" "\<exists>x. r2 = Inr x" "\<exists>x. r3 = Inr x"
    using 1 2 3 by (auto simp: recordLatest_def recordCPUUsage_def recordNetSpeed_def bindE_def ignoreE_def Let_def)
  have pipe: "same_pipe t t3"
    using guaranteesD [OF same_pipe_records(1) 1] guaranteesD [OF same_pipe_records(2) 2]
      guaranteesD [OF same_pipe_records(3) 3] by (blast intro: sp.trans)
  have "t' = buffer_metrics m t3"
    using assms 1 2 3 never by (auto simp: MetricsService_Ingest_def Let_def bindE_def)
  with pipe show "te_rows t' = te_rows t" "te_batch t' = te_batch t" "te_buffer t' = te_buffer t @ [m]"
    "good_db S (te_db t) \<Longrightarrow> good_db S (te_db t')"
    by (simp_all add: same_pipe_def buffer_metrics_def Let_def)
qed

text \<open>The clean-up takes rows away and changes nothing else of the pipeline.\<close>

definition fewer_rows :: "'f Telemetry \<Rightarrow> 'f Telemetry \<Rightarrow> bool" where
  "fewer_rows t t' \<longleftrightarrow> subseq (te_rows t') (te_rows t) \<and> te_batch t' = te_batch t \<and> te_buffer t' = te_buffer t"

interpretation fr: guarantee fewer_rows
  by unfold_locales (auto simp: fewer_rows_def intro: subseq_order.trans)

lemma fewer_rows_cleanup: "fewer_rows t (snd (MetricsCleanupWorker_Run t))"
proof -
  have db: "guarantees fewer_rows (via_db m)" for m :: "(world, 'x) op"
    by (simp add: guarantees_def via_db_def fewer_rows_def split: prod.split)
  have "guarantees fewer_rows (MetricsService_Cleanup s cutoff)" for s cutoff
    unfolding MetricsService_Cleanup_def MetricsRepo_Cleanup_def te_sql_def
    by (intro fr.g_wrap fr.g_bind db) (simp add: guarantees_def fewer_rows_def)
  then have "guarantees fewer_rows (MetricsCleanupWorker_Run :: ('a Telemetry, unit) op)"
    unfolding MetricsCleanupWorker_Run_def
    by (intro fr.g_bind fr.g_wrap fr.g_for fr.g_ignore db)
  then show ?thesis by (simp add: guarantees_def)
qed

section \<open>The flush\<close>

lemma data_of_rows: "map sm_Data (map (\<lambda>(i, m). metrics_row (n + int i) m) (enumerate k ms)) = ms"
  by (induction ms arbitrary: k) (simp_all add: metrics_row_def)

lemma BulkInsert_rows:
  obtains rows where "te_rows (snd (MetricsRepo_BulkInsert mj ms t)) = te_rows t @ rows"
    "te_buffer (snd (MetricsRepo_BulkInsert mj ms t)) = te_buffer t"
    "map sm_Data rows = (case fst (MetricsRepo_BulkInsert mj ms t) of Inl _ \<Rightarrow> [] | Inr _ \<Rightarrow> ms)"
proof -
  let ?new = "if fst (MetricsRepo_BulkInsert mj ms t) = Inr ()
    then map (\<lambda>(i, m). metrics_row (te_row_seq t + int i) m) (enumerate 0 ms) else []"
  show thesis
    by (rule that [of ?new], unfold MetricsRepo_BulkInsert_def te_sql_def bindE_def via_db_def db_exec_def Let_def)
      (auto simp del: map_map simp: data_of_rows)
qed


lemma BulkInsert_good:
  assumes "good_db S (te_db t)" and "\<forall>m\<in>set ms. mt_ServerID m \<in> S \<and> (\<exists>s. fst (mj_Metrics mj) m = Inr s)"
  shows "fst (MetricsRepo_BulkInsert mj ms t) = Inr ()" "good_db S (te_db (snd (MetricsRepo_BulkInsert mj ms t)))"
proof -
  let ?w = "(te_db t)\<lparr>w_calls := Suc (w_calls (te_db t))\<rparr>"
  have "list_all (insertable mj (t\<lparr>te_db := ?w\<rparr>)) ms"
    using assms by (auto simp: list_all_iff insertable_def good_db_def)
  moreover have "via_db (db_exec (returnE ())) t = (Inr (), t\<lparr>te_db := ?w\<rparr>)"
    using assms(1) by (simp add: via_db_def db_exec_ok good_db_def)
  ultimately show "fst (MetricsRepo_BulkInsert mj ms t) = Inr ()" "good_db S (te_db (snd (MetricsRepo_BulkInsert mj ms t)))"
    using assms(1) by (simp_all add: MetricsRepo_BulkInsert_def te_sql_def bindE_def)
qed

section \<open>Samples are written once and in order\<close>

lemma accounted_same_pipe: "same_pipe t t' \<Longrightarrow> accounted t' = accounted t"
  by (simp add: accounted_def in_flight_def same_pipe_def)

lemma accounted_step: "subseq (accounted (perform mj t a)) (accounted t @ reported [a])"
proof (cases a)
  case (Reported m)
  obtain r t' where "MetricsService_Ingest mj m t = (r, t')" by force
  with Ingest_pipe [OF this] Reported show ?thesis
    by (simp add: accounted_def in_flight_def)
next
  case FlushEnds
  show ?thesis
  proof (cases "te_batch t")
    case (Some batch)
    let ?r = "MetricsRepo_BulkInsert mj batch t"
    obtain rows where "te_rows (snd ?r) = te_rows t @ rows" "te_buffer (snd ?r) = te_buffer t"
      "map sm_Data rows = (case fst ?r of Inl _ \<Rightarrow> [] | Inr _ \<Rightarrow> batch)"
      by (rule BulkInsert_rows)
    with Some FlushEnds show ?thesis
      by (auto simp: flush_end_def accounted_def in_flight_def intro: list_emb_append_mono split: sum.splits)
  qed (simp add: FlushEnds flush_end_def)
next
  case CleanUpRuns
  with fewer_rows_cleanup [of t] show ?thesis
    by (auto simp: fewer_rows_def accounted_def in_flight_def intro!: list_emb_append_mono subseq_map)
next
  case (AskedHistory s)
  with sp.trans [OF same_pipe_reads(2) [of t mj s] same_pipe_reads(3) [of _ mj s]] show ?thesis
    by (simp add: accounted_same_pipe)
next
  case FlushBegins
  then show ?thesis by (auto simp: flush_begin_def Let_def accounted_def in_flight_def)
qed (simp_all add: accounted_same_pipe [OF same_pipe_broadcast] accounted_same_pipe [OF same_pipe_reads(1)]
    flusher_tick_def accounted_def [of "t\<lparr>te_flushes := n\<rparr>" for t n] accounted_def [of "t\<lparr>te_db := w\<rparr>" for t w]
    in_flight_def accounted_def [of t])

lemma run_metrics_simps [simp]:
  "run_metrics mj [] t = t"
  "run_metrics mj (a # steps) t = run_metrics mj steps (perform mj t a)"
  "run_metrics mj (steps @ steps') t = run_metrics mj steps' (run_metrics mj steps t)"
  by (simp_all add: run_metrics_def)

lemma reported_Cons: "reported (a # steps) = reported [a] @ reported steps"
  by (cases a) simp_all

text \<open>
  C28. No sample is written twice or out of order, whatever happens in between: what the table, the
  batch being written and the buffer hold, in this order, is a subsequence of what they held at
  first followed by the samples reported since.
\<close>

theorem samples_once_in_order:
  "subseq (accounted (run_metrics mj steps t)) (accounted t @ reported steps)"
proof (induction steps arbitrary: t)
  case (Cons a steps)
  have "subseq (accounted (perform mj t a) @ reported steps) ((accounted t @ reported [a]) @ reported steps)"
    by (intro list_emb_append_mono accounted_step) simp
  with Cons.IH [of "perform mj t a"] show ?case
    by (auto simp: reported_Cons [of a steps] intro: subseq_order.trans)
qed simp

section \<open>None is lost while the database works\<close>

text \<open>No rows are deleted on purpose, and the other parts leave the database in order.\<close>

fun undisturbed :: "uuid set \<Rightarrow> 'f activity \<Rightarrow> bool" where
  "undisturbed S CleanUpRuns = False"
| "undisturbed S (Elsewhere w) = good_db S w"
| "undisturbed S a = True"

definition writable :: "'f MetricsJSON \<Rightarrow> uuid set \<Rightarrow> 'f Metrics \<Rightarrow> bool" where
  "writable mj S m \<longleftrightarrow> mt_ServerID m \<in> S \<and> (\<exists>s. fst (mj_Metrics mj) m = Inr s)"

definition flowing :: "'f MetricsJSON \<Rightarrow> uuid set \<Rightarrow> 'f Telemetry \<Rightarrow> bool" where
  "flowing mj S t \<longleftrightarrow> good_db S (te_db t) \<and> (\<forall>m\<in>set (in_flight t). writable mj S m)"

lemma flowing_same_pipe: "same_pipe t t' \<Longrightarrow> flowing mj S t \<Longrightarrow> flowing mj S t'"
  by (simp add: flowing_def same_pipe_def in_flight_def)

lemma flowing_flush_end:
  assumes "flowing mj S t"
  shows "accounted (flush_end mj t) = accounted t" "flowing mj S (flush_end mj t)" "te_batch (flush_end mj t) = None"
    "te_buffer (flush_end mj t) = te_buffer t"
proof -
  have "accounted (flush_end mj t) = accounted t \<and> flowing mj S (flush_end mj t) \<and> te_batch (flush_end mj t) = None \<and>
    te_buffer (flush_end mj t) = te_buffer t"
  proof (cases "te_batch t")
    case (Some batch)
    let ?r = "MetricsRepo_BulkInsert mj batch t"
    have good: "fst ?r = Inr ()" "good_db S (te_db (snd ?r))"
      using BulkInsert_good [of S t batch mj] assms Some by (auto simp: flowing_def in_flight_def writable_def)
    obtain rows where "te_rows (snd ?r) = te_rows t @ rows" "te_buffer (snd ?r) = te_buffer t"
      "map sm_Data rows = (case fst ?r of Inl _ \<Rightarrow> [] | Inr _ \<Rightarrow> batch)"
      by (rule BulkInsert_rows)
    with Some good assms show ?thesis
      by (simp add: flush_end_def accounted_def in_flight_def flowing_def)
  qed (use assms in \<open>simp add: flush_end_def\<close>)
  then show "accounted (flush_end mj t) = accounted t" "flowing mj S (flush_end mj t)" "te_batch (flush_end mj t) = None"
    "te_buffer (flush_end mj t) = te_buffer t" by simp_all
qed

lemma flowing_step:
  assumes "flowing mj S t" and "undisturbed S a" and "\<forall>m\<in>set (reported [a]). writable mj S m"
  shows "accounted (perform mj t a) = accounted t @ reported [a] \<and> flowing mj S (perform mj t a)"
proof (cases a)
  case (Reported m)
  obtain r t' where "MetricsService_Ingest mj m t = (r, t')" by force
  with Ingest_pipe [OF this] Reported assms(1,3) show ?thesis
    by (simp add: accounted_def in_flight_def flowing_def)
next
  case (AskedHistory s)
  with sp.trans [OF same_pipe_reads(2) [of t mj s] same_pipe_reads(3) [of _ mj s]] assms(1) show ?thesis
    by (simp add: accounted_same_pipe flowing_same_pipe)
next
  case BroadcastTick
  with assms(1) show ?thesis
    by (simp add: accounted_same_pipe [OF same_pipe_broadcast] flowing_same_pipe [OF same_pipe_broadcast])
next
  case (AskedLatest s)
  with assms(1) show ?thesis
    by (simp add: accounted_same_pipe [OF same_pipe_reads(1)] flowing_same_pipe [OF same_pipe_reads(1)])
next
  case FlushEnds
  with flowing_flush_end [OF assms(1)] show ?thesis by simp
next
  case FlushBegins
  with assms(1) show ?thesis by (auto simp: flush_begin_def Let_def accounted_def in_flight_def flowing_def)
qed (use assms in \<open>simp_all add: flusher_tick_def accounted_def in_flight_def flowing_def\<close>)

lemma flowing_run:
  assumes "flowing mj S t" and "\<forall>a\<in>set steps. undisturbed S a" and "\<forall>m\<in>set (reported steps). writable mj S m"
  shows "accounted (run_metrics mj steps t) = accounted t @ reported steps \<and> flowing mj S (run_metrics mj steps t)"
  using assms
proof (induction steps arbitrary: t)
  case (Cons a steps)
  with flowing_step [of mj S t a] show ?case by (simp add: reported_Cons [of a steps])
qed simp

text \<open>
  C27. No sample is lost while the database works and every sample can be written, that is, it names a
  server of the table and can be marshalled (one that cannot fails its whole batch), and the
  clean-up of old samples does not run: after any reports, flushes, broadcasts and questions,
  whatever the rest of the program does to a database that goes on working and keeps these servers,
  one tick of the flusher with nothing else going on leaves every reported sample in the table, in
  order, after those that were there or on their way.
\<close>

theorem no_sample_lost:
  assumes "good_db S (te_db t)" and "\<forall>m\<in>set (in_flight t @ reported steps). writable mj S m"
    and "\<forall>a\<in>set steps. undisturbed S a"
  shows "map sm_Data (te_rows (run_metrics mj (steps @ [FlushEnds, Tick, FlushBegins, FlushEnds]) t)) =
    accounted t @ reported steps"
proof -
  let ?t1 = "run_metrics mj steps t" let ?t2 = "flush_end mj ?t1"
  let ?t3 = "flush_begin (flusher_tick ?t2)"
  have 1: "accounted ?t1 = accounted t @ reported steps" "flowing mj S ?t1"
    using flowing_run [of mj S t steps] assms by (auto simp: flowing_def)
  note 2 = flowing_flush_end [OF 1(2)]
  have 3: "flowing mj S ?t3" "accounted ?t3 = accounted ?t2" "te_buffer ?t3 = []"
    using 2 by (auto simp: flush_begin_def flusher_tick_def Let_def accounted_def in_flight_def flowing_def)
  note 4 = flowing_flush_end [OF 3(1)]
  have "accounted (flush_end mj ?t3) = map sm_Data (te_rows (flush_end mj ?t3))"
    by (simp add: accounted_def in_flight_def 4(3,4) 3(3))
  then show ?thesis using 1(1) 2(1) 3(2) 4(1) by simp
qed

section \<open>The histories\<close>

lemma prune_sorted:
  "sorted_wrt (\<lambda>a b. at a \<le> at b) xs \<Longrightarrow> prune at cutoff xs = filter (\<lambda>x. cutoff < at x) xs"
proof (induction xs)
  case (Cons x xs)
  show ?case
  proof (cases "cutoff < at x")
    case True
    with Cons.prems have "filter (\<lambda>x. cutoff < at x) xs = xs" by (fastforce simp: filter_id_conv)
    with True show ?thesis by (simp add: prune_def)
  qed (use Cons in \<open>simp add: prune_def\<close>)
qed (simp add: prune_def)

text \<open>A server's history is only changed by its own reports, once it is in memory.\<close>

definition same_history :: "uuid \<Rightarrow> 'f Telemetry \<Rightarrow> 'f Telemetry \<Rightarrow> bool" where
  "same_history s t t' \<longleftrightarrow> (te_cpu t s \<noteq> None \<longrightarrow> te_cpu t' s = te_cpu t s) \<and> (te_net t s \<noteq> None \<longrightarrow> te_net t' s = te_net t s)"

interpretation sh: guarantee "same_history s" for s
  by unfold_locales (auto simp: same_history_def)

definition frozen_history :: "'f Telemetry \<Rightarrow> 'f Telemetry \<Rightarrow> bool" where
  "frozen_history t t' \<longleftrightarrow> te_cpu t' = te_cpu t \<and> te_net t' = te_net t"

interpretation fh: guarantee frozen_history
  by unfold_locales (auto simp: frozen_history_def)

lemma fh_via_db: "guarantees frozen_history (via_db m)"
  by (simp add: guarantees_def via_db_def frozen_history_def split: prod.split)

lemma fh_modify: "(\<And>t. frozen_history t (f t)) \<Longrightarrow> guarantees frozen_history (modifyE f)"
  by (simp add: guarantees_def)

lemma fh_redis: "guarantees frozen_history q \<Longrightarrow> guarantees frozen_history (te_redis q)"
  unfolding te_redis_def by (intro fh.g_bind fh_via_db)

lemma fh_sql: "guarantees frozen_history q \<Longrightarrow> guarantees frozen_history (te_sql q)"
  unfolding te_sql_def by (intro fh.g_bind fh_via_db)

lemma fh_Append: "guarantees frozen_history (Registry_Append marshal key payload n)"
proof -
  have "guarantees frozen_history (XAdd key vs n)" for vs
    unfolding XAdd_def by (intro fh_redis) (simp add: guarantees_def frozen_history_def Let_def)
  then show ?thesis
    unfolding Registry_Append_def by (auto split: sum.split intro: fh.g_rules)
qed

lemma fh_append_at:
  "te_cpu (snd (Registry_Append marshal key payload n t)) = te_cpu t"
  "te_net (snd (Registry_Append marshal key payload n t)) = te_net t"
  by (simp_all add: fh_Append [unfolded guarantees_def frozen_history_def, rule_format])

definition cpu_sample :: "'f Metrics \<Rightarrow> 'f CPUUsageSample" where
  "cpu_sample m = \<lparr>cs_UsagePercent = sg_EMA (cm_Usage (mt_CPU m)), cs_At = mt_RecordedAt m\<rparr>"

definition net_sample :: "'f Metrics \<Rightarrow> 'f NetworkSpeedSample" where
  "net_sample m = \<lparr>ns_RXMBs = sg_EMA (nm_RXSpeedMBs (mt_Network m)), ns_TXMBs = sg_EMA (nm_TXSpeedMBs (mt_Network m)),
     ns_At = mt_RecordedAt m\<rparr>"

lemma Ingest_history:
  "te_cpu (snd (MetricsService_Ingest mj m t)) = (te_cpu t)(mt_ServerID m \<mapsto>
     prune cs_At (mt_RecordedAt m - retention) (history (te_cpu t (mt_ServerID m)) @ [cpu_sample m]))"
  "te_net (snd (MetricsService_Ingest mj m t)) = (te_net t)(mt_ServerID m \<mapsto>
     prune ns_At (mt_RecordedAt m - retention) (history (te_net t (mt_ServerID m)) @ [net_sample m]))"
  by (simp_all add: MetricsService_Ingest_def recordLatest_def recordCPUUsage_def recordNetSpeed_def bindE_def ignoreE_def
      Let_def buffer_metrics_def fh_append_at cpu_sample_def net_sample_def)

lemma frozen_steps:
  "frozen_history t (flush_end mj t)" "frozen_history t (broadcastLatest t)"
  "frozen_history t (snd (MetricsService_Latest mj s t))" "frozen_history t (snd (MetricsCleanupWorker_Run t))"
proof -
  have "guarantees frozen_history (MetricsRepo_BulkInsert mj ms)" for ms
    unfolding MetricsRepo_BulkInsert_def
    by (intro fh.g_if fh.g_return fh_sql) (simp add: guarantees_def frozen_history_def)
  then show "frozen_history t (flush_end mj t)"
    by (auto simp: flush_end_def guarantees_def frozen_history_def split: option.split)
  have "frozen_history t (fold (\<lambda>(_, m). ServerMetricsReceived_Handle m) ms t)" for ms
    by (induction ms arbitrary: t)
      (auto simp: fh.refl ServerMetricsReceived_Handle_def frozen_history_def split: prod.split)
  then show "frozen_history t (broadcastLatest t)" by (simp add: broadcastLatest_def)
  have get: "guarantees frozen_history (Registry_GetLatest key)" for key
    unfolding Registry_GetLatest_def by (intro fh.g_rules fh_redis)
  obtain r u where g: "Registry_GetLatest (stream_key t s '':latest'') t = (r, u)" by force
  have "snd (MetricsService_Latest mj s t) \<in> {t, u}"
    by (simp add: MetricsService_Latest_def g split: option.split sum.split prod.split list.split)
  then show "frozen_history t (snd (MetricsService_Latest mj s t))"
    using guaranteesD [OF get g] fh.refl by auto
  have "guarantees frozen_history (MetricsService_Cleanup s cutoff)" for s cutoff
    unfolding MetricsService_Cleanup_def MetricsRepo_Cleanup_def
    by (intro fh.g_wrap fh_sql) (simp add: guarantees_def frozen_history_def)
  then have "guarantees frozen_history (MetricsCleanupWorker_Run :: ('a Telemetry, unit) op)"
    unfolding MetricsCleanupWorker_Run_def
    by (intro fh.g_bind fh.g_wrap fh.g_for fh.g_ignore fh_via_db)
  then show "frozen_history t (snd (MetricsCleanupWorker_Run t))" by (simp add: guarantees_def)
qed

lemma frozen_same: "frozen_history t t' \<Longrightarrow> same_history s t t'"
  by (simp add: frozen_history_def same_history_def)

lemma fh_restored: "guarantees frozen_history (restored a b dec key)"
proof -
  have "guarantees frozen_history (Registry_GetRangeDesc key n)" for n
    unfolding Registry_GetRangeDesc_def by (intro fh.g_rules fh_redis)
  then show ?thesis
    unfolding restored_def by (intro fh.g_bind fh.g_wrap) (auto split: sum.split intro: fh.g_rules)
qed

lemma same_history_restore:
  assumes "\<And>x t. te_cpu (f x t) s = te_cpu t s \<or> te_cpu u s = None" and "\<And>x t. te_net (f x t) s = te_net t s \<or> te_net u s = None"
  shows "same_history s u (snd (bindE (restored a b dec key) (\<lambda>x. bindE (modifyE (f x)) (\<lambda>_. returnE x)) u))"
  using fh_restored [of a b dec key, unfolded guarantees_def, rule_format, of u] assms
  by (cases "restored a b dec key u") (auto simp: bindE_def same_history_def frozen_history_def split: sum.split)

lemma same_history_asked:
  "same_history s t (snd (MetricsService_CPUUsageHistory mj s' t))"
  "same_history s t (snd (MetricsService_NetSpeedHistory mj s' t))"
   by (cases "te_cpu t s'"; simp add: MetricsService_CPUUsageHistory_def sh.refl;
      rule same_history_restore; auto)
    (cases "te_net t s'"; simp add: MetricsService_NetSpeedHistory_def sh.refl;
      rule same_history_restore; auto)

definition of_server :: "uuid \<Rightarrow> 'f Metrics list \<Rightarrow> 'f Metrics list" where
  "of_server s ms = filter (\<lambda>m. mt_ServerID m = s) ms"

text \<open>The reports of the last fifteen minutes, seen from the last one.\<close>

definition recent :: "'f Metrics list \<Rightarrow> 'f Metrics list" where
  "recent ms = filter (\<lambda>m. mt_RecordedAt (last ms) - retention < mt_RecordedAt m) ms"

definition shows_recent :: "uuid \<Rightarrow> 'f Metrics list \<Rightarrow> 'f Telemetry \<Rightarrow> bool" where
  "shows_recent s ms t \<longleftrightarrow> te_cpu t s = Some (map cpu_sample (recent ms)) \<and> te_net t s = Some (map net_sample (recent ms))"

definition in_order :: "'f Metrics list \<Rightarrow> bool" where
  "in_order ms \<longleftrightarrow> sorted_wrt (\<lambda>a b. mt_RecordedAt a \<le> mt_RecordedAt b) ms"

lemma prune_recent:
  assumes "in_order (ms @ [m])" and "\<And>x. at (sample x) = mt_RecordedAt x"
    and "h = (if ms = [] then [] else map sample (recent ms))"
  shows "prune at (mt_RecordedAt m - retention) (h @ [sample m]) = map sample (recent (ms @ [m]))"
proof -
  have "sorted_wrt (\<lambda>a b. at a \<le> at b) (h @ [sample m])"
    using assms by (auto simp: in_order_def recent_def sorted_wrt_append sorted_wrt_map sorted_wrt_filter)
  moreover have "mt_RecordedAt (last ms) \<le> mt_RecordedAt m" if "ms \<noteq> []"
    using assms(1) that by (auto simp: in_order_def sorted_wrt_append)
  ultimately show ?thesis
    by (auto simp: prune_sorted assms(2,3) recent_def filter_map o_def retention_def intro!: arg_cong [where f = "map sample"] filter_cong)
qed

lemma shows_recent_report:
  assumes "shows_recent s ms t" and "ms \<noteq> []" and "mt_ServerID m = s" and "in_order (ms @ [m])"
  shows "shows_recent s (ms @ [m]) (snd (MetricsService_Ingest mj m t))"
  using assms prune_recent [OF assms(4), of cs_At cpu_sample] prune_recent [OF assms(4), of ns_At net_sample]
  by (simp add: shows_recent_def Ingest_history history_def cpu_sample_def net_sample_def)

lemma shows_recent_same: "same_history s t t' \<Longrightarrow> shows_recent s ms t \<Longrightarrow> shows_recent s ms t'"
  by (simp add: same_history_def shows_recent_def)

lemma shows_recent_step:
  assumes "shows_recent s ms t" and "ms \<noteq> []" and "in_order (ms @ of_server s (reported [a]))"
  shows "shows_recent s (ms @ of_server s (reported [a])) (perform mj t a)"
proof (cases "\<exists>m. a = Reported m")
  case True
  then obtain m where a: "a = Reported m" by blast
  show ?thesis
  proof (cases "mt_ServerID m = s")
    case True
    with shows_recent_report [OF assms(1,2)] assms(3) a show ?thesis by (simp add: of_server_def)
  next
    case False
    with assms(1) a show ?thesis by (simp add: of_server_def shows_recent_def Ingest_history)
  qed
next
  case False
  have "same_history s t (perform mj t a)"
  proof (cases a)
    case (AskedHistory s')
    then show ?thesis using sh.trans [OF same_history_asked(1) same_history_asked(2)] by simp
  next
    case Tick
    then show ?thesis by (simp add: flusher_tick_def same_history_def)
  next
    case FlushBegins
    then show ?thesis by (simp add: flush_begin_def Let_def same_history_def)
  next
    case (Elsewhere w)
    then show ?thesis by (simp add: same_history_def)
  qed (use False in \<open>simp_all add: frozen_same frozen_steps\<close>)
  moreover have "reported [a] = []" using False by (cases a) auto
  ultimately show ?thesis using shows_recent_same assms(1) by (simp add: of_server_def)
qed

lemma shows_recent_run:
  "shows_recent s ms t \<Longrightarrow> ms \<noteq> [] \<Longrightarrow> in_order (ms @ of_server s (reported steps)) \<Longrightarrow>
    shows_recent s (ms @ of_server s (reported steps)) (run_metrics mj steps t)"
proof (induction steps arbitrary: t ms)
  case Nil
  then show ?case by (simp add: of_server_def)
next
  case (Cons a steps)
  have split: "of_server s (reported (a # steps)) = of_server s (reported [a]) @ of_server s (reported steps)"
    by (simp add: of_server_def reported_Cons [of a steps])
  have "in_order (ms @ of_server s (reported [a]))"
    using Cons.prems(3) by (auto simp: split in_order_def sorted_wrt_append)
  from shows_recent_step [OF Cons.prems(1,2) this] have
    "shows_recent s (ms @ of_server s (reported [a])) (perform mj t a)" .
  from Cons.IH [OF this] Cons.prems show ?case by (simp add: split)
qed


section \<open>Witnesses\<close>

definition demo_signal :: "nat Signal" where
  "demo_signal = \<lparr>sg_Raw = 1, sg_EMA = 1\<rparr>"

definition demo_metrics :: "gotime \<Rightarrow> nat Metrics" where
  "demo_metrics at = \<lparr>mt_ServerID = 4, mt_CPU = \<lparr>cm_Usage = demo_signal, cm_PerCore = [], cm_Temperature = demo_signal,
     cm_Frequency = demo_signal, cm_PowerWatt = demo_signal\<rparr>, mt_GPU = [],
     mt_Memory = \<lparr>mm_TotalGB = 8, mm_UsedGB = 4, mm_UsagePercent = 50, mm_AvailableGB = 4, mm_SwapTotalGB = 0,
       mm_SwapFreeGB = 0, mm_SwapUsedGB = 0\<rparr>, mt_Disk = [],
     mt_Network = \<lparr>nm_RXBytes = 0, nm_TXBytes = 0, nm_RXSpeedMBs = demo_signal, nm_TXSpeedMBs = demo_signal\<rparr>,
     mt_UptimeSeconds = 60, mt_RecordedAt = at\<rparr>"

text \<open>A codec that writes every sample as the empty document.\<close>

definition demo_json :: "nat MetricsJSON" where
  "demo_json = \<lparr>mj_Metrics = (\<lambda>_. Inr ''{}'', \<lambda>_. Inr (demo_metrics 0)),
     mj_CPU = (\<lambda>_. Inr ''{}'', \<lambda>_. Inr (cpu_sample (demo_metrics 0))),
     mj_Net = (\<lambda>_. Inr ''{}'', \<lambda>_. Inr (net_sample (demo_metrics 0)))\<rparr>"

definition demo_telemetry :: "nat Telemetry" where
  "demo_telemetry = NewService collect_world (\<lambda>_. []) 0 [] 1"

theorem no_sample_lost_witness:
  "map sm_Data (te_rows (run_metrics demo_json ([Reported (demo_metrics 1), Tick, FlushBegins, Reported (demo_metrics 2)]
     @ [FlushEnds, Tick, FlushBegins, FlushEnds]) demo_telemetry)) = [demo_metrics 1, demo_metrics 2]"
proof -
  let ?steps = "[Reported (demo_metrics 1), Tick, FlushBegins, Reported (demo_metrics 2)]"
  have good: "good_db {4} (te_db demo_telemetry)"
    by (simp add: good_db_def demo_telemetry_def NewService_def collect_world_def empty_world_def no_faults_def
        Server.extend_def Server0_def)
  have hold: "in_flight demo_telemetry = []" "accounted demo_telemetry = []"
    by (simp_all add: in_flight_def accounted_def demo_telemetry_def NewService_def)
  have "\<forall>m\<in>set (in_flight demo_telemetry @ reported ?steps). writable demo_json {4} m"
    by (simp add: hold writable_def demo_json_def) (simp add: demo_metrics_def)
  from no_sample_lost [OF good this] show ?thesis by (simp add: hold)
qed


end
