(* ===== verification/UserHub.thy ===== *)
theory UserHub
  imports Http
begin

text \<open>
  The hub of the dashboards' WebSocket connections (\<open>internal/adapters/ws/userws/hub.go\<close>,
  \<open>client.go\<close>, \<open>handler.go\<close>): one goroutine that takes registrations, subscriptions and events from
  its channels in any order, and a reading and a writing goroutine per client. A step is what one
  goroutine does between two channel operations; a send on a full channel waits, so the step does
  not happen. Sending on a closed channel, or closing it again, ends the process: the result \<open>None\<close>.
\<close>

section \<open>The state\<close>

datatype client_state = Absent | Reading | Gone

text \<open>
  Clients are numbered. \<open>hb_send\<close> and \<open>hb_closed\<close> are the buffered channel \<open>Client.send\<close>; the five
  queues are the hub's own channels.
\<close>

record Hub =
  hb_stopped :: bool
  hb_clients :: "nat list"
  hb_channels :: "string \<Rightarrow> nat list option"
  hb_register :: "nat list"
  hb_unregister :: "nat list"
  hb_subscribe :: "(nat \<times> string) list"
  hb_unsubscribe :: "(nat \<times> string) list"
  hb_events :: "WsServerEvent list"
  hb_dropped :: "64 word"
  hb_state :: "nat \<Rightarrow> client_state"
  hb_send :: "nat \<Rightarrow> string list"
  hb_closed :: "nat \<Rightarrow> bool"

definition NewHub :: Hub where
  "NewHub = \<lparr>hb_stopped = False, hb_clients = [], hb_channels = (\<lambda>_. None), hb_register = [], hb_unregister = [],
     hb_subscribe = [], hb_unsubscribe = [], hb_events = [], hb_dropped = 0, hb_state = (\<lambda>_. Absent),
     hb_send = (\<lambda>_. []), hb_closed = (\<lambda>_. False)\<rparr>"

section \<open>The hub's goroutine\<close>

definition close_send :: "nat \<Rightarrow> Hub \<Rightarrow> Hub option" where
  "close_send c h = (if hb_closed h c then None else Some (h\<lparr>hb_closed := (hb_closed h)(c := True)\<rparr>))"

fun close_all :: "nat list \<Rightarrow> Hub \<Rightarrow> Hub option" where
  "close_all [] h = Some h"
| "close_all (c # cs) h = Option.bind (close_send c h) (close_all cs)"

definition without_client :: "nat \<Rightarrow> nat list option \<Rightarrow> nat list option" where
  "without_client c subs = (case subs of None \<Rightarrow> None
   | Some cs \<Rightarrow> if c \<in> set cs then (let rest = removeAll c cs in if rest = [] then None else Some rest) else Some cs)"

definition handle_unregister :: "nat \<Rightarrow> Hub \<Rightarrow> Hub option" where
  "handle_unregister c h = (if c \<notin> set (hb_clients h) then Some h
   else Option.bind (close_send c (h\<lparr>hb_clients := removeAll c (hb_clients h)\<rparr>)) (\<lambda>h1.
     Some (h1\<lparr>hb_channels := without_client c \<circ> hb_channels h1\<rparr>)))"

definition handle_subscribe :: "nat \<Rightarrow> string \<Rightarrow> Hub \<Rightarrow> Hub" where
  "handle_subscribe c ch h = h\<lparr>hb_channels := (hb_channels h)(ch \<mapsto>
     List.insert c (case hb_channels h ch of None \<Rightarrow> [] | Some subs \<Rightarrow> subs))\<rparr>"

definition handle_unsubscribe :: "nat \<Rightarrow> string \<Rightarrow> Hub \<Rightarrow> Hub" where
  "handle_unsubscribe c ch h = h\<lparr>hb_channels := (hb_channels h)(ch := without_client c (hb_channels h ch))\<rparr>"

text \<open>A send that does not wait: a message for a client whose buffer is full is dropped.\<close>

definition offer :: "nat \<Rightarrow> string \<Rightarrow> Hub \<Rightarrow> bool \<Rightarrow> Hub option" where
  "offer c m h counted = (if hb_closed h c then None
   else if length (hb_send h c) < 256 then Some (h\<lparr>hb_send := (hb_send h)(c := hb_send h c @ [m])\<rparr>)
   else Some (if counted then h\<lparr>hb_dropped := hb_dropped h + 1\<rparr> else h))"

fun offer_all :: "nat list \<Rightarrow> string \<Rightarrow> Hub \<Rightarrow> Hub option" where
  "offer_all [] m h = Some h"
| "offer_all (c # cs) m h = Option.bind (offer c m h True) (offer_all cs m)"

definition targets :: "Hub \<Rightarrow> WsServerEvent \<Rightarrow> nat list" where
  "targets h ev = (if ws_Channel ev \<noteq> []
     then (case hb_channels h (ws_Channel ev) of Some subs \<Rightarrow> subs | None \<Rightarrow> []) else hb_clients h)"

type_synonym marshal = "WsServerEvent \<Rightarrow> error + string"

definition handleEvent :: "marshal \<Rightarrow> WsServerEvent \<Rightarrow> Hub \<Rightarrow> Hub option" where
  "handleEvent mar ev h = (case mar ev of Inl e \<Rightarrow> Some h | Inr message \<Rightarrow> offer_all (targets h ev) message h)"

datatype select_case = CtxDone | OnRegister | OnUnregister | OnSubscribe | OnUnsubscribe | OnEvent

text \<open>One round of \<open>Hub.Run\<close>: the cases that are not ready do nothing.\<close>

fun Hub_Run :: "marshal \<Rightarrow> select_case \<Rightarrow> Hub \<Rightarrow> Hub option" where
  "Hub_Run mar CtxDone h = close_all (hb_clients h) (h\<lparr>hb_stopped := True\<rparr>)"
| "Hub_Run mar OnRegister h = (case hb_register h of [] \<Rightarrow> Some h
     | c # q \<Rightarrow> Some (h\<lparr>hb_register := q, hb_clients := List.insert c (hb_clients h)\<rparr>))"
| "Hub_Run mar OnUnregister h = (case hb_unregister h of [] \<Rightarrow> Some h
     | c # q \<Rightarrow> handle_unregister c (h\<lparr>hb_unregister := q\<rparr>))"
| "Hub_Run mar OnSubscribe h = (case hb_subscribe h of [] \<Rightarrow> Some h
     | (c, ch) # q \<Rightarrow> Some (handle_subscribe c ch (h\<lparr>hb_subscribe := q\<rparr>)))"
| "Hub_Run mar OnUnsubscribe h = (case hb_unsubscribe h of [] \<Rightarrow> Some h
     | (c, ch) # q \<Rightarrow> Some (handle_unsubscribe c ch (h\<lparr>hb_unsubscribe := q\<rparr>)))"
| "Hub_Run mar OnEvent h = (case hb_events h of [] \<Rightarrow> Some h
     | ev # q \<Rightarrow> handleEvent mar ev (h\<lparr>hb_events := q\<rparr>))"

definition Hub_Broadcast :: "WsServerEvent \<Rightarrow> Hub \<Rightarrow> Hub" where
  "Hub_Broadcast ev h = (if \<not> hb_stopped h \<and> length (hb_events h) < 256 then h\<lparr>hb_events := hb_events h @ [ev]\<rparr> else h)"

section \<open>The clients' goroutines\<close>

datatype client_message = Subscribe string | Unsubscribe string | Ping | UnknownType

definition queued :: "'a \<Rightarrow> 'a list \<Rightarrow> 'a list option" where
  "queued x q = (if length q < 64 then Some (q @ [x]) else None)"

text \<open>A message \<open>readPump\<close> has read. \<open>pong\<close> is the answer to a ping.\<close>

fun readPump_message :: "string \<Rightarrow> nat \<Rightarrow> client_message \<Rightarrow> Hub \<Rightarrow> Hub option" where
  "readPump_message pong c (Subscribe ch) h = Some (case queued (c, ch) (hb_subscribe h) of
     None \<Rightarrow> h | Some q \<Rightarrow> h\<lparr>hb_subscribe := q\<rparr>)"
| "readPump_message pong c (Unsubscribe ch) h = Some (case queued (c, ch) (hb_unsubscribe h) of
     None \<Rightarrow> h | Some q \<Rightarrow> h\<lparr>hb_unsubscribe := q\<rparr>)"
| "readPump_message pong c Ping h = offer c pong h False"
| "readPump_message pong c UnknownType h = Some h"

text \<open>The end of \<open>readPump\<close>: its deferred function.\<close>

definition readPump_end :: "nat \<Rightarrow> Hub \<Rightarrow> Hub" where
  "readPump_end c h = (case queued c (hb_unregister h) of None \<Rightarrow> h
   | Some q \<Rightarrow> h\<lparr>hb_unregister := q, hb_state := (hb_state h)(c := Gone)\<rparr>)"

text \<open>\<open>writePump\<close> takes a message from the buffer and writes it to the connection.\<close>

definition writePump :: "nat \<Rightarrow> Hub \<Rightarrow> Hub" where
  "writePump c h = h\<lparr>hb_send := (hb_send h)(c := tl (hb_send h c))\<rparr>"

text \<open>The end of \<open>Serve\<close>, when the connection is upgraded.\<close>

definition connect :: "nat \<Rightarrow> Hub \<Rightarrow> Hub" where
  "connect c h = (case queued c (hb_register h) of None \<Rightarrow> h
   | Some q \<Rightarrow> h\<lparr>hb_register := q, hb_state := (hb_state h)(c := Reading)\<rparr>)"

section \<open>Runs\<close>

datatype hub_act =
    Connects nat
  | Says nat client_message
  | Leaves nat
  | Writes nat
  | Broadcasts WsServerEvent
  | HubTakes select_case

text \<open>A step that is not enabled changes nothing; the hub takes nothing once it has stopped.\<close>

fun hub_step :: "marshal \<Rightarrow> string \<Rightarrow> Hub \<Rightarrow> hub_act \<Rightarrow> Hub option" where
  "hub_step mar pong h (Connects c) = Some (if hb_state h c = Absent then connect c h else h)"
| "hub_step mar pong h (Says c m) = (if hb_state h c = Reading then readPump_message pong c m h else Some h)"
| "hub_step mar pong h (Leaves c) = Some (if hb_state h c = Reading then readPump_end c h else h)"
| "hub_step mar pong h (Writes c) = Some (writePump c h)"
| "hub_step mar pong h (Broadcasts ev) = Some (Hub_Broadcast ev h)"
| "hub_step mar pong h (HubTakes s) = (if hb_stopped h then Some h else Hub_Run mar s h)"

fun hub_run :: "marshal \<Rightarrow> string \<Rightarrow> Hub \<Rightarrow> hub_act list \<Rightarrow> Hub option" where
  "hub_run mar pong h [] = Some h"
| "hub_run mar pong h (a # steps) = Option.bind (hub_step mar pong h a) (\<lambda>h1. hub_run mar pong h1 steps)"

end
