(* ===== verification/HubGuarantees.thy ===== *)
theory HubGuarantees
  imports UserHub
begin

text \<open>
  What the hub promises to the dashboards: as long as the end of a connection is handled after what
  that connection sent before, the process does not panic and an event goes to the subscribers
  of its channel and to nobody else.
\<close>

section \<open>Orderly runs\<close>

text \<open>
  The hub handles a client's end after its registration and subscriptions, and stops only when no
  registered client reads any more. Go's \<open>select\<close> does not promise either.
\<close>

fun orderly :: "Hub \<Rightarrow> hub_act \<Rightarrow> bool" where
  "orderly h (HubTakes OnUnregister) = (case hb_unregister h of [] \<Rightarrow> True
     | c # q \<Rightarrow> c \<notin> set (hb_register h) \<and> c \<notin> fst ` set (hb_subscribe h))"
| "orderly h (HubTakes CtxDone) = list_all (\<lambda>c. hb_state h c \<noteq> Reading) (hb_clients h)"
| "orderly h a = True"

fun orderly_run :: "marshal \<Rightarrow> string \<Rightarrow> Hub \<Rightarrow> hub_act list \<Rightarrow> bool" where
  "orderly_run mar pong h [] = True"
| "orderly_run mar pong h (a # steps) = (orderly h a \<and>
     (case hub_step mar pong h a of None \<Rightarrow> True | Some h1 \<Rightarrow> orderly_run mar pong h1 steps))"

definition subscribed :: "Hub \<Rightarrow> nat \<Rightarrow> bool" where
  "subscribed h c \<longleftrightarrow> (\<exists>ch subs. hb_channels h ch = Some subs \<and> c \<in> set subs)"

text \<open>A closed client is nowhere; a queued end belongs to a client that is gone; no list has duplicates.\<close>

definition hub_ok :: "Hub \<Rightarrow> bool" where
  "hub_ok h \<longleftrightarrow>
     (\<forall>c. hb_closed h c \<longrightarrow> hb_state h c = Gone) \<and>
     (\<not> hb_stopped h \<longrightarrow> (\<forall>c. hb_closed h c \<longrightarrow> c \<notin> set (hb_clients h) \<and> c \<notin> set (hb_register h) \<and>
        c \<notin> fst ` set (hb_subscribe h) \<and> \<not> subscribed h c)) \<and>
     (\<forall>c\<in>set (hb_unregister h). hb_state h c = Gone) \<and>
     (\<forall>c\<in>set (hb_clients h) \<union> set (hb_register h). hb_state h c \<noteq> Absent) \<and>
     distinct (hb_clients h) \<and> (\<forall>ch subs. hb_channels h ch = Some subs \<longrightarrow> distinct subs)"

lemma hub_ok_New: "hub_ok NewHub"
  by (simp add: hub_ok_def NewHub_def)

section \<open>Steps of the hub\<close>

lemma close_all_ok:
  "distinct cs \<Longrightarrow> \<forall>c\<in>set cs. \<not> hb_closed h c \<Longrightarrow>
    close_all cs h = Some (h\<lparr>hb_closed := (\<lambda>c. hb_closed h c \<or> c \<in> set cs)\<rparr>)"
proof (induction cs arbitrary: h)
  case (Cons c cs)
  let ?h = "h\<lparr>hb_closed := (hb_closed h)(c := True)\<rparr>"
  have "close_all cs ?h = Some (?h\<lparr>hb_closed := (\<lambda>x. hb_closed ?h x \<or> x \<in> set cs)\<rparr>)"
    using Cons.prems by (intro Cons.IH) auto
  with Cons.prems show ?case by (auto simp: close_send_def fun_eq_iff intro!: Hub.equality)
qed simp

lemma offer_all_ok:
  "distinct cs \<Longrightarrow> \<forall>c\<in>set cs. \<not> hb_closed h c \<Longrightarrow>
    offer_all cs m h = Some (h\<lparr>
      hb_send := (\<lambda>c. if c \<in> set cs \<and> length (hb_send h c) < 256 then hb_send h c @ [m] else hb_send h c),
      hb_dropped := hb_dropped h + of_nat (length (filter (\<lambda>c. 256 \<le> length (hb_send h c)) cs))\<rparr>)"
proof (induction cs arbitrary: h)
  case (Cons c cs)
  show ?case
  proof (cases "length (hb_send h c) < 256")
    case True
    let ?h = "h\<lparr>hb_send := (hb_send h)(c := hb_send h c @ [m])\<rparr>"
    have "filter (\<lambda>x. 256 \<le> length (hb_send ?h x)) cs = filter (\<lambda>x. 256 \<le> length (hb_send h x)) cs"
      using Cons.prems(1) by (intro filter_cong) auto
    moreover have "offer_all cs m ?h = Some (?h\<lparr>
        hb_send := (\<lambda>x. if x \<in> set cs \<and> length (hb_send ?h x) < 256 then hb_send ?h x @ [m] else hb_send ?h x),
        hb_dropped := hb_dropped ?h + of_nat (length (filter (\<lambda>x. 256 \<le> length (hb_send ?h x)) cs))\<rparr>)"
      using Cons.prems by (intro Cons.IH) auto
    ultimately show ?thesis
      using True Cons.prems by (auto simp: offer_def fun_eq_iff intro!: Hub.equality)
  next
    case False
    with Cons.prems Cons.IH [of "h\<lparr>hb_dropped := hb_dropped h + 1\<rparr>"] show ?thesis
      by (auto simp: offer_def fun_eq_iff algebra_simps intro!: Hub.equality)
  qed
qed simp

lemma subscribed_simps [simp]:
  "subscribed (h\<lparr>hb_send := s\<rparr>) = subscribed h" "subscribed (h\<lparr>hb_dropped := n\<rparr>) = subscribed h"
  "subscribed (h\<lparr>hb_closed := k\<rparr>) = subscribed h" "subscribed (h\<lparr>hb_stopped := b\<rparr>) = subscribed h"
  "subscribed (h\<lparr>hb_register := q\<rparr>) = subscribed h" "subscribed (h\<lparr>hb_unregister := q\<rparr>) = subscribed h"
  "subscribed (h\<lparr>hb_subscribe := r\<rparr>) = subscribed h" "subscribed (h\<lparr>hb_unsubscribe := r\<rparr>) = subscribed h"
  "subscribed (h\<lparr>hb_events := e\<rparr>) = subscribed h" "subscribed (h\<lparr>hb_clients := cs\<rparr>) = subscribed h"
  "subscribed (h\<lparr>hb_state := st\<rparr>) = subscribed h"
  by (simp_all add: subscribed_def fun_eq_iff)

lemma in_without:
  "(\<exists>subs. without_client c cs = Some subs \<and> x \<in> set subs) \<longleftrightarrow> x \<noteq> c \<and> (\<exists>subs. cs = Some subs \<and> x \<in> set subs)"
proof (cases cs)
  case (Some subs)
  have "x = c" if "removeAll c subs = []" "x \<in> set subs"
  proof (rule ccontr)
    assume "x \<noteq> c"
    with that(2) have "x \<in> set (removeAll c subs)" by simp
    with that(1) show False by simp
  qed
  with Some show ?thesis by (auto simp: without_client_def Let_def)
qed (simp add: without_client_def)

lemma subscribed_without:
  "subscribed (h\<lparr>hb_channels := without_client c \<circ> f\<rparr>) x \<longleftrightarrow> x \<noteq> c \<and> subscribed (h\<lparr>hb_channels := f\<rparr>) x"
  using in_without by (fastforce simp: subscribed_def)

lemma targets_ok:
  assumes "hub_ok h" and "\<not> hb_stopped h"
  shows "distinct (targets h ev)" "\<forall>c\<in>set (targets h ev). \<not> hb_closed h c"
  using assms by (auto simp: hub_ok_def targets_def subscribed_def split: option.splits)

lemma hub_ok_unregister:
  assumes "hub_ok h" and "\<not> hb_stopped h" and "hb_state h c = Gone" and "c \<notin> set (hb_register h)" and "c \<notin> fst ` set (hb_subscribe h)"
  shows "\<exists>h'. handle_unregister c h = Some h' \<and> hub_ok h'"
proof (cases "c \<in> set (hb_clients h)")
  case True
  with assms have fresh: "\<not> hb_closed h c" by (auto simp: hub_ok_def)
  let ?h = "h\<lparr>hb_clients := removeAll c (hb_clients h), hb_closed := (hb_closed h)(c := True),
    hb_channels := without_client c \<circ> hb_channels h\<rparr>"
  have "handle_unregister c h = Some ?h" using True fresh by (simp add: handle_unregister_def close_send_def)
  moreover have "subscribed ?h x \<longleftrightarrow> x \<noteq> c \<and> subscribed h x" for x
    using in_without [of c "hb_channels h ch" x for ch] by (fastforce simp: subscribed_def)
  moreover have "distinct subs" if "without_client c (hb_channels h ch) = Some subs" for ch subs
    using that assms(1) by (auto simp: hub_ok_def without_client_def Let_def distinct_removeAll split: option.splits if_splits)
  ultimately show ?thesis
    using assms by (auto simp: hub_ok_def distinct_removeAll)
qed (use assms in \<open>simp add: handle_unregister_def\<close>)

lemma hub_ok_handleEvent:
  assumes "hub_ok h" and "\<not> hb_stopped h"
  shows "\<exists>h'. handleEvent mar ev h = Some h' \<and> hub_ok h'"
  using assms offer_all_ok [OF targets_ok [OF assms]]
  by (auto simp: handleEvent_def hub_ok_def split: sum.split)

lemma hub_ok_Run:
  assumes "hub_ok h" and "\<not> hb_stopped h" and "orderly h (HubTakes s)"
  shows "\<exists>h'. Hub_Run mar s h = Some h' \<and> hub_ok h'"
proof (cases s)
  case CtxDone
  have "close_all (hb_clients h) (h\<lparr>hb_stopped := True\<rparr>) =
      Some (h\<lparr>hb_stopped := True, hb_closed := (\<lambda>c. hb_closed h c \<or> c \<in> set (hb_clients h))\<rparr>)"
    using assms(1,2) by (subst close_all_ok) (auto simp: hub_ok_def)
  moreover have "hb_state h c = Gone" if "c \<in> set (hb_clients h)" for c
    using that assms(1,3) CtxDone by (cases "hb_state h c") (auto simp: hub_ok_def list_all_iff)
  ultimately show ?thesis
    using assms(1) CtxDone by (auto simp: hub_ok_def)
next
  case OnRegister
  with assms show ?thesis
    by (cases "hb_register h") (auto simp: hub_ok_def)
next
  case OnUnregister
  show ?thesis
  proof (cases "hb_unregister h")
    case (Cons c q)
    have "hub_ok (h\<lparr>hb_unregister := q\<rparr>)" using assms(1) Cons by (auto simp: hub_ok_def)
    moreover have "hb_state h c = Gone" using assms(1) Cons by (auto simp: hub_ok_def)
    ultimately show ?thesis
      using hub_ok_unregister [of "h\<lparr>hb_unregister := q\<rparr>" c] assms(2,3) OnUnregister Cons by simp
  qed (use assms OnUnregister in simp)
next
  case OnSubscribe
  show ?thesis
  proof (cases "hb_subscribe h")
    case (Cons p q)
    obtain c ch where p: "p = (c, ch)" by force
    have c: "\<not> hb_closed h c" using assms(1,2) Cons p by (force simp: hub_ok_def)
    have "subscribed (handle_subscribe c ch (h\<lparr>hb_subscribe := q\<rparr>)) x \<longleftrightarrow> x = c \<or> subscribed h x" for x
      by (auto simp: handle_subscribe_def subscribed_def split: option.splits if_splits) (metis option.inject option.simps(3))
    with assms(1) Cons p c OnSubscribe show ?thesis
      by (auto simp: hub_ok_def handle_subscribe_def split: option.splits if_splits)
  qed (use assms OnSubscribe in simp)
next
  case OnUnsubscribe
  show ?thesis
  proof (cases "hb_unsubscribe h")
    case (Cons p q)
    obtain c ch where p: "p = (c, ch)" by force
    have "subscribed (handle_unsubscribe c ch (h\<lparr>hb_unsubscribe := q\<rparr>)) x \<longrightarrow> subscribed h x" for x
      using in_without [of c "hb_channels h ch" x] by (auto simp: handle_unsubscribe_def subscribed_def split: if_splits)
    moreover have "distinct subs" if "without_client c (hb_channels h ch) = Some subs" for subs
      using that assms(1) by (auto simp: hub_ok_def without_client_def Let_def distinct_removeAll split: option.splits if_splits)
    ultimately show ?thesis
      using assms(1) Cons p OnUnsubscribe
      by (auto simp: hub_ok_def handle_unsubscribe_def)
  qed (use assms OnUnsubscribe in simp)
next
  case OnEvent
  show ?thesis
  proof (cases "hb_events h")
    case (Cons ev q)
    have "hub_ok (h\<lparr>hb_events := q\<rparr>)" using assms(1) by (simp add: hub_ok_def)
    with hub_ok_handleEvent [of "h\<lparr>hb_events := q\<rparr>"] assms(2) OnEvent Cons show ?thesis by simp
  qed (use assms OnEvent in simp)
qed

lemma hub_ok_step:
  assumes "hub_ok h" and "orderly h a"
  shows "\<exists>h'. hub_step mar pong h a = Some h' \<and> hub_ok h'"
proof (cases a)
  case (Connects c)
  with assms(1) show ?thesis by (auto simp: connect_def queued_def hub_ok_def)
next
  case (Says c m)
  show ?thesis
  proof (cases "hb_state h c = Reading")
    case True
    with assms(1) have "\<not> hb_closed h c" by (auto simp: hub_ok_def)
    with True Says assms(1) show ?thesis
      by (cases m) (auto simp: queued_def offer_def hub_ok_def split: option.splits)
  qed (use assms Says in simp)
next
  case (Leaves c)
  with assms(1) show ?thesis by (auto simp: readPump_end_def queued_def hub_ok_def)
next
  case (HubTakes s)
  with hub_ok_Run [OF assms(1)] assms show ?thesis by auto
qed (use assms in \<open>auto simp: hub_ok_def writePump_def Hub_Broadcast_def\<close>)

lemma hub_ok_run:
  "hub_ok h \<Longrightarrow> orderly_run mar pong h steps \<Longrightarrow> \<exists>h'. hub_run mar pong h steps = Some h' \<and> hub_ok h'"
proof (induction steps arbitrary: h)
  case (Cons a steps)
  from hub_ok_step [OF Cons.prems(1)] Cons.prems(2) obtain h1 where "hub_step mar pong h a = Some h1" "hub_ok h1"
    by force
  with Cons show ?case by simp
qed simp

section \<open>Who should get an event\<close>

text \<open>
  The specification looks at what the clients did, not at the hub's maps: the registrations, ends,
  subscriptions and unsubscriptions the hub has taken, the newest first. A client follows a channel
  when it subscribed to it and neither unsubscribed nor left since.
\<close>

datatype taken = Came nat | Went nat | Followed nat string | Unfollowed nat string

fun follows :: "taken list \<Rightarrow> nat \<Rightarrow> string \<Rightarrow> bool" where
  "follows [] c ch = False"
| "follows (Followed d ch' # past) c ch = (d = c \<and> ch' = ch \<or> follows past c ch)"
| "follows (Unfollowed d ch' # past) c ch = (\<not> (d = c \<and> ch' = ch) \<and> follows past c ch)"
| "follows (Went d # past) c ch = (d \<noteq> c \<and> follows past c ch)"
| "follows (Came d # past) c ch = follows past c ch"

fun present :: "taken list \<Rightarrow> nat \<Rightarrow> bool" where
  "present [] c = False"
| "present (Came d # past) c = (d = c \<or> present past c)"
| "present (Went d # past) c = (d \<noteq> c \<and> present past c)"
| "present (Followed d ch # past) c = present past c"
| "present (Unfollowed d ch # past) c = present past c"

definition audience :: "taken list \<Rightarrow> string \<Rightarrow> nat \<Rightarrow> bool" where
  "audience past ch c \<longleftrightarrow> (if ch = [] then present past c else follows past c ch)"

fun takes :: "Hub \<Rightarrow> select_case \<Rightarrow> taken list" where
  "takes h OnRegister = (case hb_register h of [] \<Rightarrow> [] | c # q \<Rightarrow> [Came c])"
| "takes h OnUnregister = (case hb_unregister h of [] \<Rightarrow> [] | c # q \<Rightarrow> [Went c])"
| "takes h OnSubscribe = (case hb_subscribe h of [] \<Rightarrow> [] | (c, ch) # q \<Rightarrow> [Followed c ch])"
| "takes h OnUnsubscribe = (case hb_unsubscribe h of [] \<Rightarrow> [] | (c, ch) # q \<Rightarrow> [Unfollowed c ch])"
| "takes h s = []"

fun taken_by :: "Hub \<Rightarrow> hub_act \<Rightarrow> taken list" where
  "taken_by h (HubTakes s) = (if hb_stopped h then [] else takes h s)"
| "taken_by h a = []"

fun hub_history :: "marshal \<Rightarrow> string \<Rightarrow> Hub \<Rightarrow> hub_act list \<Rightarrow> taken list \<Rightarrow> taken list" where
  "hub_history mar pong h [] past = past"
| "hub_history mar pong h (a # steps) past = (case hub_step mar pong h a of None \<Rightarrow> past
     | Some h1 \<Rightarrow> hub_history mar pong h1 steps (taken_by h a @ past))"

text \<open>The subscriptions the clients asked for while there was room in the channel, the oldest first.\<close>

fun asks :: "Hub \<Rightarrow> hub_act \<Rightarrow> (nat \<times> string) list" where
  "asks h (Says c (Subscribe ch)) = (if hb_state h c = Reading \<and> length (hb_subscribe h) < 64 then [(c, ch)] else [])"
| "asks h a = []"

fun hub_asked :: "marshal \<Rightarrow> string \<Rightarrow> Hub \<Rightarrow> hub_act list \<Rightarrow> (nat \<times> string) list" where
  "hub_asked mar pong h [] = []"
| "hub_asked mar pong h (a # steps) = asks h a @ (case hub_step mar pong h a of None \<Rightarrow> []
     | Some h1 \<Rightarrow> hub_asked mar pong h1 steps)"

fun followings :: "taken list \<Rightarrow> (nat \<times> string) list" where
  "followings [] = []"
| "followings (Followed c ch # past) = followings past @ [(c, ch)]"
| "followings (x # past) = followings past"

section \<open>The hub keeps to it\<close>

definition in_channel :: "Hub \<Rightarrow> nat \<Rightarrow> string \<Rightarrow> bool" where
  "in_channel h c ch \<longleftrightarrow> (\<exists>subs. hb_channels h ch = Some subs \<and> c \<in> set subs)"

text \<open>A client that has come is known, waiting to be, or closed; its end is in the channel at most once.\<close>

definition ends_ok :: "Hub \<Rightarrow> bool" where
  "ends_ok h \<longleftrightarrow> distinct (hb_unregister h) \<and> (\<not> hb_stopped h \<longrightarrow>
     (\<forall>c\<in>set (hb_unregister h). \<not> hb_closed h c) \<and>
     (\<forall>c. hb_state h c \<noteq> Absent \<longrightarrow> c \<in> set (hb_clients h) \<or> c \<in> set (hb_register h) \<or> hb_closed h c))"

definition knows :: "Hub \<Rightarrow> taken list \<Rightarrow> bool" where
  "knows h past \<longleftrightarrow> (\<forall>c. c \<in> set (hb_clients h) \<longleftrightarrow> present past c) \<and> (\<forall>c ch. in_channel h c ch \<longleftrightarrow> follows past c ch)"

lemma targets_audience:
  assumes "knows h past"
  shows "c \<in> set (targets h ev) \<longleftrightarrow> audience past (ws_Channel ev) c"
proof -
  from assms have "(c \<in> set (hb_clients h)) = present past c"
    "in_channel h c (ws_Channel ev) = follows past c (ws_Channel ev)" by (simp_all add: knows_def)
  then show ?thesis
    by (cases "hb_channels h (ws_Channel ev)") (simp_all add: targets_def audience_def in_channel_def)
qed

lemma in_channel_without:
  "in_channel (h\<lparr>hb_channels := without_client c \<circ> f\<rparr>) x ch \<longleftrightarrow> x \<noteq> c \<and> in_channel (h\<lparr>hb_channels := f\<rparr>) x ch"
  using in_without [of c "f ch" x] by (simp add: in_channel_def)

lemma in_channel_subscribe:
  "in_channel (handle_subscribe c ch h) x ch' \<longleftrightarrow> x = c \<and> ch' = ch \<or> in_channel h x ch'"
  by (auto simp: in_channel_def handle_subscribe_def split: option.splits)

lemma in_channel_unsubscribe:
  "in_channel (handle_unsubscribe c ch h) x ch' \<longleftrightarrow> \<not> (x = c \<and> ch' = ch) \<and> in_channel h x ch'"
  using in_without [of c "hb_channels h ch" x] by (auto simp: in_channel_def handle_unsubscribe_def)

lemma offer_all_kept:
  "offer_all cs m h = Some h' \<Longrightarrow> hb_clients h' = hb_clients h \<and> hb_channels h' = hb_channels h \<and>
    hb_register h' = hb_register h \<and> hb_unregister h' = hb_unregister h \<and> hb_subscribe h' = hb_subscribe h \<and>
    hb_stopped h' = hb_stopped h \<and> hb_state h' = hb_state h \<and> hb_closed h' = hb_closed h"
proof (induction cs arbitrary: h)
  case (Cons c cs)
  then obtain h1 where "offer c m h True = Some h1" "offer_all cs m h1 = Some h'" by (auto simp: bind_eq_Some_conv)
  with Cons.IH [of h1] show ?case by (auto simp: offer_def split: if_splits)
qed simp

definition in_step :: "Hub \<Rightarrow> taken list \<Rightarrow> bool" where
  "in_step h past \<longleftrightarrow> ends_ok h \<and> (\<not> hb_stopped h \<longrightarrow> knows h past)"

lemma knows_simps [simp]:
  "knows (h\<lparr>hb_register := q\<rparr>) = knows h" "knows (h\<lparr>hb_unregister := q\<rparr>) = knows h"
  "knows (h\<lparr>hb_subscribe := r\<rparr>) = knows h" "knows (h\<lparr>hb_unsubscribe := r\<rparr>) = knows h"
  "knows (h\<lparr>hb_events := e\<rparr>) = knows h" "knows (h\<lparr>hb_state := st\<rparr>) = knows h"
  "knows (h\<lparr>hb_send := sd\<rparr>) = knows h" "knows (h\<lparr>hb_dropped := n\<rparr>) = knows h"
  by (simp_all add: knows_def in_channel_def fun_eq_iff)

text \<open>Buffers, events and counters do not matter.\<close>

lemma in_step_same:
  assumes "hb_clients h' = hb_clients h" "hb_channels h' = hb_channels h" "hb_register h' = hb_register h"
    "hb_unregister h' = hb_unregister h" "hb_stopped h' = hb_stopped h" "hb_state h' = hb_state h" "hb_closed h' = hb_closed h"
  shows "in_step h' past = in_step h past"
  by (simp add: assms in_step_def ends_ok_def knows_def in_channel_def)

lemma in_step_Run:
  assumes "hub_ok h" and "in_step h past" and "\<not> hb_stopped h" and "orderly h (HubTakes s)"
    and run: "Hub_Run mar s h = Some h'"
  shows "in_step h' (takes h s @ past)"
proof (cases s)
  case CtxDone
  with run have "close_all (hb_clients h) (h\<lparr>hb_stopped := True\<rparr>) = Some h'" by simp
  moreover have "close_all cs u = Some u' \<Longrightarrow> hb_stopped u' = hb_stopped u \<and> hb_unregister u' = hb_unregister u" for cs u u'
    by (induction cs arbitrary: u) (auto simp: bind_eq_Some_conv close_send_def split: if_splits)
  ultimately show ?thesis using assms(2) CtxDone by (fastforce simp: in_step_def ends_ok_def)
next
  case OnRegister
  show ?thesis
  proof (cases "hb_register h")
    case (Cons c q)
    with run OnRegister have h': "h' = h\<lparr>hb_register := q, hb_clients := List.insert c (hb_clients h)\<rparr>" by simp
    have "in_channel h' = in_channel h" by (simp add: h' in_channel_def fun_eq_iff)
    then show ?thesis
      using assms(2,3) Cons OnRegister by (auto simp: in_step_def ends_ok_def knows_def h')
  qed (use run assms(2) OnRegister in simp)
next
  case OnUnregister
  show ?thesis
  proof (cases "hb_unregister h")
    case (Cons c q)
    have c: "hb_state h c = Gone" "\<not> hb_closed h c" "c \<notin> set (hb_register h)" "c \<notin> set q"
      using assms(1,2,3,4) Cons OnUnregister by (auto simp: hub_ok_def in_step_def ends_ok_def)
    have "hb_state h c \<noteq> Absent \<longrightarrow> c \<in> set (hb_clients h) \<or> c \<in> set (hb_register h) \<or> hb_closed h c"
      using assms(2,3) unfolding in_step_def ends_ok_def by blast
    with c have "c \<in> set (hb_clients h)" by simp
    then have h': "h' = h\<lparr>hb_unregister := q, hb_clients := removeAll c (hb_clients h), hb_closed := (hb_closed h)(c := True),
        hb_channels := without_client c \<circ> hb_channels h\<rparr>"
      using run Cons OnUnregister c(2) by (simp add: handle_unregister_def close_send_def)
    have "in_channel h' x ch \<longleftrightarrow> x \<noteq> c \<and> in_channel h x ch" for x ch
      using in_without [of c "hb_channels h ch" x] by (simp add: h' in_channel_def)
    then show ?thesis
      using assms(2,3) Cons OnUnregister c by (auto simp: h' in_step_def ends_ok_def knows_def)
  qed (use run assms(2) OnUnregister in simp)
next
  case OnSubscribe
  show ?thesis
  proof (cases "hb_subscribe h")
    case (Cons p q)
    obtain c ch where p: "p = (c, ch)" by force
    from run Cons OnSubscribe p have h': "h' = handle_subscribe c ch (h\<lparr>hb_subscribe := q\<rparr>)" by simp
    have "in_channel (h\<lparr>hb_subscribe := q\<rparr>) = in_channel h" by (simp add: in_channel_def fun_eq_iff)
    with in_channel_subscribe [of c ch "h\<lparr>hb_subscribe := q\<rparr>"] h'
    have "in_channel h' x ch' \<longleftrightarrow> x = c \<and> ch' = ch \<or> in_channel h x ch'" for x ch' by simp
    moreover have "hb_clients h' = hb_clients h" "ends_ok h' = ends_ok h" "hb_stopped h' = hb_stopped h"
      by (simp_all add: h' handle_subscribe_def ends_ok_def)
    ultimately show ?thesis
      using assms(2,3) Cons OnSubscribe p by (auto simp: in_step_def knows_def)
  qed (use run assms(2) OnSubscribe in simp)
next
  case OnUnsubscribe
  show ?thesis
  proof (cases "hb_unsubscribe h")
    case (Cons p q)
    obtain c ch where p: "p = (c, ch)" by force
    from run Cons OnUnsubscribe p have h': "h' = handle_unsubscribe c ch (h\<lparr>hb_unsubscribe := q\<rparr>)" by simp
    have "in_channel (h\<lparr>hb_unsubscribe := q\<rparr>) = in_channel h" by (simp add: in_channel_def fun_eq_iff)
    with in_channel_unsubscribe [of c ch "h\<lparr>hb_unsubscribe := q\<rparr>"] h'
    have "in_channel h' x ch' \<longleftrightarrow> \<not> (x = c \<and> ch' = ch) \<and> in_channel h x ch'" for x ch' by simp
    moreover have "hb_clients h' = hb_clients h" "ends_ok h' = ends_ok h" "hb_stopped h' = hb_stopped h"
      by (simp_all add: h' handle_unsubscribe_def ends_ok_def)
    ultimately show ?thesis
      using assms(2,3) Cons OnUnsubscribe p by (auto simp: in_step_def knows_def)
  qed (use run assms(2) OnUnsubscribe in simp)
next
  case OnEvent
  show ?thesis
  proof (cases "hb_events h")
    case (Cons ev q)
    with run OnEvent have "h' = h\<lparr>hb_events := q\<rparr> \<or> (\<exists>m. offer_all (targets (h\<lparr>hb_events := q\<rparr>) ev) m (h\<lparr>hb_events := q\<rparr>) = Some h')"
      by (auto simp: handleEvent_def split: sum.splits)
    then have "in_step h' past = in_step h past"
      by (intro in_step_same) (auto dest!: offer_all_kept)
    with assms(2) OnEvent show ?thesis by simp
  qed (use run assms(2) OnEvent in simp)
qed

lemma in_step_step:
  assumes "hub_ok h" and "in_step h past" and "orderly h a" and step: "hub_step mar pong h a = Some h'"
  shows "in_step h' (taken_by h a @ past)"
proof (cases a)
  case (Connects c)
  show ?thesis
  proof (cases "hb_state h c = Absent")
    case True
    with Connects step have "h' = connect c h" by simp
    with assms(2) Connects show ?thesis
      by (cases "length (hb_register h) < 64") (auto simp: connect_def queued_def in_step_def ends_ok_def)
  qed (use step assms(2) Connects in simp)
next
  case (Says c m)
  show ?thesis
  proof (cases m)
    case Ping
    with step Says assms(2) show ?thesis
      by (auto simp: offer_def in_step_def ends_ok_def split: if_splits)
  qed (use step Says assms(2) in \<open>auto simp: queued_def in_step_def ends_ok_def split: if_splits\<close>)
next
  case (Leaves c)
  show ?thesis
  proof (cases "hb_state h c = Reading \<and> length (hb_unregister h) < 64")
    case True
    with step Leaves have h': "h' = h\<lparr>hb_unregister := hb_unregister h @ [c], hb_state := (hb_state h)(c := Gone)\<rparr>"
      by (simp add: readPump_end_def queued_def)
    have "c \<notin> set (hb_unregister h)" "\<not> hb_closed h c" using True assms(1) by (auto simp: hub_ok_def)
    moreover have "hb_state h' d \<noteq> Absent \<longleftrightarrow> hb_state h d \<noteq> Absent" for d using True by (simp add: h')
    ultimately show ?thesis using assms(2) Leaves by (auto simp: h' in_step_def ends_ok_def)
  next
    case False
    with step Leaves assms(2) show ?thesis
      by (auto simp: readPump_end_def queued_def in_step_def ends_ok_def split: if_splits)
  qed
next
  case (HubTakes s)
  show ?thesis
  proof (cases "hb_stopped h")
    case False
    with in_step_Run [OF assms(1,2)] HubTakes step assms(3) show ?thesis by simp
  qed (use step HubTakes assms(2) in simp)
next
  case (Broadcasts ev)
  with step have "in_step h' past = in_step h past" by (intro in_step_same) (auto simp: Hub_Broadcast_def split: if_splits)
  with assms(2) Broadcasts show ?thesis by simp
next
  case (Writes c)
  with step have "in_step h' past = in_step h past" by (intro in_step_same) (auto simp: writePump_def)
  with assms(2) Writes show ?thesis by simp
qed

lemma asked_step:
  assumes "hub_step mar pong h a = Some h'"
  shows "followings (taken_by h a @ past) @ hb_subscribe h' = followings past @ hb_subscribe h @ asks h a"
proof (cases a)
  case (Says c m)
  with assms show ?thesis
    by (cases m) (auto simp: queued_def offer_def split: if_splits)
next
  case (HubTakes s)
  show ?thesis
  proof (cases "hb_stopped h")
    case False
    have close: "close_all cs u = Some u' \<Longrightarrow> hb_subscribe u' = hb_subscribe u" for cs u u'
      by (induction cs arbitrary: u) (auto simp: bind_eq_Some_conv close_send_def split: if_splits)
    from False assms HubTakes show ?thesis
      by (cases s) (auto simp: handle_unregister_def handle_subscribe_def handle_unsubscribe_def handleEvent_def close_send_def
          bind_eq_Some_conv dest: close offer_all_kept split: list.splits if_splits sum.splits)
  qed (use assms HubTakes in simp)
qed (use assms in \<open>auto simp: connect_def readPump_end_def writePump_def Hub_Broadcast_def queued_def split: if_splits\<close>)

lemma in_step_run:
  "hub_ok h \<Longrightarrow> in_step h past \<Longrightarrow> orderly_run mar pong h steps \<Longrightarrow> \<exists>h'. hub_run mar pong h steps = Some h' \<and> hub_ok h' \<and>
    in_step h' (hub_history mar pong h steps past) \<and>
    followings (hub_history mar pong h steps past) @ hb_subscribe h' =
      followings past @ hb_subscribe h @ hub_asked mar pong h steps"
proof (induction steps arbitrary: h past)
  case (Cons a steps)
  from hub_ok_step [OF Cons.prems(1)] Cons.prems(3) obtain h1 where h1: "hub_step mar pong h a = Some h1" "hub_ok h1"
    by force
  have "in_step h1 (taken_by h a @ past)"
    by (rule in_step_step [OF Cons.prems(1,2) _ h1(1)]) (use Cons.prems(3) in simp)
  from Cons.IH [OF h1(2) this] Cons.prems(3) h1(1) asked_step [OF h1(1), of past] show ?case by auto
qed simp


text \<open>A dashboard connects, follows the jobs, and leaves.\<close>

definition demo_session :: "hub_act list" where
  "demo_session = [Connects 1, HubTakes OnRegister, Says 1 (Subscribe ''jobs''), HubTakes OnSubscribe, Says 1 Ping,
     Writes 1, Leaves 1, HubTakes OnUnregister, HubTakes CtxDone]"


text \<open>
  Without that order the process can be brought down: a subscription that is handled after the
  client's end leaves a closed client among the subscribers, and the next event of the channel
  is sent to it.
\<close>

theorem late_subscription_panics:
  "hub_run (\<lambda>_. Inr ''{}'') ''pong'' NewHub [Connects 1, HubTakes OnRegister, Says 1 (Subscribe ''jobs''), Leaves 1,
     HubTakes OnUnregister, HubTakes OnSubscribe, Broadcasts \<lparr>ws_Channel = ''jobs'', ws_Event = ev, ws_Payload = p\<rparr>,
     HubTakes OnEvent] = None"
  by (simp add: NewHub_def connect_def queued_def handle_subscribe_def readPump_end_def handle_unregister_def
      close_send_def Hub_Broadcast_def handleEvent_def targets_def offer_def without_client_def o_def)

end
