(* ===== verification/AgentHub.thy ===== *)
theory AgentHub
  imports Fleet UserHub
begin

text \<open>
  The agents' WebSocket connections (\<open>internal/adapters/ws/agentws/router.go\<close>, \<open>client.go\<close>,
  \<open>handler.go\<close>): the handshake puts the agent's server online, the end of a connection puts it
  offline, and the router's goroutine keeps one connection per server. Closing a channel again
  ends the process: the result \<open>None\<close>.
\<close>

section \<open>The state\<close>

text \<open>Connections are numbered; \<open>ah_id\<close> is \<open>Client.ID\<close>.\<close>

record AgentHub =
  ah_stopped :: bool
  ah_agents :: "(uuid \<times> nat) list"
  ah_register :: "nat list"
  ah_unregister :: "nat list"
  ah_state :: "nat \<Rightarrow> client_state"
  ah_id :: "nat \<Rightarrow> uuid"
  ah_closed :: "nat \<Rightarrow> bool"
  ah_db :: world

definition NewAgentHub :: "world \<Rightarrow> AgentHub" where
  "NewAgentHub w = \<lparr>ah_stopped = False, ah_agents = [], ah_register = [], ah_unregister = [],
     ah_state = (\<lambda>_. Absent), ah_id = (\<lambda>_. 0), ah_closed = (\<lambda>_. False), ah_db = w\<rparr>"

section \<open>The router's goroutine\<close>

definition close_agent :: "nat \<Rightarrow> AgentHub \<Rightarrow> AgentHub option" where
  "close_agent c h = (if ah_closed h c then None else Some (h\<lparr>ah_closed := (ah_closed h)(c := True)\<rparr>))"

fun close_agents :: "nat list \<Rightarrow> AgentHub \<Rightarrow> AgentHub option" where
  "close_agents [] h = Some h"
| "close_agents (c # cs) h = Option.bind (close_agent c h) (close_agents cs)"

datatype router_case = RouterDone | RouterRegister | RouterUnregister

fun Router_Run :: "router_case \<Rightarrow> AgentHub \<Rightarrow> AgentHub option" where
  "Router_Run RouterDone h = close_agents (map snd (ah_agents h)) (h\<lparr>ah_stopped := True\<rparr>)"
| "Router_Run RouterRegister h = (case ah_register h of [] \<Rightarrow> Some h
     | a # q \<Rightarrow> Some (h\<lparr>ah_register := q, ah_agents := AList.update (ah_id h a) a (ah_agents h)\<rparr>))"
| "Router_Run RouterUnregister h = (case ah_unregister h of [] \<Rightarrow> Some h
     | a # q \<Rightarrow> (case map_of (ah_agents h) (ah_id h a) of
         None \<Rightarrow> Some (h\<lparr>ah_unregister := q\<rparr>)
       | Some agent \<Rightarrow> close_agent agent
           (h\<lparr>ah_unregister := q, ah_agents := AList.delete (ah_id h a) (ah_agents h)\<rparr>)))"

section \<open>The handshake and the reader\<close>

text \<open>
  \<open>Handler.Serve\<close> with an upgrade that succeeds, on \<open>agentws_route\<close>'s part of the state and on the
  router's: a failed status update closes the connection. The channel \<open>register\<close> holds 64
  connections; \<open>ah_register\<close> has those that wait to be sent behind them, in the order in which they
  came. The server is online then, but the pumps of the connection start after the sending.
\<close>

definition register_size :: nat where "register_size = 64"

definition pumps_started :: "AgentHub \<Rightarrow> nat \<Rightarrow> bool" where
  "pumps_started h c \<longleftrightarrow> ah_state h c = Reading \<and> c \<notin> set (drop register_size (ah_register h))"

definition agentws_Serve :: "Bcrypt \<Rightarrow> (string \<Rightarrow> uuid option) \<Rightarrow> world Bus \<Rightarrow> nat \<Rightarrow> Request \<Rightarrow> AgentHub
    \<Rightarrow> Reply option \<times> AgentHub" where
  "agentws_Serve bc uuid_Parse bus c r h = (case agent_credentials uuid_Parse r of
     Inl reply \<Rightarrow> (Some reply, h)
   | Inr (serverID, secret) \<Rightarrow> (case ServerService_AuthorizeAgent bc serverID secret (ah_db h) of
       (Inl err, w1) \<Rightarrow> (Some (http_Error ''invalid credentials'' 401), h\<lparr>ah_db := w1\<rparr>)
     | (Inr server, w1) \<Rightarrow> (case ServerService_UpdateStatus bus serverID True w1 of
         (Inl err, w2) \<Rightarrow> (None, h\<lparr>ah_db := w2, ah_state := (ah_state h)(c := Gone)\<rparr>)
       | (Inr _, w2) \<Rightarrow> (None, h\<lparr>ah_db := w2, ah_state := (ah_state h)(c := Reading), ah_id := (ah_id h)(c := serverID),
           ah_register := ah_register h @ [c]\<rparr>))))"

lemma agentws_Serve_route:
  assumes "rd_Upgrade d True r = (True, rep)"
  shows "ah_db (snd (agentws_Serve (rd_bcrypt d) (rd_uuid_Parse d) (rd_bus d) c r h)) = snd (agentws_route d r (ah_db h))"
  using assms by (auto simp: agentws_Serve_def agentws_route_def split: sum.split prod.split)

datatype agent_message = ServerOSInfo "json option" | UnknownEvent

text \<open>A message; \<open>None\<close> is a payload that is not an \<open>OSInfo\<close>.\<close>

fun agent_readPump :: "nat \<Rightarrow> agent_message \<Rightarrow> AgentHub \<Rightarrow> AgentHub" where
  "agent_readPump c (ServerOSInfo (Some osInfo)) h =
     h\<lparr>ah_db := snd (ServerService_UpdateOSInfo (ah_id h c) osInfo (ah_db h))\<rparr>"
| "agent_readPump c m h = h"

text \<open>The deferred function of \<open>readPump\<close>; it waits for room in the channel \<open>unregister\<close>.\<close>

definition agent_readPump_end :: "world Bus \<Rightarrow> nat \<Rightarrow> AgentHub \<Rightarrow> AgentHub" where
  "agent_readPump_end bus c h = (case queued c (ah_unregister h) of None \<Rightarrow> h
   | Some q \<Rightarrow> h\<lparr>ah_unregister := q, ah_state := (ah_state h)(c := Gone),
       ah_db := snd (ServerService_UpdateStatus bus (ah_id h c) False (ah_db h))\<rparr>)"

section \<open>Runs\<close>

datatype agent_act =
    Handshake nat Request
  | AgentSays nat agent_message
  | AgentLeaves nat
  | RouterTakes router_case
  | OtherParts world

fun agent_step :: "Bcrypt \<Rightarrow> (string \<Rightarrow> uuid option) \<Rightarrow> world Bus \<Rightarrow> AgentHub \<Rightarrow> agent_act \<Rightarrow> AgentHub option" where
  "agent_step bc up bus h (Handshake c r) = Some (if ah_state h c = Absent
     then snd (agentws_Serve bc up bus c r h) else h)"
| "agent_step bc up bus h (AgentSays c m) = Some (if pumps_started h c then agent_readPump c m h else h)"
| "agent_step bc up bus h (AgentLeaves c) = Some (if pumps_started h c then agent_readPump_end bus c h else h)"
| "agent_step bc up bus h (RouterTakes s) = (if ah_stopped h then Some h else Router_Run s h)"
| "agent_step bc up bus h (OtherParts w) = Some (h\<lparr>ah_db := w\<rparr>)"

fun agents_run :: "Bcrypt \<Rightarrow> (string \<Rightarrow> uuid option) \<Rightarrow> world Bus \<Rightarrow> AgentHub \<Rightarrow> agent_act list \<Rightarrow> AgentHub option" where
  "agents_run bc up bus h [] = Some h"
| "agents_run bc up bus h (a # steps) = Option.bind (agent_step bc up bus h a) (\<lambda>h1. agents_run bc up bus h1 steps)"

section \<open>No channel is closed twice\<close>

definition router_ok :: "AgentHub \<Rightarrow> bool" where
  "router_ok h \<longleftrightarrow>
     (\<forall>c. ah_closed h c \<longrightarrow> ah_state h c \<noteq> Absent) \<and>
     (\<not> ah_stopped h \<longrightarrow> (\<forall>c. ah_closed h c \<longrightarrow> c \<notin> set (ah_register h) \<and> (\<forall>i. (i, c) \<notin> set (ah_agents h)))) \<and>
     (\<forall>i c. (i, c) \<in> set (ah_agents h) \<longrightarrow> i = ah_id h c \<and> c \<notin> set (ah_register h) \<and> ah_state h c \<noteq> Absent) \<and>
     (\<forall>c\<in>set (ah_register h). ah_state h c \<noteq> Absent) \<and>
     distinct (ah_register h) \<and> distinct (map fst (ah_agents h))"

lemma router_okD:
  assumes "router_ok h"
  shows "ah_closed h c \<Longrightarrow> ah_state h c \<noteq> Absent"
    and "\<not> ah_stopped h \<Longrightarrow> ah_closed h c \<Longrightarrow> c \<notin> set (ah_register h)"
    and "\<not> ah_stopped h \<Longrightarrow> ah_closed h c \<Longrightarrow> (i, c) \<notin> set (ah_agents h)"
    and "(i, c) \<in> set (ah_agents h) \<Longrightarrow> ah_id h c = i"
    and "(i, c) \<in> set (ah_agents h) \<Longrightarrow> c \<notin> set (ah_register h)"
    and "(i, c) \<in> set (ah_agents h) \<Longrightarrow> ah_state h c \<noteq> Absent"
    and "c \<in> set (ah_register h) \<Longrightarrow> ah_state h c \<noteq> Absent"
    and "distinct (ah_register h)" and "distinct (map fst (ah_agents h))"
  using assms unfolding router_ok_def by blast+

lemma router_ok_New: "router_ok (NewAgentHub w)"
  by (simp add: router_ok_def NewAgentHub_def)

lemma close_agents_ok:
  "distinct cs \<Longrightarrow> \<forall>c\<in>set cs. \<not> ah_closed h c \<Longrightarrow>
    close_agents cs h = Some (h\<lparr>ah_closed := (\<lambda>c. ah_closed h c \<or> c \<in> set cs)\<rparr>)"
proof (induction cs arbitrary: h)
  case (Cons c cs)
  let ?h = "h\<lparr>ah_closed := (ah_closed h)(c := True)\<rparr>"
  have "close_agents cs ?h = Some (?h\<lparr>ah_closed := (\<lambda>x. ah_closed ?h x \<or> x \<in> set cs)\<rparr>)"
    using Cons.prems by (intro Cons.IH) auto
  with Cons.prems show ?case by (auto simp: close_agent_def fun_eq_iff intro!: AgentHub.equality)
qed simp

lemma distinct_agents:
  assumes "router_ok h"
  shows "distinct (map snd (ah_agents h))"
proof -
  have "map fst (ah_agents h) = map (ah_id h) (map snd (ah_agents h))"
    using router_okD(4) [OF assms] by (auto simp: prod_eq_iff)
  moreover have "distinct (map fst (ah_agents h))" using assms by (simp add: router_ok_def)
  ultimately show ?thesis by (metis distinct_map)
qed

text \<open>What a handshake does to the router's part of the state.\<close>

lemma Serve_cases:
  obtains (refused) w where "snd (agentws_Serve bc up bus c r h) = h\<lparr>ah_db := w\<rparr>"
  | (failed) w where "snd (agentws_Serve bc up bus c r h) = h\<lparr>ah_db := w, ah_state := (ah_state h)(c := Gone)\<rparr>"
  | (served) s k w where "agent_credentials up r = Inr (s, k)"
      "snd (agentws_Serve bc up bus c r h) = h\<lparr>ah_db := w, ah_state := (ah_state h)(c := Reading),
         ah_id := (ah_id h)(c := s), ah_register := ah_register h @ [c]\<rparr>"
proof (cases "agent_credentials up r")
  case (Inl e)
  then have "snd (agentws_Serve bc up bus c r h) = h\<lparr>ah_db := ah_db h\<rparr>" by (simp add: agentws_Serve_def)
  then show thesis by (rule refused)
next
  case (Inr sk)
  obtain s k where sk: "sk = (s, k)" by force
  obtain v w1 where a: "ServerService_AuthorizeAgent bc s k (ah_db h) = (v, w1)" by force
  show thesis
  proof (cases v)
    case (Inl e)
    with Inr sk a show thesis by (intro refused) (simp add: agentws_Serve_def)
  next
    case (Inr srv)
    obtain u w2 where "ServerService_UpdateStatus bus s True w1 = (u, w2)" by force
    with Inr a sk \<open>agent_credentials up r = Inr sk\<close> show thesis
      by (cases u) (auto simp: agentws_Serve_def intro: failed served)
  qed
qed

lemma router_ok_Serve:
  assumes "router_ok h" and "ah_state h c = Absent"
  shows "router_ok (snd (agentws_Serve bc up bus c r h))"
proof (cases rule: Serve_cases [of bc up bus c r h])
  case (refused w)
  with assms(1) show ?thesis by (simp add: router_ok_def)
next
  case (failed w)
  with assms(1) show ?thesis by (auto simp: router_ok_def)
next
  case (served s k w)
  have "c \<notin> set (ah_register h)" "(i, c) \<notin> set (ah_agents h)" "\<not> ah_closed h c" for i
    using router_okD(1,6,7) [OF assms(1)] assms(2) by blast+
  with served(2) assms(1) show ?thesis by (auto simp: router_ok_def)
qed

lemma in_update: "p \<in> set (AList.update k v xs) \<Longrightarrow> p = (k, v) \<or> p \<in> set xs"
  by (induction xs) (auto split: if_splits)

lemma in_delete: "p \<in> set (AList.delete k xs) \<longleftrightarrow> p \<in> set xs \<and> fst p \<noteq> k"
  by (induction xs) auto

lemma router_ok_Run:
  assumes "router_ok h" and "\<not> ah_stopped h"
  shows "\<exists>h'. Router_Run s h = Some h' \<and> router_ok h' \<and> ah_state h' = ah_state h \<and> ah_id h' = ah_id h \<and> ah_db h' = ah_db h"
proof (cases s)
  case RouterDone
  have "close_agents (map snd (ah_agents h)) (h\<lparr>ah_stopped := True\<rparr>) =
      Some (h\<lparr>ah_stopped := True, ah_closed := (\<lambda>c. ah_closed h c \<or> c \<in> set (map snd (ah_agents h)))\<rparr>)"
    using assms router_okD(3) [OF assms] by (subst close_agents_ok) (auto simp: distinct_agents)
  with RouterDone assms show ?thesis by (auto simp: router_ok_def)
next
  case RouterRegister
  show ?thesis
  proof (cases "ah_register h")
    case (Cons a q)
    let ?h = "h\<lparr>ah_register := q, ah_agents := AList.update (ah_id h a) a (ah_agents h)\<rparr>"
    have a: "\<not> ah_closed h a" "ah_state h a \<noteq> Absent" "a \<notin> set q"
      using router_okD(2,7,8) [OF assms(1)] assms(2) Cons by auto
    have news: "(i, c) = (ah_id h a, a) \<or> (i, c) \<in> set (ah_agents h)" if "(i, c) \<in> set (ah_agents ?h)" for i c
      by (rule in_update) (use that in simp)
    have "i = ah_id h c \<and> c \<notin> set q \<and> ah_state h c \<noteq> Absent" if "(i, c) \<in> set (ah_agents ?h)" for i c
      using news [OF that] router_okD(4,5,6) [OF assms(1), of i c] a Cons by auto
    moreover have "c \<notin> set q \<and> (i, c) \<notin> set (ah_agents ?h)" if "ah_closed h c" for i c
      using news [of i c] router_okD(2) [OF assms, of c] router_okD(3) [OF assms, of c i] that a Cons by auto
    moreover have "distinct (map fst (ah_agents ?h))"
      using router_okD(9) [OF assms(1)] by (simp add: distinct_update)
    ultimately have "router_ok ?h"
      using router_okD(1,7,8) [OF assms(1)] Cons by (simp add: router_ok_def)
    with RouterRegister Cons show ?thesis by simp
  qed (use assms RouterRegister in simp)
next
  case RouterUnregister
  show ?thesis
  proof (cases "ah_unregister h")
    case (Cons a q)
    show ?thesis
    proof (cases "map_of (ah_agents h) (ah_id h a)")
      case None
      with Cons RouterUnregister assms show ?thesis by (simp add: router_ok_def)
    next
      case (Some agent)
      let ?h = "h\<lparr>ah_unregister := q, ah_agents := AList.delete (ah_id h a) (ah_agents h),
        ah_closed := (ah_closed h)(agent := True)\<rparr>"
      from Some have known: "(ah_id h a, agent) \<in> set (ah_agents h)" by (rule map_of_SomeD)
      have agent: "\<not> ah_closed h agent" "ah_id h agent = ah_id h a" "agent \<notin> set (ah_register h)" "ah_state h agent \<noteq> Absent"
        using router_okD(3) [OF assms, of agent] router_okD(4,5,6) [OF assms(1) known] known by blast+
      have kept: "(i, c) \<in> set (AList.delete (ah_id h a) (ah_agents h)) \<longleftrightarrow> (i, c) \<in> set (ah_agents h) \<and> i \<noteq> ah_id h a" for i c
        by (simp add: in_delete)
      have "(i, agent) \<notin> set (ah_agents ?h)" for i
        using router_okD(4) [OF assms(1), of i agent] agent(2) by (auto simp: kept)
      then have "c \<notin> set (ah_register h) \<and> (i, c) \<notin> set (ah_agents ?h)" if "ah_closed ?h c" for i c
        using router_okD(2) [OF assms, of c] router_okD(3) [OF assms, of c i] that agent(3) by (auto simp: kept split: if_splits)
      moreover have "distinct (map fst (ah_agents ?h))"
        using router_okD(9) [OF assms(1)] by (simp add: distinct_delete)
      ultimately have "router_ok ?h"
        using router_okD(1,4,5,6,7,8) [OF assms(1)] agent(4) unfolding router_ok_def by (auto simp: kept)
      with Some Cons RouterUnregister agent(1) show ?thesis by (simp add: close_agent_def)
    qed
  qed (use assms RouterUnregister in simp)
qed

section \<open>The status of a server follows its connection\<close>

definition connected :: "AgentHub \<Rightarrow> uuid \<Rightarrow> bool" where
  "connected h i \<longleftrightarrow> (\<exists>c. ah_state h c = Reading \<and> ah_id h c = i)"

text \<open>
  One connection per server at a time. The other parts may add servers that are offline, change
  and delete servers, but neither drop a row nor change who is online.
\<close>

fun one_at_a_time :: "(string \<Rightarrow> uuid option) \<Rightarrow> AgentHub \<Rightarrow> agent_act \<Rightarrow> bool" where
  "one_at_a_time up h (Handshake c r) = (case agent_credentials up r of Inl _ \<Rightarrow> True
     | Inr (s, k) \<Rightarrow> \<not> connected h s)"
| "one_at_a_time up h (OtherParts w) = (no_faults w \<and> s_ID ` set (w_servers (ah_db h)) \<subseteq> s_ID ` set (w_servers w) \<and>
     (\<forall>r\<in>set (w_servers w). live_server r \<longrightarrow> (\<exists>r0\<in>set (w_servers (ah_db h)). live_server r0 \<and> s_ID r0 = s_ID r \<and>
        s_IsOnline r0 = s_IsOnline r) \<or> (\<not> s_IsOnline r \<and> s_ID r \<notin> s_ID ` set (w_servers (ah_db h)))))"
| "one_at_a_time up h a = True"

fun one_at_a_time_run :: "Bcrypt \<Rightarrow> (string \<Rightarrow> uuid option) \<Rightarrow> world Bus \<Rightarrow> AgentHub \<Rightarrow> agent_act list \<Rightarrow> bool" where
  "one_at_a_time_run bc up bus h [] = True"
| "one_at_a_time_run bc up bus h (a # steps) = (one_at_a_time up h a \<and>
     (case agent_step bc up bus h a of None \<Rightarrow> True | Some h1 \<Rightarrow> one_at_a_time_run bc up bus h1 steps))"

definition shows_connections :: "AgentHub \<Rightarrow> bool" where
  "shows_connections h \<longleftrightarrow> (\<forall>r\<in>set (w_servers (ah_db h)). live_server r \<longrightarrow> s_IsOnline r = connected h (s_ID r))"

definition status_ok :: "AgentHub \<Rightarrow> bool" where
  "status_ok h \<longleftrightarrow> no_faults (ah_db h) \<and> shows_connections h \<and>
     (\<forall>c. ah_state h c = Reading \<longrightarrow> ah_id h c \<in> s_ID ` set (w_servers (ah_db h))) \<and>
     (\<forall>c c'. ah_state h c = Reading \<longrightarrow> ah_state h c' = Reading \<longrightarrow> ah_id h c = ah_id h c' \<longrightarrow> c = c')"

lemma UpdateStatus_result:
  assumes "no_faults w"
  obtains w' now where "ServerService_UpdateStatus (server_bus url) s b w = (Inr (), w')" "no_faults w'"
    "w_servers w' = update_where (\<lambda>r. s_ID r = s \<and> live_server r) (\<lambda>r. r\<lparr>s_IsOnline := b, s_UpdatedAt := now\<rparr>) (w_servers w)"
proof -
  let ?w1 = "w\<lparr>w_calls := Suc (w_calls w), w_servers := update_where (\<lambda>r. s_ID r = s \<and> live_server r)
    (\<lambda>r. r\<lparr>s_IsOnline := b, s_UpdatedAt := w_now w\<rparr>) (w_servers w)\<rparr>"
  let ?ev = "ServerStatusChangedEv \<lparr>esx_ServerID = s, esx_IsOnline = b\<rparr>"
  have run: "ServerService_UpdateStatus (server_bus url) s b w = Publish (server_bus url) ''server_status_changed'' ?ev ?w1"
    using assms by (simp add: ServerService_UpdateStatus_def ServerRepo_UpdateStatus_def bindE_def time_Now_def
        db_exec_ok server_update_def Let_def)
  have nf: "no_faults ?w1" using assms by (simp add: no_faults_def)
  obtain v w' where p: "Publish (server_bus url) ''server_status_changed'' ?ev ?w1 = (v, w')" by force
  then have "v = Inr ()" by (simp add: Publish_def)
  with run p guaranteesD [OF js.g_server_publish p] nf show thesis
    by (intro that [of w' "w_now w"]) (simp_all add: jobs_and_servers_def)
qed

lemma connected_row:
  assumes "shows_connections h" and "r \<in> set (w_servers (ah_db h))" and "live_server r"
  shows "s_IsOnline r = connected h (s_ID r)"
  using assms by (simp add: shows_connections_def)

lemma AuthorizeAgent_result:
  assumes "no_faults w" and "ServerService_AuthorizeAgent bc s k w = (v, w')"
  shows "no_faults w' \<and> w_servers w' = w_servers w \<and> (\<forall>srv. v = Inr srv \<longrightarrow> s \<in> s_ID ` set (w_servers w))"
proof -
  have "s \<in> s_ID ` set (w_servers w)" if "find (\<lambda>r. s_ID r = s \<and> live_server r) (w_servers w) = Some r" for r
    using find_Some_set [OF that] by force
  with assms show ?thesis
    by (auto simp: ServerService_AuthorizeAgent_def ServerRepo_GetByID_def bindE_def catchE_def db_exec_ok
        split: option.splits if_splits)
qed

lemma UpdateOSInfo_result:
  assumes "no_faults w"
  obtains now where "no_faults (snd (ServerService_UpdateOSInfo s info w))"
    "w_servers (snd (ServerService_UpdateOSInfo s info w)) = update_where (\<lambda>r. s_ID r = s \<and> live_server r)
       (\<lambda>r. r\<lparr>s_OSInfo := Some info, s_UpdatedAt := now\<rparr>) (w_servers w)"
  using assms that [of "w_now w"]
  by (simp add: ServerService_UpdateOSInfo_def ServerRepo_UpdateOSInfo_def bindE_def time_Now_def wrapE_def catchE_def
      db_exec_ok server_update_def server_affected_def Let_def no_faults_def)

lemma s_ID_update_where:
  assumes "\<And>r. s_ID (f r) = s_ID r"
  shows "s_ID ` set (update_where p f rs) = s_ID ` set rs"
  using map_update_where [of p s_ID f rs] assms by (metis set_map)

lemma shows_connections_update:
  assumes "shows_connections h"
    and "w_servers (ah_db h') = update_where (\<lambda>r. s_ID r = s \<and> live_server r) (\<lambda>r. r\<lparr>s_IsOnline := b, s_UpdatedAt := now\<rparr>) (w_servers (ah_db h))"
    and "\<And>i. connected h' i = (if i = s then b else connected h i)"
  shows "shows_connections h'"
  unfolding shows_connections_def assms(2) ball_update_where
  using assms(1,3) by (auto simp: shows_connections_def live_server_def)

lemma status_ok_Serve:
  assumes "status_ok h" and "ah_state h c = Absent" and "one_at_a_time up h (Handshake c r)"
  shows "status_ok (snd (agentws_Serve bc up (server_bus url) c r h))"
proof (cases "agent_credentials up r")
  case (Inl e)
  with assms(1) show ?thesis by (simp add: agentws_Serve_def)
next
  case (Inr sk)
  obtain s k where sk: "sk = (s, k)" by force
  have nf: "no_faults (ah_db h)" using assms(1) by (simp add: status_ok_def)
  obtain v w1 where a: "ServerService_AuthorizeAgent bc s k (ah_db h) = (v, w1)" by force
  note auth = AuthorizeAgent_result [OF nf a]
  show ?thesis
  proof (cases v)
    case (Inl e)
    with Inr sk a auth assms(1) show ?thesis
      by (simp add: agentws_Serve_def status_ok_def shows_connections_def connected_def)
  next
    case (Inr srv)
    obtain w2 now where u: "ServerService_UpdateStatus (server_bus url) s True w1 = (Inr (), w2)" "no_faults w2"
      "w_servers w2 = update_where (\<lambda>r. s_ID r = s \<and> live_server r) (\<lambda>r. r\<lparr>s_IsOnline := True, s_UpdatedAt := now\<rparr>) (w_servers w1)"
      using UpdateStatus_result [of w1 url s True] auth by blast
    let ?h = "h\<lparr>ah_db := w2, ah_state := (ah_state h)(c := Reading), ah_id := (ah_id h)(c := s), ah_register := ah_register h @ [c]\<rparr>"
    have step: "snd (agentws_Serve bc up (server_bus url) c r h) = ?h"
      using \<open>agent_credentials up r = Inr sk\<close> sk a Inr u(1) by (simp add: agentws_Serve_def)
    have new: "\<not> connected h s" using assms(3) \<open>agent_credentials up r = Inr sk\<close> sk by simp
    have con: "connected ?h i = (if i = s then True else connected h i)" for i
      using assms(2) by (auto simp: connected_def) (metis client_state.distinct(1))
    have "s_ID ` set (w_servers w2) = s_ID ` set (w_servers (ah_db h))"
      using u(3) auth by (simp add: s_ID_update_where)
    moreover have "shows_connections ?h"
      by (rule shows_connections_update [where h = h and s = s and b = True and now = now])
        (use assms(1) u(3) auth con in \<open>simp_all add: status_ok_def\<close>)
    ultimately show ?thesis
      unfolding step using assms(1) auth u(2) Inr new by (auto simp: status_ok_def connected_def)
  qed
qed

lemma status_ok_end:
  assumes "status_ok h" and "ah_state h c = Reading"
  shows "status_ok (agent_readPump_end (server_bus url) c h)"
proof (cases "queued c (ah_unregister h)")
  case None
  with assms(1) show ?thesis by (simp add: agent_readPump_end_def)
next
  case (Some q)
  have nf: "no_faults (ah_db h)" using assms(1) by (simp add: status_ok_def)
  obtain w2 now where u: "ServerService_UpdateStatus (server_bus url) (ah_id h c) False (ah_db h) = (Inr (), w2)" "no_faults w2"
    "w_servers w2 = update_where (\<lambda>r. s_ID r = ah_id h c \<and> live_server r) (\<lambda>r. r\<lparr>s_IsOnline := False, s_UpdatedAt := now\<rparr>) (w_servers (ah_db h))"
    using UpdateStatus_result [OF nf, of url "ah_id h c" False] by blast
  let ?h = "h\<lparr>ah_unregister := q, ah_state := (ah_state h)(c := Gone), ah_db := w2\<rparr>"
  have con: "connected ?h i = (if i = ah_id h c then False else connected h i)" for i
    using assms by (auto simp: connected_def status_ok_def)
  have "s_ID ` set (w_servers w2) = s_ID ` set (w_servers (ah_db h))"
    using u(3) by (simp add: s_ID_update_where)
  moreover have "shows_connections ?h"
    by (rule shows_connections_update [where h = h and s = "ah_id h c" and b = False and now = now])
      (use assms(1) u(3) con in \<open>simp_all add: status_ok_def\<close>)
  ultimately have "status_ok ?h" using assms(1) u(2) by (auto simp: status_ok_def)
  with Some u(1) show ?thesis by (simp add: agent_readPump_end_def)
qed

lemma status_ok_info:
  assumes "status_ok h"
  shows "status_ok (agent_readPump c m h)"
proof (cases m)
  case (ServerOSInfo payload)
  show ?thesis
  proof (cases payload)
    case (Some info)
    have nf: "no_faults (ah_db h)" using assms by (simp add: status_ok_def)
    obtain now where u: "no_faults (snd (ServerService_UpdateOSInfo (ah_id h c) info (ah_db h)))"
      "w_servers (snd (ServerService_UpdateOSInfo (ah_id h c) info (ah_db h))) = update_where (\<lambda>r. s_ID r = ah_id h c \<and> live_server r)
         (\<lambda>r. r\<lparr>s_OSInfo := Some info, s_UpdatedAt := now\<rparr>) (w_servers (ah_db h))"
      by (rule UpdateOSInfo_result [OF nf])
    show ?thesis
      using assms u ServerOSInfo Some
      by (simp add: status_ok_def shows_connections_def connected_def ball_update_where live_server_def s_ID_update_where)
  qed (use assms ServerOSInfo in simp)
qed (use assms in simp)

lemma agent_step_ok:
  assumes "router_ok h \<and> status_ok h" and "one_at_a_time up h a"
  shows "\<exists>h'. agent_step bc up (server_bus url) h a = Some h' \<and> router_ok h' \<and> status_ok h'"
proof (cases a)
  case (Handshake c r)
  with assms router_ok_Serve status_ok_Serve show ?thesis by auto
next
  case (AgentSays c m)
  have "router_ok (agent_readPump c m h)"
    using assms(1) by (cases "(c, m, h)" rule: agent_readPump.cases) (simp_all add: router_ok_def)
  with AgentSays assms(1) status_ok_info show ?thesis by (auto simp: pumps_started_def)
next
  case (AgentLeaves c)
  have "router_ok (agent_readPump_end (server_bus url) c h)"
    using assms(1) by (auto simp: agent_readPump_end_def router_ok_def split: option.split)
  with AgentLeaves assms(1) status_ok_end show ?thesis by (auto simp: pumps_started_def)
next
  case (RouterTakes s)
  show ?thesis
  proof (cases "ah_stopped h")
    case False
    with router_ok_Run [of h s] assms(1) obtain h' where "Router_Run s h = Some h'" "router_ok h'"
      "ah_state h' = ah_state h" "ah_id h' = ah_id h" "ah_db h' = ah_db h" by blast
    with RouterTakes False assms(1) show ?thesis
      by (simp add: status_ok_def shows_connections_def connected_def)
  qed (use assms RouterTakes in simp)
next
  case (OtherParts w)
  have gone: "\<not> connected h i" if "i \<notin> s_ID ` set (w_servers (ah_db h))" for i
    using that assms(1) by (auto simp: connected_def status_ok_def)
  have con: "connected (h\<lparr>ah_db := w\<rparr>) i = connected h i" for i
    by (simp add: connected_def)
  have others: "no_faults w" "s_ID ` set (w_servers (ah_db h)) \<subseteq> s_ID ` set (w_servers w)"
    using assms(2) OtherParts by simp_all
  have "s_IsOnline r = connected h (s_ID r)" if r: "r \<in> set (w_servers w)" "live_server r" for r
  proof -
    have "(\<exists>r0\<in>set (w_servers (ah_db h)). live_server r0 \<and> s_ID r0 = s_ID r \<and> s_IsOnline r0 = s_IsOnline r) \<or>
        (\<not> s_IsOnline r \<and> s_ID r \<notin> s_ID ` set (w_servers (ah_db h)))"
      using assms(2) OtherParts r by simp
    then show ?thesis
    proof
      assume "\<exists>r0\<in>set (w_servers (ah_db h)). live_server r0 \<and> s_ID r0 = s_ID r \<and> s_IsOnline r0 = s_IsOnline r"
      then obtain r0 where r0: "r0 \<in> set (w_servers (ah_db h))" "live_server r0" "s_ID r0 = s_ID r" "s_IsOnline r0 = s_IsOnline r"
        by blast
      with connected_row [OF _ r0(1,2)] assms(1) show ?thesis by (simp add: status_ok_def)
    next
      assume "\<not> s_IsOnline r \<and> s_ID r \<notin> s_ID ` set (w_servers (ah_db h))"
      with gone show ?thesis by simp
    qed
  qed
  then have "shows_connections (h\<lparr>ah_db := w\<rparr>)" by (simp add: shows_connections_def con)
  moreover have "router_ok (h\<lparr>ah_db := w\<rparr>)" using assms(1) by (simp add: router_ok_def)
  ultimately have "status_ok (h\<lparr>ah_db := w\<rparr>)" using assms(1) others by (auto simp: status_ok_def)
  with \<open>router_ok (h\<lparr>ah_db := w\<rparr>)\<close> OtherParts show ?thesis by simp
qed

lemma agents_run_ok:
  "router_ok h \<and> status_ok h \<Longrightarrow> one_at_a_time_run bc up (server_bus url) h steps \<Longrightarrow>
    \<exists>h'. agents_run bc up (server_bus url) h steps = Some h' \<and> router_ok h' \<and> status_ok h'"
proof (induction steps arbitrary: h)
  case (Cons a steps)
  then have one: "one_at_a_time up h a" by simp
  from agent_step_ok [OF Cons.prems(1) one, of bc url] obtain h1 where "agent_step bc up (server_bus url) h a = Some h1"
    "router_ok h1 \<and> status_ok h1" by blast
  with Cons.prems(2) Cons.IH [of h1] show ?case by simp
qed simp

text \<open>
  C30. The dashboards see which agents are connected, when the control plane starts with all servers
  offline and the database does not fail: after any run in which a server's agent connects only when
  its last connection has ended, a server is online exactly if its agent has a connection; and no
  such run ends in a panic. (Nothing in the code puts the servers offline at a start.)
\<close>

theorem status_follows_connection:
  assumes "no_faults w" and "\<forall>r\<in>set (w_servers w). live_server r \<longrightarrow> \<not> s_IsOnline r"
    and "one_at_a_time_run bc up (server_bus url) (NewAgentHub w) steps"
  shows "\<exists>h. agents_run bc up (server_bus url) (NewAgentHub w) steps = Some h \<and>
    (\<forall>r\<in>set (w_servers (ah_db h)). live_server r \<longrightarrow> s_IsOnline r = connected h (s_ID r))"
proof -
  have "status_ok (NewAgentHub w)"
    using assms(1,2) by (simp add: status_ok_def shows_connections_def connected_def NewAgentHub_def)
  with agents_run_ok [OF _ assms(3)] router_ok_New show ?thesis
    by (auto simp: status_ok_def shows_connections_def)
qed

text \<open>An agent connects, reports its system, and leaves.\<close>

definition demo_handshake :: Request where
  "demo_handshake = \<lparr>rq_Method = ''GET'', rq_Path = [''ws'', ''agent''], rq_PathValue = (\<lambda>_. []), rq_Query = (\<lambda>_. []),
     rq_Header = (\<lambda>k. if k = ''Authorization'' then ''Bearer 4.secret'' else []), rq_Cookie = (\<lambda>_. None), rq_Body = None,
     rq_RemoteAddr = [], rq_User = None, rq_ServerID = None\<rparr>"

definition demo_bcrypt :: Bcrypt where
  "demo_bcrypt = \<lparr>GenerateFromPassword = (\<lambda>salt pw. Some pw), CompareHashAndPassword = (\<lambda>hash pw. True)\<rparr>"

definition offline_world :: world where
  "offline_world = empty_world\<lparr>w_servers := [Server.extend (Server0\<lparr>s_ID := 4\<rparr>) \<lparr>s_DeletedAt = None\<rparr>]\<rparr>"

definition demo_visit :: "agent_act list" where
  "demo_visit = [RouterTakes RouterRegister, AgentSays 1 UnknownEvent, Handshake 1 demo_handshake, RouterTakes RouterRegister]"

lemma demo_credentials: "agent_credentials (\<lambda>_. Some 4) demo_handshake = Inr (4, ''secret'')"
  by (simp add: agent_credentials_def demo_handshake_def ValidateAgentCredentials_def)

theorem status_follows_connection_witness:
  "\<forall>url. \<exists>h. agents_run demo_bcrypt (\<lambda>_. Some 4) (server_bus url) (NewAgentHub offline_world) demo_visit = Some h \<and>
    (\<forall>r\<in>set (w_servers (ah_db h)). live_server r \<longrightarrow> s_IsOnline r = connected h (s_ID r))"
proof
  fix url
  have free: "\<not> connected (NewAgentHub offline_world) 4" by (simp add: connected_def NewAgentHub_def)
  have "one_at_a_time_run demo_bcrypt (\<lambda>_. Some 4) (server_bus url) (NewAgentHub offline_world) demo_visit"
    using free by (simp add: demo_visit_def demo_credentials NewAgentHub_def split: option.split)
  moreover have "no_faults offline_world" "\<forall>r\<in>set (w_servers offline_world). live_server r \<longrightarrow> \<not> s_IsOnline r"
    by (simp_all add: offline_world_def empty_world_def no_faults_def Server.extend_def Server0_def)
  ultimately show "\<exists>h. agents_run demo_bcrypt (\<lambda>_. Some 4) (server_bus url) (NewAgentHub offline_world) demo_visit = Some h \<and>
    (\<forall>r\<in>set (w_servers (ah_db h)). live_server r \<longrightarrow> s_IsOnline r = connected h (s_ID r))"
    by (intro status_follows_connection)
qed

end
