(* ===== verification/Box.thy ===== *)
theory Box
  imports Executor Http
begin

text \<open>
  The machine as the command line tool \<open>horizonx\<close> works on it (\<open>internal/app\<close>): the files,
  directories, clock and commands of theory \<open>Host\<close>, and in \<open>ho_Out\<close> what is the tool's own: its
  environment, standard input and the names of its temporary files. \<open>Lib\<close> holds what is not the
  program's: commands, the network, hashing, unpacking and JSON, the random generator, and the
  constants of the build. File modes, progress messages and the duration of file operations are
  not modelled.
\<close>

section \<open>State\<close>

text \<open>
  \<open>bx_Env\<close> gives the empty string for an unset variable, as \<open>os.Getenv\<close> does. \<open>bx_Stdin\<close> are the
  chunks successive reads of standard input return. \<open>bx_TempName\<close> and \<open>bx_Rand\<close> are the sources of
  random names and bytes; the \<open>n\<close>-th read of random bytes may fail. \<open>bx_Shown\<close> are the credentials
  shown to the user.
\<close>

record Box =
  bx_Env :: "string \<Rightarrow> string"
  bx_Stdin :: "string list"
  bx_TempName :: "nat \<Rightarrow> string"
  bx_Temps :: nat
  bx_Rand :: "nat \<Rightarrow> nat \<Rightarrow> string option"
  bx_Reads :: nat
  bx_Shown :: "(string \<times> string) list"

type_synonym 'd box = "('d, Box) Host"

record Response =
  hr_Status :: nat
  hr_StatusText :: string
  hr_Body :: string
  hr_Err :: "error option"

record TarEntry =
  tr_Reg :: bool
  tr_Name :: string
  tr_Body :: string
  tr_Err :: "error option"

text \<open>
  \<open>lb_Get timeout url\<close> is a GET request: how long it took and the response, whose body may break
  off with an error. \<open>lb_order\<close> is the order in which a loop runs through a map, \<open>lb_uuid\<close> makes a
  UUID of the state of the random generator. \<open>lb_LookPath\<close> says which programs are on the path,
  \<open>lb_Dial\<close> and \<open>lb_Listen\<close> which addresses answer and which are free, \<open>lb_Glob\<close> which files match a pattern, \<open>lb_Unit\<close> is the embedded unit file. \<open>lb_gunzip\<close> unpacks a compressed archive: an error of the header, or the entries
  in front of the end or of an error. \<open>lb_Exec\<close> is the process the given program replaces the tool
  by; it fails when the program cannot be started.
\<close>

record 'd Lib =
  lb_progs :: "('d, Box) Programs"
  lb_Get :: "nat \<Rightarrow> string \<Rightarrow> 'd box \<Rightarrow> nat \<times> (error + Response)"
  lb_sha256 :: "string \<Rightarrow> string"
  lb_gunzip :: "string \<Rightarrow> error + TarEntry list \<times> error option"
  lb_order :: "(string \<times> string) list \<Rightarrow> (string \<times> string) list"
  lb_uuid :: "nat \<Rightarrow> string"
  lb_Getwd :: "error + string"
  lb_LookPath :: "string \<Rightarrow> bool"
  lb_Dial :: "string \<Rightarrow> string \<Rightarrow> 'd box \<Rightarrow> bool"
  lb_Listen :: "string \<Rightarrow> 'd box \<Rightarrow> bool"
  lb_Glob :: "string \<Rightarrow> 'd box \<Rightarrow> string list"
  lb_Hostname :: "error + string"
  lb_Unit :: "string \<Rightarrow> error + string"
  lb_Euid :: nat
  lb_Pid :: nat
  lb_OwnerWrite :: "string \<Rightarrow> 'd box \<Rightarrow> bool"
  lb_json :: "string \<Rightarrow> error + json"
  lb_Executable :: "error + string"
  lb_Exec :: "string \<Rightarrow> ('d box, unit) op"
  lb_GOOS :: string
  lb_GOARCH :: string
  lb_Version :: string

section \<open>System calls\<close>

definition os_Getenv :: "string \<Rightarrow> 'd box \<Rightarrow> string" where
  "os_Getenv key h = bx_Env (ho_Out h) key"

definition os_Setenv :: "string \<Rightarrow> string \<Rightarrow> ('d box, unit) op" where
  "os_Setenv key v = modifyE (\<lambda>h. h\<lparr>ho_Out := (ho_Out h)\<lparr>bx_Env := (bx_Env (ho_Out h))(key := v)\<rparr>\<rparr>)"

definition os_ReadFile :: "string \<Rightarrow> (('d, 'o) Host, string) op" where
  "os_ReadFile p = syscall (\<lambda>h. case ho_Files h p of
     Some s \<Rightarrow> (Inr s, h) | None \<Rightarrow> (Inl (ErrMsg ''no such file or directory''), h))"

text \<open>Writing to an open file, at its end.\<close>

definition os_Write :: "string \<Rightarrow> string \<Rightarrow> (('d, 'o) Host, unit) op" where
  "os_Write p data = syscall (\<lambda>h. case ho_Files h p of
     Some s \<Rightarrow> (Inr (), h\<lparr>ho_Files := (ho_Files h)(p := Some (s @ data))\<rparr>)
   | None \<Rightarrow> (Inl (ErrMsg ''no such file or directory''), h))"

definition os_Create :: "string \<Rightarrow> (('d, 'o) Host, unit) op" where
  "os_Create p = os_WriteFile p []"

text \<open>\<open>os.WriteFile\<close> empties the file, then writes it; either may fail.\<close>

definition write_file :: "string \<Rightarrow> string \<Rightarrow> (('d, 'o) Host, unit) op" where
  "write_file p data = bindE (os_Create p) (\<lambda>_. os_Write p data)"

text \<open>The tool removes files only.\<close>

definition os_Remove :: "string \<Rightarrow> (('d, 'o) Host, unit) op" where
  "os_Remove p = syscall (\<lambda>h. case ho_Files h p of
     Some s \<Rightarrow> (Inr (), h\<lparr>ho_Files := (ho_Files h)(p := None)\<rparr>)
   | None \<Rightarrow> (Inl (ErrMsg ''no such file or directory''), h))"

definition os_Rename :: "string \<Rightarrow> string \<Rightarrow> (('d, 'o) Host, unit) op" where
  "os_Rename old new = syscall (\<lambda>h. case ho_Files h old of
     Some s \<Rightarrow> if \<not> ho_Dirs h new \<and> ho_Dirs h (parent_dir new)
       then (Inr (), h\<lparr>ho_Files := (ho_Files h)(old := None, new := Some s)\<rparr>)
       else (Inl (ErrMsg ''cannot rename''), h)
   | None \<Rightarrow> (Inl (ErrMsg ''no such file or directory''), h))"

text \<open>The mode is not modelled; changing it may fail.\<close>

definition os_Chmod :: "string \<Rightarrow> (('d, 'o) Host, unit) op" where
  "os_Chmod p = syscall (\<lambda>h. if ho_Files h p \<noteq> None \<or> ho_Dirs h p then (Inr (), h)
     else (Inl (ErrMsg ''no such file or directory''), h))"

definition os_TempDir :: "'d box \<Rightarrow> string" where
  "os_TempDir h = (if os_Getenv ''TMPDIR'' h = [] then ''/tmp'' else os_Getenv ''TMPDIR'' h)"

text \<open>
  \<open>os.CreateTemp("", pattern)\<close>: the last \<open>*\<close> of the pattern is replaced by a random string, up to
  10000 times until the name is new.
\<close>

definition temp_pattern :: "string \<Rightarrow> string \<times> string" where
  "temp_pattern pattern = (case split2 (CHR ''*'') (rev pattern) of
     (b, Some a) \<Rightarrow> (rev a, rev b) | (_, None) \<Rightarrow> (pattern, []))"

definition temp_open :: "string \<Rightarrow> ('d box, bool) op" where
  "temp_open p = syscall (\<lambda>h. if ho_Files h p \<noteq> None \<or> ho_Dirs h p then (Inr False, h)
     else if ho_Dirs h (parent_dir p) then (Inr True, h\<lparr>ho_Files := (ho_Files h)(p := Some [])\<rparr>)
     else (Inl (ErrMsg ''no such file or directory''), h))"

fun temp_loop :: "nat \<Rightarrow> string \<Rightarrow> string \<Rightarrow> ('d box, string) op" where
  "temp_loop n pre post h =
    (if n = 0 then (Inl (ErrMsg ''file exists''), h)
     else let p = pre @ bx_TempName (ho_Out h) (bx_Temps (ho_Out h)) @ post;
              h1 = h\<lparr>ho_Out := (ho_Out h)\<lparr>bx_Temps := Suc (bx_Temps (ho_Out h))\<rparr>\<rparr>
       in case temp_open p h1 of
            (Inl e, h2) \<Rightarrow> (Inl e, h2)
          | (Inr True, h2) \<Rightarrow> (Inr p, h2)
          | (Inr False, h2) \<Rightarrow> temp_loop (n - 1) pre post h2)"

declare temp_loop.simps [simp del]

definition join_path :: "string \<Rightarrow> string \<Rightarrow> string" where
  "join_path dir name = (if has_suffix dir [slash] then dir @ name else dir @ slash # name)"

definition os_CreateTemp :: "string \<Rightarrow> ('d box, string) op" where
  "os_CreateTemp pattern h = (let (pre, post) = temp_pattern pattern
     in temp_loop 10000 (join_path (os_TempDir h) pre) post h)"

text \<open>\<open>crypto/rand.Read\<close>.\<close>

definition box_rand :: "nat \<Rightarrow> ('d box, string) op" where
  "box_rand n h = (let h' = h\<lparr>ho_Out := (ho_Out h)\<lparr>bx_Reads := Suc (bx_Reads (ho_Out h))\<rparr>\<rparr>
     in case bx_Rand (ho_Out h) (bx_Reads (ho_Out h)) n of
          Some bytes \<Rightarrow> (Inr bytes, h') | None \<Rightarrow> (Inl (ErrMsg ''entropy source failed''), h'))"

text \<open>\<open>defer\<close>: the clean-up runs however the body ends, its result is dropped.\<close>

definition deferE :: "('s, 'b) op \<Rightarrow> ('s, 'a) op \<Rightarrow> ('s, 'a) op" where
  "deferE cleanup m = (\<lambda>h. case m h of (r, h') \<Rightarrow> (r, snd (cleanup h')))"

text \<open>\<open>if err := m; err != nil { cleanup; return err }\<close>.\<close>

definition orelseE :: "('s, 'b) op \<Rightarrow> ('s, 'a) op \<Rightarrow> ('s, 'a) op" where
  "orelseE cleanup m = catchE m (\<lambda>e. bindE (ignoreE cleanup) (\<lambda>_. failE e))"

definition os_UserHomeDir :: "'d box \<Rightarrow> error + string" where
  "os_UserHomeDir h = (if os_Getenv ''HOME'' h = [] then Inl (ErrMsg ''$HOME is not defined'')
     else Inr (os_Getenv ''HOME'' h))"

text \<open>Whether \<open>os.Stat\<close> succeeds.\<close>

definition stat_ok :: "string \<Rightarrow> ('d, 'o) Host \<Rightarrow> bool \<times> ('d, 'o) Host" where
  "stat_ok p h = (case os_Stat p h of (Inr _, h') \<Rightarrow> (True, h') | (Inl _, h') \<Rightarrow> (False, h'))"

section \<open>Network and commands\<close>

definition http_Get :: "'d Lib \<Rightarrow> nat \<Rightarrow> string \<Rightarrow> ('d box, Response) op" where
  "http_Get L timeout url h = (let (d, r) = lb_Get L timeout url h
     in (r, h\<lparr>ho_Now := ho_Now h + int d\<rparr>))"

text \<open>\<open>io.Copy\<close> of a body into an open file.\<close>

definition copy_to :: "string \<Rightarrow> string \<Rightarrow> error option \<Rightarrow> ('d box, unit) op" where
  "copy_to p body err = bindE (os_Write p body) (\<lambda>_.
     case err of None \<Rightarrow> returnE () | Some e \<Rightarrow> failE e)"

text \<open>
  \<open>exec.Command(name, args).Output()\<close> and \<open>CombinedOutput()\<close>: what the command printed on the
  streams that are read, and its error.
\<close>

definition command :: "string \<Rightarrow> string list \<Rightarrow> Command" where
  "command name args = \<lparr>cm_workDir = [], cm_name = name, cm_args = args\<rparr>"

definition exec_read :: "'d Lib \<Rightarrow> (string \<Rightarrow> bool) \<Rightarrow> Ctx \<Rightarrow> string \<Rightarrow> string list \<Rightarrow> ('d, Box) run" where
  "exec_read L streams ctx name args h =
    (let c = command name args; oc = lb_progs L ctx c h in
     case oc_Start oc of
       Some e \<Rightarrow> (([], Some e), h\<lparr>ho_Log := ho_Log h @ [(c, False)]\<rparr>)
     | None \<Rightarrow>
        ((concat (map (\<lambda>(d, s, text). text) (filter (\<lambda>(d, s, text). streams s) (oc_Lines oc))), oc_Exit oc),
         h\<lparr>ho_Now := ho_Now h + int (sum_list (map fst (oc_Lines oc)) + oc_Took oc),
           ho_Files := oc_Files oc, ho_Dirs := oc_Dirs oc, ho_Rest := oc_Rest oc,
           ho_Log := ho_Log h @ [(c, oc_Exit oc = None)]\<rparr>))"

definition Background :: Ctx where
  "Background = \<lparr>cx_Done = None, cx_Pick = (\<lambda>_. False)\<rparr>"

definition exec_Output :: "'d Lib \<Rightarrow> string \<Rightarrow> string list \<Rightarrow> ('d, Box) run" where
  "exec_Output L = exec_read L (\<lambda>s. s = StreamStdout) Background"

definition exec_CombinedOutput :: "'d Lib \<Rightarrow> string \<Rightarrow> string list \<Rightarrow> ('d, Box) run" where
  "exec_CombinedOutput L = exec_read L (\<lambda>s. True) Background"

text \<open>\<open>preflight.go\<close>'s \<open>runCommand\<close>.\<close>

definition runCommand :: "'d Lib \<Rightarrow> Ctx \<Rightarrow> string \<Rightarrow> string list \<Rightarrow> ('d, Box) run" where
  "runCommand L = exec_read L (\<lambda>s. s = StreamStdout)"

section \<open>Strings\<close>

text \<open>\<open>strings.Fields\<close>: the pieces between runs of white space.\<close>

fun fields_acc :: "string \<Rightarrow> string \<Rightarrow> string list" where
  "fields_acc acc [] = (if acc = [] then [] else [rev acc])"
| "fields_acc acc (c # s) = (if is_space c then (if acc = [] then [] else [rev acc]) @ fields_acc [] s
     else fields_acc (c # acc) s)"

definition Fields :: "string \<Rightarrow> string list" where
  "Fields s = fields_acc [] s"

definition path_Base :: "string \<Rightarrow> string" where
  "path_Base p = (if p = [] then ''.''
     else let q = rev (dropWhile (\<lambda>c. c = slash) (rev p))
       in if q = [] then [slash] else rev (takeWhile (\<lambda>c. c \<noteq> slash) (rev q)))"

lemma fields_acc_word: "\<forall>c\<in>set a. \<not> is_space c \<Longrightarrow> fields_acc acc (a @ s) = fields_acc (rev a @ acc) s"
  by (induction a arbitrary: acc) auto

lemma Fields_two:
  assumes "a \<noteq> []" "b \<noteq> []" "\<forall>c\<in>set a \<union> set b. \<not> is_space c" "is_space x" "is_space y"
  shows "Fields (a @ [x, y] @ b) = [a, b]"
  using assms fields_acc_word [of a "[]"] fields_acc_word [of b "[]" "[]"]
  by (auto simp: Fields_def)

end
