(* ===== verification/SelfUpdate.thy ===== *)
theory SelfUpdate
  imports Box
begin

text \<open>
  The first half of \<open>horizonx upgrade\<close> (\<open>internal/app/upgrade.go\<close>): the lookup of the latest
  release, the download of its archive and checksums, and the replacement of the running binary.
\<close>

definition githubAPI :: string where
  "githubAPI = ''https://api.github.com/repos/zlnew/horizonx/releases/latest''"
definition githubDL :: string where
  "githubDL = ''https://github.com/zlnew/horizonx/releases/latest/download''"
definition upgradeTime :: nat where "upgradeTime = 60000000000"
definition envComponentsOnly :: string where
  "envComponentsOnly = ''HORIZONX_UPGRADE_COMPONENTS_ONLY''"

section \<open>Downloads\<close>

definition json_string :: "string \<Rightarrow> json \<Rightarrow> error + string" where
  "json_string key j = (case j of
     JObj kvs \<Rightarrow> (case map_of (rev kvs) key of
        None \<Rightarrow> Inr [] | Some JNull \<Rightarrow> Inr [] | Some (JStr s) \<Rightarrow> Inr s
      | Some _ \<Rightarrow> Inl (ErrMsg ''json: cannot unmarshal into string''))
   | JNull \<Rightarrow> Inr []
   | _ \<Rightarrow> Inl (ErrMsg ''json: cannot unmarshal into struct''))"

definition latestRelease :: "'d Lib \<Rightarrow> ('d box, string) op" where
  "latestRelease L =
     bindE (wrapE ''check latest release'' (http_Get L upgradeTime githubAPI)) (\<lambda>resp.
     if hr_Status resp \<noteq> 200
     then failE (ErrMsg (''check latest release: GitHub returned '' @ show_nat (hr_Status resp)))
     else case hr_Err resp of Some e \<Rightarrow> failE (Wrapped ''parse release'' e) | None \<Rightarrow>
       (case lb_json L (hr_Body resp) of Inl e \<Rightarrow> failE (Wrapped ''parse release'' e)
        | Inr j \<Rightarrow> (case json_string ''tag_name'' j of
            Inl e \<Rightarrow> failE (Wrapped ''parse release'' e) | Inr tag \<Rightarrow> returnE tag)))"

definition download :: "'d Lib \<Rightarrow> string \<Rightarrow> string \<Rightarrow> ('d box, string) op" where
  "download L url name =
     bindE (http_Get L upgradeTime url) (\<lambda>resp.
     if hr_Status resp \<noteq> 200
     then failE (ErrMsg (''download '' @ name @ '': HTTP '' @ show_nat (hr_Status resp)))
     else bindE (os_CreateTemp (''horizonx-'' @ name @ ''-*'')) (\<lambda>tmp.
       bindE (orelseE (os_Remove tmp) (copy_to tmp (hr_Body resp) (hr_Err resp))) (\<lambda>_.
       returnE tmp)))"

section \<open>Checksum and archive\<close>

fun sum_of :: "string \<Rightarrow> string list \<Rightarrow> string option" where
  "sum_of asset [] = None"
| "sum_of asset (line # ls) =
     (case Fields line of
        [want, name] \<Rightarrow> if name = asset then Some want else sum_of asset ls
      | _ \<Rightarrow> sum_of asset ls)"

definition checksumFor :: "string \<Rightarrow> string \<Rightarrow> ('d box, string) op" where
  "checksumFor sumsPath asset =
     bindE (os_ReadFile sumsPath) (\<lambda>data.
     case sum_of asset (split_on LF data) of
       Some s \<Rightarrow> returnE s
     | None \<Rightarrow> failE (ErrMsg (''checksum for '' @ asset @ '' not found'')))"

definition verifySHA256 :: "'d Lib \<Rightarrow> string \<Rightarrow> string \<Rightarrow> ('d box, unit) op" where
  "verifySHA256 L path wantHex =
     bindE (os_ReadFile path) (\<lambda>data.
     let got = hex_encode (lb_sha256 L data)
     in if got \<noteq> to_lower wantHex
        then failE (ErrMsg (''checksum mismatch: got '' @ got @ '', want '' @ wantHex)) else returnE ())"

text \<open>
  The archive is read up to the entry named after the binary. The name of the first regular entry
  is kept: if there is no such entry, the archive is read again up to an entry of that name.
\<close>

definition writeExtracted :: "TarEntry \<Rightarrow> ('d box, string) op" where
  "writeExtracted entry =
     bindE (os_CreateTemp ''horizonx-newbin-*'') (\<lambda>tmp.
     bindE (orelseE (os_Remove tmp) (copy_to tmp (tr_Body entry) (tr_Err entry))) (\<lambda>_.
     bindE (orelseE (os_Remove tmp) (os_Chmod tmp)) (\<lambda>_.
     returnE tmp)))"

fun find_named :: "string \<Rightarrow> string \<Rightarrow> TarEntry list \<Rightarrow> TarEntry + string" where
  "find_named binName fallback [] = Inr fallback"
| "find_named binName fallback (t # ts) =
    (if \<not> tr_Reg t then find_named binName fallback ts
     else if path_Base (tr_Name t) = binName then Inl t
     else find_named binName (if fallback = [] then tr_Name t else fallback) ts)"

definition extractBinary :: "'d Lib \<Rightarrow> string \<Rightarrow> string \<Rightarrow> ('d box, string) op" where
  "extractBinary L tarball binName =
     bindE (os_ReadFile tarball) (\<lambda>data.
     case lb_gunzip L data of
       Inl e \<Rightarrow> failE e
     | Inr (entries, err) \<Rightarrow>
        (case find_named binName [] entries of
           Inl t \<Rightarrow> writeExtracted t
         | Inr fallback \<Rightarrow>
            (case err of
               Some e \<Rightarrow> failE e
             | None \<Rightarrow>
                (case (if fallback = [] then None
                       else find (\<lambda>t. tr_Reg t \<and> tr_Name t = fallback) entries) of
                   Some t \<Rightarrow> writeExtracted t
                 | None \<Rightarrow> failE (ErrMsg (binName @ '' not found in release tarball''))))))"

section \<open>Replacing the binary\<close>

definition replaceBinary :: "string \<Rightarrow> string \<Rightarrow> ('d box, unit) op" where
  "replaceBinary newBin exe =
    (let backup = exe @ ''.old'' in
     bindE (ignoreE (os_Remove backup)) (\<lambda>_.
     bindE (wrapE ''backup current binary'' (os_Rename exe backup)) (\<lambda>_.
     bindE (catchE (os_Rename newBin exe) (\<lambda>e.
       bindE (ignoreE (os_Rename backup exe)) (\<lambda>_. failE (Wrapped ''install new binary'' e)))) (\<lambda>_.
     ignoreE (os_Remove backup)))))"

definition asset_name :: "'d Lib \<Rightarrow> string" where
  "asset_name L = ''horizonx-'' @ lb_GOOS L @ ''-'' @
     (if lb_GOARCH L = ''amd64'' then ''x86_64'' else lb_GOARCH L) @ ''.tar.gz''"

text \<open>\<open>andthen\<close> is what \<open>RunUpgrade\<close> does after the swap, under the same deferred clean-ups.\<close>

definition self_update :: "'d Lib \<Rightarrow> (string \<Rightarrow> ('d box, unit) op) \<Rightarrow> ('d box, unit) op" where
  "self_update L andthen =
    (case lb_Executable L of
       Inl e \<Rightarrow> failE (Wrapped ''resolve executable'' e)
     | Inr exe \<Rightarrow>
        bindE (download L (githubDL @ slash # asset_name L) (asset_name L)) (\<lambda>tarball.
        deferE (os_Remove tarball) (
        bindE (download L (githubDL @ ''/SHA256SUMS'') ''SHA256SUMS'') (\<lambda>sums.
        deferE (os_Remove sums) (
        bindE (checksumFor sums (asset_name L)) (\<lambda>want.
        bindE (verifySHA256 L tarball want) (\<lambda>_.
        bindE (extractBinary L tarball ''horizonx'') (\<lambda>newBin.
        deferE (os_Remove newBin) (
        bindE (replaceBinary newBin exe) (\<lambda>_. andthen exe))))))))))"

section \<open>What the update does to a file\<close>

text \<open>\<open>stays p\<close>: a file at \<open>p\<close>, if there is one, is as it was, and so is the directory of temporary files.\<close>

definition stays :: "string \<Rightarrow> 'd box \<Rightarrow> 'd box \<Rightarrow> bool" where
  "stays p h h' \<longleftrightarrow> os_TempDir h' = os_TempDir h \<and>
     (ho_Files h p \<noteq> None \<longrightarrow> ho_Files h' p = ho_Files h p)"

interpretation file_stays: guarantee "stays p" for p
  by unfold_locales (auto simp: stays_def)

lemma os_TempDir_more [simp]:
  "os_TempDir (h\<lparr>ho_Calls := n\<rparr>) = os_TempDir h" "os_TempDir (h\<lparr>ho_Files := f\<rparr>) = os_TempDir h"
  "os_TempDir (h\<lparr>ho_Now := t\<rparr>) = os_TempDir h"
  "os_TempDir (h\<lparr>ho_Out := (ho_Out h)\<lparr>bx_Temps := n\<rparr>\<rparr>) = os_TempDir h"
  by (simp_all add: os_TempDir_def os_Getenv_def)

lemma syscall_cases:
  assumes "syscall m h = (r, h')"
  obtains e where "r = Inl e" "h' = h\<lparr>ho_Calls := Suc (ho_Calls h)\<rparr>"
  | "m (h\<lparr>ho_Calls := Suc (ho_Calls h)\<rparr>) = (r, h')"
  using assms by (auto simp: syscall_def Let_def split: if_splits)

lemma stays_Remove: "q \<noteq> p \<Longrightarrow> guarantees (stays p) (os_Remove q)"
  by (auto simp: guarantees_def os_Remove_def syscall_def stays_def Let_def split: option.splits)

lemma stays_ReadFile: "guarantees (stays p) (os_ReadFile q :: ('d box, string) op)"
  by (auto simp: guarantees_def os_ReadFile_def syscall_def stays_def Let_def split: option.splits)

lemma stays_Chmod: "guarantees (stays p) (os_Chmod q :: ('d box, unit) op)"
  by (auto simp: guarantees_def os_Chmod_def syscall_def stays_def Let_def)

lemma stays_Write: "q \<noteq> p \<Longrightarrow> guarantees (stays p) (os_Write q data)"
  by (auto simp: guarantees_def os_Write_def syscall_def stays_def Let_def split: option.splits)

lemma stays_Get: "guarantees (stays p) (http_Get L t url)"
  by (auto simp: guarantees_def http_Get_def stays_def split: prod.splits)

lemma stays_copy_to: "q \<noteq> p \<Longrightarrow> guarantees (stays p) (copy_to q body err)"
  unfolding copy_to_def by (intro file_stays.g_rules stays_Write)

lemma stays_defer: "guarantees (stays p) m \<Longrightarrow> guarantees (stays p) c \<Longrightarrow> guarantees (stays p) (deferE c m)"
  by (auto simp: guarantees_def deferE_def split: prod.splits)
    (metis file_stays.trans snd_conv)

lemma stays_orelse: "guarantees (stays p) m \<Longrightarrow> guarantees (stays p) c \<Longrightarrow> guarantees (stays p) (orelseE c m)"
  unfolding orelseE_def by (intro file_stays.g_rules)

text \<open>A temporary file is new, in the directory of temporary files, and empty.\<close>

lemma temp_loop_effect:
  assumes "temp_loop n pre post h = (r, h')"
  shows "stays p h h' \<and> (\<forall>q. r = Inr q \<longrightarrow> ho_Files h q = None \<and> ho_Files h' q = Some [] \<and> has_prefix q pre)"
  using assms
proof (induction n pre post h rule: temp_loop.induct)
  case (1 n pre post h)
  let ?p = "pre @ bx_TempName (ho_Out h) (bx_Temps (ho_Out h)) @ post"
  let ?h = "h\<lparr>ho_Out := (ho_Out h)\<lparr>bx_Temps := Suc (bx_Temps (ho_Out h))\<rparr>\<rparr>"
  obtain b h2 where o: "temp_open ?p ?h = (b, h2)" by force
  have s: "stays p h h2" "ho_Files h2 = (if b = Inr True then (ho_Files h)(?p := Some []) else ho_Files h)"
    "b = Inr True \<Longrightarrow> ho_Files h ?p = None"
    using o by (auto simp: temp_open_def syscall_def stays_def Let_def split: if_splits)
  note t = 1(2) [unfolded temp_loop.simps [of n pre post h] Let_def o]
  show ?case
  proof (cases "n = 0 \<or> b \<noteq> Inr False")
    case True
    with t s show ?thesis
      by (cases b) (auto simp: stays_def has_prefix_def split: if_splits bool.splits)
  next
    case False
    with t have l: "temp_loop (n - 1) pre post h2 = (r, h')" by simp
    have "stays p h2 h' \<and> (\<forall>q. r = Inr q \<longrightarrow> ho_Files h2 q = None \<and> ho_Files h' q = Some [] \<and> has_prefix q pre)"
      by (rule 1(1) [OF _ refl refl o [symmetric] _ _ l]) (use False in auto)
    with False s show ?thesis by (auto intro: file_stays.trans)
  qed
qed

lemma os_CreateTemp_effect:
  assumes "os_CreateTemp pattern h = (r, h')"
  shows "stays p h h'" and "r = Inr q \<Longrightarrow> ho_Files h q = None"
    and "r = Inr q \<Longrightarrow> ho_Files h' q = Some []"
    and "r = Inr q \<Longrightarrow> has_prefix q (join_path (os_TempDir h) (fst (temp_pattern pattern)))"
  using temp_loop_effect [OF assms [unfolded os_CreateTemp_def Let_def case_prod_beta]] by auto

text \<open>What is new is not what was there.\<close>

lemma bindE_cases:
  assumes "bindE m f h = (r, h')"
  obtains e where "m h = (Inl e, h')" "r = Inl e"
  | x h1 where "m h = (Inr x, h1)" "f x h1 = (r, h')"
  using assms by (auto simp: bindE_def split: prod.splits sum.splits)

lemma copy_to_new:
  assumes "copy_to q body err h = (Inr u, h')" and "ho_Files h q = Some []"
  shows "ho_Files h' q = Some body \<and> err = None"
  using assms by (auto simp: copy_to_def os_Write_def syscall_def bindE_def Let_def
    split: option.splits if_splits)

lemma orelseE_Inr: "orelseE c m h = (Inr x, h') \<longleftrightarrow> m h = (Inr x, h')"
  by (auto simp: orelseE_def catchE_def bindE_def ignoreE_def split: prod.splits sum.splits)

lemma temp_file_effect:
  assumes b: "bindE (os_CreateTemp pattern) body h = (r, h')"
    and old: "\<And>tmp. tmp \<noteq> p \<Longrightarrow> guarantees (stays p) (body tmp)"
  shows "ho_Files h p \<noteq> None \<Longrightarrow> stays p h h'"
    and "\<not> has_prefix p (join_path (os_TempDir h) (fst (temp_pattern pattern))) \<Longrightarrow> stays p h h'"
  using b
proof (atomize (full), cases rule: bindE_cases [OF b])
  case (1 e)
  then show "(ho_Files h p \<noteq> None \<longrightarrow> stays p h h') \<and>
      (\<not> has_prefix p (join_path (os_TempDir h) (fst (temp_pattern pattern))) \<longrightarrow> stays p h h')"
    using os_CreateTemp_effect(1) [OF 1(1)] by blast
next
  case (2 q h1)
  note eff = os_CreateTemp_effect [OF 2(1)]
  have "q \<noteq> p \<Longrightarrow> stays p h h'"
    using eff(1) guaranteesD [OF old 2(2)] by (blast intro: file_stays.trans)
  with eff(2,4) show "(ho_Files h p \<noteq> None \<longrightarrow> stays p h h') \<and>
      (\<not> has_prefix p (join_path (os_TempDir h) (fst (temp_pattern pattern))) \<longrightarrow> stays p h h')"
    by (cases "q = p") auto
qed

text \<open>
  A path is \<open>safe\<close> if no temporary file is made there: there is a file, or it is not of the form of
  the tool's temporary files.
\<close>

definition safe :: "string \<Rightarrow> 'd box \<Rightarrow> bool" where
  "safe p h \<longleftrightarrow> ho_Files h p \<noteq> None \<or> \<not> has_prefix p (join_path (os_TempDir h) ''horizonx-'')"

lemma safe_stays: "stays p h h' \<Longrightarrow> safe p h \<Longrightarrow> safe p h'"
  by (auto simp: safe_def stays_def)

lemma has_prefix_shorter: "has_prefix p (a @ b) \<Longrightarrow> has_prefix p a"
  by (auto simp: has_prefix_iff)

lemma join_path_append: "join_path dir (a @ b) = join_path dir a @ b"
  by (simp add: join_path_def)

lemma temp_pattern_star: "temp_pattern (a @ ''*'') = (a, [])"
  by (simp add: temp_pattern_def)

lemma temp_file_safe:
  assumes b: "bindE (os_CreateTemp (''horizonx-'' @ a @ ''*'')) body h = (r, h')"
    and old: "\<And>tmp. tmp \<noteq> p \<Longrightarrow> guarantees (stays p) (body tmp)" and p: "safe p h"
  shows "stays p h h'"
proof -
  have "fst (temp_pattern (''horizonx-'' @ a @ ''*'')) = ''horizonx-'' @ a"
    using temp_pattern_star [of "''horizonx-'' @ a"] by simp
  then show ?thesis
    using temp_file_effect [OF b old] p join_path_append [of "os_TempDir h" "''horizonx-''" a]
      has_prefix_shorter [of p "join_path (os_TempDir h) ''horizonx-''" a]
    unfolding safe_def by metis
qed

lemma download_stays:
  assumes d: "download L url name h = (r, h')" and p: "safe p h"
  shows "stays p h h'"
  using d unfolding download_def
proof (cases rule: bindE_cases)
  case (1 e)
  have "guarantees (stays p) (wrapE m (http_Get L upgradeTime url))" for m
    by (intro file_stays.g_wrap stays_Get)
  with 1 show ?thesis by (meson guaranteesD stays_Get)
next
  case (2 resp h1)
  from guaranteesD [OF stays_Get 2(1)] have s: "stays p h h1" .
  show ?thesis
  proof (cases "hr_Status resp = 200")
    case True
    with 2(2) have "bindE (os_CreateTemp (''horizonx-'' @ (name @ ''-'') @ ''*'')) (\<lambda>tmp.
       bindE (orelseE (os_Remove tmp) (copy_to tmp (hr_Body resp) (hr_Err resp))) (\<lambda>_.
       returnE tmp)) h1 = (r, h')" by simp
    then have "stays p h1 h'"
      by (rule temp_file_safe) (use safe_stays [OF s p] in \<open>auto intro!: file_stays.g_bind
          file_stays.g_return stays_orelse stays_Remove stays_copy_to\<close>)
    with s show ?thesis by (rule file_stays.trans)
  qed (use 2(2) s in simp)
qed

lemma download_result:
  assumes d: "download L url name h = (Inr q, h')"
  shows "\<exists>t resp. lb_Get L upgradeTime url h = (t, Inr resp) \<and> hr_Status resp = 200 \<and> hr_Err resp = None \<and>
    ho_Files h q = None \<and> ho_Files h' q = Some (hr_Body resp)"
  using d unfolding download_def
proof (cases rule: bindE_cases)
  case (2 resp h1)
  from 2(1) obtain t where g: "lb_Get L upgradeTime url h = (t, Inr resp)" "ho_Files h1 = ho_Files h"
    by (auto simp: http_Get_def split: prod.splits)
  from 2(2) have st: "hr_Status resp = 200" by (auto split: if_splits)
  with 2(2) obtain h2 h3 u where t: "os_CreateTemp (''horizonx-'' @ name @ ''-*'') h1 = (Inr q, h2)"
    and c: "orelseE (os_Remove q) (copy_to q (hr_Body resp) (hr_Err resp)) h2 = (Inr u, h3)" and h: "h3 = h'"
    by (auto simp: bindE_Inr_iff)
  from copy_to_new [OF c [unfolded orelseE_Inr] os_CreateTemp_effect(3) [OF t refl]]
    os_CreateTemp_effect(2) [OF t refl] g st h
  show ?thesis by auto
qed simp

lemma writeExtracted_stays: "writeExtracted t h = (r, h') \<Longrightarrow> safe p h \<Longrightarrow> stays p h h'"
  unfolding writeExtracted_def
  by (rule temp_file_safe [where a = "''newbin-''" and h = h and r = r], simp)
    (auto intro!: file_stays.g_bind file_stays.g_return stays_orelse stays_Remove stays_copy_to stays_Chmod)

lemma writeExtracted_result:
  assumes "writeExtracted t h = (Inr q, h')"
  shows "ho_Files h q = None \<and> ho_Files h' q = Some (tr_Body t) \<and> tr_Err t = None"
proof -
  from assms obtain h1 h2 h3 u v where t: "os_CreateTemp ''horizonx-newbin-*'' h = (Inr q, h1)"
    and c: "orelseE (os_Remove q) (copy_to q (tr_Body t) (tr_Err t)) h1 = (Inr u, h2)"
    and m: "orelseE (os_Remove q) (os_Chmod q) h2 = (Inr v, h3)" and h: "h3 = h'"
    by (auto simp: writeExtracted_def bindE_Inr_iff)
  from m have "ho_Files h3 = ho_Files h2"
    by (auto simp: orelseE_Inr os_Chmod_def syscall_def Let_def split: if_splits)
  with copy_to_new [OF c [unfolded orelseE_Inr] os_CreateTemp_effect(3) [OF t refl]]
    os_CreateTemp_effect(2) [OF t refl] h
  show ?thesis by simp
qed

lemma find_named_entry: "find_named b fb ts = Inl t \<Longrightarrow> t \<in> set ts \<and> tr_Reg t"
  by (induction b fb ts rule: find_named.induct) (auto split: if_splits)

lemma ReadFile_Inr: "os_ReadFile p h = (Inr data, h') \<longleftrightarrow>
    h' = h\<lparr>ho_Calls := Suc (ho_Calls h)\<rparr> \<and> ho_Files h p = Some data \<and> \<not> ho_Fails h (ho_Calls h)"
  by (auto simp: os_ReadFile_def syscall_def Let_def split: option.splits)

lemma ReadFile_files: "os_ReadFile p h = (r, h') \<Longrightarrow> ho_Files h' = ho_Files h \<and> os_TempDir h' = os_TempDir h"
  by (auto simp: os_ReadFile_def syscall_def Let_def split: option.splits if_splits)

lemma extractBinary_stays:
  assumes x: "extractBinary L tarball b h = (r, h')" and p: "safe p h"
  shows "stays p h h'"
  using x unfolding extractBinary_def
proof (cases rule: bindE_cases)
  case (1 e)
  then show ?thesis by (auto simp: stays_def dest: ReadFile_files)
next
  case (2 data h1)
  then have s: "stays p h h1" by (auto simp: stays_def ReadFile_Inr)
  have "stays p h1 h'"
    using 2(2) writeExtracted_stays [OF _ safe_stays [OF s p], of _ r h']
    by (auto split: sum.splits prod.splits option.splits if_splits intro: file_stays.refl)
  with s show ?thesis by (rule file_stays.trans)
qed

lemma find_entry: "find P ts = Some t \<Longrightarrow> t \<in> set ts \<and> P t"
  by (auto simp: find_Some_iff)

lemma extractBinary_result:
  assumes x: "extractBinary L tarball b h = (Inr q, h')"
  shows "\<exists>data entries err t. ho_Files h tarball = Some data \<and> lb_gunzip L data = Inr (entries, err) \<and>
    t \<in> set entries \<and> tr_Reg t \<and> tr_Err t = None \<and> ho_Files h q = None \<and> ho_Files h' q = Some (tr_Body t)"
  using x unfolding extractBinary_def
proof (cases rule: bindE_cases)
  case (2 data h1)
  then have d: "ho_Files h tarball = Some data" "ho_Files h1 = ho_Files h" by (auto simp: ReadFile_Inr)
  from 2(2) obtain entries err where g: "lb_gunzip L data = Inr (entries, err)"
    by (cases "lb_gunzip L data") auto
  have "\<exists>t. writeExtracted t h1 = (Inr q, h') \<and> t \<in> set entries \<and> tr_Reg t"
  proof (cases "find_named b [] entries")
    case (Inl t)
    with 2(2) g find_named_entry [OF Inl] show ?thesis by auto
  next
    case (Inr fallback)
    with 2(2) g show ?thesis by (auto split: option.splits if_splits dest: find_entry)
  qed
  with d g writeExtracted_result show ?thesis by metis
qed simp

lemma sum_of_listed: "sum_of asset ls = Some w \<Longrightarrow> \<exists>line\<in>set ls. Fields line = [w, asset]"
  by (induction asset ls rule: sum_of.induct) (auto split: list.splits if_splits)

text \<open>
  Replacing the binary: it works, or the old one is still there, or the old one is at the backup
  path because moving it back failed as well.
\<close>

lemma replaceBinary_effect:
  assumes "replaceBinary newBin exe h = (r, h')" and "ho_Files h exe = Some old"
    and "ho_Files h newBin = Some new" and "newBin \<noteq> exe" "newBin \<noteq> exe @ ''.old''"
  shows "(r = Inr () \<and> ho_Files h' exe = Some new) \<or>
    ((\<exists>e. r = Inl e) \<and> ho_Files h' exe = Some old) \<or>
    ((\<exists>e. r = Inl (Wrapped ''install new binary'' e)) \<and> ho_Files h' exe = None \<and>
      ho_Files h' (exe @ ''.old'') = Some old)"
  using assms
  by (auto simp: replaceBinary_def Let_def bindE_def ignoreE_def wrapE_def catchE_def os_Remove_def
      os_Rename_def syscall_def split: if_splits option.splits prod.splits sum.splits)

section \<open>The update as a whole\<close>

text \<open>
  A binary of the latest release, as an update that starts on machine \<open>h\<close> gets it: the archive is what
  the first request answers, the list of checksums what the next one answers after it was
  downloaded, the archive's hash is the one the list gives for it, and the binary is a regular file
  of the archive.
\<close>

definition verified_release :: "'d Lib \<Rightarrow> 'd box \<Rightarrow> string \<Rightarrow> bool" where
  "verified_release L h bin \<longleftrightarrow> (\<exists>h1 tarball t1 t2 arch sums entries err entry want.
     lb_Get L upgradeTime (githubDL @ slash # asset_name L) h = (t1, Inr arch) \<and> hr_Status arch = 200 \<and>
     download L (githubDL @ slash # asset_name L) (asset_name L) h = (Inr tarball, h1) \<and>
     lb_Get L upgradeTime (githubDL @ ''/SHA256SUMS'') h1 = (t2, Inr sums) \<and> hr_Status sums = 200 \<and>
     (\<exists>line\<in>set (split_on LF (hr_Body sums)). Fields line = [want, asset_name L]) \<and>
     hex_encode (lb_sha256 L (hr_Body arch)) = to_lower want \<and>
     lb_gunzip L (hr_Body arch) = Inr (entries, err) \<and>
     entry \<in> set entries \<and> tr_Reg entry \<and> tr_Body entry = bin)"

text \<open>
  \<open>swapped\<close>: the ways an update can end, as a function of what is done after the swap. It fails before
  that, with the old binary in place or at the backup path; or the swap leaves a verified binary on
  a machine \<open>g\<close>, on which what comes after it runs, and then some temporary files are removed.
\<close>

definition removed :: "string list \<Rightarrow> 'd box \<Rightarrow> 'd box" where
  "removed ps h = foldl (\<lambda>h p. snd (os_Remove p h)) h ps"

definition swapped :: "'d Lib \<Rightarrow> 'd box \<Rightarrow> string \<Rightarrow> string \<Rightarrow>
    ((string \<Rightarrow> ('d box, unit) op) \<Rightarrow> (error + unit) \<times> 'd box) \<Rightarrow> bool" where
  "swapped L h0 exe old m \<longleftrightarrow>
    (\<exists>e h. (\<forall>k. m k = (Inl e, h)) \<and> (ho_Files h exe = Some old \<or>
      (\<exists>x. e = Wrapped ''install new binary'' x) \<and> ho_Files h exe = None \<and> ho_Files h (exe @ ''.old'') = Some old)) \<or>
    (\<exists>bin g tmps. verified_release L h0 bin \<and> ho_Files g exe = Some bin \<and> exe \<notin> set tmps \<and>
      (\<forall>k. m k = (fst (k exe g), removed tmps (snd (k exe g)))))"

lemma swapped_kept: "ho_Files h exe = Some old \<Longrightarrow> swapped L h0 exe old (\<lambda>k. (Inl e, h))"
  by (simp add: swapped_def)

lemma swapped_defer:
  assumes "swapped L h0 exe old (\<lambda>k. m k h)" and "q \<noteq> exe" "q \<noteq> exe @ ''.old''"
  shows "swapped L h0 exe old (\<lambda>k. deferE (os_Remove q) (m k) h)"
proof -
  have d: "ho_Files (snd (os_Remove q u)) p = ho_Files u p" if "p \<noteq> q" for p u
    using that by (auto simp: os_Remove_def syscall_def Let_def split: option.splits if_splits)
  from assms(1) [unfolded swapped_def] show ?thesis
  proof (elim disjE [where P = "\<exists>e h. _ e h"] exE conjE)
    fix e u assume m: "\<forall>k. m k h = (Inl e, u)" and "ho_Files u exe = Some old \<or>
      (\<exists>x. e = Wrapped ''install new binary'' x) \<and> ho_Files u exe = None \<and> ho_Files u (exe @ ''.old'') = Some old"
    then have "ho_Files (snd (os_Remove q u)) exe = Some old \<or> (\<exists>x. e = Wrapped ''install new binary'' x) \<and>
      ho_Files (snd (os_Remove q u)) exe = None \<and> ho_Files (snd (os_Remove q u)) (exe @ ''.old'') = Some old"
      using d [of exe u] d [of "exe @ ''.old''" u] assms(2,3) by auto
    with m show ?thesis unfolding swapped_def by (auto simp: deferE_def)
  next
    fix bin g tmps assume "verified_release L h0 bin" "ho_Files g exe = Some bin" "exe \<notin> set tmps"
      "\<forall>k. m k h = (fst (k exe g), removed tmps (snd (k exe g)))"
    then show ?thesis
      unfolding swapped_def using assms(2)
      by (intro disjI2 exI [of _ bin] exI [of _ g] exI [of _ "tmps @ [q]"]) (simp add: deferE_def removed_def)
  qed
qed

lemma replaceBinary_swapped:
  assumes "ho_Files h exe = Some old" and "ho_Files h newBin = Some bin" and "verified_release L h0 bin"
    and "newBin \<noteq> exe" "newBin \<noteq> exe @ ''.old''"
  shows "swapped L h0 exe old (\<lambda>k. bindE (replaceBinary newBin exe) (\<lambda>_. k exe) h)"
proof -
  obtain r h' where r: "replaceBinary newBin exe h = (r, h')" by force
  show ?thesis
  proof (cases r)
    case (Inl e)
    with replaceBinary_effect [OF r assms(1,2,4,5)] r show ?thesis
      by (auto simp: swapped_def bindE_def)
  next
    case (Inr u)
    with replaceBinary_effect [OF r assms(1,2,4,5)] have "ho_Files h' exe = Some bin" by simp
    with r Inr assms(3) show ?thesis
      unfolding swapped_def
      by (intro disjI2 exI [of _ bin] exI [of _ h'] exI [of _ "[]"]) (simp add: bindE_def removed_def)
  qed
qed

lemma temp_other:
  assumes t: "os_CreateTemp (''horizonx-'' @ a @ ''*'') h = (Inr q, h')" and p: "safe p h"
  shows "q \<noteq> p"
proof -
  have "has_prefix q (join_path (os_TempDir h) (''horizonx-'' @ a))"
    using os_CreateTemp_effect(4) [OF t refl] temp_pattern_star [of "''horizonx-'' @ a"] by simp
  then have "has_prefix q (join_path (os_TempDir h) ''horizonx-'')"
    by (metis has_prefix_shorter join_path_append)
  with os_CreateTemp_effect(2) [OF t refl] p show ?thesis by (auto simp: safe_def)
qed

lemma writeExtracted_other:
  assumes "writeExtracted t h = (Inr q, h')" and "safe p h"
  shows "q \<noteq> p"
proof -
  from assms(1) obtain h1 where "os_CreateTemp (''horizonx-'' @ ''newbin-'' @ ''*'') h = (Inr q, h1)"
    by (auto simp: writeExtracted_def bindE_Inr_iff)
  from temp_other [OF this assms(2)] show ?thesis .
qed

lemma extractBinary_other:
  assumes x: "extractBinary L tarball b h = (Inr q, h')" and p: "safe p h"
  shows "q \<noteq> p"
  using x unfolding extractBinary_def
proof (cases rule: bindE_cases)
  case (2 data h1)
  then have "safe p h1" using p by (auto simp: safe_def ReadFile_Inr)
  then show ?thesis
    using 2(2) by (auto split: sum.splits prod.splits option.splits if_splits dest: writeExtracted_other)
qed simp

lemma download_other:
  assumes d: "download L url name h = (Inr q, h')" and p: "safe p h"
  shows "q \<noteq> p"
  using d unfolding download_def
proof (cases rule: bindE_cases)
  case (2 resp h1)
  from safe_stays [OF guaranteesD [OF stays_Get 2(1)] p] have s: "safe p h1" .
  from 2(2) obtain h2 where "os_CreateTemp (''horizonx-'' @ (name @ ''-'') @ ''*'') h1 = (Inr q, h2)"
    by (auto simp: bindE_Inr_iff split: if_splits)
  from temp_other [OF this s] show ?thesis .
qed simp

lemma checksumFor_files: "checksumFor p asset h = (r, h') \<Longrightarrow> ho_Files h' = ho_Files h \<and> os_TempDir h' = os_TempDir h"
  unfolding checksumFor_def by (erule bindE_cases) (auto dest: ReadFile_files split: option.splits)

lemma checksumFor_Inr: "checksumFor p asset h = (Inr want, h') \<Longrightarrow>
    \<exists>data. ho_Files h p = Some data \<and> (\<exists>line\<in>set (split_on LF data). Fields line = [want, asset])"
  by (auto simp: checksumFor_def bindE_Inr_iff ReadFile_Inr dest: sum_of_listed split: option.splits)

lemma verifySHA256_files: "verifySHA256 L p want h = (r, h') \<Longrightarrow> ho_Files h' = ho_Files h \<and> os_TempDir h' = os_TempDir h"
  unfolding verifySHA256_def by (erule bindE_cases) (auto dest: ReadFile_files simp: Let_def split: if_splits)

lemma verifySHA256_Inr: "verifySHA256 L p want h = (Inr u, h') \<Longrightarrow>
    \<exists>data. ho_Files h p = Some data \<and> hex_encode (lb_sha256 L data) = to_lower want"
  by (auto simp: verifySHA256_def bindE_Inr_iff ReadFile_Inr Let_def split: if_splits)

text \<open>A step that leaves the binary alone.\<close>

lemma swapped_bind:
  assumes "m h = (r, h1)" and "ho_Files h1 exe = Some old"
    and "\<And>x. r = Inr x \<Longrightarrow> swapped L h0 exe old (\<lambda>k. f k x h1)"
  shows "swapped L h0 exe old (\<lambda>k. bindE m (f k) h)"
  using assms by (cases r) (auto simp: bindE_Inl bindE_Inr swapped_kept)

text \<open>The steps after the downloads.\<close>

lemma install_swapped:
  assumes tb: "ho_Files h tarball = Some (hr_Body arch)" and sm: "ho_Files h sums = Some (hr_Body sumsr)"
    and g1: "lb_Get L upgradeTime (githubDL @ slash # asset_name L) h0 = (t1, Inr arch)" "hr_Status arch = 200"
    and d1: "download L (githubDL @ slash # asset_name L) (asset_name L) h0 = (Inr tarball, h1)"
    and g2: "lb_Get L upgradeTime (githubDL @ ''/SHA256SUMS'') h1 = (t2, Inr sumsr)" "hr_Status sumsr = 200"
    and old: "ho_Files h exe = Some old" and safe: "safe (exe @ ''.old'') h"
  shows "swapped L h0 exe old (\<lambda>k. bindE (checksumFor sums (asset_name L)) (\<lambda>want.
        bindE (verifySHA256 L tarball want) (\<lambda>_.
        bindE (extractBinary L tarball ''horizonx'') (\<lambda>newBin.
        deferE (os_Remove newBin) (
        bindE (replaceBinary newBin exe) (\<lambda>_. k exe))))) h)"
proof -
  obtain r h3 where r: "checksumFor sums (asset_name L) h = (r, h3)" by force
  from checksumFor_files [OF r] have f3: "ho_Files h3 = ho_Files h" "os_TempDir h3 = os_TempDir h" by auto
  show ?thesis
  proof (rule swapped_bind, rule r)
    fix want assume want: "r = Inr want"
    obtain v h4 where v: "verifySHA256 L tarball want h3 = (v, h4)" by force
    from verifySHA256_files [OF v] f3 have f4: "ho_Files h4 = ho_Files h" "os_TempDir h4 = os_TempDir h" by auto
    have s4: "safe exe h4" "safe (exe @ ''.old'') h4" using old safe f4 by (auto simp: safe_def)
    have ver: "verified_release L h0 (tr_Body t)" if "v = Inr u"
      "lb_gunzip L (hr_Body arch) = Inr (entries, err)" "t \<in> set entries" "tr_Reg t" for u entries err t
      unfolding verified_release_def
      using g1 g2 d1 checksumFor_Inr [OF r [unfolded want]] verifySHA256_Inr [OF v [unfolded that(1)]] tb sm f3 that
      by auto
    show "swapped L h0 exe old (\<lambda>k. bindE (verifySHA256 L tarball want) (\<lambda>_.
        bindE (extractBinary L tarball ''horizonx'') (\<lambda>newBin.
        deferE (os_Remove newBin) (bindE (replaceBinary newBin exe) (\<lambda>_. k exe)))) h3)"
    proof (rule swapped_bind, rule v)
      fix u assume u: "v = Inr u"
      obtain x h5 where x: "extractBinary L tarball ''horizonx'' h4 = (x, h5)" by force
      have e5: "ho_Files h5 exe = Some old"
        using extractBinary_stays [OF x s4(1)] old f4 by (simp add: stays_def)
      show "swapped L h0 exe old (\<lambda>k. bindE (extractBinary L tarball ''horizonx'') (\<lambda>newBin.
          deferE (os_Remove newBin) (bindE (replaceBinary newBin exe) (\<lambda>_. k exe))) h4)"
      proof (rule swapped_bind, rule x, rule e5)
        fix newBin assume n: "x = Inr newBin"
        from extractBinary_result [OF x [unfolded n]] tb f4 ver [OF u] obtain bin
          where bin: "verified_release L h0 bin" "ho_Files h5 newBin = Some bin" by auto
        have o: "newBin \<noteq> exe" "newBin \<noteq> exe @ ''.old''"
          using extractBinary_other [OF x [unfolded n]] s4 by auto
        show "swapped L h0 exe old (\<lambda>k. deferE (os_Remove newBin)
            (bindE (replaceBinary newBin exe) (\<lambda>_. k exe)) h5)"
          by (intro swapped_defer replaceBinary_swapped [OF e5 bin(2,1)] o)
      qed
    qed (use f4 old in simp)
  qed (use f3 old in simp)
qed

lemma self_update_swapped:
  assumes exe: "lb_Executable L = Inr exe" and old: "ho_Files h exe = Some old"
    and safe: "safe (exe @ ''.old'') h"
  shows "swapped L h exe old (\<lambda>k. self_update L k h)"
proof -
  obtain r h1 where d1: "download L (githubDL @ slash # asset_name L) (asset_name L) h = (r, h1)" by force
  have s: "safe exe h" using old by (simp add: safe_def)
  have e1: "ho_Files h1 exe = Some old" using download_stays [OF d1 s] old by (simp add: stays_def)
  have s1: "safe exe h1" "safe (exe @ ''.old'') h1"
    using safe_stays [OF download_stays [OF d1]] s safe by auto
  obtain r2 h2 where d2: "download L (githubDL @ ''/SHA256SUMS'') ''SHA256SUMS'' h1 = (r2, h2)" by force
  have e2: "ho_Files h2 exe = Some old" using download_stays [OF d2 s1(1)] e1 by (simp add: stays_def)
  have s2: "safe (exe @ ''.old'') h2" using safe_stays [OF download_stays [OF d2]] s1 by auto
  show ?thesis
    unfolding self_update_def exe sum.case
  proof (rule swapped_bind, rule d1, rule e1, rule swapped_defer, rule swapped_bind, rule d2, rule e2, rule swapped_defer)
    fix tarball sums assume t: "r = Inr tarball" and m: "r2 = Inr sums"
    from download_result [OF d1 [unfolded t]] obtain t1 arch where
      g1: "lb_Get L upgradeTime (githubDL @ slash # asset_name L) h = (t1, Inr arch)" "hr_Status arch = 200"
        "ho_Files h1 tarball = Some (hr_Body arch)" by blast
    from download_result [OF d2 [unfolded m]] obtain t2 sumsr where
      g2: "lb_Get L upgradeTime (githubDL @ ''/SHA256SUMS'') h1 = (t2, Inr sumsr)" "hr_Status sumsr = 200"
        "ho_Files h2 sums = Some (hr_Body sumsr)" by blast
    have "safe tarball h1" using g1(3) by (simp add: safe_def)
    then have tb: "ho_Files h2 tarball = Some (hr_Body arch)"
      using download_stays [OF d2] g1(3) by (auto simp: stays_def)
    show "swapped L h exe old (\<lambda>k. bindE (checksumFor sums (asset_name L)) (\<lambda>want.
        bindE (verifySHA256 L tarball want) (\<lambda>_. bindE (extractBinary L tarball ''horizonx'') (\<lambda>newBin.
        deferE (os_Remove newBin) (bindE (replaceBinary newBin exe) (\<lambda>_. k exe))))) h2)"
      by (rule install_swapped [OF tb g2(3) g1(1,2) d1 [unfolded t] g2(1,2) e2 s2])
  next
    fix tarball sums assume "r = Inr tarball" and m: "r2 = Inr sums"
    show "sums \<noteq> exe" "sums \<noteq> exe @ ''.old''" using download_other [OF d2 [unfolded m]] s1 by auto
  next
    fix tarball assume t: "r = Inr tarball"
    show "tarball \<noteq> exe" "tarball \<noteq> exe @ ''.old''" using download_other [OF d1 [unfolded t]] s safe by auto
  qed
qed

end
