(* ===== verification/Instance.thy ===== *)
theory Instance
  imports Box
begin

text \<open>
  The files of a HorizonX instance: ports and URLs (\<open>ports.go\<close>), secrets and environment
  (\<open>instance_env.go\<close>), the compose files and the Dockerfile and their generation
  (\<open>instance.go\<close>), and the two readers of the environment file, \<open>envValue\<close> of
  \<open>install_server.go\<close> and \<open>parseEnv\<close> of \<open>install_agent.go\<close>. An environment file read back gives
  the values it was made of.
\<close>

section \<open>Ports\<close>

definition ServerPort :: string where "ServerPort = ''4858''"
definition DashboardPort :: string where "DashboardPort = ''4859''"

definition ServerAPIURL :: "string \<Rightarrow> string" where
  "ServerAPIURL host = ''http://'' @ host @ '':'' @ ServerPort"

definition ServerWSURL :: "string \<Rightarrow> string" where
  "ServerWSURL host = ''ws://'' @ host @ '':'' @ ServerPort @ ''/ws/agent''"

section \<open>Secrets\<close>

record instanceEnv =
  ie_HTTPAddr :: string
  ie_DashboardPort :: string
  ie_JWTSecret :: string
  ie_ServerID :: string
  ie_AgentSecret :: string
  ie_PostgresPassword :: string
  ie_RedisPassword :: string
  ie_Host :: string
  ie_AdminEmail :: string
  ie_AdminPass :: string
  ie_AllowedOrigins :: "string list"

definition randomHex :: "nat \<Rightarrow> ('d box, string) op" where
  "randomHex n = bindE (box_rand n) (\<lambda>b. returnE (hex_encode b))"

definition alphabet :: string where
  "alphabet = ''ABCDEFGHJKLMNPQRSTUVWXYZabcdefghijkmnopqrstuvwxyz23456789!@#$%^&*-_=+''"

definition randomPassword :: "('d box, string) op" where
  "randomPassword = bindE (box_rand 20) (\<lambda>b.
     returnE (map (\<lambda>c. alphabet ! (of_char c mod length alphabet)) b))"

definition uuid_New :: "'d Lib \<Rightarrow> ('d box, string) op" where
  "uuid_New L h = (Inr (lb_uuid L (bx_Reads (ho_Out h))),
     h\<lparr>ho_Out := (ho_Out h)\<lparr>bx_Reads := Suc (bx_Reads (ho_Out h))\<rparr>\<rparr>)"

definition newInstanceEnv :: "'d Lib \<Rightarrow> string \<Rightarrow> string \<Rightarrow> string \<Rightarrow> string list \<Rightarrow> ('d box, instanceEnv) op" where
  "newInstanceEnv L host0 adminEmail adminPass allowedOrigins =
     bindE (randomHex 32) (\<lambda>jwtSecret.
     bindE (randomHex 16) (\<lambda>pgPass.
     bindE (randomHex 16) (\<lambda>redisPass.
     bindE (randomHex 32) (\<lambda>agentSecret.
     let host = (if host0 = [] then ''127.0.0.1'' else host0) in
     bindE (if adminPass = [] then randomPassword else returnE adminPass) (\<lambda>pass.
     bindE (uuid_New L) (\<lambda>serverID.
     returnE \<lparr>ie_HTTPAddr = '':3000'', ie_DashboardPort = DashboardPort, ie_JWTSecret = jwtSecret,
       ie_ServerID = serverID, ie_AgentSecret = agentSecret, ie_PostgresPassword = pgPass,
       ie_RedisPassword = redisPass, ie_Host = host,
       ie_AdminEmail = (if adminEmail = [] then ''admin@horizonx.local'' else adminEmail),
       ie_AdminPass = pass,
       ie_AllowedOrigins = (if allowedOrigins = [] then [''http://'' @ host @ '':'' @ DashboardPort]
         else allowedOrigins)\<rparr>))))))"

section \<open>Files\<close>

definition EMDASH :: string where "EMDASH = [CHR 0xE2, CHR 0x80, CHR 0x94]"
definition BQ :: string where "BQ = [CHR 0x60]"
definition DQ :: string where "DQ = [CHR 0x22]"
definition SQ :: string where "SQ = [CHR 0x27]"
definition BS :: string where "BS = [CHR 0x5C]"

definition text_lines :: "string list \<Rightarrow> string" where
  "text_lines ls = concat (map (\<lambda>l. l @ [LF]) ls)"

text \<open>The lines of the file: settings, and comments and blank lines between them.\<close>

datatype env_entry = Note string | Pair string string

fun entry_line :: "env_entry \<Rightarrow> string" where
  "entry_line (Note s) = s"
| "entry_line (Pair k v) = k @ CHR ''='' # v"

definition env_entries :: "instanceEnv \<Rightarrow> env_entry list" where
  "env_entries e = [
     Note (''# HorizonX instance '' @ EMDASH @ '' generated by '' @ BQ @ ''horizonx install server'' @ BQ),
     Note (''# Single source of truth: root .env interpolates into server/ + dashboard/.''),
     Pair ''APP_ENV'' (''production''),
     Pair ''LOG_LEVEL'' (''info''),
     Pair ''LOG_FORMAT'' (''text''),
     Pair ''HTTP_ADDR'' (ie_HTTPAddr e),
     Pair ''TIME_ZONE'' (''Asia/Jakarta''),
     Note [],
     Note (''# JWT auth + env-var encryption key (AES-256-GCM derives from this).''),
     Pair ''JWT_SECRET'' (ie_JWTSecret e),
     Pair ''JWT_EXPIRY'' (''24h''),
     Note [],
     Note (''# Postgres (compose service in the root compose).''),
     Pair ''POSTGRES_PASSWORD'' (ie_PostgresPassword e),
     Pair ''DATABASE_URL'' (''postgres://postgres:'' @ ie_PostgresPassword e @ ''@postgres:5432/horizonx?sslmode=disable''),
     Note [],
     Note (''# Redis (compose service in the root compose).''),
     Pair ''REDIS_PASSWORD'' (ie_RedisPassword e),
     Pair ''REDIS_PASS'' (ie_RedisPassword e),
     Pair ''REDIS_ADDR'' (''redis:6379''),
     Note [],
     Note (''# Agent credentials '' @ EMDASH @ '' one token per app host. Install the agent there with:''),
     Note (''#   HORIZONX_SERVER_ID='' @ ie_ServerID e),
     Note (''#   HORIZONX_SERVER_API_TOKEN='' @ ie_AgentSecret e),
     Note (''#   HORIZONX_API_URL='' @ ServerAPIURL (ie_Host e)),
     Note (''#   HORIZONX_WS_URL='' @ ServerWSURL (ie_Host e)),
     Pair ''HORIZONX_SERVER_ID'' (ie_ServerID e),
     Pair ''HORIZONX_SERVER_API_TOKEN'' (ie_AgentSecret e),
     Pair ''HORIZONX_API_URL'' (ServerAPIURL (ie_Host e)),
     Pair ''HORIZONX_WS_URL'' (ServerWSURL (ie_Host e)),
     Pair ''AGENT_JOB_WORKER_COUNT'' (''10''),
     Note [],
     Note (''# Host-exposed ports (signature ports; override to change).''),
     Pair ''HORIZONX_PORT'' (ServerPort),
     Pair ''DASHBOARD_PORT'' (ie_DashboardPort e),
     Note [],
     Note (''# Browser origins allowed to open the user WebSocket (gorilla CheckOrigin).''),
     Note (''# Defaults to the same-box dashboard URL so the WS works without extra config;''),
     Note (''# add your public/tunnel domain here if you access the dashboard remotely''),
     Note (''# (comma-separated). See TK-0019.''),
     Pair ''ALLOWED_ORIGINS'' (join_with (CHR '','') (ie_AllowedOrigins e)),
     Note [],
     Note (''# First admin user '' @ EMDASH @ '' auto-seeded by the server on first boot (AUTO_SEED).''),
     Note (''# Shown once at the end of: horizonx install server''),
     Pair ''ADMIN_EMAIL'' (ie_AdminEmail e),
     Pair ''ADMIN_PASSWORD'' (ie_AdminPass e),
     Pair ''AUTO_SEED'' (''true'')]"

definition renderInstanceEnv :: "instanceEnv \<Rightarrow> string" where
  "renderInstanceEnv e = text_lines (map entry_line (env_entries e))"

definition instanceComposeRoot :: string where
  "instanceComposeRoot = text_lines [
     ''# HorizonX instance '' @ EMDASH @ '' root compose.'',
     ''# '' @ BQ @ ''install server'' @ BQ @ '' owns this whole tree; do not hand-edit the include list.'',
     ''#'',
     ''#   docker compose up -d     # brings up postgres + redis + server + dashboard'',
     ''#'',
     ''# postgres + redis are PRIVATE to this project (no host ports). The server and'',
     ''# dashboard are separate sub-projects included below '' @ EMDASH @ '' each with its own'',
     ''# docker-compose.yml so '' @ BQ @ ''install server'' @ BQ @ '' can update them independently.'',
     ''include:'',
     ''  - server/docker-compose.yml'',
     ''  - dashboard/docker-compose.yml'',
     [],
     ''services:'',
     ''  postgres:'',
     ''    image: postgres:16-alpine'',
     ''    environment:'',
     ''      POSTGRES_USER: postgres'',
     ''      POSTGRES_PASSWORD: ${POSTGRES_PASSWORD}'',
     ''      POSTGRES_DB: horizonx'',
     ''    volumes:'',
     ''      - horizonx_pgdata:/var/lib/postgresql/data'',
     ''    restart: unless-stopped'',
     ''    healthcheck:'',
     ''      test: ['' @ DQ @ ''CMD-SHELL'' @ DQ @ '', '' @ DQ @ ''pg_isready -U postgres'' @ DQ @ '']'',
     ''      interval: 5s'',
     ''      timeout: 3s'',
     ''      retries: 10'',
     [],
     ''  redis:'',
     ''    image: redis:7-alpine'',
     ''    command: ['' @ DQ @ ''redis-server'' @ DQ @ '', '' @ DQ @ ''--requirepass'' @ DQ @ '', '' @ DQ @ ''${REDIS_PASSWORD}'' @ DQ @ '']'',
     ''    volumes:'',
     ''      - horizonx_redisdata:/data'',
     ''    restart: unless-stopped'',
     [],
     ''volumes:'',
     ''  horizonx_pgdata:'',
     ''  horizonx_redisdata:'']"

definition instanceComposeServer :: string where
  "instanceComposeServer = text_lines [
     ''# HorizonX control plane '' @ EMDASH @ '' sub-project, included by the root compose.'',
     ''# Built from the release tarball via the Dockerfile in this dir '' @ EMDASH @ '' no registry'',
     ''# pulls (the project registry is billing-blocked, so images are built locally).'',
     ''services:'',
     ''  server:'',
     ''    build:'',
     ''      context: .'',
     ''      dockerfile: Dockerfile'',
     ''      args:'',
     ''        HX_VERSION: ${HX_VERSION:-latest}'',
     ''    image: ${APP_IMAGE:-horizonx:latest}'',
     ''    env_file: ../.env'',
     ''    ports:'',
     ''      - '' @ SQ @ ''127.0.0.1:${HORIZONX_PORT:-4858}:3000'' @ SQ,
     ''    depends_on:'',
     ''      postgres:'',
     ''        condition: service_healthy'',
     ''      redis:'',
     ''        condition: service_started'',
     ''    restart: unless-stopped'']"

definition instanceComposeDashboard :: string where
  "instanceComposeDashboard = text_lines [
     ''# HorizonX dashboard '' @ EMDASH @ '' sub-project, included by the root compose.'',
     ''# The image is loaded locally from the release tarball (docker load) '' @ EMDASH @ '' never'',
     ''# pulled from a registry. nginx serves the SPA and proxies /api + WebSocket'',
     ''# to the server at '' @ SQ @ ''server:3000'' @ SQ @ '' on this project'' @ SQ @ ''s network.'',
     ''services:'',
     ''  dashboard:'',
     ''    image: ${DASHBOARD_IMAGE:-horizonx-dashboard:latest}'',
     ''    ports:'',
     ''      - '' @ SQ @ ''127.0.0.1:${DASHBOARD_PORT:-4859}:80'' @ SQ,
     ''    depends_on:'',
     ''      - server'',
     ''    restart: unless-stopped'']"

definition instanceServerDockerfile :: string where
  "instanceServerDockerfile = text_lines [
     ''# HorizonX server image '' @ EMDASH @ '' built by the instance'' @ SQ @ ''s install.'',
     ''# Downloads the release tarball + SHA256SUMS from GitHub and verifies the'',
     ''# checksum BEFORE unpacking. No registry images involved (the registry is'',
     ''# billing-blocked).'',
     ''#'',
     ''# HX_VERSION pins the release (e.g. v0.3.8). It is passed as a build arg by'',
     ''# '' @ BQ @ ''install server'' @ BQ @ '' so the curl command string CHANGES every release '' @ EMDASH,
     ''# Docker layer cache is keyed on (parent layer + command text), so an'',
     ''# unchanged '' @ DQ @ ''releases/latest'' @ DQ @ '' URL was a permanent cache hit and the image'',
     ''# kept the FIRST build'' @ SQ @ ''s binary forever (the stale-image bug, 2026-08-04).'',
     ''# With a pinned version the layer cache misses each release -> fresh download.'',
     ''ARG HX_VERSION=latest'',
     ''FROM alpine:3.20'',
     ''RUN apk add --no-cache ca-certificates curl'',
     ''# Detect the build arch from uname (release tarballs use x86_64/arm64 '' @ EMDASH,
     ''# BuildKit'' @ SQ @ ''s automatic TARGETARCH arg is unreliable across builders).'',
     ''RUN ARCH=$(uname -m); '' @ BS,
     ''    case '' @ DQ @ ''$ARCH'' @ DQ @ '' in '' @ BS,
     ''      x86_64|amd64) ARCH=x86_64 ;; '' @ BS,
     ''      aarch64|arm64) ARCH=arm64 ;; '' @ BS,
     ''      *) echo '' @ DQ @ ''unsupported arch: $ARCH'' @ DQ @ '' >&2; exit 1 ;; '' @ BS,
     ''    esac; '' @ BS,
     ''    if [ '' @ DQ @ ''$HX_VERSION'' @ DQ @ '' = '' @ DQ @ ''latest'' @ DQ @ '' ] || [ -z '' @ DQ @ ''$HX_VERSION'' @ DQ @ '' ]; then '' @ BS,
     ''      BASE='' @ DQ @ ''releases/latest'' @ DQ @ ''; '' @ BS,
     ''    else '' @ BS,
     ''      BASE='' @ DQ @ ''releases/download/$HX_VERSION'' @ DQ @ ''; '' @ BS,
     ''    fi; '' @ BS,
     ''    curl -fsSL https://github.com/zlnew/horizonx/$BASE/download/horizonx-linux-$ARCH.tar.gz -o /tmp/horizonx-linux-$ARCH.tar.gz '' @ BS,
     '' && curl -fsSL https://github.com/zlnew/horizonx/$BASE/download/SHA256SUMS -o /tmp/SHA256SUMS '' @ BS,
     '' && cd /tmp && grep '' @ DQ @ ''horizonx-linux-$ARCH.tar.gz'' @ DQ @ '' SHA256SUMS | sha256sum -c - '' @ BS,
     '' && tar -xzf /tmp/horizonx-linux-$ARCH.tar.gz -C /usr/local/bin horizonx '' @ BS,
     '' && rm /tmp/horizonx-linux-$ARCH.tar.gz /tmp/SHA256SUMS'',
     ''WORKDIR /etc/horizonx'',
     ''ENTRYPOINT ['' @ DQ @ ''horizonx'' @ DQ @ '']'',
     ''CMD ['' @ DQ @ ''server'' @ DQ @ '']'']"

section \<open>Generation\<close>

record InstanceLayout =
  il_Root :: string
  il_ComposeRoot :: string
  il_EnvPath :: string
  il_ServerDir :: string
  il_ServerCompose :: string
  il_ServerDockerfile :: string
  il_DashboardDir :: string
  il_DashboardCompose :: string

definition path_Abs :: "'d Lib \<Rightarrow> string \<Rightarrow> error + string" where
  "path_Abs L p = (if has_prefix p [slash] then Inr (path_Clean p)
     else case lb_Getwd L of Inl e \<Rightarrow> Inl e | Inr wd \<Rightarrow> Inr (path_Join wd p))"

definition instance_layout :: "string \<Rightarrow> InstanceLayout" where
  "instance_layout root = \<lparr>il_Root = root,
     il_ComposeRoot = path_Join root ''docker-compose.yml'',
     il_EnvPath = path_Join root ''.env'',
     il_ServerDir = path_Join root ''server'',
     il_ServerCompose = path_Join root ''server/docker-compose.yml'',
     il_ServerDockerfile = path_Join root ''server/Dockerfile'',
     il_DashboardDir = path_Join root ''dashboard'',
     il_DashboardCompose = path_Join root ''dashboard/docker-compose.yml''\<rparr>"

text \<open>An existing environment file that is not empty is written back as it is.\<close>

definition kept_env :: "string \<Rightarrow> string \<Rightarrow> 'd box \<Rightarrow> string \<times> 'd box" where
  "kept_env path rendered h = (case os_ReadFile path h of
     (Inr existing, h') \<Rightarrow> (if existing \<noteq> [] then existing else rendered, h')
   | (Inl _, h') \<Rightarrow> (rendered, h'))"

definition write_files :: "(string \<times> string) list \<Rightarrow> ('d box, unit) op" where
  "write_files files = forE files (\<lambda>(path, content).
     wrapE (''write '' @ path) (write_file path content))"

definition relax_modes :: "InstanceLayout \<Rightarrow> ('d box, unit) op" where
  "relax_modes l h = (case os_Chmod (il_ComposeRoot l) h of
     (Inl _, h') \<Rightarrow> (Inr (), h')
   | (Inr _, h') \<Rightarrow> bindE (ignoreE (os_Chmod (il_ServerCompose l))) (\<lambda>_.
       bindE (ignoreE (os_Chmod (il_ServerDockerfile l))) (\<lambda>_.
       ignoreE (os_Chmod (il_DashboardCompose l)))) h')"

definition generateInstance :: "'d Lib \<Rightarrow> string \<Rightarrow> string \<Rightarrow> string \<Rightarrow> string \<Rightarrow> string list
    \<Rightarrow> ('d box, InstanceLayout) op" where
  "generateInstance L dir host adminEmail adminPass allowedOrigins =
     (case path_Abs L dir of
        Inl e \<Rightarrow> failE e
      | Inr root \<Rightarrow>
         bindE (forE [[], ''server'', ''dashboard''] (\<lambda>sub.
           wrapE (''create '' @ path_Join root sub) (os_MkdirAll (path_Join root sub)))) (\<lambda>_.
         bindE (newInstanceEnv L host adminEmail adminPass allowedOrigins) (\<lambda>env.
         let l = instance_layout root in
         bindE (\<lambda>h. case kept_env (il_EnvPath l) (renderInstanceEnv env) h of (c, h') \<Rightarrow> (Inr c, h')) (\<lambda>envContent.
         bindE (write_files (lb_order L [
           (il_EnvPath l, envContent),
           (il_ComposeRoot l, instanceComposeRoot),
           (il_ServerCompose l, instanceComposeServer),
           (il_ServerDockerfile l, instanceServerDockerfile),
           (il_DashboardCompose l, instanceComposeDashboard)])) (\<lambda>_.
         bindE (relax_modes l) (\<lambda>_.
         returnE l))))))"

section \<open>Readers\<close>

fun env_value :: "string \<Rightarrow> string list \<Rightarrow> string" where
  "env_value key [] = []"
| "env_value key (raw # ls) = (let line = trim_space raw in
     if has_prefix line (key @ ''='') then trim_space (trim_prefix line (key @ ''=''))
     else env_value key ls)"

definition envValue :: "string \<Rightarrow> string \<Rightarrow> string" where
  "envValue data key = env_value key (split_on LF data)"

definition parse_line :: "string \<Rightarrow> (string \<times> string) option" where
  "parse_line raw = (let line = trim_space raw in
     if line = [] \<or> has_prefix line ''#'' then None
     else case split2 (CHR ''='') line of
       (k, Some v) \<Rightarrow> if k \<noteq> [] then Some (trim_space k, trim_space v) else None
     | (_, None) \<Rightarrow> None)"

definition parseEnv :: "string \<Rightarrow> string \<Rightarrow> string option" where
  "parseEnv content = foldl (\<lambda>out raw. case parse_line raw of
     Some (k, v) \<Rightarrow> out(k := Some v) | None \<Rightarrow> out) (\<lambda>_. None) (split_on LF content)"

section \<open>What is written can be read\<close>

text \<open>A value that survives on a line: no line break, no space at its ends.\<close>

definition line_safe :: "string \<Rightarrow> bool" where
  "line_safe v \<longleftrightarrow> LF \<notin> set v \<and> trim_space v = v"

definition plain_key :: "string \<Rightarrow> bool" where
  "plain_key k \<longleftrightarrow> k \<noteq> [] \<and> hd k \<noteq> CHR ''#'' \<and> (\<forall>c\<in>set k. \<not> is_space c \<and> c \<noteq> CHR ''='')"

fun entry_ok :: "env_entry \<Rightarrow> bool" where
  "entry_ok (Note s) \<longleftrightarrow> LF \<notin> set s \<and> (s = [] \<or> hd s = CHR ''#'')"
| "entry_ok (Pair k v) \<longleftrightarrow> plain_key k \<and> line_safe v"

lemma is_space_LF [simp]: "is_space LF"
  by (simp add: is_space_def LF_def)

lemma split_on_lines:
  "\<forall>l\<in>set ls. sep \<notin> set l \<Longrightarrow> split_on sep (concat (map (\<lambda>l. l @ [sep]) ls)) = ls @ [[]]"
proof (induction ls)
  case (Cons l ls)
  have "split_on sep (l @ sep # s) = l # split_on sep s" if "sep \<notin> set l" for s
    using that by (induction l) auto
  with Cons show ?case by simp
qed simp

lemma trim_space_fixed:
  "trim_space s = s \<longleftrightarrow> s = [] \<or> (\<not> is_space (hd s) \<and> \<not> is_space (List.last s))"
proof (cases s rule: rev_cases)
  case (snoc t c)
  show ?thesis
  proof
    assume f: "trim_space s = s"
    have "length (dropWhile is_space s) \<le> length s" by (rule length_dropWhile_le)
    moreover have "length s \<le> length (dropWhile is_space s)"
      using f length_dropWhile_le [of is_space "rev (dropWhile is_space s)"]
      by (simp add: trim_space_def) (metis length_rev)
    ultimately have "dropWhile is_space s = s"
      by (metis le_antisym length_dropWhile_le dropWhile_eq_drop drop_0 takeWhile_dropWhile_id
        append_eq_conv_conj length_append add_cancel_left_left length_0_conv self_append_conv2)
    moreover from this f have "dropWhile is_space (rev s) = rev s"
      by (simp add: trim_space_def) (metis rev_rev_ident)
    ultimately show "s = [] \<or> (\<not> is_space (hd s) \<and> \<not> is_space (List.last s))"
      by (metis dropWhile_eq_self_iff hd_rev rev_is_Nil_conv)
  next
    assume "s = [] \<or> (\<not> is_space (hd s) \<and> \<not> is_space (List.last s))"
    then show "trim_space s = s"
      by (auto simp: trim_space_def dropWhile_eq_self_iff [THEN iffD2] hd_rev)
  qed
qed (simp add: trim_space_def)

lemma plain_keyD:
  assumes "plain_key k"
  shows "k \<noteq> []" and "\<not> is_space (hd k)" and "hd k \<noteq> CHR ''#''" and "CHR ''='' \<notin> set k"
    and "trim_space k = k" and "LF \<notin> set k"
proof -
  have in_k: "\<not> is_space c \<and> c \<noteq> CHR ''=''" if "c \<in> set k" for c
    using assms that by (simp add: plain_key_def)
  show k: "k \<noteq> []" and "hd k \<noteq> CHR ''#''" using assms by (simp_all add: plain_key_def)
  show "CHR ''='' \<notin> set k" "LF \<notin> set k" using in_k is_space_LF by blast+
  show h: "\<not> is_space (hd k)" using in_k k by simp
  show "trim_space k = k" unfolding trim_space_fixed using in_k k by simp
qed

lemma trim_setting:
  assumes k: "plain_key k" and v: "trim_space v = v"
  shows "trim_space (k @ CHR ''='' # v) = k @ CHR ''='' # v"
proof -
  have "\<not> is_space (CHR ''='')" by (simp add: is_space_def)
  with plain_keyD(1,2) [OF k] v show ?thesis
    unfolding trim_space_fixed by (auto simp: last_append)
qed

lemma trim_comment: "hd s = CHR ''#'' \<Longrightarrow> s \<noteq> [] \<Longrightarrow> \<exists>t. trim_space s = CHR ''#'' # t"
proof -
  assume s: "hd s = CHR ''#''" "s \<noteq> []"
  have c: "\<not> is_space (CHR ''#'')" by (simp add: is_space_def)
  with s have "dropWhile is_space s = s" by (cases s) auto
  moreover from s obtain t where "s = CHR ''#'' # t" by (cases s) auto
  moreover have "\<exists>u. rev (dropWhile is_space (rev (CHR ''#'' # t))) = CHR ''#'' # u" for t
    using c by (auto simp: dropWhile_append dropWhile_eq_Nil_conv
        intro: exI [of _ "rev (dropWhile is_space (rev t))"])
  ultimately show ?thesis by (simp add: trim_space_def)
qed

fun entry_pair :: "env_entry \<Rightarrow> (string \<times> string) option" where
  "entry_pair (Note s) = None"
| "entry_pair (Pair k v) = Some (k, v)"

lemma parse_entry: "entry_ok x \<Longrightarrow> parse_line (entry_line x) = entry_pair x"
proof (cases x)
  case (Note s)
  assume "entry_ok x"
  with Note trim_comment [of s] show ?thesis
    by (cases "s = []") (auto simp: parse_line_def has_prefix_def trim_space_def [of "[]"])
next
  case (Pair k v)
  assume "entry_ok x"
  with Pair have k: "plain_key k" and v: "trim_space v = v" by (auto simp: line_safe_def)
  have "\<not> has_prefix (k @ CHR ''='' # v) ''#''"
    using plain_keyD(1,3) [OF k] by (cases k) (auto simp: has_prefix_def)
  with Pair k v trim_setting [OF k v] plain_keyD [OF k] show ?thesis
    by (simp add: parse_line_def split2_found)
qed

lemma entry_no_LF: "entry_ok x \<Longrightarrow> LF \<notin> set (entry_line x)"
  by (cases x) (auto simp: line_safe_def LF_def dest: plain_keyD(6))

lemma split_entries:
  "\<forall>x\<in>set es. entry_ok x \<Longrightarrow> split_on LF (text_lines (map entry_line es)) = map entry_line es @ [[]]"
  unfolding text_lines_def by (rule split_on_lines) (auto dest: entry_no_LF)

lemma parse_empty: "parse_line [] = None"
  by (simp add: parse_line_def trim_space_def)

lemma parseEnv_entries:
  assumes "\<forall>x\<in>set es. entry_ok x"
  shows "parseEnv (text_lines (map entry_line es)) = map_of (rev (List.map_filter entry_pair es))"
proof -
  have "foldl (\<lambda>out raw. case parse_line raw of Some (k, v) \<Rightarrow> out(k := Some v) | None \<Rightarrow> out)
      out (map entry_line es) = out ++ map_of (rev (List.map_filter entry_pair es))" for out
    using assms
  proof (induction es arbitrary: out)
    case (Cons x es)
    then show ?case
      by (auto simp: parse_entry map_filter_simps map_add_upd split: option.splits)
  qed (simp add: map_filter_simps)
  from this [of "\<lambda>_. None"] show ?thesis
    by (simp add: parseEnv_def split_entries [OF assms] parse_empty map_add_def)
qed

lemma env_value_entries:
  assumes "\<forall>x\<in>set es. entry_ok x" and "plain_key key"
  shows "env_value key (map entry_line es @ [[]]) =
    (case map_of (List.map_filter entry_pair es) key of Some v \<Rightarrow> v | None \<Rightarrow> [])"
  using assms
proof (induction es)
  case Nil
  then show ?case by (simp add: map_filter_simps trim_space_def has_prefix_def Let_def)
next
  case (Cons x es)
  show ?case
  proof (cases x)
    case (Note s)
    then have "s = [] \<or> (s \<noteq> [] \<and> hd s = CHR ''#'')" using Cons.prems by auto
    then have "trim_space s = [] \<or> (\<exists>t. trim_space s = CHR ''#'' # t)"
      using trim_comment [of s] by (auto simp: trim_space_def [of "[]"])
    moreover have "\<not> has_prefix [] (key @ ''='')" "\<not> has_prefix (CHR ''#'' # t) (key @ ''='')" for t
      using plain_keyD(1,3) [OF Cons.prems(2)] by (cases key, auto simp: has_prefix_def)+
    ultimately show ?thesis using Cons Note by (auto simp: map_filter_simps)
  next
    case (Pair k v)
    then have k: "plain_key k" and v: "trim_space v = v" using Cons.prems by (auto simp: line_safe_def)
    have "has_prefix (k @ CHR ''='' # v) (key @ ''='') \<longleftrightarrow> k = key"
    proof
      assume "has_prefix (k @ CHR ''='' # v) (key @ ''='')"
      then obtain t where "k @ CHR ''='' # v = key @ CHR ''='' # t" by (auto simp: has_prefix_iff)
      then have "split2 (CHR ''='') (k @ CHR ''='' # v) = split2 (CHR ''='') (key @ CHR ''='' # t)" by simp
      then show "k = key" using plain_keyD(4) [OF k] plain_keyD(4) [OF Cons.prems(2)] by (simp add: split2_found)
    qed (simp add: has_prefix_iff)
    with Pair k v trim_setting [OF k v] Cons show ?thesis
      by (auto simp: map_filter_simps trim_prefix_def has_prefix_iff)
  qed
qed

end
