(* ===== verification/Preflight.thy ===== *)
theory Preflight
  imports Instance
begin

text \<open>
  What the tool finds out about a machine before it changes it: the dependency and capability
  checks of \<open>internal/app/preflight.go\<close> and the detection of installed components of
  \<open>internal/app/runtime.go\<close>.
\<close>

section \<open>Dependencies\<close>

record Dependency =
  dp_Name :: string
  dp_Present :: bool
  dp_Hint :: string

definition checkBin :: "'d Lib \<Rightarrow> string \<Rightarrow> string \<Rightarrow> Dependency" where
  "checkBin L name hint = \<lparr>dp_Name = name, dp_Present = lb_LookPath L name, dp_Hint = hint\<rparr>"

definition checkCompose :: "'d Lib \<Rightarrow> string \<Rightarrow> string \<Rightarrow> 'd box \<Rightarrow> Dependency \<times> 'd box" where
  "checkCompose L name hint h =
    (case exec_CombinedOutput L ''docker'' [''compose'', ''version''] h of ((out, err), h') \<Rightarrow>
       (\<lparr>dp_Name = name, dp_Present = (err = None \<and> contains (to_lower out) ''compose version''),
         dp_Hint = hint\<rparr>, h'))"

definition tcpReachable :: "'d Lib \<Rightarrow> string \<Rightarrow> string \<Rightarrow> 'd box \<Rightarrow> bool" where
  "tcpReachable L host port h = lb_Dial L host port h"

definition Preflight :: "'d Lib \<Rightarrow> string \<Rightarrow> 'd box \<Rightarrow> Dependency list \<times> 'd box" where
  "Preflight L mode h =
    (let tools = [checkBin L ''git'' ''git is needed to clone app repositories'',
           checkBin L ''curl'' ''curl is needed by the one-line installer'',
           checkBin L ''tar'' ''tar is needed to unpack release tarballs''];
         stores = (if mode = ''server'' \<or> mode = ''full'' then
           [\<lparr>dp_Name = ''postgres (reachable)'', dp_Present = tcpReachable L ''localhost'' ''5432'' h,
              dp_Hint = ''start postgres, or run the compose stack: docker compose up -d postgres''\<rparr>,
            \<lparr>dp_Name = ''redis (reachable)'', dp_Present = tcpReachable L ''localhost'' ''6379'' h,
              dp_Hint = ''start redis, or run the compose stack: docker compose up -d redis''\<rparr>] else [])
     in if mode = ''agent'' \<or> mode = ''full'' then
          (case checkCompose L ''docker compose'' ''the agent deploys apps with docker compose'' h of (d, h') \<Rightarrow>
             (tools @ stores @ [checkBin L ''docker'' ''the agent deploys apps with docker compose'', d], h'))
        else (tools @ stores, h))"

definition Missing :: "Dependency list \<Rightarrow> Dependency list" where
  "Missing deps = filter (\<lambda>d. \<not> dp_Present d) deps"

definition InstallHint :: "'d Lib \<Rightarrow> string \<Rightarrow> string" where
  "InstallHint L depName =
    (if depName \<notin> {''git'', ''curl'', ''tar'', ''docker''} then []
     else case find (lb_LookPath L) [''pacman'', ''apt-get'', ''dnf'', ''apk''] of
       None \<Rightarrow> []
     | Some pm \<Rightarrow>
         if pm = ''pacman'' then ''sudo pacman -S --needed '' @ depName
         else if pm = ''apt-get'' then ''sudo apt-get install -y '' @ depName
         else if pm = ''dnf'' then ''sudo dnf install -y '' @ depName
         else ''apk add '' @ depName)"

section \<open>Capabilities\<close>

record PreflightResult =
  pf_DockerAccess :: bool
  pf_ComposeOK :: bool
  pf_ComposeVersion :: string
  pf_PortsFree :: bool
  pf_DockerGroupHint :: string

fun index_of :: "string \<Rightarrow> string \<Rightarrow> nat option" where
  "index_of [] x = (if x = [] then Some 0 else None)"
| "index_of (c # s) x = (if has_prefix (c # s) x then Some 0 else map_option Suc (index_of s x))"

definition parseComposeVersion :: "string \<Rightarrow> (int \<times> int) option" where
  "parseComposeVersion out =
    (case index_of (to_lower out) ''version'' of
       None \<Rightarrow> None
     | Some i \<Rightarrow>
        (case Fields (drop (i + 7) out) of
           [] \<Rightarrow> None
         | f # _ \<Rightarrow>
            (case split_on (CHR ''.'') (fst (split2 (CHR ''-'') (trim_prefix f ''v''))) of
               a # b # _ \<Rightarrow>
                 (case (ParseInt a, ParseInt b) of (Some major, Some minor) \<Rightarrow> Some (major, minor) | _ \<Rightarrow> None)
             | _ \<Rightarrow> None)))"

definition composeAtLeast :: "int \<Rightarrow> int \<Rightarrow> bool" where
  "composeAtLeast major minor \<longleftrightarrow> major > 2 \<or> (major = 2 \<and> minor \<ge> 20)"

definition portFree :: "'d Lib \<Rightarrow> string \<Rightarrow> 'd box \<Rightarrow> bool" where
  "portFree L addr h = lb_Listen L addr h"

definition no_docker_hint :: string where
  "no_docker_hint = ''docker not found in PATH '' @ EMDASH @
     '' install docker first: https://docs.docker.com/engine/install/''"

definition RunPreflight :: "'d Lib \<Rightarrow> 'd box \<Rightarrow> PreflightResult \<times> 'd box" where
  "RunPreflight L h =
    (let r = \<lparr>pf_DockerAccess = False, pf_ComposeOK = False, pf_ComposeVersion = [],
           pf_PortsFree = False, pf_DockerGroupHint = []\<rparr>
     in if \<not> lb_LookPath L ''docker'' then (r\<lparr>pf_DockerGroupHint := no_docker_hint\<rparr>, h)
     else
       let ctx = \<lparr>cx_Done = Some (ho_Now h + 3 * second), cx_Pick = (\<lambda>_. False)\<rparr>;
           ((out, err), h1) = runCommand L ctx ''docker'' [''info'', ''--format'', ''{{.ServerVersion}}''] h;
           r1 = (if err = None \<and> trim_space out \<noteq> [] then r\<lparr>pf_DockerAccess := True\<rparr>
                 else r\<lparr>pf_DockerGroupHint := ''sudo usermod -aG docker $USER && re-login''\<rparr>);
           ((out2, err2), h2) = runCommand L ctx ''docker'' [''compose'', ''version''] h1;
           r2 = (if err2 = None then r1\<lparr>pf_ComposeVersion := trim_space out2,
                     pf_ComposeOK := (case parseComposeVersion out2 of
                       Some (major, minor) \<Rightarrow> composeAtLeast major minor | None \<Rightarrow> False)\<rparr>
                 else r1)
       in (r2\<lparr>pf_PortsFree := portFree L (''127.0.0.1:'' @ ServerPort) h2 \<and> portFree L ('':'' @ DashboardPort) h2\<rparr>, h2))"

section \<open>Installed components\<close>

definition serverUnit :: string where "serverUnit = ''horizonx-server.service''"
definition agentUnit :: string where "agentUnit = ''horizonx-agent.service''"
definition instanceDir :: string where "instanceDir = ''/opt/horizonx''"

record Runtime =
  rt_Systemd :: bool
  rt_DockerCLI :: bool
  rt_ComposeFile :: string
  rt_InstanceDir :: string
  rt_SystemdUnits :: "string list"
  rt_UserUnits :: "string list"
  rt_BinPath :: string
  rt_DataDir :: string
  rt_EnvDir :: string

definition detect_units :: "string \<Rightarrow> Runtime \<times> 'd box \<Rightarrow> Runtime \<times> 'd box" where
  "detect_units unit s = (case s of (rt, h) \<Rightarrow>
     let (a, h1) = stat_ok (path_Join ''/etc/systemd/system'' unit) h;
         (b, h2) = stat_ok (path_Join ''/lib/systemd/system'' unit) h1;
         rt1 = rt\<lparr>rt_SystemdUnits := rt_SystemdUnits rt @ (if a then [unit] else []) @ (if b then [unit] else [])\<rparr>
     in case os_UserHomeDir h2 of
          Inl _ \<Rightarrow> (rt1, h2)
        | Inr home \<Rightarrow>
            (let (c, h3) = stat_ok (path_Join home (''.config/systemd/user/'' @ unit)) h2
             in (rt1\<lparr>rt_UserUnits := rt_UserUnits rt1 @ (if c then [unit] else [])\<rparr>, h3)))"

text \<open>The first path of a list that exists.\<close>

fun first_existing :: "string list \<Rightarrow> ('d, 'o) Host \<Rightarrow> string option \<times> ('d, 'o) Host" where
  "first_existing [] h = (None, h)"
| "first_existing (p # ps) h = (case stat_ok p h of
     (True, h') \<Rightarrow> (Some p, h') | (False, h') \<Rightarrow> first_existing ps h')"

fun first_instance :: "string list \<Rightarrow> ('d, 'o) Host \<Rightarrow> string \<times> ('d, 'o) Host" where
  "first_instance [] h = ([], h)"
| "first_instance (d # ds) h = (if d = [] then first_instance ds h
     else case stat_ok (path_Join d ''docker-compose.yml'') h of
       (True, h') \<Rightarrow> (d, h') | (False, h') \<Rightarrow> first_instance ds h')"

definition detect_systemd :: "'d Lib \<Rightarrow> 'd box \<Rightarrow> bool \<times> 'd box" where
  "detect_systemd L h = (if lb_LookPath L ''systemctl''
     then (True, snd (exec_Output L ''systemctl'' [''is-system-running''] h)) else (False, h))"

definition detect_docker :: "'d Lib \<Rightarrow> 'd box \<Rightarrow> bool \<times> 'd box" where
  "detect_docker L h = (if lb_LookPath L ''docker'' then
     (case exec_CombinedOutput L ''docker'' [''compose'', ''version''] h of ((out, err), h') \<Rightarrow>
        (err = None \<and> contains (to_lower out) ''compose version'', h')) else (False, h))"

definition compose_candidates :: "string list" where
  "compose_candidates = [path_Join d n.
     d \<leftarrow> [''.'', ''/etc/horizonx'', ''/var/lib/horizonx'', ''horizonx-setup''],
     n \<leftarrow> [''docker-compose.yml'', ''docker-compose.yaml'', ''compose.yml'', ''compose.yaml'']]"

definition DetectRuntime :: "'d Lib \<Rightarrow> 'd box \<Rightarrow> Runtime \<times> 'd box" where
  "DetectRuntime L h =
    (let (systemd, h1) = detect_systemd L h;
         (docker, h2) = detect_docker L h1;
         rt = \<lparr>rt_Systemd = systemd, rt_DockerCLI = docker, rt_ComposeFile = [], rt_InstanceDir = [],
           rt_SystemdUnits = [], rt_UserUnits = [], rt_BinPath = [], rt_DataDir = [], rt_EnvDir = []\<rparr>;
         (rt1, h3) = detect_units agentUnit (detect_units serverUnit (rt, h2));
         (compose, h4) = first_existing compose_candidates h3;
         (inst, h5) = first_instance [os_Getenv ''HORIZONX_PREFIX'' h4, instanceDir] h4;
         bin = (case lb_Executable L of Inr exe \<Rightarrow> exe | Inl _ \<Rightarrow> ''horizonx'');
         (data, env) = (if lb_Euid L = 0 \<or> os_Getenv ''HORIZONX_PREFIX'' h5 \<noteq> []
           then (''/var/lib/horizonx'', ''/etc/horizonx'')
           else case os_UserHomeDir h5 of
             Inr home \<Rightarrow> (path_Join home ''.local/share/horizonx'', path_Join home ''.config/horizonx'')
           | Inl _ \<Rightarrow> (''/var/lib/horizonx'', ''/etc/horizonx''))
     in (rt1\<lparr>rt_ComposeFile := (case compose of Some p \<Rightarrow> p | None \<Rightarrow> []), rt_InstanceDir := inst,
           rt_BinPath := bin, rt_DataDir := data, rt_EnvDir := env\<rparr>, h5))"

definition RecommendedMethod :: "Runtime \<Rightarrow> string" where
  "RecommendedMethod r =
    (if rt_DockerCLI r \<and> \<not> rt_Systemd r then ''docker''
     else if rt_DockerCLI r \<and> rt_Systemd r then
       (if rt_ComposeFile r \<noteq> [] then ''docker'' else ''systemd'')
     else ''systemd'')"

definition HasUnit :: "Runtime \<Rightarrow> string \<Rightarrow> bool" where
  "HasUnit r name \<longleftrightarrow> name \<in> set (rt_SystemdUnits r)"

definition UnitActive :: "'d Lib \<Rightarrow> Runtime \<Rightarrow> string \<Rightarrow> 'd box \<Rightarrow> bool \<times> 'd box" where
  "UnitActive L r name h =
    (if \<not> rt_Systemd r then (False, h)
     else case exec_Output L ''systemctl'' [''is-active'', name] h of ((out, err), h1) \<Rightarrow>
       if err = None \<and> trim_space out = ''active'' then (True, h1)
       else case exec_Output L ''systemctl'' [''--user'', ''is-active'', name] h1 of ((out2, err2), h2) \<Rightarrow>
         (err2 = None \<and> trim_space out2 = ''active'', h2))"

definition ActiveUnit :: "'d Lib \<Rightarrow> Runtime \<Rightarrow> 'd box \<Rightarrow> string \<times> 'd box" where
  "ActiveUnit L r h = (case UnitActive L r serverUnit h of
     (True, h1) \<Rightarrow> (serverUnit, h1)
   | (False, h1) \<Rightarrow> (case UnitActive L r agentUnit h1 of
        (True, h2) \<Rightarrow> (agentUnit, h2) | (False, h2) \<Rightarrow> ([], h2)))"

definition InstanceInstalled :: "Runtime \<Rightarrow> ('d, 'o) Host \<Rightarrow> bool \<times> ('d, 'o) Host" where
  "InstanceInstalled r h = (if rt_InstanceDir r = [] then (False, h)
     else stat_ok (path_Join (rt_InstanceDir r) ''.env'') h)"

definition IsUserUnit :: "Runtime \<Rightarrow> string \<Rightarrow> bool" where
  "IsUserUnit r name \<longleftrightarrow> name \<in> set (rt_UserUnits r)"

definition isRoot :: "'d Lib \<Rightarrow> bool" where "isRoot L \<longleftrightarrow> lb_Euid L = 0"

definition needsSudo :: "'d Lib \<Rightarrow> string \<Rightarrow> 'd box \<Rightarrow> bool \<times> 'd box" where
  "needsSudo L p h =
    (if isRoot L then (False, h)
     else case stat_ok p h of
       (True, h1) \<Rightarrow> (\<not> lb_OwnerWrite L p h, h1)
     | (False, h1) \<Rightarrow> (case stat_ok (parent_dir p) h1 of
          (True, h2) \<Rightarrow> (\<not> lb_OwnerWrite L (parent_dir p) h1, h2)
        | (False, h2) \<Rightarrow> (True, h2)))"

end
