(* ===== verification/InstallServer.thy ===== *)
theory InstallServer
  imports SelfUpdate Preflight
begin

text \<open>
  \<open>horizonx install server\<close> (\<open>internal/app/install_server.go\<close>): the dialogue and the checks of
  \<open>RunInstallServer\<close>, \<open>applyInstance\<close>, which brings the instance up and which an upgrade shares, and
  the download of the dashboard's image. Docker is reached through the commands of theory \<open>Box\<close>.
\<close>

section \<open>Options and prompts\<close>

record InstallServerOptions =
  op_Dir :: string
  op_Host :: string
  op_Admin :: string
  op_AdminPass :: string
  op_AllowedOrigins :: string
  op_GenerateOnly :: bool
  op_Yes :: bool
  op_ResetVolumes :: bool

definition firstNonEmpty :: "string \<Rightarrow> string \<Rightarrow> string" where
  "firstNonEmpty a b = (if a \<noteq> [] then a else b)"

text \<open>
  Every prompt reads standard input through a buffer of its own: what a chunk holds after the line
  is lost with the buffer.
\<close>

fun read_string :: "string \<Rightarrow> string list \<Rightarrow> string \<times> bool \<times> string list" where
  "read_string acc [] = (acc, False, [])"
| "read_string acc (c # cs) = (if LF \<in> set c then (acc @ takeWhile (\<lambda>x. x \<noteq> LF) c, True, cs)
     else read_string (acc @ c) cs)"

definition promptString :: "string \<Rightarrow> 'd box \<Rightarrow> string \<times> 'd box" where
  "promptString def h =
    (let (line, found, rest) = read_string [] (bx_Stdin (ho_Out h));
         h' = h\<lparr>ho_Out := (ho_Out h)\<lparr>bx_Stdin := rest\<rparr>\<rparr>
     in (if trim_space line = [] then def else trim_space line, h'))"

section \<open>Docker\<close>

definition execCompose :: "'d Lib \<Rightarrow> string list \<Rightarrow> ('d, Box) run" where
  "execCompose L args = runCommand L Background ''docker'' (''compose'' # args)"

definition compose_file :: "string \<Rightarrow> string" where
  "compose_file root = path_Join root ''docker-compose.yml''"

text \<open>A compose command whose failure is reported with its output.\<close>

definition compose_step :: "'d Lib \<Rightarrow> string \<Rightarrow> string list \<Rightarrow> (string \<Rightarrow> error) \<Rightarrow> ('d box, unit) op" where
  "compose_step L root args fail h =
    (case execCompose L ([''-f'', compose_file root] @ args) h of
       ((out, Some _), h') \<Rightarrow> (Inl (fail (trim_space out)), h')
     | ((_, None), h') \<Rightarrow> (Inr (), h'))"

definition hasInstanceVolumes :: "'d Lib \<Rightarrow> 'd box \<Rightarrow> bool \<times> 'd box" where
  "hasInstanceVolumes L h =
    (case runCommand L Background ''docker'' [''volume'', ''ls'', ''--format'', ''{{.Name}}''] h of
       ((_, Some _), h') \<Rightarrow> (False, h')
     | ((out, None), h') \<Rightarrow>
        (list_ex (\<lambda>raw. let name = trim_space raw in
             name = ''horizonx_pgdata'' \<or> name = ''horizonx_redisdata'' \<or>
             has_suffix name ''_horizonx_pgdata'' \<or> has_suffix name ''_horizonx_redisdata'')
           (split_on LF out), h'))"

definition instanceServerLogs :: "'d Lib \<Rightarrow> string \<Rightarrow> 'd box \<Rightarrow> string \<times> 'd box" where
  "instanceServerLogs L root h =
    (case execCompose L [''-f'', compose_file root, ''logs'', ''--tail'', ''60'', ''server''] h of
       ((out, _), h') \<Rightarrow> (trim_space out, h'))"

definition loadDockerImage :: "'d Lib \<Rightarrow> string \<Rightarrow> ('d box, unit) op" where
  "loadDockerImage L tarball h =
    (case runCommand L Background ''docker'' [''load'', ''-i'', tarball] h of
       ((_, Some e), h') \<Rightarrow> (Inl e, h') | ((_, None), h') \<Rightarrow> (Inr (), h'))"

section \<open>Health\<close>

lemma http_Get_later: "http_Get L t url h = (r, h') \<Longrightarrow> ho_Now h \<le> ho_Now h'"
  by (auto simp: http_Get_def split: prod.splits)

text \<open>A request every two seconds until one is answered with 200 or the deadline has passed.\<close>

function pollHealth :: "'d Lib \<Rightarrow> string \<Rightarrow> gotime \<Rightarrow> 'd box \<Rightarrow> bool \<times> 'd box" where
  "pollHealth L url deadline h =
    (if deadline \<le> ho_Now h then (False, h)
     else case http_Get L 2000000000 url h of
       (Inr resp, h1) \<Rightarrow> if hr_Status resp = 200 then (True, h1)
         else pollHealth L url deadline (h1\<lparr>ho_Now := ho_Now h1 + 2 * second\<rparr>)
     | (Inl _, h1) \<Rightarrow> pollHealth L url deadline (h1\<lparr>ho_Now := ho_Now h1 + 2 * second\<rparr>))"
  by pat_completeness auto

termination
  by (relation "measure (\<lambda>(L, url, deadline, h). nat (deadline - ho_Now h))")
    (auto simp: second_def dest!: http_Get_later [OF sym])

declare pollHealth.simps [simp del]

definition pollHealthFn :: "'d Lib \<Rightarrow> string \<Rightarrow> 'd box \<Rightarrow> bool \<times> 'd box" where
  "pollHealthFn L url h = pollHealth L url (ho_Now h + 30 * second) h"

section \<open>The dashboard's image\<close>

definition dashboardReleaseRepo :: string where
  "dashboardReleaseRepo = ''zlnew/horizonx-dashboard''"

record dashboardRelease =
  dr_Tag :: string
  dr_TarballURL :: string
  dr_SHAURL :: string

definition findDashboardTarball :: "'d Lib \<Rightarrow> string \<Rightarrow> 'd box \<Rightarrow> string" where
  "findDashboardTarball L dir h =
    (case lb_Glob L (path_Join dir ''horizonx-dashboard-*.tar.gz'') h of
       m # _ \<Rightarrow> m
     | [] \<Rightarrow> (case lb_Glob L (path_Join dir ''horizonx-dashboard-*.tgz'') h of m # _ \<Rightarrow> m | [] \<Rightarrow> []))"

text \<open>The members of the answer of the release interface.\<close>

fun asset_pairs :: "json list \<Rightarrow> error + (string \<times> string) list" where
  "asset_pairs [] = Inr []"
| "asset_pairs (a # as) =
    (case (json_string ''name'' a, json_string ''browser_download_url'' a, asset_pairs as) of
       (Inr n, Inr u, Inr r) \<Rightarrow> Inr ((n, u) # r)
     | (Inl e, _) \<Rightarrow> Inl e | (_, Inl e, _) \<Rightarrow> Inl e | (_, _, Inl e) \<Rightarrow> Inl e)"

definition release_assets :: "json \<Rightarrow> error + (string \<times> string) list" where
  "release_assets j = (case j of
     JObj kvs \<Rightarrow> (case map_of (rev kvs) ''assets'' of
        None \<Rightarrow> Inr [] | Some JNull \<Rightarrow> Inr [] | Some (JArr as) \<Rightarrow> asset_pairs as
      | Some _ \<Rightarrow> Inl (ErrMsg ''json: cannot unmarshal into slice''))
   | JNull \<Rightarrow> Inr []
   | _ \<Rightarrow> Inl (ErrMsg ''json: cannot unmarshal into struct''))"

definition take_asset :: "dashboardRelease \<Rightarrow> string \<times> string \<Rightarrow> dashboardRelease" where
  "take_asset rel a =
    (if has_prefix (fst a) ''horizonx-dashboard-'' \<and> has_suffix (fst a) ''-image.tar.gz''
     then rel\<lparr>dr_TarballURL := snd a\<rparr>
     else if fst a = ''SHA256SUMS'' then rel\<lparr>dr_SHAURL := snd a\<rparr> else rel)"

definition latestDashboardRelease :: "'d Lib \<Rightarrow> ('d box, dashboardRelease) op" where
  "latestDashboardRelease L =
     bindE (http_Get L 15000000000
       (''https://api.github.com/repos/'' @ dashboardReleaseRepo @ ''/releases/latest'')) (\<lambda>resp.
     if hr_Status resp \<noteq> 200 then failE (ErrMsg (''release API returned '' @ hr_StatusText resp))
     else case hr_Err resp of Some e \<Rightarrow> failE e | None \<Rightarrow>
       (case lb_json L (hr_Body resp) of Inl e \<Rightarrow> failE e | Inr j \<Rightarrow>
         (case (json_string ''tag_name'' j, release_assets j) of
            (Inr tag, Inr assets) \<Rightarrow>
              (let rel = foldl take_asset
                     \<lparr>dr_Tag = tag, dr_TarballURL = [], dr_SHAURL = []\<rparr> assets
               in if dr_TarballURL rel = [] then failE (ErrMsg (''latest dashboard release '' @ DQ @ tag @ DQ @
                      '' has no image tarball asset''))
                  else returnE rel)
          | (Inl e, _) \<Rightarrow> failE e | (_, Inl e) \<Rightarrow> failE e)))"

definition downloadFile :: "'d Lib \<Rightarrow> string \<Rightarrow> string \<Rightarrow> ('d box, unit) op" where
  "downloadFile L url path =
     bindE (http_Get L 60000000000 url) (\<lambda>resp.
     if hr_Status resp \<noteq> 200
     then failE (ErrMsg (''download '' @ url @ '' returned '' @ hr_StatusText resp))
     else bindE (os_Create path) (\<lambda>_. copy_to path (hr_Body resp) (hr_Err resp)))"

fun sums_entry :: "string \<Rightarrow> string list \<Rightarrow> string" where
  "sums_entry base [] = []"
| "sums_entry base (line # ls) =
    (case Fields (trim_space line) of
       want # name # _ \<Rightarrow> if name = base then want else sums_entry base ls
     | _ \<Rightarrow> sums_entry base ls)"

definition verifySHA256SUMS :: "'d Lib \<Rightarrow> string \<Rightarrow> string \<Rightarrow> ('d box, unit) op" where
  "verifySHA256SUMS L tarballPath sumsText =
    (let base = path_Base tarballPath; want = sums_entry base (split_on LF sumsText)
     in if want = [] then failE (ErrMsg (''SHA256SUMS has no entry for '' @ base))
     else bindE (os_ReadFile tarballPath) (\<lambda>data.
       let got = hex_encode (lb_sha256 L data)
       in if to_lower got \<noteq> to_lower want
          then failE (ErrMsg (''checksum mismatch for '' @ base @ '': got '' @ got @ '' want '' @ want))
          else returnE ()))"

text \<open>
  A tarball that is there already is used if it has the checksum of the release. An error that is
  formatted into another with \<open>%v\<close> is replaced by the text around it.
\<close>

definition reusable :: "'d Lib \<Rightarrow> string \<Rightarrow> string \<Rightarrow> string \<Rightarrow> 'd box \<Rightarrow> bool \<times> 'd box" where
  "reusable L shaURL tarballPath sumsPath h =
    (case stat_ok tarballPath h of
       (False, h1) \<Rightarrow> (False, h1)
     | (True, h1) \<Rightarrow>
        if shaURL = [] then (False, h1)
        else case bindE (downloadFile L shaURL sumsPath) (\<lambda>_.
               bindE (os_ReadFile sumsPath) (\<lambda>sums. verifySHA256SUMS L tarballPath sums)) h1 of
          (Inr _, h2) \<Rightarrow> (True, h2) | (Inl _, h2) \<Rightarrow> (False, h2))"

definition fetch_release :: "'d Lib \<Rightarrow> string \<Rightarrow> dashboardRelease \<Rightarrow> ('d box, string) op" where
  "fetch_release L dir rel =
    (let tarballPath = path_Join dir (''horizonx-dashboard-'' @ dr_Tag rel @ ''-image.tar.gz'');
         sumsPath = path_Join dir ''SHA256SUMS''
     in bindE (os_MkdirAll dir) (\<lambda>_.
        bindE (\<lambda>h. case reusable L (dr_SHAURL rel) tarballPath sumsPath h of (b, h') \<Rightarrow> (Inr b, h')) (\<lambda>reuse.
        if reuse then returnE tarballPath
        else bindE (catchE (downloadFile L (dr_TarballURL rel) tarballPath) (\<lambda>_.
            failE (ErrMsg ''download dashboard tarball''))) (\<lambda>_.
          if dr_SHAURL rel = [] then returnE tarballPath
          else bindE (catchE (downloadFile L (dr_SHAURL rel) sumsPath) (\<lambda>_.
              failE (ErrMsg ''download dashboard SHA256SUMS''))) (\<lambda>_.
            bindE (os_ReadFile sumsPath) (\<lambda>sums.
            bindE (verifySHA256SUMS L tarballPath sums) (\<lambda>_. returnE tarballPath)))))))"

definition fetchDashboardTarball :: "'d Lib \<Rightarrow> string \<Rightarrow> ('d box, string) op" where
  "fetchDashboardTarball L dir h =
    (case latestDashboardRelease L h of
       (Inl e, h1) \<Rightarrow>
         (if findDashboardTarball L dir h1 \<noteq> [] then (Inr (findDashboardTarball L dir h1), h1)
          else (Inl (ErrMsg ''cannot resolve latest dashboard release''), h1))
     | (Inr rel, h1) \<Rightarrow> fetch_release L dir rel h1)"

definition dashboardCacheDir :: "string \<Rightarrow> string" where
  "dashboardCacheDir root = (if root = instanceDir \<or> root = [] then ''/var/cache/horizonx/dashboard''
     else path_Join root ''dashboard'')"

section \<open>Applying an instance\<close>

definition start_dashboard :: "'d Lib \<Rightarrow> string \<Rightarrow> ('d box, unit) op" where
  "start_dashboard L root =
     bindE (fetchDashboardTarball L (dashboardCacheDir root)) (\<lambda>tarball.
     bindE (loadDockerImage L tarball) (\<lambda>_.
     compose_step L root [''up'', ''-d'', ''dashboard''] ErrMsg))"

definition unhealthy :: "string \<Rightarrow> string \<Rightarrow> error" where
  "unhealthy root logs =
    (if logs \<noteq> [] \<and> (contains logs ''password authentication failed'' \<or> contains logs ''SQLSTATE 28P01'')
     then ErrMsg (''control plane did not become healthy within 30s '' @ EMDASH @ '' the server can'' @ SQ @ ''t'' @
         [LF] @ ''+authenticate to postgres. The postgres volume was initialized with a password'' @
         [LF] @ ''+from an OLDER .env; the current .env has a different one, so auth fails on'' @ [LF] @
         ''+every boot (postgres only sets its password on first volume init).'' @ [LF] @ [LF] @
         ''+Fix (wipes postgres+redis DATA '' @ EMDASH @ '' safe if you don'' @ SQ @ ''t need the old data):'' @
         [LF] @ ''+  docker compose -f '' @ compose_file root @ '' down -v'' @ [LF] @
         ''+  sudo horizonx install server'' @ [LF] @ [LF] @ ''+Or restore the previous .env into '' @
         root @ '' and re-run.'')
     else if logs \<noteq> [] \<and> contains logs ''redis'' \<and> contains logs ''NOAUTH''
     then ErrMsg (''control plane did not become healthy within 30s '' @ EMDASH @ '' redis auth mismatch.'' @
         [LF] @ ''  Check: docker compose -f '' @ compose_file root @ '' logs server'')
     else ErrMsg (''control plane did not become healthy within 30s.'' @ [LF] @ ''  Check: docker compose -f '' @
         compose_file root @ '' logs server'' @ [LF] @ ''  Re-run: cd '' @ root @
         '' && docker compose up -d''))"

definition applyInstance :: "'d Lib \<Rightarrow> InstanceLayout \<Rightarrow> ('d box, unit) op" where
  "applyInstance L l =
    (let root = il_Root l in
     bindE (compose_step L root [''config'', ''--quiet''] (\<lambda>out.
       ErrMsg (''compose config invalid:'' @ [LF] @ out @ [LF] @ ''  Re-run: cd '' @ root @
         '' && docker compose config''))) (\<lambda>_.
     bindE (if has_prefix (lb_Version L) ''v'' then os_Setenv ''HX_VERSION'' (lb_Version L) else returnE ()) (\<lambda>_.
     bindE (compose_step L root [''up'', ''-d'', ''postgres'', ''redis''] (\<lambda>out.
       ErrMsg (''docker compose up failed: '' @ out @ [LF] @ ''  Re-run: cd '' @ root @
         '' && docker compose up -d'' @ [LF] @ ''  (raw error above)''))) (\<lambda>_.
     bindE (compose_step L root [''up'', ''-d'', ''--build'', ''--force-recreate'', ''--no-deps'', ''server''] (\<lambda>out.
       ErrMsg (''docker compose up --build --force-recreate server failed: '' @ out @ [LF] @
         ''  (raw error above)''))) (\<lambda>_.
     bindE (\<lambda>h. (Inr (), snd (start_dashboard L root h))) (\<lambda>_.
     (\<lambda>h. case pollHealthFn L (''http://127.0.0.1:'' @ ServerPort @ ''/health'') h of
        (True, h1) \<Rightarrow> (Inr (), h1)
      | (False, h1) \<Rightarrow> (case instanceServerLogs L root h1 of
          (logs, h2) \<Rightarrow> (Inl (unhealthy root logs), h2)))))))))"

section \<open>The installation\<close>

definition parse_origins :: "string \<Rightarrow> string list" where
  "parse_origins s = (if s = [] then [] else
     filter (\<lambda>x. x \<noteq> []) (map trim_space (split_on (CHR '','') s)))"

definition preflight_error :: "PreflightResult \<Rightarrow> bool \<Rightarrow> error option" where
  "preflight_error r firstInstall =
    (if \<not> pf_DockerAccess r then
       (if pf_DockerGroupHint r \<noteq> [] then Some (ErrMsg (''docker is installed but the socket is not accessible.'' @ [LF] @ ''  Fix: '' @
         pf_DockerGroupHint r @ [LF] @
         ''  Re-run '' @ BQ @ ''horizonx install server'' @ BQ @ '' afterwards.''))
        else Some (ErrMsg (''docker not found in PATH.'' @ [LF] @
         ''  Install docker first: https://docs.docker.com/engine/install/'' @ [LF] @
         ''  Then re-run '' @ BQ @ ''horizonx install server'' @ BQ @ ''.'')))
     else if \<not> pf_ComposeOK r then Some (ErrMsg (''docker compose is too old ('' @ pf_ComposeVersion r @ '').'' @ [LF] @
         ''  HorizonX needs Compose v2.20+ (the '' @ BQ @ ''include:'' @ BQ @ '' feature).'' @ [LF] @
         ''  Update docker compose, then re-run.''))
     else if \<not> pf_PortsFree r \<and> firstInstall then Some (ErrMsg (''signature ports are already in use (server '' @ ServerPort @ '' / dashboard '' @
         DashboardPort @ '').'' @ [LF] @
         ''  Free them or set HORIZONX_PORT / DASHBOARD_PORT in the .env.''))
     else None)"

text \<open>An installation is the first if \<open>os.Stat\<close> says that there is no environment file.\<close>

definition is_first_install :: "string \<Rightarrow> ('d, 'o) Host \<Rightarrow> bool \<times> ('d, 'o) Host" where
  "is_first_install dir h = (case os_Stat (path_Join dir ''.env'') h of
     (Inl e, h') \<Rightarrow> (e = ErrMsg ''no such file or directory'', h') | (Inr _, h') \<Rightarrow> (False, h'))"

definition ask_admin :: "InstallServerOptions \<Rightarrow> bool \<Rightarrow> 'd box \<Rightarrow> (string \<times> string) \<times> 'd box" where
  "ask_admin opts firstInstall h =
    (let ((email, pass), h') =
       (if firstInstall \<and> \<not> op_Yes opts then
          (let (email, h1) = promptString (firstNonEmpty (op_Admin opts) ''admin@horizonx.local'') h;
               (pass, h2) = promptString (op_AdminPass opts) h1
           in ((email, pass), h2))
        else ((op_Admin opts, op_AdminPass opts), h))
     in ((if email = [] then ''admin@horizonx.local'' else email, pass), h'))"

definition show_credentials :: "string \<Rightarrow> ('d box, unit) op" where
  "show_credentials envPath h =
    (case os_ReadFile envPath h of
       (Inl _, h') \<Rightarrow> (Inr (), h')
     | (Inr data, h') \<Rightarrow>
        (let email = envValue data ''ADMIN_EMAIL''; pass = envValue data ''ADMIN_PASSWORD'' in
         if email \<noteq> [] then (Inr (), h'\<lparr>ho_Out := (ho_Out h')\<lparr>bx_Shown := bx_Shown (ho_Out h') @ [(email, pass)]\<rparr>\<rparr>)
         else (Inr (), h')))"

definition stale_volumes :: "string \<Rightarrow> error" where
  "stale_volumes root = ErrMsg (''stale instance volumes detected: a postgres/redis volume from a previous'' @ [LF] @
         ''install exists, but no .env was found '' @ EMDASH @ '' the volume'' @ SQ @ ''s password differs from the'' @
         [LF] @ ''freshly generated one, so the server would crash-loop with '' @ DQ @ ''password'' @
         [LF] @ ''authentication failed for user postgres'' @ DQ @ ''.'' @ [LF] @ [LF] @
         ''Fix (wipes postgres+redis DATA '' @ EMDASH @ '' safe if you don'' @ SQ @ ''t need the old data):'' @
         [LF] @ ''  docker compose -f '' @ compose_file root @ '' down -v'' @ [LF] @
         ''  sudo horizonx install server'' @ [LF] @ [LF] @ ''Or restore the previous .env into '' @
         root @ '' and re-run.'')"

text \<open>What follows the generation of the files.\<close>

definition install_generated :: "'d Lib \<Rightarrow> InstallServerOptions \<Rightarrow> bool \<Rightarrow> InstanceLayout \<Rightarrow> ('d box, unit) op" where
  "install_generated L opts firstInstall l =
    (if op_GenerateOnly opts then returnE () else
     bindE (\<lambda>h. if firstInstall \<and> \<not> op_ResetVolumes opts then
         (case hasInstanceVolumes L h of
            (True, h') \<Rightarrow> (Inl (stale_volumes (il_Root l)), h') | (False, h') \<Rightarrow> (Inr (), h'))
       else (Inr (), h)) (\<lambda>_.
     bindE (if op_ResetVolumes opts then compose_step L (il_Root l) [''down'', ''-v'']
         (\<lambda>out. ErrMsg (''reset volumes failed: '' @ out)) else returnE ()) (\<lambda>_.
     bindE (applyInstance L l) (\<lambda>_.
     if firstInstall then show_credentials (il_EnvPath l) else returnE ()))))"

definition RunInstallServer :: "'d Lib \<Rightarrow> InstallServerOptions \<Rightarrow> ('d box, unit) op" where
  "RunInstallServer L opts h =
    (let dir = firstNonEmpty (op_Dir opts) instanceDir;
         host = firstNonEmpty (op_Host opts) ''127.0.0.1'';
         (firstInstall, h1) = is_first_install dir h;
         ((adminEmail, adminPass), h2) = ask_admin opts firstInstall h1;
         (r, h3) = RunPreflight L h2
     in case preflight_error r firstInstall of
          Some e \<Rightarrow> (Inl e, h3)
        | None \<Rightarrow>
           bindE (wrapE ''generate instance'' (generateInstance L dir host adminEmail adminPass
             (parse_origins (op_AllowedOrigins opts)))) (install_generated L opts firstInstall) h3)"

end
