(* ===== verification/InstanceEnv.thy ===== *)
theory InstanceEnv
  imports Instance
begin

text \<open>
  What generating an instance leaves on disk: the environment file of a new instance can be read
  back, and that of an existing one is written back unchanged.
\<close>

section \<open>Paths\<close>

lemma clean_elems_last:
  "x \<noteq> [] \<Longrightarrow> x \<noteq> ''.'' \<Longrightarrow> x \<noteq> ''..'' \<Longrightarrow>
    clean_elems rooted out (es @ [x]) = clean_elems rooted out es @ [x]"
  by (induction rooted out es rule: clean_elems.induct) (auto split: list.splits)

lemma join_with_last: "has_suffix (join_with slash (es @ [x])) x"
proof (induction es)
  case (Cons e es)
  then show ?case by (cases "es @ [x]") (auto simp: has_suffix_iff)
qed (simp add: has_suffix_def)

lemma split_on_last: "slash \<notin> set x \<Longrightarrow> \<exists>es. split_on slash (s @ slash # x) = es @ [x]"
proof (induction s)
  case Nil
  then show ?case by (auto simp: split_on_id)
next
  case (Cons c s)
  then obtain es where e: "split_on slash (s @ slash # x) = es @ [x]" by auto
  show ?case
  proof (cases es)
    case Nil
    from e Nil have "join_with slash (split_on slash (s @ slash # x)) = x" by simp
    then have "s @ slash # x = x" by (simp add: join_split_on)
    then show ?thesis by (metis append_self_conv2 list.distinct(1) append_eq_append_conv2 self_append_conv
          append_Cons append_assoc length_append length_Cons not_add_less2 lessI)
  next
    case (Cons f fs)
    with e show ?thesis by auto
  qed
qed

definition plain_elem :: "string \<Rightarrow> bool" where
  "plain_elem x \<longleftrightarrow> x \<noteq> [] \<and> x \<noteq> ''.'' \<and> x \<noteq> ''..'' \<and> slash \<notin> set x"

lemma path_Clean_last:
  assumes "plain_elem x"
  shows "has_suffix (path_Clean (s @ slash # x)) x"
proof -
  obtain es where s: "split_on slash (s @ slash # x) = es @ [x]"
    using assms split_on_last by (auto simp: plain_elem_def)
  have c: "clean_elems r [] (es @ [x]) = clean_elems r [] es @ [x]" for r
    using assms by (intro clean_elems_last) (auto simp: plain_elem_def)
  have "has_suffix (slash # join_with slash (fs @ [x])) x" for fs
    using join_with_last [of fs x] by (metis append_Cons has_suffix_iff)
  with join_with_last s c show ?thesis by (simp add: path_Clean_def Let_def)
qed

lemma path_Join_last: "plain_elem x \<Longrightarrow> root \<noteq> [] \<Longrightarrow> has_suffix (path_Join root x) x"
  using path_Clean_last [of x root] by (simp add: path_Join_def plain_elem_def)

lemma path_Join_last2: "plain_elem x \<Longrightarrow> root \<noteq> [] \<Longrightarrow> has_suffix (path_Join root (d @ slash # x)) x"
  using path_Clean_last [of x "root @ slash # d"] by (simp add: path_Join_def)

lemma path_Clean_nonempty: "path_Clean p \<noteq> []"
proof -
  have j: "join_with slash es \<noteq> []" if "es \<noteq> []" "[] \<notin> set es" for es
    using that by (cases "(slash, es)" rule: join_with.cases) auto
  have c: "[] \<notin> set out \<Longrightarrow> [] \<notin> set (clean_elems rooted out es)" for rooted out es
    by (induction rooted out es rule: clean_elems.induct) (auto split: list.splits)
  have "clean_elems False [] es \<noteq> [] \<Longrightarrow> join_with slash (clean_elems False [] es) \<noteq> []" for es
    using j c [of "[]" False es] by simp
  then show ?thesis by (auto simp: path_Clean_def Let_def)
qed

lemma path_Abs_nonempty: "path_Abs L p = Inr root \<Longrightarrow> p \<noteq> [] \<Longrightarrow> root \<noteq> []"
  by (auto simp: path_Abs_def path_Join_def path_Clean_nonempty split: if_splits sum.splits)

lemma has_suffix_last: "has_suffix s x \<Longrightarrow> x \<noteq> [] \<Longrightarrow> List.last s = List.last x"
  by (auto simp: has_suffix_iff)

lemma env_path_other:
  assumes "root \<noteq> []"
  shows "il_EnvPath (instance_layout root) \<noteq> il_ComposeRoot (instance_layout root)"
    and "il_EnvPath (instance_layout root) \<noteq> il_ServerCompose (instance_layout root)"
    and "il_EnvPath (instance_layout root) \<noteq> il_ServerDockerfile (instance_layout root)"
    and "il_EnvPath (instance_layout root) \<noteq> il_DashboardCompose (instance_layout root)"
proof -
  have p: "plain_elem ''.env''" "plain_elem ''docker-compose.yml''" "plain_elem ''Dockerfile''"
    by (simp_all add: plain_elem_def slash_def)
  have e: "has_suffix (path_Join root ''.env'') ''.env''" by (rule path_Join_last [OF p(1) assms])
  have d: "has_suffix s ''.env'' \<Longrightarrow> \<not> has_suffix s ''docker-compose.yml''"
    "has_suffix s ''.env'' \<Longrightarrow> \<not> has_suffix s ''Dockerfile''" for s
    using has_suffix_last [of s "''.env''"] has_suffix_last [of s "''docker-compose.yml''"]
      has_suffix_last [of s "''Dockerfile''"] by auto
  show "il_EnvPath (instance_layout root) \<noteq> il_ComposeRoot (instance_layout root)"
    "il_EnvPath (instance_layout root) \<noteq> il_ServerCompose (instance_layout root)"
    "il_EnvPath (instance_layout root) \<noteq> il_ServerDockerfile (instance_layout root)"
    "il_EnvPath (instance_layout root) \<noteq> il_DashboardCompose (instance_layout root)"
    using e d path_Join_last [OF p(2) assms] path_Join_last2 [OF p(2) assms, of "''server''"]
      path_Join_last2 [OF p(3) assms, of "''server''"] path_Join_last2 [OF p(2) assms, of "''dashboard''"]
    by (auto simp: instance_layout_def slash_def)
qed

section \<open>Writing the files\<close>

lemma write_file_effect:
  assumes "write_file p data h = (r, h')"
  shows "q \<noteq> p \<Longrightarrow> ho_Files h' q = ho_Files h q"
    and "r = Inr u \<Longrightarrow> ho_Files h' p = Some data"
    and "r = Inl e \<Longrightarrow> ho_Files h' p = ho_Files h p \<or> ho_Files h' p = Some []"
    and "ho_Out h' = ho_Out h"
  using assms
  by (auto simp: write_file_def os_Create_def os_WriteFile_def os_Write_def syscall_def bindE_def Let_def
      split: if_splits option.splits)

lemma write_files_step:
  assumes "write_files ((q, d) # fs) h = (r, h')"
  obtains e where "write_file q d h = (Inl e, h')" "r = Inl (Wrapped (''write '' @ q) e)"
  | u h1 where "write_file q d h = (Inr u, h1)" "write_files fs h1 = (r, h')"
  using assms by (auto simp: write_files_def wrapE_def catchE_def bindE_def split: prod.splits sum.splits)

lemma write_files_other:
  "write_files files h = (r, h') \<Longrightarrow> p \<notin> fst ` set files \<Longrightarrow> ho_Files h' p = ho_Files h p"
proof (induction files arbitrary: h)
  case (Cons f fs)
  obtain q d where f: "f = (q, d)" by force
  with Cons.prems(2) have "p \<noteq> q" "p \<notin> fst ` set fs" by auto
  from write_files_step [OF Cons.prems(1) [unfolded f]] show ?case
    by cases (use Cons.IH \<open>p \<noteq> q\<close> \<open>p \<notin> fst ` set fs\<close> write_file_effect(1) in metis)+
qed (simp add: write_files_def)

lemma write_files_same:
  assumes "\<And>d. (p, d) \<in> set files \<Longrightarrow> d = c" and "ho_Files h p = Some c" and "write_files files h = (r, h')"
  shows "ho_Files h' p = Some c \<or> (ho_Files h' p = Some [] \<and> (\<exists>e. r = Inl e))"
  using assms
proof (induction files arbitrary: h)
  case (Cons f fs)
  obtain q d where f: "f = (q, d)" by force
  from write_files_step [OF Cons.prems(3) [unfolded f]] show ?case
  proof cases
    case (1 e)
    then show ?thesis using write_file_effect(1,3) [OF 1(1)] Cons.prems(2) by (cases "p = q") auto
  next
    case (2 u h1)
    have "ho_Files h1 p = Some c"
      using write_file_effect(1,2) [OF 2(1)] Cons.prems(1,2) f by (cases "p = q") auto
    from Cons.IH [OF _ this 2(2)] Cons.prems(1) show ?thesis by auto
  qed
qed (simp add: write_files_def)

lemma write_files_done:
  assumes "\<And>d. (p, d) \<in> set files \<Longrightarrow> d = c" and "(p, c) \<in> set files"
    and "write_files files h = (Inr u, h')"
  shows "ho_Files h' p = Some c"
  using assms
proof (induction files arbitrary: h)
  case (Cons f fs)
  obtain q d where f: "f = (q, d)" by force
  from write_files_step [OF Cons.prems(3) [unfolded f]] obtain v h1
    where w: "write_file q d h = (Inr v, h1)" "write_files fs h1 = (Inr u, h')" by auto
  show ?case
  proof (cases "p = q")
    case True
    with f Cons.prems(1) have "ho_Files h1 p = Some c" using write_file_effect(2) [OF w(1) refl] by auto
    from write_files_same [OF _ this w(2)] Cons.prems(1) show ?thesis by auto
  next
    case False
    with f Cons.prems(2) have "(p, c) \<in> set fs" by simp
    from Cons.IH [OF _ this w(2)] Cons.prems(1) show ?thesis by simp
  qed
qed simp

lemma Chmod_files: "os_Chmod p h = (r, h') \<Longrightarrow> ho_Files h' = ho_Files h"
  by (auto simp: os_Chmod_def syscall_def Let_def split: if_splits)

lemma relax_modes_files: "ho_Files (snd (relax_modes l h)) = ho_Files h"
proof -
  have i: "ho_Files (snd (bindE (ignoreE (os_Chmod p)) (\<lambda>_. m) h)) = ho_Files h"
    if "\<And>h. ho_Files (snd (m h)) = ho_Files h" for p m and h :: "'a box"
    using that Chmod_files [of p h "fst (os_Chmod p h)" "snd (os_Chmod p h)"] by (simp add: bindE_def ignoreE_def)
  have j: "ho_Files (snd (ignoreE (os_Chmod p) h)) = ho_Files h" for p and h :: "'a box"
    using Chmod_files [of p h "fst (os_Chmod p h)" "snd (os_Chmod p h)"] by (simp add: ignoreE_def)
  obtain r h' where c: "os_Chmod (il_ComposeRoot l) h = (r, h')" by force
  with Chmod_files [OF c] show ?thesis by (cases r) (simp_all add: relax_modes_def i j)
qed

lemma relax_modes_ok: "fst (relax_modes l h) = Inr ()"
  by (auto simp: relax_modes_def bindE_def ignoreE_def split: prod.splits sum.splits)

section \<open>Generating an instance\<close>

text \<open>Nothing before the files are written touches a file.\<close>

definition same_files :: "'d box \<Rightarrow> 'd box \<Rightarrow> bool" where
  "same_files h h' \<longleftrightarrow> ho_Files h' = ho_Files h \<and> ho_Fails h' = ho_Fails h"

interpretation sf: guarantee same_files
  by unfold_locales (auto simp: same_files_def)

lemma same_rand: "guarantees same_files (box_rand n)"
  by (auto simp: guarantees_def box_rand_def same_files_def Let_def split: option.splits)

lemma same_uuid: "guarantees same_files (uuid_New L)"
  by (auto simp: guarantees_def uuid_New_def same_files_def)

lemma same_MkdirAll: "guarantees same_files (os_MkdirAll p :: ('d box, unit) op)"
  by (auto simp: guarantees_def os_MkdirAll_def syscall_def same_files_def Let_def)

text \<open>Making directories draws no random bytes.\<close>

definition same_out :: "'d box \<Rightarrow> 'd box \<Rightarrow> bool" where
  "same_out h h' \<longleftrightarrow> ho_Out h' = ho_Out h"

interpretation so: guarantee same_out
  by unfold_locales (auto simp: same_out_def)

lemma out_MkdirAll: "guarantees same_out (os_MkdirAll p :: ('d box, unit) op)"
  by (auto simp: guarantees_def os_MkdirAll_def syscall_def same_out_def Let_def)

lemma same_newInstanceEnv: "guarantees same_files (newInstanceEnv L host ae ap org)"
  unfolding newInstanceEnv_def randomHex_def randomPassword_def Let_def
  by (intro sf.g_rules same_rand same_uuid)

definition instance_files :: "InstanceLayout \<Rightarrow> string \<Rightarrow> (string \<times> string) list" where
  "instance_files l envContent = [(il_EnvPath l, envContent), (il_ComposeRoot l, instanceComposeRoot),
     (il_ServerCompose l, instanceComposeServer), (il_ServerDockerfile l, instanceServerDockerfile),
     (il_DashboardCompose l, instanceComposeDashboard)]"

lemma env_content_unique:
  "root \<noteq> [] \<Longrightarrow> (il_EnvPath (instance_layout root), d) \<in> set (instance_files (instance_layout root) c) \<longleftrightarrow> d = c"
  by (simp add: instance_files_def env_path_other)

text \<open>A run is a failure before any file is written, or one that writes the files.\<close>

lemma generateInstance_cases:
  assumes g: "generateInstance L dir host ae ap org h = (r, h')" and root: "path_Abs L dir = Inr root"
  obtains e where "same_files h h'" "r = Inl e"
  | env h1 c h2 h3 r2 where "same_files h h1" "kept_env (il_EnvPath (instance_layout root)) (renderInstanceEnv env) h1 = (c, h2)"
      "write_files (lb_order L (instance_files (instance_layout root) c)) h2 = (r2, h3)"
      "ho_Files h' = ho_Files h3" "r = map_sum id (\<lambda>_. instance_layout root) r2"
      "\<exists>h0. same_files h h0 \<and> ho_Out h0 = ho_Out h \<and> newInstanceEnv L host ae ap org h0 = (Inr env, h1)"
proof -
  let ?mk = "forE [[], ''server'', ''dashboard''] (\<lambda>sub.
      wrapE (''create '' @ path_Join root sub) (os_MkdirAll (path_Join root sub))) :: ('a box, unit) op"
  obtain r0 h0 where m: "?mk h = (r0, h0)" by force
  have "guarantees same_files ?mk" by (intro sf.g_for sf.g_wrap same_MkdirAll)
  from guaranteesD [OF this m] have s0: "same_files h h0" .
  have "guarantees same_out ?mk" by (intro so.g_for so.g_wrap out_MkdirAll)
  from guaranteesD [OF this m] have o0: "ho_Out h0 = ho_Out h" by (simp add: same_out_def)
  obtain r1 h1 where n: "newInstanceEnv L host ae ap org h0 = (r1, h1)" by force
  have s1: "same_files h h1" by (rule sf.trans [OF s0 guaranteesD [OF same_newInstanceEnv n]])
  note gen = g [unfolded generateInstance_def root sum.case bindE_def [of ?mk] m prod.case]
  show ?thesis
  proof (cases r0)
    case (Inl e)
    with gen s0 that(1) show ?thesis by auto
  next
    case Inr0: (Inr u)
    show ?thesis
    proof (cases r1)
      case (Inl e)
      with gen Inr0 n s1 that(1) show ?thesis by (auto simp: bindE_Inl)
    next
      case (Inr env)
      obtain c h2 where k: "kept_env (il_EnvPath (instance_layout root)) (renderInstanceEnv env) h1 = (c, h2)" by force
      obtain r2 h3 where w: "write_files (lb_order L (instance_files (instance_layout root) c)) h2 = (r2, h3)" by force
      obtain h4 where x: "relax_modes (instance_layout root) h3 = (Inr (), h4)"
        using relax_modes_ok [of "instance_layout root" h3] by (metis prod.collapse)
      then have "ho_Files h' = ho_Files h3 \<and> r = map_sum id (\<lambda>_. instance_layout root) r2"
        using gen Inr0 n Inr k w relax_modes_files [of "instance_layout root" h3]
        by (cases r2) (auto simp: bindE_def instance_files_def Let_def split: prod.splits sum.splits)
      with that(2) [OF s1 k w] s0 o0 n Inr show ?thesis by blast
    qed
  qed
qed

lemma kept_env_files: "kept_env p c h = (d, h') \<Longrightarrow> ho_Files h' = ho_Files h \<and> ho_Fails h' = ho_Fails h"
  by (auto simp: kept_env_def os_ReadFile_def syscall_def Let_def split: prod.splits sum.splits option.splits if_splits)

lemma kept_env_fresh: "kept_env p c h = (d, h') \<Longrightarrow> ho_Files h p \<in> {None, Some []} \<Longrightarrow> d = c"
  by (auto simp: kept_env_def os_ReadFile_def syscall_def Let_def split: prod.splits sum.splits option.splits if_splits)

lemma kept_env_existing:
  "kept_env p c h = (d, h') \<Longrightarrow> ho_Files h p = Some old \<Longrightarrow> old \<noteq> [] \<Longrightarrow> \<forall>n. \<not> ho_Fails h n \<Longrightarrow> d = old"
  by (auto simp: kept_env_def os_ReadFile_def syscall_def Let_def split: prod.splits sum.splits option.splits if_splits)

text \<open>An environment file that is there stays as it is, as long as system calls succeed.\<close>

lemma write_file_no_fail:
  assumes "write_file p data h = (r, h')" and "\<forall>n. \<not> ho_Fails h n" and "ho_Files h p = Some data"
  shows "ho_Files h' p = Some data"
  using assms
  by (auto simp: write_file_def os_Create_def os_WriteFile_def os_Write_def syscall_def bindE_def Let_def
      split: if_splits option.splits)

lemma write_file_Fails: "write_file p data h = (r, h') \<Longrightarrow> ho_Fails h' = ho_Fails h"
  by (auto simp: write_file_def os_Create_def os_WriteFile_def os_Write_def syscall_def bindE_def Let_def
      split: if_splits option.splits)

lemma write_files_keep:
  assumes "\<And>d. (p, d) \<in> set files \<Longrightarrow> d = c" and "ho_Files h p = Some c" and "\<forall>n. \<not> ho_Fails h n"
    and "write_files files h = (r, h')"
  shows "ho_Files h' p = Some c"
  using assms
proof (induction files arbitrary: h)
  case (Cons f fs)
  obtain q d where f: "f = (q, d)" by force
  have keep: "ho_Files h1 p = Some c" if "write_file q d h = (v, h1)" for v h1
  proof (cases "p = q")
    case True
    with f Cons.prems(1) have "d = c" by simp
    with True write_file_no_fail [OF that Cons.prems(3)] Cons.prems(2) show ?thesis by simp
  next
    case False
    then show ?thesis using write_file_effect(1) [OF that False] Cons.prems(2) by simp
  qed
  from write_files_step [OF Cons.prems(4) [unfolded f]] show ?case
  proof cases
    case (1 e)
    then show ?thesis by (simp add: keep)
  next
    case (2 u h1)
    have "\<forall>n. \<not> ho_Fails h1 n" using write_file_Fails [OF 2(1)] Cons.prems(3) by simp
    from Cons.IH [OF _ keep [OF 2(1)] this 2(2)] Cons.prems(1) show ?thesis by simp
  qed
qed (simp add: write_files_def)

lemma generateInstance_keeps:
  assumes g: "generateInstance L dir host ae ap org h = (r, h')" and d: "dir \<noteq> []"
    and order: "\<And>fs. set (lb_order L fs) = set fs"
    and nf: "\<forall>n. \<not> ho_Fails h n" and root: "path_Abs L dir = Inr root"
    and old: "ho_Files h (il_EnvPath (instance_layout root)) = Some old" "old \<noteq> []"
  shows "ho_Files h' (il_EnvPath (instance_layout root)) = Some old"
proof -
  have rn: "root \<noteq> []" by (rule path_Abs_nonempty [OF root d])
  from g root show ?thesis
  proof (cases rule: generateInstance_cases)
    case (1 e)
    with old show ?thesis by (simp add: same_files_def)
  next
    case (2 env h1 c h2 h3 r2)
    from 2(1) old(1) nf have h1: "ho_Files h1 (il_EnvPath (instance_layout root)) = Some old" "\<forall>n. \<not> ho_Fails h1 n"
      by (auto simp: same_files_def)
    with kept_env_existing [OF 2(2) h1(1) old(2)] kept_env_files [OF 2(2)]
    have c: "c = old" "ho_Files h2 (il_EnvPath (instance_layout root)) = Some old" "\<forall>n. \<not> ho_Fails h2 n" by auto
    have "ho_Files h3 (il_EnvPath (instance_layout root)) = Some old"
      by (rule write_files_keep [OF _ c(2,3) 2(3)]) (simp add: order c env_content_unique [OF rn])
    with 2(4) show ?thesis by simp
  qed
qed

lemma generateInstance_fresh:
  assumes g: "generateInstance L dir host ae ap org h = (Inr l, h')" and d: "dir \<noteq> []"
    and order: "\<And>fs. set (lb_order L fs) = set fs"
    and fresh: "\<And>root. path_Abs L dir = Inr root \<Longrightarrow> ho_Files h (il_EnvPath (instance_layout root)) \<in> {None, Some []}"
  shows "\<exists>env g0 g1. ho_Out g0 = ho_Out h \<and> newInstanceEnv L host ae ap org g0 = (Inr env, g1) \<and>
    ho_Files h' (il_EnvPath l) = Some (renderInstanceEnv env)"
proof -
  from g obtain root where root: "path_Abs L dir = Inr root"
    by (cases "path_Abs L dir") (auto simp: generateInstance_def)
  have rn: "root \<noteq> []" by (rule path_Abs_nonempty [OF root d])
  from g root show ?thesis
  proof (cases rule: generateInstance_cases)
    case (2 env h1 c h2 h3 r2)
    from 2(5) obtain u where r2: "r2 = Inr u" and l: "l = instance_layout root" by (cases r2) auto
    have "c = renderInstanceEnv env"
      using kept_env_fresh [OF 2(2)] fresh [OF root] 2(1) by (simp add: same_files_def)
    moreover have "ho_Files h3 (il_EnvPath l) = Some c"
      by (rule write_files_done [OF _ _ 2(3) [unfolded r2]]) (simp_all add: order l env_content_unique [OF rn])
    ultimately show ?thesis using 2(4,6) by auto
  qed simp
qed

section \<open>Reading a new environment back\<close>

lemma line_safe_word: "\<forall>c\<in>set v. \<not> is_space c \<Longrightarrow> line_safe v"
  unfolding line_safe_def trim_space_fixed by (cases "v = []") (auto dest: bspec [of _ _ LF])

lemma hex_encode_word: "\<forall>c\<in>set (hex_encode b). \<not> is_space c"
proof -
  have "\<not> is_space (hex_char n)" if "n < 16" for n
    using that by (auto simp: hex_char_def is_space_def)
  moreover have "(of_char c :: nat) div 16 < 16" for c :: char
    using byte_bound [of c] by (simp add: less_mult_imp_div_less)
  ultimately show ?thesis by (auto simp: hex_encode_def)
qed

lemma alphabet_word: "c \<in> set alphabet \<Longrightarrow> \<not> is_space c"
  by (auto simp: alphabet_def is_space_def)

lemma random_chars: "set (map (\<lambda>c. alphabet ! (of_char c mod length alphabet)) b) \<subseteq> set alphabet"
proof -
  have "alphabet \<noteq> []" by (simp add: alphabet_def)
  then show ?thesis by (auto intro!: nth_mem)
qed

lemma box_rand_Inr: "box_rand n h = (Inr b, h') \<Longrightarrow> bx_Rand (ho_Out h) (bx_Reads (ho_Out h)) n = Some b \<and>
    ho_Out h' = (ho_Out h)\<lparr>bx_Reads := Suc (bx_Reads (ho_Out h))\<rparr>"
  by (auto simp: box_rand_def Let_def split: option.splits)

lemma newInstanceEnv_fields:
  fixes L :: "'a Lib"
  assumes "newInstanceEnv L host email pass origins g0 = (Inr env, g1)"
  defines "host' \<equiv> if host = [] then ''127.0.0.1'' else host"
  shows "ie_Host env = host'" and "ie_HTTPAddr env = '':3000''" and "ie_DashboardPort env = DashboardPort"
    and "ie_AdminEmail env = (if email = [] then ''admin@horizonx.local'' else email)"
    and "pass \<noteq> [] \<Longrightarrow> ie_AdminPass env = pass"
    and "pass = [] \<Longrightarrow> \<exists>b. bx_Rand (ho_Out g0) (bx_Reads (ho_Out g0) + 4) 20 = Some b \<and>
      ie_AdminPass env = map (\<lambda>c. alphabet ! (of_char c mod length alphabet)) b"
    and "ie_AllowedOrigins env = (if origins = [] then [''http://'' @ host' @ '':'' @ DashboardPort] else origins)"
    and "\<exists>n. ie_ServerID env = lb_uuid L n"
    and "\<exists>a b c d. ie_JWTSecret env = hex_encode a \<and> ie_PostgresPassword env = hex_encode b \<and>
      ie_RedisPassword env = hex_encode c \<and> ie_AgentSecret env = hex_encode d"
proof -
  let ?env = "\<lambda>ja pa ra aa pw n. \<lparr>ie_HTTPAddr = '':3000'', ie_DashboardPort = DashboardPort,
     ie_JWTSecret = hex_encode ja, ie_ServerID = lb_uuid L n, ie_AgentSecret = hex_encode aa,
     ie_PostgresPassword = hex_encode pa, ie_RedisPassword = hex_encode ra, ie_Host = host',
     ie_AdminEmail = (if email = [] then ''admin@horizonx.local'' else email), ie_AdminPass = pw,
     ie_AllowedOrigins = (if origins = [] then [''http://'' @ host' @ '':'' @ DashboardPort] else origins)\<rparr>"
  from assms(1) obtain ja pa ra aa pw n k1 k2 k3 h1 h2 where
    env: "env = ?env ja pa ra aa pw n" and
    draws: "box_rand 32 g0 = (Inr ja, k1)" "box_rand 16 k1 = (Inr pa, k2)" "box_rand 16 k2 = (Inr ra, k3)"
      "box_rand 32 k3 = (Inr aa, h1)" and
    pw: "(if pass = [] then randomPassword else returnE pass) (h1 :: 'a box) = (Inr pw, h2)"
    unfolding newInstanceEnv_def randomHex_def uuid_New_def host'_def
    by (auto simp only: bindE_Inr_iff Let_def returnE_apply prod.inject sum.inject)
  have h1: "ho_Out h1 = (ho_Out g0)\<lparr>bx_Reads := bx_Reads (ho_Out g0) + 4\<rparr>"
    using draws [THEN box_rand_Inr] by (simp add: numeral_eq_Suc)
  show "\<exists>b. bx_Rand (ho_Out g0) (bx_Reads (ho_Out g0) + 4) 20 = Some b \<and>
      ie_AdminPass env = map (\<lambda>c. alphabet ! (of_char c mod length alphabet)) b" if "pass = []"
  proof -
    from pw that obtain b where b: "box_rand 20 h1 = (Inr b, h2)" "pw = map (\<lambda>c. alphabet ! (of_char c mod length alphabet)) b"
      by (auto simp: randomPassword_def bindE_Inr_iff)
    from box_rand_Inr [OF b(1)] h1 b(2) show ?thesis by (simp add: env)
  qed
  show "pass \<noteq> [] \<Longrightarrow> ie_AdminPass env = pass" using pw by (simp add: env)
  show "ie_Host env = host'" "ie_HTTPAddr env = '':3000''" "ie_DashboardPort env = DashboardPort"
    "ie_AdminEmail env = (if email = [] then ''admin@horizonx.local'' else email)"
    "ie_AllowedOrigins env = (if origins = [] then [''http://'' @ host' @ '':'' @ DashboardPort] else origins)"
    by (simp_all add: env)
  show "\<exists>n. ie_ServerID env = lb_uuid L n" by (rule exI [of _ n]) (simp add: env)
  show "\<exists>a b c d. ie_JWTSecret env = hex_encode a \<and> ie_PostgresPassword env = hex_encode b \<and>
      ie_RedisPassword env = hex_encode c \<and> ie_AgentSecret env = hex_encode d"
    by (rule exI [of _ ja], rule exI [of _ pa], rule exI [of _ ra], rule exI [of _ aa]) (simp add: env)
qed

lemma line_safe_between:
  assumes "a \<noteq> []" "b \<noteq> []" "\<forall>c\<in>set a \<union> set b. \<not> is_space c" "LF \<notin> set v"
  shows "line_safe (a @ v @ b)"
  using assms unfolding line_safe_def trim_space_fixed
  by (auto simp: last_append) (meson UnI1 UnI2 is_space_LF last_in_set hd_in_set)+

lemma plain_keys:
  "list_all plain_key [''APP_ENV'', ''LOG_LEVEL'', ''LOG_FORMAT'', ''HTTP_ADDR'', ''TIME_ZONE'', ''JWT_SECRET'',
    ''JWT_EXPIRY'', ''POSTGRES_PASSWORD'', ''DATABASE_URL'', ''REDIS_PASSWORD'', ''REDIS_PASS'', ''REDIS_ADDR'',
    ''HORIZONX_SERVER_ID'', ''HORIZONX_SERVER_API_TOKEN'', ''HORIZONX_API_URL'', ''HORIZONX_WS_URL'',
    ''AGENT_JOB_WORKER_COUNT'', ''HORIZONX_PORT'', ''DASHBOARD_PORT'', ''ALLOWED_ORIGINS'', ''ADMIN_EMAIL'',
    ''ADMIN_PASSWORD'', ''AUTO_SEED'']"
  by (simp add: plain_key_def is_space_def)

text \<open>An environment whose values are safe renders to lines that can be read.\<close>

definition env_safe :: "instanceEnv \<Rightarrow> bool" where
  "env_safe e \<longleftrightarrow> list_all line_safe [ie_HTTPAddr e, ie_DashboardPort e, ie_JWTSecret e, ie_ServerID e,
     ie_AgentSecret e, ie_PostgresPassword e, ie_RedisPassword e, ie_AdminEmail e, ie_AdminPass e,
     join_with (CHR '','') (ie_AllowedOrigins e)] \<and> LF \<notin> set (ie_Host e)"

lemma URL_safe: "LF \<notin> set host \<Longrightarrow> line_safe (ServerAPIURL host) \<and> line_safe (ServerWSURL host)"
proof -
  assume h: "LF \<notin> set host"
  have s: "\<forall>c\<in>set ''http://'' \<union> set '':4858''. \<not> is_space c"
    "\<forall>c\<in>set ''ws://'' \<union> set '':4858/ws/agent''. \<not> is_space c" by (simp_all add: is_space_def)
  have "line_safe (''http://'' @ host @ '':4858'')" "line_safe (''ws://'' @ host @ '':4858/ws/agent'')"
    by (rule line_safe_between; use s h in simp)+
  then show ?thesis by (simp add: ServerAPIURL_def ServerWSURL_def ServerPort_def)
qed

lemma DSN_safe: "LF \<notin> set pw \<Longrightarrow>
  line_safe (''postgres://postgres:'' @ pw @ ''@postgres:5432/horizonx?sslmode=disable'')"
  by (rule line_safe_between) (simp_all add: is_space_def)

lemma env_entries_ok:
  assumes "env_safe e"
  shows "\<forall>x\<in>set (env_entries e). entry_ok x"
proof -
  have v: "line_safe (ie_HTTPAddr e)" "line_safe (ie_DashboardPort e)" "line_safe (ie_JWTSecret e)"
    "line_safe (ie_ServerID e)" "line_safe (ie_AgentSecret e)" "line_safe (ie_PostgresPassword e)"
    "line_safe (ie_RedisPassword e)" "line_safe (ie_AdminEmail e)" "line_safe (ie_AdminPass e)"
    "line_safe (join_with (CHR '','') (ie_AllowedOrigins e))" "LF \<notin> set (ie_Host e)"
    using assms by (simp_all add: env_safe_def)
  have n: "LF \<notin> set (ie_ServerID e)" "LF \<notin> set (ie_AgentSecret e)" "LF \<notin> set (ie_PostgresPassword e)"
    "LF \<notin> set (ServerAPIURL (ie_Host e))" "LF \<notin> set (ServerWSURL (ie_Host e))"
    using v URL_safe [OF v(11)] by (simp_all add: line_safe_def)
  have c: "line_safe ''production''" "line_safe ''info''" "line_safe ''text''" "line_safe ''Asia/Jakarta''"
    "line_safe ''24h''" "line_safe ''redis:6379''" "line_safe ''10''" "line_safe ''true''" "line_safe ServerPort"
    by (rule line_safe_word; simp add: is_space_def ServerPort_def)+
  show ?thesis
    unfolding env_entries_def
    using v(1-10) c n URL_safe [OF v(11)] DSN_safe [OF n(3)] plain_keys
    by (simp add: LF_def EMDASH_def BQ_def)
qed

definition settings :: "instanceEnv \<Rightarrow> (string \<times> string) list" where
  "settings e = List.map_filter entry_pair (env_entries e)"

lemma map_of_rev_distinct: "distinct (map fst xs) \<Longrightarrow> map_of (rev xs) = map_of xs"
  by (subst map_of_inject_set) (simp_all add: rev_map [symmetric])

lemma settings_distinct: "distinct (map fst (settings e))"
  by (simp add: settings_def env_entries_def map_filter_simps)

lemma parseEnv_render: "env_safe e \<Longrightarrow> parseEnv (renderInstanceEnv e) = map_of (settings e)"
  using parseEnv_entries [OF env_entries_ok] map_of_rev_distinct [OF settings_distinct]
  by (simp add: renderInstanceEnv_def settings_def)

lemma envValue_render: "env_safe e \<Longrightarrow> plain_key k \<Longrightarrow> map_of (settings e) k = Some v \<Longrightarrow>
    envValue (renderInstanceEnv e) k = v"
  using env_value_entries [OF env_entries_ok, of e k]
  by (simp add: renderInstanceEnv_def envValue_def split_entries env_entries_ok settings_def)

lemma settings_values:
  "map_of (settings e) ''HORIZONX_API_URL'' = Some (ServerAPIURL (ie_Host e))"
  "map_of (settings e) ''HORIZONX_WS_URL'' = Some (ServerWSURL (ie_Host e))"
  "map_of (settings e) ''ADMIN_EMAIL'' = Some (ie_AdminEmail e)"
  "map_of (settings e) ''ADMIN_PASSWORD'' = Some (ie_AdminPass e)"
  "map_of (settings e) ''JWT_SECRET'' = Some (ie_JWTSecret e)"
  by (rule map_of_is_SomeI [OF settings_distinct]; simp add: settings_def env_entries_def map_filter_simps)+

lemma newInstanceEnv_safe:
  assumes n: "newInstanceEnv L host email pass origins g0 = (Inr env, g1)"
    and host: "LF \<notin> set host" and email: "line_safe email" and pass: "line_safe pass"
    and origins: "line_safe (join_with (CHR '','') origins)" and uuid: "\<And>n. line_safe (lb_uuid L n)"
  shows "env_safe env"
proof -
  note f = newInstanceEnv_fields [OF n]
  have lf: "LF \<notin> set ''127.0.0.1''" by (simp add: LF_def)
  have "line_safe (''http://'' @ h @ '':4859'')" if "LF \<notin> set h" for h
    by (rule line_safe_between) (use that in \<open>simp_all add: is_space_def\<close>)
  with lf host origins have "line_safe (join_with (CHR '','') (ie_AllowedOrigins env))"
    unfolding f(7) by (auto simp: DashboardPort_def)
  moreover have "line_safe (ie_AdminEmail env)"
    using email line_safe_word [of "''admin@horizonx.local''"] unfolding f(4) by (simp add: is_space_def)
  moreover have "line_safe (ie_AdminPass env)"
  proof (cases "pass = []")
    case True
    then obtain b where "ie_AdminPass env = map (\<lambda>c. alphabet ! (of_char c mod length alphabet)) b" using f(6) by blast
    with random_chars [of b] have "set (ie_AdminPass env) \<subseteq> set alphabet" by (simp only:)
    then show ?thesis by (intro line_safe_word) (auto dest: alphabet_word)
  qed (use pass f(5) in simp)
  moreover have "line_safe (hex_encode b)" for b by (rule line_safe_word [OF hex_encode_word])
  moreover have "line_safe '':3000''" "line_safe DashboardPort"
    by (rule line_safe_word; simp add: is_space_def DashboardPort_def)+
  ultimately show ?thesis
    using f(1,2,3,8,9) host lf uuid unfolding env_safe_def by auto
qed

end
