(* ===== verification/Upgrade.thy ===== *)
theory Upgrade
  imports InstallServer InstanceEnv
begin

text \<open>
  \<open>horizonx upgrade\<close> as a whole (\<open>internal/app/upgrade.go\<close>): the update of the binary of theory
  \<open>SelfUpdate\<close>, and the update of the installed components, which the new binary does.
\<close>

section \<open>Restarts\<close>

definition atRestart :: "'d Lib \<Rightarrow> string \<Rightarrow> bool \<Rightarrow> ('d box, unit) op" where
  "atRestart L unit userScope h =
    (let script = ''sleep 2; systemctl '' @ (if userScope then ''--user '' else []) @ ''restart '' @ unit
     in case exec_CombinedOutput L ''bash'' [''-c'', ''echo '' @ DQ @ script @ DQ @ '' | at now + 1 minute''] h of
          ((out, Some _), h') \<Rightarrow> (Inl (ErrMsg (''schedule restart via at: '' @ trim_space out)), h')
        | ((_, None), h') \<Rightarrow> (Inr (), h'))"

text \<open>A failure whose output names \<open>systemd-run\<close> counts as success.\<close>

definition restartService :: "'d Lib \<Rightarrow> string \<Rightarrow> bool \<Rightarrow> ('d box, unit) op" where
  "restartService L unit userScope h =
    (let args = [''--unit=horizonx-upgrade-restart-'' @ show_nat (lb_Pid L), ''--on-active=2'', ''--no-block'',
           ''systemctl''] @ (if userScope then [''--user''] else []) @ [''restart'', unit]
     in case exec_CombinedOutput L ''systemd-run'' args h of
          ((_, None), h1) \<Rightarrow> (Inr (), h1)
        | ((out, Some _), h1) \<Rightarrow>
            if contains out ''systemd-run'' then (Inr (), h1)
            else catchE (atRestart L unit userScope) (\<lambda>_. failE (ErrMsg (''restart '' @ unit @
              '' (run manually: sudo systemctl restart '' @ unit @ '')''))) h1)"

definition restartCompose :: "'d Lib \<Rightarrow> string \<Rightarrow> ('d box, unit) op" where
  "restartCompose L composeFile h =
    (case exec_CombinedOutput L ''docker'' [''compose'', ''-f'', composeFile, ''up'', ''-d'', ''--force-recreate''] h of
       ((out, Some _), h') \<Rightarrow> (Inl (ErrMsg (''docker compose up: '' @ trim_space out)), h')
     | ((_, None), h') \<Rightarrow> (Inr (), h'))"

section \<open>Components\<close>

text \<open>The instance, if there is one: whether it was updated. A failure is reported only.\<close>

definition upgrade_instance :: "'d Lib \<Rightarrow> Runtime \<Rightarrow> 'd box \<Rightarrow> bool \<times> 'd box" where
  "upgrade_instance L rt h =
    (case bindE (generateInstance L (rt_InstanceDir rt) ''127.0.0.1'' [] [] []) (applyInstance L) h of
       (Inr _, h') \<Rightarrow> (True, h') | (Inl _, h') \<Rightarrow> (False, h'))"

definition upgradeComponents :: "'d Lib \<Rightarrow> ('d box, unit) op" where
  "upgradeComponents L h =
    (let (rt, h1) = DetectRuntime L h;
         (inst, h2) = InstanceInstalled rt h1;
         (instanceDone, h3) = (if inst then upgrade_instance L rt h2 else (False, h2));
         (agent, h4) = UnitActive L rt agentUnit h3
     in if agent then (Inr (), snd (restartService L agentUnit (IsUserUnit rt agentUnit) h4))
        else if instanceDone then (Inr (), h4)
        else
          (let (server, h5) = UnitActive L rt serverUnit h4
           in if server then (Inr (), snd (restartService L serverUnit (IsUserUnit rt serverUnit) h5))
              else if rt_ComposeFile rt \<noteq> [] then (Inr (), snd (restartCompose L (rt_ComposeFile rt) h5))
              else (Inr (), h5)))"

section \<open>The upgrade\<close>

definition reexec :: "'d Lib \<Rightarrow> string \<Rightarrow> ('d box, unit) op" where
  "reexec L exe = bindE (os_Setenv envComponentsOnly ''1'') (\<lambda>_.
     wrapE ''re-exec new binary'' (lb_Exec L exe))"

definition RunUpgrade :: "'d Lib \<Rightarrow> ('d box, unit) op" where
  "RunUpgrade L h =
    (if os_Getenv envComponentsOnly h = ''1'' then upgradeComponents L h
     else bindE (latestRelease L) (\<lambda>tagName.
       if trim_prefix tagName ''v'' = lb_Version L then upgradeComponents L
       else self_update L (reexec L)) h)"

end
