(* ===== verification/InstallSafety.thy ===== *)
theory InstallSafety
  imports Upgrade
begin

text \<open>
  What installing and upgrading leave alone: the binary, unless a verified one replaces it, and the
  environment file and the volumes of an instance.
\<close>

section \<open>The binary\<close>

lemma latestRelease_files:
  "latestRelease L h = (r, h') \<Longrightarrow> ho_Files h' = ho_Files h \<and> os_TempDir h' = os_TempDir h"
  by (auto simp: latestRelease_def wrapE_def catchE_def bindE_def http_Get_def
      split: prod.splits sum.splits option.splits if_splits)

text \<open>
  C34. An upgrade that finds another release, of an executable that exists and whose backup path exists or
  is not that of one of the upgrade's temporary files, ends in one of three ways, with the network,
  the disk or a rename failing at any step. It is an error and the binary is the old one. Or it is the
  error of the installation, the binary is missing because moving the old one back failed as well,
  and the old one is at the backup path. Or the update, on its own, succeeds and ends on a machine,
  up to the removal of temporary files, where the binary is a regular file of the archive this run
  downloaded, whose hash is the one that the list this run downloaded gives for it; and the upgrade
  is to run that binary there, with its result.
\<close>

theorem upgrade_replaces_verified:
  assumes "os_Getenv envComponentsOnly h \<noteq> ''1''"
    and "latestRelease L h = (Inr tag, h1)" "trim_prefix tag ''v'' \<noteq> lb_Version L"
    and "lb_Executable L = Inr exe" "ho_Files h exe = Some old" "safe (exe @ ''.old'') h"
    and "RunUpgrade L h = (r, h')"
  shows "((\<exists>e. r = Inl e) \<and> ho_Files h' exe = Some old) \<or>
    ((\<exists>e. r = Inl (Wrapped ''install new binary'' e)) \<and> ho_Files h' exe = None \<and>
      ho_Files h' (exe @ ''.old'') = Some old) \<or>
    (\<exists>bin g tmps. verified_release L h1 bin \<and> ho_Files g exe = Some bin \<and> exe \<notin> set tmps \<and>
      self_update L (\<lambda>_. returnE ()) h1 = (Inr (), removed tmps g) \<and>
      (\<exists>h2. reexec L exe g = (r, h2) \<and> h' = removed tmps h2))"
proof -
  have f: "ho_Files h1 = ho_Files h" "os_TempDir h1 = os_TempDir h"
    using latestRelease_files [OF assms(2)] by auto
  then have u: "self_update L (reexec L) h1 = (r, h')"
    using assms(1-3,7) by (simp add: RunUpgrade_def bindE_Inr)
  have "swapped L h1 exe old (\<lambda>k. self_update L k h1)"
    by (rule self_update_swapped) (use assms(4,5,6) f in \<open>auto simp: safe_def\<close>)
  then show ?thesis
    unfolding swapped_def
  proof (elim disjE [where P = "\<exists>e h. _ e h"] exE conjE)
    fix bin g tmps assume g: "verified_release L h1 bin" "ho_Files g exe = Some bin" "exe \<notin> set tmps"
      and k: "\<forall>k. self_update L k h1 = (fst (k exe g), removed tmps (snd (k exe g)))"
    have "self_update L (\<lambda>_. returnE ()) h1 = (Inr (), removed tmps g)"
      using k [rule_format, of "\<lambda>_. returnE ()"] by (simp add: returnE_def)
    moreover have "reexec L exe g = (r, snd (reexec L exe g)) \<and> h' = removed tmps (snd (reexec L exe g))"
      using k [rule_format, of "reexec L"] u by (cases "reexec L exe g") simp
    ultimately show ?thesis using g by blast
  qed (use u in auto)
qed

text \<open>A machine with a binary and an instance, and a release.\<close>

definition demo_lib :: "unit Lib" where
  "demo_lib = \<lparr>lb_progs = (\<lambda>ctx c h. \<lparr>oc_Start = None, oc_Lines = [], oc_Took = 0, oc_StreamErrs = [],
       oc_Exit = None, oc_Files = ho_Files h, oc_Dirs = ho_Dirs h, oc_Rest = ()\<rparr>),
     lb_Get = (\<lambda>t url h. (1, Inr \<lparr>hr_Status = 200, hr_StatusText = ''200 OK'',
       hr_Body = (if url = githubAPI then ''v2'' else url), hr_Err = None\<rparr>)),
     lb_sha256 = (\<lambda>s. s), lb_gunzip = (\<lambda>s. Inr ([], None)),
     lb_order = (\<lambda>xs. xs), lb_uuid = (\<lambda>n. show_nat n), lb_Getwd = Inr ''/root'',
     lb_LookPath = (\<lambda>_. True), lb_Dial = (\<lambda>_ _ _. True), lb_Listen = (\<lambda>_ _. True),
     lb_Glob = (\<lambda>_ _. []), lb_Hostname = Inr ''demo'', lb_Unit = (\<lambda>_. Inr []), lb_Euid = 0, lb_Pid = 1, lb_OwnerWrite = (\<lambda>_ _. True),
     lb_json = (\<lambda>s. Inr (JObj [(''tag_name'', JStr s)])), lb_Executable = Inr ''/bin/horizonx'',
     lb_Exec = (\<lambda>exe h. (Inr (), h)), lb_GOOS = ''linux'', lb_GOARCH = ''amd64'', lb_Version = ''1''\<rparr>"

definition demo_box :: "unit box" where
  "demo_box = \<lparr>ho_Now = 0, ho_Files = [''/bin/horizonx'' \<mapsto> ''one'', ''/opt/horizonx/.env'' \<mapsto> ''A=1'',
       ''/opt/horizonx/docker-compose.yml'' \<mapsto> ''include''],
     ho_Dirs = (\<lambda>p. p \<in> {''/bin'', ''/tmp'', ''/opt/horizonx''}), ho_Calls = 0, ho_Fails = (\<lambda>_. False),
     ho_Log = [], ho_Rest = (), ho_Out = \<lparr>bx_Env = (\<lambda>_. []), bx_Stdin = [], bx_TempName = show_nat,
       bx_Temps = 0, bx_Rand = (\<lambda>_ n. Some (replicate n (CHR ''x''))), bx_Reads = 0, bx_Shown = []\<rparr>\<rparr>"

theorem upgrade_replaces_verified_witness:
  "\<exists>r h' h1. RunUpgrade demo_lib demo_box = (r, h') \<and> latestRelease demo_lib demo_box = (Inr ''v2'', h1) \<and>
    (((\<exists>e. r = Inl e) \<and> ho_Files h' ''/bin/horizonx'' = Some ''one'') \<or>
    ((\<exists>e. r = Inl (Wrapped ''install new binary'' e)) \<and> ho_Files h' ''/bin/horizonx'' = None \<and>
      ho_Files h' (''/bin/horizonx'' @ ''.old'') = Some ''one'') \<or>
    (\<exists>bin. verified_release demo_lib h1 bin))"
proof -
  have l: "latestRelease demo_lib demo_box = (Inr ''v2'', demo_box\<lparr>ho_Now := 1\<rparr>)"
    by (simp add: latestRelease_def wrapE_def catchE_def bindE_def http_Get_def demo_lib_def demo_box_def
        json_string_def)
  obtain r h' where u: "RunUpgrade demo_lib demo_box = (r, h')" by force
  have "os_Getenv envComponentsOnly demo_box \<noteq> ''1''" "trim_prefix ''v2'' ''v'' \<noteq> lb_Version demo_lib"
    "lb_Executable demo_lib = Inr ''/bin/horizonx''" "ho_Files demo_box ''/bin/horizonx'' = Some ''one''"
    "safe (''/bin/horizonx'' @ ''.old'') demo_box"
    by (simp_all add: demo_lib_def demo_box_def os_Getenv_def envComponentsOnly_def trim_prefix_def
        has_prefix_def safe_def os_TempDir_def join_path_def has_suffix_def slash_def)
  from upgrade_replaces_verified [OF this(1) l this(2-5) u] l u show ?thesis by blast
qed

section \<open>The instance\<close>

text \<open>
  The commands of docker and systemd that take nothing down and remove nothing: questions, the
  loading of an image, and \<open>compose up\<close>.
\<close>

definition disturbs :: "Command \<Rightarrow> bool" where
  "disturbs c \<longleftrightarrow> \<not> (let args = cm_args c in
     (cm_name c = ''docker'' \<longrightarrow> take 1 args \<in> {[''info''], [''load'']} \<or>
        take 2 args \<in> {[''compose'', ''version''], [''volume'', ''ls'']} \<or>
        take 2 args = [''compose'', ''-f''] \<and> take 1 (drop 3 args) \<in> {[''config''], [''up''], [''logs'']}) \<and>
     (cm_name c = ''systemctl'' \<longrightarrow> take 1 args \<in> {[''is-active''], [''is-system-running'']} \<or>
        take 2 args = [''--user'', ''is-active'']))"

text \<open>
  \<open>keeps_env p\<close>: as long as system calls succeed, the file at \<open>p\<close> stays as it is if it is not
  empty, and no command that was run disturbs the instance.
\<close>

definition keeps_env :: "string \<Rightarrow> 'd box \<Rightarrow> 'd box \<Rightarrow> bool" where
  "keeps_env p h h' \<longleftrightarrow> (\<forall>n. \<not> ho_Fails h n) \<longrightarrow>
     (\<forall>n. \<not> ho_Fails h' n) \<and> (ho_Files h p \<notin> {None, Some []} \<longrightarrow> ho_Files h' p = ho_Files h p) \<and>
     (\<exists>cs. ho_Log h' = ho_Log h @ cs \<and> (\<forall>c\<in>set cs. \<not> disturbs (fst c)))"

interpretation ke: guarantee "keeps_env p" for p
proof
  show "keeps_env p w w" for w :: "'d box" by (auto simp: keeps_env_def)
  fix a b c :: "'d box"
  assume ab: "keeps_env p a b" and bc: "keeps_env p b c"
  show "keeps_env p a c"
    unfolding keeps_env_def
  proof
    assume a: "\<forall>n. \<not> ho_Fails a n"
    with ab obtain cs where b: "\<forall>n. \<not> ho_Fails b n"
      "ho_Files a p \<notin> {None, Some []} \<longrightarrow> ho_Files b p = ho_Files a p"
      "ho_Log b = ho_Log a @ cs" "\<forall>c\<in>set cs. \<not> disturbs (fst c)" by (auto simp: keeps_env_def)
    with bc obtain ds where c: "\<forall>n. \<not> ho_Fails c n"
      "ho_Files b p \<notin> {None, Some []} \<longrightarrow> ho_Files c p = ho_Files b p"
      "ho_Log c = ho_Log b @ ds" "\<forall>c\<in>set ds. \<not> disturbs (fst c)" by (auto simp: keeps_env_def)
    have "ho_Log c = ho_Log a @ (cs @ ds)" "\<forall>c\<in>set (cs @ ds). \<not> disturbs (fst c)"
      using b c by auto
    with b c show "(\<forall>n. \<not> ho_Fails c n) \<and>
        (ho_Files a p \<notin> {None, Some []} \<longrightarrow> ho_Files c p = ho_Files a p) \<and>
        (\<exists>cs. ho_Log c = ho_Log a @ cs \<and> (\<forall>c\<in>set cs. \<not> disturbs (fst c)))" by metis
  qed
qed

text \<open>Steps that run no command and write no file keep everything.\<close>

definition quiet_step :: "'d box \<Rightarrow> 'd box \<Rightarrow> bool" where
  "quiet_step h h' \<longleftrightarrow> ho_Files h' = ho_Files h \<and> ho_Fails h' = ho_Fails h \<and> ho_Log h' = ho_Log h"

lemma quiet_keeps: "quiet_step h h' \<Longrightarrow> keeps_env p h h'"
  by (auto simp: quiet_step_def keeps_env_def)

lemma k_quiet: "(\<And>h. quiet_step h (snd (m h))) \<Longrightarrow> guarantees (keeps_env p) m"
  by (auto simp: guarantees_def intro: quiet_keeps)

lemma k_rand: "guarantees (keeps_env p) (box_rand n)"
  by (rule k_quiet) (auto simp: box_rand_def quiet_step_def Let_def split: option.splits)

lemma k_uuid: "guarantees (keeps_env p) (uuid_New L)"
  by (rule k_quiet) (auto simp: uuid_New_def quiet_step_def)

lemma k_Get: "guarantees (keeps_env p) (http_Get L t url)"
  by (rule k_quiet) (auto simp: http_Get_def quiet_step_def split: prod.splits)

lemma k_Setenv: "guarantees (keeps_env p) (os_Setenv k v)"
  by (rule k_quiet) (auto simp: os_Setenv_def quiet_step_def)

lemma k_MkdirAll: "guarantees (keeps_env p) (os_MkdirAll q :: ('d box, unit) op)"
  by (rule k_quiet) (auto simp: os_MkdirAll_def syscall_def quiet_step_def Let_def)

lemma k_Stat: "guarantees (keeps_env p) (os_Stat q :: ('d box, unit) op)"
  by (rule k_quiet) (auto simp: os_Stat_def syscall_def quiet_step_def Let_def)

lemma k_ReadFile: "guarantees (keeps_env p) (os_ReadFile q :: ('d box, string) op)"
  by (rule k_quiet) (auto simp: os_ReadFile_def syscall_def quiet_step_def Let_def split: option.splits)

lemma k_Chmod: "guarantees (keeps_env p) (os_Chmod q :: ('d box, unit) op)"
  by (rule k_quiet) (auto simp: os_Chmod_def syscall_def quiet_step_def Let_def)

lemma k_Create: "q \<noteq> p \<Longrightarrow> guarantees (keeps_env p) (os_Create q)"
  by (auto simp: guarantees_def os_Create_def os_WriteFile_def syscall_def keeps_env_def Let_def)

lemma k_Write: "q \<noteq> p \<Longrightarrow> guarantees (keeps_env p) (os_Write q d)"
  by (auto simp: guarantees_def os_Write_def syscall_def keeps_env_def Let_def split: option.splits)

text \<open>What the commands leave: they change no environment file.\<close>

definition env_alone :: "'d Lib \<Rightarrow> string \<Rightarrow> bool" where
  "env_alone L p \<longleftrightarrow> (\<forall>ctx c h. oc_Files (lb_progs L ctx c h) p = ho_Files h p)"

lemma k_exec:
  assumes "env_alone L p" and "\<not> disturbs (command name args)"
  shows "keeps_env p h (snd (exec_read L streams ctx name args h))"
  using assms unfolding env_alone_def
  by (auto simp: exec_read_def keeps_env_def Let_def split: option.splits)

lemma k_runCommand: "env_alone L p \<Longrightarrow> \<not> disturbs (command name args) \<Longrightarrow> runCommand L ctx name args h = (r, h') \<Longrightarrow> keeps_env p h h'"
  using k_exec [of L p name args h "\<lambda>s. s = StreamStdout" ctx] by (simp add: runCommand_def)

lemma k_Output: "env_alone L p \<Longrightarrow> \<not> disturbs (command name args) \<Longrightarrow> exec_Output L name args h = (r, h') \<Longrightarrow> keeps_env p h h'"
  using k_exec [of L p name args h "\<lambda>s. s = StreamStdout" Background] by (simp add: exec_Output_def)

lemma k_CombinedOutput: "env_alone L p \<Longrightarrow> \<not> disturbs (command name args) \<Longrightarrow> exec_CombinedOutput L name args h = (r, h') \<Longrightarrow> keeps_env p h h'"
  using k_exec [of L p name args h "\<lambda>s. True" Background] by (simp add: exec_CombinedOutput_def)

lemma k_stat_ok: "stat_ok q h = (b, h') \<Longrightarrow> keeps_env p h (h' :: 'd box)"
proof -
  assume b: "stat_ok q h = (b, h')"
  obtain r g where s: "os_Stat q h = (r, g)" by force
  then have "keeps_env p h g" by (rule guaranteesD [OF k_Stat])
  with s b show ?thesis by (cases r) (auto simp: stat_ok_def)
qed

section \<open>Generating and applying keep an environment file\<close>

text \<open>The name of an environment file.\<close>

definition env_name :: "string \<Rightarrow> bool" where
  "env_name p \<longleftrightarrow> has_suffix p ''.env''"

lemma env_name_other: "env_name p \<Longrightarrow> has_suffix q x \<Longrightarrow> x \<noteq> [] \<Longrightarrow> List.last x \<noteq> CHR ''v'' \<Longrightarrow> q \<noteq> p"
  using has_suffix_last [of p "''.env''"] has_suffix_last [of q x] by (auto simp: env_name_def)

lemma write_file_log: "write_file q d h = (r, h') \<Longrightarrow> ho_Log h' = ho_Log h"
  by (auto simp: write_file_def os_Create_def os_WriteFile_def os_Write_def syscall_def bindE_def Let_def
      split: if_splits option.splits)

lemma write_files_log: "write_files files h = (r, h') \<Longrightarrow> ho_Log h' = ho_Log h \<and> ho_Fails h' = ho_Fails h"
proof (induction files arbitrary: h)
  case (Cons f fs)
  obtain q d where f: "f = (q, d)" by force
  from write_files_step [OF Cons.prems [unfolded f]] show ?case
  proof cases
    case (1 e)
    then show ?thesis by (simp add: write_file_log write_file_Fails)
  next
    case (2 u h1)
    with Cons.IH [OF 2(2)] show ?thesis by (simp add: write_file_log [OF 2(1)] write_file_Fails [OF 2(1)])
  qed
qed (simp add: write_files_def)

lemma kept_env_log: "kept_env q d h = (c, h') \<Longrightarrow> ho_Log h' = ho_Log h"
  by (auto simp: kept_env_def os_ReadFile_def syscall_def Let_def split: prod.splits sum.splits option.splits if_splits)

lemma instance_paths:
  assumes "root \<noteq> []"
  shows "has_suffix (il_ComposeRoot (instance_layout root)) ''docker-compose.yml''"
    and "has_suffix (il_ServerCompose (instance_layout root)) ''docker-compose.yml''"
    and "has_suffix (il_ServerDockerfile (instance_layout root)) ''Dockerfile''"
    and "has_suffix (il_DashboardCompose (instance_layout root)) ''docker-compose.yml''"
proof -
  have p: "plain_elem ''docker-compose.yml''" "plain_elem ''Dockerfile''"
    by (simp_all add: plain_elem_def slash_def)
  show "has_suffix (il_ComposeRoot (instance_layout root)) ''docker-compose.yml''"
    "has_suffix (il_ServerCompose (instance_layout root)) ''docker-compose.yml''"
    "has_suffix (il_ServerDockerfile (instance_layout root)) ''Dockerfile''"
    "has_suffix (il_DashboardCompose (instance_layout root)) ''docker-compose.yml''"
    using path_Join_last [OF p(1) assms] path_Join_last2 [OF p(1) assms, of "''server''"]
      path_Join_last2 [OF p(2) assms, of "''server''"] path_Join_last2 [OF p(1) assms, of "''dashboard''"]
    by (simp_all add: instance_layout_def slash_def)
qed

text \<open>
  The file is written with what was read from it, or is not among the files: the content read is
  the old one as long as reading works.
\<close>

lemma k_kept_write:
  assumes root: "root \<noteq> []" and order: "\<And>fs. set (lb_order L fs) = set fs" and p: "env_name p"
    and k: "kept_env (il_EnvPath (instance_layout root)) rendered h = (c, h1)"
    and w: "write_files (lb_order L (instance_files (instance_layout root) c)) h1 = (r, h2)"
  shows "keeps_env p h h2"
proof (cases "ho_Files h p \<notin> {None, Some []} \<and> (\<forall>n. \<not> ho_Fails h n)")
  case True
  then obtain old where old: "ho_Files h p = Some old" "old \<noteq> []" by auto
  note f = kept_env_files [OF k]
  have "ho_Files h2 p = Some old"
  proof (cases "p = il_EnvPath (instance_layout root)")
    case True
    have "c = old" using kept_env_existing [OF k] old True \<open>ho_Files h p \<notin> _ \<and> _\<close> by simp
    then show ?thesis
      by (intro write_files_keep [OF _ _ _ w])
        (use True old f \<open>ho_Files h p \<notin> _ \<and> _\<close> in \<open>simp_all add: order env_content_unique [OF root]\<close>)
  next
    case False
    have "p \<notin> fst ` set (instance_files (instance_layout root) c)"
      using False instance_paths [OF root] env_name_other [OF p]
      by (force simp: instance_files_def)
    with write_files_other [OF w] f old show ?thesis by (simp add: order)
  qed
  with old f write_files_log [OF w] k show ?thesis
    by (auto simp: keeps_env_def kept_env_log [OF k])
next
  case False
  with kept_env_files [OF k] write_files_log [OF w] show ?thesis
    by (auto simp: keeps_env_def kept_env_log [OF k])
qed

lemma k_bindD:
  assumes "m h = (r, h1)" and "keeps_env p h h1" and "\<And>x. r = Inr x \<Longrightarrow> keeps_env p h1 (snd (f x h1))"
  shows "keeps_env p h (snd (bindE m f h))"
  using assms by (cases r) (auto simp: bindE_def intro: ke.trans)

lemma k_newInstanceEnv: "guarantees (keeps_env p) (newInstanceEnv L host ae ap org)"
  unfolding newInstanceEnv_def randomHex_def randomPassword_def Let_def
  by (intro ke.g_rules k_rand k_uuid)

lemma k_relax: "guarantees (keeps_env p) (relax_modes l)"
proof (rule guaranteesI)
  fix h :: "'a box"
  obtain r h1 where c: "os_Chmod (il_ComposeRoot l) h = (r, h1)" by force
  have k: "keeps_env p h h1" by (rule guaranteesD [OF k_Chmod c])
  have "guarantees (keeps_env p) (bindE (ignoreE (os_Chmod (il_ServerCompose l))) (\<lambda>_.
       bindE (ignoreE (os_Chmod (il_ServerDockerfile l))) (\<lambda>_.
       ignoreE (os_Chmod (il_DashboardCompose l)))) :: ('a box, unit) op)"
    by (intro ke.g_rules k_Chmod)
  with c k show "keeps_env p h (snd (relax_modes l h))"
    by (cases r) (auto simp: relax_modes_def guarantees_def intro: ke.trans)
qed

lemma k_generateInstance:
  assumes d: "dir \<noteq> []" and order: "\<And>fs. set (lb_order L fs) = set fs" and p: "env_name p"
  shows "guarantees (keeps_env p) (generateInstance L dir host ae ap org)"
proof (cases "path_Abs L dir")
  case (Inl e)
  then show ?thesis by (simp add: generateInstance_def ke.g_fail)
next
  case (Inr root)
  note rn = path_Abs_nonempty [OF Inr d]
  let ?l = "instance_layout root"
  have w: "guarantees (keeps_env p) (bindE
      (\<lambda>h. case kept_env (il_EnvPath ?l) rendered h of (c, h') \<Rightarrow> (Inr c, h')) (\<lambda>c.
      bindE (write_files (lb_order L (instance_files ?l c))) (\<lambda>_.
      bindE (relax_modes ?l) (\<lambda>_. returnE ?l))))" for rendered
  proof (rule guaranteesI)
    fix h
    obtain c h1 where k: "kept_env (il_EnvPath ?l) rendered h = (c, h1)" by force
    obtain r h2 where x: "write_files (lb_order L (instance_files ?l c)) h1 = (r, h2)" by force
    have "keeps_env p h h2" by (rule k_kept_write [OF rn order p k x])
    moreover have "guarantees (keeps_env p) (bindE (relax_modes ?l) (\<lambda>_. returnE ?l))"
      by (intro ke.g_rules k_relax)
    ultimately show "keeps_env p h (snd (bindE (\<lambda>h. case kept_env (il_EnvPath ?l) rendered h of (c, h') \<Rightarrow> (Inr c, h'))
        (\<lambda>c. bindE (write_files (lb_order L (instance_files ?l c))) (\<lambda>_.
        bindE (relax_modes ?l) (\<lambda>_. returnE ?l))) h))"
      using k x by (cases r) (auto simp: bindE_Inl bindE_Inr bindE_def [of "\<lambda>h. case kept_env _ _ h of (c, h') \<Rightarrow> (Inr c, h')"]
          guarantees_def intro: ke.trans)
  qed
  show ?thesis
    unfolding generateInstance_def Inr sum.case Let_def
    by (rule ke.g_bind, intro ke.g_for ke.g_wrap k_MkdirAll, rule ke.g_bind, rule k_newInstanceEnv)
      (rule w [unfolded instance_files_def])
qed

lemma k_copy_to: "q \<noteq> p \<Longrightarrow> guarantees (keeps_env p) (copy_to q body err)"
  unfolding copy_to_def by (intro ke.g_rules k_Write)

lemma k_downloadFile: "q \<noteq> p \<Longrightarrow> guarantees (keeps_env p) (downloadFile L url q)"
  unfolding downloadFile_def by (intro ke.g_rules k_Get k_Create k_copy_to)

lemma k_verify: "guarantees (keeps_env p) (verifySHA256SUMS L q sums)"
  unfolding verifySHA256SUMS_def Let_def by (intro ke.g_rules k_ReadFile)

text \<open>The downloads are in the cache, under names that no environment file has.\<close>

lemma last_part: "\<exists>a b. d @ slash # x = a @ slash # b \<and> slash \<notin> set b"
  by (metis split_list_last in_set_conv_decomp)

lemma suffix_of_last:
  assumes "has_suffix (a @ slash # b) x" and "slash \<notin> set b" and "slash \<notin> set x"
  shows "has_suffix b x"
proof -
  from assms(1) obtain t where t: "a @ slash # b = t @ x" by (auto simp: has_suffix_iff)
  then consider u where "b = u @ x" | u where "x = u @ b" "slash \<in> set u"
    by (auto simp: append_eq_append_conv2 Cons_eq_append_conv)
  then show ?thesis using assms(3) by cases (auto simp: has_suffix_iff)
qed

lemma tarball_other:
  assumes "env_name p" and "d \<noteq> []"
  shows "path_Join d (''horizonx-dashboard-'' @ tag @ ''-image.tar.gz'') \<noteq> p"
proof -
  obtain a b where ab: "d @ slash # (''horizonx-dashboard-'' @ tag @ ''-image.tar.gz'') = a @ slash # b" "slash \<notin> set b"
    using last_part by blast
  have "has_suffix (a @ slash # b) ''-image.tar.gz''" unfolding ab(1) [symmetric] has_suffix_iff
    by (rule exI [of _ "d @ slash # ''horizonx-dashboard-'' @ tag"]) simp
  then have b: "has_suffix b ''-image.tar.gz''"
    using suffix_of_last [OF _ ab(2)] by (simp add: slash_def)
  then have e: "plain_elem b" using ab(2) by (auto simp: plain_elem_def has_suffix_def)
  have "has_suffix (path_Clean (a @ slash # b)) b" by (rule path_Clean_last [OF e])
  then have "has_suffix (path_Join d (''horizonx-dashboard-'' @ tag @ ''-image.tar.gz'')) b"
    using assms(2) ab(1) by (simp add: path_Join_def)
  then show ?thesis
    by (rule env_name_other [OF assms(1)]) (use b has_suffix_last [OF b] in \<open>auto simp: has_suffix_def\<close>)
qed

lemma sums_other: "env_name p \<Longrightarrow> d \<noteq> [] \<Longrightarrow> path_Join d ''SHA256SUMS'' \<noteq> p"
  by (rule env_name_other [OF _ path_Join_last [of "''SHA256SUMS''"]]) (auto simp: plain_elem_def slash_def)

lemma k_reusable:
  assumes "sumsPath \<noteq> p"
  shows "reusable L url tarball sumsPath h = (b, h') \<Longrightarrow> keeps_env p h h'"
proof -
  assume r: "reusable L url tarball sumsPath h = (b, h')"
  obtain c h1 where s: "stat_ok tarball h = (c, h1)" by force
  obtain r2 h2 where x: "bindE (downloadFile L url sumsPath) (\<lambda>_.
      bindE (os_ReadFile sumsPath) (\<lambda>sums. verifySHA256SUMS L tarball sums)) h1 = (r2, h2)" by force
  have "guarantees (keeps_env p) (bindE (downloadFile L url sumsPath) (\<lambda>_.
      bindE (os_ReadFile sumsPath) (\<lambda>sums. verifySHA256SUMS L tarball sums)))"
    by (intro ke.g_bind k_downloadFile k_ReadFile k_verify assms)
  from guaranteesD [OF this x] have k: "keeps_env p h1 h2" .
  have "h' = h1 \<or> h' = h2" using r s x by (cases r2) (auto simp: reusable_def split: bool.splits if_splits)
  with k k_stat_ok [OF s] show ?thesis by (auto intro: ke.trans)
qed

lemma k_latestDashboardRelease: "guarantees (keeps_env p) (latestDashboardRelease L)"
  by (rule k_quiet) (auto simp: latestDashboardRelease_def bindE_def http_Get_def quiet_step_def Let_def
      split: prod.splits sum.splits option.splits)

lemma k_fetch_release:
  assumes p: "env_name p" and d: "d \<noteq> []"
  shows "guarantees (keeps_env p) (fetch_release L d rel)"
proof -
  have "guarantees (keeps_env p) (\<lambda>h. case reusable L u t (path_Join d ''SHA256SUMS'') h of
      (b, h') \<Rightarrow> (Inr b, h'))" for u t
    by (auto intro!: guaranteesI intro: k_reusable [OF sums_other [OF p d]] split: prod.splits)
  then show ?thesis
    unfolding fetch_release_def Let_def
    by (intro ke.g_rules k_MkdirAll k_downloadFile k_ReadFile k_verify tarball_other [OF p d] sums_other [OF p d])
qed

lemma k_fetchDashboardTarball:
  assumes p: "env_name p" and d: "d \<noteq> []"
  shows "guarantees (keeps_env p) (fetchDashboardTarball L d)"
proof (rule guaranteesI)
  fix h
  obtain r h1 where l: "latestDashboardRelease L h = (r, h1)" by force
  have k: "keeps_env p h h1" by (rule guaranteesD [OF k_latestDashboardRelease l])
  have "keeps_env p h1 (snd (fetch_release L d rel h1))" for rel
    using k_fetch_release [OF p d, of L rel] by (simp add: guarantees_def)
  with k l show "keeps_env p h (snd (fetchDashboardTarball L d h))"
    by (cases r) (auto simp: fetchDashboardTarball_def intro: ke.trans)
qed

lemma k_compose_step:
  assumes "env_alone L p" and "take 1 args \<in> {[''config''], [''up'']}"
  shows "guarantees (keeps_env p) (compose_step L root args fail)"
proof (rule guaranteesI)
  fix h
  obtain out r h1 where c: "runCommand L Background ''docker'' (''compose'' # [''-f'', compose_file root] @ args) h = ((out, r), h1)"
    by (metis prod.collapse)
  have "keeps_env p h h1"
    by (rule k_runCommand [OF assms(1) _ c])
      (use assms(2) in \<open>auto simp: disturbs_def command_def Let_def\<close>)
  with c show "keeps_env p h (snd (compose_step L root args fail h))"
    by (cases r) (auto simp: compose_step_def execCompose_def)
qed

lemma k_loadDockerImage:
  assumes "env_alone L p"
  shows "guarantees (keeps_env p) (loadDockerImage L tarball)"
proof (rule guaranteesI)
  fix h
  obtain out r h1 where c: "runCommand L Background ''docker'' [''load'', ''-i'', tarball] h = ((out, r), h1)"
    by (metis prod.collapse)
  have "keeps_env p h h1" by (rule k_runCommand [OF assms _ c]) (simp add: disturbs_def command_def)
  with c show "keeps_env p h (snd (loadDockerImage L tarball h))"
    by (cases r) (auto simp: loadDockerImage_def)
qed

lemma path_Join_nonempty: "a \<noteq> [] \<Longrightarrow> path_Join a b \<noteq> []"
  by (simp add: path_Join_def path_Clean_nonempty)

lemma k_start_dashboard:
  assumes "env_alone L p" "env_name p" "root \<noteq> []"
  shows "guarantees (keeps_env p) (start_dashboard L root)"
proof -
  have "dashboardCacheDir root \<noteq> []" using assms(3) by (simp add: dashboardCacheDir_def path_Join_nonempty)
  then show ?thesis
    unfolding start_dashboard_def
    by (intro ke.g_bind k_fetchDashboardTarball k_loadDockerImage k_compose_step assms) simp_all
qed

lemma k_pollHealth: "keeps_env p h (snd (pollHealth L url deadline h))"
proof (induction L url deadline h rule: pollHealth.induct)
  case (1 L url deadline h)
  have q: "keeps_env p h1 (h1\<lparr>ho_Now := ho_Now h1 + 2 * second\<rparr>)" for h1 :: "'a box"
    by (rule quiet_keeps) (simp add: quiet_step_def)
  obtain r h1 where g: "http_Get L 2000000000 url h = (r, h1)" by force
  have k: "keeps_env p h h1" by (rule guaranteesD [OF k_Get g])
  show ?case
  proof (cases "deadline \<le> ho_Now h")
    case True
    then show ?thesis by (simp add: pollHealth.simps [of L url deadline h] ke.refl)
  next
    case False
    note step = pollHealth.simps [of L url deadline h]
    show ?thesis
    proof (cases "\<exists>resp. r = Inr resp \<and> hr_Status resp = 200")
      case True
      with False g k show ?thesis by (auto simp: step)
    next
      case again: False
      let ?h = "h1\<lparr>ho_Now := ho_Now h1 + 2 * second\<rparr>"
      have "keeps_env p ?h (snd (pollHealth L url deadline ?h))"
        using 1 [OF False g [symmetric]] again by (cases r) auto
      moreover have "pollHealth L url deadline h = pollHealth L url deadline ?h"
        using False g again by (cases r) (auto simp: step)
      ultimately show ?thesis using k q by (metis ke.trans)
    qed
  qed
qed

lemma k_instanceServerLogs:
  assumes "env_alone L p" "root \<noteq> []" "instanceServerLogs L root h = (logs, h')"
  shows "keeps_env p h h'"
proof -
  obtain r h1 where c: "runCommand L Background ''docker''
      (''compose'' # [''-f'', compose_file root, ''logs'', ''--tail'', ''60'', ''server'']) h = (r, h1)"
    by (metis surj_pair)
  have "keeps_env p h h1"
    by (rule k_runCommand [OF assms(1) _ c])
      (simp add: disturbs_def command_def)
  with c assms(3) show ?thesis by (cases r) (auto simp: instanceServerLogs_def execCompose_def)
qed

lemma k_applyInstance:
  assumes "env_alone L p" "env_name p" "il_Root l \<noteq> []"
  shows "guarantees (keeps_env p) (applyInstance L l)"
proof -
  have dash: "guarantees (keeps_env p) (\<lambda>h. (Inr (), snd (start_dashboard L (il_Root l) h)))"
    using k_start_dashboard [OF assms] by (simp add: guarantees_def)
  have health: "guarantees (keeps_env p) (\<lambda>h. case pollHealthFn L url h of
        (True, h1) \<Rightarrow> (Inr (), h1)
      | (False, h1) \<Rightarrow> (case instanceServerLogs L (il_Root l) h1 of
          (logs, h2) \<Rightarrow> (Inl (unhealthy (il_Root l) logs), h2)))" for url
  proof (rule guaranteesI)
    fix h
    obtain b h1 where f: "pollHealthFn L url h = (b, h1)" by force
    have k: "keeps_env p h h1" using k_pollHealth f by (metis pollHealthFn_def snd_conv)
    obtain logs h2 where s: "instanceServerLogs L (il_Root l) h1 = (logs, h2)" by force
    from k_instanceServerLogs [OF assms(1,3) s] k f s
    show "keeps_env p h (snd (case pollHealthFn L url h of
        (True, h1) \<Rightarrow> (Inr (), h1)
      | (False, h1) \<Rightarrow> (case instanceServerLogs L (il_Root l) h1 of
          (logs, h2) \<Rightarrow> (Inl (unhealthy (il_Root l) logs), h2))))"
      by (cases b) (auto intro: ke.trans)
  qed
  show ?thesis
    unfolding applyInstance_def Let_def
    by (rule ke.g_bind, rule k_compose_step [OF assms(1)], simp,
        rule ke.g_bind, intro ke.g_if k_Setenv ke.g_return,
        rule ke.g_bind, rule k_compose_step [OF assms(1)], simp,
        rule ke.g_bind, rule k_compose_step [OF assms(1)], simp,
        rule ke.g_bind, rule dash, rule health)
qed

section \<open>Installing and upgrading\<close>

lemma generateInstance_root:
  "generateInstance L dir host ae ap org h = (Inr l, h') \<Longrightarrow> dir \<noteq> [] \<Longrightarrow> il_Root l \<noteq> []"
  by (auto simp: generateInstance_def bindE_Inr_iff Let_def instance_layout_def dest: path_Abs_nonempty
      split: sum.splits)

lemma k_is_first_install: "is_first_install dir h = (b, h') \<Longrightarrow> keeps_env p h (h' :: 'd box)"
proof -
  assume i: "is_first_install dir h = (b, h')"
  obtain r h1 where s: "os_Stat (path_Join dir ''.env'') h = (r, h1)" by force
  have "keeps_env p h h1" by (rule guaranteesD [OF k_Stat s])
  with s i show ?thesis by (cases r) (auto simp: is_first_install_def)
qed

lemma k_promptString: "promptString d h = (s, h') \<Longrightarrow> keeps_env p h h'"
  by (rule quiet_keeps) (auto simp: promptString_def quiet_step_def Let_def split: prod.splits)

lemma k_ask_admin: "ask_admin opts b h = (r, h') \<Longrightarrow> keeps_env p h h'"
  by (auto simp: ask_admin_def Let_def ke.refl dest!: k_promptString [of _ _ _ _ p]
      split: prod.splits if_splits intro: ke.trans)

lemma k_RunPreflight:
  assumes "env_alone L p" and "RunPreflight L h = (r, h')"
  shows "keeps_env p h h'"
proof -
  let ?ctx = "\<lparr>cx_Done = Some (ho_Now h + 3 * second), cx_Pick = (\<lambda>_. False)\<rparr>"
  obtain out h1 where 1: "runCommand L ?ctx ''docker'' [''info'', ''--format'', ''{{.ServerVersion}}''] h = (out, h1)"
    by (metis surj_pair)
  obtain out2 h2 where 2: "runCommand L ?ctx ''docker'' [''compose'', ''version''] h1 = (out2, h2)"
    by (metis surj_pair)
  have "keeps_env p h h1" "keeps_env p h1 h2"
    by (rule k_runCommand [OF assms(1) _ 1], simp add: disturbs_def command_def,
        rule k_runCommand [OF assms(1) _ 2], simp add: disturbs_def command_def)
  moreover have "h' = h \<or> h' = h2"
    using assms(2) 1 2 by (cases out, cases out2) (auto simp: RunPreflight_def Let_def split: if_splits)
  ultimately show ?thesis by (auto intro: ke.refl ke.trans)
qed

lemma k_hasInstanceVolumes:
  assumes "env_alone L p" and "hasInstanceVolumes L h = (b, h')"
  shows "keeps_env p h h'"
proof -
  obtain out e h1 where 1: "runCommand L Background ''docker'' [''volume'', ''ls'', ''--format'', ''{{.Name}}''] h = ((out, e), h1)"
    by (metis surj_pair)
  have "keeps_env p h h1" by (rule k_runCommand [OF assms(1) _ 1]) (simp add: disturbs_def command_def)
  with 1 assms(2) show ?thesis by (cases e) (auto simp: hasInstanceVolumes_def)
qed

lemma k_show_credentials: "guarantees (keeps_env p) (show_credentials q)"
proof (rule guaranteesI)
  fix h :: "'a box"
  obtain r h1 where s: "os_ReadFile q h = (r, h1)" by force
  have k: "keeps_env p h h1" by (rule guaranteesD [OF k_ReadFile s])
  have "keeps_env p h1 (snd (show_credentials q h)) \<or> snd (show_credentials q h) = h1"
    using s by (cases r) (auto simp: show_credentials_def Let_def intro!: quiet_keeps simp: quiet_step_def)
  with k show "keeps_env p h (snd (show_credentials q h))" by (auto intro: ke.trans)
qed

lemma k_install_generated:
  assumes L: "env_alone L p" "env_name p" and root: "il_Root l \<noteq> []" and opts: "\<not> op_ResetVolumes opts"
  shows "guarantees (keeps_env p) (install_generated L opts firstInstall l)"
proof -
  have v: "guarantees (keeps_env p) (\<lambda>h. if firstInstall \<and> \<not> op_ResetVolumes opts then
               (case hasInstanceVolumes L h of
                  (True, h') \<Rightarrow> (Inl (stale_volumes (il_Root l)), h') | (False, h') \<Rightarrow> (Inr (), h'))
             else (Inr (), h))"
    by (auto simp: guarantees_def ke.refl intro: k_hasInstanceVolumes [OF L(1)] split: prod.splits bool.splits)
  have r: "guarantees (keeps_env p) (if op_ResetVolumes opts then compose_step L (il_Root l) [''down'', ''-v'']
      (\<lambda>out. ErrMsg (''reset volumes failed: '' @ out)) else returnE ())"
    using opts by (simp add: ke.g_return)
  show ?thesis
    unfolding install_generated_def
    by (intro ke.g_if ke.g_return ke.g_bind v r k_applyInstance [OF L root] k_show_credentials)
qed

lemma k_generate_then:
  fixes L :: "'a Lib"
  assumes d: "dir \<noteq> []" and L: "env_name p" "\<And>fs. set (lb_order L fs) = set fs"
    and m: "m = generateInstance L dir host ae ap org \<or> m = wrapE msg (generateInstance L dir host ae ap org)"
    and f: "\<And>l. il_Root l \<noteq> [] \<Longrightarrow> guarantees (keeps_env p) (f l)"
  shows "guarantees (keeps_env p) (bindE m f)"
proof (rule guaranteesI)
  fix h
  obtain g h1 where g: "m h = (g, h1)" by force
  have "guarantees (keeps_env p) m" using m k_generateInstance [OF d L(2,1)] ke.g_wrap by blast
  from guaranteesD [OF this g] have k: "keeps_env p h h1" .
  show "keeps_env p h (snd (bindE m f h))"
  proof (rule k_bindD [where m = m, OF g k])
    fix l assume "g = Inr l"
    with g m have "generateInstance L dir host ae ap org h = (Inr l, h1)"
      by (auto simp: wrapE_def catchE_def split: prod.splits sum.splits)
    from f [OF generateInstance_root [OF this d]] show "keeps_env p h1 (snd (f l h1))"
      by (simp add: guarantees_def)
  qed
qed

lemma k_RunInstallServer:
  assumes L: "env_alone L p" "env_name p" "\<And>fs. set (lb_order L fs) = set fs" and opts: "\<not> op_ResetVolumes opts"
  shows "keeps_env p h (snd (RunInstallServer L opts h))"
proof -
  let ?dir = "firstNonEmpty (op_Dir opts) instanceDir"
  have dn: "?dir \<noteq> []" by (simp add: firstNonEmpty_def instanceDir_def)
  obtain b h1 where 1: "is_first_install ?dir h = (b, h1)" by force
  obtain ae ap h2 where 2: "ask_admin opts b h1 = ((ae, ap), h2)" by (metis surj_pair)
  obtain r h3 where 3: "RunPreflight L h2 = (r, h3)" by force
  have k: "keeps_env p h h3"
    using k_is_first_install [OF 1] k_ask_admin [OF 2] k_RunPreflight [OF L(1) 3] by (blast intro: ke.trans)
  have "guarantees (keeps_env p) (bindE (wrapE ''generate instance'' (generateInstance L ?dir
      (firstNonEmpty (op_Host opts) ''127.0.0.1'') ae ap (parse_origins (op_AllowedOrigins opts))))
      (install_generated L opts b))"
    by (rule k_generate_then [OF dn L(2,3)]) (auto intro: k_install_generated [OF L(1,2) _ opts])
  then have k3: "keeps_env p h3 (snd (bindE (wrapE ''generate instance'' (generateInstance L ?dir
      (firstNonEmpty (op_Host opts) ''127.0.0.1'') ae ap (parse_origins (op_AllowedOrigins opts))))
      (install_generated L opts b) h3))"
    by (simp add: guarantees_def)
  show ?thesis
    unfolding RunInstallServer_def Let_def 1 2 3 prod.case
    using k ke.trans [OF k k3] by (cases "preflight_error r b") simp_all
qed

text \<open>The components an upgrade finds.\<close>

lemma k_UnitActive:
  assumes "env_alone L p" and "UnitActive L r name h = (b, h')"
  shows "keeps_env p h h'"
proof -
  obtain out e h1 where 1: "exec_Output L ''systemctl'' [''is-active'', name] h = ((out, e), h1)"
    by (metis surj_pair)
  obtain out2 e2 h2 where 2: "exec_Output L ''systemctl'' [''--user'', ''is-active'', name] h1 = ((out2, e2), h2)"
    by (metis surj_pair)
  have "keeps_env p h h1" "keeps_env p h1 h2"
    by (rule k_Output [OF assms(1) _ 1], simp add: disturbs_def command_def,
        rule k_Output [OF assms(1) _ 2], simp add: disturbs_def command_def)
  moreover have "h' = h \<or> h' = h1 \<or> h' = h2"
    using assms(2) 1 2 by (auto simp: UnitActive_def split: if_splits)
  ultimately show ?thesis by (auto intro: ke.refl ke.trans)
qed

lemma k_first_existing: "first_existing ps h = (r, h') \<Longrightarrow> keeps_env p h (h' :: 'd box)"
  by (induction ps h rule: first_existing.induct)
    (auto simp: ke.refl dest!: k_stat_ok [of _ _ _ _ p] split: prod.splits bool.splits intro: ke.trans)

lemma k_first_instance: "first_instance ds h = (r, h') \<Longrightarrow> keeps_env p h (h' :: 'd box)"
  by (induction ds h rule: first_instance.induct)
    (auto simp: ke.refl dest!: k_stat_ok [of _ _ _ _ p] split: prod.splits bool.splits if_splits intro: ke.trans)

lemma k_detect_units: "keeps_env p (snd s) (snd (detect_units unit s))" for s :: "Runtime \<times> 'd box"
proof -
  obtain rt h where s: "s = (rt, h)" by force
  obtain a h1 where 1: "stat_ok (path_Join ''/etc/systemd/system'' unit) h = (a, h1)" by force
  obtain b h2 where 2: "stat_ok (path_Join ''/lib/systemd/system'' unit) h1 = (b, h2)" by force
  have k: "keeps_env p h h2" by (rule ke.trans [OF k_stat_ok [OF 1] k_stat_ok [OF 2]])
  show ?thesis
  proof (cases "os_UserHomeDir h2")
    case (Inl e)
    with s 1 2 k show ?thesis by (simp add: detect_units_def Let_def)
  next
    case (Inr home)
    obtain c h3 where 3: "stat_ok (path_Join home (''.config/systemd/user/'' @ unit)) h2 = (c, h3)" by force
    from s 1 2 3 Inr ke.trans [OF k k_stat_ok [OF 3]] show ?thesis by (simp add: detect_units_def Let_def)
  qed
qed

lemma k_detect_systemd: "env_alone L p \<Longrightarrow> detect_systemd L h = (b, h') \<Longrightarrow> keeps_env p h h'"
  using k_exec [of L p "''systemctl''" "[''is-system-running'']" h "\<lambda>s. s = StreamStdout" Background]
  by (auto simp: detect_systemd_def exec_Output_def disturbs_def command_def ke.refl split: if_splits)

lemma k_detect_docker: "env_alone L p \<Longrightarrow> detect_docker L h = (b, h') \<Longrightarrow> keeps_env p h h'"
  using k_exec [of L p "''docker''" "[''compose'', ''version'']" h "\<lambda>s. True" Background]
  by (auto simp: detect_docker_def exec_CombinedOutput_def disturbs_def command_def ke.refl split: if_splits prod.splits)

lemma k_DetectRuntime:
  assumes "env_alone L p" and "DetectRuntime L h = (rt, h')"
  shows "keeps_env p h h'"
proof -
  obtain sy h1 where 1: "detect_systemd L h = (sy, h1)" by force
  obtain dk h2 where 2: "detect_docker L h1 = (dk, h2)" by force
  let ?rt = "\<lparr>rt_Systemd = sy, rt_DockerCLI = dk, rt_ComposeFile = [], rt_InstanceDir = [],
           rt_SystemdUnits = [], rt_UserUnits = [], rt_BinPath = [], rt_DataDir = [], rt_EnvDir = []\<rparr>"
  obtain rt1 h3 where 3: "detect_units agentUnit (detect_units serverUnit (?rt, h2)) = (rt1, h3)" by force
  obtain cf h4 where 4: "first_existing compose_candidates h3 = (cf, h4)" by (metis surj_pair)
  obtain inst h5 where 5: "first_instance [os_Getenv ''HORIZONX_PREFIX'' h4, instanceDir] h4 = (inst, h5)"
    by (metis surj_pair)
  have "keeps_env p h2 h3"
    using k_detect_units [of p "(?rt, h2)" serverUnit] k_detect_units [of p "detect_units serverUnit (?rt, h2)" agentUnit] 3
    by (auto intro: ke.trans)
  then have "keeps_env p h h5"
    using k_detect_systemd [OF assms(1) 1] k_detect_docker [OF assms(1) 2] k_first_existing [OF 4] k_first_instance [OF 5]
    by (blast intro: ke.trans)
  moreover have "h' = h5"
    using assms(2) unfolding DetectRuntime_def Let_def 1 2 3 4 5 prod.case by (auto split: prod.splits)
  ultimately show ?thesis by simp
qed

text \<open>Restarts and the instance.\<close>

lemma k_combined_then:
  assumes "env_alone L p" and "\<not> disturbs (command name args)"
    and "\<And>out e g. keeps_env p g (snd (f out e g))"
  shows "keeps_env p h (snd (case exec_CombinedOutput L name args h of ((out, e), g) \<Rightarrow> f out e g))"
proof -
  obtain out e g where x: "exec_CombinedOutput L name args h = ((out, e), g)" by (metis surj_pair)
  from k_CombinedOutput [OF assms(1,2) x] assms(3) show ?thesis by (auto simp: x intro: ke.trans)
qed

lemma k_atRestart: "env_alone L p \<Longrightarrow> keeps_env p h (snd (atRestart L unit b h))"
  unfolding atRestart_def Let_def
  by (rule k_combined_then) (auto simp: disturbs_def command_def ke.refl split: option.splits)

lemma k_restartService: "env_alone L p \<Longrightarrow> keeps_env p h (snd (restartService L unit b h))"
proof -
  assume L: "env_alone L p"
  have a: "guarantees (keeps_env p) (catchE (atRestart L unit b) (\<lambda>_. failE e))" for e
    by (rule ke.g_catch) (auto simp: guarantees_def k_atRestart [OF L] ke.refl)
  show ?thesis
    unfolding restartService_def Let_def
    by (rule k_combined_then [OF L]) (use a in \<open>auto simp: disturbs_def command_def ke.refl guarantees_def split: option.splits\<close>)
qed

lemma k_restartCompose: "env_alone L p \<Longrightarrow> keeps_env p h (snd (restartCompose L file h))"
  unfolding restartCompose_def
  by (rule k_combined_then) (auto simp: disturbs_def command_def ke.refl split: option.splits)

lemma k_upgrade_instance:
  assumes L: "env_alone L p" "env_name p" "\<And>fs. set (lb_order L fs) = set fs" and d: "rt_InstanceDir rt \<noteq> []"
  shows "upgrade_instance L rt h = (b, h') \<Longrightarrow> keeps_env p h h'"
proof -
  assume u: "upgrade_instance L rt h = (b, h')"
  have "guarantees (keeps_env p) (bindE (generateInstance L (rt_InstanceDir rt) ''127.0.0.1'' [] [] []) (applyInstance L))"
    by (rule k_generate_then [OF d L(2,3)]) (auto intro: k_applyInstance [OF L(1,2)])
  with u show ?thesis by (auto simp: upgrade_instance_def guarantees_def split: prod.splits sum.splits) (metis snd_conv)+
qed

lemma k_upgradeComponents:
  assumes L: "env_alone L p" "env_name p" "\<And>fs. set (lb_order L fs) = set fs"
  shows "keeps_env p h (snd (upgradeComponents L h))"
proof -
  obtain rt h1 where 1: "DetectRuntime L h = (rt, h1)" by force
  obtain inst h2 where 2: "InstanceInstalled rt h1 = (inst, h2)" by force
  obtain ok h3 where 3: "(if inst then upgrade_instance L rt h2 else (False, h2)) = (ok, h3)" by force
  obtain agent h4 where 4: "UnitActive L rt agentUnit h3 = (agent, h4)" by force
  obtain server h5 where 5: "UnitActive L rt serverUnit h4 = (server, h5)" by force
  have k2: "keeps_env p h1 h2" and d: "inst \<Longrightarrow> rt_InstanceDir rt \<noteq> []"
    using 2 k_stat_ok [of _ h1 inst h2 p] by (auto simp: InstanceInstalled_def ke.refl split: if_splits)
  have k3: "keeps_env p h2 h3"
    using 3 k_upgrade_instance [OF L d] by (auto simp: ke.refl split: if_splits)
  have k4: "keeps_env p h h4"
    using k_DetectRuntime [OF L(1) 1] k2 k3 k_UnitActive [OF L(1) 4] by (blast intro: ke.trans)
  have k5: "keeps_env p h h5" by (rule ke.trans [OF k4 k_UnitActive [OF L(1) 5]])
  have "keeps_env p h (snd (restartService L u b h4))" "keeps_env p h (snd (restartService L u b h5))"
    "keeps_env p h (snd (restartCompose L (rt_ComposeFile rt) h5))" for u b
    by (rule ke.trans [OF k4 k_restartService [OF L(1)]], rule ke.trans [OF k5 k_restartService [OF L(1)]],
        rule ke.trans [OF k5 k_restartCompose [OF L(1)]])
  then show ?thesis
    unfolding upgradeComponents_def Let_def 1 2 3 4 5 prod.case using k4 k5 by simp
qed

text \<open>
  C35. Re-running the installation without \<open>--reset-volumes\<close>, and the component pass of an upgrade,
  leave an environment file with its secrets as it was and take nothing of the instance down,
  whatever the options, the answers of the network and the results of the commands are: the only
  docker commands are \<open>info\<close>, \<open>load\<close>, \<open>volume ls\<close>, \<open>compose version\<close> and, of a compose file,
  \<open>config\<close>, \<open>up\<close> and \<open>logs\<close>, and \<open>systemctl\<close> is only asked for states (a unit is restarted through
  \<open>systemd-run\<close> or \<open>at\<close>). System calls on files must succeed: an environment file that cannot
  be read counts as absent and is replaced. The commands that are run must leave the file alone
  themselves, and the loop over the new files must see each of them.
\<close>

theorem reinstall_keeps_data:
  assumes "\<forall>n. \<not> ho_Fails h n" and "ho_Files h p = Some env" "env \<noteq> []" "has_suffix p ''.env''"
    and "\<And>ctx c g. oc_Files (lb_progs L ctx c g) p = ho_Files g p"
    and "\<And>fs. set (lb_order L fs) = set fs" and "\<not> op_ResetVolumes opts"
    and "run = RunInstallServer L opts \<or> run = upgradeComponents L"
  shows "ho_Files (snd (run h)) p = Some env \<and>
    (\<exists>cs. ho_Log (snd (run h)) = ho_Log h @ cs \<and> (\<forall>c\<in>set cs. \<not> disturbs (fst c)))"
proof -
  have L: "env_alone L p" "env_name p" using assms(4,5) by (simp_all add: env_alone_def env_name_def)
  have "keeps_env p h (snd (run h))"
    using assms(8) k_RunInstallServer [OF L assms(6,7)] k_upgradeComponents [OF L assms(6)] by auto
  then show ?thesis using assms(1-3) by (auto simp: keeps_env_def)
qed

theorem reinstall_keeps_data_witness:
  "ho_Files (snd (upgradeComponents demo_lib demo_box)) ''/opt/horizonx/.env'' = Some ''A=1'' \<and>
   (\<exists>cs. ho_Log (snd (upgradeComponents demo_lib demo_box)) = cs \<and> (\<forall>c\<in>set cs. \<not> disturbs (fst c)))"
proof -
  let ?opts = "\<lparr>op_Dir = [], op_Host = [], op_Admin = [], op_AdminPass = [], op_AllowedOrigins = [],
    op_GenerateOnly = False, op_Yes = True, op_ResetVolumes = False\<rparr>"
  have "ho_Files (snd (upgradeComponents demo_lib demo_box)) ''/opt/horizonx/.env'' = Some ''A=1'' \<and>
    (\<exists>cs. ho_Log (snd (upgradeComponents demo_lib demo_box)) = ho_Log demo_box @ cs \<and> (\<forall>c\<in>set cs. \<not> disturbs (fst c)))"
    by (rule reinstall_keeps_data [where opts = ?opts and L = demo_lib])
      (simp_all add: demo_lib_def demo_box_def has_suffix_def)
  then show ?thesis by (simp add: demo_box_def)
qed

end
