(* ===== verification/InstallAgent.thy ===== *)
theory InstallAgent
  imports InstallSafety
begin

text \<open>
  \<open>horizonx install agent\<close>: the provisioning of an agent (\<open>internal/app/install.go\<close>) and the command
  that starts it (\<open>internal/app/install_agent.go\<close>). What is done with the rights of root is run
  through \<open>sudo\<close>.
\<close>

section \<open>Commands\<close>

text \<open>\<open>runCmd\<close> and \<open>sudoOut\<close> give the trimmed standard output, \<open>sudo\<close> its failure only.\<close>

definition runCmd :: "'d Lib \<Rightarrow> string \<Rightarrow> string list \<Rightarrow> ('d, Box) run" where
  "runCmd L name args h = (case exec_Output L name args h of ((out, e), h') \<Rightarrow> ((trim_space out, e), h'))"

definition sudoOut :: "'d Lib \<Rightarrow> string list \<Rightarrow> ('d, Box) run" where
  "sudoOut L args = runCmd L ''sudo'' args"

definition sudo :: "'d Lib \<Rightarrow> string list \<Rightarrow> ('d box, unit) op" where
  "sudo L args h = (case exec_CombinedOutput L ''sudo'' args h of
     ((out, Some _), h') \<Rightarrow> (Inl (ErrMsg (''sudo '' @ join_with (CHR '' '') args @ '': '' @ trim_space out)), h')
   | ((_, None), h') \<Rightarrow> (Inr (), h'))"

text \<open>A command whose result does not matter, and one whose success decides.\<close>

definition try_cmd :: "'d Lib \<Rightarrow> string \<Rightarrow> string list \<Rightarrow> ('d box, unit) op" where
  "try_cmd L name args h = (Inr (), snd (runCmd L name args h))"

definition succeeds :: "('d, Box) run \<Rightarrow> ('d box, bool) op" where
  "succeeds m h = (case m h of ((_, e), h') \<Rightarrow> (Inr (e = None), h'))"

section \<open>Provisioning\<close>

record AgentProvision =
  pv_APIURL :: string
  pv_WSURL :: string
  pv_ServerID :: string
  pv_ServerToken :: string
  pv_RedisAddr :: string
  pv_UserName :: string
  pv_GroupName :: string
  pv_DataDir :: string
  pv_EnvDir :: string

definition defaultAgentProvision :: AgentProvision where
  "defaultAgentProvision = \<lparr>pv_APIURL = [], pv_WSURL = [], pv_ServerID = [], pv_ServerToken = [],
     pv_RedisAddr = [], pv_UserName = ''horizonx'', pv_GroupName = ''horizonx'',
     pv_DataDir = ''/var/lib/horizonx'', pv_EnvDir = ''/etc/horizonx''\<rparr>"

definition owner :: "AgentProvision \<Rightarrow> string" where
  "owner p = pv_UserName p @ CHR '':'' # pv_GroupName p"

definition createUser :: "'d Lib \<Rightarrow> AgentProvision \<Rightarrow> ('d box, unit) op" where
  "createUser L p =
     bindE (succeeds (runCmd L ''id'' [''-u'', pv_UserName p])) (\<lambda>exists.
     if exists then returnE ()
     else bindE (succeeds (runCmd L ''id'' [''-g'', pv_GroupName p])) (\<lambda>group.
       bindE (if group then returnE () else ignoreE (sudo L [''groupadd'', ''-f'', pv_GroupName p])) (\<lambda>_.
       sudo L [''useradd'', ''-r'', ''-g'', pv_GroupName p, ''-d'', path_Join ''/home'' (pv_UserName p),
         ''-s'', ''/usr/sbin/nologin'', pv_UserName p])))"

definition addDockerGroup :: "'d Lib \<Rightarrow> AgentProvision \<Rightarrow> ('d box, unit) op" where
  "addDockerGroup L p =
     bindE (succeeds (runCmd L ''getent'' [''group'', ''docker''])) (\<lambda>exists.
     bindE (if exists then returnE () else ignoreE (sudo L [''groupadd'', ''docker''])) (\<lambda>_.
     sudo L [''usermod'', ''-aG'', ''docker'', pv_UserName p]))"

definition ssh_dir :: "AgentProvision \<Rightarrow> string" where
  "ssh_dir p = path_Join (pv_DataDir p) ''.ssh''"

definition createDirs :: "'d Lib \<Rightarrow> AgentProvision \<Rightarrow> ('d box, unit) op" where
  "createDirs L p =
     bindE (forE [pv_DataDir p, path_Join (pv_DataDir p) ''apps'', ssh_dir p, pv_EnvDir p]
       (\<lambda>d. sudo L [''mkdir'', ''-p'', d])) (\<lambda>_.
     bindE (ignoreE (sudo L [''chown'', ''-R'', owner p, pv_DataDir p])) (\<lambda>_.
     ignoreE (sudo L [''chmod'', ''700'', ssh_dir p])))"

definition udevRuleFile :: string where
  "udevRuleFile = ''/etc/udev/rules.d/99-horizonx-hwmon.rules''"

definition udevRulesContent :: string where
  "udevRulesContent = text_lines [
     ''# Intel RAPL power metrics'',
     ''SUBSYSTEM=='' @ DQ @ ''powercap'' @ DQ @ '', KERNEL=='' @ DQ @ ''intel-rapl:*'' @ DQ @ '', ACTION=='' @ DQ @ ''add'' @ DQ @ '', RUN+='' @ DQ @ ''/bin/chmod 444 /sys/class/powercap/%k/energy_uj'' @ DQ,
     ''SUBSYSTEM=='' @ DQ @ ''powercap'' @ DQ @ '', KERNEL=='' @ DQ @ ''intel-rapl:*'' @ DQ @ '', ACTION=='' @ DQ @ ''add'' @ DQ @ '', RUN+='' @ DQ @ ''/bin/chmod 444 /sys/class/powercap/%k/max_energy_range_uj'' @ DQ,
     [],
     ''# Hardware monitoring sensors (temp, fan, voltage, power)'',
     ''SUBSYSTEM=='' @ DQ @ ''hwmon'' @ DQ @ '', ACTION=='' @ DQ @ ''add'' @ DQ @ '', RUN+='' @ DQ @ ''/bin/chmod -R a+r /sys/class/hwmon/%k'' @ DQ,
     [],
     ''# Thermal zones'',
     ''SUBSYSTEM=='' @ DQ @ ''thermal'' @ DQ @ '', ACTION=='' @ DQ @ ''add'' @ DQ @ '', RUN+='' @ DQ @ ''/bin/chmod 444 /sys/class/thermal/%k/temp'' @ DQ,
     [],
     ''# Block devices'',
     ''SUBSYSTEM=='' @ DQ @ ''block'' @ DQ @ '', ACTION=='' @ DQ @ ''add'' @ DQ @ '', RUN+='' @ DQ @ ''/bin/chmod 444 /sys/block/%k/stat'' @ DQ]"

text \<open>A file that is written to a temporary place and copied with \<open>sudo\<close>.\<close>

definition install_file :: "'d Lib \<Rightarrow> string \<Rightarrow> string \<Rightarrow> string \<Rightarrow> ('d box, unit) op" where
  "install_file L name content dest h =
    (let tmp = path_Join (os_TempDir h) name in
     bindE (write_file tmp content) (\<lambda>_.
     bindE (sudo L [''cp'', tmp, dest]) (\<lambda>_.
     ignoreE (os_Remove tmp))) h)"

definition writeUdevRules :: "'d Lib \<Rightarrow> ('d box, unit) op" where
  "writeUdevRules L =
     bindE (install_file L ''99-horizonx-hwmon.rules'' udevRulesContent udevRuleFile) (\<lambda>_.
     bindE (try_cmd L ''udevadm'' [''control'', ''--reload-rules'']) (\<lambda>_.
     bindE (forE [''powercap'', ''hwmon'', ''thermal'', ''block''] (\<lambda>s.
       try_cmd L ''udevadm'' [''trigger'', ''--subsystem-match='' @ s])) (\<lambda>_.
     try_cmd L ''chmod'' [''444'', ''/sys/devices/system/cpu/cpu*/cpufreq/scaling_cur_freq''])))"

definition hostname :: "'d Lib \<Rightarrow> string" where
  "hostname L = (case lb_Hostname L of Inr h \<Rightarrow> h | Inl _ \<Rightarrow> ''localhost'')"

definition genSSHKey :: "'d Lib \<Rightarrow> AgentProvision \<Rightarrow> ('d box, unit) op" where
  "genSSHKey L p =
    (let key = path_Join (pv_DataDir p) ''.ssh/id_ed25519'' in
     bindE (succeeds (sudoOut L [''test'', ''-f'', key])) (\<lambda>exists.
     if exists then returnE ()
     else (\<lambda>h. case exec_CombinedOutput L ''sudo'' [''-u'', pv_UserName p, ''env'', ''HOME='' @ pv_DataDir p,
             ''ssh-keygen'', ''-t'', ''ed25519'', ''-f'', key, ''-N'', [], ''-C'', ''horizonx-agent@'' @ hostname L] h of
         ((out, Some _), h') \<Rightarrow> (Inl (ErrMsg (trim_space out)), h')
       | ((_, None), h') \<Rightarrow> (Inr (), h'))))"

definition writeSSHConfigTo :: "'d Lib \<Rightarrow> AgentProvision \<Rightarrow> string \<Rightarrow> string \<Rightarrow> ('d box, unit) op" where
  "writeSSHConfigTo L p dest cfg =
     bindE (install_file L ''horizonx-ssh-config'' cfg dest) (\<lambda>_.
     sudo L [''chown'', owner p, dest])"

definition writeSSHConfig :: "'d Lib \<Rightarrow> AgentProvision \<Rightarrow> ('d box, unit) op" where
  "writeSSHConfig L p = writeSSHConfigTo L p (path_Join (ssh_dir p) ''config'') (text_lines
     [''Host *'',
      ''  IdentityFile '' @ path_Join (ssh_dir p) ''id_ed25519'',
      ''  UserKnownHostsFile '' @ ssh_dir p @ ''/known_hosts'',
      ''  StrictHostKeyChecking yes'',
      ''  IdentitiesOnly yes''])"

section \<open>Known hosts\<close>

definition gitProviders :: "string list" where
  "gitProviders = [''github.com'', ''gitlab.com'', ''bitbucket.org'', ''ssh.dev.azure.com'', ''vs-ssh.visualstudio.com'']"

definition scan_args :: "string \<Rightarrow> string list" where
  "scan_args provider = [''-H'', ''-t'', ''rsa,ed25519'', provider]"

definition host_lines :: "string \<Rightarrow> string list" where
  "host_lines out = filter (\<lambda>l. l \<noteq> [] \<and> \<not> has_prefix l ''#'') (map trim_space (split_on LF out))"

definition sudoOutHasHost :: "'d Lib \<Rightarrow> string \<Rightarrow> string \<Rightarrow> 'd box \<Rightarrow> bool \<times> 'd box" where
  "sudoOutHasHost L knownHosts provider h =
    (case runCmd L ''ssh-keyscan'' (scan_args provider) h of
       ((_, Some _), h1) \<Rightarrow> (False, h1)
     | ((out, None), h1) \<Rightarrow>
        (case sudoOut L [''cat'', knownHosts] h1 of
           ((_, Some _), h2) \<Rightarrow> (False, h2)
         | ((cur, None), h2) \<Rightarrow> (list_ex (contains cur) (host_lines (trim_space out)), h2)))"

text \<open>New lines of a scan, each once.\<close>

fun new_lines :: "string list \<Rightarrow> string list \<Rightarrow> string list" where
  "new_lines known [] = []"
| "new_lines known (l # ls) = (if l \<in> set known then new_lines known ls else l # new_lines (l # known) ls)"

definition scan_provider :: "'d Lib \<Rightarrow> string \<Rightarrow> string list \<times> 'd box \<Rightarrow> string \<Rightarrow> string list
    \<Rightarrow> string list \<times> 'd box" where
  "scan_provider L knownHosts s provider existing = (case s of (additions, h) \<Rightarrow>
     case sudoOutHasHost L knownHosts provider h of
       (True, h1) \<Rightarrow> (additions, h1)
     | (False, h1) \<Rightarrow>
        (case runCmd L ''ssh-keyscan'' (scan_args provider) h1 of
           ((out, e), h2) \<Rightarrow> if e \<noteq> None \<or> trim_space out = [] then (additions, h2)
             else (additions @ new_lines (existing @ additions) (host_lines out), h2)))"

text \<open>The temporary file is written twice: the second write leaves the additions only.\<close>

definition populateKnownHosts :: "'d Lib \<Rightarrow> AgentProvision \<Rightarrow> ('d box, unit) op" where
  "populateKnownHosts L p h =
    (let knownHosts = path_Join (ssh_dir p) ''known_hosts'';
         ((data, e), h1) = sudoOut L [''cat'', knownHosts] h;
         existing = (if e = None then filter (\<lambda>l. l \<noteq> []) (map trim_space (split_on LF (trim_space data))) else []);
         (additions, h2) = foldl (\<lambda>s provider. scan_provider L knownHosts s provider existing) ([], h1) gitProviders;
         own = bindE (ignoreE (sudo L [''chown'', owner p, knownHosts])) (\<lambda>_.
           ignoreE (sudo L [''chmod'', ''644'', knownHosts]))
     in if additions = [] then bindE (ignoreE (sudo L [''touch'', knownHosts])) (\<lambda>_. own) h2
        else
          let tmp = path_Join (os_TempDir h2) ''horizonx-known-hosts'';
              ((cur, e2), h3) = sudoOut L [''cat'', knownHosts] h2
          in bindE (write_file tmp (if e2 = None then trim_space cur @ [LF] else [])) (\<lambda>_.
             bindE (write_file tmp (join_with LF additions @ [LF])) (\<lambda>_.
             bindE (sudo L [''cp'', tmp, knownHosts]) (\<lambda>_.
             bindE (ignoreE (os_Remove tmp)) (\<lambda>_.
             bindE own (\<lambda>_.
             try_cmd L ''sh'' [''-c'', ''sort -u '' @ knownHosts @ '' -o '' @ knownHosts]))))) h3)"

section \<open>Service\<close>

definition writeEnvFile :: "'d Lib \<Rightarrow> AgentProvision \<Rightarrow> ('d box, unit) op" where
  "writeEnvFile L p =
    (let dest = path_Join (pv_EnvDir p) ''agent.env'' in
     bindE (install_file L ''horizonx-agent.env'' (text_lines
       [''HORIZONX_API_URL='' @ pv_APIURL p, ''HORIZONX_WS_URL='' @ pv_WSURL p,
        ''HORIZONX_SERVER_ID='' @ pv_ServerID p, ''HORIZONX_SERVER_API_TOKEN='' @ pv_ServerToken p,
        ''REDIS_ADDR='' @ pv_RedisAddr p]) dest) (\<lambda>_.
     bindE (ignoreE (sudo L [''chown'', owner p, dest])) (\<lambda>_.
     sudo L [''chmod'', ''600'', dest])))"

definition installSystemdUnit :: "'d Lib \<Rightarrow> ('d box, unit) op" where
  "installSystemdUnit L = (case lb_Unit L agentUnit of
     Inl e \<Rightarrow> failE e
   | Inr data \<Rightarrow> install_file L ''horizonx-agent.service'' data ''/etc/systemd/system/horizonx-agent.service'')"

definition enableService :: "'d Lib \<Rightarrow> ('d box, unit) op" where
  "enableService L =
     bindE (ignoreE (sudo L [''systemctl'', ''daemon-reload''])) (\<lambda>_.
     sudo L [''systemctl'', ''enable'', ''--now'', ''horizonx-agent''])"

definition provisionSteps :: "'d Lib \<Rightarrow> AgentProvision \<Rightarrow> (string \<times> ('d box, unit) op) list" where
  "provisionSteps L p =
    [(''create system user'', createUser L p),
     (''add docker group'', addDockerGroup L p),
     (''create directories'', createDirs L p),
     (''udev rules'', writeUdevRules L),
     (''generate SSH key'', genSSHKey L p),
     (''write SSH config'', writeSSHConfig L p),
     (''populate known_hosts'', populateKnownHosts L p),
     (''write env file'', writeEnvFile L p),
     (''install systemd unit'', installSystemdUnit L),
     (''enable service'', enableService L)]"

definition ProvisionAgent :: "'d Lib \<Rightarrow> AgentProvision \<Rightarrow> ('d box, unit) op" where
  "ProvisionAgent L p = forE (provisionSteps L p) (\<lambda>(name, fn). wrapE name fn)"

definition PublicKey :: "AgentProvision \<Rightarrow> ('d box, string) op" where
  "PublicKey p =
    (let key = path_Join (pv_DataDir p) ''.ssh/id_ed25519.pub'' in
     bindE (wrapE (''read public key: (run: sudo cat '' @ key @ '')'') (os_ReadFile key)) (\<lambda>data.
     returnE (trim_space data)))"

section \<open>The command\<close>

record InstallAgentOptions =
  oa_Server :: string
  oa_Token :: string
  oa_Yes :: bool

definition loadAgentServerURLFromInstance :: "AgentProvision \<Rightarrow> ('d box, AgentProvision) op" where
  "loadAgentServerURLFromInstance prov =
    (let envPath = path_Join instanceDir ''.env'' in
     bindE (catchE (os_ReadFile envPath) (\<lambda>_. failE (ErrMsg (''no --server given and no server instance found at '' @ envPath @ ''.'' @ [LF] @
         ''  On the same box as the server, install the server first (horizonx install server).'' @ [LF] @
         ''  On a different host, pass: horizonx install agent --server http://host:4858 --token <token>'')))) (\<lambda>data.
     let vars = parseEnv data; get = (\<lambda>k. case vars k of Some v \<Rightarrow> v | None \<Rightarrow> []);
         prov' = prov\<lparr>pv_APIURL := get ''HORIZONX_API_URL'', pv_WSURL := get ''HORIZONX_WS_URL''\<rparr>
     in if pv_APIURL prov' = [] then failE (ErrMsg (''server instance .env at '' @ envPath @ '' is missing HORIZONX_API_URL.'' @ [LF] @
         ''  Re-run: horizonx install server --generate-only''))
        else returnE prov'))"

text \<open>\<open>strings.TrimRight(s, "/")\<close> and \<open>strings.Replace(s, "http://", "ws://", 1)\<close>.\<close>

definition trim_slashes :: "string \<Rightarrow> string" where
  "trim_slashes s = rev (dropWhile (\<lambda>c. c = slash) (rev s))"

definition replace_first :: "string \<Rightarrow> string \<Rightarrow> string \<Rightarrow> string" where
  "replace_first s old new = (case index_of s old of
     None \<Rightarrow> s | Some i \<Rightarrow> take i s @ new @ drop (i + length old) s)"

definition agent_urls :: "InstallAgentOptions \<Rightarrow> ('d box, AgentProvision) op" where
  "agent_urls opts =
    (if oa_Server opts = [] then loadAgentServerURLFromInstance defaultAgentProvision
     else let api = trim_slashes (oa_Server opts) in
       returnE (defaultAgentProvision\<lparr>pv_APIURL := api,
         pv_WSURL := replace_first api ''http://'' ''ws://'' @ ''/ws/agent''\<rparr>))"

definition split_token :: "string \<Rightarrow> (string \<times> string) option" where
  "split_token token = (case split2 (CHR ''.'') token of
     (i, Some secret) \<Rightarrow> if i \<noteq> [] then Some (i, secret) else None
   | (_, None) \<Rightarrow> None)"

definition RunInstallAgent :: "'d Lib \<Rightarrow> InstallAgentOptions \<Rightarrow> ('d box, unit) op" where
  "RunInstallAgent L opts =
    (if oa_Token opts = [] then failE (ErrMsg (''agent token is required: register the server in the dashboard, then pass --token <token>''))
     else bindE (agent_urls opts) (\<lambda>prov.
       case split_token (oa_Token opts) of
         None \<Rightarrow> failE (ErrMsg ''invalid agent token: expected <server-id>.<secret> from dashboard registration'')
       | Some (i, secret) \<Rightarrow>
           bindE (wrapE ''provision agent''
             (ProvisionAgent L (prov\<lparr>pv_ServerID := i, pv_ServerToken := secret\<rparr>))) (\<lambda>_.
           ignoreE (os_ReadFile (path_Join (pv_DataDir prov) ''.ssh/id_ed25519.pub'')))))"

end
