(* ===== verification/InstallReadBack.thy ===== *)
theory InstallReadBack
  imports InstallAgent
begin

text \<open>
  A new instance and its readers: what \<open>horizonx install server\<close> shows and what
  \<open>horizonx install agent\<close> finds on the same machine is what the instance was generated with.
\<close>

lemma generateInstance_layout:
  "generateInstance L dir host ae ap org h = (Inr l, h') \<Longrightarrow> \<exists>root. path_Abs L dir = Inr root \<and> l = instance_layout root"
  by (auto simp: generateInstance_def bindE_Inr_iff Let_def split: sum.splits)

lemma instance_env_path:
  "path_Abs L instanceDir = Inr ''/opt/horizonx''"
  "il_EnvPath (instance_layout ''/opt/horizonx'') = ''/opt/horizonx/.env''"
  "path_Join instanceDir ''.env'' = ''/opt/horizonx/.env''"
  by (simp_all add: path_Abs_def instance_layout_def instanceDir_def path_Join_def path_Clean_def slash_def
      has_prefix_def Let_def)

lemma read_setting_keys: "plain_key ''ADMIN_EMAIL''" "plain_key ''ADMIN_PASSWORD''"
  by (simp_all add: plain_key_def is_space_def)

text \<open>
  C26. After a first generation of the instance, the agent installation on the same machine finds the
  addresses of the given host, and the installation of the server shows the given administrator with
  the given password or, when none is given, with the one that the fifth draw of 20 random bytes
  selects from the alphabet. The host must have no line feed; the address, the password, the joined
  origins and the identifiers must have no line feed and no space at either end; and the file must be
  readable afterwards.
\<close>

theorem instance_env_read_back:
  assumes g: "generateInstance L instanceDir host email pass origins h = (Inr l, h1)"
    and fresh: "ho_Files h ''/opt/horizonx/.env'' \<in> {None, Some []}"
    and order: "\<And>fs. set (lb_order L fs) = set fs"
    and vals: "LF \<notin> set host" "line_safe email" "line_safe pass"
      "line_safe (join_with (CHR '','') origins)" "\<And>n. line_safe (lb_uuid L n)"
    and works: "\<not> ho_Fails h1 (ho_Calls h1)"
    and agent: "loadAgentServerURLFromInstance defaultAgentProvision h1 = (r, h2)"
    and server: "show_credentials (il_EnvPath l) h1 = (s, h3)"
  defines "host' \<equiv> if host = [] then ''127.0.0.1'' else host"
  shows "(\<exists>prov. r = Inr prov \<and> pv_APIURL prov = ServerAPIURL host' \<and> pv_WSURL prov = ServerWSURL host') \<and>
    (\<exists>p. bx_Shown (ho_Out h3) = bx_Shown (ho_Out h1) @
        [(if email = [] then ''admin@horizonx.local'' else email, p)] \<and>
      (if pass = [] then \<exists>b. bx_Rand (ho_Out h) (bx_Reads (ho_Out h) + 4) 20 = Some b \<and>
          p = map (\<lambda>c. alphabet ! (of_char c mod length alphabet)) b
       else p = pass))"
proof -
  have l: "il_EnvPath l = ''/opt/horizonx/.env''"
    using generateInstance_layout [OF g] instance_env_path(1) [of L] instance_env_path(2) by auto
  obtain env g0 g1 where out: "ho_Out g0 = ho_Out h" and env: "newInstanceEnv L host email pass origins g0 = (Inr env, g1)"
    and content: "ho_Files h1 ''/opt/horizonx/.env'' = Some (renderInstanceEnv env)"
    using generateInstance_fresh [OF g _ order] fresh instance_env_path(1) [of L] instance_env_path(2) l
    by (auto simp: instanceDir_def)
  note f = newInstanceEnv_fields [OF env]
  have safe: "env_safe env" by (rule newInstanceEnv_safe [OF env vals])
  have read: "os_ReadFile ''/opt/horizonx/.env'' h1 = (Inr (renderInstanceEnv env), h1\<lparr>ho_Calls := Suc (ho_Calls h1)\<rparr>)"
    using content works by (simp add: ReadFile_Inr)
  have "ServerAPIURL host' \<noteq> []" by (simp add: ServerAPIURL_def)
  then have "\<exists>prov. r = Inr prov \<and> pv_APIURL prov = ServerAPIURL host' \<and> pv_WSURL prov = ServerWSURL host'"
    using agent f(1) unfolding loadAgentServerURLFromInstance_def Let_def instance_env_path
    by (auto simp: bindE_def catchE_def read parseEnv_render [OF safe] settings_values host'_def)
  moreover have "ie_AdminEmail env \<noteq> []" unfolding f(4) by simp
  then have "bx_Shown (ho_Out h3) = bx_Shown (ho_Out h1) @ [(ie_AdminEmail env, ie_AdminPass env)]"
    using server unfolding show_credentials_def l read
    by (auto simp: envValue_render [OF safe read_setting_keys(1) settings_values(3)]
        envValue_render [OF safe read_setting_keys(2) settings_values(4)] Let_def)
  ultimately show ?thesis using f(4,5) f(6) [unfolded out] by auto
qed

text \<open>The witness: a machine without an instance.\<close>

definition new_box :: "unit box" where
  "new_box = demo_box\<lparr>ho_Files := [''/bin/horizonx'' \<mapsto> ''one''],
     ho_Dirs := (\<lambda>p. p \<in> {''/bin'', ''/tmp'', ''/opt''})\<rparr>"

lemma instance_prefixes:
  "path_prefixes ''/opt/horizonx'' = [''/opt'', ''/opt/horizonx'']"
  "path_prefixes ''/opt/horizonx/server'' = [''/opt'', ''/opt/horizonx'', ''/opt/horizonx/server'']"
  "path_prefixes ''/opt/horizonx/dashboard'' = [''/opt'', ''/opt/horizonx'', ''/opt/horizonx/dashboard'']"
  by code_simp+

lemma new_box_generates:
  "\<exists>l h1. generateInstance demo_lib instanceDir ''10.0.0.1'' ''me@x.io'' ''pw'' [] new_box = (Inr l, h1)"
  by (simp add: generateInstance_def instance_env_path instance_layout_def newInstanceEnv_def randomHex_def
      uuid_New_def box_rand_def os_MkdirAll_def syscall_def wrapE_def catchE_def bindE_def write_files_def
      write_file_def os_Create_def os_WriteFile_def os_Write_def relax_modes_def os_Chmod_def ignoreE_def
      kept_env_def os_ReadFile_def new_box_def demo_box_def demo_lib_def path_Join_def path_Clean_def slash_def
      parent_dir_def instance_prefixes Let_def)

lemma demo_uuid_safe: "line_safe (lb_uuid demo_lib n)"
proof -
  have "\<not> is_space c" if "c \<in> set (show_nat n)" for c
    using show_nat_digits [OF that] by (auto simp: is_space_def of_char_digit)
  then show ?thesis by (simp add: demo_lib_def line_safe_word)
qed

theorem instance_env_read_back_witness:
  "\<exists>l h1 prov h2. generateInstance demo_lib instanceDir ''10.0.0.1'' ''me@x.io'' ''pw'' [] new_box = (Inr l, h1) \<and>
    loadAgentServerURLFromInstance defaultAgentProvision h1 = (Inr prov, h2) \<and>
    pv_APIURL prov = ''http://10.0.0.1:4858'' \<and>
    bx_Shown (ho_Out (snd (show_credentials (il_EnvPath l) h1))) = bx_Shown (ho_Out h1) @ [(''me@x.io'', ''pw'')]"
proof -
  obtain l h1 where g: "generateInstance demo_lib instanceDir ''10.0.0.1'' ''me@x.io'' ''pw'' [] new_box = (Inr l, h1)"
    using new_box_generates by blast
  have o: "set (lb_order demo_lib fs) = set fs" for fs by (simp add: demo_lib_def)
  have "guarantees (keeps_env ''.env'') (generateInstance demo_lib instanceDir ''10.0.0.1'' ''me@x.io'' ''pw'' [])"
    by (rule k_generateInstance) (simp_all add: o instanceDir_def env_name_def has_suffix_def)
  from guaranteesD [OF this g] have w: "\<not> ho_Fails h1 n" for n
    by (simp add: keeps_env_def new_box_def demo_box_def)
  obtain r h2 where a: "loadAgentServerURLFromInstance defaultAgentProvision h1 = (r, h2)" by force
  obtain s h3 where c: "show_credentials (il_EnvPath l) h1 = (s, h3)" by force
  have v: "LF \<notin> set ''10.0.0.1''" "line_safe ''me@x.io''" "line_safe ''pw''" "line_safe (join_with (CHR '','') [])"
    "''10.0.0.1'' \<noteq> ([] :: string)"
    by (simp_all add: LF_def line_safe_def trim_space_def is_space_def)
  have f: "ho_Files new_box ''/opt/horizonx/.env'' \<in> {None, Some []}" by (simp add: new_box_def)
  from instance_env_read_back [OF g f o v(1-4) demo_uuid_safe w a c] g a c show ?thesis
    by (auto simp: ServerAPIURL_def ServerPort_def)
qed

end
