(* ===== verification/Boot.thy ===== *)
theory Boot
  imports Config ControlPlane Sessions
begin

text \<open>
  Starting the control plane (\<open>RunServer\<close> of \<open>internal/app/server.go\<close> up to the event listeners),
  the migrations (\<open>internal/app/migrate.go\<close>, \<open>cmd/migrate/main.go\<close>) and the seeding tool
  (\<open>cmd/seed/main.go\<close>). Package golang-migrate with the driver below it is the record \<open>Migration\<close>;
  what it keeps in the database is of a type of its own. Whether the stores answer is given by
  \<open>BootLib\<close>.
\<close>

section \<open>State and parameters\<close>

record 's Plane =
  pn_Env :: env
  pn_DB :: 's
  pn_Out :: "string list"
  pn_World :: world

record 's Migration =
  md_Ping :: "'s \<Rightarrow> error option"
  md_WithInstance :: "('s, unit) op"
  md_Source :: "error option"
  md_New :: "error option"
  md_Version :: "'s \<Rightarrow> error + nat \<times> bool"
  md_Up :: "('s, unit) op"
  md_Down :: "('s, unit) op"
  md_Steps :: "int \<Rightarrow> ('s, unit) op"
  md_Force :: "int \<Rightarrow> ('s, unit) op"

definition ErrNilVersion :: error where "ErrNilVersion = ErrMsg ''no migration''"
definition ErrNoChange :: error where "ErrNoChange = ErrMsg ''no change''"

text \<open>
  \<open>bl_Open\<close> opens a database by its name; \<open>bl_ParseConfig\<close>, \<open>bl_NewPool\<close> and \<open>bl_PoolPing\<close> are the
  ways the connection pool may fail, \<open>bl_RedisPing\<close> says whether Redis answers for an address, a
  user, a password and a number.
\<close>

record 's BootLib =
  bl_sys :: Sys
  bl_Open :: "string \<Rightarrow> error + 's Migration"
  bl_ParseConfig :: "string \<Rightarrow> error option"
  bl_NewPool :: "string \<Rightarrow> 's \<Rightarrow> error option"
  bl_PoolPing :: "string \<Rightarrow> 's \<Rightarrow> error option"
  bl_RedisPing :: "string \<Rightarrow> string \<Rightarrow> string \<Rightarrow> int \<Rightarrow> error option"
  bl_bcrypt :: Bcrypt

definition or_err :: "string \<Rightarrow> ('s \<Rightarrow> error option) \<Rightarrow> ('s, unit) op" where
  "or_err msg f s = (case f s of None \<Rightarrow> (Inr (), s) | Some e \<Rightarrow> (Inl (Wrapped msg e), s))"

definition on_db :: "('s, 'a) op \<Rightarrow> ('s Plane, 'a) op" where
  "on_db m p = (case m (pn_DB p) of (r, s) \<Rightarrow> (r, p\<lparr>pn_DB := s\<rparr>))"

definition on_world :: "(world, 'a) op \<Rightarrow> ('s Plane, 'a) op" where
  "on_world m p = (case m (pn_World p) of (r, w) \<Rightarrow> (r, p\<lparr>pn_World := w\<rparr>))"

section \<open>Migrations\<close>

definition open_migrate :: "'s BootLib \<Rightarrow> string \<Rightarrow> ('s, 's Migration) op" where
  "open_migrate L dsn = (case bl_Open L dsn of
     Inl e \<Rightarrow> failE (Wrapped ''could not open db connection'' e)
   | Inr m \<Rightarrow>
      bindE (or_err ''could not reach database'' (md_Ping m)) (\<lambda>_.
      bindE (wrapE ''could not create migrate driver'' (md_WithInstance m)) (\<lambda>_.
      bindE (or_err ''could not create migration source'' (\<lambda>_. md_Source m)) (\<lambda>_.
      bindE (or_err ''could not initialise migrate'' (\<lambda>_. md_New m)) (\<lambda>_. returnE m)))))"

definition AutoMigrate :: "'s BootLib \<Rightarrow> string \<Rightarrow> ('s, nat \<times> bool) op" where
  "AutoMigrate L dsn =
    (if dsn = [] then failE (ErrMsg ''DATABASE_URL is required for auto-migration'')
     else bindE (open_migrate L dsn) (\<lambda>m s.
       let before = (case md_Version m s of Inr vd \<Rightarrow> vd | Inl _ \<Rightarrow> (0, False));
           (r, s') = md_Up m s;
           after = (case md_Version m s' of Inr vd \<Rightarrow> vd | Inl _ \<Rightarrow> before)
       in case r of
            Inl e \<Rightarrow> if e = ErrNoChange then (Inr after, s') else (Inl (Wrapped ''migration failed'' e), s')
          | Inr _ \<Rightarrow> (Inr after, s')))"

text \<open>Reading the environment file, then the address of the database.\<close>

definition load_env :: "'s BootLib \<Rightarrow> string \<Rightarrow> ('s Plane, unit) op" where
  "load_env L envFile p =
    (if envFile \<noteq> [] then (case sy_dotenv_file (bl_sys L) envFile (pn_Env p) of
        Inl e \<Rightarrow> (Inl (Wrapped (''could not load env file '' @ envFile) e), p)
      | Inr env \<Rightarrow> (Inr (), p\<lparr>pn_Env := env\<rparr>))
     else (Inr (), p\<lparr>pn_Env := sy_dotenv (bl_sys L) (pn_Env p)\<rparr>))"

definition resolve_dsn :: "string \<Rightarrow> 's Plane \<Rightarrow> string" where
  "resolve_dsn dsn p = (if dsn = [] then pn_Env p ''DATABASE_URL'' else dsn)"

definition say :: "string \<Rightarrow> ('s Plane, unit) op" where
  "say line = modifyE (\<lambda>p. p\<lparr>pn_Out := pn_Out p @ [line]\<rparr>)"

definition show_bool :: "bool \<Rightarrow> string" where
  "show_bool b = (if b then ''true'' else ''false'')"

text \<open>The operation itself: a change of the schema, or the version printed.\<close>

definition migrate_op :: "'s Migration \<Rightarrow> string \<Rightarrow> int \<Rightarrow> ('s Plane, unit) op" where
  "migrate_op m opn steps =
    (let change = (\<lambda>f. on_db (catchE f (\<lambda>e. if e = ErrNoChange then returnE () else failE (Wrapped ''migration failed'' e))))
     in if opn = ''up'' then change (if steps > 0 then md_Steps m steps else md_Up m)
        else if opn = ''down'' then change (if steps > 0 then md_Steps m (- steps) else md_Down m)
        else if opn = ''version'' then (\<lambda>p. case md_Version m (pn_DB p) of
            Inl e \<Rightarrow> if e = ErrNilVersion then say ''Version: none (no migrations applied)'' p
              else (Inl (Wrapped ''could not get version'' e), p)
          | Inr (v, dirty) \<Rightarrow> say (''Version: '' @ show_nat v @ '', Dirty: '' @ show_bool dirty) p)
        else if opn = ''force'' then change (md_Force m steps)
        else failE (ErrMsg (''unknown operation '' @ opn)))"

definition RunMigrate :: "'s BootLib \<Rightarrow> string \<Rightarrow> string \<Rightarrow> string \<Rightarrow> int \<Rightarrow> ('s Plane, unit) op" where
  "RunMigrate L envFile dsn opn steps = bindE (load_env L envFile) (\<lambda>_ p.
     let dsn = resolve_dsn dsn p
     in if opn = [] then (Inl (ErrMsg ''-op is required''), p)
        else if dsn = [] then (Inl (ErrMsg ''-dsn is required (or set DATABASE_URL)''), p)
        else if opn = ''force'' \<and> steps = 0 then (Inl (ErrMsg ''-steps is required for force operation''), p)
        else bindE (on_db (open_migrate L dsn)) (\<lambda>m. migrate_op m opn steps) p)"

section \<open>The stores\<close>

definition postgres_Init :: "'s BootLib \<Rightarrow> string \<Rightarrow> ('s, unit) op" where
  "postgres_Init L dsn =
     bindE (or_err ''postgres: failed to parse DB config'' (\<lambda>_. bl_ParseConfig L dsn)) (\<lambda>_.
     bindE (or_err ''postgres: failed to connect postgres'' (bl_NewPool L dsn)) (\<lambda>_.
     or_err ''postgres: database not responding (ping fail)'' (bl_PoolPing L dsn)))"

text \<open>\<open>log.Fatal\<close> ends the process where the error is noticed.\<close>

definition redis_Init :: "'s BootLib \<Rightarrow> AppConfig \<Rightarrow> ('t, unit) op" where
  "redis_Init L cfg = or_err ''redis connection failed:''
     (\<lambda>_. bl_RedisPing L (cg_RedisAddress cfg) (cg_RedisUsername cfg) (cg_RedisPassword cfg) (cg_RedisDB cfg))"

section \<open>The start of the control plane\<close>

definition weak_secret :: "AppConfig \<Rightarrow> bool" where
  "weak_secret cfg \<longleftrightarrow> cf_JWTSecret cfg = [] \<or>
     (cg_AppEnv cfg = ''production'' \<and> cf_JWTSecret cfg \<in> {[], ''changeme-dev-secret'', ''secret''})"

definition admin_request :: "string \<Rightarrow> string \<Rightarrow> UserSaveRequest" where
  "admin_request email pass = \<lparr>us_Name = ''Admin'', us_Email = email, us_Password = pass, us_RoleID = 1\<rparr>"

definition auto_seed :: "Bcrypt \<Rightarrow> AppConfig \<Rightarrow> (world, unit) op" where
  "auto_seed bc cfg =
    (if \<not> cg_AutoSeed cfg then returnE ()
     else if cg_AdminPass cfg = [] then failE (ErrMsg ''auto-seed: ADMIN_PASSWORD is empty'')
     else (\<lambda>w. case UserRepo_GetByEmail (cg_AdminEmail cfg) w of
         (Inr _, w') \<Rightarrow> (Inr (), w')
       | (Inl e, w') \<Rightarrow>
          if errors_Is e ErrUserNotFound then
            bindE (wrapE ''auto-seed: sync permissions'' RoleService_SyncPermissions) (\<lambda>_.
            wrapE ''auto-seed: create admin''
              (UserService_Create bc (admin_request (cg_AdminEmail cfg) (cg_AdminPass cfg)))) w'
          else (Inl (Wrapped ''auto-seed: check admin'' e), w')))"

definition load_config :: "'s BootLib \<Rightarrow> ('s Plane, AppConfig) op" where
  "load_config L p = (case Load (bl_sys L) (pn_Env p) of (cfg, env) \<Rightarrow> (Inr cfg, p\<lparr>pn_Env := env\<rparr>))"

definition RunServer_start :: "'s BootLib \<Rightarrow> ('s Plane, AppConfig) op" where
  "RunServer_start L = bindE (load_config L) (\<lambda>cfg.
     if weak_secret cfg
     then failE (ErrMsg ''JWT_SECRET must be set to a strong random value (production refuses dev defaults)'')
     else
     bindE (if cg_AutoMigrate cfg
            then bindE (on_db (wrapE ''auto-migrate'' (AutoMigrate L (cg_DatabaseURL cfg)))) (\<lambda>_. returnE ())
            else returnE ()) (\<lambda>_.
     bindE (on_db (wrapE ''failed to init postgres'' (postgres_Init L (cg_DatabaseURL cfg)))) (\<lambda>_.
     bindE (redis_Init L cfg) (\<lambda>_.
     bindE (on_world (auto_seed (bl_bcrypt L) cfg)) (\<lambda>_. returnE cfg)))))"

section \<open>The seeding tool\<close>

record SeedFlags =
  sf_EnvFile :: string
  sf_DSN :: string
  sf_AdminEmail :: string
  sf_AdminPass :: string
  sf_SkipRoles :: bool
  sf_SkipAdmin :: bool

definition first_set :: "string list \<Rightarrow> string" where
  "first_set xs = (case find (\<lambda>x. x \<noteq> []) xs of Some x \<Rightarrow> x | None \<Rightarrow> [])"

definition seedRolePermissions :: "(world, unit) op" where
  "seedRolePermissions = wrapE ''failed to sync roles and permissions'' RoleService_SyncPermissions"

definition seedAdmin :: "Bcrypt \<Rightarrow> string \<Rightarrow> string \<Rightarrow> (world, unit) op" where
  "seedAdmin bc email pass = wrapE ''failed to create admin user'' (UserService_Create bc (admin_request email pass))"

definition failed :: "(world, unit) op \<Rightarrow> (world, bool) op" where
  "failed m w = (case m w of (Inl _, w') \<Rightarrow> (Inr True, w') | (Inr _, w') \<Rightarrow> (Inr False, w'))"

text \<open>
  The tool goes on after a failure and then ends with an error. A file that cannot be loaded is an
  error only when it was named.
\<close>

definition seed_main :: "'s BootLib \<Rightarrow> SeedFlags \<Rightarrow> ('s Plane, unit) op" where
  "seed_main L fl = bindE (load_env L (sf_EnvFile fl)) (\<lambda>_ p.
     let dsn = resolve_dsn (sf_DSN fl) p;
         email = first_set [sf_AdminEmail fl, pn_Env p ''DB_ADMIN_EMAIL'', ''admin@horizonx.local''];
         pass = first_set [sf_AdminPass fl, pn_Env p ''DB_ADMIN_PASSWORD'', ''password'']
     in if dsn = [] then (Inl (ErrMsg ''-dsn is required (or set DATABASE_URL)''), p)
        else bindE (on_db (wrapE ''failed to connect to database'' (postgres_Init L dsn))) (\<lambda>_.
          bindE (if sf_SkipRoles fl then returnE False else on_world (failed seedRolePermissions)) (\<lambda>f1.
          bindE (if sf_SkipAdmin fl then returnE False else on_world (failed (seedAdmin (bl_bcrypt L) email pass))) (\<lambda>f2.
          if f1 \<or> f2 then failE (ErrMsg ''Seeding completed with errors.'') else returnE ()))) p)"

end
