(* ===== verification/BootSeed.thy ===== *)
theory BootSeed
  imports Boot Handlers
begin

text \<open>
  What a start of the control plane does to the accounts: it adds the administrator of the
  environment file once and never touches an account that exists.
\<close>

section \<open>What a start leaves alone\<close>

definition same_accounts :: "world \<Rightarrow> world \<Rightarrow> bool" where
  "same_accounts w w' \<longleftrightarrow> w_users w' = w_users w \<and> w_redis w' = w_redis w \<and> w_jobs w' = w_jobs w \<and>
     w_deployments w' = w_deployments w \<and> w_apps w' = w_apps w \<and> w_env w' = w_env w \<and>
     w_servers w' = w_servers w \<and> w_logs w' = w_logs w \<and> w_audit w' = w_audit w \<and>
     w_settings w' = w_settings w \<and> w_fault w' = w_fault w"

interpretation ac: db_guarantee same_accounts
  by unfold_locales (auto simp: same_accounts_def)

lemma ac_upserts: "guarantees same_accounts (upsert_role n)" "guarantees same_accounts (upsert_permission n)"
  by (auto simp: guarantees_def upsert_role_def upsert_permission_def Let_def same_accounts_def split: option.split)

lemma ac_upsert_all: "(\<And>n. guarantees same_accounts (f n)) \<Longrightarrow> guarantees same_accounts (upsert_all f what ns)"
  by (induction ns) (auto intro!: ac.db_rules)

lemma ac_role_tx: "guarantees same_accounts m \<Longrightarrow> guarantees same_accounts (role_tx m)"
  by (auto simp: guarantees_def role_tx_def same_accounts_def split: prod.splits sum.splits) (metis snd_conv)+

lemma ac_SyncPermissions: "guarantees same_accounts RoleService_SyncPermissions"
  unfolding RoleService_SyncPermissions_def RoleRepo_SyncPermissions_def
  by (intro ac.db_rules ac_role_tx ac_upsert_all ac_upserts ac.g_modify) (simp_all add: same_accounts_def)

lemma ac_lookups:
  "guarantees same_accounts (user_joined q)" "guarantees same_accounts (UserRepo_GetRoleByID i)"
  "guarantees same_accounts (hash_password bc pw)"
  unfolding user_joined_def UserRepo_GetRoleByID_def hash_password_def
  by (intro ac.db_rules guaranteesI; simp add: ac.refl split: option.split)+

lemma ac_email_taken: "guarantees same_accounts (email_taken e)"
  using ac_lookups(1) [of "\<lambda>u. u_Email u = e"]
  by (auto simp: guarantees_def email_taken_def UserRepo_GetByEmail_def split: prod.splits sum.splits) (metis snd_conv)+

text \<open>At most one account is new, with an address no account had, and the role administrator.\<close>

definition account_added :: "string \<Rightarrow> world \<Rightarrow> world \<Rightarrow> bool" where
  "account_added e w w' \<longleftrightarrow> same_accounts w w' \<or>
     (\<exists>u. same_accounts (w\<lparr>w_users := w_users w @ [u]\<rparr>) w' \<and> u_Email u = e \<and> u_RoleID u = 1 \<and>
        e \<notin> u_Email ` set (w_users w))"

lemma added_after_same: "same_accounts w u \<Longrightarrow> account_added e u v \<Longrightarrow> account_added e w v"
  unfolding account_added_def by (auto simp: same_accounts_def)

lemma same_added: "same_accounts w w' \<Longrightarrow> account_added e w w'"
  by (simp add: account_added_def)

lemma g_added_last:
  assumes "guarantees same_accounts m" and "\<And>x. guarantees (account_added e) (f x)"
  shows "guarantees (account_added e) (bindE m f)"
proof (rule guaranteesI)
  fix w
  obtain r u where r: "m w = (r, u)" by (metis prod.collapse)
  have "same_accounts w u" by (rule guaranteesD [OF assms(1) r])
  then show "account_added e w (snd (bindE m f w))"
    using assms(2) r by (auto simp: bindE_def guarantees_def same_added added_after_same split: sum.split)
qed

lemma g_added_wrap: "guarantees (account_added e) m \<Longrightarrow> guarantees (account_added e) (wrapE msg m)"
  by (auto simp: guarantees_def wrapE_def catchE_def split: prod.splits sum.splits) (metis snd_conv)+

lemma g_added_same: "guarantees same_accounts m \<Longrightarrow> guarantees (account_added e) m"
  by (simp add: guarantees_def same_added)

lemma added_repo_create:
  "u_Email u = e \<Longrightarrow> u_RoleID u = 1 \<Longrightarrow> guarantees (account_added e) (UserRepo_Create u)"
  unfolding UserRepo_Create_def
  by (intro g_added_last ac.g_now g_added_wrap)
    (auto simp: guarantees_def db_exec_def Let_def account_added_def same_accounts_def User.defs
      intro!: exI [of _ "User.extend _ _"])

lemma g_added_if: "guarantees (account_added e) m \<Longrightarrow> guarantees (account_added e) n \<Longrightarrow>
    guarantees (account_added e) (if b then m else n)"
  by simp

lemma added_create: "guarantees (account_added e) (UserService_Create bc (admin_request e pw))"
  unfolding UserService_Create_def
  by (rule g_added_last, rule ac_lookups, rule g_added_last, rule ac_email_taken [of "us_Email _"], rule g_added_if,
      rule g_added_same, rule ac.g_fail, rule g_added_last, rule ac_lookups, rule added_repo_create)
    (simp_all add: admin_request_def)

definition seed_admin :: "Bcrypt \<Rightarrow> AppConfig \<Rightarrow> (world, unit) op" where
  "seed_admin bc cfg = bindE (wrapE ''auto-seed: sync permissions'' RoleService_SyncPermissions) (\<lambda>_.
     wrapE ''auto-seed: create admin''
       (UserService_Create bc (admin_request (cg_AdminEmail cfg) (cg_AdminPass cfg))))"

lemma auto_seed_cases:
  "snd (auto_seed bc cfg w) = w \<or> same_accounts w (snd (auto_seed bc cfg w)) \<or>
   (\<exists>u. same_accounts w u \<and> auto_seed bc cfg w = seed_admin bc cfg u)"
proof -
  obtain r u where u: "UserRepo_GetByEmail (cg_AdminEmail cfg) w = (r, u)" by (metis prod.collapse)
  have "same_accounts w u"
    using guaranteesD [OF ac_lookups(1)] u by (simp add: UserRepo_GetByEmail_def)
  with u show ?thesis
    by (cases r) (auto simp: auto_seed_def seed_admin_def)
qed

lemma added_seed_admin: "guarantees (account_added (cg_AdminEmail cfg)) (seed_admin bc cfg)"
  unfolding seed_admin_def by (intro g_added_last ac.g_wrap ac_SyncPermissions g_added_wrap added_create)

lemma added_auto_seed: "account_added (cg_AdminEmail cfg) w (snd (auto_seed bc cfg w))"
  using auto_seed_cases [of bc cfg w] added_seed_admin [of cfg bc]
  by (metis ac.refl added_after_same guarantees_def same_added)

lemma pn_world_simps [simp]:
  "pn_World (snd (on_db m p)) = pn_World p" "pn_World (snd (load_config L p)) = pn_World p"
  "pn_World (snd (redis_Init L cfg p)) = pn_World p"
  by (simp_all add: on_db_def load_config_def redis_Init_def or_err_def split: prod.split option.split)

text \<open>Before the accounts are looked at, the start works on the schema and the connections only.\<close>

definition prepare :: "'s BootLib \<Rightarrow> AppConfig \<Rightarrow> ('s Plane, unit) op" where
  "prepare L cfg =
     bindE (if cg_AutoMigrate cfg
            then bindE (on_db (wrapE ''auto-migrate'' (AutoMigrate L (cg_DatabaseURL cfg)))) (\<lambda>_. returnE ())
            else returnE ()) (\<lambda>_.
     bindE (on_db (wrapE ''failed to init postgres'' (postgres_Init L (cg_DatabaseURL cfg)))) (\<lambda>_.
     redis_Init L cfg))"

interpretation pw: guarantee "\<lambda>p p'. pn_World p' = pn_World p"
  by unfold_locales simp_all

lemma prepare_world: "prepare L cfg p = (r, p') \<Longrightarrow> pn_World p' = pn_World p"
proof -
  assume run: "prepare L cfg p = (r, p')"
  have "guarantees (\<lambda>p p'. pn_World p' = pn_World p) (prepare L cfg)"
    unfolding prepare_def by (intro pw.g_bind pw.g_if pw.g_return) (simp_all add: guarantees_def)
  from guaranteesD [OF this run] show ?thesis .
qed

lemma start_prepare:
  "RunServer_start L = bindE (load_config L) (\<lambda>cfg.
     if weak_secret cfg
     then failE (ErrMsg ''JWT_SECRET must be set to a strong random value (production refuses dev defaults)'')
     else bindE (prepare L cfg) (\<lambda>_. bindE (on_world (auto_seed (bl_bcrypt L) cfg)) (\<lambda>_. returnE cfg)))"
  unfolding RunServer_start_def prepare_def bindE_assoc ..

text \<open>Before the accounts are looked at, the start works on the schema and the connections only.\<close>

lemma start_world:
  assumes cfg: "cfg = fst (Load (bl_sys L) (pn_Env p))"
  obtains e where "fst (RunServer_start L p) = Inl e" "pn_World (snd (RunServer_start L p)) = pn_World p"
  | r w where "auto_seed (bl_bcrypt L) cfg (pn_World p) = (r, w)" "\<not> weak_secret cfg"
      "pn_World (snd (RunServer_start L p)) = w"
      "fst (RunServer_start L p) = (case r of Inl e \<Rightarrow> Inl e | Inr _ \<Rightarrow> Inr cfg)"
proof -
  obtain p0 where load: "load_config L p = (Inr cfg, p0)" "pn_World p0 = pn_World p"
    by (cases "Load (bl_sys L) (pn_Env p)") (simp add: load_config_def cfg)
  obtain r1 p1 where 1: "prepare L cfg p0 = (r1, p1)" by force
  have w1: "pn_World p1 = pn_World p" using prepare_world [OF 1] load(2) by simp
  obtain r w where 2: "auto_seed (bl_bcrypt L) cfg (pn_World p) = (r, w)" by force
  show thesis
  proof (cases "weak_secret cfg")
    case True
    with load show thesis by (intro that(1)) (simp_all add: start_prepare bindE_def)
  next
    case False
    show thesis
    proof (cases r1)
      case (Inl e)
      with False load 1 w1 show thesis by (intro that(1)) (simp_all add: start_prepare bindE_def)
    next
      case (Inr x)
      with False load 1 w1 2 show thesis
        by (intro that(2) [OF 2 False]) (simp_all add: start_prepare bindE_def on_world_def split: sum.split)
    qed
  qed
qed

lemma start_added:
  "account_added (cg_AdminEmail (fst (Load (bl_sys L) (pn_Env p)))) (pn_World p) (pn_World (snd (RunServer_start L p)))"
proof (cases rule: start_world [OF refl, of L p])
  case 1
  then show ?thesis by (simp add: same_added ac.refl)
next
  case (2 r w)
  with added_auto_seed [of "fst (Load (bl_sys L) (pn_Env p))" "pn_World p" "bl_bcrypt L"] show ?thesis by simp
qed

section \<open>The first administrator\<close>

definition same_auth :: "world \<Rightarrow> world \<Rightarrow> bool" where
  "same_auth w w' \<longleftrightarrow> w_users w' = w_users w \<and> w_roles w' = w_roles w \<and> w_perms w' = w_perms w"

interpretation au: db_guarantee same_auth
  by unfold_locales (auto simp: same_auth_def)

lemma au_lookups:
  "guarantees same_auth (user_joined q)" "guarantees same_auth (UserRepo_GetRoleByID i)"
  "guarantees same_auth (hash_password bc pw)"
  unfolding user_joined_def UserRepo_GetRoleByID_def hash_password_def
  by (intro au.db_rules guaranteesI; simp add: au.refl split: option.split)+

lemma au_email_taken: "guarantees same_auth (email_taken e)"
  using au_lookups(1) [of "\<lambda>u. u_Email u = e"]
  by (auto simp: guarantees_def email_taken_def UserRepo_GetByEmail_def split: prod.splits sum.splits) (metis snd_conv)+

text \<open>The operations on roles keep the roles there are.\<close>

definition roles_grow :: "world \<Rightarrow> world \<Rightarrow> bool" where
  "roles_grow w w' \<longleftrightarrow> set (w_roles w) \<subseteq> set (w_roles w')"

interpretation rg: db_guarantee roles_grow
  by unfold_locales (auto simp: roles_grow_def)

lemma rg_upsert_all: "(\<And>n. guarantees roles_grow (f n)) \<Longrightarrow> guarantees roles_grow (upsert_all f what ns)"
  by (induction ns) (auto intro!: rg.db_rules)

lemma rg_upserts: "guarantees roles_grow (upsert_role n)" "guarantees roles_grow (upsert_permission n)"
  by (auto simp: guarantees_def upsert_role_def upsert_permission_def Let_def roles_grow_def split: option.split)

lemma rg_role_tx: "guarantees roles_grow m \<Longrightarrow> guarantees roles_grow (role_tx m)"
  by (auto simp: guarantees_def role_tx_def roles_grow_def split: prod.splits sum.splits) (metis snd_conv subsetD)

lemma rg_SyncPermissions: "guarantees roles_grow RoleService_SyncPermissions"
  unfolding RoleService_SyncPermissions_def RoleRepo_SyncPermissions_def
  by (intro rg.db_rules rg_role_tx rg_upsert_all rg_upserts rg.g_modify) (simp_all add: roles_grow_def)

lemma wrapE_Inr: "wrapE msg m w = (Inr x, w') \<longleftrightarrow> m w = (Inr x, w')"
  by (auto simp: wrapE_def catchE_def split: prod.split sum.split)

text \<open>A creation that succeeds adds a live account with a hash of the password.\<close>

lemma UserService_Create_Inr:
  assumes "UserService_Create bc req w = (Inr x, w')"
  shows "\<exists>u salt. w_users w' = w_users w @ [u] \<and> live_user u \<and> u_Email u = us_Email req \<and>
    u_RoleID u = us_RoleID req \<and> GenerateFromPassword bc salt (us_Password req) = Some (u_Password u) \<and>
    us_Email req \<notin> u_Email ` set (w_users w) \<and> w_roles w' = w_roles w"
proof -
  from assms obtain r w1 w2 h w3 where 1: "UserRepo_GetRoleByID (us_RoleID req) w = (Inr r, w1)"
    and 2: "email_taken (us_Email req) w1 = (Inr False, w2)"
    and 3: "hash_password bc (us_Password req) w2 = (Inr h, w3)"
    and 4: "UserRepo_Create (User0\<lparr>u_Name := us_Name req, u_Email := us_Email req, u_Password := h,
        u_RoleID := us_RoleID req\<rparr>) w3 = (Inr x, w')"
    by (auto simp: UserService_Create_def bindE_Inr_iff split: if_splits)
  have same: "same_auth w w3"
    using guaranteesD [OF au_lookups(2) 1] guaranteesD [OF au_email_taken 2] guaranteesD [OF au_lookups(3) 3]
    by (metis au.trans)
  from 3 obtain salt where "GenerateFromPassword bc salt (us_Password req) = Some h"
    by (auto simp: hash_password_def bindE_Inr_iff split: option.splits)
  with 4 same show ?thesis
    by (auto simp: UserRepo_Create_def bindE_Inr_iff time_Now_def db_wrap_Inr Let_def User.defs UserRow.defs live_user_def
        same_auth_def split: if_splits)
qed

lemma GetByEmail_unknown:
  assumes "\<And>u. u \<in> set (w_users w) \<Longrightarrow> live_user u \<Longrightarrow> u_Email u \<noteq> e"
  shows "\<exists>x u. UserRepo_GetByEmail e w = (Inl x, u) \<and> same_auth w u \<and> same_accounts w u \<and> names_unique u = names_unique w"
proof -
  have "find (\<lambda>u. u_Email u = e \<and> live_user u) (w_users w) = None"
    using assms by (auto simp: find_None_set)
  then show ?thesis
    by (auto simp: UserRepo_GetByEmail_def user_joined_def db_exec_def bindE_def catchE_def Let_def same_auth_def
        same_accounts_def names_unique_calls)
qed

lemma seed_fresh:
  assumes seed: "cg_AutoSeed cfg" and run: "auto_seed bc cfg w = (Inr x, w')"
    and fresh: "\<And>u. u \<in> set (w_users w) \<Longrightarrow> live_user u \<Longrightarrow> u_Email u \<noteq> cg_AdminEmail cfg"
  shows "\<exists>u salt w1 w2. same_auth w w1 \<and> names_unique w1 = names_unique w \<and>
    RoleService_SyncPermissions w1 = (Inr (), w2) \<and> w_users w2 = w_users w \<and> w_roles w' = w_roles w2 \<and>
    w_users w' = w_users w @ [u] \<and> live_user u \<and> u_Email u = cg_AdminEmail cfg \<and> u_RoleID u = 1 \<and>
    GenerateFromPassword bc salt (cg_AdminPass cfg) = Some (u_Password u) \<and>
    cg_AdminEmail cfg \<notin> u_Email ` set (w_users w)"
proof -
  obtain e w1 where 1: "UserRepo_GetByEmail (cg_AdminEmail cfg) w = (Inl e, w1)" "same_auth w w1"
    "names_unique w1 = names_unique w" using GetByEmail_unknown [OF fresh] by blast
  with seed run obtain w2 where 2: "RoleService_SyncPermissions w1 = (Inr (), w2)"
    and 3: "UserService_Create bc (admin_request (cg_AdminEmail cfg) (cg_AdminPass cfg)) w2 = (Inr x, w')"
    by (auto simp: auto_seed_def bindE_Inr_iff wrapE_Inr split: if_splits)
  have "w_users w2 = w_users w"
    using guaranteesD [OF ac_SyncPermissions 2] 1(2) by (simp add: same_accounts_def same_auth_def)
  with UserService_Create_Inr [OF 3] 1 2 show ?thesis
    by (auto simp: admin_request_def)
qed

lemma Login_first_admin:
  assumes "no_faults w" and "w_users w = us @ [u]" and "live_user u" and "u_Email u = e" and "e \<notin> u_Email ` set us"
    and "role_by_id w (u_RoleID u) = Some r" and "CompareHashAndPassword (as_bcrypt s) (u_Password u) pw"
    and "\<forall>c. SignedString (as_jwt s) (as_jwtSecret s) c \<noteq> None" and "0 < as_jwtExpiry s"
  shows "\<exists>resp w'. AuthService_Login s ip agent \<lparr>lr_Email = e, lr_Password = pw\<rparr> w = (Inr resp, w') \<and>
    u_Role (ar_User resp) = Some r"
proof -
  have f: "find (\<lambda>u. u_Email u = e \<and> live_user u) (us @ [u]) = Some u"
  proof -
    have "find (\<lambda>u. u_Email u = e \<and> live_user u) us = None" using assms(5) by (auto simp: find_None_set)
    with assms(3,4) show ?thesis by (simp add: find_append)
  qed
  have r: "role_by_id (w\<lparr>w_calls := n\<rparr>) (u_RoleID u) = Some r" for n
    using assms(6) by (simp add: role_by_id_def)
  have s: "\<exists>tok. SignedString (as_jwt s) (as_jwtSecret s) c = Some tok" for c
    using assms(8) by blast
  have get: "UserRepo_GetByEmail e w = (Inr ((User.truncate u)\<lparr>u_Role := Some r,
      u_Permissions := role_permissions (w\<lparr>w_calls := Suc (Suc (w_calls w))\<rparr>) (ro_ID r)\<rparr>),
      w\<lparr>w_calls := Suc (Suc (w_calls w))\<rparr>)"
    using assms(1)
    by (simp add: UserRepo_GetByEmail_def user_joined_def db_exec_def no_faults_def bindE_def catchE_def assms(2) f r)
  have "no_faults (w\<lparr>w_calls := Suc (Suc (w_calls w)), w_uuids := n\<rparr>)" for n using assms(1) by (simp add: no_faults_def)
  then show ?thesis
    using assms(7,9) s
    by (auto simp: AuthService_Login_def bindE_def catchE_def get User.defs uuid_NewString_def uuid_New_def time_Now_def
        SessionStore_Create_def redis_update_def redis_exec_ok Let_def split: option.split)
qed

lemma role_by_id_unique:
  "names_unique w \<Longrightarrow> \<lparr>ro_ID = i, ro_Name = n\<rparr> \<in> set (w_roles w) \<Longrightarrow> role_by_id w i = Some \<lparr>ro_ID = i, ro_Name = n\<rparr>"
  unfolding role_by_id_def names_unique_def
  by (metis Role.select_convs(1) find_distinct_key)

section \<open>Properties\<close>

text \<open>
  C38. What a start of the control plane does to the rows of the tables, apart from the migrations, which
  are a parameter and work on the schema: whatever the configuration and whatever fails, the users are
  those from before, or those and one administrator with an address that no account has had, deleted
  ones included; sessions, jobs, deployments, applications, servers, logs and settings are as they
  were.
\<close>

theorem start_keeps_accounts:
  "account_added (cg_AdminEmail (fst (Load (bl_sys L) (pn_Env p)))) (pn_World p) (pn_World (snd (RunServer_start L p)))"
  by (rule start_added)

definition accepts :: "struct_validator \<Rightarrow> string \<Rightarrow> string \<Rightarrow> bool" where
  "accepts v tags s \<longleftrightarrow> (\<forall>fs f. vf_Tags f = tags \<longrightarrow> vf_Value f = VStr s \<longrightarrow> v fs f = None)"

lemma login_accepted:
  assumes "accepts v ''required,email'' e" and "accepts v ''required,min=8'' pw"
  shows "Validate v (login_fields \<lparr>lr_Email = e, lr_Password = pw\<rparr>) = []"
  using assms by (simp add: Validate_def login_fields_def accepts_def)

definition login_body :: "string \<Rightarrow> string \<Rightarrow> json" where
  "login_body e pw = JObj [(''email'', JStr e), (''password'', JStr pw)]"

lemma login_decoded: "rq_Body r = Some (login_body e pw) \<Longrightarrow>
    Decode dec_LoginRequest r = Inr \<lparr>lr_Email = e, lr_Password = pw\<rparr>"
  by (simp add: Decode_def login_body_def dec_LoginRequest_def dec_struct_def object_members_def resolve_field_def
      str_member_def andThen_def json_get_def)

text \<open>
  C39. The first start makes the instance usable: when it succeeds with seeding switched on, no account
  has the administrator's address and the first role is the administrators', a login with the address
  and the password of the environment is answered 200 with an administrator and the token in the
  cookie, under a secret that is not empty. The login's validation must accept the address (as an
  address) and the password (of at least eight characters), which the start does not check; the
  database must work after the start; and \<open>bcrypt\<close> must recognise its own hashes and the token be signed.
\<close>

theorem start_seeds_admin:
  assumes start: "RunServer_start L p = (Inr cfg, p')" and seed: "cg_AutoSeed cfg"
    and fresh: "cg_AdminEmail cfg \<notin> u_Email ` set (w_users (pn_World p))"
    and roles: "names_unique (pn_World p)" "\<lparr>ro_ID = 1, ro_Name = RoleAdmin\<rparr> \<in> set (w_roles (pn_World p))"
    and bcrypt: "\<forall>salt h. GenerateFromPassword (bl_bcrypt L) salt (cg_AdminPass cfg) = Some h \<longrightarrow>
      CompareHashAndPassword (bl_bcrypt L) h (cg_AdminPass cfg)"
    and jwt: "\<forall>c. SignedString (rd_jwt d) (cf_JWTSecret cfg) c \<noteq> None" and up: "no_faults (pn_World p')"
    and deps: "rd_bcrypt d = bl_bcrypt L" "rd_cfg d = Http.Config.truncate cfg"
    and valid: "accepts (rd_validate d) ''required,email'' (cg_AdminEmail cfg)"
      "accepts (rd_validate d) ''required,min=8'' (cg_AdminPass cfg)"
    and body: "rq_Body r = Some (login_body (cg_AdminEmail cfg) (cg_AdminPass cfg))"
  shows "\<exists>u tok exp w. AuthHandler_Login d r (pn_World p') =
      ((give 200 [] (DUser u))\<lparr>re_Cookies := [\<lparr>ck_Name = ''horizonx_access_token'', ck_Value = tok, ck_Expires = exp,
        ck_HttpOnly = True\<rparr>]\<rparr>, w) \<and>
    map_option ro_Name (u_Role u) = Some RoleAdmin \<and> cf_JWTSecret cfg \<noteq> []"
proof (cases rule: start_world [OF refl, of L p])
  case (1 e)
  with start show ?thesis by simp
next
  case (2 res w)
  then have cfg: "cfg = fst (Load (bl_sys L) (pn_Env p))" and w: "pn_World p' = w"
    using start by (auto split: sum.splits)
  with 2 start obtain x where run: "auto_seed (bl_bcrypt L) cfg (pn_World p) = (Inr x, w)"
    by (auto split: sum.splits)
  obtain u salt w1 w2 where s: "same_auth (pn_World p) w1" "names_unique w1 = names_unique (pn_World p)"
    "RoleService_SyncPermissions w1 = (Inr (), w2)" "w_roles w = w_roles w2"
    "w_users w = w_users (pn_World p) @ [u]" "live_user u" "u_Email u = cg_AdminEmail cfg" "u_RoleID u = 1"
    "GenerateFromPassword (bl_bcrypt L) salt (cg_AdminPass cfg) = Some (u_Password u)"
    using seed_fresh [OF seed run] fresh by (metis image_eqI)
  have "names_unique w2"
    using SyncPermissions_pivot [OF _ s(3) [unfolded RoleService_SyncPermissions_def]] s(2) roles(1) by simp
  moreover have "\<lparr>ro_ID = 1, ro_Name = RoleAdmin\<rparr> \<in> set (w_roles w2)"
    using guaranteesD [OF rg_SyncPermissions s(3)] roles(2) s(1) by (auto simp: roles_grow_def same_auth_def)
  ultimately have "role_by_id w2 1 = Some \<lparr>ro_ID = 1, ro_Name = RoleAdmin\<rparr>"
    by (rule role_by_id_unique)
  then have "role_by_id w (u_RoleID u) = Some \<lparr>ro_ID = 1, ro_Name = RoleAdmin\<rparr>"
    by (simp add: role_by_id_def s(4,8))
  moreover have "0 < cf_JWTExpiry cfg" "cf_JWTSecret cfg \<noteq> []"
    using 2(2) by (auto simp: cfg Load_def Let_def jwt_expiry_positive weak_secret_def)
  moreover have "as_bcrypt (auth_service d) = bl_bcrypt L" "as_jwt (auth_service d) = rd_jwt d"
    "as_jwtSecret (auth_service d) = cf_JWTSecret cfg" "as_jwtExpiry (auth_service d) = cf_JWTExpiry cfg"
    by (simp_all add: auth_service_def deps Http.Config.defs)
  ultimately obtain resp w' where "AuthService_Login (auth_service d) (RealClientIP r (cf_TrustProxy (rd_cfg d)))
      (rq_Header r ''User-Agent'') \<lparr>lr_Email = cg_AdminEmail cfg, lr_Password = cg_AdminPass cfg\<rparr> w = (Inr resp, w')"
    "u_Role (ar_User resp) = Some \<lparr>ro_ID = 1, ro_Name = RoleAdmin\<rparr>"
    using Login_first_admin [OF up [unfolded w] s(5,6,7) fresh, where s = "auth_service d" and pw = "cg_AdminPass cfg"]
      bcrypt jwt s(9) by metis
  then show ?thesis
    using \<open>cf_JWTSecret cfg \<noteq> []\<close>
    by (intro exI [of _ "ar_User resp"] exI [of _ "ar_AccessToken resp"] exI [of _ "w_now w' + cf_JWTExpiry (rd_cfg d)"]
        exI [of _ w'])
      (simp add: AuthHandler_Login_def decoded_def login_decoded [OF body] validated_def login_accepted [OF valid]
        after_def w)
qed

definition demo_boot :: "unit BootLib" where
  "demo_boot = \<lparr>bl_sys = \<lparr>sy_dotenv = (\<lambda>env. env), sy_dotenv_file = (\<lambda>_ env. Inr env), sy_location = (\<lambda>_. True),
       sy_uuid_Parse = (\<lambda>_. None)\<rparr>,
     bl_Open = (\<lambda>_. Inr \<lparr>md_Ping = (\<lambda>_. None), md_WithInstance = returnE (), md_Source = None, md_New = None,
       md_Version = (\<lambda>_. Inr (10, False)), md_Up = failE ErrNoChange, md_Down = returnE (),
       md_Steps = (\<lambda>_. returnE ()), md_Force = (\<lambda>_. returnE ())\<rparr>),
     bl_ParseConfig = (\<lambda>_. None), bl_NewPool = (\<lambda>_ _. None), bl_PoolPing = (\<lambda>_ _. None),
     bl_RedisPing = (\<lambda>_ _ _ _. None), bl_bcrypt = plain_bcrypt\<rparr>"

definition demo_env :: env where
  "demo_env = (\<lambda>k. if k = ''JWT_SECRET'' then ''k'' else if k = ''ADMIN_PASSWORD'' then ''long enough'' else [])"

definition demo_plane :: "world \<Rightarrow> unit Plane" where
  "demo_plane w = \<lparr>pn_Env = demo_env, pn_DB = (), pn_Out = [], pn_World = w\<rparr>"

definition demo_config :: AppConfig where
  "demo_config = fst (Load (bl_sys demo_boot) demo_env)"

theorem start_seeds_admin_witness:
  "\<exists>p'. RunServer_start demo_boot (demo_plane empty_world) = (Inr demo_config, p') \<and>
    (\<forall>d r. \<exists>u tok exp w. AuthHandler_Login
        (d\<lparr>rd_bcrypt := plain_bcrypt, rd_jwt := plain_jwt, rd_cfg := Http.Config.truncate demo_config, rd_validate := (\<lambda>_ _. None)\<rparr>)
        (r\<lparr>rq_Body := Some (login_body ''admin@horizonx.local'' ''long enough'')\<rparr>) (pn_World p') =
      ((give 200 [] (DUser u))\<lparr>re_Cookies := [\<lparr>ck_Name = ''horizonx_access_token'', ck_Value = tok, ck_Expires = exp,
        ck_HttpOnly = True\<rparr>]\<rparr>, w) \<and> map_option ro_Name (u_Role u) = Some RoleAdmin)"
proof -
  let ?p = "demo_plane empty_world" and ?q = "snd (RunServer_start demo_boot (demo_plane empty_world))"
  have "fst (RunServer_start demo_boot ?p) = Inr demo_config" by code_simp
  then have start: "RunServer_start demo_boot ?p = (Inr demo_config, ?q)" by (metis prod.collapse)
  have cfg: "cg_AutoSeed demo_config" "cg_AdminEmail demo_config = ''admin@horizonx.local''"
    "cg_AdminPass demo_config = ''long enough''" by code_simp+
  have w: "cg_AdminEmail demo_config \<notin> u_Email ` set (w_users (pn_World ?p))" "names_unique (pn_World ?p)"
    "\<lparr>ro_ID = 1, ro_Name = RoleAdmin\<rparr> \<in> set (w_roles (pn_World ?p))"
    by (simp_all add: demo_plane_def empty_world_def names_unique_def RoleAdmin_def)
  have "w_fault (pn_World ?q) = w_fault (pn_World ?p)"
    using start_added [of demo_boot ?p] by (auto simp: account_added_def same_accounts_def)
  then have up: "no_faults (pn_World ?q)" by (simp add: no_faults_def demo_plane_def empty_world_def)
  have "\<exists>u tok exp w. AuthHandler_Login
        (d\<lparr>rd_bcrypt := plain_bcrypt, rd_jwt := plain_jwt, rd_cfg := Http.Config.truncate demo_config, rd_validate := (\<lambda>_ _. None)\<rparr>)
        (r\<lparr>rq_Body := Some (login_body ''admin@horizonx.local'' ''long enough'')\<rparr>) (pn_World ?q) =
      ((give 200 [] (DUser u))\<lparr>re_Cookies := [\<lparr>ck_Name = ''horizonx_access_token'', ck_Value = tok, ck_Expires = exp,
        ck_HttpOnly = True\<rparr>]\<rparr>, w) \<and> map_option ro_Name (u_Role u) = Some RoleAdmin" for d r
  proof -
    let ?d = "d\<lparr>rd_bcrypt := plain_bcrypt, rd_jwt := plain_jwt, rd_cfg := Http.Config.truncate demo_config, rd_validate := (\<lambda>_ _. None)\<rparr>"
    have "\<forall>salt h. GenerateFromPassword (bl_bcrypt demo_boot) salt (cg_AdminPass demo_config) = Some h \<longrightarrow>
        CompareHashAndPassword (bl_bcrypt demo_boot) h (cg_AdminPass demo_config)"
      "\<forall>c. SignedString (rd_jwt ?d) (cf_JWTSecret demo_config) c \<noteq> None" "rd_bcrypt ?d = bl_bcrypt demo_boot"
      "rd_cfg ?d = Http.Config.truncate demo_config" "accepts (rd_validate ?d) ''required,email'' (cg_AdminEmail demo_config)"
      "accepts (rd_validate ?d) ''required,min=8'' (cg_AdminPass demo_config)"
      "rq_Body (r\<lparr>rq_Body := Some (login_body ''admin@horizonx.local'' ''long enough'')\<rparr>) =
        Some (login_body (cg_AdminEmail demo_config) (cg_AdminPass demo_config))"
      by (simp_all add: demo_boot_def plain_bcrypt_def plain_jwt_def accepts_def cfg)
    from start_seeds_admin [OF start cfg(1) w(1,2,3) this(1,2) up this(3-7)] show ?thesis by blast
  qed
  with start show ?thesis by blast
qed

text \<open>
  C40. Deleting the administrator of the environment file stops the control plane for good: with
  seeding switched on, no start succeeds any more while the only accounts with its address are
  deleted ones, because the address stays taken.
\<close>

theorem deleted_admin_blocks_start:
  assumes "cfg = fst (Load (bl_sys L) (pn_Env p))" and "cg_AutoSeed cfg"
    and "cg_AdminEmail cfg \<in> u_Email ` set (w_users (pn_World p))"
    and "\<forall>u\<in>set (w_users (pn_World p)). u_Email u = cg_AdminEmail cfg \<longrightarrow> \<not> live_user u"
  shows "\<exists>e. fst (RunServer_start L p) = Inl e"
proof (cases rule: start_world [OF assms(1)])
  case (1 e)
  then show ?thesis by blast
next
  case (2 r w)
  show ?thesis
  proof (cases r)
    case (Inl e)
    with 2 show ?thesis by simp
  next
    case (Inr x)
    with seed_fresh [OF assms(2)] 2(1) assms(3,4) show ?thesis by metis
  qed
qed

theorem deleted_admin_blocks_start_witness:
  "\<exists>e. fst (RunServer_start demo_boot (demo_plane (empty_world\<lparr>w_users :=
     [User.extend (User0\<lparr>u_ID := 1, u_Email := ''admin@horizonx.local'', u_RoleID := 1\<rparr>) \<lparr>u_DeletedAt = Some 5\<rparr>]\<rparr>))) = Inl e"
  by (rule deleted_admin_blocks_start [OF refl]; code_simp)

end
