(* ===== verification/Readers.thy ===== *)
theory Readers
  imports Box
begin

text \<open>
  The readers of the machine (\<open>internal/system\<close>): processors, disks, graphics cards, memory, network
  and names, from the files under \<open>/proc\<close> and \<open>/sys\<close> as they are at one time, the \<open>Snapshot\<close>.
  Go's \<open>float64\<close> is a type variable with the operations of the record \<open>Float\<close>; debug messages are
  left out.
\<close>

section \<open>Numbers\<close>

record 'f Float =
  fl_OfInt :: "int \<Rightarrow> 'f"
  fl_Add :: "'f \<Rightarrow> 'f \<Rightarrow> 'f"
  fl_Sub :: "'f \<Rightarrow> 'f \<Rightarrow> 'f"
  fl_Mul :: "'f \<Rightarrow> 'f \<Rightarrow> 'f"
  fl_Div :: "'f \<Rightarrow> 'f \<Rightarrow> 'f"
  fl_Exp :: "'f \<Rightarrow> 'f"
  fl_Le :: "'f \<Rightarrow> 'f \<Rightarrow> bool"
  fl_Less :: "'f \<Rightarrow> 'f \<Rightarrow> bool"
  fl_Parse :: "string \<Rightarrow> 'f \<times> bool"

text \<open>
  \<open>strconv.ParseUint(s, 10, 64)\<close> and \<open>strconv.Atoi\<close> with the value they return beside an error: zero
  for what is no number, the bound for what is out of range.
\<close>

definition ParseUint :: "string \<Rightarrow> 64 word \<times> bool" where
  "ParseUint s = (let ds = takeWhile is_digit s; n = read_nat ds in
     if n \<ge> 2 ^ 64 then (- 1, False)
     else if ds = [] \<or> ds \<noteq> s then (0, False)
     else (word_of_nat n, True))"

definition Atoi :: "string \<Rightarrow> int \<times> bool" where
  "Atoi s =
    (let (neg, ds) = (case s of c # cs \<Rightarrow> if c = CHR ''-'' then (True, cs)
           else if c = CHR ''+'' then (False, cs) else (False, s) | [] \<Rightarrow> (False, []));
         (u, ok) = ParseUint ds; n = uint u
     in if \<not> ok \<and> n = 0 then (0, False)
        else if \<not> neg \<and> n \<ge> 2 ^ 63 then (2 ^ 63 - 1, False)
        else if neg \<and> n > 2 ^ 63 then (- (2 ^ 63), False)
        else (if neg then - n else n, ok))"

definition uint_field :: "string \<Rightarrow> 64 word" where
  "uint_field s = fst (ParseUint s)"

definition int_field :: "string \<Rightarrow> int" where
  "int_field s = fst (Atoi (trim_space s))"

section \<open>The machine\<close>

text \<open>
  Files and directories; an entry of a directory is a name and whether it is a directory, in the
  order of the names. \<open>sn_Statfs\<close> gives blocks, block size and available blocks of a file system,
  \<open>sn_Nvidia\<close> the output of \<open>nvidia-smi\<close> when it succeeds, \<open>sn_order\<close> the order of the loop over
  the map of disks, \<open>sn_Now\<close> the time.
\<close>

record 'f DiskInfo =
  di_Name :: string
  di_RawBytes :: "64 word"
  di_Temperature :: 'f
  di_Filesystems :: "(string \<times> string \<times> 64 word \<times> 64 word \<times> 64 word) list"

record 'f Snapshot =
  sn_ReadFile :: "string \<Rightarrow> string option"
  sn_ReadDir :: "string \<Rightarrow> (string \<times> bool) list option"
  sn_Statfs :: "string \<Rightarrow> (64 word \<times> 64 word \<times> 64 word) option"
  sn_Nvidia :: "string option"
  sn_order :: "'f DiskInfo list \<Rightarrow> 'f DiskInfo list"
  sn_Hostname :: "string option"
  sn_GOOS :: string
  sn_GOARCH :: string
  sn_Now :: gotime

fun first_some :: "('a \<Rightarrow> 'b option) \<Rightarrow> 'a list \<Rightarrow> 'b option" where
  "first_some f [] = None"
| "first_some f (x # xs) = (case f x of None \<Rightarrow> first_some f xs | Some y \<Rightarrow> Some y)"

definition names :: "(string \<times> bool) list option \<Rightarrow> string list" where
  "names d = (case d of None \<Rightarrow> [] | Some es \<Rightarrow> map fst es)"

definition path :: "string list \<Rightarrow> string" where
  "path ps = concat (map (\<lambda>p. slash # p) ps)"

section \<open>Processors\<close>

record CPUStat =
  cp_User :: "64 word"
  cp_Nice :: "64 word"
  cp_System :: "64 word"
  cp_Idle :: "64 word"
  cp_Iowait :: "64 word"
  cp_Irq :: "64 word"
  cp_Softirq :: "64 word"
  cp_Steal :: "64 word"

definition cpu_line :: "string \<Rightarrow> (string \<times> CPUStat) option" where
  "cpu_line raw = (let line = trim_space raw; fs = Fields line in
     if \<not> has_prefix line ''cpu'' \<or> length fs < 9 then None
     else Some (fs ! 0, \<lparr>cp_User = uint_field (fs ! 1), cp_Nice = uint_field (fs ! 2),
       cp_System = uint_field (fs ! 3), cp_Idle = uint_field (fs ! 4), cp_Iowait = uint_field (fs ! 5),
       cp_Irq = uint_field (fs ! 6), cp_Softirq = uint_field (fs ! 7), cp_Steal = uint_field (fs ! 8)\<rparr>))"

text \<open>A map from names; without the file it is nil, which is empty here as well.\<close>

definition CPUCoreStats :: "'f Snapshot \<Rightarrow> (string \<times> CPUStat) list" where
  "CPUCoreStats m = (case sn_ReadFile m ''/proc/stat'' of None \<Rightarrow> []
   | Some data \<Rightarrow> foldl (\<lambda>r (c, st). AList.update c st r) [] (List.map_filter cpu_line (split_on LF data)))"

text \<open>A temperature in thousandths of a degree, when \<open>usable\<close> holds of the number.\<close>

definition milli_temp :: "'f Float \<Rightarrow> ('f \<Rightarrow> bool) \<Rightarrow> string \<Rightarrow> 'f option" where
  "milli_temp F usable data = (let (v, ok) = fl_Parse F (trim_space data) in
     if ok \<and> usable v then Some (fl_Div F v (fl_OfInt F 1000)) else None)"

definition thermal_temp :: "'f Float \<Rightarrow> 'f Snapshot \<Rightarrow> string \<Rightarrow> 'f option" where
  "thermal_temp F m zone =
    (if \<not> has_prefix zone ''thermal_zone'' then None
     else case sn_ReadFile m (path [''sys'', ''class'', ''thermal'', zone, ''type'']) of None \<Rightarrow> None
     | Some t \<Rightarrow> let typ = to_lower (trim_space t) in
        if \<not> contains typ ''cpu'' \<and> \<not> contains typ ''x86'' \<and> \<not> contains typ ''package'' then None
        else case sn_ReadFile m (path [''sys'', ''class'', ''thermal'', zone, ''temp'']) of None \<Rightarrow> None
          | Some data \<Rightarrow> milli_temp F (fl_Less F (fl_OfInt F 0)) data)"

definition cpu_sensors :: "string list" where
  "cpu_sensors = [''coretemp'', ''k10temp'', ''zenpower'', ''zenpower3'', ''amd_smu'', ''ryzen_smu'']"

text \<open>A reading of a sensor's file that fails is skipped, one that is not positive too.\<close>

definition hwmon_temp :: "'f Float \<Rightarrow> 'f Snapshot \<Rightarrow> string \<Rightarrow> 'f option" where
  "hwmon_temp F m mon = (let base = path [''sys'', ''class'', ''hwmon'', mon] in
     case sn_ReadFile m (base @ ''/name'') of None \<Rightarrow> None
     | Some n \<Rightarrow> if \<not> ContainsAny (to_lower (trim_space n)) cpu_sensors then None
         else first_some (\<lambda>e. if \<not> has_prefix e ''temp'' \<or> \<not> has_suffix e ''_input'' then None
           else case sn_ReadFile m (base @ path [e]) of None \<Rightarrow> None
             | Some data \<Rightarrow> milli_temp F (\<lambda>v. \<not> fl_Le F v (fl_OfInt F 0)) data) (names (sn_ReadDir m base)))"

definition CPUTempC :: "'f Float \<Rightarrow> 'f Snapshot \<Rightarrow> 'f" where
  "CPUTempC F m =
    (case first_some (thermal_temp F m) (names (sn_ReadDir m ''/sys/class/thermal'')) of
       Some t \<Rightarrow> t
     | None \<Rightarrow> (case first_some (hwmon_temp F m) (names (sn_ReadDir m ''/sys/class/hwmon'')) of
         Some t \<Rightarrow> t | None \<Rightarrow> fl_OfInt F 0))"

definition CPUFreqMhz :: "'f Snapshot \<Rightarrow> int \<Rightarrow> int" where
  "CPUFreqMhz m core =
    (case sn_ReadFile m (''/sys/devices/system/cpu/cpu'' @ show_int core @ ''/cpufreq/scaling_cur_freq'') of
       None \<Rightarrow> 0 | Some data \<Rightarrow> go_div (int_field data) 1000)"

definition cpu_freqs :: "'f Snapshot \<Rightarrow> int list" where
  "cpu_freqs m = filter (\<lambda>f. f > 0) (List.map_filter (\<lambda>c.
     if \<not> has_prefix c ''cpu'' then None
     else case Atoi (trim_prefix c ''cpu'') of (i, ok) \<Rightarrow> if ok then Some (CPUFreqMhz m i) else None)
     (names (sn_ReadDir m ''/sys/devices/system/cpu/'')))"

definition CPUFreqAvgMhz :: "'f Float \<Rightarrow> 'f Snapshot \<Rightarrow> 'f" where
  "CPUFreqAvgMhz F m = (let fs = cpu_freqs m in
     if fs = [] then fl_OfInt F 0
     else fl_Div F (fl_OfInt F (wrap64 (sum_list fs))) (fl_OfInt F (int (length fs))))"

definition CPUEnergyUJ :: "'f Snapshot \<Rightarrow> 64 word" where
  "CPUEnergyUJ m = (case sn_ReadFile m ''/sys/class/powercap/intel-rapl:0/energy_uj'' of
     None \<Rightarrow> 0 | Some data \<Rightarrow> uint_field (trim_space data))"

section \<open>Disks\<close>

record DiskUsageStat =
  du_TotalBytes :: "64 word"
  du_UsedBytes :: "64 word"
  du_AvailableBytes :: "64 word"

record DiskIOStats =
  io_ReadIOs :: "64 word"
  io_ReadBytes :: "64 word"
  io_WriteIOs :: "64 word"
  io_WriteBytes :: "64 word"
  io_IOTimeMillis :: "64 word"

definition no_io :: DiskIOStats where
  "no_io = \<lparr>io_ReadIOs = 0, io_ReadBytes = 0, io_WriteIOs = 0, io_WriteBytes = 0, io_IOTimeMillis = 0\<rparr>"

definition DiskUsage :: "'f Snapshot \<Rightarrow> string \<Rightarrow> DiskUsageStat" where
  "DiskUsage m p = (case sn_Statfs m p of
     None \<Rightarrow> \<lparr>du_TotalBytes = 0, du_UsedBytes = 0, du_AvailableBytes = 0\<rparr>
   | Some (blocks, bsize, bavail) \<Rightarrow>
       \<lparr>du_TotalBytes = blocks * bsize, du_UsedBytes = blocks * bsize - bavail * bsize,
        du_AvailableBytes = bavail * bsize\<rparr>)"

definition DiskIO :: "'f Snapshot \<Rightarrow> string \<Rightarrow> DiskIOStats" where
  "DiskIO m device = (case sn_ReadFile m ''/proc/diskstats'' of None \<Rightarrow> no_io
   | Some data \<Rightarrow> (case first_some (\<lambda>line. let fs = Fields line in
         if length fs < 14 \<or> fs ! 2 \<noteq> device then None
         else Some \<lparr>io_ReadIOs = uint_field (fs ! 3), io_ReadBytes = uint_field (fs ! 5) * 512,
           io_WriteIOs = uint_field (fs ! 7), io_WriteBytes = uint_field (fs ! 9) * 512,
           io_IOTimeMillis = uint_field (fs ! 12)\<rparr>) (split_on LF data) of
       None \<Rightarrow> no_io | Some s \<Rightarrow> s))"

definition DiskTempC :: "'f Float \<Rightarrow> 'f Snapshot \<Rightarrow> string \<Rightarrow> 'f" where
  "DiskTempC F m device =
    (let base = ''/sys/class/block/'' @ device @ ''/device'';
         temp = (\<lambda>dir. map_option (\<lambda>data. fl_Div F (fst (fl_Parse F (trim_space data))) (fl_OfInt F 1000))
           (sn_ReadFile m (dir @ ''/temp1_input'')))
     in case first_some (\<lambda>e. if \<not> has_prefix e ''hwmon'' then None
          else case temp (base @ path [e]) of Some t \<Rightarrow> Some t
            | None \<Rightarrow> first_some (\<lambda>s. if \<not> has_prefix s ''hwmon'' then None else temp (base @ path [e, s]))
                (names (sn_ReadDir m (base @ path [e])))) (names (sn_ReadDir m base)) of
        Some t \<Rightarrow> t | None \<Rightarrow> fl_OfInt F 0)"

text \<open>The part of a name before its last \<open>p\<close>; the whole name without one.\<close>

definition cut_last_p :: "string \<Rightarrow> string" where
  "cut_last_p s = (if CHR ''p'' \<in> set s then rev (tl (dropWhile (\<lambda>c. c \<noteq> CHR ''p'') (rev s))) else s)"

definition disk_of :: "string \<Rightarrow> string" where
  "disk_of dev = (if has_prefix dev ''nvme'' then cut_last_p dev else rev (dropWhile is_digit (rev dev)))"

definition new_disk :: "'f Float \<Rightarrow> 'f Snapshot \<Rightarrow> string \<Rightarrow> 'f DiskInfo" where
  "new_disk F m disk = \<lparr>di_Name = disk,
     di_RawBytes = (case sn_ReadFile m (''/sys/class/block/'' @ disk @ ''/size'') of
        None \<Rightarrow> 0 | Some data \<Rightarrow> uint_field (trim_space data) * 512),
     di_Temperature = DiskTempC F m disk, di_Filesystems = []\<rparr>"

definition add_mount :: "'f Float \<Rightarrow> 'f Snapshot \<Rightarrow> (string \<times> 'f DiskInfo) list \<Rightarrow> string \<Rightarrow> (string \<times> 'f DiskInfo) list" where
  "add_mount F m disks line =
    (let fs = Fields line in
     if length fs < 2 \<or> \<not> has_prefix (fs ! 0) ''/dev/'' then disks
     else let disk = disk_of (trim_prefix (fs ! 0) ''/dev/''); u = DiskUsage m (fs ! 1) in
       if du_TotalBytes u = 0 then disks
       else let d = (case map_of disks disk of Some d \<Rightarrow> d | None \<Rightarrow> new_disk F m disk) in
         AList.update disk (d\<lparr>di_Filesystems := di_Filesystems d @
           [(fs ! 0, fs ! 1, du_TotalBytes u, du_UsedBytes u, du_AvailableBytes u)]\<rparr>) disks)"

definition Disks :: "'f Float \<Rightarrow> 'f Snapshot \<Rightarrow> 'f DiskInfo list" where
  "Disks F m = (case sn_ReadFile m ''/proc/self/mounts'' of None \<Rightarrow> []
   | Some mounts \<Rightarrow> sn_order m (map snd (foldl (add_mount F m) [] (split_on LF mounts))))"

section \<open>Graphics cards\<close>

record 'f GPUMetrics =
  gp_UtilizationGPU :: int
  gp_MemTotalMB :: int
  gp_MemUsedMB :: int
  gp_MemFreeMB :: int
  gp_TemperatureC :: int
  gp_PowerDrawW :: 'f
  gp_PowerLimitW :: 'f
  gp_ClockMHz :: int

definition ListDRMCards :: "'f Snapshot \<Rightarrow> string list" where
  "ListDRMCards m = filter (\<lambda>n. has_prefix n ''card'' \<and> \<not> contains n ''-'') (names (sn_ReadDir m ''/sys/class/drm''))"

definition NvidiaGPU :: "'f Float \<Rightarrow> 'f Snapshot \<Rightarrow> 'f GPUMetrics option" where
  "NvidiaGPU F m = (case sn_Nvidia m of None \<Rightarrow> None
   | Some out \<Rightarrow> (let fs = split_on CHR '','' (trim_space out) in
       if length fs < 8 then None
       else Some \<lparr>gp_UtilizationGPU = int_field (fs ! 0), gp_MemTotalMB = int_field (fs ! 1),
         gp_MemUsedMB = int_field (fs ! 2), gp_MemFreeMB = int_field (fs ! 3), gp_TemperatureC = int_field (fs ! 4),
         gp_PowerDrawW = fst (fl_Parse F (trim_space (fs ! 5))), gp_PowerLimitW = fst (fl_Parse F (trim_space (fs ! 6))),
         gp_ClockMHz = int_field (fs ! 7)\<rparr>))"

definition ReadHwmonTempC :: "'f Snapshot \<Rightarrow> string \<Rightarrow> int" where
  "ReadHwmonTempC m base =
    (case first_some (\<lambda>e. map_option (\<lambda>data. go_div (int_field data) 1000)
        (sn_ReadFile m (base @ ''/hwmon'' @ path [e, ''temp1_input'']))) (names (sn_ReadDir m (base @ ''/hwmon''))) of
       Some t \<Rightarrow> t | None \<Rightarrow> 0)"

definition file_int :: "'f Snapshot \<Rightarrow> string \<Rightarrow> int" where
  "file_int m p = (case sn_ReadFile m p of None \<Rightarrow> 0 | Some data \<Rightarrow> int_field data)"

definition file_MB :: "'f Snapshot \<Rightarrow> string \<Rightarrow> int" where
  "file_MB m p = (case sn_ReadFile m p of None \<Rightarrow> 0
   | Some data \<Rightarrow> uint (uint_field (trim_space data) div 1024 div 1024))"

definition amd_power :: "'f Float \<Rightarrow> 'f Snapshot \<Rightarrow> string \<Rightarrow> 'f" where
  "amd_power F m base =
    (case first_some (\<lambda>(n, dir). if \<not> dir \<or> \<not> has_prefix n ''hwmon'' then None
        else case sn_ReadFile m (base @ ''/hwmon'' @ path [n, ''power1_average'']) of None \<Rightarrow> None
          | Some data \<Rightarrow> (case fl_Parse F (trim_space data) of (v, ok) \<Rightarrow>
              if ok then Some (fl_Div F v (fl_OfInt F 1000000)) else None))
        (case sn_ReadDir m (base @ ''/hwmon'') of None \<Rightarrow> [] | Some es \<Rightarrow> es) of
       Some w \<Rightarrow> w | None \<Rightarrow> fl_OfInt F 0)"

text \<open>The last line with a star says the current clock.\<close>

definition amd_clock :: "'f Snapshot \<Rightarrow> string \<Rightarrow> int" where
  "amd_clock m base = (case sn_ReadFile m (base @ ''/pp_dpm_sclk'') of None \<Rightarrow> 0
   | Some clock \<Rightarrow> foldl (\<lambda>mhz l. let fs = Fields l in
       if contains l ''*'' \<and> length fs \<ge> 2
       then (case Atoi (trim_suffix (fs ! 1) ''Mhz'') of (v, ok) \<Rightarrow> if ok then v else mhz) else mhz) 0 (split_on LF clock))"

definition AMDGPU :: "'f Float \<Rightarrow> 'f Snapshot \<Rightarrow> string \<Rightarrow> 'f GPUMetrics option" where
  "AMDGPU F m drm =
    (let base = ''/sys/class/drm/'' @ drm @ ''/device'';
         util = file_int m (base @ ''/gpu_busy_percent'');
         total = file_MB m (base @ ''/mem_info_vram_total'');
         used = file_MB m (base @ ''/mem_info_vram_used'')
     in if util = 0 \<and> total = 0 then None
        else Some \<lparr>gp_UtilizationGPU = util, gp_MemTotalMB = total, gp_MemUsedMB = used, gp_MemFreeMB = total - used,
          gp_TemperatureC = ReadHwmonTempC m base, gp_PowerDrawW = amd_power F m base, gp_PowerLimitW = fl_OfInt F 0,
          gp_ClockMHz = amd_clock m base\<rparr>)"

definition IntelGPU :: "'f Float \<Rightarrow> 'f Snapshot \<Rightarrow> string \<Rightarrow> 'f GPUMetrics option" where
  "IntelGPU F m drm =
    (let base = ''/sys/class/drm/'' @ drm @ ''/device'';
         util = file_int m (base @ ''/gt_busy_percent'');
         clock = file_int m (base @ ''/gt_cur_freq_mhz'')
     in if util = 0 \<and> clock = 0 then None
        else Some \<lparr>gp_UtilizationGPU = util, gp_MemTotalMB = 0, gp_MemUsedMB = 0, gp_MemFreeMB = 0,
          gp_TemperatureC = ReadHwmonTempC m base, gp_PowerDrawW = fl_OfInt F 0, gp_PowerLimitW = fl_OfInt F 0,
          gp_ClockMHz = clock\<rparr>)"

section \<open>Memory\<close>

record MemoryStats =
  ms_MemTotalKB :: "64 word"
  ms_MemAvailableKB :: "64 word"
  ms_MemUsedKB :: "64 word"
  ms_SwapTotalKB :: "64 word"
  ms_SwapFreeKB :: "64 word"
  ms_SwapUsedKB :: "64 word"

definition meminfo_line :: "string \<Rightarrow> (string \<times> 64 word) option" where
  "meminfo_line line = (let fs = Fields line in
     if length fs < 2 then None
     else case ParseUint (fs ! 1) of (v, ok) \<Rightarrow> if ok then Some (trim_suffix (fs ! 0) '':'', v) else None)"

text \<open>A later line of a key replaces an earlier one; a missing key is zero.\<close>

definition Memory :: "'f Snapshot \<Rightarrow> MemoryStats" where
  "Memory m =
    (let stats = (case sn_ReadFile m ''/proc/meminfo'' of None \<Rightarrow> []
           | Some data \<Rightarrow> rev (List.map_filter meminfo_line (split_on LF data)));
         val = (\<lambda>k. case map_of stats k of None \<Rightarrow> 0 | Some v \<Rightarrow> v)
     in \<lparr>ms_MemTotalKB = val ''MemTotal'', ms_MemAvailableKB = val ''MemAvailable'',
         ms_MemUsedKB = val ''MemTotal'' - val ''MemAvailable'', ms_SwapTotalKB = val ''SwapTotal'',
         ms_SwapFreeKB = val ''SwapFree'', ms_SwapUsedKB = val ''SwapTotal'' - val ''SwapFree''\<rparr>)"

section \<open>Network\<close>

record NetStats =
  nt_RxBytes :: "64 word"
  nt_TxBytes :: "64 word"

definition DefaultInterface :: "'f Snapshot \<Rightarrow> string" where
  "DefaultInterface m = (case sn_ReadFile m ''/proc/net/route'' of None \<Rightarrow> []
   | Some data \<Rightarrow> (case first_some (\<lambda>line. let fs = Fields line in
         if length fs < 2 \<or> fs ! 1 \<noteq> ''00000000'' then None else Some (fs ! 0)) (tl (split_on LF data)) of
       Some i \<Rightarrow> i | None \<Rightarrow> []))"

definition NetBytes :: "'f Snapshot \<Rightarrow> string \<Rightarrow> NetStats" where
  "NetBytes m iface = (case sn_ReadFile m ''/proc/net/dev'' of None \<Rightarrow> \<lparr>nt_RxBytes = 0, nt_TxBytes = 0\<rparr>
   | Some data \<Rightarrow> (case find (\<lambda>line. has_prefix line (iface @ '':'')) (map trim_space (split_on LF data)) of
       None \<Rightarrow> \<lparr>nt_RxBytes = 0, nt_TxBytes = 0\<rparr>
     | Some line \<Rightarrow> let fs = Fields line in
         if length fs < 10 then \<lparr>nt_RxBytes = 0, nt_TxBytes = 0\<rparr>
         else \<lparr>nt_RxBytes = uint_field (fs ! 1), nt_TxBytes = uint_field (fs ! 9)\<rparr>))"

section \<open>Names\<close>

definition SystemHostname :: "'f Snapshot \<Rightarrow> string" where
  "SystemHostname m = (case sn_Hostname m of None \<Rightarrow> [] | Some s \<Rightarrow> s)"

definition OsName :: "'f Snapshot \<Rightarrow> string" where "OsName m = sn_GOOS m"
definition Arch :: "'f Snapshot \<Rightarrow> string" where "Arch m = sn_GOARCH m"

definition KernelVersion :: "'f Snapshot \<Rightarrow> string" where
  "KernelVersion m = (if sn_GOOS m \<noteq> ''linux'' then []
     else case sn_ReadFile m ''/proc/sys/kernel/osrelease'' of None \<Rightarrow> [] | Some v \<Rightarrow> trim_space v)"

definition Uptime :: "'f Float \<Rightarrow> 'f Snapshot \<Rightarrow> 'f" where
  "Uptime F m = (case sn_ReadFile m ''/proc/uptime'' of None \<Rightarrow> fl_OfInt F 0
   | Some data \<Rightarrow> (case Fields data of [] \<Rightarrow> fl_OfInt F 0
       | p # _ \<Rightarrow> (case fl_Parse F p of (v, ok) \<Rightarrow> if ok then v else fl_OfInt F 0)))"

end
