(* ===== verification/Collector.thy ===== *)
theory Collector
  imports Readers Metrics
begin

text \<open>
  The agent's metrics (\<open>internal/metrics\<close>): usage, power and speeds from successive readings of the
  machine, their exponential averages, the buffer of the last samples and the stream in Redis.
  The readings of one collection are those of one snapshot, at one time. The Redis of the agent is
  that of theory \<open>Metrics\<close>, of which only the streams are used.
\<close>

section \<open>State\<close>

record 'f EMA =
  em_tau :: 'f
  em_value :: 'f
  em_last :: gotime
  em_init :: bool

record DiskIOState =
  ds_ReadBytes :: "64 word"
  ds_WriteBytes :: "64 word"
  ds_IOTimeMillis :: "64 word"
  ds_Time :: gotime

record NetState =
  ne_RxBytes :: "64 word"
  ne_TxBytes :: "64 word"
  ne_Time :: gotime

text \<open>A zero time and a nil map are \<open>None\<close>.\<close>

record 'f Collector =
  co_ServerID :: uuid
  co_buffer :: "'f Metrics list"
  co_power :: "(64 word \<times> gotime) option"
  co_usage :: "(string \<times> CPUStat) list option"
  co_lastDiskIO :: "string \<Rightarrow> DiskIOState option"
  co_lastNet :: "string \<Rightarrow> NetState option"
  co_cpuUsageEMA :: "'f EMA"
  co_cpuFreqEMA :: "'f EMA"
  co_cpuPowerEMA :: "'f EMA"
  co_cpuTempEMA :: "'f EMA"
  co_cpuPerCoreEMA :: "string \<Rightarrow> 'f EMA option"
  co_gpuUsageEMA :: "string \<Rightarrow> 'f EMA option"
  co_gpuClockEMA :: "string \<Rightarrow> 'f EMA option"
  co_gpuPowerEMA :: "string \<Rightarrow> 'f EMA option"
  co_gpuTempEMA :: "string \<Rightarrow> 'f EMA option"
  co_diskReadEMA :: "string \<Rightarrow> 'f EMA option"
  co_diskWriteEMA :: "string \<Rightarrow> 'f EMA option"
  co_diskUtilEMA :: "string \<Rightarrow> 'f EMA option"
  co_diskTempEMA :: "string \<Rightarrow> 'f EMA option"
  co_netRxEMA :: "string \<Rightarrow> 'f EMA option"
  co_netTxEMA :: "string \<Rightarrow> 'f EMA option"
  co_iface :: string

definition maxSamples :: nat where "maxSamples = 10"
definition registryMaxLen :: nat where "registryMaxLen = 5000"

section \<open>Averages\<close>

text \<open>\<open>time.Duration.Seconds\<close>: whole seconds and the rest, added as floating-point numbers.\<close>

definition Seconds :: "'f Float \<Rightarrow> int \<Rightarrow> 'f" where
  "Seconds F d = fl_Add F (fl_OfInt F (go_div d second)) (fl_Div F (fl_OfInt F (go_mod d second)) (fl_OfInt F second))"

definition NewEMA :: "'f Float \<Rightarrow> int \<Rightarrow> 'f EMA" where
  "NewEMA F tau = \<lparr>em_tau = Seconds F tau, em_value = fl_OfInt F 0, em_last = 0, em_init = False\<rparr>"

definition EMA_Update :: "'f Float \<Rightarrow> 'f \<Rightarrow> gotime \<Rightarrow> 'f EMA \<Rightarrow> 'f \<times> 'f EMA" where
  "EMA_Update F x now e =
    (if \<not> em_init e then (x, e\<lparr>em_value := x, em_last := now, em_init := True\<rparr>)
     else let dt = Seconds F (now - em_last e) in
       if fl_Le F dt (fl_OfInt F 0) then (em_value e, e)
       else let one = fl_OfInt F 1;
                alpha = fl_Sub F one (fl_Exp F (fl_Div F (fl_Sub F (fl_OfInt F 0) dt) (em_tau e)));
                v = fl_Add F (fl_Mul F alpha x) (fl_Mul F (fl_Sub F one alpha) (em_value e))
         in (v, e\<lparr>em_value := v, em_last := now\<rparr>))"

definition getOrInitEMA :: "'f Float \<Rightarrow> (string \<Rightarrow> 'f EMA option) \<Rightarrow> string \<Rightarrow> int \<Rightarrow> 'f EMA" where
  "getOrInitEMA F m key tau = (case m key of Some e \<Rightarrow> e | None \<Rightarrow> NewEMA F tau)"

text \<open>The average of a signal, kept under a key of a map.\<close>

definition smooth_key ::
    "'f Float \<Rightarrow> int \<Rightarrow> gotime \<Rightarrow> string \<Rightarrow> 'f Signal \<Rightarrow> (string \<Rightarrow> 'f EMA option) \<Rightarrow> 'f Signal \<times> (string \<Rightarrow> 'f EMA option)" where
  "smooth_key F tau now key s m = (case EMA_Update F (sg_Raw s) now (getOrInitEMA F m key tau) of
     (v, e) \<Rightarrow> (s\<lparr>sg_EMA := v\<rparr>, m(key \<mapsto> e)))"

definition smooth :: "'f Float \<Rightarrow> gotime \<Rightarrow> 'f Signal \<Rightarrow> 'f EMA \<Rightarrow> 'f Signal \<times> 'f EMA" where
  "smooth F now s e = (case EMA_Update F (sg_Raw s) now e of (v, e') \<Rightarrow> (s\<lparr>sg_EMA := v\<rparr>, e'))"

text \<open>A loop over a list whose body works on a state.\<close>

fun map_state :: "('a \<Rightarrow> 's \<Rightarrow> 'b \<times> 's) \<Rightarrow> 'a list \<Rightarrow> 's \<Rightarrow> 'b list \<times> 's" where
  "map_state f [] s = ([], s)"
| "map_state f (x # xs) s = (let (y, s1) = f x s; (ys, s2) = map_state f xs s1 in (y # ys, s2))"

definition smooth_core :: "'f Float \<Rightarrow> gotime \<Rightarrow> nat \<times> 'f Signal \<Rightarrow> (string \<Rightarrow> 'f EMA option) \<Rightarrow> 'f Signal \<times> (string \<Rightarrow> 'f EMA option)" where
  "smooth_core F now = (\<lambda>(i, s). smooth_key F (15 * second) now (''core-'' @ show_nat i) s)"

definition smooth_cpu :: "'f Float \<Rightarrow> gotime \<Rightarrow> 'f CPUMetric \<Rightarrow> 'f Collector \<Rightarrow> 'f CPUMetric \<times> 'f Collector" where
  "smooth_cpu F now m c =
    (let (u, e1) = smooth F now (cm_Usage m) (co_cpuUsageEMA c);
         (f, e2) = smooth F now (cm_Frequency m) (co_cpuFreqEMA c);
         (p, e3) = smooth F now (cm_PowerWatt m) (co_cpuPowerEMA c);
         (t, e4) = smooth F now (cm_Temperature m) (co_cpuTempEMA c);
         (cs, e5) = map_state (smooth_core F now) (enumerate 0 (cm_PerCore m)) (co_cpuPerCoreEMA c)
     in (m\<lparr>cm_Usage := u, cm_Frequency := f, cm_PowerWatt := p, cm_Temperature := t, cm_PerCore := cs\<rparr>,
         c\<lparr>co_cpuUsageEMA := e1, co_cpuFreqEMA := e2, co_cpuPowerEMA := e3, co_cpuTempEMA := e4,
           co_cpuPerCoreEMA := e5\<rparr>))"

definition smooth_gpu :: "'f Float \<Rightarrow> gotime \<Rightarrow> 'f GPUMetric \<Rightarrow> 'f Collector \<Rightarrow> 'f GPUMetric \<times> 'f Collector" where
  "smooth_gpu F now g c =
    (let key = gm_Card g;
         (u, e1) = smooth_key F (10 * second) now key (gm_CoreUsagePercent g) (co_gpuUsageEMA c);
         (f, e2) = smooth_key F (20 * second) now key (gm_FrequencyMhz g) (co_gpuClockEMA c);
         (p, e3) = smooth_key F (20 * second) now key (gm_PowerWatt g) (co_gpuPowerEMA c);
         (t, e4) = smooth_key F (30 * second) now key (gm_Temperature g) (co_gpuTempEMA c)
     in (g\<lparr>gm_CoreUsagePercent := u, gm_FrequencyMhz := f, gm_PowerWatt := p, gm_Temperature := t\<rparr>,
         c\<lparr>co_gpuUsageEMA := e1, co_gpuClockEMA := e2, co_gpuPowerEMA := e3, co_gpuTempEMA := e4\<rparr>))"

definition smooth_disk :: "'f Float \<Rightarrow> gotime \<Rightarrow> 'f DiskMetric \<Rightarrow> 'f Collector \<Rightarrow> 'f DiskMetric \<times> 'f Collector" where
  "smooth_disk F now d c =
    (let key = dm_Name d;
         (r, e1) = smooth_key F (15 * second) now key (dm_ReadMBps d) (co_diskReadEMA c);
         (w, e2) = smooth_key F (15 * second) now key (dm_WriteMBps d) (co_diskWriteEMA c);
         (u, e3) = smooth_key F (20 * second) now key (dm_UtilPct d) (co_diskUtilEMA c);
         (t, e4) = smooth_key F (30 * second) now key (dm_Temperature d) (co_diskTempEMA c)
     in (d\<lparr>dm_ReadMBps := r, dm_WriteMBps := w, dm_UtilPct := u, dm_Temperature := t\<rparr>,
         c\<lparr>co_diskReadEMA := e1, co_diskWriteEMA := e2, co_diskUtilEMA := e3, co_diskTempEMA := e4\<rparr>))"

definition smooth_net :: "'f Float \<Rightarrow> gotime \<Rightarrow> 'f NetworkMetric \<Rightarrow> 'f Collector \<Rightarrow> 'f NetworkMetric \<times> 'f Collector" where
  "smooth_net F now n c =
    (if co_iface c = [] then (n, c)
     else let (r, e1) = smooth_key F (10 * second) now (co_iface c) (nm_RXSpeedMBs n) (co_netRxEMA c);
              (t, e2) = smooth_key F (10 * second) now (co_iface c) (nm_TXSpeedMBs n) (co_netTxEMA c)
       in (n\<lparr>nm_RXSpeedMBs := r, nm_TXSpeedMBs := t\<rparr>, c\<lparr>co_netRxEMA := e1, co_netTxEMA := e2\<rparr>))"

definition ApplyEMA :: "'f Float \<Rightarrow> 'f Metrics \<Rightarrow> 'f Collector \<Rightarrow> 'f Metrics \<times> 'f Collector" where
  "ApplyEMA F m c =
    (let now = mt_RecordedAt m;
         (cpu, c1) = smooth_cpu F now (mt_CPU m) c;
         (gpus, c2) = map_state (smooth_gpu F now) (mt_GPU m) c1;
         (disks, c3) = map_state (smooth_disk F now) (mt_Disk m) c2;
         (net, c4) = smooth_net F now (mt_Network m) c3
     in (m\<lparr>mt_CPU := cpu, mt_GPU := gpus, mt_Disk := disks, mt_Network := net\<rparr>, c4))"

section \<open>Processors\<close>

definition sumCPU :: "CPUStat \<Rightarrow> 64 word" where
  "sumCPU s = cp_User s + cp_Nice s + cp_System s + cp_Idle s + cp_Iowait s + cp_Irq s + cp_Softirq s + cp_Steal s"

definition cpuCoreIndex :: "string \<Rightarrow> int option" where
  "cpuCoreIndex name = (if \<not> has_prefix name ''cpu'' \<or> name = ''cpu'' then None
     else case Atoi (trim_prefix name ''cpu'') of (i, ok) \<Rightarrow> if ok then Some i else None)"

text \<open>The busy share of the time between two readings, in percent, when time has passed.\<close>

definition busy :: "'f Float \<Rightarrow> CPUStat \<Rightarrow> CPUStat \<Rightarrow> 'f option" where
  "busy F prev cur =
    (let dt = fl_OfInt F (uint (sumCPU cur - sumCPU prev));
         di = fl_OfInt F (uint ((cp_Idle cur + cp_Iowait cur) - (cp_Idle prev + cp_Iowait prev)))
     in if fl_Le F dt (fl_OfInt F 0) then None
        else Some (fl_Mul F (fl_Div F (fl_Sub F dt di) dt) (fl_OfInt F 100)))"

text \<open>The kernel numbers its processors from 0; a name with a negative number is passed over.\<close>

definition core_usage :: "'f Float \<Rightarrow> (string \<times> CPUStat) list \<Rightarrow> 'f list \<Rightarrow> string \<times> CPUStat \<Rightarrow> 'f list" where
  "core_usage F prev acc = (\<lambda>(name, st). case cpuCoreIndex name of None \<Rightarrow> acc
     | Some i \<Rightarrow> if i < 0 then acc else (case map_of prev name of None \<Rightarrow> acc
         | Some p \<Rightarrow> (case busy F p st of None \<Rightarrow> acc | Some u \<Rightarrow> acc[nat i := u])))"

definition max_core :: "(string \<times> CPUStat) list \<Rightarrow> int" where
  "max_core cur = foldl max (- 1) (List.map_filter (\<lambda>(n, _). cpuCoreIndex n) cur)"

definition calculateCPUUsage ::
    "'f Float \<Rightarrow> (string \<times> CPUStat) list option \<Rightarrow> (string \<times> CPUStat) list \<Rightarrow> ('f \<times> 'f list) \<times> (string \<times> CPUStat) list option" where
  "calculateCPUUsage F state cur = (case state of
     None \<Rightarrow> ((fl_OfInt F 0, []), Some cur)
   | Some prev \<Rightarrow>
      if max_core cur < 0 then ((fl_OfInt F 0, []), state)
      else let perCore = foldl (core_usage F prev) (replicate (nat (max_core cur + 1)) (fl_OfInt F 0)) cur;
               avg = (case (map_of cur ''cpu'', map_of prev ''cpu'') of
                   (Some st, Some p) \<Rightarrow> (case busy F p st of Some u \<Rightarrow> u | None \<Rightarrow> fl_OfInt F 0)
                 | _ \<Rightarrow> fl_OfInt F 0)
        in ((avg, perCore), Some cur))"

definition calculateCPUPowerWatt ::
    "'f Float \<Rightarrow> (64 word \<times> gotime) option \<Rightarrow> 64 word \<Rightarrow> gotime \<Rightarrow> 'f \<times> (64 word \<times> gotime) option" where
  "calculateCPUPowerWatt F state energy now = (case state of
     None \<Rightarrow> (fl_OfInt F 0, Some (energy, now))
   | Some (last_e, last_t) \<Rightarrow>
      if energy < last_e then (fl_OfInt F 0, Some (energy, now))
      else let joule = fl_Div F (fl_OfInt F (uint (energy - last_e))) (fl_OfInt F 1000000);
               dt = Seconds F (now - last_t)
        in if fl_Le F dt (fl_OfInt F 0) then (fl_OfInt F 0, state)
           else (fl_Div F joule dt, Some (energy, now)))"

definition raw :: "'f Float \<Rightarrow> 'f \<Rightarrow> 'f Signal" where
  "raw F x = \<lparr>sg_Raw = x, sg_EMA = fl_OfInt F 0\<rparr>"

definition getCPUMetric :: "'f Float \<Rightarrow> 'f Snapshot \<Rightarrow> 'f Collector \<Rightarrow> 'f CPUMetric \<times> 'f Collector" where
  "getCPUMetric F m c =
    (let ((avg, perCore), usage) = calculateCPUUsage F (co_usage c) (CPUCoreStats m);
         (w, power) = calculateCPUPowerWatt F (co_power c) (CPUEnergyUJ m) (sn_Now m);
         watt = (if fl_Less F w (fl_OfInt F 0) \<or> fl_Less F (fl_OfInt F 300) w then fl_OfInt F 0 else w)
     in (\<lparr>cm_Usage = raw F avg, cm_PerCore = map (raw F) perCore, cm_Temperature = raw F (CPUTempC F m),
          cm_Frequency = raw F (CPUFreqAvgMhz F m), cm_PowerWatt = raw F watt\<rparr>,
         c\<lparr>co_usage := usage, co_power := power\<rparr>))"

section \<open>The other readings\<close>

definition calculateGPUMetric :: "'f Float \<Rightarrow> string \<Rightarrow> string \<Rightarrow> 'f GPUMetrics \<Rightarrow> 'f GPUMetric" where
  "calculateGPUMetric F crd vendor m =
    (let vram = gp_MemTotalMB m > 0; gb = (\<lambda>x. fl_Div F (fl_OfInt F x) (fl_OfInt F 1024)); zero = fl_OfInt F 0
     in \<lparr>gm_Card = crd, gm_Vendor = vendor, gm_Temperature = raw F (fl_OfInt F (gp_TemperatureC m)),
        gm_CoreUsagePercent = raw F (fl_OfInt F (gp_UtilizationGPU m)),
        gm_FrequencyMhz = raw F (fl_OfInt F (gp_ClockMHz m)), gm_PowerWatt = raw F (gp_PowerDrawW m),
        gm_VRAMTotalGB = (if vram then gb (gp_MemTotalMB m) else zero),
        gm_VRAMUsedGB = (if vram then gb (gp_MemUsedMB m) else zero),
        gm_VRAMPercent = (if vram then fl_Mul F (fl_Div F (fl_OfInt F (gp_MemUsedMB m)) (fl_OfInt F (gp_MemTotalMB m)))
          (fl_OfInt F 100) else zero)\<rparr>)"

definition card_metric :: "'f Float \<Rightarrow> 'f Snapshot \<Rightarrow> string \<Rightarrow> 'f GPUMetric option" where
  "card_metric F m crd = (case AMDGPU F m crd of Some g \<Rightarrow> Some (calculateGPUMetric F crd ''amd'' g)
   | None \<Rightarrow> map_option (calculateGPUMetric F crd ''intel'') (IntelGPU F m crd))"

definition getGPUMetrics :: "'f Float \<Rightarrow> 'f Snapshot \<Rightarrow> 'f GPUMetric list" where
  "getGPUMetrics F m =
    (case NvidiaGPU F m of None \<Rightarrow> [] | Some g \<Rightarrow> [calculateGPUMetric F ''gpu0'' ''nvidia'' g]) @
    List.map_filter (card_metric F m) (ListDRMCards m)"

definition getMemoryMetric :: "'f Float \<Rightarrow> 'f Snapshot \<Rightarrow> 'f MemoryMetric" where
  "getMemoryMetric F m =
    (let s = Memory m; gb = (\<lambda>x. fl_Div F (fl_OfInt F (uint x)) (fl_OfInt F (1024 * 1024)));
         total = gb (ms_MemTotalKB s); used = gb (ms_MemUsedKB s)
     in \<lparr>mm_TotalGB = total, mm_UsedGB = used,
         mm_UsagePercent = (if fl_Less F (fl_OfInt F 0) total
           then fl_Mul F (fl_Div F used total) (fl_OfInt F 100) else fl_OfInt F 0),
         mm_AvailableGB = gb (ms_MemAvailableKB s), mm_SwapTotalGB = gb (ms_SwapTotalKB s),
         mm_SwapFreeGB = gb (ms_SwapFreeKB s), mm_SwapUsedGB = gb (ms_SwapUsedKB s)\<rparr>)"

text \<open>The speed of a counter in MB per second; a counter that was reset wraps.\<close>

definition rate :: "'f Float \<Rightarrow> 64 word \<Rightarrow> 64 word \<Rightarrow> 'f \<Rightarrow> 'f" where
  "rate F prev cur dt = fl_Div F (fl_Div F (fl_Div F (fl_OfInt F (uint (cur - prev))) (fl_OfInt F 1024)) (fl_OfInt F 1024)) dt"

definition calculateDiskDelta ::
    "'f Float \<Rightarrow> string \<Rightarrow> DiskIOStats \<Rightarrow> gotime \<Rightarrow> 'f Collector \<Rightarrow> ('f \<times> 'f \<times> 'f) \<times> 'f Collector" where
  "calculateDiskDelta F name cur now c =
    (let zero = fl_OfInt F 0;
         c' = c\<lparr>co_lastDiskIO := (co_lastDiskIO c)(name \<mapsto> \<lparr>ds_ReadBytes = io_ReadBytes cur,
           ds_WriteBytes = io_WriteBytes cur, ds_IOTimeMillis = io_IOTimeMillis cur, ds_Time = now\<rparr>)\<rparr>
     in case co_lastDiskIO c name of None \<Rightarrow> ((zero, zero, zero), c')
      | Some l \<Rightarrow> (let dt = Seconds F (now - ds_Time l) in
          if fl_Le F dt zero then ((zero, zero, zero), c')
          else let util = fl_Div F (fl_OfInt F (uint (io_IOTimeMillis cur - ds_IOTimeMillis l))) (fl_Mul F dt (fl_OfInt F 10))
            in ((rate F (ds_ReadBytes l) (io_ReadBytes cur) dt, rate F (ds_WriteBytes l) (io_WriteBytes cur) dt,
                 if fl_Less F (fl_OfInt F 100) util then fl_OfInt F 100 else util), c')))"

definition filesystem :: "'f Float \<Rightarrow> string \<times> string \<times> 64 word \<times> 64 word \<times> 64 word \<Rightarrow> 'f FilesystemUsage" where
  "filesystem F = (\<lambda>(dev, mount, total_b, used_b, free_b).
    let gb = (\<lambda>x. fl_Div F (fl_OfInt F (uint x)) (fl_OfInt F (1024 * 1024 * 1024))); total = gb total_b; used = gb used_b
    in \<lparr>fu_Device = dev, fu_Mountpoint = mount, fu_TotalGB = total, fu_UsedGB = used, fu_FreeGB = gb free_b,
        fu_Percent = (if fl_Less F (fl_OfInt F 0) total then fl_Mul F (fl_Div F used total) (fl_OfInt F 100)
          else fl_OfInt F 0)\<rparr>)"

definition disk_metric :: "'f Float \<Rightarrow> 'f Snapshot \<Rightarrow> 'f DiskInfo \<Rightarrow> 'f Collector \<Rightarrow> 'f DiskMetric \<times> 'f Collector" where
  "disk_metric F m d c =
    (case calculateDiskDelta F (di_Name d) (DiskIO m (di_Name d)) (sn_Now m) c of
       ((r, w, u), c') \<Rightarrow>
         (\<lparr>dm_Name = di_Name d, dm_RawSizeGB = fl_Div F (fl_OfInt F (uint (di_RawBytes d))) (fl_OfInt F (1024 * 1024 * 1024)),
           dm_Temperature = raw F (di_Temperature d), dm_ReadMBps = raw F r, dm_WriteMBps = raw F w, dm_UtilPct = raw F u,
           dm_Filesystems = map (filesystem F) (di_Filesystems d)\<rparr>, c'))"

definition getDiskMetrics :: "'f Float \<Rightarrow> 'f Snapshot \<Rightarrow> 'f Collector \<Rightarrow> 'f DiskMetric list \<times> 'f Collector" where
  "getDiskMetrics F m c = map_state (disk_metric F m) (Disks F m) c"

definition not_negative :: "'f Float \<Rightarrow> 'f \<Rightarrow> 'f" where
  "not_negative F x = (if fl_Less F x (fl_OfInt F 0) then fl_OfInt F 0 else x)"

definition getNetworkMetric :: "'f Float \<Rightarrow> 'f Snapshot \<Rightarrow> 'f Collector \<Rightarrow> 'f NetworkMetric \<times> 'f Collector" where
  "getNetworkMetric F m c =
    (let iface = (if co_iface c = [] then DefaultInterface m else co_iface c);
         c1 = c\<lparr>co_iface := iface\<rparr>; zero = raw F (fl_OfInt F 0)
     in if iface = [] then (\<lparr>nm_RXBytes = 0, nm_TXBytes = 0, nm_RXSpeedMBs = zero, nm_TXSpeedMBs = zero\<rparr>, c1)
        else let cur = NetBytes m iface; now = sn_Now m;
                 c2 = c1\<lparr>co_lastNet := (co_lastNet c1)(iface \<mapsto> \<lparr>ne_RxBytes = nt_RxBytes cur,
                   ne_TxBytes = nt_TxBytes cur, ne_Time = now\<rparr>)\<rparr>;
                 n = \<lparr>nm_RXBytes = nt_RxBytes cur, nm_TXBytes = nt_TxBytes cur, nm_RXSpeedMBs = zero, nm_TXSpeedMBs = zero\<rparr>
          in case co_lastNet c iface of None \<Rightarrow> (n, c2)
           | Some l \<Rightarrow> (let dt = Seconds F (now - ne_Time l) in
               if fl_Le F dt (fl_OfInt F 0) then (n, c2)
               else (n\<lparr>nm_RXSpeedMBs := raw F (not_negative F (rate F (ne_RxBytes l) (nt_RxBytes cur) dt)),
                       nm_TXSpeedMBs := raw F (not_negative F (rate F (ne_TxBytes l) (nt_TxBytes cur) dt))\<rparr>, c2)))"

section \<open>Collecting\<close>

definition NewCollector :: "'f Float \<Rightarrow> uuid \<Rightarrow> 'f Collector" where
  "NewCollector F serverID = \<lparr>co_ServerID = serverID, co_buffer = [], co_power = None, co_usage = None,
     co_lastDiskIO = Map.empty, co_lastNet = Map.empty, co_cpuUsageEMA = NewEMA F (15 * second),
     co_cpuFreqEMA = NewEMA F (20 * second), co_cpuPowerEMA = NewEMA F (20 * second),
     co_cpuTempEMA = NewEMA F (30 * second), co_cpuPerCoreEMA = Map.empty, co_gpuUsageEMA = Map.empty,
     co_gpuClockEMA = Map.empty, co_gpuPowerEMA = Map.empty, co_gpuTempEMA = Map.empty, co_diskReadEMA = Map.empty,
     co_diskWriteEMA = Map.empty, co_diskUtilEMA = Map.empty, co_diskTempEMA = Map.empty, co_netRxEMA = Map.empty,
     co_netTxEMA = Map.empty, co_iface = []\<rparr>"

definition registryKey :: "'f Collector \<Rightarrow> 'f Telemetry \<Rightarrow> string" where
  "registryKey c t = ''metrics:agent:'' @ w_uuid_string (te_db t) (co_ServerID c) @ '':stream''"

text \<open>One sample of the machine, smoothed.\<close>

definition sample :: "'f Float \<Rightarrow> 'f Snapshot \<Rightarrow> 'f Collector \<Rightarrow> 'f Metrics \<times> 'f Collector" where
  "sample F m c =
    (let (cpu, c1) = getCPUMetric F m c;
         (disks, c2) = getDiskMetrics F m c1;
         (net, c3) = getNetworkMetric F m c2
     in ApplyEMA F \<lparr>mt_ServerID = co_ServerID c, mt_CPU = cpu, mt_GPU = getGPUMetrics F m, mt_Memory = getMemoryMetric F m,
          mt_Disk = disks, mt_Network = net, mt_UptimeSeconds = Uptime F m, mt_RecordedAt = sn_Now m\<rparr> c3)"

definition buffered :: "'f Metrics \<Rightarrow> 'f Metrics list \<Rightarrow> 'f Metrics list" where
  "buffered m buf = (if length buf \<ge> maxSamples then tl buf else buf) @ [m]"

type_synonym 'f agent_metrics = "'f Collector \<times> 'f Telemetry"

definition collect :: "'f Float \<Rightarrow> 'f MetricsJSON \<Rightarrow> 'f Snapshot \<Rightarrow> 'f agent_metrics \<Rightarrow> 'f agent_metrics" where
  "collect F mj m = (\<lambda>(c, t). case sample F m c of
     (x, c') \<Rightarrow> (c'\<lparr>co_buffer := buffered x (co_buffer c')\<rparr>,
        snd (Registry_Append (fst (mj_Metrics mj)) (registryKey c' t) x registryMaxLen t)))"

definition loadBufferFromRegistry :: "'f MetricsJSON \<Rightarrow> 'f agent_metrics \<Rightarrow> (error + unit) \<times> 'f agent_metrics" where
  "loadBufferFromRegistry mj = (\<lambda>(c, t).
     case Registry_GetRangeDesc (registryKey c t) maxSamples t of
       (Inl e, t') \<Rightarrow> (Inl e, (c, t'))
     | (Inr msgs, t') \<Rightarrow> (case ParseStreamMessages (snd (mj_Metrics mj)) msgs of
         Inl e \<Rightarrow> (Inl e, (c, t'))
       | Inr (ms, _) \<Rightarrow> (Inr (), (c\<lparr>co_buffer := co_buffer c @ drop (length ms - maxSamples) ms\<rparr>, t'))))"

definition flushBufferToRegistry :: "'f MetricsJSON \<Rightarrow> 'f agent_metrics \<Rightarrow> 'f agent_metrics" where
  "flushBufferToRegistry mj = (\<lambda>(c, t).
     (c\<lparr>co_buffer := []\<rparr>, foldl (\<lambda>t m. snd (Registry_Append (fst (mj_Metrics mj)) (registryKey c t) m registryMaxLen t))
        t (co_buffer c)))"

text \<open>\<open>Start\<close>: the ticks until the context ends, each with the machine as it finds it.\<close>

definition Collector_Start :: "'f Float \<Rightarrow> 'f MetricsJSON \<Rightarrow> 'f Snapshot list \<Rightarrow> 'f agent_metrics \<Rightarrow> 'f agent_metrics" where
  "Collector_Start F mj ticks s =
     flushBufferToRegistry mj (foldl (\<lambda>s m. collect F mj m s) (snd (loadBufferFromRegistry mj s)) ticks)"

definition Latest :: "'f Collector \<Rightarrow> 'f Metrics option" where
  "Latest c = (if co_buffer c = [] then None else Some (last (co_buffer c)))"

end
