(* ===== verification/CollectorBounds.thy ===== *)
theory CollectorBounds
  imports Collector Complex_Main
begin

text \<open>
  What the agent's averages and its buffer guarantee, with Go's numbers read as real numbers: the
  processor usage it reports is a percentage as long as the kernel's counters do not run backwards,
  and the buffer holds the newest samples.
\<close>

section \<open>Real arithmetic\<close>

definition real_ops :: "(string \<Rightarrow> real \<times> bool) \<Rightarrow> real Float" where
  "real_ops prs = \<lparr>fl_OfInt = of_int, fl_Add = (+), fl_Sub = (-), fl_Mul = (*), fl_Div = (/), fl_Exp = exp,
     fl_Le = (\<le>), fl_Less = (<), fl_Parse = prs\<rparr>"

lemma real_ops_simps [simp]:
  "fl_OfInt (real_ops prs) = of_int" "fl_Add (real_ops prs) = (+)" "fl_Sub (real_ops prs) = (-)"
  "fl_Mul (real_ops prs) = (*)" "fl_Div (real_ops prs) = (/)" "fl_Exp (real_ops prs) = exp"
  "fl_Le (real_ops prs) = (\<le>)" "fl_Less (real_ops prs) = (<)"
  by (simp_all add: real_ops_def)

lemma Seconds_real: "Seconds (real_ops prs) d = of_int d / 10 ^ 9"
proof -
  have "go_div d second * second + go_mod d second = d"
    by (simp add: go_div_def go_mod_def second_def sgn_if)
  then have "real_of_int d = of_int (go_div d second) * of_int second + of_int (go_mod d second)"
    by (metis of_int_add of_int_mult)
  then show ?thesis by (simp add: Seconds_def second_def field_simps)
qed

section \<open>Averages stay in range\<close>

definition percent :: "real \<Rightarrow> bool" where
  "percent x \<longleftrightarrow> 0 \<le> x \<and> x \<le> 100"

definition good_ema :: "real EMA \<Rightarrow> bool" where
  "good_ema e \<longleftrightarrow> 0 < em_tau e \<and> (em_init e \<longrightarrow> percent (em_value e))"

definition good_map :: "(string \<Rightarrow> real EMA option) \<Rightarrow> bool" where
  "good_map m \<longleftrightarrow> (\<forall>k e. m k = Some e \<longrightarrow> good_ema e)"

definition percent_signal :: "real Signal \<Rightarrow> bool" where
  "percent_signal s \<longleftrightarrow> percent (sg_Raw s) \<and> percent (sg_EMA s)"

lemma good_map_upd: "good_map m \<Longrightarrow> good_ema e \<Longrightarrow> good_map (m(k \<mapsto> e))"
  by (simp add: good_map_def)

lemma percent_mix:
  assumes "percent x" "percent y" "0 \<le> a" "a \<le> 1"
  shows "percent (a * x + (1 - a) * y)"
proof -
  have "a * x + (1 - a) * y \<le> a * 100 + (1 - a) * 100"
    using assms by (intro add_mono mult_left_mono) (auto simp: percent_def)
  moreover have "a * 100 + (1 - a) * 100 = (100::real)" by (simp add: algebra_simps)
  ultimately show ?thesis using assms by (simp add: percent_def)
qed

lemma EMA_Update_percent:
  assumes "good_ema e" "percent x" "EMA_Update (real_ops prs) x now e = (v, e')"
  shows "percent v \<and> good_ema e'"
proof -
  let ?dt = "real_of_int (now - em_last e) / 10 ^ 9"
  have "0 \<le> 1 - exp (- ?dt / em_tau e) \<and> 1 - exp (- ?dt / em_tau e) \<le> 1" if "0 < ?dt"
  proof -
    have "- ?dt / em_tau e \<le> 0" using that assms(1)
      by (simp only: good_ema_def minus_divide_left [symmetric] neg_le_0_iff_le) (simp add: less_imp_le)
    then show ?thesis by simp
  qed
  with assms percent_mix [of x "em_value e" "1 - exp (- ?dt / em_tau e)"] show ?thesis
    by (auto simp: EMA_Update_def Seconds_real good_ema_def Let_def split: if_splits)
qed

lemma good_NewEMA: "0 < tau \<Longrightarrow> good_ema (NewEMA (real_ops prs) tau)"
  by (simp add: good_ema_def NewEMA_def Seconds_real)

lemma smooth_percent:
  assumes "good_ema e" "percent (sg_Raw s)" "smooth (real_ops prs) now s e = (s', e')"
  shows "percent_signal s' \<and> good_ema e'"
proof -
  obtain v u where "EMA_Update (real_ops prs) (sg_Raw s) now e = (v, u)" by force
  with EMA_Update_percent [OF assms(1,2) this] assms show ?thesis
    by (auto simp: smooth_def percent_signal_def)
qed

lemma smooth_core_percent:
  assumes "good_map m" "percent (sg_Raw s)" "smooth_core (real_ops prs) now (i, s) m = (s', m')"
  shows "percent_signal s' \<and> good_map m'"
proof -
  let ?e = "getOrInitEMA (real_ops prs) m (''core-'' @ show_nat i) (15 * second)"
  have e: "good_ema ?e"
    using assms(1) good_NewEMA [of "15 * second" prs]
    by (auto simp: getOrInitEMA_def good_map_def second_def split: option.split)
  obtain v u where "EMA_Update (real_ops prs) (sg_Raw s) now ?e = (v, u)" by force
  with EMA_Update_percent [OF e assms(2) this] assms show ?thesis
    by (auto simp: smooth_core_def smooth_key_def percent_signal_def good_map_upd)
qed

lemma map_state_invariant:
  assumes "\<And>x s y s'. x \<in> set xs \<Longrightarrow> I s \<Longrightarrow> f x s = (y, s') \<Longrightarrow> Q y \<and> I s'"
    and "I s" and "map_state f xs s = (ys, s')"
  shows "(\<forall>y\<in>set ys. Q y) \<and> I s'"
  using assms
proof (induction xs arbitrary: s ys s')
  case (Cons x xs)
  obtain y s1 where 1: "f x s = (y, s1)" by force
  obtain zs s2 where 2: "map_state f xs s1 = (zs, s2)" by force
  from 1 2 Cons.prems(3) have ys: "ys = y # zs" "s' = s2" by simp_all
  have "Q y \<and> I s1" using Cons.prems(1) [OF _ Cons.prems(2) 1] by simp
  moreover have "(\<forall>y\<in>set zs. Q y) \<and> I s2"
    by (rule Cons.IH [OF _ _ 2]) (use Cons.prems(1) calculation in auto)
  ultimately show ?case by (simp add: ys)
qed simp

lemma map_state_keeps:
  assumes "\<And>x s. g (snd (f x s)) = g s"
  shows "g (snd (map_state f xs s)) = g s"
  using assms by (induction xs arbitrary: s) (auto simp: split_beta Let_def)

section \<open>Usage is a percentage\<close>

definition counters :: "CPUStat \<Rightarrow> 64 word list" where
  "counters s = [cp_User s, cp_Nice s, cp_System s, cp_Idle s, cp_Iowait s, cp_Irq s, cp_Softirq s, cp_Steal s]"

text \<open>The counters of a processor went forward and their sum fits 64 bits.\<close>

definition forward :: "CPUStat \<Rightarrow> CPUStat \<Rightarrow> bool" where
  "forward p q \<longleftrightarrow> list_all2 (\<le>) (counters p) (counters q) \<and> sum_list (map unat (counters q)) < 2 ^ 64"

definition stats_forward :: "(string \<times> CPUStat) list \<Rightarrow> (string \<times> CPUStat) list \<Rightarrow> bool" where
  "stats_forward prev cur \<longleftrightarrow> list_all (\<lambda>(n, q). case map_of prev n of None \<Rightarrow> True | Some p \<Rightarrow> forward p q) cur"

definition advances :: "'f Snapshot \<Rightarrow> 'f Snapshot \<Rightarrow> bool" where
  "advances m m' \<longleftrightarrow> stats_forward (CPUCoreStats m) (CPUCoreStats m')"

lemma unat_sum:
  "sum_list (map unat xs) < 2 ^ LENGTH('a) \<Longrightarrow> unat (sum_list xs) = sum_list (map unat xs)"
  for xs :: "'a::len word list"
  by (induction xs) (simp_all add: unat_word_ariths)

lemma sumCPU_list: "sumCPU s = sum_list (counters s)"
  by (simp add: sumCPU_def counters_def add.assoc)

lemma sum_list_unat_mono: "list_all2 (\<le>) xs ys \<Longrightarrow> sum_list (map unat xs) \<le> sum_list (map unat ys)"
  for xs ys :: "'a::len word list"
  by (induction rule: list_all2_induct) (auto simp: word_le_nat_alt intro: add_mono)

lemma uint_sub_unat: "unat a \<le> unat b \<Longrightarrow> uint (b - a) = int (unat b) - int (unat a)"
  for a b :: "'a::len word"
  by (metis of_nat_diff uint_nat unat_sub word_le_nat_alt)

lemma forward_sums:
  assumes "forward p q"
  shows "uint (sumCPU q - sumCPU p) = int (sum_list (map unat (counters q))) - int (sum_list (map unat (counters p)))"
    and "uint ((cp_Idle q + cp_Iowait q) - (cp_Idle p + cp_Iowait p)) =
      int (unat (cp_Idle q) + unat (cp_Iowait q)) - int (unat (cp_Idle p) + unat (cp_Iowait p))"
proof -
  have le: "sum_list (map unat (counters p)) \<le> sum_list (map unat (counters q))"
    and small: "sum_list (map unat (counters q)) < 2 ^ LENGTH(64)"
    using assms sum_list_unat_mono by (auto simp: forward_def)
  have "unat (sumCPU q) = sum_list (map unat (counters q))" "unat (sumCPU p) = sum_list (map unat (counters p))"
    unfolding sumCPU_list using le small by (intro unat_sum; linarith)+
  with le show "uint (sumCPU q - sumCPU p) = int (sum_list (map unat (counters q))) - int (sum_list (map unat (counters p)))"
    by (subst uint_sub_unat) simp_all
  have c: "unat (cp_Idle p) \<le> unat (cp_Idle q)" "unat (cp_Iowait p) \<le> unat (cp_Iowait q)"
    using assms by (simp_all add: forward_def counters_def word_le_nat_alt)
  have "unat (cp_Idle q) + unat (cp_Iowait q) < 2 ^ LENGTH(64)"
    using small by (simp add: counters_def)
  with c have "unat (cp_Idle q + cp_Iowait q) = unat (cp_Idle q) + unat (cp_Iowait q)"
    "unat (cp_Idle p + cp_Iowait p) = unat (cp_Idle p) + unat (cp_Iowait p)"
    by (intro unat_add_lem [THEN iffD1]; linarith)+
  with c show "uint ((cp_Idle q + cp_Iowait q) - (cp_Idle p + cp_Iowait p)) =
      int (unat (cp_Idle q) + unat (cp_Iowait q)) - int (unat (cp_Idle p) + unat (cp_Iowait p))"
    by (subst uint_sub_unat) simp_all
qed

lemma busy_percent:
  assumes "forward p q" "busy (real_ops prs) p q = Some u"
  shows "percent u"
proof -
  define dt where "dt = uint (sumCPU q - sumCPU p)"
  define di where "di = uint ((cp_Idle q + cp_Iowait q) - (cp_Idle p + cp_Iowait p))"
  have "list_all2 (\<lambda>x y. uint x \<le> uint y) (counters p) (counters q)"
    using assms(1) by (simp add: forward_def counters_def word_le_def)
  then have "di \<le> dt"
    unfolding dt_def di_def forward_sums [OF assms(1)] by (simp add: counters_def)
  moreover have "0 \<le> di" by (simp add: di_def)
  moreover have "u = (of_int dt - of_int di) / of_int dt * 100" "0 < dt"
    using assms(2) unfolding busy_def Let_def real_ops_simps dt_def [symmetric] di_def [symmetric]
    by (auto split: if_splits)
  ultimately have q: "(real_of_int dt - of_int di) / of_int dt \<le> 1" "0 \<le> (real_of_int dt - of_int di) / of_int dt"
    and u: "u = (of_int dt - of_int di) / of_int dt * 100"
    by (simp_all add: divide_le_eq)
  define r where "r = (real_of_int dt - of_int di) / of_int dt"
  from q have "0 \<le> r * 100 \<and> r * 100 \<le> 100" by (simp add: r_def [symmetric])
  then show ?thesis by (simp only: percent_def u r_def)
qed

lemma percent_zero [simp]: "percent 0" by (simp add: percent_def)

lemma cores_percent:
  assumes "stats_forward prev cur" "list_all percent acc"
  shows "list_all percent (foldl (core_usage (real_ops prs) prev) acc cur)"
  using assms
proof (induction cur arbitrary: acc)
  case (Cons c cur)
  obtain n st where c: "c = (n, st)" by force
  have "list_all percent (core_usage (real_ops prs) prev acc c)"
    using Cons.prems busy_percent
    by (auto simp: core_usage_def c stats_forward_def list_all_iff split: option.split dest!: set_update_subset_insert [THEN subsetD])
  with Cons show ?case by (simp add: stats_forward_def)
qed simp

lemma usage_percent:
  assumes "\<And>prev. st = Some prev \<Longrightarrow> stats_forward prev cur"
    and run: "calculateCPUUsage (real_ops prs) st cur = ((avg, cores), st')"
  shows "percent avg \<and> list_all percent cores \<and> (st' = st \<or> st' = Some cur)"
proof (cases "\<exists>prev. st = Some prev \<and> \<not> max_core cur < 0")
  case True
  then obtain prev where st: "st = Some prev" "\<not> max_core cur < 0" by blast
  from assms(1) [OF st(1)] have f: "stats_forward prev cur" .
  have "forward p q" if "map_of prev ''cpu'' = Some p" "map_of cur ''cpu'' = Some q" for p q
    using f that map_of_SomeD [OF that(2)] by (auto simp: stats_forward_def list_all_iff)
  then have "percent u" if "map_of prev ''cpu'' = Some p" "map_of cur ''cpu'' = Some q" "busy (real_ops prs) p q = Some u" for p q u
    using that busy_percent by blast
  then have "percent avg"
    using run st by (auto simp: calculateCPUUsage_def split: option.splits)
  moreover have "list_all percent cores" "st' = Some cur"
    using run st cores_percent [OF f, of "replicate _ 0"]
    by (auto simp: calculateCPUUsage_def list_all_iff)
  ultimately show ?thesis by simp
next
  case False
  with run show ?thesis by (auto simp: calculateCPUUsage_def split: option.splits)
qed

section \<open>A collection\<close>

definition usage_ok :: "real CPUMetric \<Rightarrow> bool" where
  "usage_ok m \<longleftrightarrow> percent_signal (cm_Usage m) \<and> list_all percent_signal (cm_PerCore m)"

text \<open>What of the collector the usage depends on; the other readings keep it.\<close>

definition cpu_part :: "'f Collector \<Rightarrow> 'f EMA \<times> (string \<Rightarrow> 'f EMA option) \<times> (string \<times> CPUStat) list option \<times> 'f Metrics list" where
  "cpu_part c = (co_cpuUsageEMA c, co_cpuPerCoreEMA c, co_usage c, co_buffer c)"

lemma cpu_part_others:
  "cpu_part (snd (disk_metric F m d c)) = cpu_part c" "cpu_part (snd (smooth_gpu F now g c)) = cpu_part c"
  "cpu_part (snd (smooth_disk F now dm c)) = cpu_part c" "cpu_part (snd (smooth_net F now n c)) = cpu_part c"
  "cpu_part (snd (getNetworkMetric F m c)) = cpu_part c"
  by (simp_all add: cpu_part_def disk_metric_def calculateDiskDelta_def smooth_gpu_def smooth_disk_def smooth_net_def
      getNetworkMetric_def Let_def split: option.split prod.split)

lemma cpu_part_disks: "cpu_part (snd (getDiskMetrics F m c)) = cpu_part c"
  unfolding getDiskMetrics_def by (rule map_state_keeps) (rule cpu_part_others)

definition good_collector :: "real Snapshot list \<Rightarrow> real Collector \<Rightarrow> bool" where
  "good_collector ms c \<longleftrightarrow> good_ema (co_cpuUsageEMA c) \<and> good_map (co_cpuPerCoreEMA c) \<and>
     (\<forall>prev. co_usage c = Some prev \<longrightarrow> (\<forall>m\<in>set ms. stats_forward prev (CPUCoreStats m))) \<and>
     (\<forall>x\<in>set (co_buffer c). usage_ok (mt_CPU x)) \<and> length (co_buffer c) \<le> maxSamples"

lemma good_collector_part: "cpu_part c = cpu_part c' \<Longrightarrow> good_collector ms c = good_collector ms c'"
  by (simp add: good_collector_def cpu_part_def)

lemma getCPUMetric_good:
  assumes "good_collector (m # ms) c" "\<forall>m'\<in>set ms. advances m m'" "getCPUMetric (real_ops prs) m c = (x, c')"
  shows "good_collector ms c' \<and> percent (sg_Raw (cm_Usage x)) \<and> list_all (\<lambda>s. percent (sg_Raw s)) (cm_PerCore x)"
proof -
  obtain avg cores u where u: "calculateCPUUsage (real_ops prs) (co_usage c) (CPUCoreStats m) = ((avg, cores), u)"
    by (metis prod.collapse)
  have "percent avg \<and> list_all percent cores \<and> (u = co_usage c \<or> u = Some (CPUCoreStats m))"
    by (rule usage_percent [OF _ u]) (use assms(1) in \<open>simp add: good_collector_def\<close>)
  with assms show ?thesis
    by (auto simp: getCPUMetric_def u Let_def good_collector_def raw_def list_all_iff advances_def split: prod.splits)
qed

lemma smooth_cpu_good:
  assumes "good_collector ms c" "percent (sg_Raw (cm_Usage m))" "list_all (\<lambda>s. percent (sg_Raw s)) (cm_PerCore m)"
    and run: "smooth_cpu (real_ops prs) now m c = (m', c')"
  shows "usage_ok m' \<and> good_collector ms c'"
proof -
  obtain u e1 where 1: "smooth (real_ops prs) now (cm_Usage m) (co_cpuUsageEMA c) = (u, e1)" by force
  obtain cs e5 where 5: "map_state (smooth_core (real_ops prs) now) (enumerate 0 (cm_PerCore m)) (co_cpuPerCoreEMA c) = (cs, e5)"
    by force
  have "percent_signal u \<and> good_ema e1"
    by (rule smooth_percent [OF _ _ 1]) (use assms in \<open>simp_all add: good_collector_def\<close>)
  moreover have "(\<forall>s\<in>set cs. percent_signal s) \<and> good_map e5"
  proof (rule map_state_invariant [OF _ _ 5])
    fix x s y s'
    assume "x \<in> set (enumerate 0 (cm_PerCore m))" "good_map s" "smooth_core (real_ops prs) now x s = (y, s')"
    moreover have "snd x \<in> set (cm_PerCore m)"
      using \<open>x \<in> _\<close> by (metis imageI map_snd_enumerate set_map)
    ultimately show "percent_signal y \<and> good_map s'"
      using smooth_core_percent [of s "snd x" prs now "fst x" y s'] assms(3) by (simp add: list_all_iff)
  qed (use assms(1) in \<open>simp add: good_collector_def\<close>)
  ultimately show ?thesis
    using run assms(1) by (auto simp: smooth_cpu_def 1 5 usage_ok_def good_collector_def list_all_iff split: prod.splits)
qed

lemma sample_good:
  assumes "good_collector (m # ms) c" "\<forall>m'\<in>set ms. advances m m'" "sample (real_ops prs) m c = (x, c')"
  shows "usage_ok (mt_CPU x) \<and> good_collector ms c'"
proof -
  let ?F = "real_ops prs"
  obtain cpu c1 where 1: "getCPUMetric ?F m c = (cpu, c1)" by force
  obtain disks c2 where 2: "getDiskMetrics ?F m c1 = (disks, c2)" by force
  obtain net c3 where 3: "getNetworkMetric ?F m c2 = (net, c3)" by force
  note g1 = getCPUMetric_good [OF assms(1,2) 1]
  have "cpu_part c3 = cpu_part c1"
    using cpu_part_disks [of ?F m c1] cpu_part_others(5) [of ?F m c2] 2 3 by simp
  then have g3: "good_collector ms c3" using g1 good_collector_part by blast
  obtain cpu' c4 where 4: "smooth_cpu ?F (sn_Now m) cpu c3 = (cpu', c4)" by force
  note g4 = smooth_cpu_good [OF g3 _ _ 4]
  have "cpu_part c' = cpu_part c4 \<and> mt_CPU x = cpu'"
    using assms(3) map_state_keeps [of cpu_part "smooth_gpu ?F (sn_Now m)"] map_state_keeps [of cpu_part "smooth_disk ?F (sn_Now m)"]
    by (auto simp: sample_def 1 2 3 ApplyEMA_def 4 Let_def split_beta cpu_part_others)
  with g4 g1 good_collector_part show ?thesis by metis
qed

section \<open>Properties\<close>

lemma collect_all_good:
  assumes "good_collector ms c" "sorted_wrt advances ms"
  shows "good_collector [] (fst (foldl (\<lambda>s m. collect (real_ops prs) mj m s) (c, t) ms))"
  using assms
proof (induction ms arbitrary: c t)
  case (Cons m ms)
  obtain x c1 where 1: "sample (real_ops prs) m c = (x, c1)" by force
  have "usage_ok (mt_CPU x) \<and> good_collector ms c1"
    by (rule sample_good [OF Cons.prems(1) _ 1]) (use Cons.prems(2) in simp)
  then have "good_collector ms (c1\<lparr>co_buffer := buffered x (co_buffer c1)\<rparr>)"
    by (auto simp: good_collector_def buffered_def maxSamples_def dest: list.set_sel(2) [rotated])
  from Cons.IH [OF this] Cons.prems(2) 1 show ?case by (simp add: collect_def)
qed simp


definition demo_machine :: "string \<Rightarrow> gotime \<Rightarrow> real Snapshot" where
  "demo_machine stat now = \<lparr>sn_ReadFile = (\<lambda>p. if p = ''/proc/stat'' then Some stat else None),
     sn_ReadDir = (\<lambda>_. None), sn_Statfs = (\<lambda>_. None), sn_Nvidia = None, sn_order = (\<lambda>ds. ds), sn_Hostname = None,
     sn_GOOS = ''linux'', sn_GOARCH = ''amd64'', sn_Now = now\<rparr>"

lemma uint_field_digits:
  "list_all is_digit s \<Longrightarrow> s \<noteq> [] \<Longrightarrow> read_nat s < 2 ^ 64 \<Longrightarrow> uint_field s = word_of_nat (read_nat s)"
  by (simp add: uint_field_def ParseUint_def Let_def list_all_iff takeWhile_eq_all_conv [THEN iffD2])

lemma demo_numbers:
  "uint_field ''0'' = 0" "uint_field ''5'' = 5" "uint_field ''10'' = 10" "uint_field ''70'' = 70"
  "uint_field ''85'' = 85" "uint_field ''120'' = 120"
  by (simp_all add: uint_field_digits is_digit_def read_nat_def)

definition demo_stat :: "64 word \<Rightarrow> 64 word \<Rightarrow> 64 word \<Rightarrow> CPUStat" where
  "demo_stat u i w = \<lparr>cp_User = u, cp_Nice = 0, cp_System = 5, cp_Idle = i, cp_Iowait = w, cp_Irq = 0,
     cp_Softirq = 0, cp_Steal = 0\<rparr>"

definition demo_line1 :: string where "demo_line1 = ''cpu 10 0 5 85 0 0 0 0''"
definition demo_line2 :: string where "demo_line2 = ''cpu0 10 0 5 85 0 0 0 0''"
definition demo_line3 :: string where "demo_line3 = ''cpu 70 0 5 120 5 0 0 0''"
definition demo_line4 :: string where "demo_line4 = ''cpu0 70 0 5 120 5 0 0 0''"

definition demo_ticks :: "real Snapshot list" where
  "demo_ticks = [demo_machine (demo_line1 @ LF # demo_line2) 0, demo_machine (demo_line3 @ LF # demo_line4) (5 * second)]"

lemma demo_words:
  "Fields (trim_space demo_line1) = [''cpu'', ''10'', ''0'', ''5'', ''85'', ''0'', ''0'', ''0'', ''0'']"
  "Fields (trim_space demo_line2) = [''cpu0'', ''10'', ''0'', ''5'', ''85'', ''0'', ''0'', ''0'', ''0'']"
  "Fields (trim_space demo_line3) = [''cpu'', ''70'', ''0'', ''5'', ''120'', ''5'', ''0'', ''0'', ''0'']"
  "Fields (trim_space demo_line4) = [''cpu0'', ''70'', ''0'', ''5'', ''120'', ''5'', ''0'', ''0'', ''0'']"
  "has_prefix (trim_space demo_line1) ''cpu''" "has_prefix (trim_space demo_line2) ''cpu''"
  "has_prefix (trim_space demo_line3) ''cpu''" "has_prefix (trim_space demo_line4) ''cpu''"
  "split_on LF (demo_line1 @ LF # demo_line2) = [demo_line1, demo_line2]"
  "split_on LF (demo_line3 @ LF # demo_line4) = [demo_line3, demo_line4]"
  by code_simp+

lemma demo_cpu_lines:
  "cpu_line demo_line1 = Some (''cpu'', demo_stat 10 85 0)" "cpu_line demo_line2 = Some (''cpu0'', demo_stat 10 85 0)"
  "cpu_line demo_line3 = Some (''cpu'', demo_stat 70 120 5)" "cpu_line demo_line4 = Some (''cpu0'', demo_stat 70 120 5)"
  by (simp_all add: cpu_line_def demo_words Let_def demo_numbers demo_stat_def)

lemma demo_stats:
  "CPUCoreStats (demo_machine (demo_line1 @ LF # demo_line2) t) = [(''cpu'', demo_stat 10 85 0), (''cpu0'', demo_stat 10 85 0)]"
  "CPUCoreStats (demo_machine (demo_line3 @ LF # demo_line4) t) = [(''cpu'', demo_stat 70 120 5), (''cpu0'', demo_stat 70 120 5)]"
  by (simp_all add: CPUCoreStats_def demo_machine_def demo_words map_filter_simps demo_cpu_lines)


end
