(* ===== verification/AgentLoop.thy ===== *)
theory AgentLoop
  imports JobWorker KeyedMutex "HOL-Library.Multiset"
begin

text \<open>
  The agent's loop (\<open>JobWorker.Start\<close> and \<open>pollAndExecuteJobs\<close> of \<open>internal/agent/job_worker.go\<close>)
  as a step relation: the goroutines of one poll take the jobs out of a channel, take the keyed
  mutex of the job's application (\<open>KeyedMutex\<close>), run the job and report the result. What a job does
  is \<open>processJob\<close> of \<open>JobWorker\<close>; here a run of a job has any result, at any time, or panics.
\<close>

section \<open>Fetching the jobs\<close>

text \<open>\<open>HttpClient.GetPendingJobs\<close>; \<open>decode\<close> reads the document of an answer.\<close>

definition GetPendingJobs :: "'w HttpClient \<Rightarrow> Ctx \<Rightarrow> gotime \<Rightarrow> (body \<Rightarrow> error + Job list) \<Rightarrow> ('w, Job list) op" where
  "GetPendingJobs c ctx now decode w = (case http_Do c ctx now (agent_request c ''GET'' [''jobs''] None) w of
     (Inl e, w') \<Rightarrow> (Inl e, w')
   | (Inr rep, w') \<Rightarrow>
       (if re_Status rep \<noteq> 200 then Inl (ErrMsg (''server returned status '' @ show_int (re_Status rep)))
        else decode (re_Body rep), w'))"

section \<open>One poll\<close>

text \<open>
  Where a goroutine is: at the head of its loop, with a job in \<open>processJob\<close> before it holds the
  mutex, running the job, in the deferred \<open>unlock\<close>, in the \<open>select\<close> with the result, or returned.
  \<open>po_errCap\<close> is the capacity of \<open>errCh\<close>, which nobody receives from before the end of the poll.
\<close>

datatype worker =
    Ready
  | Took Job
  | Running Job
  | Unlocking Job "error option"
  | Reporting "error option"
  | Exited

record Poll =
  po_jobCh :: "Job list"
  po_errCh :: "error option list"
  po_errCap :: nat
  po_at :: "nat \<Rightarrow> worker"
  po_locks :: KMutex
  po_cancelled :: bool
  po_panicked :: bool
  po_done :: "(Job \<times> error option) list"

definition app_key :: "int \<Rightarrow> string" where
  "app_key app = ''app-'' @ show_int app"

definition poll_start :: "int \<Rightarrow> Job list \<Rightarrow> KMutex \<Rightarrow> bool \<Rightarrow> Poll" where
  "poll_start workers jobs locks cancelled = \<lparr>po_jobCh = jobs, po_errCh = [], po_errCap = length jobs,
     po_at = (\<lambda>t. if int t < workers then Ready else Exited), po_locks = locks, po_cancelled = cancelled,
     po_panicked = False, po_done = []\<rparr>"

abbreviation at :: "nat \<Rightarrow> worker \<Rightarrow> Poll \<Rightarrow> Poll" where
  "at t p s \<equiv> s\<lparr>po_at := (po_at s)(t := p)\<rparr>"

inductive pstep :: "Poll \<Rightarrow> Poll \<Rightarrow> bool" where
  take: "\<not> po_panicked s \<Longrightarrow> po_at s t = Ready \<Longrightarrow> po_jobCh s = job # rest \<Longrightarrow>
    pstep s (at t (Took job) (s\<lparr>po_jobCh := rest\<rparr>))"
| drained: "\<not> po_panicked s \<Longrightarrow> po_at s t = Ready \<Longrightarrow> po_jobCh s = [] \<Longrightarrow> pstep s (at t Exited s)"
| global: "\<not> po_panicked s \<Longrightarrow> po_at s t = Took job \<Longrightarrow> j_ApplicationID job = None \<Longrightarrow>
    pstep s (at t (Running job) s)"
| entry: "\<not> po_panicked s \<Longrightarrow> po_at s t = Took job \<Longrightarrow> j_ApplicationID job = Some app \<Longrightarrow>
    kstep (po_locks s) (ReadEntry t (app_key app)) l \<Longrightarrow> pstep s (s\<lparr>po_locks := l\<rparr>)"
| locked: "\<not> po_panicked s \<Longrightarrow> po_at s t = Took job \<Longrightarrow> kstep (po_locks s) (Acquire t) l \<Longrightarrow>
    pstep s (at t (Running job) (s\<lparr>po_locks := l\<rparr>))"
| ran: "\<not> po_panicked s \<Longrightarrow> po_at s t = Running job \<Longrightarrow>
    pstep s (at t (Unlocking job r) (s\<lparr>po_done := po_done s @ [(job, r)]\<rparr>))"
| panic: "\<not> po_panicked s \<Longrightarrow> po_at s t = Running job \<Longrightarrow> pstep s (s\<lparr>po_panicked := True\<rparr>)"
| no_lock: "\<not> po_panicked s \<Longrightarrow> po_at s t = Unlocking job r \<Longrightarrow> j_ApplicationID job = None \<Longrightarrow>
    pstep s (at t (Reporting r) s)"
| unlocked: "\<not> po_panicked s \<Longrightarrow> po_at s t = Unlocking job r \<Longrightarrow> kstep (po_locks s) (Unlock t) l \<Longrightarrow>
    pstep s (s\<lparr>po_locks := l\<rparr>)"
| cleaned: "\<not> po_panicked s \<Longrightarrow> po_at s t = Unlocking job r \<Longrightarrow> kstep (po_locks s) (CleanUp t) l \<Longrightarrow>
    pstep s (at t (Reporting r) (s\<lparr>po_locks := l\<rparr>))"
| reported: "\<not> po_panicked s \<Longrightarrow> po_at s t = Reporting r \<Longrightarrow> length (po_errCh s) < po_errCap s \<Longrightarrow>
    pstep s (at t Ready (s\<lparr>po_errCh := po_errCh s @ [r]\<rparr>))"
| gave_up: "\<not> po_panicked s \<Longrightarrow> po_at s t = Reporting r \<Longrightarrow> po_cancelled s \<Longrightarrow> pstep s (at t Exited s)"
| cancel: "\<not> po_panicked s \<Longrightarrow> \<not> po_cancelled s \<Longrightarrow> pstep s (s\<lparr>po_cancelled := True\<rparr>)"

text \<open>The states a poll reaches, with the number of steps.\<close>

inductive poll_run :: "Poll \<Rightarrow> nat \<Rightarrow> Poll \<Rightarrow> bool" for s0 where
  start: "poll_run s0 0 s0"
| step: "poll_run s0 n s \<Longrightarrow> pstep s s' \<Longrightarrow> poll_run s0 (Suc n) s'"

definition over :: "Poll \<Rightarrow> bool" where
  "over s \<longleftrightarrow> (\<forall>t. po_at s t = Exited)"

text \<open>A mutex between polls: no goroutine is in it, and no lock is taken.\<close>

definition idle :: "KMutex \<Rightarrow> bool" where
  "idle l \<longleftrightarrow> (\<forall>t. km_at l t = Outside) \<and> (\<forall>m. \<not> km_locked l m)"

section \<open>A goroutine and its place in the mutex\<close>

fun agrees :: "worker \<Rightarrow> position \<Rightarrow> bool" where
  "agrees (Took job) p = (p = Outside \<or> j_ApplicationID job \<noteq> None \<and> (\<exists>k m. p = Waiting k m))"
| "agrees (Running job) p = (if j_ApplicationID job = None then p = Outside else \<exists>k m. p = Holding k m)"
| "agrees (Unlocking job r) p = (if j_ApplicationID job = None then p = Outside
     else \<exists>k m. p = Holding k m \<or> p = Leaving k m)"
| "agrees w p = (p = Outside)"

definition lock_held :: "KMutex \<Rightarrow> bool" where
  "lock_held l \<longleftrightarrow> (\<forall>m. km_locked l m \<longrightarrow> (\<exists>t k. km_at l t = Holding k m))"

definition placed :: "nat \<Rightarrow> Poll \<Rightarrow> bool" where
  "placed n s \<longleftrightarrow> (\<forall>t. agrees (po_at s t) (km_at (po_locks s) t)) \<and> lock_held (po_locks s) \<and>
     (\<forall>t\<ge>n. po_at s t = Exited)"

lemma kstep_ReadEntry:
  assumes "kstep l (ReadEntry t k) l'"
  obtains m where "km_at l t = Outside" "km_at l' = (km_at l)(t := Waiting k m)" "km_locked l' = km_locked l"
  using assms by (cases rule: kstep.cases) auto

lemma kstep_Acquire:
  assumes "kstep l (Acquire t) l'"
  obtains k m where "km_at l t = Waiting k m" "km_at l' = (km_at l)(t := Holding k m)"
    "km_locked l' = (km_locked l)(m := True)"
  using assms by (cases rule: kstep.cases) auto

lemma kstep_Unlock:
  assumes "kstep l (Unlock t) l'"
  obtains k m where "km_at l t = Holding k m" "km_at l' = (km_at l)(t := Leaving k m)"
    "km_locked l' = (km_locked l)(m := False)"
  using assms by (cases rule: kstep.cases) auto

lemma kstep_CleanUp:
  assumes "kstep l (CleanUp t) l'"
  obtains k m where "km_at l t = Leaving k m" "km_at l' = (km_at l)(t := Outside)" "km_locked l' = km_locked l"
  using assms by (cases rule: kstep.cases) auto

lemma lock_held_step: "kstep l a l' \<Longrightarrow> lock_held l \<Longrightarrow> lock_held l'"
proof (induction rule: kstep.induct)
  case (acquire s t k m)
  then show ?case by (auto simp: lock_held_def) (metis position.distinct(7))
qed (auto simp: lock_held_def, (metis position.distinct position.inject(2))+)

lemma acting: "placed n s \<Longrightarrow> po_at s t \<noteq> Exited \<Longrightarrow> t < n"
  by (meson not_le placed_def)

lemma where_at: "placed n s \<Longrightarrow> agrees (po_at s t) (km_at (po_locks s) t)"
  by (simp add: placed_def)

lemma placed_move:
  assumes "placed n s" and "po_at s t \<noteq> Exited" and "po_locks s' = po_locks s" and "po_at s' = (po_at s)(t := p)"
    and "agrees (po_at s t) (km_at (po_locks s) t) \<Longrightarrow> agrees p (km_at (po_locks s) t)"
  shows "placed n s'"
  using assms(1,3,4) assms(5) [OF where_at [OF assms(1)]] acting [OF assms(1,2)] by (auto simp: placed_def)

lemma placed_step:
  assumes "pstep s s'" and "placed n s"
  shows "placed n s'"
  using assms
proof (induction rule: pstep.induct)
  case (entry s t job app l)
  then show ?case
    by (elim kstep_ReadEntry) (auto simp: placed_def intro: lock_held_step [OF entry.hyps(4)])
next
  case (locked s t job l)
  then have "j_ApplicationID job \<noteq> None"
    by (elim kstep_Acquire) (auto simp: placed_def dest!: spec [of _ t])
  with locked show ?case
    by (elim kstep_Acquire) (auto simp: placed_def intro: lock_held_step [OF locked.hyps(3)])
next
  case (unlocked s t job r l)
  then have "j_ApplicationID job \<noteq> None"
    by (elim kstep_Unlock) (auto simp: placed_def dest!: spec [of _ t] split: if_splits)
  with unlocked show ?case
    by (elim kstep_Unlock) (auto simp: placed_def intro: lock_held_step [OF unlocked.hyps(3)])
next
  case (cleaned s t job r l)
  then show ?case
    by (elim kstep_CleanUp) (auto simp: placed_def intro: lock_held_step [OF cleaned.hyps(3)])
next
  case (take s t job rest)
  show ?case by (rule placed_move [OF take.prems, of t _ "Took job"]) (simp_all add: take.hyps)
next
  case (drained s t)
  show ?case by (rule placed_move [OF drained.prems, of t _ Exited]) (simp_all add: drained.hyps)
next
  case (global s t job)
  show ?case by (rule placed_move [OF global.prems, of t _ "Running job"]) (simp_all add: global.hyps)
next
  case (ran s t job r)
  show ?case by (rule placed_move [OF ran.prems, of t _ "Unlocking job r"]) (auto simp: ran.hyps)
next
  case (no_lock s t job r)
  show ?case by (rule placed_move [OF no_lock.prems, of t _ "Reporting r"]) (simp_all add: no_lock.hyps)
next
  case (reported s t r)
  show ?case by (rule placed_move [OF reported.prems, of t _ Ready]) (simp_all add: reported.hyps)
next
  case (gave_up s t r)
  show ?case by (rule placed_move [OF gave_up.prems, of t _ Exited]) (simp_all add: gave_up.hyps)
qed (simp_all add: placed_def)


section \<open>A poll ends\<close>

fun rank :: "worker \<Rightarrow> position \<Rightarrow> nat" where
  "rank Ready p = 1"
| "rank (Took job) p = (if p = Outside then 7 else 6)"
| "rank (Running job) p = 5"
| "rank (Unlocking job r) p = (case p of Leaving k m \<Rightarrow> 3 | _ \<Rightarrow> 4)"
| "rank (Reporting r) p = 2"
| "rank Exited p = 0"

definition ranks :: "nat \<Rightarrow> Poll \<Rightarrow> nat" where
  "ranks n s = (\<Sum>t<n. rank (po_at s t) (km_at (po_locks s) t))"

definition work :: "nat \<Rightarrow> Poll \<Rightarrow> nat" where
  "work n s = 7 * length (po_jobCh s) + ranks n s + of_bool (\<not> po_cancelled s) + of_bool (\<not> po_panicked s)"

lemma ranks_move:
  assumes "t < n" and "\<And>u. u \<noteq> t \<Longrightarrow> po_at s' u = po_at s u \<and> km_at (po_locks s') u = km_at (po_locks s) u"
  shows "ranks n s' + rank (po_at s t) (km_at (po_locks s) t) =
    ranks n s + rank (po_at s' t) (km_at (po_locks s') t)"
proof -
  have "(\<Sum>u\<in>{..<n} - {t}. rank (po_at s' u) (km_at (po_locks s') u)) =
      (\<Sum>u\<in>{..<n} - {t}. rank (po_at s u) (km_at (po_locks s) u))"
    by (rule sum.cong) (auto simp: assms(2))
  with assms(1) show ?thesis
    by (simp add: ranks_def sum.remove [of "{..<n}" t])
qed

lemma work_step:
  assumes "pstep s s'" and "placed n s"
  shows "work n s' < work n s"
  using assms
proof (induction rule: pstep.induct)
  case (take s t job rest)
  then show ?case
    using ranks_move [of t n "at t (Took job) (s\<lparr>po_jobCh := rest\<rparr>)" s] acting [of n s t] where_at [of n s t]
    by (simp add: work_def)
next
  case (drained s t)
  then show ?case using ranks_move [of t n "at t Exited s" s] acting [of n s t] by (simp add: work_def)
next
  case (global s t job)
  then show ?case
    using ranks_move [of t n "at t (Running job) s" s] acting [of n s t] where_at [of n s t]
    by (simp add: work_def)
next
  case (entry s t job app l)
  then show ?case
    using ranks_move [of t n "s\<lparr>po_locks := l\<rparr>" s] acting [of n s t]
    by (elim kstep_ReadEntry) (simp add: work_def)
next
  case (locked s t job l)
  then show ?case
    using ranks_move [of t n "at t (Running job) (s\<lparr>po_locks := l\<rparr>)" s] acting [of n s t]
    by (elim kstep_Acquire) (simp add: work_def)
next
  case (ran s t job r)
  then show ?case
    using ranks_move [of t n "at t (Unlocking job r) (s\<lparr>po_done := po_done s @ [(job, r)]\<rparr>)" s] acting [of n s t]
    by (simp add: work_def split: position.splits)
next
  case (panic s t job)
  then show ?case by (simp add: work_def ranks_def)
next
  case (no_lock s t job r)
  then show ?case
    using ranks_move [of t n "at t (Reporting r) s" s] acting [of n s t]
    by (simp add: work_def split: position.splits)
next
  case (unlocked s t job r l)
  then show ?case
    using ranks_move [of t n "s\<lparr>po_locks := l\<rparr>" s] acting [of n s t]
    by (elim kstep_Unlock) (simp add: work_def)
next
  case (cleaned s t job r l)
  then show ?case
    using ranks_move [of t n "at t (Reporting r) (s\<lparr>po_locks := l\<rparr>)" s] acting [of n s t]
    by (elim kstep_CleanUp) (simp add: work_def)
next
  case (reported s t r)
  then show ?case
    using ranks_move [of t n "at t Ready (s\<lparr>po_errCh := po_errCh s @ [r]\<rparr>)" s] acting [of n s t]
    by (simp add: work_def)
next
  case (gave_up s t r)
  then show ?case using ranks_move [of t n "at t Exited s" s] acting [of n s t] by (simp add: work_def)
next
  case (cancel s)
  then show ?case by (simp add: work_def ranks_def)
qed

lemma idle_start: "idle l \<Longrightarrow> placed (nat k) (poll_start k jobs l c)"
  by (auto simp: placed_def poll_start_def idle_def lock_held_def)

lemma start_work: "work (nat k) (poll_start k jobs l c) \<le> 7 * length jobs + nat k + 2"
proof -
  have "ranks (nat k) (poll_start k jobs l c) = (\<Sum>t<nat k. 1)"
    unfolding ranks_def by (rule sum.cong) (auto simp: poll_start_def)
  then show ?thesis by (simp add: work_def poll_start_def)
qed

lemma run_bounded:
  assumes "poll_run s0 i s" and "placed n s0"
  shows "placed n s \<and> i + work n s \<le> work n s0"
  using assms(1)
proof (induction rule: poll_run.induct)
  case start
  with assms(2) show ?case by simp
next
  case (step i s s')
  with placed_step [of s s' n] work_step [of s s' n] show ?case by simp
qed

text \<open>No goroutine waits for ever: the one that holds a mutex can always go on.\<close>

lemma moves: "pstep s s' \<Longrightarrow> po_cancelled s' = po_cancelled s \<Longrightarrow> \<exists>s'. pstep s s' \<and> po_cancelled s' = po_cancelled s"
  by blast

lemma holder_moves:
  assumes "placed n s" and "\<not> po_panicked s" and "km_at (po_locks s) t = Holding k m"
  shows "\<exists>s'. pstep s s' \<and> po_cancelled s' = po_cancelled s"
proof (cases "po_at s t")
  case (Running job)
  show ?thesis by (rule moves [OF pstep.ran [OF assms(2) Running, of None]]) simp
next
  case (Unlocking job r)
  show ?thesis by (rule moves [OF pstep.unlocked [OF assms(2) Unlocking kstep.unlock [OF assms(3)]]]) simp
qed (use where_at [OF assms(1), of t] assms(3) in auto)

lemma progress:
  assumes "placed n s" and "\<not> po_panicked s" and "po_at s t \<noteq> Exited"
    and room: "\<And>r. po_at s t = Reporting r \<Longrightarrow> length (po_errCh s) < po_errCap s"
  shows "\<exists>s'. pstep s s' \<and> po_cancelled s' = po_cancelled s"
proof (cases "po_at s t")
  case Ready
  show ?thesis
  proof (cases "po_jobCh s")
    case Nil
    show ?thesis by (rule moves [OF pstep.drained [OF assms(2) Ready Nil]]) simp
  next
    case (Cons job rest)
    show ?thesis by (rule moves [OF pstep.take [OF assms(2) Ready Cons]]) simp
  qed
next
  case (Took job)
  show ?thesis
  proof (cases "j_ApplicationID job")
    case None
    show ?thesis by (rule moves [OF pstep.global [OF assms(2) Took None]]) simp
  next
    case (Some app)
    from where_at [OF assms(1), of t] Took
    consider "km_at (po_locks s) t = Outside" | k m where "km_at (po_locks s) t = Waiting k m" by auto
    then show ?thesis
    proof cases
      case 1
      then obtain l where l: "kstep (po_locks s) (ReadEntry t (app_key app)) l"
        by (cases "km_locks (po_locks s) (app_key app)") (blast intro: kstep.found kstep.created)+
      show ?thesis by (rule moves [OF pstep.entry [OF assms(2) Took Some l]]) simp
    next
      case (2 k m)
      show ?thesis
      proof (cases "km_locked (po_locks s) m")
        case True
        with assms(1) obtain u j where "km_at (po_locks s) u = Holding j m"
          by (auto simp: placed_def lock_held_def)
        then show ?thesis by (rule holder_moves [OF assms(1,2)])
      next
        case False
        show ?thesis by (rule moves [OF pstep.locked [OF assms(2) Took kstep.acquire [OF 2 False]]]) simp
      qed
    qed
  qed
next
  case (Running job)
  show ?thesis by (rule moves [OF pstep.ran [OF assms(2) Running, of None]]) simp
next
  case (Unlocking job r)
  show ?thesis
  proof (cases "j_ApplicationID job")
    case None
    show ?thesis by (rule moves [OF pstep.no_lock [OF assms(2) Unlocking None]]) simp
  next
    case (Some app)
    with where_at [OF assms(1), of t] Unlocking
    consider k m where "km_at (po_locks s) t = Holding k m" | k m where "km_at (po_locks s) t = Leaving k m" by auto
    then show ?thesis
    proof cases
      case (1 k m)
      then show ?thesis by (rule holder_moves [OF assms(1,2)])
    next
      case (2 k m)
      then obtain l where l: "kstep (po_locks s) (CleanUp t) l"
        by (cases "km_locked (po_locks s) m") (blast intro: kstep.dropped kstep.kept)+
      show ?thesis by (rule moves [OF pstep.cleaned [OF assms(2) Unlocking l]]) simp
    qed
  qed
next
  case (Reporting r)
  show ?thesis by (rule moves [OF pstep.reported [OF assms(2) Reporting room [OF Reporting]]]) simp
next
  case Exited
  with assms(3) show ?thesis by simp
qed


section \<open>Every job once\<close>

text \<open>The jobs and the results the goroutines hold.\<close>

fun job_of :: "worker \<Rightarrow> Job multiset" where
  "job_of (Took job) = {#job#}"
| "job_of (Running job) = {#job#}"
| "job_of w = {#}"

fun result_of :: "worker \<Rightarrow> error option multiset" where
  "result_of (Unlocking job r) = {#r#}"
| "result_of (Reporting r) = {#r#}"
| "result_of w = {#}"

definition held :: "(worker \<Rightarrow> 'a multiset) \<Rightarrow> nat \<Rightarrow> Poll \<Rightarrow> 'a multiset" where
  "held f n s = (\<Sum>t<n. f (po_at s t))"

lemma held_move:
  assumes "t < n" and "po_at s' = (po_at s)(t := w)"
  shows "held f n s' + f (po_at s t) = held f n s + f w"
proof -
  have "(\<Sum>u\<in>{..<n} - {t}. f (po_at s' u)) = (\<Sum>u\<in>{..<n} - {t}. f (po_at s u))"
    by (rule sum.cong) (auto simp: assms(2))
  with assms show ?thesis by (simp add: held_def sum.remove [of "{..<n}" t])
qed

text \<open>
  Every job is in the channel, in a goroutine or done; every result is in the channel or in a
  goroutine, but for those given up after the poll was cancelled.
\<close>

definition all_jobs :: "nat \<Rightarrow> Poll \<Rightarrow> Job multiset" where
  "all_jobs n s = mset (po_jobCh s) + held job_of n s + mset (map fst (po_done s))"

definition results_kept :: "nat \<Rightarrow> Poll \<Rightarrow> bool" where
  "results_kept n s \<longleftrightarrow> (\<exists>lost. mset (po_errCh s) + held result_of n s + lost = mset (map snd (po_done s)) \<and>
     (\<not> po_cancelled s \<longrightarrow> lost = {#}))"

lemma all_jobs_step:
  assumes "pstep s s'" and "placed n s"
  shows "all_jobs n s' = all_jobs n s"
  using assms
proof (induction rule: pstep.induct)
  case (take s t job rest)
  then show ?case
    using held_move [of t n "at t (Took job) (s\<lparr>po_jobCh := rest\<rparr>)" s "Took job" job_of] acting [of n s t]
    by (simp add: all_jobs_def)
next
  case (drained s t)
  then show ?case using held_move [of t n "at t Exited s" s Exited job_of] acting [of n s t] by (simp add: all_jobs_def)
next
  case (global s t job)
  then show ?case
    using held_move [of t n "at t (Running job) s" s "Running job" job_of] acting [of n s t] by (simp add: all_jobs_def)
next
  case (locked s t job l)
  then show ?case
    using held_move [of t n "at t (Running job) (s\<lparr>po_locks := l\<rparr>)" s "Running job" job_of] acting [of n s t]
    by (simp add: all_jobs_def)
next
  case (ran s t job r)
  then show ?case
    using held_move [of t n "at t (Unlocking job r) (s\<lparr>po_done := po_done s @ [(job, r)]\<rparr>)" s "Unlocking job r" job_of]
      acting [of n s t] by (simp add: all_jobs_def)
next
  case (no_lock s t job r)
  then show ?case
    using held_move [of t n "at t (Reporting r) s" s "Reporting r" job_of] acting [of n s t] by (simp add: all_jobs_def)
next
  case (cleaned s t job r l)
  then show ?case
    using held_move [of t n "at t (Reporting r) (s\<lparr>po_locks := l\<rparr>)" s "Reporting r" job_of] acting [of n s t]
    by (simp add: all_jobs_def)
next
  case (reported s t r)
  then show ?case
    using held_move [of t n "at t Ready (s\<lparr>po_errCh := po_errCh s @ [r]\<rparr>)" s Ready job_of] acting [of n s t]
    by (simp add: all_jobs_def)
next
  case (gave_up s t r)
  then show ?case using held_move [of t n "at t Exited s" s Exited job_of] acting [of n s t] by (simp add: all_jobs_def)
qed (simp_all add: all_jobs_def held_def)

lemma results_step:
  assumes "pstep s s'" and "placed n s" and "results_kept n s"
  shows "results_kept n s'"
  using assms
proof (induction rule: pstep.induct)
  case (take s t job rest)
  then show ?case
    using held_move [of t n "at t (Took job) (s\<lparr>po_jobCh := rest\<rparr>)" s "Took job" result_of] acting [of n s t]
    by (auto simp: results_kept_def)
next
  case (drained s t)
  then show ?case
    using held_move [of t n "at t Exited s" s Exited result_of] acting [of n s t] by (auto simp: results_kept_def)
next
  case (global s t job)
  then show ?case
    using held_move [of t n "at t (Running job) s" s "Running job" result_of] acting [of n s t]
    by (auto simp: results_kept_def)
next
  case (locked s t job l)
  then show ?case
    using held_move [of t n "at t (Running job) (s\<lparr>po_locks := l\<rparr>)" s "Running job" result_of] acting [of n s t]
    by (auto simp: results_kept_def)
next
  case (ran s t job r)
  then show ?case
    using held_move [of t n "at t (Unlocking job r) (s\<lparr>po_done := po_done s @ [(job, r)]\<rparr>)" s "Unlocking job r" result_of]
      acting [of n s t] by (auto simp: results_kept_def)
next
  case (no_lock s t job r)
  then show ?case
    using held_move [of t n "at t (Reporting r) s" s "Reporting r" result_of] acting [of n s t]
    by (auto simp: results_kept_def)
next
  case (cleaned s t job r l)
  then show ?case
    using held_move [of t n "at t (Reporting r) (s\<lparr>po_locks := l\<rparr>)" s "Reporting r" result_of] acting [of n s t]
    by (auto simp: results_kept_def)
next
  case (reported s t r)
  let ?s = "at t Ready (s\<lparr>po_errCh := po_errCh s @ [r]\<rparr>)"
  from reported have "held result_of n s = add_mset r (held result_of n ?s)"
    using held_move [of t n ?s s Ready result_of] acting [of n s t] by simp
  with reported.prems(2) show ?case by (auto simp: results_kept_def)
next
  case (gave_up s t r)
  let ?s = "at t Exited s"
  from gave_up have "held result_of n s = add_mset r (held result_of n ?s)"
    using held_move [of t n ?s s Exited result_of] acting [of n s t] by simp
  moreover from gave_up.prems(2) obtain lost where
    "mset (po_errCh s) + held result_of n s + lost = mset (map snd (po_done s))" by (auto simp: results_kept_def)
  ultimately show ?case
    using gave_up.hyps by (auto simp: results_kept_def intro!: exI [of _ "add_mset r lost"])
qed (auto simp: results_kept_def held_def)

lemma cap_kept: "pstep s s' \<Longrightarrow> po_errCap s' = po_errCap s"
  by (induction rule: pstep.induct) simp_all

lemma run_keeps:
  assumes "poll_run s0 i s" and "placed n s0" and "results_kept n s0"
  shows "all_jobs n s = all_jobs n s0 \<and> results_kept n s \<and> po_errCap s = po_errCap s0"
  using assms(1)
proof (induction rule: poll_run.induct)
  case start
  with assms(3) show ?case by simp
next
  case (step i s s')
  with run_bounded [OF step.hyps(1) assms(2)] all_jobs_step [of s s' n] results_step [of s s' n] cap_kept
  show ?case by simp
qed

text \<open>The channel of the results has a place for each: a goroutine that reports does not wait.\<close>

lemma start_keeps:
  "all_jobs (nat k) (poll_start k jobs l c) = mset jobs" "results_kept (nat k) (poll_start k jobs l c)"
proof -
  have "held job_of (nat k) (poll_start k jobs l c) = {#}" "held result_of (nat k) (poll_start k jobs l c) = {#}"
    by (auto simp: held_def poll_start_def intro!: sum.neutral)
  then show "all_jobs (nat k) (poll_start k jobs l c) = mset jobs" "results_kept (nat k) (poll_start k jobs l c)"
    by (simp_all add: all_jobs_def results_kept_def poll_start_def)
qed

lemma room_to_report:
  assumes "idle l" and "poll_run (poll_start k jobs l c) i s" and "po_at s t = Reporting r"
  shows "length (po_errCh s) < po_errCap s"
proof -
  let ?n = "nat k"
  note placed = idle_start [OF assms(1), of k jobs c]
  from run_bounded [OF assms(2) placed] have p: "placed ?n s" by simp
  from run_keeps [OF assms(2) placed start_keeps(2)] start_keeps(1) [of k jobs l c]
  have all: "all_jobs ?n s = mset jobs" and kept: "results_kept ?n s" and cap: "po_errCap s = length jobs"
    by (simp_all add: poll_start_def)
  have "t < ?n" using acting [OF p, of t] assms(3) by simp
  then have "held result_of ?n s = result_of (po_at s t) + (\<Sum>u\<in>{..<?n} - {t}. result_of (po_at s u))"
    by (simp add: held_def sum.remove [of "{..<?n}" t])
  then have "0 < size (held result_of ?n s)" using assms(3) by simp
  moreover from kept obtain lost where "mset (po_errCh s) + held result_of ?n s + lost = mset (map snd (po_done s))"
    by (auto simp: results_kept_def)
  from arg_cong [OF this, of size] have "length (po_errCh s) + size (held result_of ?n s) \<le> length (po_done s)"
    by simp
  moreover from arg_cong [OF all, of size] have "length (po_done s) \<le> length jobs" by (simp add: all_jobs_def)
  ultimately show ?thesis using cap by simp
qed

text \<open>A goroutine leaves only when the channel is empty, unless the poll is cancelled.\<close>

lemma left_over:
  assumes "poll_run (poll_start k jobs l c) i s" and "0 < k"
  shows "po_cancelled s \<or> po_jobCh s = [] \<or> (\<exists>t. po_at s t \<noteq> Exited)"
proof -
  from assms(2) have 0: "int 0 < k" by simp
  from assms(1) have "po_cancelled s \<or> po_jobCh s = [] \<or> po_at s 0 \<noteq> Exited"
  proof (induction rule: poll_run.induct)
    case start
    with 0 show ?case by (simp add: poll_start_def)
  next
    case (step i s s')
    from step.hyps(2) step.IH show ?case by (induction rule: pstep.induct) auto
  qed
  then show ?thesis by blast
qed

lemma poll_bounded:
  assumes "idle l" and "poll_run (poll_start k jobs l c) i s"
  shows "i \<le> 7 * length jobs + nat k + 2"
  using run_bounded [OF assms(2) idle_start [OF assms(1)]] start_work [of k jobs l c] by simp

lemma poll_no_deadlock:
  assumes "idle l" and "poll_run (poll_start k jobs l c) i s"
  shows "over s \<or> po_panicked s \<or> (\<exists>s'. pstep s s' \<and> po_cancelled s' = po_cancelled s)"
proof -
  have "placed (nat k) s" using run_bounded [OF assms(2) idle_start [OF assms(1)]] by simp
  then have "\<exists>s'. pstep s s' \<and> po_cancelled s' = po_cancelled s" if "\<not> po_panicked s" "po_at s t \<noteq> Exited" for t
    using progress [OF _ that] room_to_report [OF assms] by blast
  then show ?thesis by (auto simp: over_def)
qed

lemma over_idle: "placed n s \<Longrightarrow> over s \<Longrightarrow> idle (po_locks s)"
  unfolding over_def placed_def idle_def lock_held_def
  by (metis agrees.simps(6) position.distinct(3))

lemma poll_done:
  assumes "idle l" and "poll_run (poll_start k jobs l c) i s" and "over s"
  shows "idle (po_locks s)" and "mset (map fst (po_done s)) \<subseteq># mset jobs"
    and "0 < k \<Longrightarrow> \<not> po_cancelled s \<Longrightarrow>
      mset (map fst (po_done s)) = mset jobs \<and> mset (po_errCh s) = mset (map snd (po_done s))"
proof -
  let ?s0 = "poll_start k jobs l c" and ?n = "nat k"
  have s: "held job_of ?n s = {#}" "held result_of ?n s = {#}"
    using assms(3) by (simp_all add: held_def over_def)
  from run_keeps [OF assms(2) idle_start [OF assms(1)] start_keeps(2)] s start_keeps(1) [of k jobs l c]
  have jobs: "mset (po_jobCh s) + mset (map fst (po_done s)) = mset jobs"
    and results: "po_cancelled s \<or> mset (po_errCh s) = mset (map snd (po_done s))"
    by (auto simp: all_jobs_def results_kept_def)
  show "idle (po_locks s)"
    using over_idle run_bounded [OF assms(2) idle_start [OF assms(1)]] assms(3) by blast
  from jobs show "mset (map fst (po_done s)) \<subseteq># mset jobs" by (metis mset_subset_eq_add_right)
  assume "0 < k" "\<not> po_cancelled s"
  with left_over [OF assms(2)] assms(3) have "po_jobCh s = []" by (auto simp: over_def)
  with jobs results \<open>\<not> po_cancelled s\<close>
  show "mset (map fst (po_done s)) = mset jobs \<and> mset (po_errCh s) = mset (map snd (po_done s))" by simp
qed


section \<open>The worker\<close>

text \<open>
  \<open>JobWorker.Start\<close>: between polls with its mutex and whether the context is done; in a poll, with the
  jobs it began with and its steps so far; returned.
\<close>

datatype phase =
    Idling KMutex bool
  | Polling "Job list" nat Poll
  | Returned

definition pollAndExecuteJobs :: "int \<Rightarrow> error + Job list \<Rightarrow> KMutex \<Rightarrow> bool \<Rightarrow> phase" where
  "pollAndExecuteJobs workers fetched locks cancelled = (case fetched of
     Inl e \<Rightarrow> Idling locks cancelled
   | Inr jobs \<Rightarrow> if jobs = [] then Idling locks cancelled
       else Polling jobs 0 (poll_start workers jobs locks cancelled))"

inductive worker_reaches :: "int \<Rightarrow> phase \<Rightarrow> bool" for k where
  began: "worker_reaches k (Idling newKeyedMutex False)"
| tick: "worker_reaches k (Idling l c) \<Longrightarrow> worker_reaches k (pollAndExecuteJobs k fetched l c)"
| cancelled: "worker_reaches k (Idling l c) \<Longrightarrow> worker_reaches k (Idling l True)"
| stopped: "worker_reaches k (Idling l True) \<Longrightarrow> worker_reaches k Returned"
| polls: "worker_reaches k (Polling jobs i s) \<Longrightarrow> pstep s s' \<Longrightarrow> worker_reaches k (Polling jobs (Suc i) s')"
| waited: "worker_reaches k (Polling jobs i s) \<Longrightarrow> over s \<Longrightarrow> \<not> po_panicked s \<Longrightarrow>
    worker_reaches k (Idling (po_locks s) (po_cancelled s))"

fun phase_ok :: "int \<Rightarrow> phase \<Rightarrow> bool" where
  "phase_ok k (Idling l c) = idle l"
| "phase_ok k (Polling jobs i s) = (\<exists>l c. idle l \<and> poll_run (poll_start k jobs l c) i s)"
| "phase_ok k Returned = True"

lemma reaches_ok: "worker_reaches k p \<Longrightarrow> phase_ok k p"
proof (induction rule: worker_reaches.induct)
  case began
  show ?case by (simp add: idle_def newKeyedMutex_def)
next
  case (tick l c fetched)
  then show ?case by (auto simp: pollAndExecuteJobs_def split: sum.split intro: poll_run.start)
next
  case (polls jobs i s s')
  then show ?case by (auto intro: poll_run.step)
next
  case (waited jobs i s)
  then show ?case by (auto dest: poll_done(1))
qed simp_all

text \<open>
  C32. A poll of the agent ends, and loses nothing: however the goroutines are scheduled and whatever
  the jobs return, a poll has at most seven steps for a job, one for a worker and two more; unless a
  run has panicked none is ever stuck before all goroutines have returned, though the workers wait for each
  other's applications and nobody receives results. When all have returned the mutex is
  free again and no job was run twice, and if there is a worker and the context was not done, every
  job was run once and every result was reported.
\<close>

theorem poll_ends:
  assumes "worker_reaches k (Polling jobs i s)"
  shows "i \<le> 7 * length jobs + nat k + 2 \<and>
    (over s \<or> po_panicked s \<or> (\<exists>s'. pstep s s' \<and> po_cancelled s' = po_cancelled s)) \<and>
    (over s \<longrightarrow> idle (po_locks s) \<and> mset (map fst (po_done s)) \<subseteq># mset jobs \<and>
      (0 < k \<and> \<not> po_cancelled s \<longrightarrow>
        mset (map fst (po_done s)) = mset jobs \<and> mset (po_errCh s) = mset (map snd (po_done s))))"
proof -
  from reaches_ok [OF assms] obtain l c where run: "idle l" "poll_run (poll_start k jobs l c) i s" by auto
  show ?thesis
    using poll_bounded [OF run] poll_no_deadlock [OF run] poll_done [OF run] by simp
qed

text \<open>Without workers a poll is over at once: the jobs it fetched are dropped.\<close>

lemma no_workers: "k \<le> 0 \<Longrightarrow> over (poll_start k jobs l c) \<and> po_done (poll_start k jobs l c) = []"
  by (simp add: over_def poll_start_def)

definition demo_job :: Job where "demo_job = Job0\<lparr>j_ID := 4\<rparr>"

definition demo_polls :: "Poll list" where
  "demo_polls = (let
     s0 = poll_start 1 [demo_job] newKeyedMutex False;
     s1 = at 0 (Took demo_job) (s0\<lparr>po_jobCh := []\<rparr>);
     s2 = at 0 (Running demo_job) s1;
     s3 = at 0 (Unlocking demo_job (Some ErrDB)) (s2\<lparr>po_done := [(demo_job, Some ErrDB)]\<rparr>);
     s4 = at 0 (Reporting (Some ErrDB)) s3;
     s5 = at 0 Ready (s4\<lparr>po_errCh := [Some ErrDB]\<rparr>)
   in [s0, s1, s2, s3, s4, s5, at 0 Exited s5])"

lemma demo_reaches: "worker_reaches 1 (Polling [demo_job] 6 (last demo_polls))"
proof -
  note demo = demo_polls_def Let_def poll_start_def
  let ?s = "\<lambda>i. demo_polls ! i"
  have at0: "worker_reaches 1 (Polling [demo_job] 0 (?s 0))"
    using tick [OF began, of 1 "Inr [demo_job]"] by (simp add: pollAndExecuteJobs_def demo)
  have "pstep (?s 0) (?s 1)"
    using pstep.take [of "?s 0" 0 demo_job "[]"] by (simp add: demo)
  note at1 = polls [OF at0 this]
  have "pstep (?s 1) (?s 2)"
    using pstep.global [of "?s 1" 0 demo_job] by (simp add: demo demo_job_def Job0_def)
  note at2 = polls [OF at1 this]
  have "pstep (?s 2) (?s 3)"
    using pstep.ran [of "?s 2" 0 demo_job "Some ErrDB"] by (simp add: demo)
  note at3 = polls [OF at2 this]
  have "pstep (?s 3) (?s 4)"
    using pstep.no_lock [of "?s 3" 0 demo_job "Some ErrDB"] by (simp add: demo demo_job_def Job0_def)
  note at4 = polls [OF at3 this]
  have "pstep (?s 4) (?s 5)"
    using pstep.reported [of "?s 4" 0 "Some ErrDB"] by (simp add: demo)
  note at5 = polls [OF at4 this]
  have "pstep (?s 5) (?s 6)"
    using pstep.drained [of "?s 5" 0] by (simp add: demo)
  from polls [OF at5 this] show ?thesis by (simp add: demo numeral_eq_Suc)
qed

theorem poll_ends_witness:
  "mset (map fst (po_done (last demo_polls))) = {#demo_job#} \<and> mset (po_errCh (last demo_polls)) = {#Some ErrDB#}"
proof -
  have "over (last demo_polls)" "\<not> po_cancelled (last demo_polls)" "po_done (last demo_polls) = [(demo_job, Some ErrDB)]"
    by (simp_all add: over_def demo_polls_def Let_def poll_start_def)
  with poll_ends [OF demo_reaches] show ?thesis by simp
qed

end
