(* ===== verification/AgentConn.thy ===== *)
theory AgentConn
  imports AgentLoop Boot Collector
begin

text \<open>
  The agent's process: \<open>RunAgent\<close> of \<open>internal/app/agent.go\<close> up to its goroutines, and the connection
  it keeps to the control plane (\<open>internal/agent/conn.go\<close>) as a step relation: the loop that dials
  again, the two pumps of a session and the goroutine that closes the session's connection. The
  field \<open>a.conn\<close>, shared by all of them, is \<open>lk_conn\<close>; using it when it is nil is a panic. Which of
  its ready cases a \<open>select\<close> takes, and what the network answers, is left open.
\<close>

section \<open>The start of the agent\<close>

text \<open>\<open>exec.Command(...).Run() == nil\<close>.\<close>

definition exec_Run_ok :: "('d, 'o) Programs \<Rightarrow> Ctx \<Rightarrow> string \<Rightarrow> string list \<Rightarrow> ('d, 'o) Host \<Rightarrow> bool \<times> ('d, 'o) Host" where
  "exec_Run_ok progs ctx name args h =
    (let c = \<lparr>cm_workDir = [], cm_name = name, cm_args = args\<rparr>; oc = progs ctx c h;
         good = oc_Start oc = None \<and> oc_Exit oc = None; h1 = h\<lparr>ho_Log := ho_Log h @ [(c, good)]\<rparr>
     in (good, if oc_Start oc \<noteq> None then h1
          else h1\<lparr>ho_Now := ho_Now h + int (oc_Took oc), ho_Files := oc_Files oc, ho_Dirs := oc_Dirs oc,
            ho_Rest := oc_Rest oc\<rparr>))"

definition requires :: "('s \<Rightarrow> bool \<times> 's) \<Rightarrow> string \<Rightarrow> ('s, unit) op" where
  "requires test msg s = (case test s of (ok, s') \<Rightarrow> (if ok then Inr () else Inl (ErrMsg msg), s'))"

definition createWorkDir :: "('d, 'o, 'm) Executor \<Rightarrow> (('d, 'o) Host, unit) op" where
  "createWorkDir e = wrapE ''failed to create apps work directory'' (os_MkdirAll (ex_workDir e))"

definition Executor_Init :: "('d, 'o, 'm) Executor \<Rightarrow> Ctx \<Rightarrow> (('d, 'o) Host, unit) op" where
  "Executor_Init e ctx =
     bindE (requires (exec_Run_ok (ex_progs e) ctx ''docker'' [''--version'']) ''docker is not installed'') (\<lambda>_.
     bindE (requires (exec_Run_ok (ex_progs e) ctx ''docker'' [''compose'', ''version'']) ''docker compose is not installed'') (\<lambda>_.
     bindE (requires (exec_Run_ok (ex_progs e) ctx ''git'' [''--version'']) ''git is not installed'') (\<lambda>_.
     createWorkDir e)))"

text \<open>The directory is the one the agent was started in.\<close>

definition RunAgent_start :: "'s BootLib \<Rightarrow> env \<Rightarrow> error + string \<Rightarrow> ('d, 'o, 'm) Executor \<Rightarrow> Ctx
    \<Rightarrow> (('d, 'o) Host, AppConfig \<times> ('d, 'o, 'm) Executor) op" where
  "RunAgent_start L env cwd e ctx =
    (let cfg = fst (Load (bl_sys L) env) in
     if cg_AgentServerAPIToken cfg = [] then failE (ErrMsg ''HORIZONX_SERVER_API_TOKEN is missing in .env or system vars'')
     else if cg_AgentServerID cfg = 0 then failE (ErrMsg ''HORIZONX_SERVER_ID is missing or invalid in .env'')
     else bindE (redis_Init L cfg) (\<lambda>_.
       case cwd of
         Inl err \<Rightarrow> failE (Wrapped ''getcwd'' err)
       | Inr dir \<Rightarrow> (let e' = e\<lparr>ex_workDir := dir\<rparr> in
           bindE (wrapE ''executor init'' (Executor_Init e' ctx)) (\<lambda>_. returnE (cfg, e')))))"

section \<open>The state of the connection\<close>

datatype pump = Setup | Looping | Chosen | Busy nat | Taken json | Pinging | Ended "error option"

datatype link_phase = Dialling | Connected | Pausing | Stopped "error option"

datatype frame = TextFrame json | PingFrame | CloseFrame

text \<open>What a goroutine that closes still has to do.\<close>

datatype closer = AwaitDone | Writes | Closes | Clears | Finished

record Link =
  lk_phase :: link_phase
  lk_send :: "json list"
  lk_conn :: "nat option"
  lk_dials :: nat
  lk_closed :: "nat \<Rightarrow> bool"
  lk_ctx :: bool
  lk_gctx :: bool
  lk_read :: pump
  lk_write :: pump
  lk_closer :: "nat \<Rightarrow> closer"
  lk_frames :: "(nat \<times> frame) list"
  lk_panicked :: bool

definition send_size :: nat where "send_size = 256"

definition ErrUnauthorizedConn :: error where
  "ErrUnauthorizedConn = ErrMsg ''connection failed: unauthorized''"

definition Agent_began :: Link where
  "Agent_began = \<lparr>lk_phase = Dialling, lk_send = [], lk_conn = None, lk_dials = 0, lk_closed = (\<lambda>_. False),
     lk_ctx = False, lk_gctx = False, lk_read = Ended None, lk_write = Ended None, lk_closer = (\<lambda>_. Finished),
     lk_frames = [], lk_panicked = False\<rparr>"

text \<open>
  A pump of a session: the reader sets its limits on the connection, then goes round its loop, where
  it has chosen to read or is busy with the connection it reads from; the writer has taken a message or
  is about to ping.
\<close>

section \<open>Its steps\<close>

text \<open>\<open>sendServerOSInfo\<close>: the names of the machine, dropped when the channel is full.\<close>

definition enc_OSInfo :: "OSInfo \<Rightarrow> json" where
  "enc_OSInfo info = JObj [(''hostname'', JStr (os_Hostname info)), (''name'', JStr (os_Name info)),
     (''kernel_version'', JStr (os_KernelVersion info)), (''arch'', JStr (os_Arch info))]"

definition os_info :: "'f Snapshot \<Rightarrow> OSInfo" where
  "os_info m = \<lparr>os_Hostname = SystemHostname m, os_Name = OsName m, os_KernelVersion = KernelVersion m, os_Arch = Arch m\<rparr>"

definition os_info_message :: "string \<Rightarrow> OSInfo \<Rightarrow> json" where
  "os_info_message serverID info = JObj [(''server_id'', JStr serverID), (''event'', JStr ''server_os_info''),
     (''payload'', enc_OSInfo info)]"

definition sendServerOSInfo :: "string \<Rightarrow> OSInfo \<Rightarrow> Link \<Rightarrow> Link" where
  "sendServerOSInfo serverID info s = (if length (lk_send s) < send_size
     then s\<lparr>lk_send := lk_send s @ [os_info_message serverID info]\<rparr> else s)"

text \<open>A connected \<open>dialUp\<close> up to its goroutines.\<close>

definition begin_session :: "string \<Rightarrow> OSInfo \<Rightarrow> Link \<Rightarrow> Link" where
  "begin_session serverID info s = (sendServerOSInfo serverID info (s\<lparr>lk_conn := Some (lk_dials s)\<rparr>))
     \<lparr>lk_dials := Suc (lk_dials s), lk_phase := Connected, lk_gctx := lk_ctx s, lk_read := Setup,
      lk_write := Looping, lk_closer := (lk_closer s)(lk_dials s := AwaitDone)\<rparr>"

definition group_failed :: "Link \<Rightarrow> Link" where
  "group_failed s = s\<lparr>lk_gctx := True\<rparr>"

definition panics :: "Link \<Rightarrow> Link" where
  "panics s = s\<lparr>lk_panicked := True\<rparr>"

definition wrote :: "nat \<Rightarrow> frame \<Rightarrow> Link \<Rightarrow> Link" where
  "wrote c f s = s\<lparr>lk_frames := lk_frames s @ [(c, f)]\<rparr>"

text \<open>
  The context of session \<open>c\<close> is done: its errgroup has failed or ended, or the agent is stopped.
\<close>

definition session_done :: "Link \<Rightarrow> nat \<Rightarrow> bool" where
  "session_done s c \<longleftrightarrow> lk_ctx s \<or> Suc c < lk_dials s \<or> lk_phase s \<noteq> Connected \<or> lk_gctx s"

datatype link_act =
    DialUnauthorized
  | DialFailed
  | DialConnected OSInfo
  | PauseOver
  | PauseStopped
  | ReadDone
  | ReadSetup
  | ReadSelects
  | ReadStarts
  | ReadMessage
  | ReadFails error bool
  | WriteDone
  | TakeMessage
  | Tick
  | WriteOut
  | WriteFails error
  | SessionOver
  | CloserWakes nat
  | CloserWrites nat
  | CloserCloses nat
  | CloserClears nat
  | Stop

text \<open>
  \<open>lstep\<close>: one step, or \<open>None\<close> when it cannot happen. \<open>ReadFails e normal\<close> is an error of
  \<open>ReadMessage\<close>, \<open>normal\<close> that the peer closed with the code for a normal closure.
\<close>

definition guarded :: "bool \<Rightarrow> Link \<Rightarrow> Link option" where
  "guarded b s = (if b then Some s else None)"

fun lstep :: "string \<Rightarrow> Link \<Rightarrow> link_act \<Rightarrow> Link option" where
  "lstep i s DialUnauthorized = guarded (lk_phase s = Dialling) (s\<lparr>lk_phase := Stopped (Some ErrUnauthorizedConn)\<rparr>)"
| "lstep i s DialFailed = guarded (lk_phase s = Dialling) (s\<lparr>lk_phase := Pausing\<rparr>)"
| "lstep i s (DialConnected info) = guarded (lk_phase s = Dialling) (begin_session i info s)"
| "lstep i s PauseOver = guarded (lk_phase s = Pausing) (s\<lparr>lk_phase := Dialling\<rparr>)"
| "lstep i s PauseStopped = guarded (lk_phase s = Pausing \<and> lk_ctx s) (s\<lparr>lk_phase := Stopped None\<rparr>)"
| "lstep i s ReadDone = guarded (lk_read s = Looping \<and> lk_gctx s) (s\<lparr>lk_read := Ended None\<rparr>)"
| "lstep i s ReadSetup = guarded (lk_read s = Setup)
     (if lk_conn s = None then panics s else s\<lparr>lk_read := Looping\<rparr>)"
| "lstep i s ReadSelects = guarded (lk_read s = Looping \<and> \<not> lk_gctx s) (s\<lparr>lk_read := Chosen\<rparr>)"
| "lstep i s ReadStarts = guarded (lk_read s = Chosen)
     (case lk_conn s of None \<Rightarrow> panics s | Some c \<Rightarrow> s\<lparr>lk_read := Busy c\<rparr>)"
| "lstep i s ReadMessage = (case lk_read s of
     Busy c \<Rightarrow> guarded (\<not> lk_closed s c) (s\<lparr>lk_read := Looping\<rparr>) | _ \<Rightarrow> None)"
| "lstep i s (ReadFails e normal) = (case lk_read s of
     Busy c \<Rightarrow> Some (if lk_gctx s \<or> normal then s\<lparr>lk_read := Ended None\<rparr>
       else group_failed (s\<lparr>lk_read := Ended (Some e)\<rparr>)) | _ \<Rightarrow> None)"
| "lstep i s WriteDone = guarded (lk_write s = Looping \<and> lk_gctx s) (s\<lparr>lk_write := Ended None\<rparr>)"
| "lstep i s TakeMessage = (case lk_send s of
     [] \<Rightarrow> None
   | msg # q \<Rightarrow> guarded (lk_write s = Looping) (s\<lparr>lk_send := q, lk_write := Taken msg\<rparr>))"
| "lstep i s Tick = guarded (lk_write s = Looping) (s\<lparr>lk_write := Pinging\<rparr>)"
| "lstep i s WriteOut = (case (lk_write s, lk_conn s) of
     (Taken msg, None) \<Rightarrow> Some (panics s)
   | (Pinging, None) \<Rightarrow> Some (panics s)
   | (Taken msg, Some c) \<Rightarrow> guarded (\<not> lk_closed s c) (wrote c (TextFrame msg) (s\<lparr>lk_write := Looping\<rparr>))
   | (Pinging, Some c) \<Rightarrow> guarded (\<not> lk_closed s c) (wrote c PingFrame (s\<lparr>lk_write := Looping\<rparr>))
   | _ \<Rightarrow> None)"
| "lstep i s (WriteFails e) = (case (lk_write s, lk_conn s) of
     (Taken msg, Some c) \<Rightarrow> Some (group_failed (s\<lparr>lk_write := Ended (Some e)\<rparr>))
   | (Pinging, Some c) \<Rightarrow> Some (group_failed (s\<lparr>lk_write := Ended (Some e)\<rparr>))
   | _ \<Rightarrow> None)"
| "lstep i s SessionOver = (case (lk_read s, lk_write s) of
     (Ended r, Ended w) \<Rightarrow> guarded (lk_phase s = Connected) (s\<lparr>lk_gctx := True, lk_phase := Pausing\<rparr>) | _ \<Rightarrow> None)"
| "lstep i s (CloserWakes c) = guarded (lk_closer s c = AwaitDone \<and> session_done s c)
     (s\<lparr>lk_closer := (lk_closer s)(c := if lk_conn s = None then Finished else Writes)\<rparr>)"
| "lstep i s (CloserWrites c) = (case lk_conn s of
     None \<Rightarrow> guarded (lk_closer s c = Writes) (panics s)
   | Some d \<Rightarrow> guarded (lk_closer s c = Writes)
       ((if lk_closed s d then s else wrote d CloseFrame s)\<lparr>lk_closer := (lk_closer s)(c := Closes)\<rparr>))"
| "lstep i s (CloserCloses c) = (case lk_conn s of
     None \<Rightarrow> guarded (lk_closer s c = Closes) (panics s)
   | Some d \<Rightarrow> guarded (lk_closer s c = Closes)
       (s\<lparr>lk_closed := (lk_closed s)(d := True), lk_closer := (lk_closer s)(c := Clears)\<rparr>))"
| "lstep i s (CloserClears c) = guarded (lk_closer s c = Clears)
     (s\<lparr>lk_conn := None, lk_closer := (lk_closer s)(c := Finished)\<rparr>)"
| "lstep i s Stop = Some (s\<lparr>lk_ctx := True, lk_gctx := True\<rparr>)"

definition link_step :: "string \<Rightarrow> link_act \<Rightarrow> Link \<Rightarrow> Link option" where
  "link_step i a s = (if lk_panicked s then None else lstep i s a)"

fun link_run :: "string \<Rightarrow> link_act list \<Rightarrow> Link \<Rightarrow> Link option" where
  "link_run i [] s = Some s"
| "link_run i (a # steps) s = Option.bind (link_step i a s) (link_run i steps)"


section \<open>What the agent says\<close>

fun in_hand :: "pump \<Rightarrow> json list" where
  "in_hand (Taken msg) = [msg]"
| "in_hand p = []"

fun text_of :: "nat \<times> frame \<Rightarrow> json list" where
  "text_of (c, TextFrame j) = [j]"
| "text_of (c, f) = []"

definition texts :: "Link \<Rightarrow> json list" where
  "texts s = concat (map text_of (lk_frames s)) @ in_hand (lk_write s) @ lk_send s"

definition sessions :: "link_act list \<Rightarrow> OSInfo list" where
  "sessions steps = List.map_filter (\<lambda>a. case a of DialConnected info \<Rightarrow> Some info | _ \<Rightarrow> None) steps"

lemma sessions_simps [simp]:
  "sessions [] = []" "sessions (a # steps) = (case a of DialConnected info \<Rightarrow> info # sessions steps | _ \<Rightarrow> sessions steps)"
  by (simp_all add: sessions_def map_filter_def split: link_act.split)

lemma subseq_drop_one [simp]: "subseq (xs @ ys) (xs @ y # ys)"
  by (intro list_emb_append_mono) (simp_all add: list_emb_Cons)

lemma step_texts:
  assumes "lstep i s a = Some s'"
  shows "(\<exists>info. a = DialConnected info) \<or> subseq (texts s') (texts s)"
  using assms
  by (induction i s a rule: lstep.induct)
    (auto simp: guarded_def texts_def panics_def group_failed_def wrote_def
      split: if_splits pump.splits option.splits list.splits)

lemma step_begins:
  assumes "lstep i s (DialConnected info) = Some s'"
  shows "subseq (texts s') (texts s @ [os_info_message i info])"
proof -
  have "subseq (x @ q) (x @ h @ q @ [m])" "subseq (x @ q @ [m]) (x @ h @ q @ [m])" for x h q and m :: json
    by (intro list_emb_append_mono subseq_drop_many subseq_rev_drop_many subseq_order.refl)+
  with assms show ?thesis
    by (auto simp: guarded_def texts_def begin_session_def sendServerOSInfo_def split: if_splits)
qed

text \<open>How the loop ends.\<close>

definition stop_reason :: "Link \<Rightarrow> link_act list \<Rightarrow> bool" where
  "stop_reason s steps \<longleftrightarrow> (lk_ctx s \<longrightarrow> Stop \<in> set steps) \<and>
     (lk_phase s = Stopped None \<longrightarrow> lk_ctx s) \<and>
     (\<forall>e. lk_phase s = Stopped (Some e) \<longrightarrow> e = ErrUnauthorizedConn \<and> DialUnauthorized \<in> set steps)"

lemma step_reason: "lstep i s a = Some s' \<Longrightarrow> stop_reason s steps \<Longrightarrow> stop_reason s' (steps @ [a])"
  by (induction i s a rule: lstep.induct)
    (auto simp: guarded_def stop_reason_def panics_def group_failed_def wrote_def begin_session_def sendServerOSInfo_def
      split: if_splits pump.splits option.splits list.splits)

lemma link_run_snoc:
  "link_run i (steps @ [a]) s = Option.bind (link_run i steps s) (link_step i a)"
  by (induction steps arbitrary: s) (auto split: Option.bind_splits)

text \<open>
  The agent says nothing but who it is, and gives up for two reasons only: whatever the network
  does and however its goroutines are scheduled, the texts it sends on its connections are the
  descriptions of its machine under its own id, at most one for each connection made and in their
  order, and its loop ends only when the agent is stopped or the control plane refuses its credentials.
\<close>

theorem agent_connection:
  assumes "link_run i steps Agent_began = Some s"
  shows "subseq (texts s) (map (os_info_message i) (sessions steps)) \<and> stop_reason s steps"
  using assms
proof (induction steps arbitrary: s rule: rev_induct)
  case Nil
  then show ?case by (auto simp: texts_def stop_reason_def Agent_began_def)
next
  case (snoc a steps)
  from snoc.prems obtain s1 where s1: "link_run i steps Agent_began = Some s1" "lstep i s1 a = Some s"
    by (auto simp: link_run_snoc link_step_def bind_eq_Some_conv split: if_splits)
  note IH = snoc.IH [OF s1(1)]
  have sess: "sessions (steps @ [a]) = sessions steps @ sessions [a]"
    by (simp add: sessions_def map_filter_def)
  have "subseq (texts s) (texts s1 @ map (os_info_message i) (sessions [a]))"
  proof (cases "\<exists>info. a = DialConnected info")
    case True
    with step_begins [of i s1 _ s] s1(2) show ?thesis by auto
  next
    case False
    with step_texts [OF s1(2)] show ?thesis by (auto intro: subseq_rev_drop_many)
  qed
  moreover have "subseq (texts s1 @ map (os_info_message i) (sessions [a]))
      (map (os_info_message i) (sessions (steps @ [a])))"
    unfolding sess map_append using IH by (simp add: list_emb_append_mono)
  ultimately show ?case using step_reason [OF s1(2)] IH by (blast intro: subseq_order.trans)
qed

section \<open>What the closing goroutine breaks\<close>

text \<open>
  A stopped agent whose writer takes a last message finds no connection: the process panics.
\<close>

definition demo_info :: OSInfo where
  "demo_info = \<lparr>os_Hostname = ''box'', os_Name = ''linux'', os_KernelVersion = ''6.1'', os_Arch = ''amd64''\<rparr>"

lemma stop_may_panic:
  "\<exists>s. link_run i [DialConnected demo_info, ReadSetup, Stop, CloserWakes 0, CloserWrites 0, CloserCloses 0, CloserClears 0,
     TakeMessage, WriteOut] Agent_began = Some s \<and> lk_panicked s"
  by (simp add: link_step_def guarded_def Agent_began_def begin_session_def sendServerOSInfo_def send_size_def
      session_done_def wrote_def panics_def)

text \<open>
  The goroutine reads the shared field again after a write that may take ten seconds; the agent dials
  again after five, and the connection closed is the new one.
\<close>

lemma old_closer_closes_new_connection:
  "\<exists>s. link_run i [DialConnected demo_info, ReadSetup, ReadSelects, ReadStarts, ReadFails ErrDB False, WriteDone, CloserWakes 0,
     CloserWrites 0, SessionOver, PauseOver, DialConnected demo_info, CloserCloses 0] Agent_began = Some s \<and>
     lk_phase s = Connected \<and> \<not> lk_gctx s \<and> lk_conn s = Some 1 \<and> lk_closed s 1 \<and> \<not> lk_closed s 0"
  by (simp add: link_step_def guarded_def Agent_began_def begin_session_def sendServerOSInfo_def send_size_def
      session_done_def wrote_def group_failed_def)

theorem agent_connection_witness:
  "\<exists>s. link_run ''7'' [DialConnected demo_info, TakeMessage, WriteOut] Agent_began = Some s \<and>
     texts s = [os_info_message ''7'' demo_info] \<and> subseq (texts s) [os_info_message ''7'' demo_info]"
proof -
  obtain s where s: "link_run ''7'' [DialConnected demo_info, TakeMessage, WriteOut] Agent_began = Some s"
      "texts s = [os_info_message ''7'' demo_info]"
    by (simp add: link_step_def guarded_def Agent_began_def begin_session_def sendServerOSInfo_def send_size_def
        wrote_def texts_def)
  with agent_connection [OF s(1)] show ?thesis by simp
qed

end
