(* ===== verification/Wire.thy ===== *)
theory Wire
  imports AgentConn AgentHub
begin

text \<open>
  The texts on the WebSockets: how \<open>readPump\<close> of \<open>internal/adapters/ws/agentws/client.go\<close> and
  \<open>internal/adapters/ws/userws/client.go\<close> reads them, what the agent's side does with the control
  plane's, and that the description an agent sends of its machine (\<open>AgentConn\<close>) is what the control
  plane keeps of it (\<open>AgentHub\<close>). A text is its JSON document, or none when it is not JSON.
\<close>

section \<open>\<open>json.Unmarshal\<close> into a struct\<close>

text \<open>Members are matched as the decoder of requests does, but unknown ones are skipped.\<close>

definition known_members :: "string list \<Rightarrow> (string \<times> json) list \<Rightarrow> (string \<times> json) list" where
  "known_members fs kvs = List.map_filter (\<lambda>(k, j). map_option (\<lambda>f. (f, j)) (resolve_field fs k)) kvs"

definition unmarshal_members :: "string list \<Rightarrow> json \<Rightarrow> error + (string \<times> json) list" where
  "unmarshal_members fs j = (case j of JObj kvs \<Rightarrow> Inr (known_members fs kvs) | JNull \<Rightarrow> Inr [] | _ \<Rightarrow> Inl bad_json)"

text \<open>A null leaves its field alone, but not a \<open>json.RawMessage\<close>.\<close>

definition text_member :: "string \<Rightarrow> (string \<times> json) list \<Rightarrow> error + string" where
  "text_member k ms = str_member k (filter (\<lambda>(_, j). j \<noteq> JNull) ms)"

definition raw_member :: "string \<Rightarrow> (string \<times> json) list \<Rightarrow> json option" where
  "raw_member k ms = map_of (rev ms) k"

section \<open>The agent's messages\<close>

definition dec_OSInfo :: "json \<Rightarrow> error + OSInfo" where
  "dec_OSInfo j = andThen (unmarshal_members [''hostname'', ''name'', ''kernel_version'', ''arch''] j) (\<lambda>m.
     andThen (text_member ''hostname'' m) (\<lambda>h.
     andThen (text_member ''name'' m) (\<lambda>n.
     andThen (text_member ''kernel_version'' m) (\<lambda>k.
     andThen (text_member ''arch'' m) (\<lambda>a.
     Inr \<lparr>os_Hostname = h, os_Name = n, os_KernelVersion = k, os_Arch = a\<rparr>)))))"

text \<open>\<open>WsAgentMessage\<close>: the id is decoded, and not looked at.\<close>

definition dec_WsAgentMessage :: "(string \<Rightarrow> uuid option) \<Rightarrow> json \<Rightarrow> error + uuid \<times> string \<times> json option" where
  "dec_WsAgentMessage uuid_Parse j = andThen (unmarshal_members [''server_id'', ''event'', ''payload''] j) (\<lambda>m.
     andThen (dec_uuid uuid_Parse (json_get ''server_id'' (filter (\<lambda>(_, j). j \<noteq> JNull) m))) (\<lambda>i.
     andThen (text_member ''event'' m) (\<lambda>e.
     Inr (i, e, raw_member ''payload'' m))))"

text \<open>
  What a text makes the reader do: nothing when it is no message. The service stores the description
  that was decoded.
\<close>

definition read_agent_text :: "(string \<Rightarrow> uuid option) \<Rightarrow> json option \<Rightarrow> agent_message option" where
  "read_agent_text uuid_Parse text = (case unmarshal (dec_WsAgentMessage uuid_Parse) text of
     Inl _ \<Rightarrow> None
   | Inr (_, ev, payload) \<Rightarrow> Some (if ev = ''server_os_info''
       then ServerOSInfo (case unmarshal dec_OSInfo payload of Inl _ \<Rightarrow> None | Inr info \<Rightarrow> Some (enc_OSInfo info))
       else UnknownEvent))"

text \<open>\<open>HttpClient.UpdateServerOSInfo\<close>, the same description as a request.\<close>

definition UpdateServerOSInfo :: "'w HttpClient \<Rightarrow> Ctx \<Rightarrow> gotime \<Rightarrow> OSInfo \<Rightarrow> ('w, unit) op" where
  "UpdateServerOSInfo c ctx now info = do_request c ctx now ''POST'' [''server'', ''os-info''] (Some (enc_OSInfo info)) 201 ''update server os info''"

section \<open>The dashboard's messages\<close>

definition dec_WsClientMessage :: "json \<Rightarrow> error + string \<times> string" where
  "dec_WsClientMessage j = andThen (unmarshal_members [''type'', ''channel'', ''event'', ''payload''] j) (\<lambda>m.
     andThen (text_member ''type'' m) (\<lambda>t.
     andThen (text_member ''channel'' m) (\<lambda>c.
     andThen (text_member ''event'' m) (\<lambda>_. Inr (t, c)))))"

definition read_client_text :: "json option \<Rightarrow> client_message option" where
  "read_client_text text = (case unmarshal dec_WsClientMessage text of
     Inl _ \<Rightarrow> None
   | Inr (t, ch) \<Rightarrow> Some (if t = ''subscribe'' then Subscribe ch
       else if t = ''unsubscribe'' then Unsubscribe ch else if t = ''ping'' then Ping else UnknownType))"

section \<open>The writing goroutine\<close>

text \<open>
  \<open>writePump\<close> of both: the case of its \<open>select\<close>, with the messages waiting and whether the channel is
  closed and empty; the frames it writes and whether it goes on. A write may fail.
\<close>

datatype write_case = WriteCtxDone | WriteMessage | WriteTick

definition pump_write :: "write_case \<Rightarrow> bool \<Rightarrow> bool \<Rightarrow> json list \<Rightarrow> json list \<times> frame list \<times> bool" where
  "pump_write c closed ok q = (case c of
     WriteCtxDone \<Rightarrow> (q, [], False)
   | WriteMessage \<Rightarrow> (case q of
       [] \<Rightarrow> if closed then ([], if ok then [CloseFrame] else [], False) else ([], [], True)
     | msg # rest \<Rightarrow> if ok then (rest, [TextFrame msg], True) else (rest, [], False))
   | WriteTick \<Rightarrow> if ok then (q, [PingFrame], True) else (q, [], False))"

section \<open>What an agent says of its machine is what is kept\<close>

lemma dec_enc_OSInfo: "dec_OSInfo (enc_OSInfo info) = Inr info"
  by (simp add: dec_OSInfo_def enc_OSInfo_def unmarshal_members_def known_members_def map_filter_def resolve_field_def
      andThen_def text_member_def str_member_def json_get_def)

lemma read_os_info:
  assumes "uuid_Parse i = Some u"
  shows "read_agent_text uuid_Parse (Some (os_info_message i info)) = Some (ServerOSInfo (Some (enc_OSInfo info)))"
  using dec_enc_OSInfo [of info]
  by (simp add: read_agent_text_def os_info_message_def unmarshal_def dec_WsAgentMessage_def unmarshal_members_def
      known_members_def map_filter_def resolve_field_def andThen_def text_member_def str_member_def json_get_def
      raw_member_def assms enc_OSInfo_def)

text \<open>The control plane reads the texts of a connection in their order.\<close>

definition hears :: "(string \<Rightarrow> uuid option) \<Rightarrow> nat \<Rightarrow> json list \<Rightarrow> AgentHub \<Rightarrow> AgentHub" where
  "hears uuid_Parse c js h = foldl (\<lambda>h j. case read_agent_text uuid_Parse (Some j) of
     None \<Rightarrow> h | Some m \<Rightarrow> agent_readPump c m h) h js"

lemma hears_one:
  assumes "uuid_Parse i = Some u" and "no_faults (ah_db h)"
  shows "no_faults (ah_db (hears uuid_Parse c [os_info_message i info] h)) \<and>
    ah_id (hears uuid_Parse c [os_info_message i info] h) = ah_id h \<and>
    map s_OSInfo (filter (\<lambda>r. s_ID r = ah_id h c \<and> live_server r) (w_servers (ah_db (hears uuid_Parse c [os_info_message i info] h)))) =
      map (\<lambda>_. Some (enc_OSInfo info)) (filter (\<lambda>r. s_ID r = ah_id h c \<and> live_server r) (w_servers (ah_db h)))"
proof -
  obtain now where u: "no_faults (snd (ServerService_UpdateOSInfo (ah_id h c) (enc_OSInfo info) (ah_db h)))"
      "w_servers (snd (ServerService_UpdateOSInfo (ah_id h c) (enc_OSInfo info) (ah_db h))) =
        update_where (\<lambda>r. s_ID r = ah_id h c \<and> live_server r)
          (\<lambda>r. r\<lparr>s_OSInfo := Some (enc_OSInfo info), s_UpdatedAt := now\<rparr>) (w_servers (ah_db h))"
    by (rule UpdateOSInfo_result [OF assms(2)])
  have upd: "map s_OSInfo (filter P (update_where P f rows)) = map (\<lambda>_. Some (enc_OSInfo info)) (filter P rows)"
    if "\<And>r. P r \<Longrightarrow> P (f r) \<and> s_OSInfo (f r) = Some (enc_OSInfo info)" for P f rows
    by (induction rows) (use that in \<open>auto simp: update_where_def\<close>)
  have h1: "hears uuid_Parse c [os_info_message i info] h = agent_readPump c (ServerOSInfo (Some (enc_OSInfo info))) h"
    by (simp add: hears_def read_os_info [where uuid_Parse = uuid_Parse and i = i and u = u, OF assms(1)])
  show ?thesis
    unfolding h1 using u(1) by (simp add: u(2), intro upd) (simp add: live_server_def)
qed


text \<open>
  After any of the texts an agent may send, the last description is what the table holds for its
  server, field by field.
\<close>

theorem os_info_kept:
  assumes "uuid_Parse i = Some u" and "no_faults (ah_db h)" and "infos \<noteq> []"
    and "h' = hears uuid_Parse c (map (os_info_message i) infos) h"
    and "r \<in> set (w_servers (ah_db h'))" and "s_ID r = ah_id h c" and "live_server r"
  shows "s_OSInfo r = Some (enc_OSInfo (last infos)) \<and>
    unmarshal dec_OSInfo (s_OSInfo r) = Inr (last infos)"
proof -
  obtain front info where infos: "infos = front @ [info]" using assms(3) by (cases infos rule: rev_cases) auto
  let ?h1 = "hears uuid_Parse c (map (os_info_message i) front) h"
  have "no_faults (ah_db ?h1) \<and> ah_id ?h1 = ah_id h"
  proof (induction front rule: rev_induct)
    case Nil
    with assms(2) show ?case by (simp add: hears_def)
  next
    case (snoc x front)
    then show ?case
      using hears_one [where uuid_Parse = uuid_Parse and i = i and u = u, OF assms(1), of "hears uuid_Parse c (map (os_info_message i) front) h" c x]
      by (simp add: hears_def)
  qed
  then have front: "no_faults (ah_db ?h1)" "ah_id ?h1 = ah_id h" by simp_all
  have h': "h' = hears uuid_Parse c [os_info_message i info] ?h1"
    by (simp add: assms(4) infos hears_def)
  have "s_OSInfo r \<in> set (map s_OSInfo (filter (\<lambda>r. s_ID r = ah_id ?h1 c \<and> live_server r) (w_servers (ah_db h'))))"
    using assms(5-7) front(2) by simp
  then have "s_OSInfo r = Some (enc_OSInfo info)"
    unfolding h' using hears_one [where uuid_Parse = uuid_Parse and i = i and u = u, OF assms(1) front(1), of c info] by auto
  then show ?thesis by (simp add: infos unmarshal_def dec_enc_OSInfo)
qed


end
