(* ===== verification/Cli.thy ===== *)
theory Cli
  imports Boot InstallServer InstallAgent Upgrade
begin

text \<open>
  The command line: the subcommands of \<open>cmd/horizonx/main.go\<close> with the flags of
  \<open>InstallServerFlags\<close> and \<open>InstallAgentFlags\<close>, read as Go's package flag reads them, and the tool
  \<open>cmd/migrate/main.go\<close>. A command line is what the process does: a command with its options, or
  an exit status with the line printed.
\<close>

section \<open>Go's flags\<close>

datatype flag_kind = StringFlag | BoolFlag | IntFlag

datatype flag_value = FString string | FBool bool | FInt int

text \<open>\<open>strconv.ParseBool\<close>.\<close>

definition ParseBool :: "string \<Rightarrow> bool option" where
  "ParseBool s = (if s \<in> {''1'', ''t'', ''T'', ''true'', ''TRUE'', ''True''} then Some True
     else if s \<in> {''0'', ''f'', ''F'', ''false'', ''FALSE'', ''False''} then Some False else None)"

text \<open>\<open>strconv.ParseInt(s, 0, 64)\<close>: the prefix gives the base, underscores may separate digits.\<close>

definition digit_value :: "char \<Rightarrow> nat option" where
  "digit_value c = (let n = of_char c :: nat; l = of_char (lower_char c) :: nat in
     if 48 \<le> n \<and> n \<le> 57 then Some (n - 48) else if 97 \<le> l \<and> l \<le> 122 then Some (l - 87) else None)"

fun digits_in :: "nat \<Rightarrow> string \<Rightarrow> nat \<Rightarrow> nat option" where
  "digits_in b [] acc = Some acc"
| "digits_in b (c # cs) acc = (if c = CHR ''_'' then digits_in b cs acc
     else case digit_value c of None \<Rightarrow> None | Some d \<Rightarrow> if d < b then digits_in b cs (acc * b + d) else None)"

fun underscores_from :: "bool \<Rightarrow> char \<Rightarrow> string \<Rightarrow> bool" where
  "underscores_from hex saw [] = (saw \<noteq> CHR ''_'')"
| "underscores_from hex saw (c # cs) =
    (if is_digit c \<or> hex \<and> (case digit_value c of Some d \<Rightarrow> d < 16 | None \<Rightarrow> False) then underscores_from hex CHR ''0'' cs
     else if c = CHR ''_'' then saw = CHR ''0'' \<and> underscores_from hex c cs
     else saw \<noteq> CHR ''_'' \<and> underscores_from hex CHR ''!'' cs)"

text \<open>The base of a number and the digits after its prefix.\<close>

definition number_base :: "string \<Rightarrow> nat \<times> string" where
  "number_base s = (if s \<noteq> [] \<and> hd s = CHR ''0'' then
       (if 3 \<le> length s \<and> lower_char (s ! 1) = CHR ''b'' then (2, drop 2 s)
        else if 3 \<le> length s \<and> lower_char (s ! 1) = CHR ''o'' then (8, drop 2 s)
        else if 3 \<le> length s \<and> lower_char (s ! 1) = CHR ''x'' then (16, drop 2 s)
        else (8, drop 1 s))
     else (10, s))"

definition underscores_ok :: "string \<Rightarrow> bool" where
  "underscores_ok s = (if 2 \<le> length s \<and> hd s = CHR ''0'' \<and> lower_char (s ! 1) \<in> set ''box''
     then underscores_from (lower_char (s ! 1) = CHR ''x'') CHR ''0'' (drop 2 s)
     else underscores_from False CHR ''^'' s)"

definition ParseInt0 :: "string \<Rightarrow> int option" where
  "ParseInt0 s =
    (let (neg, t) = (case s of c # cs \<Rightarrow> if c = CHR ''-'' then (True, cs)
           else if c = CHR ''+'' then (False, cs) else (False, s) | [] \<Rightarrow> (False, []));
         (b, ds) = number_base t
     in if t = [] \<or> CHR ''_'' \<in> set ds \<and> \<not> underscores_ok t then None
        else case digits_in b ds 0 of
          None \<Rightarrow> None
        | Some n \<Rightarrow> let v = (if neg then - int n else int n) in
            if - (2 ^ 63) \<le> v \<and> v < 2 ^ 63 then Some v else None)"

fun flag_set :: "flag_kind \<Rightarrow> string \<Rightarrow> flag_value option" where
  "flag_set StringFlag v = Some (FString v)"
| "flag_set BoolFlag v = map_option FBool (ParseBool v)"
| "flag_set IntFlag v = map_option FInt (ParseInt0 v)"

text \<open>
  \<open>FlagSet.Parse\<close> with \<open>ExitOnError\<close>: the values set and the arguments that are left, or the exit
  status with the reason. The arguments end at the first that is no flag.
\<close>

type_synonym flag_values = "string \<Rightarrow> flag_value option"

definition flag_name :: "string \<Rightarrow> string" where
  "flag_name s = (if s ! 1 = CHR ''-'' then drop 2 s else drop 1 s)"

function parse_flags :: "(string \<times> flag_kind) list \<Rightarrow> string list \<Rightarrow> flag_values \<Rightarrow> (int \<times> string) + flag_values \<times> string list" where
  "parse_flags specs [] vals = Inr (vals, [])"
| "parse_flags specs (s # args) vals =
    (if length s < 2 \<or> hd s \<noteq> CHR ''-'' then Inr (vals, s # args)
     else if s = ''--'' then Inr (vals, args)
     else let field = flag_name s; name = takeWhile (\<lambda>c. c \<noteq> CHR ''='') field in
       if field = [] \<or> hd field = CHR ''-'' \<or> hd field = CHR ''='' then Inl (2, ''bad flag syntax: '' @ s)
       else case map_of specs name of
         None \<Rightarrow> if name = ''help'' \<or> name = ''h'' then Inl (0, ''usage'')
           else Inl (2, ''flag provided but not defined: -'' @ name)
       | Some kind \<Rightarrow>
          if CHR ''='' \<in> set field then
            (case flag_set kind (drop (Suc (length name)) field) of
               None \<Rightarrow> Inl (2, ''invalid value for flag -'' @ name)
             | Some v \<Rightarrow> parse_flags specs args (vals(name \<mapsto> v)))
          else if kind = BoolFlag then parse_flags specs args (vals(name \<mapsto> FBool True))
          else (case args of
             [] \<Rightarrow> Inl (2, ''flag needs an argument: -'' @ name)
           | value # rest \<Rightarrow> (case flag_set kind value of
               None \<Rightarrow> Inl (2, ''invalid value for flag -'' @ name)
             | Some v \<Rightarrow> parse_flags specs rest (vals(name \<mapsto> v)))))"
  by pat_completeness auto
termination by (relation "measure (length \<circ> fst \<circ> snd)") auto

declare parse_flags.simps(2) [simp del]

definition string_flag :: "flag_values \<Rightarrow> string \<Rightarrow> string" where
  "string_flag vals k = (case vals k of Some (FString s) \<Rightarrow> s | _ \<Rightarrow> [])"

definition bool_flag :: "flag_values \<Rightarrow> string \<Rightarrow> bool" where
  "bool_flag vals k = (case vals k of Some (FBool b) \<Rightarrow> b | _ \<Rightarrow> False)"

definition int_flag :: "flag_values \<Rightarrow> string \<Rightarrow> int" where
  "int_flag vals k = (case vals k of Some (FInt n) \<Rightarrow> n | _ \<Rightarrow> 0)"

section \<open>Installing\<close>

text \<open>The arguments that are left are not looked at.\<close>

definition server_flags :: "(string \<times> flag_kind) list" where
  "server_flags = [(''dir'', StringFlag), (''host'', StringFlag), (''admin'', StringFlag),
     (''admin-password'', StringFlag), (''origin'', StringFlag), (''generate-only'', BoolFlag), (''yes'', BoolFlag),
     (''reset-volumes'', BoolFlag)]"

definition server_options :: "flag_values \<Rightarrow> InstallServerOptions" where
  "server_options v = \<lparr>op_Dir = string_flag v ''dir'', op_Host = string_flag v ''host'',
     op_Admin = string_flag v ''admin'', op_AdminPass = string_flag v ''admin-password'',
     op_AllowedOrigins = string_flag v ''origin'', op_GenerateOnly = bool_flag v ''generate-only'',
     op_Yes = bool_flag v ''yes'', op_ResetVolumes = bool_flag v ''reset-volumes''\<rparr>"

definition InstallServerFlags :: "string list \<Rightarrow> (int \<times> string) + InstallServerOptions" where
  "InstallServerFlags args = map_sum id (server_options \<circ> fst) (parse_flags server_flags args Map.empty)"

definition agent_flags :: "(string \<times> flag_kind) list" where
  "agent_flags = [(''server'', StringFlag), (''token'', StringFlag), (''yes'', BoolFlag)]"

definition agent_options :: "flag_values \<Rightarrow> InstallAgentOptions" where
  "agent_options v = \<lparr>oa_Server = string_flag v ''server'', oa_Token = string_flag v ''token'',
     oa_Yes = bool_flag v ''yes''\<rparr>"

definition InstallAgentFlags :: "string list \<Rightarrow> (int \<times> string) + InstallAgentOptions" where
  "InstallAgentFlags args = map_sum id (agent_options \<circ> fst) (parse_flags agent_flags args Map.empty)"

section \<open>The subcommands\<close>

datatype command =
    InstallServerCmd InstallServerOptions
  | InstallAgentCmd InstallAgentOptions
  | ServerCmd
  | AgentCmd
  | UpgradeCmd
  | MigrateCmd string string string int
  | VersionCmd
  | HelpCmd

datatype cmdline = Runs command | Exits int string

definition runInstall :: "string list \<Rightarrow> cmdline" where
  "runInstall args = (case args of
     [] \<Rightarrow> Exits 1 ''install requires a component: server | agent''
   | target # rest \<Rightarrow>
      if target = ''server'' then (case InstallServerFlags rest of
          Inl (code, msg) \<Rightarrow> Exits code msg | Inr opts \<Rightarrow> Runs (InstallServerCmd opts))
      else if target = ''agent'' then (case InstallAgentFlags rest of
          Inl (code, msg) \<Rightarrow> Exits code msg | Inr opts \<Rightarrow> Runs (InstallAgentCmd opts))
      else Exits 1 (''FATAL: unknown install target: '' @ target @ '' (expected server | agent)''))"

definition migrate_flags :: "(string \<times> flag_kind) list" where
  "migrate_flags = [(''env-file'', StringFlag), (''op'', StringFlag), (''steps'', IntFlag), (''dsn'', StringFlag)]"

definition runMigrate :: "string list \<Rightarrow> cmdline" where
  "runMigrate args = (case parse_flags migrate_flags args Map.empty of
     Inl (code, msg) \<Rightarrow> Exits code msg
   | Inr (v, _) \<Rightarrow> Runs (MigrateCmd (string_flag v ''env-file'') (string_flag v ''dsn'') (string_flag v ''op'')
       (int_flag v ''steps'')))"

definition horizonx_main :: "string list \<Rightarrow> cmdline" where
  "horizonx_main argv = (case drop 1 argv of
     [] \<Rightarrow> Exits 1 ''usage''
   | sub # args \<Rightarrow>
      if sub = ''install'' then runInstall args
      else if sub = ''server'' then Runs ServerCmd
      else if sub = ''agent'' then Runs AgentCmd
      else if sub \<in> {''version'', ''--version'', ''-v''} then Runs VersionCmd
      else if sub = ''upgrade'' then Runs UpgradeCmd
      else if sub = ''migrate'' then runMigrate args
      else if sub \<in> {''help'', ''--help'', ''-h''} then Runs HelpCmd
      else Exits 1 (''unknown command: '' @ sub))"

text \<open>The end of \<open>main\<close>.\<close>

definition exit_status :: "error + unit \<Rightarrow> int" where
  "exit_status r = (case r of Inl _ \<Rightarrow> 1 | Inr _ \<Rightarrow> 0)"

section \<open>The migration tool\<close>

definition migrate_main :: "'s BootLib \<Rightarrow> string list \<Rightarrow> 's Plane \<Rightarrow> int \<times> 's Plane" where
  "migrate_main L args p = (case parse_flags migrate_flags args Map.empty of
     Inl (code, msg) \<Rightarrow> (code, p)
   | Inr (v, _) \<Rightarrow>
      (let opn = string_flag v ''op''; steps = int_flag v ''steps'';
           (r, p') = bindE (load_env L (string_flag v ''env-file'')) (\<lambda>_ p.
             let dsn = resolve_dsn (string_flag v ''dsn'') p
             in if opn = [] then (Inl (ErrMsg ''Error: -op is required''), p)
                else if dsn = [] then (Inl (ErrMsg ''Error: -dsn is required (or set DATABASE_URL)''), p)
                else if opn = ''force'' \<and> steps = 0 then (Inl (ErrMsg ''Error: -steps is required for force operation''), p)
                else bindE (on_db (open_migrate L dsn)) (\<lambda>m. migrate_op m opn steps) p) p
       in (exit_status r, p')))"

section \<open>Lemmas\<close>

text \<open>Both migration tools do the same.\<close>

lemma migrate_tools_agree:
  assumes "runMigrate args = Runs (MigrateCmd envFile dsn opn steps)"
    and "RunMigrate L envFile dsn opn steps p = (r, p')"
  shows "migrate_main L args p = (exit_status r, p')"
proof -
  from assms(1) obtain v rest where v: "parse_flags migrate_flags args Map.empty = Inr (v, rest)"
      "envFile = string_flag v ''env-file''" "dsn = string_flag v ''dsn''" "opn = string_flag v ''op''"
      "steps = int_flag v ''steps''"
    by (auto simp: runMigrate_def split: sum.splits prod.splits)
  show ?thesis
    using assms(2) unfolding migrate_main_def RunMigrate_def v
    by (auto simp: bindE_def exit_status_def Let_def split: sum.splits prod.splits if_splits)
qed

text \<open>Options written as flags are read back, with one dash or two.\<close>

definition flag_text :: "bool \<Rightarrow> string \<Rightarrow> string \<Rightarrow> string" where
  "flag_text two k v = (if two then ''--'' else ''-'') @ k @ ''='' @ v"

definition bool_text :: "bool \<Rightarrow> string" where
  "bool_text b = (if b then ''true'' else ''false'')"

definition server_args :: "bool \<Rightarrow> InstallServerOptions \<Rightarrow> string list" where
  "server_args two opts = map (\<lambda>(k, v). flag_text two k v)
     [(''dir'', op_Dir opts), (''host'', op_Host opts), (''admin'', op_Admin opts),
      (''admin-password'', op_AdminPass opts), (''origin'', op_AllowedOrigins opts),
      (''generate-only'', bool_text (op_GenerateOnly opts)), (''yes'', bool_text (op_Yes opts)),
      (''reset-volumes'', bool_text (op_ResetVolumes opts))]"

definition plain_name :: "string \<Rightarrow> bool" where
  "plain_name k \<longleftrightarrow> k \<noteq> [] \<and> hd k \<noteq> CHR ''-'' \<and> CHR ''='' \<notin> set k"

lemma parse_flag_text:
  assumes "plain_name k" and "map_of specs k = Some kind" and "flag_set kind v = Some x"
  shows "parse_flags specs (flag_text two k v # args) vals = parse_flags specs args (vals(k \<mapsto> x))"
proof -
  from assms(1) obtain c cs where k: "k = c # cs" "c \<noteq> CHR ''-''" "c \<noteq> CHR ''=''" "CHR ''='' \<notin> set cs"
    by (cases k) (auto simp: plain_name_def)
  have name: "takeWhile (\<lambda>c. c \<noteq> CHR ''='') (c # cs @ CHR ''='' # v) = k"
    using k by (auto simp: takeWhile_append takeWhile_eq_all_conv [THEN iffD2])
  have field: "flag_name (flag_text two k v) = c # cs @ CHR ''='' # v"
    using k(2) by (simp add: flag_name_def flag_text_def k(1))
  show ?thesis
    using assms(2,3) k name field
    by (subst parse_flags.simps(2)) (auto simp: Let_def flag_text_def)
qed

lemma ParseBool_text: "flag_set BoolFlag (bool_text b) = Some (FBool b)"
  by (simp add: bool_text_def ParseBool_def)

lemma server_flag_kinds:
  "map_of server_flags ''dir'' = Some StringFlag" "map_of server_flags ''host'' = Some StringFlag"
  "map_of server_flags ''admin'' = Some StringFlag" "map_of server_flags ''admin-password'' = Some StringFlag"
  "map_of server_flags ''origin'' = Some StringFlag" "map_of server_flags ''generate-only'' = Some BoolFlag"
  "map_of server_flags ''yes'' = Some BoolFlag" "map_of server_flags ''reset-volumes'' = Some BoolFlag"
  by (simp_all add: server_flags_def)

theorem server_flags_read_back: "InstallServerFlags (server_args two opts) = Inr opts"
  by (simp add: InstallServerFlags_def server_args_def parse_flag_text [of _ server_flags] plain_name_def
      server_flag_kinds ParseBool_text server_options_def string_flag_def bool_flag_def del: flag_set.simps(2))

text \<open>
  A value after a space does not turn a switch off: it ends the flags, and what follows is ignored.
\<close>

lemma switch_value_ignored:
  "InstallServerFlags [''--reset-volumes'', ''false'', ''--generate-only''] =
     Inr (server_options [''reset-volumes'' \<mapsto> FBool True])"
  by (simp add: InstallServerFlags_def server_flags_def flag_name_def parse_flags.simps)

end
