(* ===== verification/Observability.thy ===== *)
theory Observability
  imports Router
begin

text \<open>
  What the control plane counts and logs about its requests: the Prometheus registry of
  \<open>internal/adapters/http/metrics/registry.go\<close>, the two observing middlewares
  (\<open>internal/adapters/http/metrics_middleware.go\<close>, \<open>middleware/requestlog.go\<close>) and their place in
  \<open>NewRouter\<close>. A counter vector is a function of its labels, a histogram the list of its
  observations. The text a scrape is answered with is package promhttp's, a parameter.
\<close>

section \<open>The registry\<close>

record Registry =
  mr_httpRequests :: "string \<times> string \<times> string \<Rightarrow> nat"
  mr_httpDuration :: "string \<times> string \<Rightarrow> int list"
  mr_jobPending :: int
  mr_jobRunning :: int
  mr_jobSucceeded :: int
  mr_jobFailed :: int
  mr_jobTotal :: int
  mr_serverOnline :: int

definition NewRegistry :: Registry where
  "NewRegistry = \<lparr>mr_httpRequests = (\<lambda>_. 0), mr_httpDuration = (\<lambda>_. []), mr_jobPending = 0, mr_jobRunning = 0,
     mr_jobSucceeded = 0, mr_jobFailed = 0, mr_jobTotal = 0, mr_serverOnline = 0\<rparr>"

definition ObserveRequest :: "string \<Rightarrow> string \<Rightarrow> string \<Rightarrow> int \<Rightarrow> Registry \<Rightarrow> Registry" where
  "ObserveRequest m path status dur g = g\<lparr>
     mr_httpRequests := (mr_httpRequests g)((m, path, status) := Suc (mr_httpRequests g (m, path, status))),
     mr_httpDuration := (mr_httpDuration g)((m, path) := mr_httpDuration g (m, path) @ [dur])\<rparr>"

text \<open>A count that fails leaves its gauges as they were.\<close>

definition Refresh :: "Registry \<Rightarrow> world \<Rightarrow> Registry \<times> world" where
  "Refresh g w =
    (let (counts, w1) = JobRepo_CountsByStatus w;
         g1 = (case counts of Inl _ \<Rightarrow> g
           | Inr c \<Rightarrow> g\<lparr>mr_jobPending := c_Queued c, mr_jobRunning := c_Running c, mr_jobSucceeded := c_Success c,
               mr_jobFailed := c_Failed c, mr_jobTotal := c_Total c\<rparr>);
         (online, w2) = ServerRepo_CountOnline w1
     in (case online of Inl _ \<Rightarrow> g1 | Inr n \<Rightarrow> g1\<lparr>mr_serverOnline := n\<rparr>, w2))"

section \<open>The observing middlewares\<close>

record AccessLine =
  al_method :: string
  al_path :: string
  al_status :: int
  al_duration_ms :: int
  al_remote :: string

record Observed =
  os_world :: world
  os_registry :: Registry
  os_access :: "AccessLine list"

text \<open>\<open>http.StatusText\<close>, for the codes the control plane answers with.\<close>

definition StatusText :: "int \<Rightarrow> string" where
  "StatusText code = (case map_of
     [(101, ''Switching Protocols''), (200, ''OK''), (201, ''Created''), (202, ''Accepted''), (204, ''No Content''),
      (301, ''Moved Permanently''), (307, ''Temporary Redirect''), (400, ''Bad Request''), (401, ''Unauthorized''),
      (403, ''Forbidden''), (404, ''Not Found''), (405, ''Method Not Allowed''), (409, ''Conflict''),
      (413, ''Request Entity Too Large''), (415, ''Unsupported Media Type''), (422, ''Unprocessable Entity''),
      (429, ''Too Many Requests''), (500, ''Internal Server Error''), (502, ''Bad Gateway''),
      (503, ''Service Unavailable'')] code of Some t \<Rightarrow> t | None \<Rightarrow> [])"

definition url_path :: "Request \<Rightarrow> string" where
  "url_path r = concat (map (\<lambda>s. CHR ''/'' # s) (rq_Path r))"

type_synonym observed_handler = "Request \<Rightarrow> Observed \<Rightarrow> Reply \<times> Observed"

definition unobserved :: "http_handler \<Rightarrow> observed_handler" where
  "unobserved h r obs = (case h r (os_world obs) of (rep, w) \<Rightarrow> (rep, obs\<lparr>os_world := w\<rparr>))"

text \<open>
  \<open>statusWriter\<close> and \<open>statusRecorder\<close>: a handler that wrote nothing has answered 200. A panic passes
  both middlewares by.
\<close>

definition recorded_status :: "Reply \<Rightarrow> int" where
  "recorded_status rep = (if re_Status rep = 0 then 200 else re_Status rep)"

definition metricsMiddleware :: "observed_handler \<Rightarrow> observed_handler" where
  "metricsMiddleware next r obs =
    (let start = w_now (os_world obs); (rep, o1) = next r obs
     in (rep, if rep = aborted then o1
          else o1\<lparr>os_registry := ObserveRequest (rq_Method r) (url_path r) (StatusText (recorded_status rep))
            (w_now (os_world o1) - start) (os_registry o1)\<rparr>))"

definition RequestLog :: "observed_handler \<Rightarrow> observed_handler" where
  "RequestLog next r obs =
    (let start = w_now (os_world obs); (rep, o1) = next r obs
     in (rep, if rep = aborted then o1
          else o1\<lparr>os_access := os_access o1 @ [\<lparr>al_method = rq_Method r, al_path = url_path r,
            al_status = recorded_status rep, al_duration_ms = (w_now (os_world o1) - start) div 1000000,
            al_remote = rq_RemoteAddr r\<rparr>]\<rparr>))"

section \<open>The router with its observers\<close>

definition metrics_handler :: "(Registry \<Rightarrow> string) \<Rightarrow> observed_handler" where
  "metrics_handler exposition r obs = (case Refresh (os_registry obs) (os_world obs) of
     (g, w) \<Rightarrow> (text_reply (exposition g), obs\<lparr>os_registry := g, os_world := w\<rparr>))"

text \<open>The scrape works on the registry; \<open>None\<close> is a request no route matches.\<close>

definition observed_mux :: "RouterDeps \<Rightarrow> (Registry \<Rightarrow> string) \<Rightarrow> Request \<Rightarrow> observed_handler option" where
  "observed_mux d exposition r =
    (if method_matches ''GET'' (rq_Method r) \<and> rq_Path r = [''metrics''] then Some (metrics_handler exposition)
     else map_option (\<lambda>rt. unobserved (\<lambda>r. rt_Handler rt (bind_path rt r))) (find_route (routes d) r))"

definition with_cors :: "Config \<Rightarrow> observed_handler \<Rightarrow> observed_handler" where
  "with_cors cfg next r obs = (if rq_Method r = ''OPTIONS''
     then (fst (CORS cfg (\<lambda>_ w. (aborted, w)) r (os_world obs)), obs)
     else (case next r obs of (rep, obs') \<Rightarrow> (fst (CORS cfg (\<lambda>_ w. (rep, w)) r (os_world obs)), obs')))"

definition observed_router :: "RouterDeps \<Rightarrow> (Registry \<Rightarrow> string) \<Rightarrow> Request \<Rightarrow> Observed \<Rightarrow> (Reply \<times> Observed) option" where
  "observed_router d exposition r obs =
    (if rq_Method r = ''OPTIONS'' then Some (with_cors (rd_cfg d) (\<lambda>_ obs. (aborted, obs)) r obs)
     else map_option (\<lambda>h. with_cors (rd_cfg d) (RequestLog (metricsMiddleware h)) r obs) (observed_mux d exposition r))"

section \<open>What the observers see\<close>

text \<open>Observing changes neither the answer nor the tables.\<close>

lemma observers_only_observe:
  assumes "NewRouter d r (os_world obs) = Some (rep, w)"
    and "\<not> (method_matches ''GET'' (rq_Method r) \<and> rq_Path r = [''metrics''])"
  shows "\<exists>obs'. observed_router d exposition r obs = Some (rep, obs') \<and> os_world obs' = w"
proof (cases "rq_Method r = ''OPTIONS''")
  case True
  with assms(1) show ?thesis by (auto simp: NewRouter_def observed_router_def with_cors_def CORS_def Let_def)
next
  case False
  with assms(1) obtain rt where rt: "find_route (routes d) r = Some rt"
    and run: "CORS (rd_cfg d) (\<lambda>r. rt_Handler rt (bind_path rt r)) r (os_world obs) = (rep, w)"
    by (auto simp: NewRouter_def)
  obtain rep1 w1 where h: "rt_Handler rt (bind_path rt r) (os_world obs) = (rep1, w1)" by force
  from assms(2) rt have "observed_mux d exposition r = Some (unobserved (\<lambda>r. rt_Handler rt (bind_path rt r)))"
    by (auto simp: observed_mux_def)
  with False run h show ?thesis
    by (auto simp: observed_router_def with_cors_def RequestLog_def metricsMiddleware_def unobserved_def CORS_def
        add_headers_def Let_def split: prod.splits)
qed

text \<open>A handled request is counted once, under the status of its answer, and logged once.\<close>

definition label :: "Request \<Rightarrow> Reply \<Rightarrow> string \<times> string \<times> string" where
  "label r rep = (rq_Method r, url_path r, StatusText (recorded_status rep))"

theorem request_counted:
  assumes "observed_mux d exposition r = Some h" and "rq_Method r \<noteq> ''OPTIONS''"
    and "h r obs = (rep, o1)" and "rep \<noteq> aborted"
  shows "\<exists>rep' obs'. observed_router d exposition r obs = Some (rep', obs') \<and> re_Status rep' = re_Status rep \<and>
    os_world obs' = os_world o1 \<and>
    mr_httpRequests (os_registry obs') = (mr_httpRequests (os_registry o1))
      (label r rep := Suc (mr_httpRequests (os_registry o1) (label r rep))) \<and>
    (\<exists>line. os_access obs' = os_access o1 @ [line] \<and> al_status line = recorded_status rep)"
  using assms
  by (auto simp: observed_router_def with_cors_def RequestLog_def metricsMiddleware_def CORS_def add_headers_def
      ObserveRequest_def label_def Let_def)

end
