(* ===== verification/Delivery.thy ===== *)
theory Delivery
  imports Metrics Handlers "HOL-Library.Sublist"
begin

text \<open>
  What runs beside the requests of the control plane: the goroutine that delivers webhook
  notifications (\<open>internal/adapters/webhook/notifier.go\<close>) and the workers of
  \<open>internal/workers/manager.go\<close> under their schedules (\<open>scheduler.go\<close>). The network is a parameter:
  for a request, a status or no answer, and what it leaves of the receiver.
\<close>

section \<open>Delivering notifications\<close>

record Outgoing =
  og_URL :: string
  og_Signature :: "string option"
  og_Body :: string

text \<open>\<open>nt_Encode\<close> writes a payload as text; \<open>nt_BadURL\<close> says which addresses make no request.\<close>

record 'n Net =
  nt_Encode :: "json \<Rightarrow> string"
  nt_Hmac :: "string \<Rightarrow> string \<Rightarrow> string"
  nt_BadURL :: "string \<Rightarrow> error option"
  nt_Do :: "Outgoing \<Rightarrow> 'n \<Rightarrow> (error + int) \<times> 'n"

definition outgoing :: "'n Net \<Rightarrow> WebhookSettings \<Rightarrow> string \<Rightarrow> Outgoing" where
  "outgoing N ws payload = \<lparr>og_URL = URL ws, og_Signature = signature_header (nt_Hmac N) ws payload, og_Body = payload\<rparr>"

definition Notifier_post :: "'n Net \<Rightarrow> WebhookSettings \<Rightarrow> string \<Rightarrow> ('n, unit) op" where
  "Notifier_post N ws payload n = (case nt_BadURL N (URL ws) of
     Some err \<Rightarrow> (Inl err, n)
   | None \<Rightarrow> (case nt_Do N (outgoing N ws payload) n of
       (Inl err, n') \<Rightarrow> (Inl err, n')
     | (Inr code, n') \<Rightarrow> (post_result (Some code), n')))"

text \<open>The goroutine with the tables it reads and the errors it logged.\<close>

record 'n Deliveries =
  dv_world :: world
  dv_net :: 'n
  dv_errors :: "error list"

definition Notifier_round :: "'n Net \<Rightarrow> string \<Rightarrow> 'n Deliveries \<Rightarrow> 'n Deliveries" where
  "Notifier_round N cfgURL s = (case Notifier_run1 cfgURL (dv_world s) of
     (None, w) \<Rightarrow> s\<lparr>dv_world := w\<rparr>
   | (Some (ws, p), w) \<Rightarrow> (case Notifier_post N ws (nt_Encode N p) (dv_net s) of
       (Inl err, n) \<Rightarrow> s\<lparr>dv_world := w, dv_net := n, dv_errors := dv_errors s @ [err]\<rparr>
     | (Inr _, n) \<Rightarrow> s\<lparr>dv_world := w, dv_net := n\<rparr>))"

text \<open>
  \<open>TestPing\<close>: the sample is sent at once, from the goroutine of the request, past the queue. Its answer
  is that of \<open>TestPing\<close> in the handlers, where the receiver is a function of the request.
\<close>

definition Notifier_TestPing :: "'n Net \<Rightarrow> string \<Rightarrow> 'n Deliveries \<Rightarrow> (error + int) \<times> 'n Deliveries" where
  "Notifier_TestPing N cfgURL s = (case webhook_settings cfgURL (dv_world s) of (ws, w) \<Rightarrow>
     if \<not> webhook_active ws then (Inl (ErrMsg ''webhook is not enabled or has no URL''), s\<lparr>dv_world := w\<rparr>)
     else (case nt_BadURL N (URL ws) of
         Some err \<Rightarrow> (Inl err, s\<lparr>dv_world := w\<rparr>)
       | None \<Rightarrow> (case nt_Do N (outgoing N ws test_payload) (dv_net s) of
           (Inl err, n) \<Rightarrow> (Inl err, s\<lparr>dv_world := w, dv_net := n\<rparr>)
         | (Inr code, n) \<Rightarrow> ((case post_result (Some code) of Inl e \<Rightarrow> Inl e | Inr _ \<Rightarrow> Inr code),
             s\<lparr>dv_world := w, dv_net := n\<rparr>))))"

lemma TestPing_answer:
  assumes "rd_webhook d = cfgURL" and "rd_hmac d = nt_Hmac N"
    and "\<And>u sig p. nt_BadURL N u = None \<and> (\<exists>code. rd_post d u sig p = Some code \<and>
      fst (nt_Do N \<lparr>og_URL = u, og_Signature = sig, og_Body = p\<rparr> (dv_net s)) = Inr code)"
  shows "fst (Notifier_TestPing N cfgURL s) = fst (TestPing d (dv_world s))"
proof -
  obtain ws w where ws: "webhook_settings cfgURL (dv_world s) = (ws, w)" by force
  let ?sig = "signature_header (nt_Hmac N) ws test_payload"
  from assms(3) [of "URL ws" ?sig test_payload] obtain code where
    "nt_BadURL N (URL ws) = None" "rd_post d (URL ws) ?sig test_payload = Some code"
    "fst (nt_Do N (outgoing N ws test_payload) (dv_net s)) = Inr code"
    by (auto simp: outgoing_def)
  with ws assms(1,2) show ?thesis
    by (cases "nt_Do N (outgoing N ws test_payload) (dv_net s)")
      (auto simp: Notifier_TestPing_def TestPing_def Let_def split: sum.splits)
qed

text \<open>
  Between two rounds the bus may queue events, and an administrator may change the settings or test
  the webhook.
\<close>

datatype delivery_act = Round | Queued event | Settings json | TestWebhook | Breakdown "nat \<Rightarrow> bool"

fun delivery_step :: "'n Net \<Rightarrow> string \<Rightarrow> 'n Deliveries \<Rightarrow> delivery_act \<Rightarrow> 'n Deliveries" where
  "delivery_step N cfgURL s Round = Notifier_round N cfgURL s"
| "delivery_step N cfgURL s (Queued ev) = s\<lparr>dv_world := Notifier_Handle cfgURL ev (dv_world s)\<rparr>"
| "delivery_step N cfgURL s (Settings v) = s\<lparr>dv_world := snd (SettingsRepo_Set ''webhook'' v (dv_world s))\<rparr>"
| "delivery_step N cfgURL s TestWebhook = snd (Notifier_TestPing N cfgURL s)"
| "delivery_step N cfgURL s (Breakdown f) = s\<lparr>dv_world := (dv_world s)\<lparr>w_fault := f\<rparr>\<rparr>"

definition deliver :: "'n Net \<Rightarrow> string \<Rightarrow> 'n Deliveries \<Rightarrow> delivery_act list \<Rightarrow> 'n Deliveries" where
  "deliver N cfgURL = foldl (delivery_step N cfgURL)"

section \<open>The workers and their schedules\<close>

datatype schedule = ByDuration int | Daily int int

definition seconds :: "int \<Rightarrow> int" where "seconds n = n * 1000000000"

text \<open>\<open>Manager.Start\<close>: the workers by name, with what they run.\<close>

definition via_tables :: "(world, unit) op \<Rightarrow> 'f Telemetry \<Rightarrow> 'f Telemetry" where
  "via_tables m t = snd (via_db m t)"

definition Manager_Start :: "world Bus \<Rightarrow> (string \<times> schedule \<times> ('f Telemetry \<Rightarrow> 'f Telemetry)) list" where
  "Manager_Start bus =
     [(''metrics_collect'', ByDuration (seconds 10), via_tables (MetricsCollectWorker_Run bus)),
      (''metrics_cleanup'', Daily 2 0, \<lambda>t. snd (MetricsCleanupWorker_Run t)),
      (''application_health_check'', ByDuration (seconds 300), via_tables (ApplicationHealthCheckWorker_Run bus)),
      (''job_reaper'', ByDuration (seconds 60), via_tables (JobReaperWorker_Run bus))]"

text \<open>
  \<open>RunByDuration\<close>: a run for each tick received, its error logged only. \<open>RunDaily\<close>: the run at the
  next time of day after the last run has ended; the list says how long the runs take, and the
  result has the times at which they began. The time zone is at a fixed offset.
\<close>

definition RunByDuration :: "('s \<Rightarrow> 's) \<Rightarrow> nat \<Rightarrow> 's \<Rightarrow> 's" where
  "RunByDuration worker ticks = (worker ^^ ticks)"

fun RunDaily :: "int \<Rightarrow> int \<Rightarrow> int \<Rightarrow> (gotime \<Rightarrow> 's \<Rightarrow> 's) \<Rightarrow> int list \<Rightarrow> gotime \<Rightarrow> 's \<Rightarrow> gotime list \<times> 's" where
  "RunDaily off h m worker [] now s = ([], s)"
| "RunDaily off h m worker (took # tooks) now s =
    (let next = RunDaily_next off h m now; (times, s') = RunDaily off h m worker tooks (next + took) (worker next s)
     in (next # times, s'))"

section \<open>Every day once\<close>

lemma next_after_run:
  assumes "0 \<le> h" "h < 24" "0 \<le> m" "m < 60" and "0 \<le> took" "took < Workers.day"
  shows "RunDaily_next off h m (RunDaily_next off h m now + took) = RunDaily_next off h m now + Workers.day"
proof -
  define t where "t = (h * 3600 + m * 60) * 1000000000"
  have t: "0 \<le> t" "t < Workers.day" using assms(1-4) by (simp_all add: t_def Workers.day_def)
  have day: "0 < Workers.day" by (simp add: Workers.day_def)
  have "\<exists>k. RunDaily_next off h m now = k * Workers.day - off + t"
    unfolding RunDaily_next_def Let_def t_def [symmetric]
    by (auto simp: algebra_simps intro: exI [of _ "(now + off) div Workers.day"] exI [of _ "(now + off) div Workers.day + 1"])
  then obtain k where k: "RunDaily_next off h m now = k * Workers.day - off + t" by blast
  have sum: "RunDaily_next off h m now + took + off = k * Workers.day + (t + took)" by (simp add: k)
  show ?thesis
  proof (cases "t + took < Workers.day")
    case True
    then have d: "(RunDaily_next off h m now + took + off) div Workers.day = k"
      unfolding sum using day t(1) assms(5) by simp
    show ?thesis
      unfolding RunDaily_next_def [of off h m "RunDaily_next off h m now + took"] Let_def t_def [symmetric] d k [symmetric]
      using assms(5) by simp
  next
    case False
    have "(k * Workers.day + (t + took)) div Workers.day = k + (t + took) div Workers.day"
      using day by simp
    moreover have "(t + took) div Workers.day = 1"
      using False t assms(6) day by (simp add: div_pos_geq div_pos_pos_trivial)
    ultimately have d: "(RunDaily_next off h m now + took + off) div Workers.day = k + 1" unfolding sum by simp
    have e: "(k + 1) * Workers.day - off + t = RunDaily_next off h m now + Workers.day"
      by (simp add: k algebra_simps)
    show ?thesis
      unfolding RunDaily_next_def [of off h m "RunDaily_next off h m now + took"] Let_def t_def [symmetric] d e
      using assms(6) by simp
  qed
qed

text \<open>
  A daily worker runs once a day: while no run takes a day, the first run is within a day, and each of
  the others exactly one day after the one before it.
\<close>

theorem daily_runs:
  assumes "0 \<le> h" "h < 24" "0 \<le> m" "m < 60" and "\<forall>took\<in>set tooks. 0 \<le> took \<and> took < Workers.day"
  shows "fst (RunDaily off h m worker tooks now s) =
    map (\<lambda>i. RunDaily_next off h m now + int i * Workers.day) [0..<length tooks]"
  using assms(5)
proof (induction tooks arbitrary: now s)
  case Nil
  then show ?case by simp
next
  case (Cons took tooks)
  have "fst (RunDaily off h m worker tooks (RunDaily_next off h m now + took) (worker (RunDaily_next off h m now) s)) =
      map (\<lambda>i. RunDaily_next off h m now + Workers.day + int i * Workers.day) [0..<length tooks]"
    using Cons.IH [of "RunDaily_next off h m now + took"] Cons.prems next_after_run [OF assms(1-4)] by simp
  moreover have "map (\<lambda>i. RunDaily_next off h m now + int i * Workers.day) [0..<length (took # tooks)] =
      RunDaily_next off h m now # map (\<lambda>i. RunDaily_next off h m now + int (Suc i) * Workers.day) [0..<length tooks]"
    by (simp add: upt_conv_Cons map_Suc_upt [symmetric] del: upt_Suc)
  ultimately show ?case by (simp add: Let_def split_beta algebra_simps)
qed

section \<open>Deliveries\<close>

text \<open>A receiver that keeps what it is sent, whatever it answers.\<close>

definition keeps_all :: "Outgoing list Net \<Rightarrow> bool" where
  "keeps_all N \<longleftrightarrow> (\<forall>r n. snd (nt_Do N r n) = n @ [r])"

lemma settings_keep_queue: "w_webhook (snd (webhook_settings u w)) = w_webhook w"
  by (auto simp: webhook_settings_def SettingsRepo_Get_def db_exec_def Let_def split: prod.splits sum.splits option.splits)


lemma run1_queue:
  "Notifier_run1 u w = (r, w') \<Longrightarrow> w_webhook w' = tl (w_webhook w) \<and>
     (\<forall>ws p. r = Some (ws, p) \<longrightarrow> w_webhook w \<noteq> [] \<and> p = hd (w_webhook w) \<and> webhook_active ws)"
  using settings_keep_queue [of u "w\<lparr>w_webhook := tl (w_webhook w)\<rparr>"]
  by (auto simp: Notifier_run1_def split: list.splits prod.splits if_splits)

text \<open>The payload of an event; only the end of a deployment has one.\<close>

definition notice :: "event \<Rightarrow> json \<Rightarrow> bool" where
  "notice ev p \<longleftrightarrow> (\<exists>evt name. ev = DeploymentStatusChangedEv evt \<and> edx_Status evt \<in> {DeploymentSuccess, DeploymentFailed} \<and>
     p = notification name (edx_DeploymentID evt) (edx_Status evt))"

definition events_of :: "delivery_act list \<Rightarrow> event list" where
  "events_of steps = List.map_filter (\<lambda>a. case a of Queued ev \<Rightarrow> Some ev | _ \<Rightarrow> None) steps"

text \<open>What a delivered body is: the notice of an event, or the sample of a test.\<close>

datatype sending = Told event json | Sample

fun body_of :: "'n Net \<Rightarrow> sending \<Rightarrow> string" where
  "body_of N (Told ev p) = nt_Encode N p"
| "body_of N Sample = test_payload"

fun told :: "sending list \<Rightarrow> (event \<times> json) list" where
  "told [] = []"
| "told (Told ev p # ds) = (ev, p) # told ds"
| "told (Sample # ds) = told ds"

fun samples :: "sending list \<Rightarrow> nat" where
  "samples [] = 0"
| "samples (Told ev p # ds) = samples ds"
| "samples (Sample # ds) = Suc (samples ds)"

fun tests_in :: "delivery_act list \<Rightarrow> nat" where
  "tests_in [] = 0"
| "tests_in (TestWebhook # steps) = Suc (tests_in steps)"
| "tests_in (a # steps) = tests_in steps"

lemma told_append [simp]: "told (ds @ es) = told ds @ told es"
  by (induction ds rule: told.induct) simp_all

lemma samples_append [simp]: "samples (ds @ es) = samples ds + samples es"
  by (induction ds rule: samples.induct) simp_all

lemma tests_in_append [simp]: "tests_in (xs @ ys) = tests_in xs + tests_in ys"
  by (induction xs rule: tests_in.induct) simp_all

text \<open>What was sent and what is queued, with the events it is about, after so many tests.\<close>

definition in_order :: "Outgoing list Net \<Rightarrow> event list \<Rightarrow> nat \<Rightarrow> Outgoing list Deliveries \<Rightarrow> bool" where
  "in_order N evs tests s \<longleftrightarrow> (\<exists>ds qs. map og_Body (dv_net s) = map (body_of N) ds \<and> w_webhook (dv_world s) = map snd qs \<and>
     subseq (map fst (told ds @ qs)) evs \<and> (\<forall>(ev, p)\<in>set (told ds @ qs). notice ev p) \<and> samples ds \<le> tests)"

lemma appName_keeps_queue: "w_webhook (snd (notifier_appName i w)) = w_webhook w"
  by (auto simp: notifier_appName_def AppRepo_GetByID_def catchE_def failE_def db_exec_def Let_def
      split: prod.splits sum.splits option.splits if_splits)


lemma handle_queue:
  "w_webhook (Notifier_Handle u ev w) = w_webhook w \<or>
     (\<exists>p. notice ev p \<and> w_webhook (Notifier_Handle u ev w) = webhook_enqueue p (w_webhook w))"
proof (cases ev)
  case (DeploymentStatusChangedEv evt)
  obtain ws w1 where s: "webhook_settings u w = (ws, w1)" by force
  obtain name w2 where a: "notifier_appName (edx_ApplicationID evt) w1 = (name, w2)" by force
  have "w_webhook w1 = w_webhook w" "w_webhook w2 = w_webhook w1"
    using settings_keep_queue [of u w] appName_keeps_queue [of "edx_ApplicationID evt" w1] s a by simp_all
  with DeploymentStatusChangedEv s a show ?thesis by (auto simp: Notifier_Handle_def notice_def)
qed (use settings_keep_queue [of u w] in \<open>auto simp: Notifier_Handle_def split: prod.split\<close>)

lemma set_keeps_queue: "w_webhook (snd (SettingsRepo_Set k v w)) = w_webhook w"
  by (simp add: SettingsRepo_Set_def db_exec_def modifyE_def Let_def)

lemma enqueue_order:
  assumes "subseq (map fst (ds @ qs)) evs" and "\<forall>(ev, p)\<in>set (ds @ qs). notice ev p" and "notice ev p"
  shows "\<exists>qs'. webhook_enqueue p (map snd qs) = map snd qs' \<and> subseq (map fst (ds @ qs')) (evs @ [ev]) \<and>
    (\<forall>(ev, p)\<in>set (ds @ qs'). notice ev p)"
proof -
  have full: "subseq (map fst (ds @ qs) @ [ev]) (evs @ [ev])"
    using assms(1) by (simp only: subseq_append)
  have tl: "subseq (map fst (ds @ tl qs)) (map fst (ds @ qs))"
    by (simp, cases qs) (simp_all add: list_emb_append_mono list_emb_Cons)
  have short: "subseq (map fst (ds @ tl qs) @ [ev]) (evs @ [ev])"
    using subseq_order.trans [OF tl assms(1)] by (simp only: subseq_append)
  have drop: "subseq (map fst (ds @ tl qs)) (evs @ [ev])"
    using subseq_order.trans [OF tl assms(1)] by (rule subseq_rev_drop_many)
  have sub: "set (tl qs) \<subseteq> set qs" by (cases qs) auto
  have "webhook_enqueue p (map snd qs) \<in> {map snd (qs @ [(ev, p)]), map snd (tl qs @ [(ev, p)]), map snd (tl qs)}"
    by (simp add: webhook_enqueue_def Let_def map_tl)
  then consider "webhook_enqueue p (map snd qs) = map snd (qs @ [(ev, p)])"
    | "webhook_enqueue p (map snd qs) = map snd (tl qs @ [(ev, p)])" | "webhook_enqueue p (map snd qs) = map snd (tl qs)"
    by blast
  then show ?thesis
  proof cases
    case 1
    with full assms(2,3) show ?thesis by (intro exI [of _ "qs @ [(ev, p)]"]) auto
  next
    case 2
    with short assms(2,3) sub show ?thesis by (intro exI [of _ "tl qs @ [(ev, p)]"]) auto
  next
    case 3
    with drop assms(2) sub show ?thesis by (intro exI [of _ "tl qs"]) auto
  qed
qed

lemma post_sends:
  assumes "keeps_all N" and "Notifier_post N ws payload n = (r, n')"
  shows "n' = n \<or> n' = n @ [outgoing N ws payload]"
  using assms unfolding keeps_all_def Notifier_post_def
  by (auto split: option.splits prod.splits sum.splits) (metis snd_conv)+

lemma round_order:
  assumes "keeps_all N" and "in_order N evs tests s"
  shows "in_order N evs tests (Notifier_round N u s)"
proof -
  from assms(2) obtain ds qs where q: "map og_Body (dv_net s) = map (body_of N) ds" "w_webhook (dv_world s) = map snd qs"
      "subseq (map fst (told ds @ qs)) evs" "\<forall>(ev, p)\<in>set (told ds @ qs). notice ev p" "samples ds \<le> tests"
    by (auto simp: in_order_def)
  obtain r w where run: "Notifier_run1 u (dv_world s) = (r, w)" by force
  note run1 = run1_queue [OF run]
  have skip: "in_order N evs tests s'" if "dv_net s' = dv_net s" "dv_world s' = w" for s'
  proof -
    have "subseq (map fst (told ds @ tl qs)) (map fst (told ds @ qs))"
      by (simp, cases qs) (simp_all add: list_emb_append_mono list_emb_Cons)
    with q that run1 show ?thesis
      unfolding in_order_def
      by (intro exI [of _ ds] exI [of _ "tl qs"])
        (cases qs, auto simp: map_tl dest: subseq_order.trans)
  qed
  show ?thesis
  proof (cases r)
    case None
    with run skip show ?thesis by (simp add: Notifier_round_def)
  next
    case (Some wp)
    obtain ws p where wp: "wp = (ws, p)" by force
    obtain res n where post: "Notifier_post N ws (nt_Encode N p) (dv_net s) = (res, n)" by force
    have round: "dv_world (Notifier_round N u s) = w" "dv_net (Notifier_round N u s) = n"
      using run post by (cases res; simp add: Notifier_round_def Some wp)+
    from post_sends [OF assms(1) post] consider "n = dv_net s" | "n = dv_net s @ [outgoing N ws (nt_Encode N p)]" by blast
    then show ?thesis
    proof cases
      case 1
      with round skip show ?thesis by simp
    next
      case 2
      from run1 Some wp q(2) obtain ev qs' where qs: "qs = (ev, p) # qs'" by (cases qs) auto
      with 2 round q run1 show ?thesis
        unfolding in_order_def
        by (intro exI [of _ "ds @ [Told ev p]"] exI [of _ qs']) (auto simp: outgoing_def)
    qed
  qed
qed

lemma test_order:
  assumes "keeps_all N" and "in_order N evs tests s"
  shows "in_order N evs (Suc tests) (snd (Notifier_TestPing N u s))"
proof -
  let ?s = "snd (Notifier_TestPing N u s)"
  from assms(2) obtain ds qs where q: "map og_Body (dv_net s) = map (body_of N) ds" "w_webhook (dv_world s) = map snd qs"
      "subseq (map fst (told ds @ qs)) evs" "\<forall>(ev, p)\<in>set (told ds @ qs). notice ev p" "samples ds \<le> tests"
    by (auto simp: in_order_def)
  obtain ws w where ws: "webhook_settings u (dv_world s) = (ws, w)" by force
  have sent: "snd (nt_Do N r n) = n @ [r]" for r n using assms(1) by (simp add: keeps_all_def)
  have "dv_net ?s = dv_net s \<or> dv_net ?s = dv_net s @ [outgoing N ws test_payload]"
    using ws sent [of "outgoing N ws test_payload" "dv_net s"]
    by (auto simp: Notifier_TestPing_def split: option.split prod.split sum.split)
  moreover have "dv_world ?s = w"
    using ws by (auto simp: Notifier_TestPing_def split: option.split prod.split sum.split)
  then have "w_webhook (dv_world ?s) = map snd qs"
    using settings_keep_queue [of u "dv_world s"] ws q(2) by simp
  ultimately show ?thesis
  proof (elim disjE)
    assume "dv_net ?s = dv_net s" and w: "w_webhook (dv_world ?s) = map snd qs"
    with q show ?thesis unfolding in_order_def by (intro exI [of _ ds] exI [of _ qs]) simp
  next
    assume "dv_net ?s = dv_net s @ [outgoing N ws test_payload]" and w: "w_webhook (dv_world ?s) = map snd qs"
    with q show ?thesis
      unfolding in_order_def by (intro exI [of _ "ds @ [Sample]"] exI [of _ qs]) (simp add: outgoing_def)
  qed
qed

lemma step_order:
  assumes "keeps_all N" and "in_order N evs tests s"
  shows "in_order N (evs @ events_of [a]) (tests + tests_in [a]) (delivery_step N u s a)"
proof (cases a)
  case Round
  with round_order [OF assms] show ?thesis by (simp add: events_of_def map_filter_def)
next
  case TestWebhook
  with test_order [OF assms] show ?thesis by (simp add: events_of_def map_filter_def)
next
  case (Queued ev)
  from assms(2) obtain ds qs where q: "map og_Body (dv_net s) = map (body_of N) ds" "w_webhook (dv_world s) = map snd qs"
      "subseq (map fst (told ds @ qs)) evs" "\<forall>(ev, p)\<in>set (told ds @ qs). notice ev p" "samples ds \<le> tests"
    by (auto simp: in_order_def)
  have more: "subseq (map fst (told ds @ qs)) (evs @ [ev])" using q(3) by (rule subseq_rev_drop_many)
  from handle_queue [of u ev "dv_world s"] show ?thesis
  proof (elim disjE exE conjE)
    assume "w_webhook (Notifier_Handle u ev (dv_world s)) = w_webhook (dv_world s)"
    with q more Queued show ?thesis
      unfolding in_order_def by (intro exI [of _ ds] exI [of _ qs]) (simp add: events_of_def map_filter_def)
  next
    fix p assume p: "notice ev p" "w_webhook (Notifier_Handle u ev (dv_world s)) = webhook_enqueue p (w_webhook (dv_world s))"
    from enqueue_order [OF q(3,4) p(1)] obtain qs' where "webhook_enqueue p (map snd qs) = map snd qs'"
        "subseq (map fst (told ds @ qs')) (evs @ [ev])" "\<forall>(ev, p)\<in>set (told ds @ qs'). notice ev p" by blast
    with q p(2) Queued show ?thesis
      unfolding in_order_def by (intro exI [of _ ds] exI [of _ qs']) (simp add: events_of_def map_filter_def)
  qed
qed (use assms(2) in \<open>auto simp: in_order_def events_of_def map_filter_def set_keeps_queue\<close>)

text \<open>
  C15. A receiver that keeps what it is sent gets two kinds of messages: notices of deployments that
  ended, each end told at most once and in the order in which the ends were published, and samples,
  no more than webhook tests were asked for. This holds from the start of the process, whatever the
  settings become, the database or the receiver refuses, or the queue of 64 drops.
\<close>

theorem notifications_in_order:
  assumes "keeps_all N" and "w_webhook w = []"
    and "s = deliver N cfgURL \<lparr>dv_world = w, dv_net = [], dv_errors = []\<rparr> steps"
  shows "\<exists>ds. map og_Body (dv_net s) = map (body_of N) ds \<and> subseq (map fst (told ds)) (events_of steps) \<and>
    (\<forall>(ev, p)\<in>set (told ds). notice ev p) \<and> samples ds \<le> tests_in steps"
proof -
  have "in_order N (events_of steps) (tests_in steps) s"
    unfolding assms(3)
  proof (induction steps rule: rev_induct)
    case Nil
    show ?case by (simp add: deliver_def in_order_def events_of_def map_filter_def assms(2))
  next
    case (snoc a steps)
    have "events_of (steps @ [a]) = events_of steps @ events_of [a]" by (simp add: events_of_def map_filter_def)
    with step_order [OF assms(1) snoc, of a] show ?case by (simp add: deliver_def)
  qed
  then obtain ds qs where d: "map og_Body (dv_net s) = map (body_of N) ds" "samples ds \<le> tests_in steps"
      "subseq (map fst (told ds @ qs)) (events_of steps)" "\<forall>(ev, p)\<in>set (told ds @ qs). notice ev p"
    by (auto simp: in_order_def)
  have "subseq (map fst (told ds)) (map fst (told ds @ qs))"
    using subseq_rev_drop_many [OF subseq_order.refl] by simp
  with d show ?thesis by (intro exI [of _ ds]) (auto dest: subseq_order.trans)
qed

definition echo_net :: "Outgoing list Net" where
  "echo_net = \<lparr>nt_Encode = (\<lambda>p. case p of JObj [(k, JStr s)] \<Rightarrow> s | _ \<Rightarrow> []), nt_Hmac = (\<lambda>k m. m), nt_BadURL = (\<lambda>_. None),
     nt_Do = (\<lambda>r n. (Inr 204, n @ [r]))\<rparr>"

definition demo_end :: event where
  "demo_end = DeploymentStatusChangedEv \<lparr>edx_DeploymentID = 5, edx_ApplicationID = 2, edx_Status = DeploymentSuccess\<rparr>"

definition demo_deliveries :: "Outgoing list Deliveries" where
  "demo_deliveries = deliver echo_net ''http://hook'' \<lparr>dv_world = empty_world, dv_net = [], dv_errors = []\<rparr>
     [Queued demo_end, TestWebhook, Round]"

theorem notifications_in_order_witness:
  "length (dv_net demo_deliveries) = 2 \<and>
   (\<exists>ds. map og_Body (dv_net demo_deliveries) = map (body_of echo_net) ds \<and> subseq (map fst (told ds)) [demo_end] \<and>
     samples ds \<le> 1)"
proof -
  have "keeps_all echo_net" by (simp add: keeps_all_def echo_net_def)
  moreover have "w_webhook empty_world = []" by (simp add: empty_world_def)
  moreover have "length (dv_net demo_deliveries) = 2"
    by (simp add: demo_deliveries_def deliver_def demo_end_def Notifier_Handle_def Notifier_round_def Notifier_run1_def
        webhook_settings_def SettingsRepo_Get_def db_exec_def empty_world_def webhook_active_def notifier_appName_def
        AppRepo_GetByID_def catchE_def failE_def webhook_enqueue_def worker_buffer_def Notifier_post_def echo_net_def
        post_result_def Notifier_TestPing_def Let_def)
  moreover have "events_of [Queued demo_end, TestWebhook, Round] = [demo_end]" by (simp add: events_of_def map_filter_def)
  ultimately show ?thesis
    using notifications_in_order [of echo_net empty_world demo_deliveries "''http://hook''" "[Queued demo_end, TestWebhook, Round]"]
    by (auto simp: demo_deliveries_def)
qed

end
