(* ===== verification/Spec2Isabelle.thy ===== *)
theory Spec2Isabelle
  imports Releases Access Workers Fleet KeyedMutex MetricsDelivery HubGuarantees AgentHub InstallReadBack BootSeed CollectorBounds
    Wire Cli Observability Delivery
begin

text \<open>
  HorizonX deploys applications on servers. A control plane (\<open>internal/app/server.go\<close>) keeps users,
  servers, applications, deployments and a queue of jobs in Postgres, sessions in Redis, and answers
  dashboards and agents over HTTP. An agent (\<open>internal/agent\<close>) on each server takes its server's jobs
  from the queue, runs git and docker, reports the result and streams logs and status changes back.
  This development models both sides in Go's order of calls and proves what they promise to each other.

  How the code is read. A Go function that works on tables and may fail is an operation
  \<open>'s \<Rightarrow> (error + 'a) \<times> 's\<close> (\<open>Prelude\<close>): \<open>bindE\<close> is the sequence that returns early on an error,
  \<open>ignoreE\<close> the call whose error is dropped. A database is the record \<open>World\<close> (\<open>Store\<close>): one list of
  rows per table, in the order of their insertion, with the sequences, the clock, the queue of random
  values and a schedule \<open>w_fault\<close> that lets any statement fail, so that a theorem without a
  hypothesis on it covers every failure of the database. A table's constraints (keys, foreign keys,
  unique columns with their partial conditions) are tests of the operation that inserts, as the
  migrations under \<open>internal/adapters/postgres/migrations\<close> declare them. Ids are Go's \<open>int64\<close> kept as
  \<open>int\<close>; a bound is a hypothesis where it matters. Texts are byte strings, their case mapping is for ASCII.
  Handlers run one at a time; where Go interleaves goroutines and it matters, the interleaving is a step
  relation (\<open>KeyedMutex\<close>, \<open>AgentLoop\<close>, \<open>AgentConn\<close>, the hubs, \<open>MetricsDelivery\<close>, \<open>Delivery\<close>).

  The theories, in the order they build on each other. The control plane:

  \<^item> \<open>Prelude\<close>, \<open>GoStrings\<close>: operations, two-state guarantees, list and row lemmas; the functions of
    Go's package strings.
  \<^item> \<open>Domain\<close>, \<open>Payloads\<close>, \<open>Requests\<close>, \<open>Events\<close> (\<open>internal/domain\<close>, \<open>internal/event\<close>): records,
    constants, JSON documents of job payloads and request bodies, events and the synchronous bus.
  \<^item> \<open>Store\<close>, \<open>JobRepo\<close>, \<open>Logs\<close>, \<open>Deployments\<close>, \<open>AppRepo\<close>, \<open>Servers\<close>, \<open>Users\<close>, \<open>Roles\<close>, \<open>AuditWebhook\<close>
    (\<open>internal/adapters/postgres\<close>, \<open>internal/adapters/webhook\<close>): the repositories, one definition per
    method, with the small services that only forward to them.
  \<^item> \<open>Security\<close> (\<open>internal/security/encrypt.go\<close>): encryption of environment variables, AES-GCM being a
    parameter with the documented law of \<open>Seal\<close> and \<open>Open\<close>.
  \<^item> \<open>JobService\<close>, \<open>DeploymentService\<close>, \<open>ApplicationService\<close>, \<open>Sessions\<close>, \<open>Subscribers\<close>
    (\<open>internal/application\<close>, \<open>internal/adapters/redis/session_store.go\<close>, \<open>internal/adapters/ws/userws/subscribers\<close>):
    the services and what listens on the bus.
  \<^item> \<open>ControlPlane\<close>, \<open>Config\<close>, \<open>Boot\<close> (\<open>internal/app/server.go\<close>, \<open>migrate.go\<close>, \<open>internal/config\<close>, \<open>cmd/seed\<close>):
    the bus with its subscriptions in the order of \<open>RunServer\<close>, the configuration, the start of the
    control plane with migrations and seeding.
  \<^item> \<open>Http\<close>, \<open>RateLimit\<close>, \<open>Handlers\<close>, \<open>PublicRoutes\<close>, \<open>Router\<close>, \<open>Observability\<close> (\<open>internal/adapters/http\<close>): requests,
    middleware, handlers, the public pages and the handshakes of the WebSockets, the table of all routes,
    and the counters and the log of requests around it.
  \<^item> \<open>Metrics\<close> (\<open>internal/application/metrics\<close>, \<open>internal/adapters/redis\<close>): samples, streams, buffer, batches
    and histories.
  \<^item> \<open>UserHub\<close>, \<open>AgentHub\<close> (\<open>internal/adapters/ws\<close>): the goroutines behind the dashboards' and the agents'
    connections as step relations.
  \<^item> \<open>Workers\<close>, \<open>Delivery\<close> (\<open>internal/workers\<close>, \<open>internal/adapters/webhook\<close>): the periodic workers, their
    schedules, and the delivery of notifications and of webhook tests.

  The agent:

  \<^item> \<open>Host\<close>, \<open>Executor\<close>, \<open>JobWorker\<close> (\<open>internal/agent\<close>): the machine of an agent (files, clock, commands),
    the jobs it runs and its requests to the control plane, under the deadline of their context.
  \<^item> \<open>KeyedMutex\<close>, \<open>AgentLoop\<close> (\<open>keyed_mutex.go\<close>, \<open>job_worker.go\<close>): the lock per application and the goroutines
    of a poll, as step relations.
  \<^item> \<open>AgentConn\<close>, \<open>Wire\<close> (\<open>internal/app/agent.go\<close>, \<open>internal/agent/conn.go\<close>, \<open>internal/adapters/ws\<close>): the start of the
    agent, its connection with the goroutines that share it, and the texts on the WebSockets.
  \<^item> \<open>Readers\<close>, \<open>Collector\<close> (\<open>internal/system\<close>, \<open>internal/metrics\<close>): the parsers of \<open>/proc\<close> and \<open>/sys\<close> over the files
    of one moment, and usage, power, speeds and averages from successive moments.

  Installation:

  \<^item> \<open>Box\<close>, \<open>SelfUpdate\<close>, \<open>Instance\<close>, \<open>InstanceEnv\<close>, \<open>Preflight\<close>, \<open>InstallServer\<close>, \<open>Upgrade\<close>, \<open>InstallAgent\<close>
    (\<open>internal/app\<close>): the machine as the installer sees it, the binary's self-update, the files of an
    instance, the checks before, and the installation and upgrade of both sides.
  \<^item> \<open>Cli\<close> (\<open>cmd\<close>): subcommands, flags as package flag reads them, the migration tool.

  The lemmas about them:

  \<^item> \<open>StoreGuarantees\<close>, \<open>JobGuarantees\<close>, \<open>ServiceGuarantees\<close>, \<open>BusGuarantees\<close>: every operation stays within a
    two-state relation; the rules are proved once in the locales of \<open>Prelude\<close> and instantiated.
  \<^item> \<open>Integrity\<close>: from a fresh installation the tables stay consistent whatever is requested and whatever
    fails, and a job that has ended stays as it is.
  \<^item> \<open>Pipeline\<close>: starting and finishing a job, through service, bus, listeners and subscribers, is a
    step on three tables (a refinement).
  \<^item> \<open>Releases\<close>: what deploying an application leaves for the agent, and the repository operations behind it.
  \<^item> \<open>Access\<close>: who may do what through the router.
  \<^item> \<open>HealthGate\<close>, \<open>RunGuarantees\<close>: builds before restarts, the commit that is released, the health verdict, the
    bounded wait, the environment file; what every run of a job leaves alone.
  \<^item> \<open>Fleet\<close>: the agent and the control plane composed over the router.
  \<^item> \<open>MetricsDelivery\<close>, \<open>HubGuarantees\<close>: no sample is lost, doubled or reordered; who receives an event, by the
    history of what the hub took.
  \<^item> \<open>InstallSafety\<close>, \<open>InstallReadBack\<close>, \<open>BootSeed\<close>: what an upgrade replaces and a re-installation keeps, that
    generated files are read back as written, and what a start does to the accounts.
  \<^item> \<open>CollectorBounds\<close>: the range of the usages, in real arithmetic.

  Bounds and loops. The wait for a container (\<open>waitLoop\<close>) ends because the host's clock does not run
  backwards and each tick lies after the last one; its termination proof rests on that, and
  \<open>gate_bounded\<close> says how long it takes. A poll of the agent ends because every step of its goroutines
  lowers \<open>work\<close>. A temporary file's name is tried ten thousand times, as \<open>os.CreateTemp\<close> does; the
  wait for the dashboard and the parser of durations recurse on a count or on the text left. All other
  loops are over lists.

  Parameters. What is not under \<open>src/\<close> is an argument: AES-GCM, SHA-256, HMAC, bcrypt, JWT signing,
  Postgres' \<open>inet\<close> type, golang-migrate (\<open>Migration\<close>), godotenv, time zones and UUID texts (\<open>Sys\<close>), JSON texts
  (decoders of an answer or a sample into its document), the programs an agent or the installer runs, their
  files of one moment (\<open>Snapshot\<close>), the network, and the operations of \<open>float64\<close> (\<open>Float\<close>; the bounds are proved
  for real numbers). Hypotheses state documented behaviour of theirs, and each property with such a
  hypothesis has a witness with a concrete instance.

  Not modelled, and why: TLS, HTTP and the frames of WebSockets with their deadlines, connection pools,
  listening and shutdown (I/O); the text of a scrape of the counters; log output and build information;
  the reflection by which the validator names fields; changes of the offset of a time zone under the
  daily schedule; the generated mocks. What a job of the agent does is one step of a poll, and a worker of
  the control plane runs without others in between: interleavings inside are those of the step relations only.
\<close>

end
